(* ===== verification/Prelude.thy ===== *)
theory Prelude
  imports Main "HOL-Library.Word"
begin

text \<open>
  Shared vocabulary of the development: the fixed-width integers of the Rust code with its
  saturating and checked operations, \<open>std::time::Duration\<close>, \<open>Result\<close>, capped queues
  (\<open>VecDeque\<close> with a capacity, as the code uses it for retained evidence), adjacent-pair
  checks (\<open>slice::windows(2)\<close>) and big-endian byte strings.
\<close>

named_theorems arith_defs \<open>saturating and checked operations, unfolded\<close>

section \<open>Types of the code\<close>

type_synonym u8 = "8 word"
type_synonym u16 = "16 word"
type_synonym u32 = "32 word"
type_synonym u64 = "64 word"

text \<open>
  Process identifiers and group numbers (\<open>i32\<close>) are compared with each other and with zero and
  never computed with, so they are integers.
\<close>

type_synonym i32 = int

text \<open>\<open>Result<T, E>\<close>: the error is the left summand.\<close>

abbreviation Err :: "'e \<Rightarrow> 'e + 'a" where "Err \<equiv> Inl"
abbreviation Ok :: "'a \<Rightarrow> 'e + 'a" where "Ok \<equiv> Inr"

section \<open>Saturating and checked arithmetic\<close>

definition sat_add :: "'a::len word \<Rightarrow> 'a word \<Rightarrow> 'a word" where
  "sat_add a b = (if unat a + unat b < 2 ^ LENGTH('a) then a + b else - 1)"

definition sat_sub :: "'a::len word \<Rightarrow> 'a word \<Rightarrow> 'a word" where
  "sat_sub a b = (if b \<le> a then a - b else 0)"

definition checked_add :: "'a::len word \<Rightarrow> 'a word \<Rightarrow> 'a word option" where
  "checked_add a b = (if unat a + unat b < 2 ^ LENGTH('a) then Some (a + b) else None)"

definition checked_mul :: "'a::len word \<Rightarrow> 'a word \<Rightarrow> 'a word option" where
  "checked_mul a b = (if unat a * unat b < 2 ^ LENGTH('a) then Some (a * b) else None)"

declare sat_add_def [arith_defs] sat_sub_def [arith_defs] checked_add_def [arith_defs]
  checked_mul_def [arith_defs]

lemma unat_plus_small:
  fixes a b :: "'a::len word"
  assumes "unat a + unat b < 2 ^ LENGTH('a)"
  shows "unat (a + b) = unat a + unat b"
  using assms by (simp add: unat_word_ariths)

lemma unat_minus_one_max: "unat (- 1 :: 'a::len word) = 2 ^ LENGTH('a) - 1"
  by (simp add: unsigned_minus_1_eq_mask mask_eq_exp_minus_1)

lemma unat_sat_add:
  fixes a b :: "'a::len word"
  shows "unat (sat_add a b) = min (unat a + unat b) (2 ^ LENGTH('a) - 1)"
  unfolding sat_add_def by (auto simp: unat_plus_small unat_minus_one_max)

lemma unat_sat_sub:
  fixes a b :: "'a::len word"
  shows "unat (sat_sub a b) = unat a - unat b"
  unfolding sat_sub_def by (auto simp: unat_sub word_le_nat_alt)

lemma sat_add_ge [simp]:
  fixes a b :: "'a::len word"
  shows "a \<le> sat_add a b"
proof -
  have "unat a < 2 ^ LENGTH('a)" by (rule unsigned_less)
  then have "unat a \<le> min (unat a + unat b) (2 ^ LENGTH('a) - 1)" by linarith
  then show ?thesis by (simp only: word_le_nat_alt unat_sat_add)
qed

lemma sat_sub_le [simp]: "sat_sub a b \<le> a"
  by (simp add: word_le_nat_alt unat_sat_sub)

lemma sat_sub_0 [simp]: "sat_sub a 0 = a"
  by (simp add: sat_sub_def)

lemma sat_add_mono: "a \<le> b \<Longrightarrow> sat_add a c \<le> sat_add b c"
  by (simp add: word_le_nat_alt unat_sat_add min_def)

lemma checked_add_Some:
  fixes a b :: "'a::len word"
  shows "checked_add a b = Some c \<longleftrightarrow> unat c = unat a + unat b"
proof
  assume "checked_add a b = Some c"
  then show "unat c = unat a + unat b"
    by (auto simp: checked_add_def unat_plus_small split: if_splits)
next
  assume eq: "unat c = unat a + unat b"
  then have "unat a + unat b < 2 ^ LENGTH('a)" by (metis unsigned_less)
  moreover from this eq have "unat (a + b) = unat c" by (simp add: unat_plus_small)
  ultimately show "checked_add a b = Some c" by (simp add: checked_add_def word_unat_eq_iff)
qed

lemma checked_add_None:
  fixes a b :: "'a::len word"
  shows "checked_add a b = None \<longleftrightarrow> 2 ^ LENGTH('a) \<le> unat a + unat b"
  by (auto simp: checked_add_def)

lemma checked_mul_Some:
  fixes a b :: "'a::len word"
  shows "checked_mul a b = Some c \<longleftrightarrow> unat c = unat a * unat b"
proof
  assume "checked_mul a b = Some c"
  then show "unat c = unat a * unat b"
    by (auto simp: checked_mul_def unat_word_ariths split: if_splits)
next
  assume eq: "unat c = unat a * unat b"
  then have "unat a * unat b < 2 ^ LENGTH('a)" by (metis unsigned_less)
  moreover from this eq have "unat (a * b) = unat c" by (simp add: unat_word_ariths)
  ultimately show "checked_mul a b = Some c" by (simp add: checked_mul_def word_unat_eq_iff)
qed

section \<open>Durations\<close>

text \<open>
  \<open>std::time::Duration\<close> holds whole seconds in a \<open>u64\<close> and nanoseconds below one second;
  it is modelled by its total number of nanoseconds, with the type's maximum written out where
  the code saturates.
\<close>

type_synonym dur = nat

definition DURATION_MAX :: dur where
  "DURATION_MAX = (2 ^ 64 - 1) * 1000000000 + 999999999"

definition from_millis :: "nat \<Rightarrow> dur" where "from_millis n = n * 1000000"
definition from_secs :: "nat \<Rightarrow> dur" where "from_secs n = n * 1000000000"

definition dur_sat_add :: "dur \<Rightarrow> dur \<Rightarrow> dur" where
  "dur_sat_add a b = min (a + b) DURATION_MAX"

definition dur_sat_sub :: "dur \<Rightarrow> dur \<Rightarrow> dur" where
  "dur_sat_sub a b = a - b"

definition dur_checked_sub :: "dur \<Rightarrow> dur \<Rightarrow> dur option" where
  "dur_checked_sub a b = (if b \<le> a then Some (a - b) else None)"

definition dur_sat_mul :: "dur \<Rightarrow> nat \<Rightarrow> dur" where
  "dur_sat_mul a n = min (a * n) DURATION_MAX"

text \<open>\<open>u64::try_from(d.as_millis()).unwrap_or(u64::MAX)\<close>, used by the report code.\<close>

definition duration_ms :: "dur \<Rightarrow> u64" where
  "duration_ms d = (if d div 1000000 < 2 ^ 64 then of_nat (d div 1000000) else - 1)"

lemma unat_duration_ms: "unat (duration_ms d) = min (d div 1000000) (2 ^ 64 - 1)"
  unfolding duration_ms_def
  by (auto simp: unat_of_nat unat_minus_one_max)

lemma duration_ms_mono: "a \<le> b \<Longrightarrow> duration_ms a \<le> duration_ms b"
  using div_le_mono [of a b 1000000] by (auto simp: word_le_nat_alt unat_duration_ms)

lemma dur_sat_add_mono: "a \<le> b \<Longrightarrow> dur_sat_add a c \<le> dur_sat_add b c"
  by (simp add: dur_sat_add_def min_def)

section \<open>Capped queues\<close>

text \<open>
  \<open>if q.len() == cap { q.pop_front(); } q.push_back(x);\<close>: the retention discipline of the
  intervention records, the sample history and the report samples.
\<close>

definition push_capped :: "nat \<Rightarrow> 'a list \<Rightarrow> 'a \<Rightarrow> 'a list" where
  "push_capped cap q x = (if length q = cap then drop 1 q else q) @ [x]"

text \<open>\<open>keep_last n xs\<close>: the last \<open>n\<close> elements, all of them when there are fewer.\<close>

definition keep_last :: "nat \<Rightarrow> 'a list \<Rightarrow> 'a list" where
  "keep_last n xs = drop (length xs - n) xs"

lemma length_keep_last [simp]: "length (keep_last n xs) = min (length xs) n"
  by (simp add: keep_last_def min_def)

lemma push_capped_keep_last:
  assumes "0 < cap"
  shows "push_capped cap (keep_last cap xs) x = keep_last cap (xs @ [x])"
proof (cases "cap \<le> length xs")
  case True
  then have "Suc (length xs) - cap = Suc (length xs - cap)" by simp
  with True assms show ?thesis
    by (simp add: push_capped_def keep_last_def min_def)
next
  case False
  then show ?thesis by (simp add: push_capped_def keep_last_def)
qed

lemma keep_last_Nil [simp]: "keep_last n [] = []"
  by (simp add: keep_last_def)

lemma keep_last_all: "length xs \<le> n \<Longrightarrow> keep_last n xs = xs"
  by (simp add: keep_last_def)

text \<open>
  The contract of a capped queue, shared by the three clients: the representation is the last
  \<open>cap\<close> elements of everything ever pushed.
\<close>

locale capped_queue =
  fixes cap :: nat
    and empty_q :: "'q"
    and push_q :: "'q \<Rightarrow> 'a \<Rightarrow> 'q"
    and contents :: "'q \<Rightarrow> 'a list"
  assumes cap_pos: "0 < cap"
    and contents_empty: "contents empty_q = []"
    and contents_push: "contents (push_q q x) = push_capped cap (contents q) x"
begin

lemma contents_foldl: "contents (foldl push_q empty_q xs) = keep_last cap xs"
  by (induction xs rule: rev_induct)
    (simp_all add: contents_empty contents_push push_capped_keep_last cap_pos)

lemma length_foldl: "length (contents (foldl push_q empty_q xs)) = min (length xs) cap"
  by (simp add: contents_foldl)

lemma newest_retained:
  "last (contents (foldl push_q empty_q (xs @ [x]))) = x"
  by (simp add: contents_push push_capped_def)

end

section \<open>Deterministic machines\<close>

text \<open>
  A component that consumes one event at a time and returns its outputs, run over a list of
  events. The policy machine and the checkpoint protocol are both of this shape.
\<close>

fun run_machine :: "('s \<Rightarrow> 'e \<Rightarrow> 's \<times> 'o list) \<Rightarrow> 's \<Rightarrow> 'e list \<Rightarrow> 's \<times> 'o list" where
  "run_machine step s [] = (s, [])"
| "run_machine step s (e # es) =
     (let (s', outs) = step s e; (s'', rest) = run_machine step s' es in (s'', outs @ rest))"

lemma run_machine_append:
  "run_machine step s (es @ fs) =
     (let (s', outs) = run_machine step s es; (s'', rest) = run_machine step s' fs
      in (s'', outs @ rest))"
  by (induction es arbitrary: s) (auto simp: Let_def split: prod.splits)

lemma run_machine_Cons_E:
  assumes "run_machine step s (e # es) = (t, outs)"
  obtains s' o1 o2 where "step s e = (s', o1)" and "run_machine step s' es = (t, o2)"
    and "outs = o1 @ o2"
  using assms by (auto simp: Let_def split: prod.splits)

lemma run_machine_snoc_E:
  assumes "run_machine step s (es @ [e]) = (t, outs)"
  obtains s' o1 o2 where "run_machine step s es = (s', o1)" and "step s' e = (t, o2)"
    and "outs = o1 @ o2"
  using assms by (auto simp: run_machine_append Let_def split: prod.splits)

text \<open>An invariant that every step keeps holds after every run.\<close>

locale invariant_machine =
  fixes step :: "'s \<Rightarrow> 'e \<Rightarrow> 's \<times> 'o list"
    and inv :: "'s \<Rightarrow> bool"
  assumes inv_step: "inv s \<Longrightarrow> step s e = (s', outs) \<Longrightarrow> inv s'"
begin

lemma inv_run: "inv s \<Longrightarrow> run_machine step s es = (t, outs) \<Longrightarrow> inv t"
proof (induction es arbitrary: s outs)
  case Nil
  then show ?case by simp
next
  case (Cons e es)
  from Cons.prems(2) obtain s' o1 o2
    where "step s e = (s', o1)" and "run_machine step s' es = (t, o2)"
    by (rule run_machine_Cons_E)
  with Cons.prems(1) show ?case by (blast intro: Cons.IH inv_step)
qed

end

text \<open>
  A budget bounds how often an output can occur over a whole run: every step pays for its
  outputs from what is left.
\<close>

locale budgeted_machine = invariant_machine step inv
  for step :: "'s \<Rightarrow> 'e \<Rightarrow> 's \<times> 'o list" and inv :: "'s \<Rightarrow> bool" +
  fixes charged :: "'o \<Rightarrow> bool"
    and budget :: "'s \<Rightarrow> nat"
  assumes pays: "inv s \<Longrightarrow> step s e = (s', outs) \<Longrightarrow>
    length (filter charged outs) + budget s' \<le> budget s"
begin

lemma run_pays:
  "inv s \<Longrightarrow> run_machine step s es = (t, outs) \<Longrightarrow>
   length (filter charged outs) + budget t \<le> budget s"
proof (induction es arbitrary: s outs)
  case Nil
  then show ?case by simp
next
  case (Cons e es)
  from Cons.prems(2) obtain s' o1 o2
    where st: "step s e = (s', o1)" and run: "run_machine step s' es = (t, o2)"
      and outs: "outs = o1 @ o2"
    by (rule run_machine_Cons_E)
  have "length (filter charged o2) + budget t \<le> budget s'"
    using Cons.IH inv_step [OF Cons.prems(1) st] run by blast
  with pays [OF Cons.prems(1) st] outs show ?case by simp
qed

corollary run_within_budget:
  "inv s \<Longrightarrow> length (filter charged (snd (run_machine step s es))) \<le> budget s"
  using run_pays [of s es "fst (run_machine step s es)" "snd (run_machine step s es)"] by simp

end

section \<open>Adjacent pairs\<close>

fun windows2 :: "('a \<Rightarrow> 'a \<Rightarrow> bool) \<Rightarrow> 'a list \<Rightarrow> bool" where
  "windows2 p (x # y # zs) = (p x y \<and> windows2 p (y # zs))"
| "windows2 p _ = True"

lemma windows2_iff_nth:
  "windows2 p xs \<longleftrightarrow> (\<forall>i. Suc i < length xs \<longrightarrow> p (xs ! i) (xs ! Suc i))"
proof (induction p xs rule: windows2.induct)
  case (1 p x y zs)
  show ?case
  proof
    assume "windows2 p (x # y # zs)"
    then show "\<forall>i. Suc i < length (x # y # zs) \<longrightarrow> p ((x # y # zs) ! i) ((x # y # zs) ! Suc i)"
      using 1 by (auto simp: nth_Cons split: nat.splits)
  next
    assume all: "\<forall>i. Suc i < length (x # y # zs) \<longrightarrow> p ((x # y # zs) ! i) ((x # y # zs) ! Suc i)"
    from all [rule_format, of 0] have "p x y" by simp
    moreover have "windows2 p (y # zs)"
      using 1 all by (metis (no_types, lifting) Suc_less_eq length_Cons nth_Cons_Suc)
    ultimately show "windows2 p (x # y # zs)" by simp
  qed
qed auto

lemma windows2_sorted_map:
  "windows2 (\<lambda>x y. f x \<le> f y) xs \<longleftrightarrow> sorted (map f xs)"
  for f :: "'a \<Rightarrow> 'b::linorder"
  by (induction xs rule: induct_list012) (auto intro: order_trans)

lemma windows2_append_one:
  "windows2 p (xs @ [x]) \<longleftrightarrow> windows2 p xs \<and> (xs = [] \<or> p (last xs) x)"
  by (induction xs rule: induct_list012) auto

end
