(* ===== verification/Outcome.thy ===== *)
theory Outcome
  imports Prelude
begin

text \<open>
  \<^verbatim>\<open>mlx-guard-core/src/outcome.rs\<close>: validated signal numbers, the top-level outcome of a
  supervised run and the process exit code it is reported with.
\<close>

section \<open>Signal numbers\<close>

datatype signal_number = SignalNumber u8

definition signal_new :: "u8 \<Rightarrow> signal_number option" where
  "signal_new value = (if value = 0 \<or> 127 < value then None else Some (SignalNumber value))"

fun signal_get :: "signal_number \<Rightarrow> u8" where
  "signal_get (SignalNumber value) = value"

text \<open>The tuple field is private, so every signal number of the program came from \<open>new\<close>.\<close>

definition valid_signal :: "signal_number \<Rightarrow> bool" where
  "valid_signal s \<longleftrightarrow> signal_new (signal_get s) = Some s"

lemma valid_signal_iff: "valid_signal s \<longleftrightarrow> 1 \<le> unat (signal_get s) \<and> unat (signal_get s) \<le> 127"
proof (cases s)
  case (SignalNumber v)
  have "v = 0 \<longleftrightarrow> unat v = 0" by (simp add: unat_eq_0)
  moreover have "127 < v \<longleftrightarrow> 127 < unat v" by (simp add: word_less_nat_alt)
  ultimately show ?thesis
    using SignalNumber by (auto simp: valid_signal_def signal_new_def)
qed

lemma signal_new_Some: "signal_new v = Some s \<longleftrightarrow> s = SignalNumber v \<and> v \<noteq> 0 \<and> v \<le> 127"
  by (auto simp: signal_new_def linorder_not_less)

section \<open>Outcomes and exit codes\<close>

datatype supervisor_outcome =
    ChildExited u8
  | ChildSignaled signal_number
  | LaunchNotFound
  | LaunchNotExecutable
  | InvalidConfiguration
  | PolicyIntervention
  | SupervisorFailure
  | PartialArtifactFailure

fun exit_code :: "supervisor_outcome \<Rightarrow> u8" where
  "exit_code (ChildExited code) = code"
| "exit_code (ChildSignaled signal) = 128 + signal_get signal"
| "exit_code InvalidConfiguration = 64"
| "exit_code SupervisorFailure = 70"
| "exit_code PartialArtifactFailure = 74"
| "exit_code PolicyIntervention = 75"
| "exit_code LaunchNotExecutable = 126"
| "exit_code LaunchNotFound = 127"

text \<open>The outcomes this program decides itself, as opposed to a status it forwards.\<close>

fun own_outcome :: "supervisor_outcome \<Rightarrow> bool" where
  "own_outcome (ChildExited _) = False"
| "own_outcome (ChildSignaled _) = False"
| "own_outcome _ = True"

lemma exit_code_signaled:
  assumes "valid_signal s"
  shows "unat (exit_code (ChildSignaled s)) = 128 + unat (signal_get s)"
proof -
  have "unat (128 :: u8) + unat (signal_get s) < 2 ^ LENGTH(8)"
    using assms by (simp add: valid_signal_iff)
  then have "unat (128 + signal_get s) = unat (128 :: u8) + unat (signal_get s)"
    by (rule unat_plus_small)
  then show ?thesis by simp
qed

lemma exit_code_own_small:
  "own_outcome out \<Longrightarrow> 64 \<le> unat (exit_code out) \<and> unat (exit_code out) < 128"
  by (cases out) simp_all

lemma exit_code_own_inj:
  "own_outcome a \<Longrightarrow> own_outcome b \<Longrightarrow> exit_code a = exit_code b \<Longrightarrow> a = b"
  by (cases a; cases b) simp_all

lemma signal_get_inj: "signal_get a = signal_get b \<longleftrightarrow> a = b"
  by (cases a; cases b) simp

end
