(* ===== verification/Policy.thy ===== *)
theory Policy
  imports Outcome
begin

text \<open>
  \<^verbatim>\<open>mlx-guard-core/src/policy.rs\<close>: the pure enforcement state machine. The record
  \<open>policy_machine\<close> is the struct of that name, \<open>apply_event\<close> its \<open>apply\<close> method, and each
  \<open>apply_*\<close> definition the method it is named after; a method that mutates \<open>self\<close> returns the
  new machine with the actions it requested, in execution order.
\<close>

section \<open>Data\<close>

record policy_config =
  pc_limit_bytes :: u64
  pc_warning_bytes :: u64
  pc_recovery_bytes :: u64
  pc_emergency_bytes :: u64
  pc_required_breach_samples :: u32
  pc_max_missing_samples :: u32
  pc_max_sample_age :: dur
  pc_max_sample_window :: dur
  pc_checkpoint_timeout :: "dur option"
  pc_term_grace :: dur
  pc_wall_time :: "dur option"

datatype policy_config_error = PolicyConfigError

datatype policy_state =
    Observe
  | Normal
  | Warning
  | CheckpointRequested
  | Terminating
  | Emergency
  | Exited
  | SupervisorError

datatype checkpoint_disposition =
    Disp_AcknowledgedUnverifiedDurability
  | Disp_TimedOut
  | Disp_SkippedCheckpointFailure
  | Disp_SkippedObservationFailure
  | Disp_SkippedSupervisorFailure
  | Disp_SkippedNotNegotiated
  | Disp_SkippedRootExited
  | Disp_SkippedParentExited

datatype actuation_kind = KCheckpoint | KTerm | KKill | KForwardSignal

datatype actuation_failure =
    CheckpointUnavailable
  | CheckpointRejected
  | ProcessMissing
  | PermissionDenied
  | InvalidTarget
  | SignalFailed

record sample_event =
  se_captured_at :: dur
  se_processed_at :: dur
  se_window :: dur
  se_aggregate_bytes :: "u64 option"

datatype event =
    Sample sample_event
  | Tick dur
  | CheckpointAck dur u64 bool
  | ExternalSignal dur signal_number
  | ActuationFailed dur actuation_kind actuation_failure
  | SupervisorFault dur
  | ProcessExited dur "u64 option"
  | RootExited dur
  | ParentExited dur

fun event_at :: "event \<Rightarrow> dur" where
  "event_at (Sample s) = se_processed_at s"
| "event_at (Tick t) = t"
| "event_at (CheckpointAck t _ _) = t"
| "event_at (ExternalSignal t _) = t"
| "event_at (ActuationFailed t _ _) = t"
| "event_at (SupervisorFault t) = t"
| "event_at (ProcessExited t _) = t"
| "event_at (RootExited t) = t"
| "event_at (ParentExited t) = t"

datatype action =
    RecordObservation
  | RecordMissing
  | RequestCheckpoint (ra_request_id: u64) (ra_overshoot_bytes: u64) (ra_deadline_at: dur)
  | SendTerm checkpoint_disposition
  | SendKill
  | RecordOvershoot u64
  | StopObserving
  | ForwardSignal signal_number
  | ReportExit "u64 option" u32
  | ReportSupervisorError actuation_kind actuation_failure

fun is_signal :: "action \<Rightarrow> bool" where
  "is_signal (SendTerm _) = True"
| "is_signal SendKill = True"
| "is_signal (ForwardSignal _) = True"
| "is_signal _ = False"

datatype policy_mode = ObserveMode | EnforceMode

record policy_machine =
  pm_mode :: policy_mode
  pm_state :: policy_state
  pm_config :: policy_config
  pm_breach_streak :: u32
  pm_missing_streak :: u32
  pm_next_request_id :: u64
  pm_active_request_id :: "u64 option"
  pm_checkpoint_deadline :: "dur option"
  pm_term_deadline :: "dur option"
  pm_last_event_at :: "dur option"
  pm_post_signal_observations :: u32
  pm_intervention_started :: bool

section \<open>Construction\<close>

definition policy_observe :: "dur \<Rightarrow> dur \<Rightarrow> u32 \<Rightarrow> policy_machine" where
  "policy_observe max_sample_age max_sample_window max_missing_samples =
    \<lparr>pm_mode = ObserveMode,
     pm_state = Observe,
     pm_config =
       \<lparr>pc_limit_bytes = - 1,
        pc_warning_bytes = - 1 - 1,
        pc_recovery_bytes = - 1 - 2,
        pc_emergency_bytes = - 1,
        pc_required_breach_samples = - 1,
        pc_max_missing_samples = max_missing_samples,
        pc_max_sample_age = max_sample_age,
        pc_max_sample_window = max_sample_window,
        pc_checkpoint_timeout = None,
        pc_term_grace = DURATION_MAX,
        pc_wall_time = None\<rparr>,
     pm_breach_streak = 0,
     pm_missing_streak = 0,
     pm_next_request_id = 1,
     pm_active_request_id = None,
     pm_checkpoint_deadline = None,
     pm_term_deadline = None,
     pm_last_event_at = None,
     pm_post_signal_observations = 0,
     pm_intervention_started = False\<rparr>"

definition valid_config :: "policy_config \<Rightarrow> bool" where
  "valid_config c \<longleftrightarrow>
     pc_recovery_bytes c < pc_warning_bytes c
   \<and> pc_warning_bytes c < pc_limit_bytes c
   \<and> pc_limit_bytes c < pc_emergency_bytes c
   \<and> 0 < pc_required_breach_samples c
   \<and> 0 < pc_max_missing_samples c
   \<and> pc_max_sample_age c \<noteq> 0
   \<and> pc_max_sample_window c \<noteq> 0
   \<and> pc_term_grace c \<noteq> 0
   \<and> (case pc_checkpoint_timeout c of None \<Rightarrow> True | Some timeout \<Rightarrow> timeout \<noteq> 0)
   \<and> (case pc_wall_time c of None \<Rightarrow> True | Some limit \<Rightarrow> limit \<noteq> 0)"

definition enforce_with_initial_request_id ::
    "policy_config \<Rightarrow> u64 \<Rightarrow> policy_config_error + policy_machine" where
  "enforce_with_initial_request_id config initial_request_id =
     (if \<not> valid_config config \<or> initial_request_id = 0 then Err PolicyConfigError
      else Ok
        \<lparr>pm_mode = EnforceMode,
         pm_state = Normal,
         pm_config = config,
         pm_breach_streak = 0,
         pm_missing_streak = 0,
         pm_next_request_id = initial_request_id,
         pm_active_request_id = None,
         pm_checkpoint_deadline = None,
         pm_term_deadline = None,
         pm_last_event_at = None,
         pm_post_signal_observations = 0,
         pm_intervention_started = False\<rparr>)"

definition enforce :: "policy_config \<Rightarrow> policy_config_error + policy_machine" where
  "enforce config = enforce_with_initial_request_id config 1"

fun next_deadline :: "policy_machine \<Rightarrow> dur option" where
  "next_deadline m =
     (case pm_state m of
        CheckpointRequested \<Rightarrow> pm_checkpoint_deadline m
      | Terminating \<Rightarrow> pm_term_deadline m
      | SupervisorError \<Rightarrow> pm_term_deadline m
      | _ \<Rightarrow> None)"

section \<open>Handlers\<close>

definition apply_missing :: "policy_machine \<Rightarrow> dur \<Rightarrow> policy_machine \<times> action list" where
  "apply_missing m t =
     (let m = m\<lparr>pm_missing_streak := sat_add (pm_missing_streak m) 1\<rparr> in
      if pm_missing_streak m < pc_max_missing_samples (pm_config m)
         \<or> pm_state m = SupervisorError
         \<or> pm_intervention_started m
      then (m, [RecordMissing])
      else let m = m\<lparr>pm_state := SupervisorError\<rparr> in
        case pm_mode m of
          ObserveMode \<Rightarrow> (m, [RecordMissing, StopObserving])
        | EnforceMode \<Rightarrow>
            (m\<lparr>pm_intervention_started := True,
               pm_term_deadline := Some (dur_sat_add t (pc_term_grace (pm_config m)))\<rparr>,
             [RecordMissing, SendTerm Disp_SkippedObservationFailure]))"

definition begin_graceful ::
    "policy_machine \<Rightarrow> dur \<Rightarrow> u64 \<Rightarrow> checkpoint_disposition \<Rightarrow> policy_machine \<times> action list" where
  "begin_graceful m t overshoot_bytes skipped =
     (case pc_checkpoint_timeout (pm_config m) of
        Some timeout \<Rightarrow>
          (let request_id = pm_next_request_id m;
               deadline_at = dur_sat_add t timeout
           in (m\<lparr>pm_next_request_id := sat_add (pm_next_request_id m) 1,
                 pm_active_request_id := Some request_id,
                 pm_checkpoint_deadline := Some deadline_at,
                 pm_state := CheckpointRequested\<rparr>,
               [RequestCheckpoint request_id overshoot_bytes deadline_at]))
      | None \<Rightarrow>
          (m\<lparr>pm_state := Terminating,
             pm_intervention_started := True,
             pm_term_deadline := Some (dur_sat_add t (pc_term_grace (pm_config m)))\<rparr>,
           [SendTerm skipped]))"

text \<open>The validity gate of \<open>apply_sample\<close>.\<close>

definition usable_sample :: "policy_config \<Rightarrow> sample_event \<Rightarrow> bool" where
  "usable_sample c s \<longleftrightarrow>
     se_aggregate_bytes s \<noteq> None
   \<and> se_captured_at s \<le> se_processed_at s
   \<and> dur_sat_sub (se_processed_at s) (se_captured_at s) \<le> pc_max_sample_age c
   \<and> se_window s \<le> pc_max_sample_window c"

definition apply_sample :: "policy_machine \<Rightarrow> sample_event \<Rightarrow> policy_machine \<times> action list" where
  "apply_sample m s =
     (if \<not> usable_sample (pm_config m) s then apply_missing m (se_processed_at s)
      else
        let m = m\<lparr>pm_missing_streak := 0\<rparr>;
            m = (if pm_intervention_started m
                 then m\<lparr>pm_post_signal_observations := sat_add (pm_post_signal_observations m) 1\<rparr>
                 else m)
        in if pm_mode m = ObserveMode \<or> pm_intervention_started m then (m, [RecordObservation])
        else
          let bytes = the (se_aggregate_bytes s); c = pm_config m in
          if pc_emergency_bytes c \<le> bytes then
            (m\<lparr>pm_state := Emergency, pm_intervention_started := True\<rparr>,
             [RecordObservation, SendKill, RecordOvershoot (sat_sub bytes (pc_limit_bytes c))])
          else if pm_state m = CheckpointRequested then (m, [RecordObservation])
          else if pc_limit_bytes c \<le> bytes then
            let m = m\<lparr>pm_breach_streak := sat_add (pm_breach_streak m) 1, pm_state := Warning\<rparr> in
            if pc_required_breach_samples c \<le> pm_breach_streak m then
              let overshoot_bytes = sat_sub bytes (pc_limit_bytes c);
                  (m, graceful) = begin_graceful m (se_processed_at s) overshoot_bytes
                                    Disp_SkippedNotNegotiated
              in (m, [RecordObservation] @ graceful
                     @ (if pc_checkpoint_timeout c = None then [RecordOvershoot overshoot_bytes]
                        else []))
            else (m, [RecordObservation])
          else
            let m = m\<lparr>pm_breach_streak := 0\<rparr> in
            if pc_warning_bytes c \<le> bytes then (m\<lparr>pm_state := Warning\<rparr>, [RecordObservation])
            else if bytes \<le> pc_recovery_bytes c
            then (m\<lparr>pm_state := Normal\<rparr>, [RecordObservation])
            else (m, [RecordObservation]))"

text \<open>
  The five assignments that open a TERM grace period and withdraw any pending checkpoint request,
  written out identically at each place of the code that performs them.
\<close>

definition start_term :: "policy_machine \<Rightarrow> dur \<Rightarrow> policy_machine" where
  "start_term m t =
     m\<lparr>pm_active_request_id := None,
       pm_checkpoint_deadline := None,
       pm_state := Terminating,
       pm_intervention_started := True,
       pm_term_deadline := Some (dur_sat_add t (pc_term_grace (pm_config m)))\<rparr>"

definition apply_checkpoint_ack ::
    "policy_machine \<Rightarrow> dur \<Rightarrow> u64 \<Rightarrow> bool \<Rightarrow> policy_machine \<times> action list" where
  "apply_checkpoint_ack m t request_id authenticated =
     (if pm_state m \<noteq> CheckpointRequested
         \<or> pm_active_request_id m \<noteq> Some request_id
         \<or> \<not> authenticated
      then (m, [])
      else (start_term m t, [SendTerm Disp_AcknowledgedUnverifiedDurability]))"

definition apply_tick :: "policy_machine \<Rightarrow> dur \<Rightarrow> policy_machine \<times> action list" where
  "apply_tick m t =
     (if pm_state m = CheckpointRequested
         \<and> (case pm_checkpoint_deadline m of None \<Rightarrow> False | Some deadline \<Rightarrow> deadline \<le> t)
      then (start_term m t, [SendTerm Disp_TimedOut])
      else if pm_state m \<in> {Terminating, SupervisorError}
         \<and> (case pm_term_deadline m of None \<Rightarrow> False | Some deadline \<Rightarrow> deadline \<le> t)
      then (m\<lparr>pm_state := Emergency\<rparr>, [SendKill])
      else if \<not> pm_intervention_started m
         \<and> pm_state m \<in> {Normal, Warning}
         \<and> (case pc_wall_time (pm_config m) of None \<Rightarrow> False | Some limit \<Rightarrow> limit \<le> t)
      then begin_graceful m t 0 Disp_SkippedNotNegotiated
      else (m, []))"

definition apply_external_signal ::
    "policy_machine \<Rightarrow> dur \<Rightarrow> signal_number \<Rightarrow> policy_machine \<times> action list" where
  "apply_external_signal m t signal =
     (if pm_state m \<in> {Terminating, SupervisorError, Emergency}
      then (m\<lparr>pm_state := Emergency, pm_intervention_started := True\<rparr>, [SendKill])
      else (start_term m t, [ForwardSignal signal]))"

definition apply_root_exited :: "policy_machine \<Rightarrow> dur \<Rightarrow> policy_machine \<times> action list" where
  "apply_root_exited m t =
     (if pm_state m \<notin> {Normal, Warning, CheckpointRequested} then (m, [])
      else (start_term m t, [SendTerm Disp_SkippedRootExited]))"

definition apply_parent_exited :: "policy_machine \<Rightarrow> dur \<Rightarrow> policy_machine \<times> action list" where
  "apply_parent_exited m t =
     (if pm_state m \<notin> {Normal, Warning} then (m, [])
      else (start_term m t, [SendTerm Disp_SkippedParentExited]))"

definition apply_actuation_failed ::
    "policy_machine \<Rightarrow> dur \<Rightarrow> actuation_kind \<Rightarrow> actuation_failure
     \<Rightarrow> policy_machine \<times> action list" where
  "apply_actuation_failed m t action failure =
     (let cleared = m\<lparr>pm_active_request_id := None,
                      pm_checkpoint_deadline := None,
                      pm_term_deadline := None,
                      pm_intervention_started := True\<rparr>
      in if action = KCheckpoint \<and> pm_state m = CheckpointRequested
         then (start_term m t, [SendTerm Disp_SkippedCheckpointFailure])
         else if action = KTerm \<or> action = KForwardSignal
         then (cleared\<lparr>pm_state := Emergency\<rparr>, [SendKill])
         else (cleared\<lparr>pm_state := SupervisorError\<rparr>, [ReportSupervisorError action failure]))"

definition apply_supervisor_fault :: "policy_machine \<Rightarrow> dur \<Rightarrow> policy_machine \<times> action list" where
  "apply_supervisor_fault m t =
     (let signal_already_requested = pm_intervention_started m;
          m = m\<lparr>pm_active_request_id := None,
                pm_checkpoint_deadline := None,
                pm_state := SupervisorError\<rparr>
      in case pm_mode m of
           ObserveMode \<Rightarrow> (m, [StopObserving])
         | EnforceMode \<Rightarrow>
             (if signal_already_requested then (m, [])
              else (m\<lparr>pm_intervention_started := True,
                      pm_term_deadline := Some (dur_sat_add t (pc_term_grace (pm_config m)))\<rparr>,
                    [SendTerm Disp_SkippedSupervisorFailure])))"

definition fail_clock :: "policy_machine \<Rightarrow> policy_machine \<times> action list" where
  "fail_clock m =
     (if pm_intervention_started m \<or> pm_state m = SupervisorError then (m, [])
      else let m = m\<lparr>pm_state := SupervisorError\<rparr> in
        case pm_mode m of
          ObserveMode \<Rightarrow> (m, [RecordMissing, StopObserving])
        | EnforceMode \<Rightarrow>
            (m\<lparr>pm_intervention_started := True,
               pm_term_deadline := map_option (\<lambda>t. dur_sat_add t (pc_term_grace (pm_config m)))
                                     (pm_last_event_at m)\<rparr>,
             [RecordMissing, SendTerm Disp_SkippedObservationFailure]))"

text \<open>The dispatch of \<open>apply\<close>; the process-exit arm is unreachable there and returns early here.\<close>

fun dispatch_event :: "policy_machine \<Rightarrow> event \<Rightarrow> policy_machine \<times> action list" where
  "dispatch_event m (Sample s) = apply_sample m s"
| "dispatch_event m (Tick t) = apply_tick m t"
| "dispatch_event m (CheckpointAck t request_id authenticated) =
     apply_checkpoint_ack m t request_id authenticated"
| "dispatch_event m (ExternalSignal t signal) = apply_external_signal m t signal"
| "dispatch_event m (ActuationFailed t action failure) = apply_actuation_failed m t action failure"
| "dispatch_event m (SupervisorFault t) = apply_supervisor_fault m t"
| "dispatch_event m (RootExited t) = apply_root_exited m t"
| "dispatch_event m (ParentExited t) = apply_parent_exited m t"
| "dispatch_event m (ProcessExited t footprint) = (m, [])"

definition clock_regressed :: "policy_machine \<Rightarrow> dur \<Rightarrow> bool" where
  "clock_regressed m t \<longleftrightarrow>
     (case pm_last_event_at m of None \<Rightarrow> False | Some previous \<Rightarrow> t < previous)"

definition apply_event :: "policy_machine \<Rightarrow> event \<Rightarrow> policy_machine \<times> action list" where
  "apply_event m e =
     (if pm_state m = Exited then (m, [])
      else case e of
        ProcessExited _ final_footprint_bytes \<Rightarrow>
          (m\<lparr>pm_state := Exited\<rparr>,
           [ReportExit final_footprint_bytes (pm_post_signal_observations m)])
      | _ \<Rightarrow>
          (if clock_regressed m (event_at e) then fail_clock m
           else dispatch_event (m\<lparr>pm_last_event_at := Some (event_at e)\<rparr>) e))"

text \<open>A sequence of events, as the run loop delivers them one after the other.\<close>

definition run_policy :: "policy_machine \<Rightarrow> event list \<Rightarrow> policy_machine \<times> action list" where
  "run_policy = run_machine apply_event"

text \<open>The handlers without a loop over thresholds, unfolded together in the case splits over events.\<close>

lemmas short_handlers =
  start_term_def apply_checkpoint_ack_def apply_external_signal_def apply_root_exited_def
  apply_parent_exited_def apply_actuation_failed_def

end
