(* ===== verification/Policy_Invariant.thy ===== *)
theory Policy_Invariant
  imports Policy
begin

text \<open>
  What the policy machine keeps true between its fields, one preservation lemma per handler, and
  the two budgets that bound its destructive actions over a whole run.
\<close>

section \<open>The invariant\<close>

text \<open>What each phase says about the intervention flag and the two deadlines.\<close>

fun phase_ok :: "policy_state \<Rightarrow> policy_machine \<Rightarrow> bool" where
  "phase_ok Observe m \<longleftrightarrow>
     pm_mode m = ObserveMode \<and> \<not> pm_intervention_started m \<and> pm_term_deadline m = None"
| "phase_ok Normal m \<longleftrightarrow>
     pm_mode m = EnforceMode \<and> \<not> pm_intervention_started m \<and> pm_term_deadline m = None"
| "phase_ok Warning m \<longleftrightarrow>
     pm_mode m = EnforceMode \<and> \<not> pm_intervention_started m \<and> pm_term_deadline m = None"
| "phase_ok CheckpointRequested m \<longleftrightarrow>
     pm_mode m = EnforceMode \<and> \<not> pm_intervention_started m \<and> pm_term_deadline m = None
   \<and> pm_active_request_id m \<noteq> None \<and> pm_checkpoint_deadline m \<noteq> None"
| "phase_ok Terminating m \<longleftrightarrow> pm_intervention_started m \<and> pm_term_deadline m \<noteq> None"
| "phase_ok Emergency m \<longleftrightarrow> pm_intervention_started m"
| "phase_ok Exited m \<longleftrightarrow> True"
| "phase_ok SupervisorError m \<longleftrightarrow>
     pm_intervention_started m \<or> pm_mode m = ObserveMode \<and> pm_term_deadline m = None"

definition policy_inv :: "policy_machine \<Rightarrow> bool" where
  "policy_inv m \<longleftrightarrow>
     (pm_mode m = EnforceMode \<longrightarrow> valid_config (pm_config m)) \<and> phase_ok (pm_state m) m"

lemma phase_ok_last_event [simp]: "phase_ok st (m\<lparr>pm_last_event_at := x\<rparr>) = phase_ok st m"
  by (cases st) simp_all

lemma policy_inv_last_event [simp]:
  "policy_inv (m\<lparr>pm_last_event_at := x\<rparr>) = policy_inv m"
  by (simp add: policy_inv_def)

lemma policy_inv_observe [simp]: "policy_inv (policy_observe age window missing)"
  by (simp add: policy_inv_def policy_observe_def)

lemma policy_inv_enforce:
  "enforce_with_initial_request_id c rid = Ok m \<Longrightarrow> policy_inv m"
  by (auto simp: policy_inv_def enforce_with_initial_request_id_def split: if_splits)

lemma policy_inv_start_term [simp]:
  "policy_inv (start_term m t) \<longleftrightarrow> (pm_mode m = EnforceMode \<longrightarrow> valid_config (pm_config m))"
  by (simp add: policy_inv_def start_term_def)

lemma policy_inv_begin_graceful:
  "policy_inv m \<Longrightarrow> phase_ok Normal m \<Longrightarrow> policy_inv (fst (begin_graceful m t n d))"
  by (simp add: policy_inv_def begin_graceful_def Let_def split: option.splits)

lemma policy_inv_apply_missing:
  "policy_inv m \<Longrightarrow> pm_state m \<noteq> Exited \<Longrightarrow> policy_inv (fst (apply_missing m t))"
  by (cases "pm_state m")
    (simp_all add: policy_inv_def apply_missing_def Let_def split: policy_mode.splits)

text \<open>Outside the watching phases a usable sample is counted and nothing else.\<close>

lemma apply_sample_passive:
  assumes "usable_sample (pm_config m) s" and "pm_mode m = ObserveMode \<or> pm_intervention_started m"
  shows "apply_sample m s =
    (m\<lparr>pm_missing_streak := 0,
       pm_post_signal_observations :=
         (if pm_intervention_started m then sat_add (pm_post_signal_observations m) 1
          else pm_post_signal_observations m)\<rparr>, [RecordObservation])"
  using assms by (auto simp: apply_sample_def Let_def)

text \<open>In a watching phase the sample is compared with the four thresholds.\<close>

lemma apply_sample_watching:
  assumes "usable_sample (pm_config m) s" and "pm_mode m = EnforceMode"
    and "\<not> pm_intervention_started m" and bytes: "se_aggregate_bytes s = Some bytes"
    and c: "c = pm_config m" and n: "n = m\<lparr>pm_missing_streak := 0\<rparr>"
  shows "apply_sample m s =
    (if pc_emergency_bytes c \<le> bytes then
       (n\<lparr>pm_state := Emergency, pm_intervention_started := True\<rparr>,
        [RecordObservation, SendKill, RecordOvershoot (sat_sub bytes (pc_limit_bytes c))])
     else if pm_state m = CheckpointRequested then (n, [RecordObservation])
     else if pc_limit_bytes c \<le> bytes then
       (let w = n\<lparr>pm_breach_streak := sat_add (pm_breach_streak m) 1, pm_state := Warning\<rparr>;
            over = sat_sub bytes (pc_limit_bytes c);
            g = begin_graceful w (se_processed_at s) over Disp_SkippedNotNegotiated
        in if pc_required_breach_samples c \<le> sat_add (pm_breach_streak m) 1 then
             (fst g, RecordObservation # snd g
                @ (if pc_checkpoint_timeout c = None then [RecordOvershoot over] else []))
           else (w, [RecordObservation]))
     else (n\<lparr>pm_breach_streak := 0,
             pm_state := (if pc_warning_bytes c \<le> bytes then Warning
                          else if bytes \<le> pc_recovery_bytes c then Normal else pm_state m)\<rparr>,
           [RecordObservation]))"
  using assms by (simp add: apply_sample_def Let_def split: prod.splits)

lemma watching_or_checkpoint:
  assumes "policy_inv m" and "pm_mode m = EnforceMode" and "\<not> pm_intervention_started m"
    and "pm_state m \<noteq> Exited"
  shows "pm_state m \<in> {Normal, Warning, CheckpointRequested}" and "phase_ok Normal m"
  using assms by (cases "pm_state m"; simp add: policy_inv_def)+

lemma policy_inv_apply_sample:
  assumes inv: "policy_inv m" and live: "pm_state m \<noteq> Exited"
  shows "policy_inv (fst (apply_sample m s))"
proof (cases "usable_sample (pm_config m) s")
  case False
  then show ?thesis using inv live by (simp add: apply_sample_def policy_inv_apply_missing)
next
  case usable: True
  show ?thesis
  proof (cases "pm_mode m = ObserveMode \<or> pm_intervention_started m")
    case True
    then show ?thesis using inv usable
      by (cases "pm_state m") (simp_all add: apply_sample_passive policy_inv_def)
  next
    case False
    then have mode: "pm_mode m = EnforceMode" and fresh: "\<not> pm_intervention_started m"
      by (cases "pm_mode m"; simp)+
    from usable obtain bytes where bytes: "se_aggregate_bytes s = Some bytes"
      by (auto simp: usable_sample_def)
    from watching_or_checkpoint [OF inv mode fresh live] inv show ?thesis
      by (cases "pm_state m")
        (simp_all add: apply_sample_watching [OF usable mode fresh bytes refl refl] policy_inv_def
          Let_def begin_graceful_def split: option.splits)
  qed
qed

lemma policy_inv_dispatch:
  assumes "policy_inv m" and "pm_state m \<noteq> Exited"
  shows "policy_inv (fst (dispatch_event m e))"
proof (cases e)
  case (Sample s)
  with assms show ?thesis by (simp add: policy_inv_apply_sample)
next
  case (Tick t)
  with assms show ?thesis
    by (cases "pm_state m")
      (auto simp: apply_tick_def policy_inv_def begin_graceful_def start_term_def Let_def
        split: option.splits)
next
  case (ExternalSignal t sig)
  with assms show ?thesis
    by (cases "pm_state m") (simp_all add: apply_external_signal_def policy_inv_def start_term_def)
next
  case (ActuationFailed t k f)
  with assms show ?thesis
    by (auto simp: apply_actuation_failed_def Let_def policy_inv_def start_term_def)
next
  case (SupervisorFault t)
  with assms show ?thesis
    by (cases "pm_state m")
      (auto simp: apply_supervisor_fault_def Let_def policy_inv_def split: policy_mode.splits)
qed (use assms in \<open>auto simp: apply_checkpoint_ack_def apply_root_exited_def
       apply_parent_exited_def policy_inv_def start_term_def\<close>)

lemma policy_inv_fail_clock:
  "policy_inv m \<Longrightarrow> pm_state m \<noteq> Exited \<Longrightarrow> policy_inv (fst (fail_clock m))"
  by (cases "pm_state m")
    (simp_all add: fail_clock_def Let_def policy_inv_def split: policy_mode.splits)

lemma policy_inv_apply_event: "policy_inv m \<Longrightarrow> policy_inv (fst (apply_event m e))"
  using policy_inv_dispatch [of "m\<lparr>pm_last_event_at := Some (event_at e)\<rparr>" e]
    policy_inv_fail_clock [of m]
  by (cases e) (simp_all add: apply_event_def policy_inv_def)

interpretation policy: invariant_machine apply_event policy_inv
  by unfold_locales (metis policy_inv_apply_event fst_conv)

section \<open>Budgets\<close>

text \<open>A graceful stop is the first signal of a shutdown: TERM, or a forwarded terminal signal.\<close>

fun graceful_stop :: "action \<Rightarrow> bool" where
  "graceful_stop (SendTerm _) = True"
| "graceful_stop (ForwardSignal _) = True"
| "graceful_stop _ = False"

definition stop_budget :: "policy_machine \<Rightarrow> nat" where
  "stop_budget m = (if pm_intervention_started m \<or> pm_state m = Exited then 0 else 1)"

definition checkpoint_budget :: "policy_machine \<Rightarrow> nat" where
  "checkpoint_budget m = (if pm_state m \<in> {Normal, Warning} then 1 else 0)"

lemmas budget_defs = stop_budget_def checkpoint_budget_def

text \<open>Every event either meets a live machine with a clock that moved forwards, or changes little.\<close>

lemma apply_event_cases:
  obtains (exited) "pm_state m = Exited" "apply_event m e = (m, [])"
  | (exit) t f where "pm_state m \<noteq> Exited" "e = ProcessExited t f"
      "apply_event m e = (m\<lparr>pm_state := Exited\<rparr>, [ReportExit f (pm_post_signal_observations m)])"
  | (regressed) "pm_state m \<noteq> Exited" "\<forall>t f. e \<noteq> ProcessExited t f" "clock_regressed m (event_at e)"
      "apply_event m e = fail_clock m"
  | (dispatched) "pm_state m \<noteq> Exited" "\<forall>t f. e \<noteq> ProcessExited t f"
      "\<not> clock_regressed m (event_at e)"
      "apply_event m e = dispatch_event (m\<lparr>pm_last_event_at := Some (event_at e)\<rparr>) e"
  by (cases e) (auto simp: apply_event_def)

lemma stop_pays_missing:
  assumes "pm_state m \<noteq> Exited"
  shows "length (filter graceful_stop (snd (apply_missing m t)))
       + stop_budget (fst (apply_missing m t)) \<le> stop_budget m"
  using assms by (simp add: apply_missing_def Let_def stop_budget_def split: policy_mode.splits)

lemma stop_pays_sample:
  assumes "pm_state m \<noteq> Exited"
  shows "length (filter graceful_stop (snd (apply_sample m s)))
       + stop_budget (fst (apply_sample m s)) \<le> stop_budget m"
proof (cases "usable_sample (pm_config m) s")
  case False
  then show ?thesis using assms stop_pays_missing by (simp add: apply_sample_def)
next
  case True
  then show ?thesis using assms
    by (simp add: apply_sample_def begin_graceful_def Let_def stop_budget_def split: option.splits)
qed

lemma stop_pays_dispatch:
  assumes "policy_inv m" and "pm_state m \<noteq> Exited"
  shows "length (filter graceful_stop (snd (dispatch_event m e)))
       + stop_budget (fst (dispatch_event m e)) \<le> stop_budget m"
proof (cases e)
  case (Sample s)
  then show ?thesis using stop_pays_sample assms by simp
next
  case (Tick t)
  then show ?thesis using assms
    by (cases "pm_state m")
      (simp_all add: apply_tick_def begin_graceful_def start_term_def Let_def stop_budget_def
        policy_inv_def split: option.splits)
next
  case (SupervisorFault t)
  then show ?thesis using assms
    by (simp add: apply_supervisor_fault_def Let_def stop_budget_def split: policy_mode.splits)
qed (use assms in \<open>cases "pm_state m"; simp add: short_handlers stop_budget_def Let_def policy_inv_def\<close>)+

lemma stop_pays:
  assumes "policy_inv m"
  shows "length (filter graceful_stop (snd (apply_event m e)))
       + stop_budget (fst (apply_event m e)) \<le> stop_budget m"
proof (cases rule: apply_event_cases [of m e])
  case regressed
  then show ?thesis
    by (simp add: fail_clock_def Let_def stop_budget_def split: policy_mode.splits)
next
  case dispatched
  then show ?thesis
    using assms stop_pays_dispatch [of "m\<lparr>pm_last_event_at := Some (event_at e)\<rparr>" e]
    by (simp add: policy_inv_def stop_budget_def)
qed (simp_all add: stop_budget_def)

lemma checkpoint_pays_missing:
  "length (filter is_RequestCheckpoint (snd (apply_missing m t)))
     + checkpoint_budget (fst (apply_missing m t)) \<le> checkpoint_budget m"
  by (simp add: apply_missing_def Let_def checkpoint_budget_def split: policy_mode.splits)

lemma checkpoint_pays_sample:
  assumes inv: "policy_inv m" and live: "pm_state m \<noteq> Exited"
  shows "length (filter is_RequestCheckpoint (snd (apply_sample m s)))
       + checkpoint_budget (fst (apply_sample m s)) \<le> checkpoint_budget m"
proof (cases "usable_sample (pm_config m) s")
  case False
  then show ?thesis using checkpoint_pays_missing by (simp add: apply_sample_def)
next
  case usable: True
  show ?thesis
  proof (cases "pm_mode m = ObserveMode \<or> pm_intervention_started m")
    case True
    then show ?thesis by (simp add: apply_sample_passive [OF usable] checkpoint_budget_def)
  next
    case False
    then have mode: "pm_mode m = EnforceMode" and fresh: "\<not> pm_intervention_started m"
      by (cases "pm_mode m"; simp)+
    from usable obtain bytes where bytes: "se_aggregate_bytes s = Some bytes"
      by (auto simp: usable_sample_def)
    from watching_or_checkpoint(1) [OF inv mode fresh live] show ?thesis
      by (auto simp: apply_sample_watching [OF usable mode fresh bytes refl refl]
          begin_graceful_def Let_def checkpoint_budget_def split: option.splits)
  qed
qed

lemma checkpoint_pays_dispatch:
  assumes "policy_inv m" and "pm_state m \<noteq> Exited"
  shows "length (filter is_RequestCheckpoint (snd (dispatch_event m e)))
       + checkpoint_budget (fst (dispatch_event m e)) \<le> checkpoint_budget m"
proof (cases e)
  case (Sample s)
  then show ?thesis using checkpoint_pays_sample assms by simp
next
  case (Tick t)
  then show ?thesis using assms
    by (cases "pm_state m")
      (simp_all add: apply_tick_def begin_graceful_def start_term_def Let_def checkpoint_budget_def
        split: option.splits)
next
  case (SupervisorFault t)
  then show ?thesis using assms
    by (simp add: apply_supervisor_fault_def Let_def checkpoint_budget_def split: policy_mode.splits)
qed (simp_all add: short_handlers checkpoint_budget_def Let_def)

lemma checkpoint_pays:
  assumes "policy_inv m"
  shows "length (filter is_RequestCheckpoint (snd (apply_event m e)))
       + checkpoint_budget (fst (apply_event m e)) \<le> checkpoint_budget m"
proof (cases rule: apply_event_cases [of m e])
  case regressed
  then show ?thesis
    by (simp add: fail_clock_def Let_def checkpoint_budget_def split: policy_mode.splits)
next
  case dispatched
  then show ?thesis
    using assms checkpoint_pays_dispatch [of "m\<lparr>pm_last_event_at := Some (event_at e)\<rparr>" e]
    by (simp add: policy_inv_def checkpoint_budget_def)
qed (simp_all add: checkpoint_budget_def)

interpretation stops: budgeted_machine apply_event policy_inv graceful_stop stop_budget
  by unfold_locales (metis stop_pays fst_conv snd_conv)

interpretation requests: budgeted_machine apply_event policy_inv is_RequestCheckpoint checkpoint_budget
  by unfold_locales (metis checkpoint_pays fst_conv snd_conv)

end
