(* ===== verification/Policy_Props.thy ===== *)
theory Policy_Props
  imports Policy_Invariant
begin

text \<open>
  Safety, functional and liveness properties of the policy machine over whole runs: what may start
  a shutdown, how often, on which evidence, and how fast it escalates.
\<close>

lemma run_policy_Nil [simp]: "run_policy m [] = (m, [])"
  by (simp add: run_policy_def)

lemma run_policy_Cons:
  "run_policy m (e # es) =
     (let r = apply_event m e; q = run_policy (fst r) es in (fst q, snd r @ snd q))"
  by (simp add: run_policy_def Let_def split_beta)

lemma run_policy_snoc:
  "run_policy m (es @ [e]) =
     (let q = run_policy m es; r = apply_event (fst q) e in (fst r, snd q @ snd r))"
  by (simp add: run_policy_def Let_def split_beta run_machine_append)

lemma run_policy_inv: "policy_inv m \<Longrightarrow> policy_inv (fst (run_policy m es))"
  unfolding run_policy_def by (metis policy.inv_run prod.collapse)

section \<open>What a handler never touches\<close>

lemma begin_graceful_keeps [simp]:
  "pm_mode (fst (begin_graceful m t n d)) = pm_mode m"
  "pm_config (fst (begin_graceful m t n d)) = pm_config m"
  "pm_last_event_at (fst (begin_graceful m t n d)) = pm_last_event_at m"
  by (simp_all add: begin_graceful_def Let_def split: option.splits)

lemma apply_missing_keeps [simp]:
  "pm_mode (fst (apply_missing m t)) = pm_mode m"
  "pm_config (fst (apply_missing m t)) = pm_config m"
  "pm_last_event_at (fst (apply_missing m t)) = pm_last_event_at m"
  "pm_breach_streak (fst (apply_missing m t)) = pm_breach_streak m"
  by (simp_all add: apply_missing_def Let_def split: policy_mode.splits)

lemma apply_sample_keeps [simp]:
  "pm_mode (fst (apply_sample m s)) = pm_mode m"
  "pm_config (fst (apply_sample m s)) = pm_config m"
  "pm_last_event_at (fst (apply_sample m s)) = pm_last_event_at m"
  by (simp_all add: apply_sample_def Let_def split_beta)

lemma dispatch_event_keeps [simp]:
  "pm_mode (fst (dispatch_event m e)) = pm_mode m"
  "pm_config (fst (dispatch_event m e)) = pm_config m"
  "pm_last_event_at (fst (dispatch_event m e)) = pm_last_event_at m"
  by (cases e; simp add: start_term_def apply_checkpoint_ack_def apply_tick_def
      apply_external_signal_def apply_root_exited_def apply_parent_exited_def
      apply_actuation_failed_def apply_supervisor_fault_def Let_def split: policy_mode.splits)+

lemma fail_clock_keeps [simp]:
  "pm_mode (fst (fail_clock m)) = pm_mode m"
  "pm_config (fst (fail_clock m)) = pm_config m"
  "pm_last_event_at (fst (fail_clock m)) = pm_last_event_at m"
  by (simp_all add: fail_clock_def Let_def split: policy_mode.splits)

lemma apply_event_keeps [simp]:
  "pm_mode (fst (apply_event m e)) = pm_mode m"
  "pm_config (fst (apply_event m e)) = pm_config m"
  by (cases rule: apply_event_cases [of m e]; simp)+

lemma run_policy_keeps [simp]:
  "pm_mode (fst (run_policy m es)) = pm_mode m"
  "pm_config (fst (run_policy m es)) = pm_config m"
  by (induction es rule: rev_induct) (simp_all add: run_policy_snoc Let_def)

section \<open>Observe mode\<close>

text \<open>
  Events that reach an observing supervisor without its user pressing a key: everything but a
  forwarded terminal signal and the failure of an actuation it would have had to request.
\<close>

fun spontaneous :: "event \<Rightarrow> bool" where
  "spontaneous (ExternalSignal _ _) = False"
| "spontaneous (ActuationFailed _ _ _) = False"
| "spontaneous _ = True"

definition harmless :: "action \<Rightarrow> bool" where
  "harmless a \<longleftrightarrow> \<not> is_signal a \<and> \<not> is_RequestCheckpoint a"

definition observing :: "policy_machine \<Rightarrow> bool" where
  "observing m \<longleftrightarrow> pm_mode m = ObserveMode \<and> \<not> pm_intervention_started m
     \<and> pm_term_deadline m = None \<and> pm_state m \<in> {Observe, SupervisorError, Exited}"

lemma observing_missing:
  assumes "observing m"
  shows "observing (fst (apply_missing m t)) \<and> list_all harmless (snd (apply_missing m t))"
  using assms by (simp add: apply_missing_def Let_def observing_def harmless_def)

lemma observing_sample:
  assumes "observing m"
  shows "observing (fst (apply_sample m s)) \<and> list_all harmless (snd (apply_sample m s))"
  using assms observing_missing [OF assms]
  by (cases "usable_sample (pm_config m) s")
    (simp_all add: apply_sample_def Let_def observing_def harmless_def)

lemma observing_dispatch:
  assumes "observing m" and "spontaneous e"
  shows "observing (fst (dispatch_event m e)) \<and> list_all harmless (snd (dispatch_event m e))"
proof (cases e)
  case (Sample s)
  with assms(1) show ?thesis by (simp add: observing_sample)
next
  case (Tick t)
  have "apply_tick m t = (m, [])"
    using assms(1) by (auto simp: observing_def apply_tick_def)
  with Tick assms(1) show ?thesis by simp
qed (use assms in \<open>simp_all add: observing_def harmless_def apply_checkpoint_ack_def
      apply_root_exited_def apply_parent_exited_def apply_supervisor_fault_def Let_def, auto\<close>)

lemma observing_step:
  assumes "observing m" and "spontaneous e"
  shows "observing (fst (apply_event m e)) \<and> list_all harmless (snd (apply_event m e))"
proof (cases rule: apply_event_cases [of m e])
  case dispatched
  have "observing (m\<lparr>pm_last_event_at := Some (event_at e)\<rparr>)"
    using assms(1) by (simp add: observing_def)
  with dispatched observing_dispatch assms(2) show ?thesis by simp
qed (use assms in \<open>simp_all add: observing_def fail_clock_def Let_def harmless_def\<close>)

lemma observing_run:
  "observing m \<Longrightarrow> list_all spontaneous es \<Longrightarrow>
   observing (fst (run_policy m es)) \<and> list_all harmless (snd (run_policy m es))"
  by (induction es rule: rev_induct) (auto simp: run_policy_snoc Let_def observing_step)

text \<open>A supervisor in observe mode never asks for a checkpoint and never signals the command,
  whatever it measures, however long it waits, and whoever exits: not until its own user sends it a
  terminal signal.\<close>

theorem observe_mode_never_intervenes:
  assumes "list_all spontaneous es"
  shows "list_all harmless (snd (run_policy (policy_observe age window missing) es))"
  using observing_run [of "policy_observe age window missing" es] assms
  by (simp add: observing_def policy_observe_def)

section \<open>Budgets of a run\<close>

text \<open>Whatever happens, one supervised run opens at most one shutdown: TERM is sent, or a
  terminal signal forwarded, at most once.\<close>

theorem one_graceful_stop_per_run:
  assumes "enforce_with_initial_request_id c rid = Ok m"
  shows "length (filter graceful_stop (snd (run_policy m es))) \<le> 1"
proof -
  have "length (filter graceful_stop (snd (run_policy m es))) \<le> stop_budget m"
    unfolding run_policy_def by (rule stops.run_within_budget) (rule policy_inv_enforce [OF assms])
  also have "stop_budget m \<le> 1" by (simp add: stop_budget_def)
  finally show ?thesis .
qed

text \<open>The command is asked to write a checkpoint at most once per run.\<close>

theorem one_checkpoint_request_per_run:
  assumes "enforce_with_initial_request_id c rid = Ok m"
  shows "length (filter is_RequestCheckpoint (snd (run_policy m es))) \<le> 1"
proof -
  have "length (filter is_RequestCheckpoint (snd (run_policy m es))) \<le> checkpoint_budget m"
    unfolding run_policy_def by (rule requests.run_within_budget) (rule policy_inv_enforce [OF assms])
  also have "checkpoint_budget m \<le> 1" by (simp add: checkpoint_budget_def)
  finally show ?thesis .
qed

section \<open>Nothing is killed without a cause\<close>

definition emergency_sample :: "policy_config \<Rightarrow> event \<Rightarrow> bool" where
  "emergency_sample c e \<longleftrightarrow>
     (\<exists>s. e = Sample s \<and> usable_sample c s \<and> pc_emergency_bytes c \<le> the (se_aggregate_bytes s))"

fun failed_actuation :: "event \<Rightarrow> bool" where
  "failed_actuation (ActuationFailed _ _ _) = True"
| "failed_actuation _ = False"

lemma started_dispatch:
  assumes "pm_intervention_started (fst (dispatch_event m e))"
    and "\<not> pm_intervention_started m" and "\<not> failed_actuation e"
  shows "\<exists>a \<in> set (snd (dispatch_event m e)). is_signal a"
proof (cases e)
  case (Sample s)
  with assms show ?thesis
    by (cases "usable_sample (pm_config m) s")
      (auto simp: apply_sample_def apply_missing_def begin_graceful_def Let_def
        split: if_splits policy_mode.splits option.splits)
qed (use assms in \<open>auto simp: apply_tick_def begin_graceful_def start_term_def
       apply_checkpoint_ack_def apply_external_signal_def apply_root_exited_def
       apply_parent_exited_def apply_supervisor_fault_def Let_def
       split: if_splits policy_mode.splits option.splits\<close>)

lemma started_by_signal:
  assumes "pm_intervention_started (fst (apply_event m e))"
    and "\<not> pm_intervention_started m" and "\<not> failed_actuation e"
  shows "\<exists>a \<in> set (snd (apply_event m e)). is_signal a"
proof (cases rule: apply_event_cases [of m e])
  case regressed
  then show ?thesis using assms
    by (auto simp: fail_clock_def Let_def split: if_splits policy_mode.splits)
next
  case dispatched
  then show ?thesis
    using assms started_dispatch [of "m\<lparr>pm_last_event_at := Some (event_at e)\<rparr>" e] by simp
qed (use assms in simp_all)

lemma kill_from_sample:
  assumes "SendKill \<in> set (snd (apply_sample m s))"
  shows "emergency_sample (pm_config m) (Sample s)"
proof (cases "usable_sample (pm_config m) s")
  case False
  with assms show ?thesis
    by (auto simp: apply_sample_def apply_missing_def Let_def split: if_splits policy_mode.splits)
next
  case True
  with assms show ?thesis
    by (auto simp: apply_sample_def begin_graceful_def Let_def emergency_sample_def
        split: if_splits option.splits)
qed

lemma kill_from_dispatch:
  assumes "SendKill \<in> set (snd (dispatch_event m e))" and "policy_inv m"
    and "pm_mode m = EnforceMode" and "\<not> failed_actuation e"
  shows "emergency_sample (pm_config m) e \<or> pm_intervention_started m"
proof (cases e)
  case (Tick t)
  with assms show ?thesis
    by (cases "pm_state m")
      (auto simp: apply_tick_def begin_graceful_def policy_inv_def Let_def split: if_splits option.splits)
qed (use assms kill_from_sample in \<open>auto simp: policy_inv_def apply_checkpoint_ack_def
      apply_external_signal_def apply_root_exited_def apply_parent_exited_def
      apply_supervisor_fault_def Let_def split: if_splits\<close>)

lemma kill_from_step:
  assumes "SendKill \<in> set (snd (apply_event m e))" and "policy_inv m" and "pm_mode m = EnforceMode"
    and "\<not> failed_actuation e"
  shows "emergency_sample (pm_config m) e \<or> pm_intervention_started m"
proof (cases rule: apply_event_cases [of m e])
  case regressed
  then show ?thesis using assms
    by (auto simp: fail_clock_def Let_def split: if_splits policy_mode.splits)
next
  case dispatched
  then show ?thesis
    using assms kill_from_dispatch [of "m\<lparr>pm_last_event_at := Some (event_at e)\<rparr>" e] by simp
qed (use assms in simp_all)

lemma signalled_once_started:
  assumes "\<not> pm_intervention_started m" and "list_all (\<lambda>e. \<not> failed_actuation e) es"
    and "pm_intervention_started (fst (run_policy m es))"
  shows "\<exists>a \<in> set (snd (run_policy m es)). is_signal a"
  using assms(2,3)
proof (induction es rule: rev_induct)
  case (snoc e es)
  then show ?case
    using started_by_signal [of "fst (run_policy m es)" e]
    by (auto simp: run_policy_snoc Let_def)
qed (use assms(1) in simp)

text \<open>C19. KILL is never the first thing that happens to a healthy command: when no actuation has
  failed, a KILL answers a usable sample at or above the emergency threshold, or comes after an
  earlier TERM, forwarded signal or KILL of the same run.\<close>

theorem kill_needs_cause:
  assumes "enforce_with_initial_request_id c rid = Ok m"
    and "list_all (\<lambda>e. \<not> failed_actuation e) (es @ [e])"
    and "SendKill \<in> set (snd (apply_event (fst (run_policy m es)) e))"
  shows "emergency_sample c e \<or> (\<exists>a \<in> set (snd (run_policy m es)). is_signal a)"
proof -
  from assms(1) have m: "pm_mode m = EnforceMode" "pm_config m = c" "\<not> pm_intervention_started m"
    by (auto simp: enforce_with_initial_request_id_def split: if_splits)
  with assms(2,3) policy_inv_enforce [OF assms(1)]
  have "emergency_sample c e \<or> pm_intervention_started (fst (run_policy m es))"
    using kill_from_step [of "fst (run_policy m es)" e] by (simp add: run_policy_inv)
  with m(3) assms(2) signalled_once_started [of m es] show ?thesis by auto
qed

section \<open>Acknowledgements\<close>

lemma active_request_dispatch:
  assumes "pm_active_request_id (fst (dispatch_event m e)) = Some rid"
  shows "pm_active_request_id m = Some rid
    \<or> (\<exists>over d. RequestCheckpoint rid over d \<in> set (snd (dispatch_event m e)))"
proof (cases e)
  case (Sample s)
  with assms show ?thesis
    by (cases "usable_sample (pm_config m) s")
      (auto simp: apply_sample_def apply_missing_def begin_graceful_def Let_def
        split: if_splits policy_mode.splits option.splits)
next
  case (Tick t)
  with assms show ?thesis
    by (cases "pm_state m")
      (auto simp: apply_tick_def begin_graceful_def start_term_def Let_def
        split: if_splits option.splits)
qed (use assms in \<open>auto simp: short_handlers
       apply_supervisor_fault_def Let_def split: if_splits policy_mode.splits\<close>)

lemma active_request_step:
  assumes "pm_active_request_id (fst (apply_event m e)) = Some rid"
  shows "pm_active_request_id m = Some rid
    \<or> (\<exists>over d. RequestCheckpoint rid over d \<in> set (snd (apply_event m e)))"
proof (cases rule: apply_event_cases [of m e])
  case regressed
  then show ?thesis using assms
    by (auto simp: fail_clock_def Let_def split: if_splits policy_mode.splits)
next
  case dispatched
  then show ?thesis
    using assms active_request_dispatch [of "m\<lparr>pm_last_event_at := Some (event_at e)\<rparr>" e rid] by simp
qed (use assms in simp_all)

lemma active_request_run:
  assumes "pm_active_request_id m = None"
    and "pm_active_request_id (fst (run_policy m es)) = Some rid"
  shows "\<exists>over d. RequestCheckpoint rid over d \<in> set (snd (run_policy m es))"
  using assms(2)
proof (induction es rule: rev_induct)
  case (snoc e es)
  then show ?case
    using active_request_step [of "fst (run_policy m es)" e rid]
    by (fastforce simp: run_policy_snoc Let_def)
qed (use assms(1) in simp)

lemma missing_not_acknowledged:
  "SendTerm Disp_AcknowledgedUnverifiedDurability \<notin> set (snd (apply_missing m t))"
  by (simp add: apply_missing_def Let_def split: policy_mode.splits)

lemma graceful_not_acknowledged:
  "d \<noteq> Disp_AcknowledgedUnverifiedDurability \<Longrightarrow>
   SendTerm Disp_AcknowledgedUnverifiedDurability \<notin> set (snd (begin_graceful m t over d))"
  by (simp add: begin_graceful_def Let_def split: option.splits)

lemma acknowledged_dispatch:
  assumes "SendTerm Disp_AcknowledgedUnverifiedDurability \<in> set (snd (dispatch_event m e))"
  shows "\<exists>t rid. e = CheckpointAck t rid True \<and> pm_active_request_id m = Some rid"
proof (cases e)
  case (Sample s)
  with assms show ?thesis
    by (auto simp: apply_sample_def Let_def split_beta missing_not_acknowledged
        graceful_not_acknowledged split: if_splits)
next
  case (Tick t)
  with assms show ?thesis
    by (auto simp: apply_tick_def graceful_not_acknowledged split: if_splits)
qed (use assms in \<open>auto simp: apply_checkpoint_ack_def apply_external_signal_def
       apply_root_exited_def apply_parent_exited_def apply_actuation_failed_def
       apply_supervisor_fault_def Let_def split: if_splits policy_mode.splits\<close>)

text \<open>C21. A TERM labelled as acknowledged really answers an authenticated acknowledgement, and one
  that names a checkpoint request which this run sent earlier.\<close>

theorem acknowledgement_is_genuine:
  assumes "enforce_with_initial_request_id c rid0 = Ok m"
    and "SendTerm Disp_AcknowledgedUnverifiedDurability \<in> set (snd (apply_event (fst (run_policy m es)) e))"
  shows "\<exists>t rid over d. e = CheckpointAck t rid True
    \<and> RequestCheckpoint rid over d \<in> set (snd (run_policy m es))"
proof -
  from assms(1) have none: "pm_active_request_id m = None"
    by (auto simp: enforce_with_initial_request_id_def split: if_splits)
  have "\<exists>t rid. e = CheckpointAck t rid True \<and> pm_active_request_id (fst (run_policy m es)) = Some rid"
  proof (cases rule: apply_event_cases [of "fst (run_policy m es)" e])
    case regressed
    then show ?thesis using assms(2)
      by (auto simp: fail_clock_def Let_def split: if_splits policy_mode.splits)
  next
    case dispatched
    then show ?thesis
      using assms(2) acknowledged_dispatch
        [of "fst (run_policy m es)\<lparr>pm_last_event_at := Some (event_at e)\<rparr>" e] by simp
  qed (use assms(2) in simp_all)
  with active_request_run [OF none] show ?thesis by blast
qed

section \<open>Exits\<close>

fun is_exit_event :: "event \<Rightarrow> bool" where
  "is_exit_event (ProcessExited _ _) = True"
| "is_exit_event _ = False"

fun is_exit_report :: "action \<Rightarrow> bool" where
  "is_exit_report (ReportExit _ _) = True"
| "is_exit_report _ = False"

lemma missing_no_exit_report [simp]:
  "filter is_exit_report (snd (apply_missing m t)) = []"
  "pm_state m \<noteq> Exited \<Longrightarrow> pm_state (fst (apply_missing m t)) \<noteq> Exited"
  by (simp_all add: apply_missing_def Let_def split: policy_mode.splits)

lemma graceful_no_exit_report [simp]:
  "filter is_exit_report (snd (begin_graceful m t over d)) = []"
  "pm_state (fst (begin_graceful m t over d)) \<noteq> Exited"
  by (simp_all add: begin_graceful_def Let_def split: option.splits)

lemma dispatch_no_exit_report:
  assumes "pm_state m \<noteq> Exited"
  shows "filter is_exit_report (snd (dispatch_event m e)) = []
    \<and> pm_state (fst (dispatch_event m e)) \<noteq> Exited"
proof (cases e)
  case (Sample s)
  with assms show ?thesis
    by (cases "usable_sample (pm_config m) s") (simp_all add: apply_sample_def Let_def split_beta)
qed (use assms in \<open>simp_all add: apply_tick_def short_handlers apply_supervisor_fault_def Let_def split: policy_mode.splits\<close>)

lemma exit_step:
  "length (filter is_exit_report (snd (apply_event m e)))
     + (if pm_state m = Exited then 1 else 0)
   = (if pm_state (fst (apply_event m e)) = Exited then 1 else 0)"
  "pm_state (fst (apply_event m e)) = Exited \<longleftrightarrow> pm_state m = Exited \<or> is_exit_event e"
  using dispatch_no_exit_report [of "m\<lparr>pm_last_event_at := Some (event_at e)\<rparr>" e]
  by (cases rule: apply_event_cases [of m e]; cases e;
      simp add: fail_clock_def Let_def split: policy_mode.splits)+

text \<open>The end of the command is reported exactly once, at the first time it is seen, whatever
  arrives before or after.\<close>

theorem exit_reported_exactly_once:
  assumes "enforce_with_initial_request_id c rid = Ok m"
  shows "length (filter is_exit_report (snd (run_policy m es)))
    = (if list_ex is_exit_event es then 1 else 0)"
proof -
  have live: "pm_state m \<noteq> Exited"
    using assms by (auto simp: enforce_with_initial_request_id_def split: if_splits)
  have "length (filter is_exit_report (snd (run_policy m es)))
      = (if pm_state (fst (run_policy m es)) = Exited then 1 else 0)
    \<and> (pm_state (fst (run_policy m es)) = Exited \<longleftrightarrow> list_ex is_exit_event es)"
  proof (induction es rule: rev_induct)
    case (snoc e es)
    then show ?case
      using exit_step [of "fst (run_policy m es)" e]
      by (auto simp: run_policy_snoc Let_def split: if_splits)
  qed (simp add: live)
  then show ?thesis by simp
qed

section \<open>Escalation\<close>

definition grace_open :: "policy_machine \<Rightarrow> dur \<Rightarrow> bool" where
  "grace_open m d \<longleftrightarrow>
     pm_state m \<in> {Terminating, SupervisorError} \<and> pm_intervention_started m
   \<and> pm_term_deadline m = Some d"

lemma grace_open_last_event [simp]:
  "grace_open (m\<lparr>pm_last_event_at := x\<rparr>) d = grace_open m d"
  by (simp add: grace_open_def)

text \<open>The first signal of a shutdown opens a grace period of the configured length.\<close>

lemma missing_opens_grace:
  assumes "a \<in> set (snd (apply_missing m t))" and "graceful_stop a"
  shows "grace_open (fst (apply_missing m t)) (dur_sat_add t (pc_term_grace (pm_config m)))"
  using assms by (auto simp: apply_missing_def grace_open_def Let_def
      split: if_splits policy_mode.splits)

lemma graceful_opens_grace:
  assumes "a \<in> set (snd (begin_graceful m t over d))" and "graceful_stop a"
  shows "grace_open (fst (begin_graceful m t over d)) (dur_sat_add t (pc_term_grace (pm_config m)))"
  using assms by (auto simp: begin_graceful_def grace_open_def Let_def split: option.splits)

lemma stop_opens_grace:
  assumes "a \<in> set (snd (dispatch_event m e))" and "graceful_stop a"
  shows "grace_open (fst (dispatch_event m e))
    (dur_sat_add (event_at e) (pc_term_grace (pm_config m)))"
proof (cases e)
  case (Sample s)
  show ?thesis
  proof (cases "usable_sample (pm_config m) s")
    case False
    with Sample assms show ?thesis by (auto simp: apply_sample_def dest: missing_opens_grace)
  next
    case True
    with Sample assms show ?thesis
      by (auto simp: apply_sample_def Let_def split_beta split: if_splits
          dest!: graceful_opens_grace)
  qed
next
  case (Tick t)
  with assms show ?thesis
    by (auto simp: apply_tick_def start_term_def grace_open_def split: if_splits
        dest: graceful_opens_grace)
qed (use assms in \<open>auto simp: short_handlers grace_open_def
       apply_supervisor_fault_def Let_def split: if_splits policy_mode.splits\<close>)

text \<open>Until that period ends, only a KILL, the end of the command or a failed actuation closes it.\<close>

fun quiet :: "event \<Rightarrow> bool" where
  "quiet (ProcessExited _ _) = False"
| "quiet (ActuationFailed _ _ _) = False"
| "quiet _ = True"

lemma grace_persists_dispatch:
  assumes "grace_open m d" and "quiet e"
  shows "SendKill \<in> set (snd (dispatch_event m e)) \<or> grace_open (fst (dispatch_event m e)) d"
  using assms
  by (cases e)
    (auto simp: grace_open_def apply_sample_def apply_missing_def apply_tick_def Let_def
      apply_checkpoint_ack_def apply_external_signal_def apply_root_exited_def
      apply_parent_exited_def apply_supervisor_fault_def split: policy_mode.splits)

lemma grace_persists:
  assumes "grace_open m d" and "quiet e" and "clock_regressed m (event_at e) = False"
  shows "SendKill \<in> set (snd (apply_event m e))
    \<or> grace_open (fst (apply_event m e)) d \<and> pm_last_event_at (fst (apply_event m e)) = Some (event_at e)"
  using assms grace_persists_dispatch [of "m\<lparr>pm_last_event_at := Some (event_at e)\<rparr>" d e]
  by (cases rule: apply_event_cases [of m e]) (auto simp: grace_open_def)

lemma grace_expires:
  assumes "grace_open m d" and "d \<le> t" and "clock_regressed m t = False"
  shows "SendKill \<in> set (snd (apply_event m (Tick t)))"
  using assms by (auto simp: apply_event_def grace_open_def apply_tick_def)

lemma escalation_run:
  assumes "grace_open m d" and "pm_last_event_at m = Some t0"
    and "list_all quiet fs" and "sorted (t0 # map event_at fs)"
    and "\<forall>x \<in> set (t0 # map event_at fs). x \<le> t" and "d \<le> t"
  shows "SendKill \<in> set (snd (run_policy m (fs @ [Tick t])))"
  using assms
proof (induction fs arbitrary: m t0)
  case Nil
  then show ?case
    using grace_expires [of m d t] by (simp add: run_policy_Cons Let_def clock_regressed_def)
next
  case (Cons f fs)
  from Cons.prems have "clock_regressed m (event_at f) = False" by (simp add: clock_regressed_def)
  with Cons.prems grace_persists [of m d f]
  consider "SendKill \<in> set (snd (apply_event m f))"
    | "grace_open (fst (apply_event m f)) d"
      "pm_last_event_at (fst (apply_event m f)) = Some (event_at f)"
    by auto
  then show ?case
  proof cases
    case 2
    with Cons.IH [OF 2] Cons.prems show ?thesis by (simp add: run_policy_Cons Let_def)
  qed (simp add: run_policy_Cons Let_def)
qed

text \<open>C18. A shutdown that was opened always ends: once TERM or a forwarded signal has been requested
  at some instant, any later sequence of events that ends with a tick at or after that instant plus
  the configured grace has requested KILL, unless the command ended or an actuation failed first.
  Unusable samples, supervisor faults, late acknowledgements and further exits do not postpone it.\<close>

theorem shutdown_escalates_in_time:
  assumes "a \<in> set (snd (apply_event m e))" and "graceful_stop a"
    and "\<not> clock_regressed m (event_at e)"
    and "list_all quiet fs" and "sorted (event_at e # map event_at fs @ [t])"
    and "dur_sat_add (event_at e) (pc_term_grace (pm_config m)) \<le> t"
  shows "SendKill \<in> set (snd (run_policy (fst (apply_event m e)) (fs @ [Tick t])))"
proof -
  have "apply_event m e = dispatch_event (m\<lparr>pm_last_event_at := Some (event_at e)\<rparr>) e"
    using assms(1-3) by (cases rule: apply_event_cases [of m e]) simp_all
  with assms(1,2) stop_opens_grace [of a "m\<lparr>pm_last_event_at := Some (event_at e)\<rparr>" e]
  have "grace_open (fst (apply_event m e)) (dur_sat_add (event_at e) (pc_term_grace (pm_config m)))"
    and "pm_last_event_at (fst (apply_event m e)) = Some (event_at e)" by simp_all
  then show ?thesis
    by (rule escalation_run) (use assms(4-6) in \<open>auto simp: sorted_append\<close>)
qed

section \<open>Counting breaches\<close>

text \<open>
  The reference the breach counter is held against: among the samples that were usable, how many of
  the latest ones in a row were at or above the limit.
\<close>

fun samples_of :: "event list \<Rightarrow> sample_event list" where
  "samples_of [] = []"
| "samples_of (Sample s # es) = s # samples_of es"
| "samples_of (_ # es) = samples_of es"

definition breaching :: "policy_config \<Rightarrow> sample_event \<Rightarrow> bool" where
  "breaching c s \<longleftrightarrow> pc_limit_bytes c \<le> the (se_aggregate_bytes s)"

definition trailing_breaches :: "policy_config \<Rightarrow> sample_event list \<Rightarrow> nat" where
  "trailing_breaches c ss = length (takeWhile (breaching c) (rev (filter (usable_sample c) ss)))"

lemma samples_of_append [simp]: "samples_of (es @ fs) = samples_of es @ samples_of fs"
  by (induction es rule: samples_of.induct) simp_all

lemma trailing_breaches_Nil [simp]: "trailing_breaches c [] = 0"
  by (simp add: trailing_breaches_def)

lemma trailing_breaches_snoc:
  "trailing_breaches c (ss @ [s]) =
     (if \<not> usable_sample c s then trailing_breaches c ss
      else if breaching c s then Suc (trailing_breaches c ss) else 0)"
  by (simp add: trailing_breaches_def)

definition watching :: "policy_machine \<Rightarrow> bool" where
  "watching m \<longleftrightarrow> pm_state m \<in> {Normal, Warning}"

definition streak_is :: "policy_machine \<Rightarrow> sample_event list \<Rightarrow> bool" where
  "streak_is m ss \<longleftrightarrow>
     unat (pm_breach_streak m) = trailing_breaches (pm_config m) ss
   \<and> pm_breach_streak m < pc_required_breach_samples (pm_config m)"

lemma streak_is_last_event [simp]: "streak_is (m\<lparr>pm_last_event_at := x\<rparr>) ss = streak_is m ss"
  by (simp add: streak_is_def)

lemma watching_last_event [simp]: "watching (m\<lparr>pm_last_event_at := x\<rparr>) = watching m"
  by (simp add: watching_def)

lemma watching_inv:
  assumes "policy_inv m" and "watching m"
  shows "pm_mode m = EnforceMode" "\<not> pm_intervention_started m" "valid_config (pm_config m)"
    "pm_state m \<noteq> CheckpointRequested" "pm_state m \<noteq> Exited" "pm_state m \<noteq> SupervisorError"
  using assms by (auto simp: watching_def policy_inv_def)

lemma begin_graceful_unwatches [simp]: "\<not> watching (fst (begin_graceful m t over d))"
  by (simp add: begin_graceful_def watching_def Let_def split: option.splits)

lemma begin_graceful_state [simp]:
  "pm_state (fst (begin_graceful m t over d)) \<noteq> Normal"
  "pm_state (fst (begin_graceful m t over d)) \<noteq> Warning"
  by (simp_all add: begin_graceful_def Let_def split: option.splits)

lemma watching_missing:
  "watching (fst (apply_missing m t)) \<Longrightarrow> watching m"
  by (auto simp: apply_missing_def watching_def Let_def split: if_splits policy_mode.splits)

lemma unat_streak_succ:
  fixes a r :: u32
  assumes "a < r"
  shows "unat (sat_add a 1) = Suc (unat a)"
proof -
  have "unat r < 2 ^ LENGTH(32)" by (rule unsigned_less)
  with assms show ?thesis by (simp add: unat_sat_add word_less_nat_alt)
qed

lemma watching_sample:
  assumes inv: "policy_inv m" and w: "watching m" and st: "streak_is m ss"
    and w': "watching (fst (apply_sample m s))"
  shows "streak_is (fst (apply_sample m s)) (ss @ [s])"
proof (cases "usable_sample (pm_config m) s")
  case False
  then show ?thesis using st by (simp add: apply_sample_def streak_is_def trailing_breaches_snoc)
next
  case True
  then obtain bytes where b: "se_aggregate_bytes s = Some bytes" by (auto simp: usable_sample_def)
  note wi = watching_inv [OF inv w]
  have "pm_breach_streak m < pc_required_breach_samples (pm_config m)" using st by (simp add: streak_is_def)
  note succ = unat_streak_succ [OF this]
  show ?thesis
    using w' st wi True succ
    by (auto simp: apply_sample_watching [OF True wi(1,2) b refl refl] streak_is_def Let_def
        trailing_breaches_snoc breaching_def b watching_def word_le_nat_alt word_less_nat_alt
        valid_config_def split: if_splits)
qed

lemma watching_before_sample:
  assumes "policy_inv m" and "pm_state m \<noteq> Exited" and "pm_mode m = EnforceMode"
    and "watching (fst (apply_sample m s))"
  shows "watching m"
proof (cases "usable_sample (pm_config m) s")
  case False
  with assms(4) show ?thesis by (simp add: apply_sample_def watching_missing)
next
  case True
  with assms show ?thesis
    by (cases "pm_state m") (auto simp: apply_sample_def watching_def Let_def policy_inv_def
        split: if_splits)
qed

lemma watching_dispatch:
  assumes "policy_inv m" and "pm_state m \<noteq> Exited" and "pm_mode m = EnforceMode"
    and "watching (fst (dispatch_event m e))"
  shows "watching m"
    and "streak_is m ss \<Longrightarrow> streak_is (fst (dispatch_event m e)) (ss @ samples_of [e])"
proof -
  show w: "watching m"
  proof (cases e)
    case (Sample s)
    with assms show ?thesis by (simp add: watching_before_sample)
  qed (use assms in \<open>auto simp: watching_def start_term_def apply_checkpoint_ack_def apply_tick_def
      apply_external_signal_def apply_root_exited_def apply_parent_exited_def
      apply_actuation_failed_def apply_supervisor_fault_def Let_def split: if_splits\<close>)
  assume st: "streak_is m ss"
  show "streak_is (fst (dispatch_event m e)) (ss @ samples_of [e])"
  proof (cases e)
    case (Sample s)
    with assms w st show ?thesis by (simp add: watching_sample)
  qed (use assms st in \<open>auto simp: watching_def start_term_def apply_checkpoint_ack_def apply_tick_def
      apply_external_signal_def apply_root_exited_def apply_parent_exited_def
      apply_actuation_failed_def apply_supervisor_fault_def Let_def split: if_splits\<close>)
qed

lemma watching_step:
  assumes "policy_inv m" and "pm_mode m = EnforceMode" and "watching (fst (apply_event m e))"
  shows "watching m \<and> (streak_is m ss \<longrightarrow> streak_is (fst (apply_event m e)) (ss @ samples_of [e]))"
proof (cases rule: apply_event_cases [of m e])
  case regressed
  with assms show ?thesis
    by (cases "pm_state m") (auto simp: fail_clock_def watching_def policy_inv_def Let_def split: if_splits)
next
  case dispatched
  then show ?thesis
    using assms watching_dispatch [of "m\<lparr>pm_last_event_at := Some (event_at e)\<rparr>" e] by simp
qed (use assms in \<open>simp_all add: watching_def\<close>)

lemma streak_run:
  assumes m: "policy_inv m" "pm_mode m = EnforceMode" "streak_is m []"
    and "watching (fst (run_policy m es))"
  shows "streak_is (fst (run_policy m es)) (samples_of es)"
  using assms(4)
proof (induction es rule: rev_induct)
  case (snoc e es)
  then show ?case
    using watching_step [of "fst (run_policy m es)" e "samples_of es"] m(1,2)
    by (simp add: run_policy_snoc Let_def run_policy_inv)
qed (use m(3) in simp)

text \<open>C17. The ordinary limit stops the command for exactly the documented reason. Of a command that
  is still being watched, a usable sample below the emergency threshold starts a shutdown or a
  checkpoint request if and only if it completes the configured number of consecutive breaching
  samples, counted over the usable samples of the whole run: one lone spike never does, and samples
  that could not be used neither add to the count nor reset it.\<close>

theorem breaches_decide_the_stop:
  assumes "enforce_with_initial_request_id c rid = Ok m"
    and "watching (fst (run_policy m es))"
    and "usable_sample c s" and "the (se_aggregate_bytes s) < pc_emergency_bytes c"
    and "\<not> clock_regressed (fst (run_policy m es)) (se_processed_at s)"
  shows "(\<exists>a \<in> set (snd (apply_event (fst (run_policy m es)) (Sample s))).
            graceful_stop a \<or> is_RequestCheckpoint a)
    \<longleftrightarrow> unat (pc_required_breach_samples c) \<le> trailing_breaches c (samples_of es @ [s])"
proof -
  define n where "n = (fst (run_policy m es))\<lparr>pm_last_event_at := Some (se_processed_at s)\<rparr>"
  from assms(1) have m: "pm_mode m = EnforceMode" "pm_config m = c" "valid_config c"
      "pm_breach_streak m = 0"
    by (auto simp: enforce_with_initial_request_id_def split: if_splits)
  have inv: "policy_inv m" using assms(1) by (rule policy_inv_enforce)
  from m have "streak_is m []" by (simp add: streak_is_def valid_config_def)
  with m(1) inv assms(2) have st: "streak_is n (samples_of es)"
    by (simp add: n_def streak_run)
  have winv: "policy_inv n" "watching n" "pm_config n = c"
    using assms(2) inv m by (simp_all add: n_def run_policy_inv)
  note wi = watching_inv [OF winv(1,2)]
  obtain bytes where b: "se_aggregate_bytes s = Some bytes"
    using assms(3) by (auto simp: usable_sample_def)
  have usable: "usable_sample (pm_config n) s" using assms(3) winv by simp
  have "apply_event (fst (run_policy m es)) (Sample s) = apply_sample n s"
    using assms(5) wi by (simp add: apply_event_def n_def)
  moreover have "(\<exists>a \<in> set (snd (apply_sample n s)). graceful_stop a \<or> is_RequestCheckpoint a)
    \<longleftrightarrow> breaching c s \<and> pc_required_breach_samples c \<le> sat_add (pm_breach_streak n) 1"
    using wi(4) assms(4) winv(3)
    by (auto simp: apply_sample_watching [OF usable wi(1,2) b refl refl] Let_def breaching_def b
        begin_graceful_def split: option.splits)
  moreover have "unat (sat_add (pm_breach_streak n) 1) = Suc (trailing_breaches c (samples_of es))"
    using unat_streak_succ [of "pm_breach_streak n" "pc_required_breach_samples c"] st winv(3)
    by (simp add: streak_is_def)
  moreover have "0 < unat (pc_required_breach_samples c)"
    using m(3) by (simp add: valid_config_def word_less_nat_alt)
  ultimately show ?thesis
    using assms(3) by (simp add: trailing_breaches_snoc word_le_nat_alt)
qed

section \<open>Deadlines\<close>

text \<open>The deadline the runtime waits for is the one that matters. A tick at or after
  \<open>next_deadline\<close> always escalates, to TERM from a pending checkpoint request and to KILL from a
  running grace period; a tick before it, and before the wall limit, does nothing at all.\<close>

theorem next_deadline_is_the_escalation:
  assumes "policy_inv m" and "\<not> clock_regressed m t"
  shows "(next_deadline m = Some d \<and> d \<le> t \<longrightarrow>
      snd (apply_event m (Tick t)) =
        (if pm_state m = CheckpointRequested then [SendTerm Disp_TimedOut] else [SendKill])
    \<and> pm_state (fst (apply_event m (Tick t))) =
        (if pm_state m = CheckpointRequested then Terminating else Emergency))
    \<and> ((\<forall>d'. next_deadline m = Some d' \<longrightarrow> t < d') \<and>
       (\<forall>w. pc_wall_time (pm_config m) = Some w \<longrightarrow> t < w) \<longrightarrow>
      snd (apply_event m (Tick t)) = []
    \<and> pm_state (fst (apply_event m (Tick t))) = pm_state m)"
proof (intro conjI impI)
  assume "next_deadline m = Some d \<and> d \<le> t"
  with assms show "snd (apply_event m (Tick t)) =
        (if pm_state m = CheckpointRequested then [SendTerm Disp_TimedOut] else [SendKill])"
    and "pm_state (fst (apply_event m (Tick t))) =
        (if pm_state m = CheckpointRequested then Terminating else Emergency)"
    by (cases "pm_state m"; simp add: apply_event_def apply_tick_def start_term_def)+
next
  assume "(\<forall>d'. next_deadline m = Some d' \<longrightarrow> t < d') \<and>
       (\<forall>w. pc_wall_time (pm_config m) = Some w \<longrightarrow> t < w)"
  with assms show "snd (apply_event m (Tick t)) = []"
    and "pm_state (fst (apply_event m (Tick t))) = pm_state m"
    by (cases "pm_state m"; auto simp: apply_event_def apply_tick_def split: option.splits)+
qed

section \<open>Witnesses\<close>

definition demo_config :: policy_config where
  "demo_config =
    \<lparr>pc_limit_bytes = 1000, pc_warning_bytes = 900, pc_recovery_bytes = 800,
     pc_emergency_bytes = 1100, pc_required_breach_samples = 2, pc_max_missing_samples = 3,
     pc_max_sample_age = 500, pc_max_sample_window = 250, pc_checkpoint_timeout = Some 1000,
     pc_term_grace = 1000, pc_wall_time = Some 5000\<rparr>"

definition demo_machine :: policy_machine where
  "demo_machine =
    \<lparr>pm_mode = EnforceMode, pm_state = Normal, pm_config = demo_config, pm_breach_streak = 0,
     pm_missing_streak = 0, pm_next_request_id = 1, pm_active_request_id = None,
     pm_checkpoint_deadline = None, pm_term_deadline = None, pm_last_event_at = None,
     pm_post_signal_observations = 0, pm_intervention_started = False\<rparr>"

definition demo_sample :: "dur \<Rightarrow> u64 \<Rightarrow> sample_event" where
  "demo_sample t n = \<lparr>se_captured_at = t, se_processed_at = t, se_window = 10, se_aggregate_bytes = Some n\<rparr>"

lemma demo_machine: "enforce_with_initial_request_id demo_config 1 = Ok demo_machine"
  by (simp add: enforce_with_initial_request_id_def valid_config_def demo_config_def demo_machine_def)

lemmas demo_defs = demo_config_def demo_machine_def demo_sample_def

text \<open>Three one-event runs, with the machine each of them ends in.\<close>

definition demo_terminating :: policy_machine where
  "demo_terminating = demo_machine\<lparr>pm_last_event_at := Some 7, pm_state := Terminating,
     pm_intervention_started := True, pm_term_deadline := Some 1007\<rparr>"

definition demo_requested :: policy_machine where
  "demo_requested = demo_machine\<lparr>pm_last_event_at := Some 5000, pm_state := CheckpointRequested,
     pm_next_request_id := 2, pm_active_request_id := Some 1,
     pm_checkpoint_deadline := Some 6000\<rparr>"

definition demo_warned :: policy_machine where
  "demo_warned = demo_machine\<lparr>pm_last_event_at := Some 3, pm_state := Warning,
     pm_breach_streak := 1\<rparr>"

lemma demo_root_exit:
  "apply_event demo_machine (RootExited 7) = (demo_terminating, [SendTerm Disp_SkippedRootExited])"
  by (simp add: demo_defs demo_terminating_def apply_event_def clock_regressed_def
      apply_root_exited_def start_term_def dur_sat_add_def DURATION_MAX_def)

lemma demo_wall_limit:
  "apply_event demo_machine (Tick 5000) = (demo_requested, [RequestCheckpoint 1 0 6000])"
  by (simp add: demo_defs demo_requested_def apply_event_def clock_regressed_def apply_tick_def
      begin_graceful_def dur_sat_add_def DURATION_MAX_def sat_add_def)

lemma demo_breach:
  "apply_event demo_machine (Sample (demo_sample 3 1000)) = (demo_warned, [RecordObservation])"
  by (simp add: demo_defs demo_warned_def apply_event_def clock_regressed_def apply_sample_def
      usable_sample_def dur_sat_sub_def sat_add_def word_le_nat_alt)

lemma demo_fields [simp]:
  "pm_config demo_machine = demo_config" "pm_last_event_at demo_machine = None"
  by (simp_all add: demo_machine_def)

lemma demo_sample_fields [simp]:
  "se_captured_at (demo_sample t n) = t" "se_processed_at (demo_sample t n) = t"
  "se_window (demo_sample t n) = 10" "se_aggregate_bytes (demo_sample t n) = Some n"
  by (simp_all add: demo_sample_def)

lemmas demo_steps = demo_root_exit demo_wall_limit demo_breach

lemma demo_runs [simp]:
  "run_policy demo_machine [RootExited 7] = (demo_terminating, [SendTerm Disp_SkippedRootExited])"
  "run_policy demo_machine [Tick 5000] = (demo_requested, [RequestCheckpoint 1 0 6000])"
  "run_policy demo_machine [Sample (demo_sample 3 1000)] = (demo_warned, [RecordObservation])"
  by (simp_all add: run_policy_Cons demo_steps Let_def)

theorem observe_mode_never_intervenes_witness:
  "list_all harmless (snd (run_policy (policy_observe 500 250 3)
     [Sample (demo_sample 5 (- 1)), Tick 90000, SupervisorFault 90001, RootExited 90002]))"
  by (rule observe_mode_never_intervenes) simp

theorem one_graceful_stop_per_run_witness:
  "length (filter graceful_stop (snd (run_policy demo_machine [RootExited 7, Tick 9000]))) \<le> 1"
  by (rule one_graceful_stop_per_run [OF demo_machine])

theorem one_checkpoint_request_per_run_witness:
  "length (filter is_RequestCheckpoint (snd (run_policy demo_machine [Tick 5000, Tick 9000]))) \<le> 1"
  by (rule one_checkpoint_request_per_run [OF demo_machine])

theorem kill_needs_cause_witness:
  "emergency_sample demo_config (Tick 1007)
   \<or> (\<exists>a \<in> set (snd (run_policy demo_machine [RootExited 7])). is_signal a)"
  by (rule kill_needs_cause [OF demo_machine])
    (simp_all add: demo_terminating_def apply_event_def clock_regressed_def apply_tick_def)

theorem acknowledgement_is_genuine_witness:
  "\<exists>t rid over d. CheckpointAck 5003 1 True = CheckpointAck t rid True
    \<and> RequestCheckpoint rid over d \<in> set (snd (run_policy demo_machine [Tick 5000]))"
  by (rule acknowledgement_is_genuine [OF demo_machine])
    (simp add: demo_requested_def apply_event_def clock_regressed_def apply_checkpoint_ack_def)

theorem exit_reported_exactly_once_witness:
  "length (filter is_exit_report (snd (run_policy demo_machine
     [RootExited 7, ProcessExited 1500 None, ProcessExited 1501 None]))) = 1"
  using exit_reported_exactly_once
    [OF demo_machine, of "[RootExited 7, ProcessExited 1500 None, ProcessExited 1501 None]"]
  by simp

theorem shutdown_escalates_in_time_witness:
  "SendKill \<in> set (snd (run_policy (fst (apply_event demo_machine (RootExited 7)))
     ([SupervisorFault 8, Tick 500] @ [Tick 1007])))"
  by (rule shutdown_escalates_in_time [where a = "SendTerm Disp_SkippedRootExited"])
    (simp_all add: demo_root_exit demo_config_def clock_regressed_def dur_sat_add_def DURATION_MAX_def)

theorem breaches_decide_the_stop_witness:
  "(\<exists>a \<in> set (snd (apply_event (fst (run_policy demo_machine [Sample (demo_sample 3 1000)]))
      (Sample (demo_sample 4 1050)))). graceful_stop a \<or> is_RequestCheckpoint a)
   \<longleftrightarrow> unat (pc_required_breach_samples demo_config)
       \<le> trailing_breaches demo_config (samples_of [Sample (demo_sample 3 1000)] @ [demo_sample 4 1050])"
  by (rule breaches_decide_the_stop [OF demo_machine])
    (simp_all add: demo_warned_def watching_def demo_config_def usable_sample_def
      dur_sat_sub_def clock_regressed_def)

theorem next_deadline_is_the_escalation_witness:
  "snd (apply_event (fst (run_policy demo_machine [RootExited 7])) (Tick 1007)) = [SendKill]"
proof -
  have "policy_inv (fst (run_policy demo_machine [RootExited 7]))"
    by (rule run_policy_inv) (rule policy_inv_enforce [OF demo_machine])
  moreover have "\<not> clock_regressed demo_terminating 1007"
    by (simp add: clock_regressed_def demo_terminating_def)
  ultimately show ?thesis
    using next_deadline_is_the_escalation [of demo_terminating 1007 1007]
    by (simp add: demo_terminating_def)
qed

end
