(* ===== verification/Policy_Refinement.thy ===== *)
theory Policy_Refinement
  imports Policy_Props
begin

text \<open>
  The phases of the policy contract (\<^verbatim>\<open>docs/POLICY.md\<close>, "States and transitions"): which
  phase an event can lead to and which intervention it then demands, without the conditions, and
  the lemma that every \<open>apply\<close> of the code's machine is such a move or a stutter that demands
  nothing. It is what the proofs about shutdown and about whole runs need of the table; the
  contract with its conditions is in \<open>Policy_Contract\<close>. Rules marked "code" are moves for which
  the table has no row, or a narrower one.
\<close>

section \<open>The moves between phases\<close>

text \<open>The interventions a step demands, with what the table does not mention left out.\<close>

datatype demand = Ask_Checkpoint | Send_Term | Send_Kill | Forward

fun demand_of :: "action \<Rightarrow> demand list" where
  "demand_of (RequestCheckpoint _ _ _) = [Ask_Checkpoint]"
| "demand_of (SendTerm _) = [Send_Term]"
| "demand_of SendKill = [Send_Kill]"
| "demand_of (ForwardSignal _) = [Forward]"
| "demand_of _ = []"

definition demands :: "action list \<Rightarrow> demand list" where
  "demands acts = concat (map demand_of acts)"

lemma demands_simps [simp]:
  "demands [] = []" "demands (a # as) = demand_of a @ demands as"
  "demands (as @ bs) = demands as @ demands bs"
  by (simp_all add: demands_def)

inductive phase_step :: "policy_state \<Rightarrow> event \<Rightarrow> demand list \<Rightarrow> policy_state \<Rightarrow> bool" where
  warn: "st \<in> {Normal, Warning} \<Longrightarrow> phase_step st (Sample s) [] Warning"
| recover: "st \<in> {Normal, Warning} \<Longrightarrow> phase_step st (Sample s) [] Normal"
| breach_checkpoint: "st \<in> {Normal, Warning} \<Longrightarrow>
    phase_step st (Sample s) [Ask_Checkpoint] CheckpointRequested"
| breach_term: "st \<in> {Normal, Warning} \<Longrightarrow> phase_step st (Sample s) [Send_Term] Terminating"
| emergency: "st \<in> {Normal, Warning} \<Longrightarrow> phase_step st (Sample s) [Send_Kill] Emergency"
| emergency_code: "phase_step CheckpointRequested (Sample s) [Send_Kill] Emergency"
| wall_checkpoint: "st \<in> {Normal, Warning} \<Longrightarrow>
    phase_step st (Tick t) [Ask_Checkpoint] CheckpointRequested"
| wall_term: "st \<in> {Normal, Warning} \<Longrightarrow> phase_step st (Tick t) [Send_Term] Terminating"
| acknowledged: "phase_step CheckpointRequested (CheckpointAck t rid True) [Send_Term] Terminating"
| checkpoint_deadline: "phase_step CheckpointRequested (Tick t) [Send_Term] Terminating"
| checkpoint_failure: "phase_step CheckpointRequested (ActuationFailed t KCheckpoint f) [Send_Term] Terminating"
| grace_over: "st \<in> {Terminating, SupervisorError} \<Longrightarrow> phase_step st (Tick t) [Send_Kill] Emergency"
| term_failure: "k \<in> {KTerm, KForwardSignal} \<Longrightarrow> st \<noteq> Exited \<Longrightarrow>
    phase_step st (ActuationFailed t k f) [Send_Kill] Emergency"
| failure: "k \<in> {KKill, KCheckpoint} \<Longrightarrow> st \<noteq> Exited \<Longrightarrow>
    phase_step st (ActuationFailed t k f) [] SupervisorError"
| signal: "st \<in> {Observe, Normal, Warning, CheckpointRequested} \<Longrightarrow>
    phase_step st (ExternalSignal t sig) [Forward] Terminating"
| repeated_signal: "st \<in> {Terminating, SupervisorError, Emergency} \<Longrightarrow>
    phase_step st (ExternalSignal t sig) [Send_Kill] Emergency"
| exits: "st \<noteq> Exited \<Longrightarrow> phase_step st (ProcessExited t n) [] Exited"
| root_exit: "st \<in> {Normal, Warning, CheckpointRequested} \<Longrightarrow>
    phase_step st (RootExited t) [Send_Term] Terminating"
| parent_exit: "st \<in> {Normal, Warning} \<Longrightarrow> phase_step st (ParentExited t) [Send_Term] Terminating"
| missing: "st \<in> {Normal, Warning, CheckpointRequested} \<Longrightarrow>
    phase_step st (Sample s) [Send_Term] SupervisorError"
| missing_observe: "phase_step Observe (Sample s) [] SupervisorError"
| clock: "st \<in> {Normal, Warning, CheckpointRequested} \<Longrightarrow> phase_step st e [Send_Term] SupervisorError"
| clock_observe: "phase_step Observe e [] SupervisorError"
| fault: "st \<in> {Normal, Warning, CheckpointRequested} \<Longrightarrow>
    phase_step st (SupervisorFault t) [Send_Term] SupervisorError"
| fault_quiet: "st \<in> {Observe, Terminating, Emergency, SupervisorError} \<Longrightarrow>
    phase_step st (SupervisorFault t) [] SupervisorError"

inductive_cases phase_step_exitedE: "phase_step Exited e ds st"
inductive_simps phase_step_parent: "phase_step st (ParentExited t) ds st'"

text \<open>One step of the machine, seen through the table.\<close>

definition documented :: "policy_machine \<Rightarrow> event \<Rightarrow> policy_machine \<times> action list \<Rightarrow> bool" where
  "documented m e r \<longleftrightarrow>
     phase_step (pm_state m) e (demands (snd r)) (pm_state (fst r))
   \<or> pm_state (fst r) = pm_state m \<and> demands (snd r) = []"

lemma documented_last_event [simp]:
  "documented (m\<lparr>pm_last_event_at := x\<rparr>) e r = documented m e r"
  by (simp add: documented_def)

section \<open>Every handler follows it\<close>

lemma documented_missing:
  assumes "policy_inv m" and "pm_state m \<noteq> Exited"
  shows "documented m (Sample s) (apply_missing m t)"
  using assms
  by (cases "pm_state m"; cases "pm_intervention_started m"; cases "pm_mode m")
    (auto simp: policy_inv_def documented_def apply_missing_def Let_def
      intro: phase_step.missing phase_step.missing_observe)

lemma documented_watching:
  assumes inv: "policy_inv m" and live: "pm_state m \<noteq> Exited" and usable: "usable_sample (pm_config m) s"
    and mode: "pm_mode m = EnforceMode" and fresh: "\<not> pm_intervention_started m"
  shows "documented m (Sample s) (apply_sample m s)"
proof -
  from usable obtain bytes where b: "se_aggregate_bytes s = Some bytes" by (auto simp: usable_sample_def)
  note eq = apply_sample_watching [OF usable mode fresh b refl refl]
  from watching_or_checkpoint(1) [OF inv mode fresh live] show ?thesis
    by (auto simp: eq documented_def begin_graceful_def Let_def split: option.splits
        intro: phase_step.intros)
qed

lemma documented_sample:
  assumes "policy_inv m" and "pm_state m \<noteq> Exited"
  shows "documented m (Sample s) (apply_sample m s)"
proof (cases "usable_sample (pm_config m) s")
  case False
  then show ?thesis using documented_missing assms by (simp add: apply_sample_def)
next
  case True
  show ?thesis
  proof (cases "pm_mode m = ObserveMode \<or> pm_intervention_started m")
    case inactive: True
    show ?thesis by (simp add: apply_sample_passive [OF True inactive] documented_def)
  next
    case False
    then show ?thesis using documented_watching [OF assms True] by (cases "pm_mode m") simp_all
  qed
qed

lemma documented_dispatch:
  assumes "policy_inv m" and "pm_state m \<noteq> Exited"
  shows "documented m e (dispatch_event m e)"
proof (cases e)
  case (Sample s)
  then show ?thesis using documented_sample assms by simp
next
  case (Tick t)
  with assms show ?thesis
    by (cases "pm_state m")
      (auto simp: apply_tick_def documented_def start_term_def begin_graceful_def Let_def
        intro: phase_step.intros split: option.splits)
next
  case (ExternalSignal t sig)
  with assms show ?thesis
    by (cases "pm_state m")
      (auto simp: apply_external_signal_def documented_def start_term_def intro: phase_step.intros)
next
  case (ActuationFailed t k f)
  with assms show ?thesis
    by (cases k) (auto simp: apply_actuation_failed_def documented_def start_term_def Let_def
        intro: phase_step.checkpoint_failure phase_step.term_failure phase_step.failure)
next
  case (SupervisorFault t)
  with assms show ?thesis
    by (cases "pm_state m"; cases "pm_mode m"; cases "pm_intervention_started m")
      (auto simp: apply_supervisor_fault_def documented_def policy_inv_def Let_def
        intro: phase_step.fault phase_step.fault_quiet)
next
  case (CheckpointAck t rid auth)
  with assms show ?thesis
    by (auto simp: apply_checkpoint_ack_def documented_def start_term_def
        intro: phase_step.acknowledged)
qed (use assms in \<open>auto simp: apply_root_exited_def apply_parent_exited_def documented_def
      start_term_def intro: phase_step.root_exit phase_step.parent_exit\<close>)

lemma documented_fail_clock:
  assumes "policy_inv m" and "pm_state m \<noteq> Exited"
  shows "documented m e (fail_clock m)"
  using assms
  by (cases "pm_state m"; cases "pm_mode m")
    (auto simp: fail_clock_def documented_def policy_inv_def Let_def
      intro: phase_step.clock phase_step.clock_observe)

lemma documented_step:
  assumes "policy_inv m"
  shows "documented m e (apply_event m e)"
proof (cases rule: apply_event_cases [of m e])
  case exited
  then show ?thesis by (simp add: documented_def)
next
  case (exit t f)
  then show ?thesis by (simp add: documented_def phase_step.exits)
next
  case regressed
  then show ?thesis using assms by (simp add: documented_fail_clock)
next
  case dispatched
  then show ?thesis
    using assms documented_dispatch [of "m\<lparr>pm_last_event_at := Some (event_at e)\<rparr>" e] by simp
qed

section \<open>Progress\<close>

fun stage :: "policy_state \<Rightarrow> nat" where
  "stage Observe = 0" | "stage Normal = 0" | "stage Warning = 0"
| "stage CheckpointRequested = 1"
| "stage Terminating = 2" | "stage Emergency = 2" | "stage SupervisorError = 2"
| "stage Exited = 3"

lemma phase_step_stage: "phase_step st e ds st' \<Longrightarrow> stage st \<le> stage st'"
proof (induction rule: phase_step.induct)
  case (term_failure k st t f)
  then show ?case by (cases st) simp_all
next
  case (failure k st t f)
  then show ?case by (cases st) simp_all
next
  case (exits st t n)
  then show ?case by (cases st) simp_all
qed auto

lemma documented_step_stage:
  "policy_inv m \<Longrightarrow> stage (pm_state m) \<le> stage (pm_state (fst (apply_event m e)))"
  using documented_step [of m e] by (auto simp: documented_def dest: phase_step_stage)

text \<open>A run never goes back: a command that was asked for a checkpoint is not watched again, a
  shutdown is not called off, and an exit is final. Only within the watching phases may the machine
  move between normal and warning.\<close>

theorem policy_never_goes_back:
  assumes "policy_inv m"
  shows "stage (pm_state (fst (run_policy m es))) \<le> stage (pm_state (fst (run_policy m (es @ fs))))"
proof (induction fs rule: rev_induct)
  case (snoc f fs)
  have "policy_inv (fst (run_policy m (es @ fs)))" using assms by (rule run_policy_inv)
  from documented_step_stage [OF this, of f] snoc show ?case
    by (simp add: run_policy_snoc Let_def flip: append_assoc)
qed simp

section \<open>Witnesses\<close>

theorem policy_never_goes_back_witness:
  "stage (pm_state (fst (run_policy demo_machine [RootExited 7])))
   \<le> stage (pm_state (fst (run_policy demo_machine ([RootExited 7] @ [ExternalSignal 8 (SignalNumber 2)]))))"
  by (rule policy_never_goes_back) (rule policy_inv_enforce [OF demo_machine])

end
