(* ===== verification/Policy_Contract.thy ===== *)
theory Policy_Contract
  imports Policy_Refinement
begin

text \<open>
  The policy contract of \<^verbatim>\<open>docs/POLICY.md\<close> with every condition it states, and the proof that the
  machine of \<open>apply_event\<close> does at each event exactly what the contract allows. The contract is an
  abstract machine of its own: it counts breaches and missing samples without a bound, knows a
  single request identifier, and keeps one record of the pending request and one of the end of the
  grace period. Each rule of \<open>contract_row\<close> is a row of the table, or a sentence of the document
  below it, with its threshold, count, deadline or limit as the premise; rules whose name ends in
  "code", and the remarks that begin so, are behaviour for which the document has no row. An event
  leaves the contract unchanged only by a rule whose premise says that nothing was due.
\<close>

section \<open>The contract\<close>

record contract =
  ct_phase :: policy_state
  ct_breaches :: nat
  ct_missing :: nat
  ct_request :: "(u64 \<times> dur) option"
  ct_kill_at :: "dur option"
  ct_clock :: "dur option"

definition contract_start :: "policy_mode \<Rightarrow> contract" where
  "contract_start mode =
     \<lparr>ct_phase = (case mode of ObserveMode \<Rightarrow> Observe | EnforceMode \<Rightarrow> Normal),
      ct_breaches = 0, ct_missing = 0, ct_request = None, ct_kill_at = None, ct_clock = None\<rparr>"

abbreviation watching :: "contract \<Rightarrow> bool" where
  "watching ct \<equiv> ct_phase ct \<in> {Normal, Warning}"

abbreviation supervised :: "contract \<Rightarrow> bool" where
  "supervised ct \<equiv> ct_phase ct \<in> {Normal, Warning, CheckpointRequested}"

abbreviation intervening :: "contract \<Rightarrow> bool" where
  "intervening ct \<equiv> ct_phase ct \<in> {Terminating, Emergency, SupervisorError}"

text \<open>"A sample is usable only when it contains an aggregate, was captured no later than it was
  processed, is no older than the configured maximum age, and fits inside the configured collection
  window."\<close>

definition reads :: "policy_config \<Rightarrow> sample_event \<Rightarrow> u64 \<Rightarrow> bool" where
  "reads cfg s b \<longleftrightarrow>
     se_aggregate_bytes s = Some b
   \<and> se_captured_at s \<le> se_processed_at s
   \<and> se_processed_at s \<le> se_captured_at s + pc_max_sample_age cfg
   \<and> se_window s \<le> pc_max_sample_window cfg"

definition reached :: "dur option \<Rightarrow> dur \<Rightarrow> bool" where
  "reached deadline t \<longleftrightarrow> (\<exists>d. deadline = Some d \<and> d \<le> t)"

text \<open>The two ways a shutdown begins: a checkpoint request, or TERM with its grace period.\<close>

definition requested :: "u64 \<Rightarrow> dur \<Rightarrow> dur \<Rightarrow> contract \<Rightarrow> contract" where
  "requested rid t timeout ct =
     ct\<lparr>ct_phase := CheckpointRequested, ct_request := Some (rid, dur_sat_add t timeout)\<rparr>"

definition graced :: "policy_config \<Rightarrow> policy_state \<Rightarrow> dur \<Rightarrow> contract \<Rightarrow> contract" where
  "graced cfg phase t ct =
     ct\<lparr>ct_phase := phase, ct_kill_at := Some (dur_sat_add t (pc_term_grace cfg))\<rparr>"

inductive contract_row ::
    "policy_mode \<Rightarrow> policy_config \<Rightarrow> u64 \<Rightarrow> contract \<Rightarrow> event \<Rightarrow> action list \<Rightarrow> contract \<Rightarrow> bool"
  for mode cfg rid where
  \<comment> \<open>valid samples\<close>
  record_only: "reads cfg s b \<Longrightarrow> ct_phase ct = Observe \<or> intervening ct \<Longrightarrow>
    contract_row mode cfg rid ct (Sample s) [RecordObservation] (ct\<lparr>ct_missing := 0\<rparr>)"
  \<comment> \<open>code: the KILL is sent while a checkpoint request is pending as well\<close>
| emergency_reached: "reads cfg s b \<Longrightarrow> supervised ct \<Longrightarrow> pc_emergency_bytes cfg \<le> b \<Longrightarrow>
    contract_row mode cfg rid ct (Sample s)
      [RecordObservation, SendKill, RecordOvershoot (b - pc_limit_bytes cfg)]
      (ct\<lparr>ct_missing := 0, ct_phase := Emergency\<rparr>)"
| request_pending: "reads cfg s b \<Longrightarrow> ct_phase ct = CheckpointRequested \<Longrightarrow>
    b < pc_emergency_bytes cfg \<Longrightarrow>
    contract_row mode cfg rid ct (Sample s) [RecordObservation] (ct\<lparr>ct_missing := 0\<rparr>)"
| breach_counted: "reads cfg s b \<Longrightarrow> watching ct \<Longrightarrow>
    pc_limit_bytes cfg \<le> b \<Longrightarrow> b < pc_emergency_bytes cfg \<Longrightarrow>
    Suc (ct_breaches ct) < unat (pc_required_breach_samples cfg) \<Longrightarrow>
    contract_row mode cfg rid ct (Sample s) [RecordObservation]
      (ct\<lparr>ct_missing := 0, ct_phase := Warning, ct_breaches := Suc (ct_breaches ct)\<rparr>)"
  \<comment> \<open>code: where one breach is enough, the next two rows start from normal as well\<close>
| breaches_request: "reads cfg s b \<Longrightarrow> watching ct \<Longrightarrow>
    pc_limit_bytes cfg \<le> b \<Longrightarrow> b < pc_emergency_bytes cfg \<Longrightarrow>
    unat (pc_required_breach_samples cfg) \<le> Suc (ct_breaches ct) \<Longrightarrow>
    pc_checkpoint_timeout cfg = Some timeout \<Longrightarrow>
    contract_row mode cfg rid ct (Sample s)
      [RecordObservation,
       RequestCheckpoint rid (b - pc_limit_bytes cfg) (dur_sat_add (se_processed_at s) timeout)]
      (requested rid (se_processed_at s) timeout
        (ct\<lparr>ct_missing := 0, ct_breaches := Suc (ct_breaches ct)\<rparr>))"
| breaches_term: "reads cfg s b \<Longrightarrow> watching ct \<Longrightarrow>
    pc_limit_bytes cfg \<le> b \<Longrightarrow> b < pc_emergency_bytes cfg \<Longrightarrow>
    unat (pc_required_breach_samples cfg) \<le> Suc (ct_breaches ct) \<Longrightarrow>
    pc_checkpoint_timeout cfg = None \<Longrightarrow>
    contract_row mode cfg rid ct (Sample s)
      [RecordObservation, SendTerm Disp_SkippedNotNegotiated,
       RecordOvershoot (b - pc_limit_bytes cfg)]
      (graced cfg Terminating (se_processed_at s)
        (ct\<lparr>ct_missing := 0, ct_breaches := Suc (ct_breaches ct)\<rparr>))"
| warned: "reads cfg s b \<Longrightarrow> watching ct \<Longrightarrow>
    pc_warning_bytes cfg \<le> b \<Longrightarrow> b < pc_limit_bytes cfg \<Longrightarrow>
    contract_row mode cfg rid ct (Sample s) [RecordObservation]
      (ct\<lparr>ct_missing := 0, ct_breaches := 0, ct_phase := Warning\<rparr>)"
| retained: "reads cfg s b \<Longrightarrow> watching ct \<Longrightarrow>
    pc_recovery_bytes cfg < b \<Longrightarrow> b < pc_warning_bytes cfg \<Longrightarrow>
    contract_row mode cfg rid ct (Sample s) [RecordObservation]
      (ct\<lparr>ct_missing := 0, ct_breaches := 0\<rparr>)"
| recovered: "reads cfg s b \<Longrightarrow> watching ct \<Longrightarrow> b \<le> pc_recovery_bytes cfg \<Longrightarrow>
    contract_row mode cfg rid ct (Sample s) [RecordObservation]
      (ct\<lparr>ct_missing := 0, ct_breaches := 0, ct_phase := Normal\<rparr>)"
  \<comment> \<open>missing, stale, reversed or wide samples; code: once an intervention began they are only recorded\<close>
| missing_tolerated: "\<nexists>b. reads cfg s b \<Longrightarrow>
    Suc (ct_missing ct) < unat (pc_max_missing_samples cfg) \<or> intervening ct \<Longrightarrow>
    contract_row mode cfg rid ct (Sample s) [RecordMissing]
      (ct\<lparr>ct_missing := Suc (ct_missing ct)\<rparr>)"
| missing_stops_observing: "\<nexists>b. reads cfg s b \<Longrightarrow> ct_phase ct = Observe \<Longrightarrow>
    unat (pc_max_missing_samples cfg) \<le> Suc (ct_missing ct) \<Longrightarrow>
    contract_row mode cfg rid ct (Sample s) [RecordMissing, StopObserving]
      (ct\<lparr>ct_missing := Suc (ct_missing ct), ct_phase := SupervisorError\<rparr>)"
| missing_fails_closed: "\<nexists>b. reads cfg s b \<Longrightarrow> supervised ct \<Longrightarrow>
    unat (pc_max_missing_samples cfg) \<le> Suc (ct_missing ct) \<Longrightarrow>
    contract_row mode cfg rid ct (Sample s)
      [RecordMissing, SendTerm Disp_SkippedObservationFailure]
      (graced cfg SupervisorError (se_processed_at s)
        (ct\<lparr>ct_missing := Suc (ct_missing ct)\<rparr>))"
  \<comment> \<open>ticks\<close>
| wall_requests: "watching ct \<Longrightarrow> reached (pc_wall_time cfg) t \<Longrightarrow>
    pc_checkpoint_timeout cfg = Some timeout \<Longrightarrow>
    contract_row mode cfg rid ct (Tick t)
      [RequestCheckpoint rid 0 (dur_sat_add t timeout)] (requested rid t timeout ct)"
| wall_terminates: "watching ct \<Longrightarrow> reached (pc_wall_time cfg) t \<Longrightarrow>
    pc_checkpoint_timeout cfg = None \<Longrightarrow>
    contract_row mode cfg rid ct (Tick t) [SendTerm Disp_SkippedNotNegotiated]
      (graced cfg Terminating t ct)"
| checkpoint_timed_out: "ct_phase ct = CheckpointRequested \<Longrightarrow>
    reached (map_option snd (ct_request ct)) t \<Longrightarrow>
    contract_row mode cfg rid ct (Tick t) [SendTerm Disp_TimedOut] (graced cfg Terminating t ct)"
| grace_reached: "ct_phase ct \<in> {Terminating, SupervisorError} \<Longrightarrow> reached (ct_kill_at ct) t \<Longrightarrow>
    contract_row mode cfg rid ct (Tick t) [SendKill] (ct\<lparr>ct_phase := Emergency\<rparr>)"
| nothing_due:
    "watching ct \<Longrightarrow> \<not> reached (pc_wall_time cfg) t \<Longrightarrow> contract_row mode cfg rid ct (Tick t) [] ct"
| timeout_not_due: "ct_phase ct = CheckpointRequested \<Longrightarrow>
    \<not> reached (map_option snd (ct_request ct)) t \<Longrightarrow> contract_row mode cfg rid ct (Tick t) [] ct"
| grace_not_due: "ct_phase ct \<in> {Terminating, SupervisorError} \<Longrightarrow> \<not> reached (ct_kill_at ct) t \<Longrightarrow>
    contract_row mode cfg rid ct (Tick t) [] ct"
| no_deadline: "ct_phase ct \<in> {Observe, Emergency} \<Longrightarrow> contract_row mode cfg rid ct (Tick t) [] ct"
  \<comment> \<open>acknowledgements; code: one that arrives before the tick that notices the timeout counts\<close>
| acknowledged: "ct_phase ct = CheckpointRequested \<Longrightarrow> ct_request ct = Some (i, d) \<Longrightarrow>
    contract_row mode cfg rid ct (CheckpointAck t i True)
      [SendTerm Disp_AcknowledgedUnverifiedDurability] (graced cfg Terminating t ct)"
| not_acknowledged: "\<not> auth \<or> ct_phase ct \<noteq> CheckpointRequested
      \<or> map_option fst (ct_request ct) \<noteq> Some i \<Longrightarrow>
    contract_row mode cfg rid ct (CheckpointAck t i auth) [] ct"
  \<comment> \<open>failed deliveries\<close>
| checkpoint_failed: "ct_phase ct = CheckpointRequested \<Longrightarrow>
    contract_row mode cfg rid ct (ActuationFailed t KCheckpoint f)
      [SendTerm Disp_SkippedCheckpointFailure] (graced cfg Terminating t ct)"
| checkpoint_failed_code: "ct_phase ct \<noteq> CheckpointRequested \<Longrightarrow>
    contract_row mode cfg rid ct (ActuationFailed t KCheckpoint f)
      [ReportSupervisorError KCheckpoint f] (ct\<lparr>ct_phase := SupervisorError, ct_kill_at := None\<rparr>)"
  \<comment> \<open>code: a failed TERM or KILL is answered in every phase, not only in the one that sends it\<close>
| term_failed: "contract_row mode cfg rid ct (ActuationFailed t KTerm f) [SendKill]
      (ct\<lparr>ct_phase := Emergency, ct_kill_at := None\<rparr>)"
| forward_failed_code: "contract_row mode cfg rid ct (ActuationFailed t KForwardSignal f) [SendKill]
      (ct\<lparr>ct_phase := Emergency, ct_kill_at := None\<rparr>)"
| kill_failed: "contract_row mode cfg rid ct (ActuationFailed t KKill f)
      [ReportSupervisorError KKill f] (ct\<lparr>ct_phase := SupervisorError, ct_kill_at := None\<rparr>)"
  \<comment> \<open>terminal signals\<close>
| first_signal_code: "ct_phase ct = Observe \<or> supervised ct \<Longrightarrow>
    contract_row mode cfg rid ct (ExternalSignal t sig) [ForwardSignal sig]
      (graced cfg Terminating t ct)"
  \<comment> \<open>code: in observe mode the supervisor-error phase counts as an intervention\<close>
| repeated_signal: "intervening ct \<Longrightarrow>
    contract_row mode cfg rid ct (ExternalSignal t sig) [SendKill] (ct\<lparr>ct_phase := Emergency\<rparr>)"
  \<comment> \<open>exits of the root and of the launching parent\<close>
| root_cleanup: "supervised ct \<Longrightarrow>
    contract_row mode cfg rid ct (RootExited t) [SendTerm Disp_SkippedRootExited]
      (graced cfg Terminating t ct)"
| root_ignored: "\<not> supervised ct \<Longrightarrow> contract_row mode cfg rid ct (RootExited t) [] ct"
| parent_shutdown: "watching ct \<Longrightarrow>
    contract_row mode cfg rid ct (ParentExited t) [SendTerm Disp_SkippedParentExited]
      (graced cfg Terminating t ct)"
| parent_ignored: "\<not> watching ct \<Longrightarrow> contract_row mode cfg rid ct (ParentExited t) [] ct"
  \<comment> \<open>faults of the supervisor itself\<close>
| fault_observed_code: "mode = ObserveMode \<Longrightarrow>
    contract_row mode cfg rid ct (SupervisorFault t) [StopObserving]
      (ct\<lparr>ct_phase := SupervisorError\<rparr>)"
| fault_term_code: "mode = EnforceMode \<Longrightarrow> supervised ct \<Longrightarrow>
    contract_row mode cfg rid ct (SupervisorFault t) [SendTerm Disp_SkippedSupervisorFailure]
      (graced cfg SupervisorError t ct)"
| fault_recorded_code: "mode = EnforceMode \<Longrightarrow> intervening ct \<Longrightarrow>
    contract_row mode cfg rid ct (SupervisorFault t) [] (ct\<lparr>ct_phase := SupervisorError\<rparr>)"

text \<open>The rows apply while the command runs and the clock does not go back: "a monotonic clock
  regression causes the same failure immediately because existing deadlines can no longer be
  trusted", so its grace period counts from the last reading before it. An exit is final.\<close>

definition regressed :: "contract \<Rightarrow> event \<Rightarrow> bool" where
  "regressed ct e \<longleftrightarrow> (\<exists>previous. ct_clock ct = Some previous \<and> event_at e < previous)"

fun is_exit :: "event \<Rightarrow> bool" where
  "is_exit (ProcessExited _ _) = True"
| "is_exit _ = False"

inductive contract_step ::
    "policy_mode \<Rightarrow> policy_config \<Rightarrow> u64 \<Rightarrow> contract \<Rightarrow> event \<Rightarrow> action list \<Rightarrow> contract \<Rightarrow> bool"
  for mode cfg rid where
  after_exit: "ct_phase ct = Exited \<Longrightarrow> contract_step mode cfg rid ct e [] ct"
| process_exit: "ct_phase ct \<noteq> Exited \<Longrightarrow>
    contract_step mode cfg rid ct (ProcessExited t n) [ReportExit n 0] (ct\<lparr>ct_phase := Exited\<rparr>)"
| clock_stops_observing: "\<not> is_exit e \<Longrightarrow> regressed ct e \<Longrightarrow> ct_phase ct = Observe \<Longrightarrow>
    contract_step mode cfg rid ct e [RecordMissing, StopObserving]
      (ct\<lparr>ct_phase := SupervisorError\<rparr>)"
| clock_fails_closed: "\<not> is_exit e \<Longrightarrow> ct_clock ct = Some previous \<Longrightarrow> event_at e < previous \<Longrightarrow>
    supervised ct \<Longrightarrow>
    contract_step mode cfg rid ct e [RecordMissing, SendTerm Disp_SkippedObservationFailure]
      (graced cfg SupervisorError previous ct)"
| clock_ignored: "\<not> is_exit e \<Longrightarrow> regressed ct e \<Longrightarrow> intervening ct \<Longrightarrow>
    contract_step mode cfg rid ct e [] ct"
| row: "ct_phase ct \<noteq> Exited \<Longrightarrow> \<not> is_exit e \<Longrightarrow> \<not> regressed ct e \<Longrightarrow>
    contract_row mode cfg rid (ct\<lparr>ct_clock := Some (event_at e)\<rparr>) e acts ct' \<Longrightarrow>
    contract_step mode cfg rid ct e acts ct'"

text \<open>What a run shows after each event: the actions requested, the phase reached and the deadline
  then pending. The number of observations after the signal, which the exit report also carries,
  is evidence and no part of the table.\<close>

type_synonym shown = "action list \<times> policy_state \<times> dur option"

fun tabled :: "action \<Rightarrow> action" where
  "tabled (ReportExit n _) = ReportExit n 0"
| "tabled a = a"

definition ct_deadline :: "contract \<Rightarrow> dur option" where
  "ct_deadline ct =
     (if ct_phase ct = CheckpointRequested then map_option snd (ct_request ct)
      else if ct_phase ct \<in> {Terminating, SupervisorError} then ct_kill_at ct else None)"

inductive contract_run ::
    "policy_mode \<Rightarrow> policy_config \<Rightarrow> u64 \<Rightarrow> contract \<Rightarrow> event list \<Rightarrow> shown list \<Rightarrow> bool"
  for mode cfg rid where
  run_done: "contract_run mode cfg rid ct [] []"
| run_event: "contract_step mode cfg rid ct e acts ct' \<Longrightarrow> contract_run mode cfg rid ct' es trace \<Longrightarrow>
    contract_run mode cfg rid ct (e # es) ((acts, ct_phase ct', ct_deadline ct') # trace)"

inductive_simps contract_run_Nil [simp]: "contract_run mode cfg rid ct [] trace"
inductive_cases contract_run_ConsE: "contract_run mode cfg rid ct (e # es) trace"

fun machine_trace :: "policy_machine \<Rightarrow> event list \<Rightarrow> shown list" where
  "machine_trace m [] = []"
| "machine_trace m (e # es) =
     (let (m', acts) = apply_event m e in
      (map tabled acts, pm_state m', next_deadline m') # machine_trace m' es)"

section \<open>The simulation\<close>

text \<open>The code's machine beside the contract: saturating counters of 32 bits beside the counts,
  the active request and its deadline beside the pair, and one request identifier that is still
  unused while the footprint is being watched.\<close>

definition follows ::
    "policy_mode \<Rightarrow> policy_config \<Rightarrow> u64 \<Rightarrow> policy_machine \<Rightarrow> contract \<Rightarrow> bool" where
  "follows mode cfg rid m ct \<longleftrightarrow>
     policy_inv m \<and> pm_mode m = mode \<and> pm_config m = cfg \<and> pm_state m = ct_phase ct
   \<and> unat (pm_breach_streak m) = min (ct_breaches ct) (2 ^ 32 - 1)
   \<and> unat (pm_missing_streak m) = min (ct_missing ct) (2 ^ 32 - 1)
   \<and> pm_term_deadline m = ct_kill_at ct \<and> pm_last_event_at m = ct_clock ct
   \<and> (watching ct \<longrightarrow> pm_next_request_id m = rid)
   \<and> (ct_phase ct = CheckpointRequested \<longrightarrow>
       map_option fst (ct_request ct) = pm_active_request_id m
     \<and> map_option snd (ct_request ct) = pm_checkpoint_deadline m)"

lemma reads_usable: "usable_sample cfg s \<longleftrightarrow> (\<exists>b. reads cfg s b)"
  by (auto simp: usable_sample_def reads_def dur_sat_sub_def)

lemma readsD:
  assumes "reads cfg s b"
  shows "usable_sample cfg s" and "se_aggregate_bytes s = Some b"
  using assms reads_usable by (auto simp: reads_def)

lemma count_saturates:
  fixes w :: u32
  assumes "unat w = min n (2 ^ 32 - 1)"
  shows "unat (sat_add w 1) = min (Suc n) (2 ^ 32 - 1)"
  using assms by (simp add: unat_sat_add)

lemma count_reaches:
  fixes w r :: u32
  assumes "unat w = min n (2 ^ 32 - 1)"
  shows "r \<le> sat_add w 1 \<longleftrightarrow> unat r \<le> Suc n"
proof -
  have "unat r < 2 ^ 32" using unsigned_less [of r, where 'a = nat] by simp
  then show ?thesis by (auto simp: word_le_nat_alt count_saturates [OF assms])
qed

lemma overshoot_exact:
  "pc_limit_bytes cfg \<le> b \<Longrightarrow> sat_sub b (pc_limit_bytes cfg) = b - pc_limit_bytes cfg"
  by (simp add: sat_sub_def)

lemma follows_clock:
  "follows mode cfg rid m ct \<Longrightarrow>
   follows mode cfg rid (m\<lparr>pm_last_event_at := Some t\<rparr>) (ct\<lparr>ct_clock := Some t\<rparr>)"
  by (auto simp: follows_def)

text \<open>What the well-formedness of the machine adds to the phase it shares with the contract.\<close>

lemma follows_phase:
  assumes "follows mode cfg rid m ct"
  shows "supervised ct \<Longrightarrow> pm_mode m = EnforceMode \<and> \<not> pm_intervention_started m
      \<and> mode = EnforceMode \<and> valid_config cfg"
    and "ct_phase ct = Observe \<Longrightarrow> pm_mode m = ObserveMode \<and> \<not> pm_intervention_started m
      \<and> mode = ObserveMode"
    and "intervening ct \<Longrightarrow> pm_intervention_started m \<or> ct_phase ct = SupervisorError
      \<and> pm_mode m = ObserveMode \<and> mode = ObserveMode"
  using assms by (auto simp: follows_def policy_inv_def)

definition matched ::
    "policy_mode \<Rightarrow> policy_config \<Rightarrow> u64 \<Rightarrow> policy_machine \<times> action list
     \<Rightarrow> action list \<Rightarrow> contract \<Rightarrow> bool"
  where
  "matched mode cfg rid r acts ct \<longleftrightarrow> map tabled (snd r) = acts \<and> follows mode cfg rid (fst r) ct"

text \<open>The rows of each event.\<close>

inductive_cases sample_rowE: "contract_row mode cfg rid ct (Sample s) acts ct'"
inductive_cases tick_rowE: "contract_row mode cfg rid ct (Tick t) acts ct'"
inductive_cases ack_rowE: "contract_row mode cfg rid ct (CheckpointAck t i auth) acts ct'"
inductive_cases failed_rowE: "contract_row mode cfg rid ct (ActuationFailed t k f) acts ct'"
inductive_cases signal_rowE: "contract_row mode cfg rid ct (ExternalSignal t sig) acts ct'"
inductive_cases root_rowE: "contract_row mode cfg rid ct (RootExited t) acts ct'"
inductive_cases parent_rowE: "contract_row mode cfg rid ct (ParentExited t) acts ct'"
inductive_cases fault_rowE: "contract_row mode cfg rid ct (SupervisorFault t) acts ct'"

lemma reached_eq: "(case d of None \<Rightarrow> False | Some deadline \<Rightarrow> deadline \<le> t) = reached d t"
  by (simp add: reached_def split: option.split)

lemmas matched_defs = matched_def follows_def graced_def requested_def


text \<open>What the machine does with an unusable sample, and with a usable one.\<close>

lemma missing_matched:
  assumes "contract_row mode cfg rid ct (Sample s) acts ct'" and unusable: "\<nexists>b. reads cfg s b"
    and sim: "follows mode cfg rid m ct" and live: "pm_state m \<noteq> Exited"
  shows "matched mode cfg rid (apply_missing m (se_processed_at s)) acts ct'"
proof -
  have inv: "policy_inv (fst (apply_missing m (se_processed_at s)))"
    using sim live by (simp add: follows_def policy_inv_apply_missing)
  have streak: "unat (pm_missing_streak m) = min (ct_missing ct) (2 ^ 32 - 1)"
    using sim by (simp add: follows_def)
  note counts = count_saturates [OF streak] count_reaches [OF streak, folded linorder_not_less]
  note phase = follows_phase [OF sim]
  from assms(1) inv sim phase unusable show ?thesis
    by (elim sample_rowE)
      (auto simp: matched_defs apply_missing_def Let_def counts)
qed

lemma reads_unique: "reads cfg s b \<Longrightarrow> reads cfg s b' \<Longrightarrow> b' = b"
  by (simp add: reads_def)

lemma supervised_matched:
  assumes row: "contract_row mode cfg rid ct (Sample s) acts ct'" and b: "reads cfg s b"
    and sim: "follows mode cfg rid m ct" and sup: "supervised ct"
  shows "matched mode cfg rid (apply_sample m s) acts ct'"
proof -
  have view: "pm_state m = ct_phase ct" "pm_config m = cfg" "pm_mode m = EnforceMode"
    "\<not> pm_intervention_started m"
    and streak: "unat (pm_breach_streak m) = min (ct_breaches ct) (2 ^ 32 - 1)"
    and inv: "policy_inv (fst (apply_sample m s))"
    using sim sup follows_phase(1) [OF sim sup]
    by (auto simp: follows_def intro!: policy_inv_apply_sample)
  have bands: "pc_limit_bytes cfg < pc_emergency_bytes cfg"
    "pc_warning_bytes cfg < pc_limit_bytes cfg" "pc_recovery_bytes cfg < pc_warning_bytes cfg"
    using follows_phase(1) [OF sim sup] by (auto simp: valid_config_def)
  have usable: "usable_sample (pm_config m) s" using readsD(1) [OF b] by (simp add: view)
  note same = reads_unique [OF b]
    and sims = apply_sample_watching [OF usable _ _ readsD(2) [OF b] view(2) [symmetric] refl]
      Let_def begin_graceful_def count_saturates [OF streak] count_reaches [OF streak]
      overshoot_exact view matched_defs
  show ?thesis
    using row
  proof cases
    case (emergency_reached b')
    then have "b' = b" and "pc_limit_bytes cfg \<le> b'" using bands by (simp_all add: same)
    with emergency_reached inv sim show ?thesis by (simp add: sims)
  next
    case (request_pending b')
    then have "b' = b" and "\<not> pc_emergency_bytes cfg \<le> b'" by (simp_all add: same)
    with request_pending inv sim show ?thesis by (simp add: sims)
  next
    case (breach_counted b')
    then have "b' = b" and "\<not> pc_emergency_bytes cfg \<le> b'" by (simp_all add: same)
    with breach_counted inv sim show ?thesis by (auto simp: sims)
  next
    case (breaches_request b' timeout)
    then have "b' = b" and "\<not> pc_emergency_bytes cfg \<le> b'" by (simp_all add: same)
    with breaches_request inv sim show ?thesis by (auto simp: sims)
  next
    case (breaches_term b')
    then have "b' = b" and "\<not> pc_emergency_bytes cfg \<le> b'" by (simp_all add: same)
    with breaches_term inv sim show ?thesis by (auto simp: sims)
  next
    case (warned b')
    then have "b' = b" and "\<not> pc_emergency_bytes cfg \<le> b'" using bands by (simp_all add: same)
    with warned inv sim show ?thesis by (auto simp: sims)
  next
    case (retained b')
    then have "b' = b" and "\<not> pc_emergency_bytes cfg \<le> b'" "\<not> pc_limit_bytes cfg \<le> b'"
      using bands by (simp_all add: same)
    with retained inv sim show ?thesis by (auto simp: sims)
  next
    case (recovered b')
    then have "b' = b" and "\<not> pc_emergency_bytes cfg \<le> b'" "\<not> pc_limit_bytes cfg \<le> b'"
      "\<not> pc_warning_bytes cfg \<le> b'" using bands by (simp_all add: same)
    with recovered inv sim show ?thesis by (auto simp: sims)
  qed (use b sup in auto)
qed

lemma usable_matched:
  assumes row: "contract_row mode cfg rid ct (Sample s) acts ct'" and b: "reads cfg s b"
    and sim: "follows mode cfg rid m ct" and live: "pm_state m \<noteq> Exited"
  shows "matched mode cfg rid (apply_sample m s) acts ct'"
proof (cases "supervised ct")
  case True
  with row b sim show ?thesis by (rule supervised_matched)
next
  case False
  with sim live have idle: "pm_mode m = ObserveMode \<or> pm_intervention_started m"
    and "ct_phase ct = Observe \<or> intervening ct"
    by (cases "ct_phase ct"; auto simp: follows_def policy_inv_def)+
  moreover have "policy_inv (fst (apply_sample m s))" and "usable_sample (pm_config m) s"
    using sim live readsD(1) [OF b] by (simp_all add: follows_def policy_inv_apply_sample)
  ultimately show ?thesis using row b False sim apply_sample_passive [OF _ idle]
    by (elim sample_rowE) (auto simp: matched_defs)
qed

lemma tick_matched:
  assumes "contract_row mode cfg rid ct (Tick t) acts ct'"
    and sim: "follows mode cfg rid m ct" and live: "pm_state m \<noteq> Exited"
  shows "matched mode cfg rid (apply_tick m t) acts ct'"
proof -
  have inv: "policy_inv (fst (apply_tick m t))"
    using policy_inv_dispatch [of m "Tick t"] sim live by (simp add: follows_def)
  have view: "pm_state m = ct_phase ct" "pm_config m = cfg" "pm_term_deadline m = ct_kill_at ct"
    "ct_phase ct = CheckpointRequested \<Longrightarrow> pm_checkpoint_deadline m = map_option snd (ct_request ct)"
    using sim by (simp_all add: follows_def)
  note sims = matched_defs apply_tick_def start_term_def begin_graceful_def Let_def reached_eq
  note fresh = follows_phase [OF sim]
  from assms(1) show ?thesis
  proof cases
    case (wall_requests timeout)
    then have "supervised ct" by auto
    with wall_requests inv sim fresh(1) show ?thesis by (auto simp: sims)
  next
    case wall_terminates
    then have "supervised ct" by auto
    with wall_terminates inv sim fresh(1) show ?thesis by (auto simp: sims)
  next
    case checkpoint_timed_out
    with inv sim show ?thesis by (simp add: sims)
  next
    case grace_reached
    with inv sim show ?thesis by (auto simp: sims)
  next
    case nothing_due
    then have "apply_tick m t = (m, [])"
      using view unfolding apply_tick_def reached_eq by auto
    then show ?thesis using nothing_due sim by (simp add: matched_def)
  next
    case timeout_not_due
    then have "apply_tick m t = (m, [])"
      using view unfolding apply_tick_def reached_eq by auto
    then show ?thesis using timeout_not_due sim by (simp add: matched_def)
  next
    case grace_not_due
    then have "apply_tick m t = (m, [])"
      using view unfolding apply_tick_def reached_eq by auto
    then show ?thesis using grace_not_due sim by (simp add: matched_def)
  next
    case no_deadline
    then have "apply_tick m t = (m, [])" using view by (auto simp: apply_tick_def)
    then show ?thesis using no_deadline sim by (simp add: matched_def)
  qed
qed

lemma row_matched:
  assumes "contract_row mode cfg rid ct e acts ct'"
    and sim: "follows mode cfg rid m ct" and live: "pm_state m \<noteq> Exited"
  shows "matched mode cfg rid (dispatch_event m e) acts ct'"
proof -
  have inv: "policy_inv (fst (dispatch_event m e))"
    using sim live by (simp add: follows_def policy_inv_dispatch)
  note phase = follows_phase [OF sim]
  show ?thesis
  proof (cases e)
    case (Tick t)
    with tick_matched [OF _ sim live] assms(1) show ?thesis by simp
  next
    case (CheckpointAck)
    with assms(1) inv sim phase show ?thesis
      by (simp, elim ack_rowE) (auto simp: matched_defs apply_checkpoint_ack_def start_term_def)
  next
    case (ExternalSignal)
    with assms(1) inv sim phase show ?thesis
      by (simp, elim signal_rowE) (auto simp: matched_defs apply_external_signal_def start_term_def)
  next
    case (ActuationFailed)
    with assms(1) inv sim phase show ?thesis
      by (simp, elim failed_rowE)
        (auto simp: matched_defs apply_actuation_failed_def Let_def start_term_def)
  next
    case (SupervisorFault)
    with assms(1) inv sim phase show ?thesis
      by (simp, elim fault_rowE) (auto simp: matched_defs apply_supervisor_fault_def Let_def)
  next
    case (RootExited)
    with assms(1) inv sim phase show ?thesis
      by (simp, elim root_rowE) (auto simp: matched_defs apply_root_exited_def start_term_def)
  next
    case (ParentExited)
    with assms(1) inv sim phase show ?thesis
      by (simp, elim parent_rowE) (auto simp: matched_defs apply_parent_exited_def start_term_def)
  next
    case (Sample s)
    with assms(1) have row: "contract_row mode cfg rid ct (Sample s) acts ct'" by simp
    have cfg: "pm_config m = cfg" using sim by (simp add: follows_def)
    show ?thesis
    proof (cases "\<exists>b. reads cfg s b")
      case True
      then show ?thesis using usable_matched [OF row _ sim live] Sample by auto
    next
      case False
      then have "dispatch_event m e = apply_missing m (se_processed_at s)"
        using Sample by (simp add: apply_sample_def reads_usable cfg)
      then show ?thesis using missing_matched [OF row False sim live] by simp
    qed
  next
    case (ProcessExited) with assms(1) show ?thesis by (auto elim: contract_row.cases)
  qed
qed


text \<open>No event finds the table without a row.\<close>

lemma sample_row_exists:
  assumes sim: "follows mode cfg rid m ct" and live: "ct_phase ct \<noteq> Exited"
  shows "\<exists>acts ct'. contract_row mode cfg rid ct (Sample s) acts ct'"
proof (cases "\<exists>b. reads cfg s b")
  case True
  then obtain b where b: "reads cfg s b" by blast
  show ?thesis
  proof (cases "supervised ct")
    case True
    then show ?thesis
      using contract_row.emergency_reached [OF b True] contract_row.request_pending [OF b]
        contract_row.breach_counted [OF b] contract_row.breaches_request [OF b]
        contract_row.breaches_term [OF b] contract_row.warned [OF b] contract_row.retained [OF b]
        contract_row.recovered [OF b]
      by (cases "pc_checkpoint_timeout cfg") (metis insert_iff linorder_not_le)+
  next
    case False
    then have "ct_phase ct = Observe \<or> intervening ct" using live by (cases "ct_phase ct") auto
    with contract_row.record_only [OF b] show ?thesis by blast
  qed
next
  case False
  show ?thesis
  proof (cases "Suc (ct_missing ct) < unat (pc_max_missing_samples cfg) \<or> intervening ct")
    case True
    then show ?thesis using contract_row.missing_tolerated [OF False] by blast
  next
    case ended: False
    then have "ct_phase ct = Observe \<or> supervised ct" using live by (cases "ct_phase ct") auto
    then show ?thesis using ended contract_row.missing_stops_observing [OF False]
        contract_row.missing_fails_closed [OF False] by (meson not_le)
  qed
qed

lemma row_exists:
  assumes sim: "follows mode cfg rid m ct" and live: "ct_phase ct \<noteq> Exited" and "\<not> is_exit e"
  shows "\<exists>acts ct'. contract_row mode cfg rid ct e acts ct'"
proof (cases e)
  case (Sample s)
  then show ?thesis using sample_row_exists [OF sim live] by simp
next
  case (Tick t)
  with live show ?thesis
    by (cases "ct_phase ct"; cases "pc_checkpoint_timeout cfg"; cases "reached (pc_wall_time cfg) t")
      (blast intro: contract_row.intros)+
next
  case (CheckpointAck t i auth)
  show ?thesis
  proof (cases "auth \<and> ct_phase ct = CheckpointRequested \<and> map_option fst (ct_request ct) = Some i")
    case True
    with CheckpointAck contract_row.acknowledged show ?thesis by fastforce
  next
    case False
    with CheckpointAck contract_row.not_acknowledged show ?thesis by blast
  qed
next
  case (ActuationFailed t k f)
  then show ?thesis by (cases k) (blast intro: contract_row.intros)+
next
  case (SupervisorFault t)
  with live follows_phase [OF sim] show ?thesis
    by (cases mode; cases "ct_phase ct") (auto intro: contract_row.intros)
qed (use assms in \<open>cases "ct_phase ct"; force intro: contract_row.intros\<close>)+

text \<open>The step with its clock, and the runs.\<close>

lemma regressed_iff:
  "follows mode cfg rid m ct \<Longrightarrow> clock_regressed m (event_at e) \<longleftrightarrow> regressed ct e"
  by (auto simp: follows_def clock_regressed_def regressed_def split: option.splits)

lemma apply_event_live:
  "pm_state m \<noteq> Exited \<Longrightarrow> \<not> is_exit e \<Longrightarrow>
   apply_event m e =
     (if clock_regressed m (event_at e) then fail_clock m
      else dispatch_event (m\<lparr>pm_last_event_at := Some (event_at e)\<rparr>) e)"
  by (cases e) (simp_all add: apply_event_def)

lemma step_matched:
  assumes "contract_step mode cfg rid ct e acts ct'" and sim: "follows mode cfg rid m ct"
  shows "matched mode cfg rid (apply_event m e) acts ct'"
proof -
  note phase = follows_phase [OF sim] and regress = regressed_iff [OF sim]
  have phase_eq: "pm_state m = ct_phase ct" using sim by (simp add: follows_def)
  have inv: "policy_inv (fst (apply_event m e))"
    using sim by (simp add: follows_def policy_inv_apply_event)
  from assms(1) show ?thesis
  proof cases
    case after_exit
    with sim show ?thesis by (simp add: matched_def apply_event_def phase_eq)
  next
    case (process_exit t n)
    with sim inv show ?thesis by (auto simp: matched_def follows_def apply_event_def)
  next
    case clock_stops_observing
    then have "apply_event m e = fail_clock m"
      using regress [of e] phase_eq by (auto simp: apply_event_live regressed_def)
    with clock_stops_observing inv sim phase(2) show ?thesis
      by (auto simp: matched_defs fail_clock_def Let_def)
  next
    case (clock_fails_closed previous)
    then have "apply_event m e = fail_clock m"
      using regress [of e] phase_eq by (auto simp: apply_event_live regressed_def)
    with clock_fails_closed inv sim phase(1) show ?thesis
      by (auto simp: matched_defs fail_clock_def Let_def)
  next
    case clock_ignored
    then have "apply_event m e = fail_clock m"
      using regress [of e] phase_eq by (auto simp: apply_event_live regressed_def)
    moreover have "fail_clock m = (m, [])"
      using phase(3) phase_eq clock_ignored by (auto simp: fail_clock_def)
    ultimately show ?thesis using sim clock_ignored by (simp add: matched_def)
  next
    case row
    then have "apply_event m e = dispatch_event (m\<lparr>pm_last_event_at := Some (event_at e)\<rparr>) e"
      using regress [of e] phase_eq by (auto simp: apply_event_live regressed_def)
    with row_matched [OF row(4) follows_clock [OF sim]] row(1) phase_eq show ?thesis by simp
  qed
qed

lemma step_exists:
  assumes sim: "follows mode cfg rid m ct"
  shows "\<exists>acts ct'. contract_step mode cfg rid ct e acts ct'"
proof -
  have "\<exists>acts ct'. contract_step mode cfg rid ct e acts ct'"
    if "ct_phase ct \<noteq> Exited" and "\<not> is_exit e" and "\<not> regressed ct e"
    using row_exists [OF follows_clock [OF sim]] contract_step.row [OF that] that by fastforce
  moreover have "\<exists>acts ct'. contract_step mode cfg rid ct e acts ct'"
    if "\<not> is_exit e" and "regressed ct e" and "ct_phase ct \<noteq> Exited"
  proof (cases "supervised ct")
    case True
    with that show ?thesis by (auto simp: regressed_def intro: contract_step.clock_fails_closed)
  next
    case False
    with that show ?thesis by (cases "ct_phase ct")
        (auto intro: contract_step.clock_stops_observing contract_step.clock_ignored)
  qed
  moreover have "\<exists>acts ct'. contract_step mode cfg rid ct e acts ct'"
    if "is_exit e" and "ct_phase ct \<noteq> Exited"
    using that by (cases e) (auto intro: contract_step.process_exit)
  ultimately show ?thesis using contract_step.after_exit by blast
qed

lemma follows_shown:
  assumes "follows mode cfg rid m ct"
  shows "pm_state m = ct_phase ct" and "next_deadline m = ct_deadline ct"
  using assms by (cases "ct_phase ct"; simp add: follows_def ct_deadline_def)+

lemma contract_trace:
  "follows mode cfg rid m ct \<Longrightarrow>
   contract_run mode cfg rid ct es trace \<longleftrightarrow> trace = machine_trace m es"
proof (induction es arbitrary: m ct trace)
  case (Cons e es)
  obtain m' acts where r: "apply_event m e = (m', acts)" by (cases "apply_event m e")
  show ?case
  proof
    assume "contract_run mode cfg rid ct (e # es) trace"
    then show "trace = machine_trace m (e # es)"
    proof (rule contract_run_ConsE)
      fix acts' ct' rest
      assume "contract_step mode cfg rid ct e acts' ct'" and "contract_run mode cfg rid ct' es rest"
        and "trace = (acts', ct_phase ct', ct_deadline ct') # rest"
      moreover from this(1) Cons.prems have "matched mode cfg rid (m', acts) acts' ct'"
        using step_matched r by metis
      ultimately show ?thesis
        using Cons.IH [of m' ct' rest] follows_shown [of mode cfg rid m' ct'] r
        by (simp add: matched_def del: next_deadline.simps)
    qed
  next
    assume trace: "trace = machine_trace m (e # es)"
    from step_exists [OF Cons.prems] obtain acts' ct'
      where step: "contract_step mode cfg rid ct e acts' ct'" by blast
    with step_matched [OF step Cons.prems] r
    have acts: "map tabled acts = acts'" and sim: "follows mode cfg rid m' ct'"
      by (simp_all add: matched_def)
    from Cons.IH [OF sim] have "contract_run mode cfg rid ct' es (machine_trace m' es)" by simp
    from contract_run.run_event [OF step this] show "contract_run mode cfg rid ct (e # es) trace"
      using trace r acts follows_shown [OF sim] by (simp del: next_deadline.simps)
  qed
qed simp

section \<open>The property\<close>

text \<open>The machines the program starts: an enforcing one with the identifier drawn for its first
  request, or an observing one.\<close>

fun starts_as :: "policy_mode \<Rightarrow> policy_config \<Rightarrow> u64 \<Rightarrow> policy_machine \<Rightarrow> bool" where
  "starts_as EnforceMode cfg rid m \<longleftrightarrow> enforce_with_initial_request_id cfg rid = Ok m"
| "starts_as ObserveMode cfg rid m \<longleftrightarrow>
     (\<exists>age window missing. m = policy_observe age window missing) \<and> pm_config m = cfg"

lemma start_follows: "starts_as mode cfg rid m \<Longrightarrow> follows mode cfg rid m (contract_start mode)"
proof (cases mode)
  case ObserveMode
  moreover assume "starts_as mode cfg rid m"
  ultimately obtain age window missing where m: "m = policy_observe age window missing"
    and cfg: "pm_config m = cfg" by auto
  have "policy_inv m" unfolding m by (rule policy_inv_observe)
  moreover have "pm_mode m = ObserveMode" "pm_state m = Observe" "pm_breach_streak m = 0"
    "pm_missing_streak m = 0" "pm_term_deadline m = None" "pm_last_event_at m = None"
    unfolding m by (simp_all add: policy_observe_def)
  ultimately show ?thesis using ObserveMode cfg by (simp add: follows_def contract_start_def)
next
  case EnforceMode
  moreover assume "starts_as mode cfg rid m"
  ultimately have "enforce_with_initial_request_id cfg rid = Ok m" by simp
  then show ?thesis using EnforceMode policy_inv_enforce [of cfg rid m]
    by (auto simp: follows_def contract_start_def enforce_with_initial_request_id_def split: if_splits)
qed

text \<open>C20. The machine is the documented contract: started in either mode with any configuration it
  accepts, and fed any events in any order, it requests at each event exactly the actions, reaches
  exactly the phase and sets exactly the deadline that the rows of the contract allow, under their
  thresholds, breach and missing counts, deadlines, wall limit and clock rule; no event is without a
  row and no event is skipped while one applies. The rows marked "code" are behaviour the document
  does not state.\<close>

theorem machine_is_the_contract:
  assumes "starts_as mode cfg rid m"
  shows "contract_run mode cfg rid (contract_start mode) es trace \<longleftrightarrow> trace = machine_trace m es"
  by (rule contract_trace [OF start_follows [OF assms]])

section \<open>Witness\<close>

definition demo_events :: "event list" where
  "demo_events = [Sample (demo_sample 3 1000), Sample (demo_sample 4 1001), CheckpointAck 5 2 True,
     Tick 1004, Tick 2003, Tick 2004, ProcessExited 2005 None]"

definition demo_trace :: "shown list" where
  "demo_trace =
    [([RecordObservation], Warning, None),
     ([RecordObservation, RequestCheckpoint 1 1 1004], CheckpointRequested, Some 1004),
     ([], CheckpointRequested, Some 1004),
     ([SendTerm Disp_TimedOut], Terminating, Some 2004),
     ([], Terminating, Some 2004),
     ([SendKill], Emergency, None),
     ([ReportExit None 0], Exited, None)]"

lemma demo_machine_trace: "machine_trace demo_machine demo_events = demo_trace"
  by (simp add: demo_events_def demo_trace_def demo_defs apply_event_def clock_regressed_def
      apply_sample_def usable_sample_def begin_graceful_def apply_checkpoint_ack_def apply_tick_def
      start_term_def dur_sat_add_def dur_sat_sub_def DURATION_MAX_def sat_add_def sat_sub_def
      word_le_nat_alt Let_def)

text \<open>Two breaches, a request that a wrong identifier does not acknowledge, TERM at its timeout,
  KILL at the end of the grace period and the exit: the contract allows this trace, and not the one
  in which the checkpoint deadline passes unnoticed.\<close>

theorem machine_is_the_contract_witness:
  "contract_run EnforceMode demo_config 1 (contract_start EnforceMode) demo_events demo_trace
   \<and> \<not> contract_run EnforceMode demo_config 1 (contract_start EnforceMode) demo_events
        (demo_trace[3 := ([], CheckpointRequested, Some 1004)])"
proof -
  have "starts_as EnforceMode demo_config 1 demo_machine" by (simp add: demo_machine)
  note run = machine_is_the_contract [OF this, of demo_events, unfolded demo_machine_trace]
  show ?thesis unfolding run by (simp add: demo_trace_def)
qed

end
