(* ===== verification/Intervention.thy ===== *)
theory Intervention
  imports Policy_Refinement
begin

text \<open>
  \<^verbatim>\<open>mlx-guard-core/src/intervention.rs\<close>: the engine that executes what the policy machine
  decides, feeds a failed actuation back into the same machine, and keeps bounded evidence of every
  attempt. The actuator of the code is a trait; here it is the argument \<open>exec\<close>, a state transformer
  that returns the typed outcome. The observer callback and the actuator calls are kept, in the
  order in which they happen, in a trace.
\<close>

section \<open>Actuations\<close>

definition MAX_INTERVENTION_RECORDS :: nat where "MAX_INTERVENTION_RECORDS = 64"
definition POLICY_CONTRACT_VERSION :: u16 where "POLICY_CONTRACT_VERSION = 1"

datatype actuation =
    Act_Checkpoint u64 u64 dur
  | Act_Term checkpoint_disposition
  | Act_Kill
  | Act_ForwardSignal signal_number

fun actuation_kind_of :: "actuation \<Rightarrow> actuation_kind" where
  "actuation_kind_of (Act_Checkpoint _ _ _) = KCheckpoint"
| "actuation_kind_of (Act_Term _) = KTerm"
| "actuation_kind_of Act_Kill = KKill"
| "actuation_kind_of (Act_ForwardSignal _) = KForwardSignal"

datatype actuation_outcome = Act_Delivered | Act_ProcessMissing

type_synonym actuation_result = "actuation_failure + actuation_outcome"

type_synonym 'a actuator = "'a \<Rightarrow> dur \<Rightarrow> actuation \<Rightarrow> 'a \<times> actuation_result"

fun actuation_for :: "action \<Rightarrow> actuation option" where
  "actuation_for (RequestCheckpoint request_id overshoot_bytes deadline_at) =
     Some (Act_Checkpoint request_id overshoot_bytes deadline_at)"
| "actuation_for (SendTerm checkpoint) = Some (Act_Term checkpoint)"
| "actuation_for SendKill = Some Act_Kill"
| "actuation_for (ForwardSignal signal) = Some (Act_ForwardSignal signal)"
| "actuation_for _ = None"

section \<open>Evidence\<close>

record intervention_record =
  ir_requested_at :: dur
  ir_action :: actuation
  ir_result :: actuation_result
  ir_baseline_footprint_bytes :: "u64 option"
  ir_first_observation_latency :: "dur option"
  ir_observed_footprint_decrease_latency :: "dur option"
  ir_group_empty_latency :: "dur option"

record intervention_evidence =
  ie_records :: "intervention_record list"
  ie_policy_contract_version :: u16
  ie_total_attempts :: u64
  ie_dropped_records :: u64
  ie_maximum_overshoot_bytes :: u64

definition evidence_default :: intervention_evidence where
  "evidence_default =
    \<lparr>ie_records = [], ie_policy_contract_version = POLICY_CONTRACT_VERSION,
     ie_total_attempts = 0, ie_dropped_records = 0, ie_maximum_overshoot_bytes = 0\<rparr>"

definition record_overshoot :: "intervention_evidence \<Rightarrow> u64 \<Rightarrow> intervention_evidence" where
  "record_overshoot ev bytes =
     ev\<lparr>ie_maximum_overshoot_bytes := max (ie_maximum_overshoot_bytes ev) bytes\<rparr>"

definition push_record :: "intervention_evidence \<Rightarrow> intervention_record \<Rightarrow> intervention_evidence" where
  "push_record ev r =
     (let ev = ev\<lparr>ie_total_attempts := sat_add (ie_total_attempts ev) 1\<rparr>;
          ev = (if length (ie_records ev) = MAX_INTERVENTION_RECORDS
                then ev\<lparr>ie_records := drop 1 (ie_records ev),
                        ie_dropped_records := sat_add (ie_dropped_records ev) 1\<rparr>
                else ev)
      in ev\<lparr>ie_records := ie_records ev @ [r]\<rparr>)"

definition record_attempt ::
    "intervention_evidence \<Rightarrow> dur \<Rightarrow> actuation \<Rightarrow> actuation_result \<Rightarrow> u64 option
     \<Rightarrow> intervention_evidence" where
  "record_attempt ev requested_at act res baseline =
     push_record ev
       \<lparr>ir_requested_at = requested_at, ir_action = act, ir_result = res,
        ir_baseline_footprint_bytes = baseline, ir_first_observation_latency = None,
        ir_observed_footprint_decrease_latency = None, ir_group_empty_latency = None\<rparr>"

text \<open>The bodies of the two loops over the retained records.\<close>

definition observe_record :: "dur \<Rightarrow> u64 option \<Rightarrow> intervention_record \<Rightarrow> intervention_record" where
  "observe_record observed_at footprint r =
     (if observed_at \<le> ir_requested_at r then r
      else
        let latency = dur_sat_sub observed_at (ir_requested_at r);
            r = (case ir_first_observation_latency r of
                   None \<Rightarrow> r\<lparr>ir_first_observation_latency := Some latency\<rparr>
                 | Some _ \<Rightarrow> r)
        in if ir_observed_footprint_decrease_latency r = None
              \<and> (case (ir_baseline_footprint_bytes r, footprint) of
                   (Some baseline, Some observed) \<Rightarrow> observed < baseline
                 | _ \<Rightarrow> False)
           then r\<lparr>ir_observed_footprint_decrease_latency := Some latency\<rparr>
           else r)"

definition group_empty_record :: "dur \<Rightarrow> intervention_record \<Rightarrow> intervention_record" where
  "group_empty_record observed_at r =
     (if ir_requested_at r < observed_at \<and> ir_group_empty_latency r = None
      then r\<lparr>ir_group_empty_latency := Some (dur_sat_sub observed_at (ir_requested_at r))\<rparr>
      else r)"

definition evidence_observe ::
    "intervention_evidence \<Rightarrow> dur \<Rightarrow> u64 option \<Rightarrow> intervention_evidence" where
  "evidence_observe ev observed_at footprint =
     ev\<lparr>ie_records := map (observe_record observed_at footprint) (ie_records ev)\<rparr>"

definition observe_group_empty :: "intervention_evidence \<Rightarrow> dur \<Rightarrow> intervention_evidence" where
  "observe_group_empty ev observed_at =
     ev\<lparr>ie_records := map (group_empty_record observed_at) (ie_records ev)\<rparr>"

interpretation intervention_log: capped_queue
    MAX_INTERVENTION_RECORDS evidence_default push_record ie_records
  by unfold_locales
    (simp_all add: MAX_INTERVENTION_RECORDS_def evidence_default_def push_record_def Let_def
      push_capped_def)

section \<open>The engine\<close>

record 'a engine =
  eng_policy :: policy_machine
  eng_actuator :: 'a
  eng_evidence :: intervention_evidence
  eng_last_observed_footprint_bytes :: "u64 option"

datatype intervention_progress =
    ObserveUntil "dur option"
  | GroupEmpty
  | TerminalSupervisorError

definition engine_new :: "policy_machine \<Rightarrow> 'a \<Rightarrow> 'a engine" where
  "engine_new policy actuator =
    \<lparr>eng_policy = policy, eng_actuator = actuator, eng_evidence = evidence_default,
     eng_last_observed_footprint_bytes = None\<rparr>"

definition observe_group_status ::
    "'a engine \<Rightarrow> dur \<Rightarrow> bool \<Rightarrow> 'a engine \<times> intervention_progress" where
  "observe_group_status g observed_at group_exists =
     (if \<not> group_exists
      then (g\<lparr>eng_evidence := observe_group_empty (eng_evidence g) observed_at\<rparr>, GroupEmpty)
      else if pm_state (eng_policy g) = SupervisorError \<and> next_deadline (eng_policy g) = None
      then (g, TerminalSupervisorError)
      else (g, ObserveUntil (next_deadline (eng_policy g))))"

text \<open>What happens during one call of \<open>handle\<close>, in order.\<close>

datatype trace_entry =
    Transition dur policy_state policy_state
  | Executed dur actuation actuation_result

definition transition_entry :: "dur \<Rightarrow> policy_state \<Rightarrow> policy_state \<Rightarrow> trace_entry list" where
  "transition_entry t previous current =
     (if previous \<noteq> current then [Transition t previous current] else [])"

fun overshoot_of :: "action \<Rightarrow> u64 option" where
  "overshoot_of (RecordOvershoot bytes) = Some bytes"
| "overshoot_of (RequestCheckpoint _ overshoot_bytes _) = Some overshoot_bytes"
| "overshoot_of _ = None"

definition note_overshoot :: "'a engine \<Rightarrow> action \<Rightarrow> 'a engine" where
  "note_overshoot g a =
     (case overshoot_of a of
        None \<Rightarrow> g
      | Some bytes \<Rightarrow> g\<lparr>eng_evidence := record_overshoot (eng_evidence g) bytes\<rparr>)"

text \<open>One actuation attempt: the call, its evidence, and the feedback of a failure.\<close>

definition attempt ::
    "'a actuator \<Rightarrow> dur \<Rightarrow> 'a engine \<Rightarrow> actuation \<Rightarrow> 'a engine \<times> action list \<times> trace_entry list" where
  "attempt exec t g act =
     (let (actuator, res) = exec (eng_actuator g) t act;
          g = g\<lparr>eng_actuator := actuator,
                eng_evidence := record_attempt (eng_evidence g) t act res
                                  (eng_last_observed_footprint_bytes g)\<rparr>
      in case res of
           Inr _ \<Rightarrow> (g, [], [Executed t act res])
         | Inl failure \<Rightarrow>
             (let previous = pm_state (eng_policy g);
                  (policy, after_failure) =
                    apply_event (eng_policy g) (ActuationFailed t (actuation_kind_of act) failure)
              in (g\<lparr>eng_policy := policy\<rparr>, after_failure,
                  Executed t act res # transition_entry t previous (pm_state policy))))"

text \<open>
  The loop over the pending actions ends because a failure is answered by actions that weigh less
  than the one that failed, except once, when a clock regression opens a shutdown.
\<close>

fun weight :: "action \<Rightarrow> nat" where
  "weight (RequestCheckpoint _ _ _) = 4"
| "weight (SendTerm _) = 3"
| "weight (ForwardSignal _) = 3"
| "weight SendKill = 2"
| "weight _ = 1"

definition reserve :: "policy_machine \<Rightarrow> nat" where
  "reserve m = (if pm_intervention_started m \<or> pm_state m \<in> {SupervisorError, Exited} then 0 else 5)"

definition pending_weight :: "action list \<Rightarrow> nat" where
  "pending_weight as = sum_list (map weight as)"

lemma pending_weight_simps [simp]:
  "pending_weight [] = 0" "pending_weight (a # as) = weight a + pending_weight as"
  "pending_weight (as @ bs) = pending_weight as + pending_weight bs"
  by (simp_all add: pending_weight_def)

lemma regressed_feedback_weight:
  "pm_state m \<noteq> Exited \<Longrightarrow>
   pending_weight (snd (fail_clock m)) + reserve (fst (fail_clock m)) \<le> reserve m"
  by (simp add: fail_clock_def Let_def reserve_def split: policy_mode.splits)

lemma failed_feedback_weight:
  assumes "actuation_for a = Some act"
  shows "pending_weight (snd (apply_actuation_failed m t (actuation_kind_of act) f))
    + reserve (fst (apply_actuation_failed m t (actuation_kind_of act) f)) < weight a"
  using assms
  by (cases a; cases "pm_state m = CheckpointRequested")
    (auto simp: apply_actuation_failed_def start_term_def Let_def reserve_def)

lemma weight_pos [simp]: "0 < weight a"
  by (cases a) simp_all

lemma actuation_weight: "actuation_for a = Some act \<Longrightarrow> 2 \<le> weight a"
  by (cases a) simp_all

lemma failure_feedback_lighter:
  assumes "actuation_for a = Some act"
  shows "pending_weight (snd (apply_event m (ActuationFailed t (actuation_kind_of act) f)))
    + reserve (fst (apply_event m (ActuationFailed t (actuation_kind_of act) f)))
    < weight a + reserve m"
proof (cases rule: apply_event_cases [of m "ActuationFailed t (actuation_kind_of act) f"])
  case regressed
  then show ?thesis
    using regressed_feedback_weight [of m] weight_pos [of a] by (simp del: weight_pos)
next
  case dispatched
  then show ?thesis using failed_feedback_weight [OF assms] by (simp add: trans_less_add1)
qed simp_all

lemma attempt_lighter:
  assumes "actuation_for a = Some act" and "attempt exec t g act = (g', after, tr)"
  shows "pending_weight after + reserve (eng_policy g') < weight a + reserve (eng_policy g)"
proof -
  obtain x res where ex: "exec (eng_actuator g) t act = (x, res)" by force
  from assms(2) failure_feedback_lighter [OF assms(1)] show ?thesis
    by (cases res) (auto simp: attempt_def ex Let_def split_beta)
qed

lemma note_overshoot_keeps [simp]:
  "eng_policy (note_overshoot g a) = eng_policy g"
  "eng_actuator (note_overshoot g a) = eng_actuator g"
  "eng_last_observed_footprint_bytes (note_overshoot g a) = eng_last_observed_footprint_bytes g"
  by (simp_all add: note_overshoot_def split: option.splits)

function handle_loop ::
    "'a actuator \<Rightarrow> dur \<Rightarrow> 'a engine \<Rightarrow> action list
     \<Rightarrow> 'a engine \<times> action list \<times> trace_entry list" where
  "handle_loop exec t g [] = (g, [], [])"
| "handle_loop exec t g (a # pending) =
     (let g = note_overshoot g a in
      case actuation_for a of
        None \<Rightarrow>
          (let (g', decisions, tr) = handle_loop exec t g pending in (g', a # decisions, tr))
      | Some act \<Rightarrow>
          (let (g1, after_failure, tr1) = attempt exec t g act;
               (g', decisions, tr2) = handle_loop exec t g1 (pending @ after_failure)
           in (g', a # decisions, tr1 @ tr2)))"
  by pat_completeness auto

termination
proof (relation "measure (\<lambda>(exec, t, g, pending). pending_weight pending + reserve (eng_policy g))",
    goal_cases)
  case 1
  then show ?case by simp
next
  case (2 exec t g a pending g1)
  then show ?case by (cases a) auto
next
  case (3 exec t g a pending g1 act r g2 r2 after tr1)
  then have "attempt exec t (note_overshoot g a) act = (g2, after, tr1)"
    and "actuation_for a = Some act" by simp_all
  from attempt_lighter [OF this(2,1)] show ?case by simp
qed

text \<open>A usable sample is recorded in the evidence before any actuation it leads to.\<close>

definition note_sample :: "'a engine \<Rightarrow> event \<Rightarrow> action list \<Rightarrow> 'a engine" where
  "note_sample g e initial =
     (case e of
        Sample s \<Rightarrow>
          (if RecordObservation \<in> set initial
           then g\<lparr>eng_evidence :=
                    evidence_observe (eng_evidence g) (event_at e) (se_aggregate_bytes s),
                  eng_last_observed_footprint_bytes := se_aggregate_bytes s\<rparr>
           else g)
      | _ \<Rightarrow> g)"

definition handle ::
    "'a actuator \<Rightarrow> 'a engine \<Rightarrow> event \<Rightarrow> 'a engine \<times> action list \<times> trace_entry list" where
  "handle exec g e =
     (let t = event_at e;
          previous = pm_state (eng_policy g);
          (policy, initial) = apply_event (eng_policy g) e;
          g = note_sample (g\<lparr>eng_policy := policy\<rparr>) e initial;
          (g, decisions, tr) = handle_loop exec t g initial
      in (g, decisions, transition_entry t previous (pm_state policy) @ tr))"

end
