(* ===== verification/Intervention_Props.thy ===== *)
theory Intervention_Props
  imports Intervention
begin

text \<open>
  What the engine guarantees for every actuator: a bounded number of attempts per event, an
  immediate stronger answer to a failed attempt, publication of every phase change before the
  actuation it selects, and evidence that agrees with what was executed.
\<close>

section \<open>One pending intervention at a time\<close>

text \<open>The phase a demanded intervention is executed in.\<close>

fun demand_phase :: "demand \<Rightarrow> policy_state \<Rightarrow> bool" where
  "demand_phase Ask_Checkpoint st \<longleftrightarrow> st = CheckpointRequested"
| "demand_phase Send_Term st \<longleftrightarrow> st = Terminating \<or> st = SupervisorError"
| "demand_phase Send_Kill st \<longleftrightarrow> st = Emergency"
| "demand_phase Forward st \<longleftrightarrow> st = Terminating"

definition one_demand :: "demand list \<Rightarrow> policy_state \<Rightarrow> bool" where
  "one_demand ds st \<longleftrightarrow> ds = [] \<or> (\<exists>d. ds = [d] \<and> demand_phase d st)"

lemma one_demand_Nil [simp]: "one_demand [] st"
  by (simp add: one_demand_def)

lemma one_demand_Cons [simp]: "one_demand (d # ds) st \<longleftrightarrow> ds = [] \<and> demand_phase d st"
  by (auto simp: one_demand_def)

lemma phase_step_demand: "phase_step st e ds st' \<Longrightarrow> one_demand ds st'"
  by (induction rule: phase_step.induct) auto

lemma apply_event_demand:
  "policy_inv m \<Longrightarrow> one_demand (demands (snd (apply_event m e))) (pm_state (fst (apply_event m e)))"
  using documented_step [of m e] by (auto simp: documented_def dest: phase_step_demand)

text \<open>
  A clock regression during the loop finds the shutdown already opened: either the event itself
  moved the machine's clock to \<open>t\<close>, or the machine failed closed before the first actuation.
\<close>

definition settled :: "policy_machine \<Rightarrow> dur \<Rightarrow> bool" where
  "settled m t \<longleftrightarrow> \<not> clock_regressed m t
     \<or> pm_intervention_started m \<or> pm_state m \<in> {SupervisorError, Exited}"

lemma settled_after_event: "settled (fst (apply_event m e)) (event_at e)"
  by (cases rule: apply_event_cases [of m e])
    (simp_all add: settled_def clock_regressed_def fail_clock_def Let_def split: policy_mode.splits)

lemma settled_feedback:
  "settled m t \<Longrightarrow> settled (fst (apply_event m (ActuationFailed t k f))) t"
  using settled_after_event [of m "ActuationFailed t k f"] by simp

fun answer :: "demand \<Rightarrow> demand list" where
  "answer Ask_Checkpoint = [Send_Term]"
| "answer Send_Term = [Send_Kill]"
| "answer Forward = [Send_Kill]"
| "answer Send_Kill = []"

fun demand_of_actuation :: "actuation \<Rightarrow> demand" where
  "demand_of_actuation (Act_Checkpoint _ _ _) = Ask_Checkpoint"
| "demand_of_actuation (Act_Term _) = Send_Term"
| "demand_of_actuation Act_Kill = Send_Kill"
| "demand_of_actuation (Act_ForwardSignal _) = Forward"

lemma demand_of_actuation_for:
  "actuation_for a = Some act \<Longrightarrow> demand_of a = [demand_of_actuation act]"
  "actuation_for a = None \<Longrightarrow> demand_of a = []"
  by (cases a; auto)+

text \<open>The feedback of a failed attempt, in a machine whose phase selected that attempt.\<close>

lemma feedback_demands:
  assumes "demand_phase (demand_of_actuation act) (pm_state m)" and "settled m t"
  shows "demands (snd (apply_event m (ActuationFailed t (actuation_kind_of act) f)))
    = (if clock_regressed m t then [] else answer (demand_of_actuation act))"
proof (cases "clock_regressed m t")
  case True
  then show ?thesis using assms
    by (cases act) (auto simp: apply_event_def fail_clock_def settled_def)
next
  case False
  then show ?thesis using assms
    by (cases act) (auto simp: apply_event_def apply_actuation_failed_def Let_def)
qed

section \<open>The loop, one action at a time\<close>

definition loop_inv :: "'a engine \<Rightarrow> dur \<Rightarrow> action list \<Rightarrow> bool" where
  "loop_inv g t pending \<longleftrightarrow>
     policy_inv (eng_policy g) \<and> settled (eng_policy g) t
   \<and> one_demand (demands pending) (pm_state (eng_policy g))"

lemma attempt_split:
  assumes "attempt exec t g act = (g', after, tr)"
  obtains (ok) x outcome where "exec (eng_actuator g) t act = (x, Ok outcome)"
      "eng_evidence g' =
         record_attempt (eng_evidence g) t act (Ok outcome) (eng_last_observed_footprint_bytes g)"
      "eng_policy g' = eng_policy g" "after = []" "tr = [Executed t act (Ok outcome)]"
  | (err) x f where "exec (eng_actuator g) t act = (x, Err f)"
      "eng_evidence g' =
         record_attempt (eng_evidence g) t act (Err f) (eng_last_observed_footprint_bytes g)"
      "eng_policy g' = fst (apply_event (eng_policy g) (ActuationFailed t (actuation_kind_of act) f))"
      "after = snd (apply_event (eng_policy g) (ActuationFailed t (actuation_kind_of act) f))"
      "tr = Executed t act (Err f)
         # transition_entry t (pm_state (eng_policy g)) (pm_state (eng_policy g'))"
proof -
  obtain x r where ex: "exec (eng_actuator g) t act = (x, r)" by force
  show ?thesis
  proof (cases r)
    case (Inl f)
    with assms ex err [of x f] show ?thesis by (auto simp: attempt_def Let_def split_beta)
  next
    case (Inr outcome)
    with assms ex ok [of x outcome] show ?thesis by (auto simp: attempt_def Let_def)
  qed
qed

lemma loop_inv_skip:
  "loop_inv g t (a # pending) \<Longrightarrow> actuation_for a = None \<Longrightarrow> loop_inv (note_overshoot g a) t pending"
  by (simp add: loop_inv_def demand_of_actuation_for)

lemma loop_inv_attempt:
  assumes "loop_inv g t (a # pending)" and act: "actuation_for a = Some act"
    and att: "attempt exec t (note_overshoot g a) act = (g', after, tr)"
  shows "loop_inv g' t (pending @ after)" and "demands pending = []"
    and "demand_phase (demand_of_actuation act) (pm_state (eng_policy g))"
proof -
  from assms(1) show pend: "demands pending = []"
    and phase: "demand_phase (demand_of_actuation act) (pm_state (eng_policy g))"
    by (auto simp: loop_inv_def demand_of_actuation_for(1) [OF act])
  from att show "loop_inv g' t (pending @ after)"
  proof (cases rule: attempt_split)
    case ok
    then show ?thesis using assms(1) pend by (simp add: loop_inv_def)
  next
    case err
    then show ?thesis
      using assms(1) pend settled_feedback apply_event_demand policy_inv_apply_event
      by (simp add: loop_inv_def)
  qed
qed

section \<open>A bounded number of attempts\<close>

fun is_executed :: "trace_entry \<Rightarrow> bool" where
  "is_executed (Executed _ _ _) = True"
| "is_executed (Transition _ _ _) = False"

fun tries :: "demand \<Rightarrow> nat" where
  "tries Ask_Checkpoint = 3" | "tries Send_Term = 2" | "tries Forward = 2" | "tries Send_Kill = 1"

definition total_tries :: "demand list \<Rightarrow> nat" where
  "total_tries ds = sum_list (map tries ds)"

lemma executed_transition [simp]: "filter is_executed (transition_entry t a b) = []"
  by (simp add: transition_entry_def)

lemma answer_fewer_tries:
  "Suc (total_tries (answer d)) \<le> tries d" "Suc (total_tries []) \<le> tries d"
  by (cases d; simp add: total_tries_def)+

lemma attempt_tries:
  assumes "loop_inv g t (a # pending)" and act: "actuation_for a = Some act"
    and att: "attempt exec t (note_overshoot g a) act = (g', after, tr)"
  shows "length (filter is_executed tr) = 1"
    and "Suc (total_tries (demands after)) \<le> tries (demand_of_actuation act)"
proof -
  have phase: "demand_phase (demand_of_actuation act) (pm_state (eng_policy g))"
    and settled: "settled (eng_policy g) t"
    using loop_inv_attempt(3) [OF assms] assms(1) by (simp_all add: loop_inv_def)
  from att show "length (filter is_executed tr) = 1"
    by (cases rule: attempt_split) simp_all
  from att show "Suc (total_tries (demands after)) \<le> tries (demand_of_actuation act)"
  proof (cases rule: attempt_split)
    case ok
    then show ?thesis by (simp add: answer_fewer_tries)
  next
    case err
    then show ?thesis
      by (simp add: feedback_demands [OF phase settled] answer_fewer_tries split: if_splits)
  qed
qed

lemma loop_split:
  assumes "handle_loop exec t g (a # pending) = (g', ds, tr)"
  obtains (skip) ds' where "actuation_for a = None" "ds = a # ds'"
      "handle_loop exec t (note_overshoot g a) pending = (g', ds', tr)"
  | (act) act g1 after tr1 ds' tr2 where "actuation_for a = Some act" "ds = a # ds'" "tr = tr1 @ tr2"
      "attempt exec t (note_overshoot g a) act = (g1, after, tr1)"
      "handle_loop exec t g1 (pending @ after) = (g', ds', tr2)"
  using assms by (cases "actuation_for a") (auto simp: Let_def split: prod.splits)

text \<open>Induction over the iterations of one loop, with its result.\<close>

lemma loop_induct [consumes 1, case_names stop skip act]:
  assumes "handle_loop exec t g pending = (g', ds, tr)"
    and done_case: "\<And>g. P g [] g [] []"
    and skip: "\<And>g a pending g' ds tr. actuation_for a = None \<Longrightarrow>
      P (note_overshoot g a) pending g' ds tr \<Longrightarrow> P g (a # pending) g' (a # ds) tr"
    and act: "\<And>g a pending act g1 after tr1 g' ds tr. actuation_for a = Some act \<Longrightarrow>
      attempt exec t (note_overshoot g a) act = (g1, after, tr1) \<Longrightarrow>
      handle_loop exec t g1 (pending @ after) = (g', ds, tr) \<Longrightarrow>
      P g1 (pending @ after) g' ds tr \<Longrightarrow> P g (a # pending) g' (a # ds) (tr1 @ tr)"
  shows "P g pending g' ds tr"
  using assms
proof (induction exec t g pending arbitrary: g' ds tr rule: handle_loop.induct)
  case (1 exec t g)
  then show ?case by simp
next
  case (2 exec t g a pending)
  from "2.prems"(1) show ?case
  proof (cases rule: loop_split)
    case (skip ds')
    have "P (note_overshoot g a) pending g' ds' tr"
      by (rule "2.IH"(1) [OF refl skip(1,3)]) (fact "2.prems")+
    then show ?thesis unfolding skip(2) by (rule "2.prems"(3) [OF skip(1)])
  next
    case (act act g1 after tr1 ds' tr2)
    have "P g1 (pending @ after) g' ds' tr2"
      by (rule "2.IH"(2) [OF refl act(1) act(4) [symmetric] refl refl act(5)]) (fact "2.prems")+
    then show ?thesis unfolding act(2,3) by (rule "2.prems"(4) [OF act(1,4,5)])
  qed
qed

lemma loop_tries:
  assumes "handle_loop exec t g pending = (g', ds, tr)" and "loop_inv g t pending"
  shows "length (filter is_executed tr) \<le> total_tries (demands pending)"
  using assms
proof (induction rule: loop_induct)
  case (skip g a pending g' ds tr)
  then show ?case
    by (simp add: loop_inv_skip demand_of_actuation_for(2))
next
  case (act g a pending act g1 after tr1 g' ds tr)
  note inv = loop_inv_attempt [OF act.prems act.hyps(1,2)]
  note at = attempt_tries [OF act.prems act.hyps(1,2)]
  from act.IH [OF inv(1)] inv(2) at act.hyps(1) show ?case
    by (simp add: demand_of_actuation_for(1) total_tries_def)
qed simp

lemma note_sample_keeps [simp]:
  "eng_policy (note_sample g e initial) = eng_policy g"
  "eng_actuator (note_sample g e initial) = eng_actuator g"
  by (simp_all add: note_sample_def split: event.splits)

lemma handle_split:
  assumes "handle exec g e = (g', ds, tr)"
  obtains g0 tr' where
    "g0 = note_sample (g\<lparr>eng_policy := fst (apply_event (eng_policy g) e)\<rparr>) e
            (snd (apply_event (eng_policy g) e))"
    and "handle_loop exec (event_at e) g0 (snd (apply_event (eng_policy g) e)) = (g', ds, tr')"
    and "tr = transition_entry (event_at e) (pm_state (eng_policy g)) (pm_state (eng_policy g0)) @ tr'"
    and "eng_policy g0 = fst (apply_event (eng_policy g) e)"
  using assms by (auto simp: handle_def Let_def split: prod.splits)

lemma handle_loop_inv:
  assumes "policy_inv (eng_policy g)" and "eng_policy g0 = fst (apply_event (eng_policy g) e)"
  shows "loop_inv g0 (event_at e) (snd (apply_event (eng_policy g) e))"
  using assms apply_event_demand policy_inv_apply_event settled_after_event
  by (simp add: loop_inv_def)

lemma total_tries_one: "one_demand ds st \<Longrightarrow> total_tries ds \<le> 3"
proof -
  have "tries d \<le> 3" for d by (cases d) simp_all
  then show "one_demand ds st \<Longrightarrow> total_tries ds \<le> 3"
    by (auto simp: one_demand_def total_tries_def)
qed

lemma handle_tries:
  assumes "policy_inv (eng_policy g)" and "handle exec g e = (g', decisions, tr)"
  shows "length (filter is_executed tr) \<le> 3"
  using assms(2)
proof (rule handle_split)
  fix g0 tr'
  assume loop: "handle_loop exec (event_at e) g0 (snd (apply_event (eng_policy g) e)) = (g', decisions, tr')"
    and tr: "tr = transition_entry (event_at e) (pm_state (eng_policy g)) (pm_state (eng_policy g0)) @ tr'"
    and pol: "eng_policy g0 = fst (apply_event (eng_policy g) e)"
  note inv = handle_loop_inv [OF assms(1) pol]
  have "length (filter is_executed tr') \<le> total_tries (demands (snd (apply_event (eng_policy g) e)))"
    by (rule loop_tries [OF loop inv])
  also have "\<dots> \<le> 3" using inv by (auto simp: loop_inv_def intro: total_tries_one)
  finally show ?thesis using tr by simp
qed

text \<open>C23. Whatever the platform answers, one event makes the engine attempt at most three
  actuations: a checkpoint request, then TERM, then KILL. A permanently failing actuator cannot trap
  the supervisor in the loop that feeds failures back to the policy.\<close>

theorem three_attempts_at_most:
  assumes "policy_inv (eng_policy g)" and "handle exec g e = (g', decisions, tr)"
  shows "length (filter is_executed tr) \<le> 3"
  using assms by (rule handle_tries)

section \<open>Failures are answered in the same call\<close>

fun executes :: "demand \<Rightarrow> trace_entry \<Rightarrow> bool" where
  "executes d (Executed _ act _) \<longleftrightarrow> demand_of_actuation act = d"
| "executes d (Transition _ _ _) \<longleftrightarrow> False"

text \<open>Every failed attempt is followed by the attempt that answers it.\<close>

fun answered :: "trace_entry list \<Rightarrow> bool" where
  "answered [] \<longleftrightarrow> True"
| "answered (Executed t act (Inl f) # tr) \<longleftrightarrow>
     list_all (\<lambda>d. list_ex (executes d) tr) (answer (demand_of_actuation act)) \<and> answered tr"
| "answered (x # tr) \<longleftrightarrow> answered tr"

lemma answered_transition [simp]: "answered (transition_entry t a b @ tr) = answered tr"
  by (simp add: transition_entry_def)

lemma executes_transition [simp]: "list_ex (executes d) (transition_entry t a b) = False"
  by (simp add: transition_entry_def)

lemma pending_is_executed:
  assumes "handle_loop exec t g pending = (g', ds, tr)" and "d \<in> set (demands pending)"
  shows "list_ex (executes d) tr"
  using assms
proof (induction rule: loop_induct)
  case (skip g a pending g' ds tr)
  then show ?case by (simp add: demand_of_actuation_for(2))
next
  case (act g a pending act g1 after tr1 g' ds tr)
  from act.hyps(2) have "executes (demand_of_actuation act) (hd tr1)" "tr1 \<noteq> []"
    by (cases rule: attempt_split; simp)+
  then have "list_ex (executes (demand_of_actuation act)) tr1" by (cases tr1) simp_all
  with act show ?case by (auto simp: demand_of_actuation_for(1))
qed simp

lemma not_regressed_after:
  "\<not> clock_regressed m t \<Longrightarrow> \<not> clock_regressed (fst (apply_event m (ActuationFailed t k f))) t"
  by (cases rule: apply_event_cases [of m "ActuationFailed t k f"])
    (simp_all add: clock_regressed_def apply_actuation_failed_def start_term_def Let_def)

lemma loop_answered:
  assumes "handle_loop exec t g pending = (g', ds, tr)" and "loop_inv g t pending"
    and "\<not> clock_regressed (eng_policy g) t"
  shows "answered tr"
  using assms
proof (induction rule: loop_induct)
  case (skip g a pending g' ds tr)
  then show ?case by (simp add: loop_inv_skip)
next
  case (act g a pending act g1 after tr1 g' ds tr)
  note inv = loop_inv_attempt [OF act.prems(1) act.hyps(1,2)]
  have settled: "settled (eng_policy g) t" using act.prems(1) by (simp add: loop_inv_def)
  from act.hyps(2) show ?case
  proof (cases rule: attempt_split)
    case ok
    with act inv show ?thesis by simp
  next
    case err
    then have "\<not> clock_regressed (eng_policy g1) t"
      using act.prems(2) not_regressed_after by simp
    with act inv have "answered tr" by simp
    moreover have "demands after = answer (demand_of_actuation act)"
      using err act.prems(2) feedback_demands [OF inv(3) settled] by simp
    then have "list_all (\<lambda>d. list_ex (executes d) tr) (answer (demand_of_actuation act))"
      using pending_is_executed [OF act.hyps(3)] inv(2) by (simp add: list_all_iff)
    ultimately show ?thesis using err by (simp add: list_all_iff)
  qed
qed simp

text \<open>C22. A failed attempt never waits for a timer. Within the same call a checkpoint request that
  cannot be delivered is followed by TERM, and a TERM or forwarded signal that cannot be delivered
  by KILL, for every event of a clock that did not run backwards.\<close>

theorem failures_are_answered_at_once:
  assumes "policy_inv (eng_policy g)" and "handle exec g e = (g', decisions, tr)"
    and "\<not> clock_regressed (eng_policy g) (event_at e)"
  shows "answered tr"
  using assms(2)
proof (rule handle_split)
  fix g0 tr'
  assume loop: "handle_loop exec (event_at e) g0 (snd (apply_event (eng_policy g) e)) = (g', decisions, tr')"
    and tr: "tr = transition_entry (event_at e) (pm_state (eng_policy g)) (pm_state (eng_policy g0)) @ tr'"
    and pol: "eng_policy g0 = fst (apply_event (eng_policy g) e)"
  note inv = handle_loop_inv [OF assms(1) pol]
  show ?thesis
  proof (cases "demands (snd (apply_event (eng_policy g) e)) = []")
    case True
    then have "length (filter is_executed tr') = 0"
      using loop_tries [OF loop inv] by (simp add: total_tries_def)
    then have "answered tr'"
    proof (induction tr')
      case (Cons x xs)
      then show ?case by (cases x) simp_all
    qed simp
    then show ?thesis by (simp add: tr)
  next
    case False
    then have "\<not> clock_regressed (eng_policy g0) (event_at e)"
      unfolding pol using assms(3)
      by (cases rule: apply_event_cases [of "eng_policy g" e]) (simp_all add: clock_regressed_def)
    with loop_answered [OF loop inv] show ?thesis by (simp add: tr)
  qed
qed

section \<open>Every phase is published before it acts\<close>

text \<open>
  Replays a trace from a known phase: a published transition must start in the phase known so far,
  and an actuation may only happen in the phase that selects it.
\<close>

fun replay :: "policy_state \<Rightarrow> trace_entry list \<Rightarrow> policy_state option" where
  "replay st [] = Some st"
| "replay st (Transition _ a b # tr) = (if a = st \<and> a \<noteq> b then replay b tr else None)"
| "replay st (Executed _ act _ # tr) =
     (if demand_phase (demand_of_actuation act) st then replay st tr else None)"

lemma replay_append:
  "replay st xs = Some st' \<Longrightarrow> replay st (xs @ ys) = replay st' ys"
  by (induction st xs rule: replay.induct) (simp_all split: if_splits)

lemma replay_transition [simp]: "replay a (transition_entry t a b) = Some b"
  by (simp add: transition_entry_def)

lemma loop_replay:
  assumes "handle_loop exec t g pending = (g', ds, tr)" and "loop_inv g t pending"
  shows "replay (pm_state (eng_policy g)) tr = Some (pm_state (eng_policy g'))"
  using assms
proof (induction rule: loop_induct)
  case (skip g a pending g' ds tr)
  then show ?case by (simp add: loop_inv_skip)
next
  case (act g a pending act g1 after tr1 g' ds tr)
  note inv = loop_inv_attempt [OF act.prems act.hyps(1,2)]
  from act.hyps(2) inv(3)
  have "replay (pm_state (eng_policy g)) tr1 = Some (pm_state (eng_policy g1))"
    by (cases rule: attempt_split) simp_all
  with act.IH [OF inv(1)] show ?case by (simp add: replay_append)
qed simp

lemma handle_replay:
  assumes "policy_inv (eng_policy g)" and "handle exec g e = (g', decisions, tr)"
  shows "replay (pm_state (eng_policy g)) tr = Some (pm_state (eng_policy g'))"
  using assms(2)
proof (rule handle_split)
  fix g0 tr'
  assume loop: "handle_loop exec (event_at e) g0 (snd (apply_event (eng_policy g) e)) = (g', decisions, tr')"
    and tr: "tr = transition_entry (event_at e) (pm_state (eng_policy g)) (pm_state (eng_policy g0)) @ tr'"
    and pol: "eng_policy g0 = fst (apply_event (eng_policy g) e)"
  from loop_replay [OF loop handle_loop_inv [OF assms(1) pol]] show ?thesis
    by (simp add: tr replay_append [OF replay_transition])
qed

text \<open>Persist before signalling: the observer sees every phase change of the policy, in order and
  without gaps, and each checkpoint request, TERM, forwarded signal or KILL is executed only after
  the change to the phase that selected it was published.\<close>

theorem transitions_published_before_actuation:
  assumes "policy_inv (eng_policy g)" and "handle exec g e = (g', decisions, tr)"
  shows "replay (pm_state (eng_policy g)) tr = Some (pm_state (eng_policy g'))"
  using assms by (rule handle_replay)

section \<open>Evidence\<close>

type_synonym attempt_entry = "dur \<times> actuation \<times> actuation_result"

fun attempts_of :: "trace_entry list \<Rightarrow> attempt_entry list" where
  "attempts_of [] = []"
| "attempts_of (Executed t act r # tr) = (t, act, r) # attempts_of tr"
| "attempts_of (Transition _ _ _ # tr) = attempts_of tr"

definition recorded :: "intervention_evidence \<Rightarrow> attempt_entry list" where
  "recorded ev = map (\<lambda>r. (ir_requested_at r, ir_action r, ir_result r)) (ie_records ev)"

text \<open>What the evidence must say after the attempts \<open>as\<close>.\<close>

definition evidence_of :: "intervention_evidence \<Rightarrow> attempt_entry list \<Rightarrow> bool" where
  "evidence_of ev as \<longleftrightarrow>
     recorded ev = keep_last MAX_INTERVENTION_RECORDS as
   \<and> unat (ie_total_attempts ev) = min (length as) (2 ^ 64 - 1)
   \<and> unat (ie_dropped_records ev) = min (length as - MAX_INTERVENTION_RECORDS) (2 ^ 64 - 1)"

lemma attempts_of_append [simp]: "attempts_of (xs @ ys) = attempts_of xs @ attempts_of ys"
  by (induction xs rule: attempts_of.induct) simp_all

lemma attempts_of_transition [simp]: "attempts_of (transition_entry t a b) = []"
  by (simp add: transition_entry_def)

lemma push_record_fields:
  "recorded (push_record ev r) =
     push_capped MAX_INTERVENTION_RECORDS (recorded ev) (ir_requested_at r, ir_action r, ir_result r)"
  "ie_total_attempts (push_record ev r) = sat_add (ie_total_attempts ev) 1"
  "ie_dropped_records (push_record ev r) =
     (if length (recorded ev) = MAX_INTERVENTION_RECORDS
      then sat_add (ie_dropped_records ev) 1 else ie_dropped_records ev)"
  by (simp_all add: recorded_def push_record_def Let_def push_capped_def drop_map)

lemma evidence_of_push:
  assumes "evidence_of ev as"
  shows "evidence_of (record_attempt ev t act r base) (as @ [(t, act, r)])"
  using assms
  by (auto simp: evidence_of_def record_attempt_def push_record_fields unat_sat_add
      push_capped_keep_last MAX_INTERVENTION_RECORDS_def min_def)

text \<open>What the other evidence updates do not touch.\<close>

definition same_attempts :: "intervention_evidence \<Rightarrow> intervention_evidence \<Rightarrow> bool" where
  "same_attempts a b \<longleftrightarrow> recorded a = recorded b
     \<and> ie_total_attempts a = ie_total_attempts b \<and> ie_dropped_records a = ie_dropped_records b"

lemma same_attempts_evidence: "same_attempts a b \<Longrightarrow> evidence_of a as = evidence_of b as"
  by (simp add: same_attempts_def evidence_of_def)

lemma observe_record_keeps [simp]:
  "ir_action (observe_record t x r) = ir_action r"
  "ir_requested_at (observe_record t x r) = ir_requested_at r"
  "ir_result (observe_record t x r) = ir_result r"
  by (simp_all add: observe_record_def Let_def split: option.splits)

lemma group_empty_record_keeps [simp]:
  "ir_action (group_empty_record t r) = ir_action r"
  "ir_requested_at (group_empty_record t r) = ir_requested_at r"
  "ir_result (group_empty_record t r) = ir_result r"
  by (simp_all add: group_empty_record_def)

lemma evidence_observe_same: "same_attempts (evidence_observe ev t x) ev"
  by (simp add: same_attempts_def evidence_observe_def recorded_def o_def)

lemma observe_group_empty_same: "same_attempts (observe_group_empty ev t) ev"
  by (simp add: same_attempts_def observe_group_empty_def recorded_def o_def)

lemma note_overshoot_same: "same_attempts (eng_evidence (note_overshoot g a)) (eng_evidence g)"
  by (simp add: note_overshoot_def record_overshoot_def same_attempts_def recorded_def
      split: option.splits)

lemma note_sample_same: "same_attempts (eng_evidence (note_sample g e initial)) (eng_evidence g)"
  using evidence_observe_same
  by (simp add: note_sample_def same_attempts_def split: event.splits)

lemma loop_evidence:
  assumes "handle_loop exec t g pending = (g', ds, tr)" and "evidence_of (eng_evidence g) as"
  shows "evidence_of (eng_evidence g') (as @ attempts_of tr)"
  using assms
proof (induction arbitrary: as rule: loop_induct)
  case (skip g a pending g' ds tr)
  then show ?case using same_attempts_evidence [OF note_overshoot_same] by blast
next
  case (act g a pending act g1 after tr1 g' ds tr)
  have ev: "evidence_of (eng_evidence (note_overshoot g a)) as"
    using act.prems same_attempts_evidence [OF note_overshoot_same] by blast
  from act.hyps(2) have "evidence_of (eng_evidence g1) (as @ attempts_of tr1)"
    by (cases rule: attempt_split) (simp_all add: evidence_of_push [OF ev])
  from act.IH [OF this] show ?case by simp
qed simp

lemma handle_evidence:
  assumes "handle exec g e = (g', ds, tr)" and "evidence_of (eng_evidence g) as"
  shows "evidence_of (eng_evidence g') (as @ attempts_of tr)"
  using assms(1)
proof (rule handle_split)
  fix g0 tr'
  assume g0: "g0 = note_sample (g\<lparr>eng_policy := fst (apply_event (eng_policy g) e)\<rparr>) e
      (snd (apply_event (eng_policy g) e))"
    and loop: "handle_loop exec (event_at e) g0 (snd (apply_event (eng_policy g) e)) = (g', ds, tr')"
    and tr: "tr = transition_entry (event_at e) (pm_state (eng_policy g)) (pm_state (eng_policy g0)) @ tr'"
  have "evidence_of (eng_evidence g0) as"
    using assms(2) by (simp add: g0 same_attempts_evidence [OF note_sample_same])
  from loop_evidence [OF loop this] show ?thesis by (simp add: tr)
qed

text \<open>One thing the run loop does with the engine: deliver an event, or poll the group.\<close>

datatype engine_op = Deliver event | Poll_Group dur bool

fun engine_step :: "'a actuator \<Rightarrow> 'a engine \<Rightarrow> engine_op \<Rightarrow> 'a engine \<times> trace_entry list" where
  "engine_step exec g (Deliver e) = (let (g', ds, tr) = handle exec g e in (g', tr))"
| "engine_step exec g (Poll_Group t exists) = (fst (observe_group_status g t exists), [])"

lemma engine_run_evidence:
  "evidence_of (eng_evidence g) as \<Longrightarrow> run_machine (engine_step exec) g ops = (g', tr) \<Longrightarrow>
   evidence_of (eng_evidence g') (as @ attempts_of tr)"
proof (induction ops arbitrary: g as tr)
  case (Cons op ops)
  from Cons.prems(2) obtain g1 tr1 tr2
    where st: "engine_step exec g op = (g1, tr1)"
      and run: "run_machine (engine_step exec) g1 ops = (g', tr2)" and tr: "tr = tr1 @ tr2"
    by (rule run_machine_Cons_E)
  have "evidence_of (eng_evidence g1) (as @ attempts_of tr1)"
  proof (cases op)
    case (Deliver e)
    with st handle_evidence Cons.prems(1) show ?thesis by (auto simp: Let_def split: prod.splits)
  next
    case (Poll_Group t exists)
    with st Cons.prems(1) same_attempts_evidence [OF observe_group_empty_same] show ?thesis
      by (auto simp: observe_group_status_def split: if_splits)
  qed
  from Cons.IH [OF this run] show ?case by (simp add: tr)
qed simp

text \<open>C24. The intervention evidence of a report is exact. After any sequence of events and group
  polls, with any actuator, the retained records are the last 64 attempts that were really executed,
  in order and with the results the platform returned, and the two counters account for every
  attempt and every dropped record.\<close>

theorem evidence_is_faithful:
  "evidence_of (eng_evidence (fst (run_machine (engine_step exec) (engine_new policy actuator) ops)))
     (attempts_of (snd (run_machine (engine_step exec) (engine_new policy actuator) ops)))"
proof -
  have "evidence_of (eng_evidence (engine_new policy actuator)) []"
    by (simp add: evidence_of_def engine_new_def evidence_default_def recorded_def)
  from engine_run_evidence [OF this, of exec ops] show ?thesis by (metis append_Nil prod.collapse)
qed

section \<open>Witnesses\<close>

text \<open>An actuator of which every call fails, and one of which every call is delivered.\<close>

definition broken_actuator :: "nat actuator" where
  "broken_actuator n t act = (Suc n, Err SignalFailed)"

definition demo_engine :: "nat engine" where
  "demo_engine = engine_new demo_machine 0"

lemma demo_engine_inv [simp]: "policy_inv (eng_policy demo_engine)"
  using policy_inv_enforce [OF demo_machine] by (simp add: demo_engine_def engine_new_def)

lemma demo_engine_clock [simp]: "\<not> clock_regressed (eng_policy demo_engine) t"
  by (simp add: demo_engine_def engine_new_def clock_regressed_def)

lemma handle_eta:
  "handle exec g e = (fst (handle exec g e), fst (snd (handle exec g e)), snd (snd (handle exec g e)))"
  by simp

theorem three_attempts_at_most_witness:
  "length (filter is_executed (snd (snd (handle broken_actuator demo_engine (Tick 5000))))) \<le> 3"
  by (rule three_attempts_at_most [OF demo_engine_inv handle_eta])

theorem failures_are_answered_at_once_witness:
  "answered (snd (snd (handle broken_actuator demo_engine (Tick 5000))))"
  by (rule failures_are_answered_at_once [OF demo_engine_inv handle_eta demo_engine_clock])

theorem transitions_published_before_actuation_witness:
  "replay (pm_state (eng_policy demo_engine)) (snd (snd (handle broken_actuator demo_engine (Tick 5000))))
   = Some (pm_state (eng_policy (fst (handle broken_actuator demo_engine (Tick 5000)))))"
  by (rule transitions_published_before_actuation [OF demo_engine_inv handle_eta])

end
