(* ===== verification/Identity.thy ===== *)
theory Identity
  imports Outcome "HOL-Library.RBT" "HOL-Library.Product_Lexorder"
begin

text \<open>
  \<^verbatim>\<open>mlx-guard-core/src/identity.rs\<close>: identity-bound process observations, the tracker that
  compares non-atomic snapshots, and the aggregate footprint of the owned members. The kernel
  queries (\<open>mod native\<close>) are parameters. A \<open>BTreeMap\<close> is a red-black tree of the library, whose
  \<open>entries\<close> come in key order like the iteration of the code; \<open>sort_by_key\<close> is \<open>sort_key\<close>.
\<close>

section \<open>Data\<close>

text \<open>
  \<open>ProcessIdentity\<close> derives \<open>Ord\<close>: fields in declaration order. It is a datatype and not a record
  so that it can be an instance of the library's order classes.
\<close>

datatype process_identity = ProcessIdentity (id_pid: i32) (id_start_abstime: u64)

instantiation process_identity :: linorder
begin

definition less_eq_process_identity :: "process_identity \<Rightarrow> process_identity \<Rightarrow> bool" where
  "a \<le> b \<longleftrightarrow> (id_pid a, id_start_abstime a) \<le> (id_pid b, id_start_abstime b)"

definition less_process_identity :: "process_identity \<Rightarrow> process_identity \<Rightarrow> bool" where
  "a < b \<longleftrightarrow> (id_pid a, id_start_abstime a) < (id_pid b, id_start_abstime b)"

instance
  by standard
    (auto simp: less_eq_process_identity_def less_process_identity_def
      intro: process_identity.expand)

end

record process_observation =
  po_identity :: process_identity
  po_parent_pid :: i32
  po_process_group_id :: i32
  po_footprint_bytes :: "u64 option"
  po_exited :: bool

datatype observation_failure_kind =
    Fail_Disappeared
  | Fail_PermissionDenied
  | Fail_StaleIdentity
  | Fail_MalformedData
  | Fail_Unsupported
  | Fail_EnumerationFailed
  | Fail_Unavailable

record observation_failure =
  of_pid :: "i32 option"
  of_kind :: observation_failure_kind

record process_snapshot =
  ps_observations :: "process_observation list"
  ps_failures :: "observation_failure list"

datatype identity_unavailable =
    Ident_Disappeared
  | Ident_PermissionDenied
  | Ident_Stale
  | Ident_MalformedData
  | Ident_Unsupported
  | Ident_Unavailable

datatype aggregate_footprint =
    Complete u64
  | Incomplete u64 "process_identity list"
  | Overflow

datatype containment_event =
    Contain_Disappeared process_identity
  | Contain_IdentityChanged i32 u64 u64
  | Contain_Reparented process_identity "i32 option" i32
  | Contain_LeftOwnedGroup process_identity i32
  | Contain_ObservationFailed observation_failure

record tracking_frame =
  tf_owned_members :: "process_observation list"
  tf_escape_observed :: bool
  tf_events :: "containment_event list"
  tf_aggregate_footprint :: aggregate_footprint
  tf_observation_failures :: "observation_failure list"
  tf_root_exit_observed :: bool

record tracked_process =
  tp_identity :: process_identity
  tp_parent_pid :: i32
  tp_escaped :: bool

definition MAX_ESCAPED_EVIDENCE :: nat where "MAX_ESCAPED_EVIDENCE = 64"

record identity_tracker =
  it_root :: process_identity
  it_owned_group :: i32
  it_tracked :: "(process_identity, tracked_process) rbt"
  it_last_by_pid :: "(i32, process_identity) rbt"
  it_escaped :: "process_identity set"
  it_escaped_count :: u64
  it_root_exit_observed :: bool

definition identity_tracker_new ::
    "process_identity \<Rightarrow> i32 \<Rightarrow> identity_unavailable + identity_tracker" where
  "identity_tracker_new root owned_group =
     (if id_pid root \<le> 0 \<or> id_start_abstime root = 0 \<or> owned_group \<le> 0
      then Err Ident_MalformedData
      else Ok \<lparr>it_root = root, it_owned_group = owned_group, it_tracked = RBT.empty,
               it_last_by_pid = RBT.empty, it_escaped = {}, it_escaped_count = 0,
               it_root_exit_observed = False\<rparr>)"

section \<open>Preparing a snapshot\<close>

type_synonym observation_map = "(i32, process_observation) rbt"

text \<open>\<open>entry(k).or_insert(v)\<close>: the first observation of a PID wins.\<close>

definition or_insert :: "'k::linorder \<Rightarrow> 'v \<Rightarrow> ('k, 'v) rbt \<Rightarrow> ('k, 'v) rbt" where
  "or_insert k v m = (case RBT.lookup m k of None \<Rightarrow> RBT.insert k v m | Some _ \<Rightarrow> m)"

definition rbt_values :: "('k::linorder, 'v) rbt \<Rightarrow> 'v list" where
  "rbt_values m = map snd (RBT.entries m)"

definition observations_by_pid :: "process_observation list \<Rightarrow> observation_map" where
  "observations_by_pid obs =
     foldl (\<lambda>m ob. or_insert (id_pid (po_identity ob)) ob m) RBT.empty obs"

definition relevant_failure :: "process_identity \<Rightarrow> observation_failure \<Rightarrow> bool" where
  "relevant_failure root failure \<longleftrightarrow>
     of_kind failure \<noteq> Fail_Disappeared \<or> of_pid failure = None
   \<or> of_pid failure = Some (id_pid root)"

definition identity_changes ::
    "(i32, process_identity) rbt \<Rightarrow> process_observation list \<Rightarrow> containment_event list" where
  "identity_changes last_by_pid obs =
     concat (map (\<lambda>ob.
       (case RBT.lookup last_by_pid (id_pid (po_identity ob)) of
          Some previous \<Rightarrow>
            (if previous \<noteq> po_identity ob
             then [Contain_IdentityChanged (id_pid (po_identity ob)) (id_start_abstime previous)
                     (id_start_abstime (po_identity ob))]
             else [])
        | None \<Rightarrow> [])) obs)"

definition disappearances ::
    "tracked_process list \<Rightarrow> process_observation list \<Rightarrow> containment_event list" where
  "disappearances tracked obs =
     concat (map (\<lambda>tr.
       (if list_ex (\<lambda>current. po_identity current = tp_identity tr) obs then []
        else [Contain_Disappeared (tp_identity tr)])) tracked)"

definition prepare_snapshot ::
    "identity_tracker \<Rightarrow> process_snapshot
     \<Rightarrow> observation_map \<times> containment_event list \<times> observation_failure list" where
  "prepare_snapshot t snapshot =
     (let observations = observations_by_pid (ps_observations snapshot);
          values = rbt_values observations;
          failures = filter (relevant_failure (it_root t)) (ps_failures snapshot)
      in (observations,
          identity_changes (it_last_by_pid t) values
            @ disappearances (rbt_values (it_tracked t)) values
            @ map Contain_ObservationFailed failures,
          failures))"

section \<open>Descent from the root\<close>

text \<open>
  The loop over parents. \<open>visited.insert(parent)\<close> returns whether the element is new; the loop ends
  because every further iteration has visited one more PID of the map.
\<close>

function descend :: "observation_map \<Rightarrow> i32 \<Rightarrow> i32 \<Rightarrow> i32 set \<Rightarrow> bool" where
  "descend observations root_pid parent visited =
     (if 0 < parent \<and> parent \<notin> visited then
        (if parent = root_pid then True
         else case RBT.lookup observations parent of
           None \<Rightarrow> False
         | Some ob \<Rightarrow> descend observations root_pid (po_parent_pid ob) (insert parent visited))
      else False)"
  by pat_completeness auto

termination
proof (relation "measure (\<lambda>(observations, root_pid, parent, visited).
    card (set (RBT.keys observations) - visited))", goal_cases)
  case (2 observations root_pid parent visited ob)
  then have "parent \<in> set (RBT.keys observations) - visited"
    by (auto simp flip: lookup_keys)
  then have "card (set (RBT.keys observations) - insert parent visited)
    < card (set (RBT.keys observations) - visited)"
    by (intro psubset_card_mono) auto
  then show ?case by simp
qed simp

declare descend.simps [simp del]

definition descends_from_root :: "process_observation \<Rightarrow> observation_map \<Rightarrow> i32 \<Rightarrow> bool" where
  "descends_from_root ob observations root_pid = descend observations root_pid (po_parent_pid ob) {}"

section \<open>The aggregate footprint\<close>

text \<open>The first loop: the running total of the known footprints, or the overflow exit.\<close>

fun sum_members ::
    "u64 \<Rightarrow> process_identity list \<Rightarrow> process_observation list
     \<Rightarrow> (u64 \<times> process_identity list) option" where
  "sum_members known missing [] = Some (known, missing)"
| "sum_members known missing (m # ms) =
     (case po_footprint_bytes m of
        None \<Rightarrow> sum_members known (missing @ [po_identity m]) ms
      | Some bytes \<Rightarrow>
          (case checked_add known bytes of
             None \<Rightarrow> None
           | Some known' \<Rightarrow> sum_members known' missing ms))"

definition missing_of_failure ::
    "process_identity list \<Rightarrow> process_identity \<Rightarrow> observation_failure \<Rightarrow> process_identity list" where
  "missing_of_failure previous root failure =
     (case of_pid failure of
        Some pid \<Rightarrow>
          filter (\<lambda>identity. id_pid identity = pid) previous
            @ (if pid = id_pid root then [root] else [])
      | None \<Rightarrow> previous @ [root])"

definition aggregate ::
    "process_observation list \<Rightarrow> observation_failure list \<Rightarrow> (process_identity, tracked_process) rbt
     \<Rightarrow> process_identity \<Rightarrow> bool \<Rightarrow> aggregate_footprint" where
  "aggregate members failures previous root root_was_observed =
     (case sum_members 0 [] members of
        None \<Rightarrow> Overflow
      | Some (known_bytes, missing) \<Rightarrow>
          (let missing = missing
                 @ concat (map (missing_of_failure (RBT.keys previous) root) failures)
                 @ (if root_was_observed then [] else [root]);
               missing = remdups_adj (sort missing)
           in if missing = [] \<and> failures = [] then Complete known_bytes
              else Incomplete known_bytes missing))"

section \<open>Updating the tracker\<close>

text \<open>What the loop of \<open>update\<close> accumulates.\<close>

record update_state =
  us_events :: "containment_event list"
  us_next_tracked :: "(process_identity, tracked_process) rbt"
  us_owned_members :: "process_observation list"
  us_escaped :: "process_identity set"
  us_escaped_count :: u64

definition reparent_events ::
    "tracked_process option \<Rightarrow> bool \<Rightarrow> bool \<Rightarrow> bool \<Rightarrow> process_observation
     \<Rightarrow> containment_event list" where
  "reparent_events was_tracked is_root in_owned_group descendant ob =
     (case was_tracked of
        Some tracked \<Rightarrow>
          (if tp_parent_pid tracked \<noteq> po_parent_pid ob
           then [Contain_Reparented (po_identity ob) (Some (tp_parent_pid tracked)) (po_parent_pid ob)]
           else [])
      | None \<Rightarrow>
          (if \<not> is_root \<and> in_owned_group \<and> \<not> descendant
           then [Contain_Reparented (po_identity ob) None (po_parent_pid ob)]
           else []))"

definition update_one ::
    "identity_tracker \<Rightarrow> observation_map \<Rightarrow> update_state \<Rightarrow> process_observation \<Rightarrow> update_state" where
  "update_one t observations u ob =
     (let identity = po_identity ob in
      if id_pid identity \<le> 0 \<or> id_start_abstime identity = 0 then u
      else
        let was_tracked = RBT.lookup (it_tracked t) identity;
            descendant = descends_from_root ob observations (id_pid (it_root t));
            in_owned_group = (po_process_group_id ob = it_owned_group t);
            is_root = (identity = it_root t)
        in if \<not> is_root \<and> was_tracked = None \<and> \<not> descendant \<and> \<not> in_owned_group then u
           else
             let events = us_events u
                   @ reparent_events was_tracked is_root in_owned_group descendant ob;
                 escaping = (\<not> is_root \<and> \<not> in_owned_group \<and> \<not> po_exited ob);
                 counted_before =
                   ((case was_tracked of None \<Rightarrow> False | Some tracked \<Rightarrow> tp_escaped tracked)
                    \<or> identity \<in> us_escaped u);
                 next = RBT.insert identity
                   \<lparr>tp_identity = identity, tp_parent_pid = po_parent_pid ob,
                    tp_escaped = (counted_before \<or> escaping)\<rparr> (us_next_tracked u)
             in if escaping then
                  let count = (if counted_before then us_escaped_count u
                               else sat_add (us_escaped_count u) 1)
                  in if card (us_escaped u) < MAX_ESCAPED_EVIDENCE \<and> identity \<notin> us_escaped u
                     then u\<lparr>us_events := events
                              @ [Contain_LeftOwnedGroup identity (po_process_group_id ob)],
                            us_next_tracked := next,
                            us_escaped := insert identity (us_escaped u),
                            us_escaped_count := count\<rparr>
                     else u\<lparr>us_events := events, us_next_tracked := next,
                            us_escaped_count := count\<rparr>
                else u\<lparr>us_events := events, us_next_tracked := next,
                       us_owned_members :=
                         (if po_exited ob then us_owned_members u else us_owned_members u @ [ob])\<rparr>)"

definition update_loop ::
    "identity_tracker \<Rightarrow> observation_map \<Rightarrow> containment_event list \<Rightarrow> update_state" where
  "update_loop t observations events =
     foldl (update_one t observations)
       \<lparr>us_events = events, us_next_tracked = RBT.empty, us_owned_members = [],
        us_escaped = it_escaped t, us_escaped_count = it_escaped_count t\<rparr>
       (rbt_values observations)"

definition last_identities ::
    "(process_identity, tracked_process) rbt \<Rightarrow> process_identity \<Rightarrow> (i32, process_identity) rbt" where
  "last_identities tracked root =
     or_insert (id_pid root) root
       (foldl (\<lambda>m identity. RBT.insert (id_pid identity) identity m) RBT.empty (RBT.keys tracked))"

definition tracker_update ::
    "identity_tracker \<Rightarrow> process_snapshot \<Rightarrow> identity_tracker \<times> tracking_frame" where
  "tracker_update t snapshot =
     (let (observations, events, relevant_failures) = prepare_snapshot t snapshot;
          previous = it_tracked t;
          u = update_loop t observations events;
          owned_members = sort_key po_identity (us_owned_members u);
          root_observation = RBT.lookup observations (id_pid (it_root t));
          root_exit = (it_root_exit_observed t
            \<or> (case root_observation of None \<Rightarrow> False
               | Some ob \<Rightarrow> po_identity ob = it_root t \<and> po_exited ob));
          root_was_observed = (case root_observation of None \<Rightarrow> False
               | Some ob \<Rightarrow> po_identity ob = it_root t);
          aggregate_footprint = aggregate owned_members relevant_failures previous (it_root t)
            (root_was_observed \<or> root_exit)
      in (t\<lparr>it_tracked := us_next_tracked u,
            it_last_by_pid := last_identities (us_next_tracked u) (it_root t),
            it_escaped := us_escaped u,
            it_escaped_count := us_escaped_count u,
            it_root_exit_observed := root_exit\<rparr>,
          \<lparr>tf_owned_members = owned_members,
           tf_escape_observed = (0 < us_escaped_count u),
           tf_events = us_events u,
           tf_aggregate_footprint = aggregate_footprint,
           tf_observation_failures = relevant_failures,
           tf_root_exit_observed = root_exit\<rparr>))"

end
