(* ===== verification/Identity_Props.thy ===== *)
theory Identity_Props
  imports Identity
begin

text \<open>
  What one tracker update reports, for every snapshot: who is owned, what the aggregate may claim,
  who descends from the root, and how escapes are counted and retained.
\<close>

section \<open>Snapshots as maps\<close>

definition first_by_pid :: "process_observation list \<Rightarrow> i32 \<Rightarrow> process_observation option" where
  "first_by_pid obs pid = find (\<lambda>ob. id_pid (po_identity ob) = pid) obs"

lemma lookup_or_insert:
  "RBT.lookup (or_insert k v m) x =
     (if x = k then (case RBT.lookup m k of None \<Rightarrow> Some v | Some w \<Rightarrow> Some w) else RBT.lookup m x)"
  by (simp add: or_insert_def split: option.splits)

lemma lookup_observations_from:
  "RBT.lookup (foldl (\<lambda>m ob. or_insert (id_pid (po_identity ob)) ob m) m obs) pid =
     (case RBT.lookup m pid of Some ob \<Rightarrow> Some ob | None \<Rightarrow> first_by_pid obs pid)"
  by (induction obs arbitrary: m)
    (auto simp: first_by_pid_def lookup_or_insert split: option.splits)

lemma lookup_observations [simp]:
  "RBT.lookup (observations_by_pid obs) pid = first_by_pid obs pid"
  by (simp add: observations_by_pid_def lookup_observations_from)

lemma first_by_pid_key: "first_by_pid obs pid = Some ob \<Longrightarrow> id_pid (po_identity ob) = pid"
  by (auto simp: first_by_pid_def find_Some_iff)

lemma entries_iff: "(k, v) \<in> set (RBT.entries m) \<longleftrightarrow> RBT.lookup m k = Some v"
  by (simp add: RBT.lookup_in_tree)

lemma values_iff:
  "ob \<in> set (rbt_values (observations_by_pid obs))
     \<longleftrightarrow> first_by_pid obs (id_pid (po_identity ob)) = Some ob"
proof
  assume "ob \<in> set (rbt_values (observations_by_pid obs))"
  then obtain k where "(k, ob) \<in> set (RBT.entries (observations_by_pid obs))"
    by (auto simp: rbt_values_def)
  then have "first_by_pid obs k = Some ob" by (simp add: entries_iff)
  with first_by_pid_key show "first_by_pid obs (id_pid (po_identity ob)) = Some ob" by force
next
  assume "first_by_pid obs (id_pid (po_identity ob)) = Some ob"
  then have "(id_pid (po_identity ob), ob) \<in> set (RBT.entries (observations_by_pid obs))"
    by (simp add: entries_iff)
  then show "ob \<in> set (rbt_values (observations_by_pid obs))" by (force simp: rbt_values_def)
qed

lemma values_pids:
  "map (\<lambda>ob. id_pid (po_identity ob)) (rbt_values (observations_by_pid obs))
     = RBT.keys (observations_by_pid obs)"
proof -
  have "id_pid (po_identity (snd p)) = fst p"
    if "p \<in> set (RBT.entries (observations_by_pid obs))" for p
    using that first_by_pid_key by (metis entries_iff lookup_observations prod.collapse)
  then show ?thesis by (simp add: rbt_values_def RBT.keys_def_alt)
qed

lemma pid_less_identity:
  "id_pid (po_identity a) < id_pid (po_identity b) \<Longrightarrow> po_identity a < po_identity b"
  by (simp add: less_process_identity_def)

lemma values_sorted:
  "sorted (map po_identity (rbt_values (observations_by_pid obs)))"
  "distinct (map po_identity (rbt_values (observations_by_pid obs)))"
proof -
  define vs where "vs = rbt_values (observations_by_pid obs)"
  have "sorted_wrt (<) (map (\<lambda>ob. id_pid (po_identity ob)) vs)"
    by (simp add: vs_def values_pids strict_sorted_iff)
  then have "sorted_wrt (\<lambda>a b. po_identity a < po_identity b) vs"
    unfolding sorted_wrt_map by (rule sorted_wrt_mono_rel [rotated]) (rule pid_less_identity)
  then have "sorted_wrt (<) (map po_identity vs)" by (simp add: sorted_wrt_map)
  then show "sorted (map po_identity vs)" "distinct (map po_identity vs)"
    by (simp_all add: strict_sorted_iff)
qed

section \<open>Owned members\<close>

definition owned_by :: "identity_tracker \<Rightarrow> process_observation \<Rightarrow> bool" where
  "owned_by t ob \<longleftrightarrow>
     0 < id_pid (po_identity ob) \<and> id_start_abstime (po_identity ob) \<noteq> 0 \<and> \<not> po_exited ob
   \<and> (po_identity ob = it_root t \<or> po_process_group_id ob = it_owned_group t)"

lemma update_one_owned:
  "us_owned_members (update_one t obs u ob) =
     us_owned_members u @ (if owned_by t ob then [ob] else [])"
  by (auto simp: update_one_def owned_by_def Let_def)

lemma update_fold_owned:
  "us_owned_members (foldl (update_one t obs) u vs) =
     us_owned_members u @ filter (owned_by t) vs"
  by (induction vs arbitrary: u) (simp_all add: update_one_owned)

lemma update_loop_owned:
  "us_owned_members (update_loop t obs evs) = filter (owned_by t) (rbt_values obs)"
  by (simp add: update_loop_def update_fold_owned)

lemma sort_key_filter_sorted:
  "sorted (map f xs) \<Longrightarrow> sort_key f (filter P xs) = filter P xs"
  by (metis sorted_filter sorted_sort_id sort_key_id_if_sorted)

lemma frame_owned_members:
  "tf_owned_members (snd (tracker_update t snap)) =
     filter (owned_by t) (rbt_values (observations_by_pid (ps_observations snap)))"
  by (simp add: tracker_update_def prepare_snapshot_def Let_def update_loop_owned
      sort_key_filter_sorted values_sorted)

section \<open>Who is owned\<close>

text \<open>The owned members of a frame are exactly the live, well-formed observations of the
  snapshot that are the root itself or sit in the owned process group, one per PID and in identity
  order. Descendants that left the group, exited processes, and observations of a PID that an
  earlier observation of the same snapshot already named are never counted.\<close>

theorem owned_members_exact:
  "sorted (map po_identity (tf_owned_members (snd (tracker_update t snap))))
   \<and> distinct (map po_identity (tf_owned_members (snd (tracker_update t snap))))
   \<and> set (tf_owned_members (snd (tracker_update t snap)))
     = {ob. first_by_pid (ps_observations snap) (id_pid (po_identity ob)) = Some ob \<and> owned_by t ob}"
  unfolding frame_owned_members
  by (auto simp: values_iff sorted_filter values_sorted distinct_map_filter)

section \<open>The aggregate\<close>

definition known_sum :: "process_observation list \<Rightarrow> nat" where
  "known_sum ms = (\<Sum>m \<leftarrow> ms. case po_footprint_bytes m of None \<Rightarrow> 0 | Some b \<Rightarrow> unat b)"

definition unmeasured :: "process_observation list \<Rightarrow> process_identity list" where
  "unmeasured ms = map po_identity (filter (\<lambda>m. po_footprint_bytes m = None) ms)"

lemma sum_members_spec:
  "sum_members known missing ms =
     (if unat known + known_sum ms < 2 ^ 64
      then Some (of_nat (unat known + known_sum ms), missing @ unmeasured ms) else None)"
proof (induction ms arbitrary: known missing)
  case Nil
  have "unat known < 2 ^ LENGTH(64)" by (rule unsigned_less)
  then show ?case by (simp add: known_sum_def unmeasured_def)
next
  case (Cons m ms)
  show ?case
  proof (cases "po_footprint_bytes m")
    case None
    with Cons show ?thesis by (simp add: known_sum_def unmeasured_def)
  next
    case (Some b)
    show ?thesis
    proof (cases "checked_add known b")
      case None
      then have "2 ^ 64 \<le> unat known + unat b" by (simp add: checked_add_None)
      with Some None show ?thesis by (simp add: known_sum_def)
    next
      case sum: (Some c)
      then have "unat c = unat known + unat b" by (simp add: checked_add_Some)
      with Some sum Cons.IH [of c missing] show ?thesis
        by (simp add: known_sum_def unmeasured_def add.assoc)
    qed
  qed
qed

definition missing_identities ::
    "identity_tracker \<Rightarrow> process_observation list \<Rightarrow> observation_failure list \<Rightarrow> bool
     \<Rightarrow> process_identity set" where
  "missing_identities t members failures root_seen =
     set (unmeasured members)
   \<union> {i. \<exists>failure \<in> set failures. i \<in> set (missing_of_failure (RBT.keys (it_tracked t)) (it_root t) failure)}
   \<union> (if root_seen then {} else {it_root t})"

lemma strict_sorted_remdups_adj: "sorted xs \<Longrightarrow> sorted_wrt (<) (remdups_adj xs)"
proof (induction xs rule: remdups_adj.induct)
  case (3 x y xs)
  then show ?case by (cases "x = y") (auto simp: less_le)
qed simp_all

lemma aggregate_spec:
  "aggregate members failures (it_tracked t) (it_root t) root_seen =
     (if 2 ^ 64 \<le> known_sum members then Overflow
      else if missing_identities t members failures root_seen = {} \<and> failures = []
      then Complete (of_nat (known_sum members))
      else Incomplete (of_nat (known_sum members))
             (sorted_list_of_set (missing_identities t members failures root_seen)))"
proof -
  define miss where "miss = unmeasured members
    @ concat (map (missing_of_failure (RBT.keys (it_tracked t)) (it_root t)) failures)
    @ (if root_seen then [] else [it_root t])"
  have set: "set miss = missing_identities t members failures root_seen"
    by (auto simp: miss_def missing_identities_def)
  have "remdups_adj (sort miss) = sorted_list_of_set (set miss)"
    by (rule strict_sorted_equal) (simp_all add: strict_sorted_remdups_adj)
  moreover have "sort miss = [] \<longleftrightarrow> miss = []" by (metis length_0_conv length_sort)
  ultimately show ?thesis
    by (auto simp: aggregate_def sum_members_spec miss_def [symmetric] Let_def set [symmetric])
qed

definition root_seen_by :: "identity_tracker \<Rightarrow> process_snapshot \<Rightarrow> bool" where
  "root_seen_by t snap \<longleftrightarrow>
     it_root_exit_observed t
   \<or> (\<exists>ob. first_by_pid (ps_observations snap) (id_pid (it_root t)) = Some ob
        \<and> po_identity ob = it_root t)"

lemma tracker_update_frame:
  "tf_observation_failures (snd (tracker_update t snap))
     = filter (relevant_failure (it_root t)) (ps_failures snap)"
  "tf_aggregate_footprint (snd (tracker_update t snap)) =
     aggregate (tf_owned_members (snd (tracker_update t snap)))
       (tf_observation_failures (snd (tracker_update t snap)))
       (it_tracked t) (it_root t) (root_seen_by t snap)"
  by (auto simp: tracker_update_def prepare_snapshot_def Let_def root_seen_by_def
      split: option.splits intro!: arg_cong [where f = "aggregate _ _ _ _"])

lemma complete_aggregate_iff:
  "tf_aggregate_footprint (snd (tracker_update t snap)) = Complete k
   \<longleftrightarrow> (\<forall>m \<in> set (tf_owned_members (snd (tracker_update t snap))). po_footprint_bytes m \<noteq> None)
     \<and> tf_observation_failures (snd (tracker_update t snap)) = []
     \<and> root_seen_by t snap
     \<and> unat k = known_sum (tf_owned_members (snd (tracker_update t snap)))"
proof -
  define ms where "ms = tf_owned_members (snd (tracker_update t snap))"
  define fs where "fs = tf_observation_failures (snd (tracker_update t snap))"
  have um: "unmeasured ms = [] \<longleftrightarrow> (\<forall>m \<in> set ms. po_footprint_bytes m \<noteq> None)"
    by (auto simp: unmeasured_def filter_empty_conv)
  have miss: "missing_identities t ms fs (root_seen_by t snap) = {} \<and> fs = []
      \<longleftrightarrow> unmeasured ms = [] \<and> fs = [] \<and> root_seen_by t snap"
    by (auto simp: missing_identities_def split: if_splits)
  have k: "unat k < 2 ^ LENGTH(64)" by (rule unsigned_less)
  have "tf_aggregate_footprint (snd (tracker_update t snap)) = Complete k
    \<longleftrightarrow> known_sum ms < 2 ^ 64 \<and> missing_identities t ms fs (root_seen_by t snap) = {} \<and> fs = []
      \<and> of_nat (known_sum ms) = k"
    by (auto simp: tracker_update_frame(2) aggregate_spec ms_def fs_def)
  also have "\<dots> \<longleftrightarrow> unmeasured ms = [] \<and> fs = [] \<and> root_seen_by t snap \<and> unat k = known_sum ms"
    using miss k by (auto simp: word_unat_eq_iff unat_of_nat)
  finally show ?thesis unfolding um unfolding ms_def fs_def .
qed

text \<open>C25. A complete aggregate conceals nothing: it is reported if and only if every owned member
  was measured, no relevant observation failed, the root was seen now or is known to have exited,
  and the reported number is the exact sum of the members' footprints as natural numbers.\<close>

theorem complete_aggregate_is_exact:
  "tf_aggregate_footprint (snd (tracker_update t snap)) = Complete k
   \<longleftrightarrow> list_all (\<lambda>m. po_footprint_bytes m \<noteq> None) (tf_owned_members (snd (tracker_update t snap)))
     \<and> tf_observation_failures (snd (tracker_update t snap)) = []
     \<and> root_seen_by t snap
     \<and> unat k = known_sum (tf_owned_members (snd (tracker_update t snap)))"
  by (simp only: complete_aggregate_iff list_all_iff)

text \<open>What an aggregate that is not complete says is true as well: an incomplete one carries the
  exact sum of the known footprints and the sorted identities of the unmeasured members, of the
  previously tracked processes whose observation failed, and of an unseen root; an overflow is
  reported only when the exact sum does not fit into 64 bits.\<close>

theorem incomplete_aggregate_names_the_missing:
  "case tf_aggregate_footprint (snd (tracker_update t snap)) of
     Complete k \<Rightarrow> True
   | Overflow \<Rightarrow> 2 ^ 64 \<le> known_sum (tf_owned_members (snd (tracker_update t snap)))
   | Incomplete known missing \<Rightarrow>
       unat known = known_sum (tf_owned_members (snd (tracker_update t snap)))
     \<and> missing = sorted_list_of_set
         (missing_identities t (tf_owned_members (snd (tracker_update t snap)))
           (tf_observation_failures (snd (tracker_update t snap))) (root_seen_by t snap))"
  by (auto simp: tracker_update_frame(2) aggregate_spec unat_of_nat split: aggregate_footprint.splits if_splits)

section \<open>Descent\<close>

text \<open>
  The reference for \<open>descends_from_root\<close>: from \<open>p\<close> the parent links of the snapshot lead to the
  root through live PIDs, in \<open>n\<close> steps.
\<close>

inductive leads_to_root :: "process_observation list \<Rightarrow> i32 \<Rightarrow> i32 \<Rightarrow> nat \<Rightarrow> bool"
  for obs :: "process_observation list" and root :: i32 where
  arrived: "0 < root \<Longrightarrow> leads_to_root obs root root 0"
| step: "0 < p \<Longrightarrow> p \<noteq> root \<Longrightarrow> first_by_pid obs p = Some ob \<Longrightarrow>
    leads_to_root obs root (po_parent_pid ob) n \<Longrightarrow> leads_to_root obs root p (Suc n)"

inductive_cases leads_to_rootE: "leads_to_root obs root p n"

lemma leads_to_root_unique:
  "leads_to_root obs root p n \<Longrightarrow> leads_to_root obs root p k \<Longrightarrow> k = n"
proof (induction arbitrary: k rule: leads_to_root.induct)
  case arrived
  then show ?case by (auto elim: leads_to_rootE)
next
  case (step p ob n)
  from step.prems show ?case
  proof (cases rule: leads_to_root.cases)
    case arrived
    with step.hyps show ?thesis by simp
  next
    case (step ob' n')
    with step.hyps have "leads_to_root obs root (po_parent_pid ob) n'" by simp
    then show ?thesis using step(1) local.step(1) by (simp add: step.IH)
  qed
qed

lemma descend_sound:
  "descend (observations_by_pid obs) root p visited \<Longrightarrow> \<exists>n. leads_to_root obs root p n"
proof (induction "observations_by_pid obs" root p visited rule: descend.induct)
  case (1 root p visited)
  from "1.prems" show ?case
    using "1.hyps" by (subst (asm) descend.simps)
      (auto split: if_splits option.splits intro: leads_to_root.intros)
qed

lemma descend_complete:
  assumes "leads_to_root obs root p n" and "\<And>v k. v \<in> visited \<Longrightarrow> k \<le> n \<Longrightarrow> \<not> leads_to_root obs root v k"
  shows "descend (observations_by_pid obs) root p visited"
  using assms
proof (induction arbitrary: visited rule: leads_to_root.induct)
  case arrived
  then have "root \<notin> visited" by (auto intro: leads_to_root.arrived)
  with arrived show ?case by (subst descend.simps) simp
next
  case (step p ob n)
  then have here: "leads_to_root obs root p (Suc n)" by (auto intro: leads_to_root.step)
  then have new: "p \<notin> visited" using step.prems by blast
  have "descend (observations_by_pid obs) root (po_parent_pid ob) (insert p visited)"
  proof (rule step.IH)
    fix v k
    assume "v \<in> insert p visited" and "k \<le> n"
    then show "\<not> leads_to_root obs root v k"
      using step.prems leads_to_root_unique [OF here] by force
  qed
  with step new show ?case by (subst descend.simps) simp
qed

text \<open>\<open>descends_from_root\<close> decides descent: it answers true exactly when the parent links of
  the snapshot lead from the observation's parent to the root, and it terminates and answers false
  on every cycle, gap or dead end of the non-atomic snapshot.\<close>

theorem descent_decided:
  "descends_from_root ob (observations_by_pid obs) root \<longleftrightarrow> (\<exists>n. leads_to_root obs root (po_parent_pid ob) n)"
  unfolding descends_from_root_def using descend_sound descend_complete by blast

section \<open>Escapes\<close>

text \<open>What the tracker keeps true about its escape evidence.\<close>

definition escape_ok :: "(process_identity \<Rightarrow> bool) \<Rightarrow> process_identity set \<Rightarrow> u64 \<Rightarrow> bool" where
  "escape_ok marked escaped count \<longleftrightarrow>
     finite escaped \<and> card escaped \<le> MAX_ESCAPED_EVIDENCE \<and> card escaped \<le> unat count
   \<and> (\<forall>i. marked i \<longrightarrow> i \<in> escaped \<or> card escaped = MAX_ESCAPED_EVIDENCE)"

definition marks :: "(process_identity, tracked_process) rbt \<Rightarrow> process_identity \<Rightarrow> bool" where
  "marks m i \<longleftrightarrow> (case RBT.lookup m i of None \<Rightarrow> False | Some tr \<Rightarrow> tp_escaped tr)"

definition tracker_ok :: "identity_tracker \<Rightarrow> bool" where
  "tracker_ok t \<longleftrightarrow> escape_ok (marks (it_tracked t)) (it_escaped t) (it_escaped_count t)"

definition update_ok :: "identity_tracker \<Rightarrow> update_state \<Rightarrow> bool" where
  "update_ok t u \<longleftrightarrow>
     escape_ok (\<lambda>i. marks (it_tracked t) i \<or> marks (us_next_tracked u) i) (us_escaped u) (us_escaped_count u)
   \<and> it_escaped_count t \<le> us_escaped_count u \<and> it_escaped t \<subseteq> us_escaped u"

lemma marks_empty [simp]: "marks RBT.empty i = False"
  by (simp add: marks_def)

lemma marks_insert [simp]:
  "marks (RBT.insert k v m) i = (if i = k then tp_escaped v else marks m i)"
  by (simp add: marks_def)

lemma escape_ok_step:
  assumes ok: "escape_ok M E c"
    and counted: "counted \<longleftrightarrow> M' \<or> i \<in> E" and "M' \<longrightarrow> M i"
    and E': "E' = (if escaping \<and> card E < MAX_ESCAPED_EVIDENCE \<and> i \<notin> E then insert i E else E)"
    and c': "c' = (if escaping \<and> \<not> counted then sat_add c 1 else c)"
  shows "escape_ok (\<lambda>j. M j \<or> j = i \<and> (counted \<or> escaping)) E' c'"
proof -
  have fin: "finite E" "card E \<le> 64" "card E \<le> unat c"
    and marked: "\<And>j. M j \<Longrightarrow> j \<in> E \<or> card E = 64"
    using ok by (auto simp: escape_ok_def MAX_ESCAPED_EVIDENCE_def)
  show ?thesis
  proof (cases "escaping \<and> card E < 64 \<and> i \<notin> E")
    case True
    then have "\<not> counted" using counted assms(3) marked by auto
    with True fin have "Suc (card E) \<le> unat c'"
      by (simp add: c' unat_sat_add min_def)
    moreover have "M j \<Longrightarrow> j \<in> E" for j using marked True by force
    ultimately show ?thesis
      using True fin by (auto simp: E' escape_ok_def MAX_ESCAPED_EVIDENCE_def)
  next
    case False
    have "unat c \<le> unat c'"
      using sat_add_ge [of c 1] by (simp add: c' word_le_nat_alt)
    moreover have "j \<in> E \<or> card E = 64" if "M j \<or> j = i \<and> (counted \<or> escaping)" for j
      using that marked False counted assms(3) fin(2) by auto
    ultimately show ?thesis
      using False fin by (auto simp: E' escape_ok_def MAX_ESCAPED_EVIDENCE_def)
  qed
qed

definition ignored :: "identity_tracker \<Rightarrow> observation_map \<Rightarrow> process_observation \<Rightarrow> bool" where
  "ignored t obs ob \<longleftrightarrow>
     id_pid (po_identity ob) \<le> 0 \<or> id_start_abstime (po_identity ob) = 0
   \<or> po_identity ob \<noteq> it_root t \<and> RBT.lookup (it_tracked t) (po_identity ob) = None
     \<and> \<not> descends_from_root ob obs (id_pid (it_root t))
     \<and> po_process_group_id ob \<noteq> it_owned_group t"

definition escaping :: "identity_tracker \<Rightarrow> process_observation \<Rightarrow> bool" where
  "escaping t ob \<longleftrightarrow> po_identity ob \<noteq> it_root t \<and> po_process_group_id ob \<noteq> it_owned_group t
     \<and> \<not> po_exited ob"

lemma update_one_ignored: "ignored t obs ob \<Longrightarrow> update_one t obs u ob = u"
  by (auto simp: update_one_def ignored_def Let_def)

lemma update_one_fields:
  assumes "\<not> ignored t obs ob"
    and counted: "counted \<longleftrightarrow> marks (it_tracked t) (po_identity ob) \<or> po_identity ob \<in> us_escaped u"
  shows "us_escaped (update_one t obs u ob) =
      (if escaping t ob \<and> card (us_escaped u) < MAX_ESCAPED_EVIDENCE \<and> po_identity ob \<notin> us_escaped u
       then insert (po_identity ob) (us_escaped u) else us_escaped u)"
    and "us_escaped_count (update_one t obs u ob) =
      (if escaping t ob \<and> \<not> counted then sat_add (us_escaped_count u) 1 else us_escaped_count u)"
    and "marks (us_next_tracked (update_one t obs u ob)) i =
      (if i = po_identity ob then counted \<or> escaping t ob else marks (us_next_tracked u) i)"
  using assms(1)
  by (cases "po_identity ob = it_root t"; cases "po_process_group_id ob = it_owned_group t";
      cases "RBT.lookup (it_tracked t) (po_identity ob)";
      cases "descends_from_root ob obs (id_pid (it_root t))";
      simp add: update_one_def ignored_def escaping_def counted Let_def marks_def [of "it_tracked t"])+

lemma update_one_ok:
  assumes "update_ok t u"
  shows "update_ok t (update_one t obs u ob)"
proof (cases "ignored t obs ob")
  case True
  then show ?thesis using assms by (simp add: update_one_ignored)
next
  case False
  note fields = update_one_fields [OF False refl, of u]
  have "escape_ok (\<lambda>j. (marks (it_tracked t) j \<or> marks (us_next_tracked u) j)
      \<or> j = po_identity ob \<and> ((marks (it_tracked t) (po_identity ob) \<or> po_identity ob \<in> us_escaped u)
          \<or> escaping t ob))
    (us_escaped (update_one t obs u ob)) (us_escaped_count (update_one t obs u ob))"
    using assms by (intro escape_ok_step [OF _ refl _ fields(1,2)]) (simp_all add: update_ok_def)
  then have "escape_ok (\<lambda>j. marks (it_tracked t) j \<or> marks (us_next_tracked (update_one t obs u ob)) j)
    (us_escaped (update_one t obs u ob)) (us_escaped_count (update_one t obs u ob))"
    by (auto simp: escape_ok_def fields(3) split: if_splits)
  moreover have "us_escaped_count u \<le> us_escaped_count (update_one t obs u ob)"
    by (simp add: fields(2))
  moreover have "us_escaped u \<subseteq> us_escaped (update_one t obs u ob)" by (auto simp: fields(1))
  ultimately show ?thesis using assms by (auto simp: update_ok_def)
qed

lemma update_fold_ok: "update_ok t u \<Longrightarrow> update_ok t (foldl (update_one t obs) u vs)"
  by (induction vs arbitrary: u) (simp_all add: update_one_ok)

lemma tracker_update_ok:
  assumes "tracker_ok t"
  shows "tracker_ok (fst (tracker_update t snap))"
    and "it_escaped_count t \<le> it_escaped_count (fst (tracker_update t snap))"
    and "it_escaped t \<subseteq> it_escaped (fst (tracker_update t snap))"
proof -
  obtain obs events fs where prep: "prepare_snapshot t snap = (obs, events, fs)" by (cases "prepare_snapshot t snap")
  have "update_ok t (update_loop t obs events)"
    unfolding update_loop_def
    by (rule update_fold_ok) (use assms in \<open>simp add: update_ok_def tracker_ok_def\<close>)
  then show "tracker_ok (fst (tracker_update t snap))"
    and "it_escaped_count t \<le> it_escaped_count (fst (tracker_update t snap))"
    and "it_escaped t \<subseteq> it_escaped (fst (tracker_update t snap))"
    by (simp_all add: tracker_update_def prep Let_def update_ok_def tracker_ok_def escape_ok_def)
qed

text \<open>The frames of a sequence of snapshots, as the sampler takes them.\<close>

definition track :: "identity_tracker \<Rightarrow> process_snapshot list \<Rightarrow> identity_tracker" where
  "track t snaps = foldl (\<lambda>t snap. fst (tracker_update t snap)) t snaps"

lemma track_ok:
  "tracker_ok t \<Longrightarrow> tracker_ok (track t snaps)
   \<and> it_escaped_count t \<le> it_escaped_count (track t snaps) \<and> it_escaped t \<subseteq> it_escaped (track t snaps)"
proof (induction snaps rule: rev_induct)
  case (snoc s snaps)
  then have "tracker_ok (track t snaps)" by blast
  from tracker_update_ok [OF this, of s] snoc show ?case
    by (auto simp: track_def intro: order_trans)
qed (simp add: track_def)

text \<open>Escape evidence is bounded and never lost. However long a run samples, at most 64 escaped
  identities are retained, the count of escapes is at least the number of retained ones, and neither
  the count nor the retained evidence ever shrinks.\<close>

theorem escape_evidence_bounded:
  assumes "identity_tracker_new root pgid = Ok t"
  shows "card (it_escaped (track t (as @ bs))) \<le> MAX_ESCAPED_EVIDENCE
   \<and> card (it_escaped (track t (as @ bs))) \<le> unat (it_escaped_count (track t (as @ bs)))
   \<and> it_escaped_count (track t as) \<le> it_escaped_count (track t (as @ bs))
   \<and> it_escaped (track t as) \<subseteq> it_escaped (track t (as @ bs))"
proof -
  have ok: "tracker_ok t"
    using assms by (auto simp: identity_tracker_new_def tracker_ok_def escape_ok_def marks_def
        split: if_splits)
  have "track t (as @ bs) = track (track t as) bs" by (simp add: track_def)
  moreover have "tracker_ok (track t as)" using track_ok [OF ok] by blast
  ultimately show ?thesis
    using track_ok [of "track t as" bs] by (auto simp: tracker_ok_def escape_ok_def)
qed

section \<open>Witnesses\<close>

definition demo_root :: process_identity where "demo_root = ProcessIdentity 100 7"

definition demo_tracker :: identity_tracker where
  "demo_tracker = \<lparr>it_root = demo_root, it_owned_group = 100, it_tracked = RBT.empty,
     it_last_by_pid = RBT.empty, it_escaped = {}, it_escaped_count = 0, it_root_exit_observed = False\<rparr>"

definition demo_snapshot :: process_snapshot where
  "demo_snapshot = \<lparr>ps_observations =
       [\<lparr>po_identity = demo_root, po_parent_pid = 1, po_process_group_id = 100,
         po_footprint_bytes = None, po_exited = False\<rparr>,
        \<lparr>po_identity = ProcessIdentity 101 8, po_parent_pid = 100, po_process_group_id = 101,
         po_footprint_bytes = Some 5, po_exited = False\<rparr>], ps_failures = []\<rparr>"

lemma demo_tracker: "identity_tracker_new demo_root 100 = Ok demo_tracker"
  by (simp add: identity_tracker_new_def demo_root_def demo_tracker_def)

theorem escape_evidence_bounded_witness:
  "card (it_escaped (track demo_tracker ([demo_snapshot] @ [demo_snapshot]))) \<le> MAX_ESCAPED_EVIDENCE"
  using escape_evidence_bounded [OF demo_tracker, of "[demo_snapshot]" "[demo_snapshot]"] by blast

end
