(* ===== verification/Sampling.thy ===== *)
theory Sampling
  imports Identity Policy
begin

text \<open>
  \<^verbatim>\<open>mlx-guard-core/src/sampling.rs\<close>: the sampling loop's validated bounds, the conversion of
  timed snapshots into a bounded history, and the projection of one sample into the policy's input.
  The instants that \<open>sample_native\<close> reads from the clock are arguments.
\<close>

definition MIN_SAMPLE_INTERVAL :: dur where "MIN_SAMPLE_INTERVAL = from_millis 10"
definition MAX_SAMPLE_INTERVAL :: dur where "MAX_SAMPLE_INTERVAL = from_secs 10"
definition MAX_SAMPLE_HISTORY_CAPACITY :: nat where "MAX_SAMPLE_HISTORY_CAPACITY = 4096"

record sampling_config =
  sc_interval :: dur
  sc_max_sample_age :: dur
  sc_max_sample_window :: dur
  sc_history_capacity :: nat

datatype sampling_config_error =
    IntervalOutOfRange
  | InvalidQualityWindow
  | HistoryCapacityOutOfRange

definition sampling_config_new ::
    "dur \<Rightarrow> dur \<Rightarrow> dur \<Rightarrow> nat \<Rightarrow> sampling_config_error + sampling_config" where
  "sampling_config_new interval max_sample_age max_sample_window history_capacity =
     (if \<not> (MIN_SAMPLE_INTERVAL \<le> interval \<and> interval \<le> MAX_SAMPLE_INTERVAL)
      then Err IntervalOutOfRange
      else if max_sample_window = 0 \<or> max_sample_age = 0 \<or> max_sample_age < max_sample_window
      then Err InvalidQualityWindow
      else if \<not> (1 \<le> history_capacity \<and> history_capacity \<le> MAX_SAMPLE_HISTORY_CAPACITY)
      then Err HistoryCapacityOutOfRange
      else Ok \<lparr>sc_interval = interval, sc_max_sample_age = max_sample_age,
               sc_max_sample_window = max_sample_window,
               sc_history_capacity = history_capacity\<rparr>)"

datatype sampling_clock_error = SamplingClockError

record process_footprint_sample =
  pf_identity :: process_identity
  pf_footprint_bytes :: "u64 option"

datatype sample_outcome =
    Outcome_Complete u64
  | Outcome_Partial u64 "process_identity list" "observation_failure list"
  | Outcome_Overflow
  | Outcome_SnapshotFailed observation_failure_kind
  | Outcome_ClockDiscontinuity

record footprint_sample =
  fs_sequence :: u64
  fs_started_at :: dur
  fs_finished_at :: dur
  fs_members :: "process_footprint_sample list"
  fs_outcome :: sample_outcome
  fs_events :: "containment_event list"
  fs_escape_observed :: bool

record footprint_sampler =
  sm_config :: sampling_config
  sm_tracker :: identity_tracker
  sm_history :: "footprint_sample list"
  sm_next_sequence :: u64
  sm_last_started_at :: "dur option"

definition sampler_new :: "sampling_config \<Rightarrow> identity_tracker \<Rightarrow> footprint_sampler" where
  "sampler_new config tracker =
    \<lparr>sm_config = config, sm_tracker = tracker, sm_history = [], sm_next_sequence = 0,
     sm_last_started_at = None\<rparr>"

text \<open>A snapshot, or the kind of failure of the whole enumeration.\<close>

type_synonym snapshot_result = "observation_failure_kind + process_snapshot"

fun sample_outcome_of :: "tracking_frame \<Rightarrow> sample_outcome" where
  "sample_outcome_of frame =
     (case tf_aggregate_footprint frame of
        Complete total_bytes \<Rightarrow>
          (if tf_observation_failures frame = [] then Outcome_Complete total_bytes
           else Outcome_Partial total_bytes [] (tf_observation_failures frame))
      | Incomplete known_bytes missing \<Rightarrow>
          Outcome_Partial known_bytes missing (tf_observation_failures frame)
      | Overflow \<Rightarrow> Outcome_Overflow)"

definition member_sample :: "process_observation \<Rightarrow> process_footprint_sample" where
  "member_sample ob = \<lparr>pf_identity = po_identity ob, pf_footprint_bytes = po_footprint_bytes ob\<rparr>"

definition clock_discontinuity :: "footprint_sampler \<Rightarrow> dur \<Rightarrow> dur \<Rightarrow> bool" where
  "clock_discontinuity sm started_at finished_at \<longleftrightarrow>
     finished_at < started_at
   \<or> (case sm_last_started_at sm of None \<Rightarrow> False | Some previous \<Rightarrow> started_at < previous)"

definition record_snapshot ::
    "footprint_sampler \<Rightarrow> dur \<Rightarrow> dur \<Rightarrow> snapshot_result \<Rightarrow> footprint_sampler \<times> footprint_sample" where
  "record_snapshot sm started_at finished_at snapshot =
     (let (sm, members, outcome, events, escape_observed) =
            (if clock_discontinuity sm started_at finished_at
             then (sm, [], Outcome_ClockDiscontinuity, [], False)
             else
               let sm = sm\<lparr>sm_last_started_at := Some started_at\<rparr> in
               case snapshot of
                 Inr snap \<Rightarrow>
                   (let (tracker, frame) = tracker_update (sm_tracker sm) snap
                    in (sm\<lparr>sm_tracker := tracker\<rparr>, map member_sample (tf_owned_members frame),
                        sample_outcome_of frame, tf_events frame, tf_escape_observed frame))
               | Inl kind \<Rightarrow> (sm, [], Outcome_SnapshotFailed kind, [], False));
          sample = \<lparr>fs_sequence = sm_next_sequence sm, fs_started_at = started_at,
                    fs_finished_at = finished_at, fs_members = members, fs_outcome = outcome,
                    fs_events = events, fs_escape_observed = escape_observed\<rparr>
      in (sm\<lparr>sm_next_sequence := sat_add (sm_next_sequence sm) 1,
             sm_history := push_capped (sc_history_capacity (sm_config sm)) (sm_history sm) sample\<rparr>,
          sample))"

definition quality_valid :: "footprint_sampler \<Rightarrow> footprint_sample \<Rightarrow> dur \<Rightarrow> bool" where
  "quality_valid sm sample processed_at \<longleftrightarrow>
     fs_started_at sample \<le> fs_finished_at sample
   \<and> fs_finished_at sample \<le> processed_at
   \<and> (case sm_last_started_at sm of None \<Rightarrow> True
      | Some last_started \<Rightarrow> fs_started_at sample \<le> last_started)
   \<and> dur_sat_sub (fs_finished_at sample) (fs_started_at sample) \<noteq> 0
   \<and> dur_sat_sub (fs_finished_at sample) (fs_started_at sample) \<le> sc_max_sample_window (sm_config sm)
   \<and> dur_sat_sub processed_at (fs_finished_at sample) \<le> sc_max_sample_age (sm_config sm)"

definition policy_event :: "footprint_sampler \<Rightarrow> footprint_sample \<Rightarrow> dur \<Rightarrow> sample_event" where
  "policy_event sm sample processed_at =
    \<lparr>se_captured_at = fs_finished_at sample,
     se_processed_at = processed_at,
     se_window = dur_sat_sub (fs_finished_at sample) (fs_started_at sample),
     se_aggregate_bytes =
       (case fs_outcome sample of
          Outcome_Complete total_bytes \<Rightarrow>
            (if quality_valid sm sample processed_at then Some total_bytes else None)
        | _ \<Rightarrow> None)\<rparr>"

definition delay_until_next :: "footprint_sampler \<Rightarrow> dur \<Rightarrow> sampling_clock_error + dur" where
  "delay_until_next sm now =
     (case sm_last_started_at sm of
        None \<Rightarrow> Ok 0
      | Some previous \<Rightarrow>
          (case dur_checked_sub now previous of
             None \<Rightarrow> Err SamplingClockError
           | Some elapsed \<Rightarrow> Ok (dur_sat_sub (sc_interval (sm_config sm)) elapsed)))"

end
