(* ===== verification/Sampling_Props.thy ===== *)
theory Sampling_Props
  imports Sampling Identity_Props Policy_Props
begin

text \<open>
  What the sampler guarantees to the policy machine, and what its history retains.
\<close>

section \<open>One recorded snapshot\<close>

lemma record_snapshot_config [simp]:
  "sm_config (fst (record_snapshot sm a b snap)) = sm_config sm"
  by (auto simp: record_snapshot_def Let_def split: prod.splits sum.splits if_splits)

lemma record_snapshot_history:
  "sm_history (fst (record_snapshot sm a b snap)) =
     push_capped (sc_history_capacity (sm_config sm)) (sm_history sm) (snd (record_snapshot sm a b snap))"
  "sm_next_sequence (fst (record_snapshot sm a b snap)) = sat_add (sm_next_sequence sm) 1"
  "fs_sequence (snd (record_snapshot sm a b snap)) = sm_next_sequence sm"
  by (auto simp: record_snapshot_def Let_def split: prod.splits sum.splits if_splits)

lemma record_snapshot_complete:
  assumes "fs_outcome (snd (record_snapshot sm a b snap)) = Outcome_Complete n"
  obtains s where "snap = Ok s"
    and "tf_aggregate_footprint (snd (tracker_update (sm_tracker sm) s)) = Complete n"
    and "fs_members (snd (record_snapshot sm a b snap)) =
      map member_sample (tf_owned_members (snd (tracker_update (sm_tracker sm) s)))"
  using assms
  by (auto simp: record_snapshot_def Let_def
      split: prod.splits sum.splits if_splits aggregate_footprint.splits)

section \<open>What the policy is told\<close>

text \<open>The sampler and the policy machine of one run are configured with the same two bounds.\<close>

definition same_bounds :: "sampling_config \<Rightarrow> policy_config \<Rightarrow> bool" where
  "same_bounds sc c \<longleftrightarrow>
     sc_max_sample_age sc = pc_max_sample_age c \<and> sc_max_sample_window sc = pc_max_sample_window c"

text \<open>Sampler and policy agree on measurement quality. With the shared bounds, the policy machine
  accepts a projected sample exactly when the sampler attached bytes to it; no reading passes one
  gate and fails the other.\<close>

theorem sampler_and_policy_agree:
  assumes "same_bounds (sm_config sm) c"
  shows "usable_sample c (policy_event sm sample t)
    \<longleftrightarrow> se_aggregate_bytes (policy_event sm sample t) \<noteq> None"
  using assms
  by (auto simp: usable_sample_def policy_event_def quality_valid_def same_bounds_def
      split: sample_outcome.splits if_splits)

text \<open>C26. The number the policy acts on is the truth about the snapshot: bytes reach the policy only
  from a snapshot that began no earlier than the one before it, ended after it began, is no wider
  and no older than the configuration allows, in which every owned member was measured and no
  relevant observation failed; and they are the exact sum of the members' footprints.\<close>

theorem policy_bytes_are_exact:
  assumes "record_snapshot sm started finished snap = (sm', sample)"
    and "se_aggregate_bytes (policy_event sm' sample t) = Some bytes"
  shows "\<exists>s. snap = Ok s
    \<and> unat bytes = known_sum (tf_owned_members (snd (tracker_update (sm_tracker sm) s)))
    \<and> list_all (\<lambda>m. po_footprint_bytes m \<noteq> None) (tf_owned_members (snd (tracker_update (sm_tracker sm) s)))
    \<and> fs_members sample = map member_sample (tf_owned_members (snd (tracker_update (sm_tracker sm) s)))
    \<and> tf_observation_failures (snd (tracker_update (sm_tracker sm) s)) = []
    \<and> (\<forall>previous. sm_last_started_at sm = Some previous \<longrightarrow> previous \<le> started)
    \<and> started < finished \<and> finished - started \<le> sc_max_sample_window (sm_config sm)
    \<and> finished \<le> t \<and> t - finished \<le> sc_max_sample_age (sm_config sm)"
proof -
  have sample: "sample = snd (record_snapshot sm started finished snap)" using assms(1) by simp
  have times: "fs_started_at sample = started" "fs_finished_at sample = finished"
    using assms(1) by (auto simp: record_snapshot_def Let_def split: prod.splits)
  from assms(2) have out: "fs_outcome sample = Outcome_Complete bytes"
    and "quality_valid sm' sample t"
    by (auto simp: policy_event_def split: sample_outcome.splits if_splits)
  moreover have "sm_config sm' = sm_config sm"
    using assms(1) by (auto simp: record_snapshot_def Let_def split: prod.splits sum.splits if_splits)
  ultimately have "started < finished \<and> finished - started \<le> sc_max_sample_window (sm_config sm)
    \<and> finished \<le> t \<and> t - finished \<le> sc_max_sample_age (sm_config sm)"
    by (auto simp: quality_valid_def times dur_sat_sub_def)
  moreover have "\<not> clock_discontinuity sm started finished"
    using out by (auto simp: sample record_snapshot_def Let_def)
  then have "\<forall>previous. sm_last_started_at sm = Some previous \<longrightarrow> previous \<le> started"
    by (auto simp: clock_discontinuity_def)
  moreover obtain s where "snap = Ok s"
    and "tf_aggregate_footprint (snd (tracker_update (sm_tracker sm) s)) = Complete bytes"
    and "fs_members sample = map member_sample (tf_owned_members (snd (tracker_update (sm_tracker sm) s)))"
    using record_snapshot_complete [of sm started finished snap bytes] out unfolding sample by blast
  ultimately show ?thesis by (auto simp: complete_aggregate_iff list_all_iff)
qed

section \<open>History\<close>

type_synonym timed_snapshot = "dur \<times> dur \<times> snapshot_result"

fun sampler_step :: "footprint_sampler \<Rightarrow> timed_snapshot \<Rightarrow> footprint_sampler \<times> footprint_sample list" where
  "sampler_step sm (a, b, snap) = (let (sm', sample) = record_snapshot sm a b snap in (sm', [sample]))"

text \<open>What the history must be after the samples \<open>out\<close>, from sequence number zero.\<close>

definition history_of :: "footprint_sampler \<Rightarrow> footprint_sample list \<Rightarrow> bool" where
  "history_of sm out \<longleftrightarrow>
     sm_history sm = keep_last (sc_history_capacity (sm_config sm)) out
   \<and> unat (sm_next_sequence sm) = min (length out) (2 ^ 64 - 1)
   \<and> map (\<lambda>s. unat (fs_sequence s)) out = map (\<lambda>i. min i (2 ^ 64 - 1)) [0..<length out]"

lemma history_of_step:
  assumes "history_of sm out" and "0 < sc_history_capacity (sm_config sm)"
    and "sampler_step sm x = (sm', new)"
  shows "history_of sm' (out @ new)" and "sm_config sm' = sm_config sm"
proof -
  obtain a b snap where x: "x = (a, b, snap)" by (cases x)
  have sm': "sm' = fst (record_snapshot sm a b snap)" and new: "new = [snd (record_snapshot sm a b snap)]"
    using assms(3) by (auto simp: x Let_def split: prod.splits)
  show "sm_config sm' = sm_config sm" by (simp add: sm')
  show "history_of sm' (out @ new)"
    using assms(1,2)
    by (simp add: history_of_def sm' new record_snapshot_history push_capped_keep_last unat_sat_add min_def)
qed

lemma history_of_run:
  "history_of sm out \<Longrightarrow> 0 < sc_history_capacity (sm_config sm) \<Longrightarrow>
   run_machine sampler_step sm xs = (sm', new) \<Longrightarrow>
   history_of sm' (out @ new) \<and> sm_config sm' = sm_config sm"
proof (induction xs arbitrary: sm out new)
  case (Cons x xs)
  from Cons.prems(3) obtain sm1 n1 n2 where st: "sampler_step sm x = (sm1, n1)"
    and run: "run_machine sampler_step sm1 xs = (sm', n2)" and new: "new = n1 @ n2"
    by (rule run_machine_Cons_E)
  note one = history_of_step [OF Cons.prems(1,2) st]
  have "0 < sc_history_capacity (sm_config sm1)" using one(2) Cons.prems(2) by simp
  from Cons.IH [OF one(1) this run] one(2) show ?case by (simp add: new)
qed simp

text \<open>The sample history is a faithful window: after any run it holds the latest samples, as many
  as the configured capacity allows and never more than 4,096, in the order taken and numbered
  consecutively from zero.\<close>

theorem history_is_faithful:
  assumes "sampling_config_new interval age window capacity = Ok config"
    and "run_machine sampler_step (sampler_new config tracker) xs = (sm, out)"
  shows "history_of sm out \<and> length (sm_history sm) \<le> MAX_SAMPLE_HISTORY_CAPACITY"
proof -
  from assms(1) have cap: "0 < sc_history_capacity config"
    "sc_history_capacity config \<le> MAX_SAMPLE_HISTORY_CAPACITY"
    by (auto simp: sampling_config_new_def split: if_splits)
  have "history_of (sampler_new config tracker) []" by (simp add: history_of_def sampler_new_def)
  from history_of_run [OF this _ assms(2)] cap(1)
  have "history_of sm out" and "sm_config sm = config" by (simp_all add: sampler_new_def)
  then show ?thesis using cap(2) by (simp add: history_of_def min_le_iff_disj)
qed

section \<open>Witnesses\<close>

definition demo_sampling :: sampling_config where
  "demo_sampling = \<lparr>sc_interval = from_millis 100, sc_max_sample_age = 500,
     sc_max_sample_window = 250, sc_history_capacity = 2\<rparr>"

lemma demo_sampling: "sampling_config_new (from_millis 100) 500 250 2 = Ok demo_sampling"
  by (simp add: sampling_config_new_def demo_sampling_def MIN_SAMPLE_INTERVAL_def
      MAX_SAMPLE_INTERVAL_def MAX_SAMPLE_HISTORY_CAPACITY_def from_millis_def from_secs_def)

definition demo_sampler :: footprint_sampler where
  "demo_sampler = sampler_new demo_sampling (demo_tracker\<lparr>it_root_exit_observed := True\<rparr>)"

definition empty_snapshot :: process_snapshot where
  "empty_snapshot = \<lparr>ps_observations = [], ps_failures = []\<rparr>"

lemma demo_frame:
  "tf_aggregate_footprint (snd (tracker_update (sm_tracker demo_sampler) empty_snapshot)) = Complete 0"
  "tf_observation_failures (snd (tracker_update (sm_tracker demo_sampler) empty_snapshot)) = []"
proof -
  have "tf_owned_members (snd (tracker_update (sm_tracker demo_sampler) empty_snapshot)) = []"
    unfolding frame_owned_members filter_empty_conv
    by (metis empty_snapshot_def find.simps(1) first_by_pid_def option.distinct(1)
        process_snapshot.select_convs(1) values_iff)
  then show "tf_aggregate_footprint (snd (tracker_update (sm_tracker demo_sampler) empty_snapshot)) = Complete 0"
    by (simp add: tracker_update_frame root_seen_by_def demo_sampler_def sampler_new_def
        empty_snapshot_def aggregate_def Let_def)
  show "tf_observation_failures (snd (tracker_update (sm_tracker demo_sampler) empty_snapshot)) = []"
    by (simp add: tracker_update_frame empty_snapshot_def)
qed

theorem sampler_and_policy_agree_witness:
  "usable_sample demo_config (policy_event demo_sampler (snd (record_snapshot demo_sampler 10 20 (Ok empty_snapshot))) 30)
    \<longleftrightarrow> se_aggregate_bytes
      (policy_event demo_sampler (snd (record_snapshot demo_sampler 10 20 (Ok empty_snapshot))) 30) \<noteq> None"
  by (rule sampler_and_policy_agree)
    (simp add: same_bounds_def demo_sampler_def sampler_new_def demo_sampling_def demo_config_def)

text \<open>A second snapshot, which began after the first.\<close>

definition second_sampler :: footprint_sampler where
  "second_sampler = demo_sampler\<lparr>sm_last_started_at := Some 7\<rparr>"

lemma second_recorded:
  "fs_outcome (snd (record_snapshot second_sampler 10 20 (Ok empty_snapshot))) = Outcome_Complete 0"
  "fs_started_at (snd (record_snapshot second_sampler 10 20 (Ok empty_snapshot))) = 10"
  "fs_finished_at (snd (record_snapshot second_sampler 10 20 (Ok empty_snapshot))) = 20"
  "sm_last_started_at (fst (record_snapshot second_sampler 10 20 (Ok empty_snapshot))) = Some 10"
  using demo_frame
  by (simp_all add: second_sampler_def record_snapshot_def Let_def split_beta clock_discontinuity_def
      demo_sampler_def sampler_new_def)

theorem policy_bytes_are_exact_witness:
  "unat (0 :: u64) = known_sum (tf_owned_members (snd (tracker_update (sm_tracker second_sampler) empty_snapshot)))
    \<and> sm_last_started_at second_sampler = Some 7 \<and> (7 :: dur) \<le> 10"
proof -
  have "se_aggregate_bytes (policy_event (fst (record_snapshot second_sampler 10 20 (Ok empty_snapshot)))
      (snd (record_snapshot second_sampler 10 20 (Ok empty_snapshot))) 30) = Some 0"
    by (simp add: policy_event_def second_recorded quality_valid_def dur_sat_sub_def)
      (simp add: second_sampler_def demo_sampler_def sampler_new_def demo_sampling_def)
  from policy_bytes_are_exact [OF prod.collapse [symmetric] this] show ?thesis
    by (auto simp: second_sampler_def)
qed

theorem history_is_faithful_witness:
  "length (sm_history (fst (run_machine sampler_step (sampler_new demo_sampling demo_tracker)
     [(10, 20, Ok empty_snapshot)]))) \<le> MAX_SAMPLE_HISTORY_CAPACITY"
  using history_is_faithful [OF demo_sampling prod.collapse [symmetric], of demo_tracker
      "[(10, 20, Ok empty_snapshot)]"] by blast

end
