(* ===== verification/Bytes.thy ===== *)
theory Bytes
  imports Prelude
begin

text \<open>
  Byte strings as the wire and journal code uses them: big-endian integers
  (\<open>to_be_bytes\<close>, \<open>from_be_bytes\<close>), and the contract of a codec, which the checkpoint frames and
  the journal records both provide.
\<close>

type_synonym bytes = "u8 list"

section \<open>Big-endian integers\<close>

fun be_bytes :: "nat \<Rightarrow> nat \<Rightarrow> bytes" where
  "be_bytes 0 x = []"
| "be_bytes (Suc k) x = be_bytes k (x div 256) @ [of_nat (x mod 256)]"

definition be_nat :: "bytes \<Rightarrow> nat" where
  "be_nat bs = foldl (\<lambda>acc b. acc * 256 + unat b) 0 bs"

lemma length_be_bytes [simp]: "length (be_bytes k x) = k"
  by (induction k arbitrary: x) simp_all

lemma be_nat_Nil [simp]: "be_nat [] = 0"
  by (simp add: be_nat_def)

lemma be_nat_snoc [simp]: "be_nat (bs @ [b]) = be_nat bs * 256 + unat b"
  by (simp add: be_nat_def)

lemma unat_byte: "unat (b :: u8) < 256"
  using unsigned_less [of b, where ?'a = nat] by simp

lemma be_nat_be_bytes: "x < 256 ^ k \<Longrightarrow> be_nat (be_bytes k x) = x"
proof (induction k arbitrary: x)
  case (Suc k)
  then have "x div 256 < 256 ^ k" by (simp add: less_mult_imp_div_less mult.commute)
  with Suc.IH show ?case by (simp add: unat_of_nat)
qed simp

lemma be_nat_less: "be_nat bs < 256 ^ length bs"
proof (induction bs rule: rev_induct)
  case (snoc b bs)
  then have "be_nat bs * 256 + 255 < 256 ^ length bs * 256" by linarith
  with unat_byte [of b] show ?case by simp
qed simp

lemma be_bytes_be_nat: "be_bytes (length bs) (be_nat bs) = bs"
proof (induction bs rule: rev_induct)
  case (snoc b bs)
  have "(be_nat bs * 256 + unat b) div 256 = be_nat bs" using unat_byte [of b] by simp
  moreover have "(be_nat bs * 256 + unat b) mod 256 = unat b" using unat_byte [of b] by simp
  ultimately show ?case using snoc by simp
qed simp

definition u64_be :: "u64 \<Rightarrow> bytes" where "u64_be w = be_bytes 8 (unat w)"
definition be_u64 :: "bytes \<Rightarrow> u64" where "be_u64 bs = of_nat (be_nat bs)"

lemma length_u64_be [simp]: "length (u64_be w) = 8"
  by (simp add: u64_be_def)

lemma be_u64_be [simp]: "be_u64 (u64_be w) = w"
proof -
  have "unat w < 256 ^ 8" using unsigned_less [of w, where ?'a = nat] by simp
  then show ?thesis by (simp add: be_u64_def u64_be_def be_nat_be_bytes word_unat_eq_iff)
qed

lemma u64_be_be: "length bs = 8 \<Longrightarrow> u64_be (be_u64 bs) = bs"
  using be_nat_less [of bs] be_bytes_be_nat [of bs]
  by (simp add: be_u64_def u64_be_def unat_of_nat)

lemma u64_be_eq_iff: "length bs = 8 \<Longrightarrow> u64_be w = bs \<longleftrightarrow> w = be_u64 bs"
  using u64_be_be by force

section \<open>Codecs\<close>

text \<open>
  A codec with a predicate of well-formed values. The law makes the wire form canonical: a byte
  string decodes to at most one value, and to a value only if it is that value's encoding.
\<close>

locale codec =
  fixes encode :: "'a \<Rightarrow> bytes"
    and decode :: "bytes \<Rightarrow> 'e + 'a"
    and valid :: "'a \<Rightarrow> bool"
  assumes decode_iff: "decode bs = Ok x \<longleftrightarrow> valid x \<and> bs = encode x"
begin

lemma round_trip: "valid x \<Longrightarrow> decode (encode x) = Ok x"
  by (simp add: decode_iff)

lemma encode_inj: "valid x \<Longrightarrow> valid y \<Longrightarrow> encode x = encode y \<Longrightarrow> x = y"
  by (metis decode_iff sum.inject(2))

lemma decoded_valid: "decode bs = Ok x \<Longrightarrow> valid x"
  by (simp add: decode_iff)

end

end
