(* ===== verification/Checkpoint.thy ===== *)
theory Checkpoint
  imports Outcome Bytes
begin

text \<open>
  \<^verbatim>\<open>mlx-guard-core/src/checkpoint.rs\<close>: the frames of the inherited-descriptor checkpoint protocol,
  the at-most-once protocol state of the supervisor, and the nonblocking channel around it. The
  socket is a parameter: a write is the function from the frame to the number of bytes accepted, a
  read is its result.
\<close>

section \<open>Constants and data\<close>

definition FRAME_HEADER_BYTES :: nat where "FRAME_HEADER_BYTES = 4"
definition MAGIC :: bytes where "MAGIC = [0x4D, 0x47, 0x43, 0x50]"
definition REQUEST_KIND :: u8 where "REQUEST_KIND = 1"
definition ACKNOWLEDGEMENT_KIND :: u8 where "ACKNOWLEDGEMENT_KIND = 2"
definition HELLO_KIND :: u8 where "HELLO_KIND = 3"
definition READY_KIND :: u8 where "READY_KIND = 4"
definition REQUEST_BODY_BYTES :: nat where "REQUEST_BODY_BYTES = 54"
definition ACKNOWLEDGEMENT_BODY_BYTES :: nat where "ACKNOWLEDGEMENT_BODY_BYTES = 57"
definition NEGOTIATION_BODY_BYTES :: nat where "NEGOTIATION_BODY_BYTES = 38"
definition CHECKPOINT_PROTOCOL_VERSION :: u8 where "CHECKPOINT_PROTOCOL_VERSION = 1"
definition MAX_CHECKPOINT_FRAME_BYTES :: nat where "MAX_CHECKPOINT_FRAME_BYTES = 128"

lemmas frame_sizes [simp] =
  FRAME_HEADER_BYTES_def REQUEST_BODY_BYTES_def ACKNOWLEDGEMENT_BODY_BYTES_def
  NEGOTIATION_BODY_BYTES_def MAX_CHECKPOINT_FRAME_BYTES_def

text \<open>\<open>[u8; 32]\<close>: the array's length is part of its type, and here a predicate.\<close>

datatype checkpoint_nonce = Nonce (nonce_bytes: bytes)

definition valid_nonce :: "checkpoint_nonce \<Rightarrow> bool" where
  "valid_nonce n \<longleftrightarrow> length (nonce_bytes n) = 32"

datatype checkpoint_worker_status = WS_Completed | WS_Failed | WS_Cancelled

datatype checkpoint_artifact_kind = AK_File | AK_Directory | AK_Opaque

record checkpoint_artifact_metadata =
  am_kind :: checkpoint_artifact_kind
  am_size_bytes :: "u64 option"

record checkpoint_request =
  cr_nonce :: checkpoint_nonce
  cr_request_id :: u64
  cr_deadline_at :: dur

record checkpoint_acknowledgement =
  ca_nonce :: checkpoint_nonce
  ca_request_id :: u64
  ca_status :: checkpoint_worker_status
  ca_artifact :: "checkpoint_artifact_metadata option"

definition acknowledgement_for_request ::
    "checkpoint_request \<Rightarrow> checkpoint_worker_status \<Rightarrow> checkpoint_artifact_metadata option
     \<Rightarrow> checkpoint_acknowledgement" where
  "acknowledgement_for_request request status artifact =
    \<lparr>ca_nonce = cr_nonce request, ca_request_id = cr_request_id request, ca_status = status,
     ca_artifact = artifact\<rparr>"

datatype checkpoint_protocol_state =
    Proto_Idle
  | Proto_RequestedUnverified
  | Proto_AcknowledgedUnverifiedDurability
  | Proto_WorkerFailed
  | Proto_TimedOut
  | Proto_Cancelled

datatype checkpoint_rejection =
    Reject_WrongNonce
  | Reject_Replay
  | Reject_Duplicate
  | Reject_Malformed
  | Reject_Oversized
  | Reject_Partial
  | Reject_Late
  | Reject_EndpointExited
  | Reject_PostExit
  | Reject_PostCancel

record checkpoint_poll =
  poll_acknowledgement :: "checkpoint_acknowledgement option"
  poll_rejections :: "checkpoint_rejection list"

definition poll_pending :: checkpoint_poll where
  "poll_pending = \<lparr>poll_acknowledgement = None, poll_rejections = []\<rparr>"

definition poll_rejected :: "checkpoint_rejection \<Rightarrow> checkpoint_poll" where
  "poll_rejected reason = \<lparr>poll_acknowledgement = None, poll_rejections = [reason]\<rparr>"

datatype checkpoint_protocol_error =
    ActiveRequest
  | InvalidRequest
  | DeadlineOutOfRange
  | MalformedFrame

section \<open>Frames\<close>

definition encode_body :: "bytes \<Rightarrow> bytes" where
  "encode_body body = be_bytes 4 (length body) @ body"

definition exact_body :: "bytes \<Rightarrow> nat \<Rightarrow> checkpoint_protocol_error + bytes" where
  "exact_body frame expected_body_bytes =
     (if length frame \<noteq> FRAME_HEADER_BYTES + expected_body_bytes then Err MalformedFrame
      else
        let body_len = be_nat (take FRAME_HEADER_BYTES frame) in
        if body_len \<noteq> expected_body_bytes \<or> MAX_CHECKPOINT_FRAME_BYTES < body_len
        then Err MalformedFrame
        else Ok (drop FRAME_HEADER_BYTES frame))"

definition encode_negotiation :: "u8 \<Rightarrow> checkpoint_nonce \<Rightarrow> bytes" where
  "encode_negotiation kind nonce =
     encode_body (MAGIC @ [CHECKPOINT_PROTOCOL_VERSION] @ [kind] @ nonce_bytes nonce)"

text \<open>The bytes \<open>body[i..j]\<close>.\<close>

definition slice :: "nat \<Rightarrow> nat \<Rightarrow> bytes \<Rightarrow> bytes" where
  "slice i j bs = take (j - i) (drop i bs)"

definition header_ok :: "u8 \<Rightarrow> bytes \<Rightarrow> bool" where
  "header_ok kind body \<longleftrightarrow>
     take 4 body = MAGIC \<and> body ! 4 = CHECKPOINT_PROTOCOL_VERSION \<and> body ! 5 = kind"

definition decode_negotiation ::
    "bytes \<Rightarrow> u8 \<Rightarrow> checkpoint_protocol_error + checkpoint_nonce" where
  "decode_negotiation frame expected_kind =
     (case exact_body frame NEGOTIATION_BODY_BYTES of
        Inl err \<Rightarrow> Err err
      | Inr body \<Rightarrow>
          (if \<not> header_ok expected_kind body then Err MalformedFrame
           else Ok (Nonce (slice 6 38 body))))"

text \<open>The frame that \<open>begin_request\<close> writes, and the worker's decoder for it.\<close>

definition encode_request :: "checkpoint_nonce \<Rightarrow> u64 \<Rightarrow> u64 \<Rightarrow> bytes" where
  "encode_request nonce request_id deadline_ns =
     encode_body (MAGIC @ [CHECKPOINT_PROTOCOL_VERSION] @ [REQUEST_KIND] @ nonce_bytes nonce
       @ u64_be request_id @ u64_be deadline_ns)"

definition decode_request :: "bytes \<Rightarrow> checkpoint_protocol_error + checkpoint_request" where
  "decode_request frame =
     (case exact_body frame REQUEST_BODY_BYTES of
        Inl err \<Rightarrow> Err err
      | Inr body \<Rightarrow>
          (if \<not> header_ok REQUEST_KIND body then Err MalformedFrame
           else
             let nonce = Nonce (slice 6 38 body);
                 request_id = be_u64 (slice 38 46 body);
                 deadline_ns = be_u64 (slice 46 54 body)
             in if request_id = 0 \<or> deadline_ns = 0 then Err MalformedFrame
                else Ok \<lparr>cr_nonce = nonce, cr_request_id = request_id,
                         cr_deadline_at = unat deadline_ns\<rparr>))"

fun status_byte :: "checkpoint_worker_status \<Rightarrow> u8" where
  "status_byte WS_Completed = 1"
| "status_byte WS_Failed = 2"
| "status_byte WS_Cancelled = 3"

fun kind_byte :: "checkpoint_artifact_kind \<Rightarrow> u8" where
  "kind_byte AK_File = 1"
| "kind_byte AK_Directory = 2"
| "kind_byte AK_Opaque = 3"

definition artifact_fields :: "checkpoint_artifact_metadata option \<Rightarrow> u8 \<times> u8 \<times> u64" where
  "artifact_fields artifact =
     (case artifact of
        None \<Rightarrow> (0, 0, 0)
      | Some metadata \<Rightarrow>
          (kind_byte (am_kind metadata),
           (case am_size_bytes metadata of None \<Rightarrow> 0 | Some _ \<Rightarrow> 1),
           (case am_size_bytes metadata of None \<Rightarrow> 0 | Some n \<Rightarrow> n)))"

definition encode_acknowledgement :: "checkpoint_acknowledgement \<Rightarrow> bytes" where
  "encode_acknowledgement ack =
     (let (kind, has_size, size_bytes) = artifact_fields (ca_artifact ack)
      in encode_body (MAGIC @ [CHECKPOINT_PROTOCOL_VERSION] @ [ACKNOWLEDGEMENT_KIND]
           @ nonce_bytes (ca_nonce ack) @ u64_be (ca_request_id ack) @ [status_byte (ca_status ack)]
           @ [kind] @ [has_size] @ u64_be size_bytes))"

definition decode_status :: "u8 \<Rightarrow> checkpoint_protocol_error + checkpoint_worker_status" where
  "decode_status b =
     (if b = 1 then Ok WS_Completed
      else if b = 2 then Ok WS_Failed
      else if b = 3 then Ok WS_Cancelled
      else Err MalformedFrame)"

definition decode_artifact ::
    "u8 \<Rightarrow> u8 \<Rightarrow> u64 \<Rightarrow> checkpoint_protocol_error + checkpoint_artifact_metadata option" where
  "decode_artifact kind has_size size_bytes =
     (if kind = 0 \<and> has_size = 0 \<and> size_bytes = 0 then Ok None
      else if kind \<in> {1, 2, 3} \<and> has_size \<in> {0, 1} \<and> (has_size = 1 \<or> size_bytes = 0)
      then Ok (Some
        \<lparr>am_kind = (if kind = 1 then AK_File else if kind = 2 then AK_Directory else AK_Opaque),
         am_size_bytes = (if has_size = 1 then Some size_bytes else None)\<rparr>)
      else Err MalformedFrame)"

definition decode_acknowledgement ::
    "bytes \<Rightarrow> checkpoint_protocol_error + checkpoint_acknowledgement" where
  "decode_acknowledgement frame =
     (case exact_body frame ACKNOWLEDGEMENT_BODY_BYTES of
        Inl err \<Rightarrow> Err err
      | Inr body \<Rightarrow>
          (if \<not> header_ok ACKNOWLEDGEMENT_KIND body then Err MalformedFrame
           else
             let nonce = Nonce (slice 6 38 body);
                 request_id = be_u64 (slice 38 46 body)
             in if request_id = 0 then Err MalformedFrame
                else case decode_status (body ! 46) of
                  Inl err \<Rightarrow> Err err
                | Inr status \<Rightarrow>
                    (case decode_artifact (body ! 47) (body ! 48) (be_u64 (slice 49 57 body)) of
                       Inl err \<Rightarrow> Err err
                     | Inr artifact \<Rightarrow>
                         Ok \<lparr>ca_nonce = nonce, ca_request_id = request_id, ca_status = status,
                             ca_artifact = artifact\<rparr>)))"

section \<open>The protocol state\<close>

record checkpoint_protocol =
  cp_nonce :: checkpoint_nonce
  cp_state :: checkpoint_protocol_state
  cp_active_request_id :: "u64 option"
  cp_deadline_at :: "dur option"
  cp_buffer :: bytes
  cp_endpoint_exited :: bool

definition protocol_new :: "checkpoint_nonce \<Rightarrow> checkpoint_protocol" where
  "protocol_new nonce =
    \<lparr>cp_nonce = nonce, cp_state = Proto_Idle, cp_active_request_id = None, cp_deadline_at = None,
     cp_buffer = [], cp_endpoint_exited = False\<rparr>"

definition begin_request ::
    "checkpoint_protocol \<Rightarrow> u64 \<Rightarrow> dur \<Rightarrow> dur
     \<Rightarrow> checkpoint_protocol \<times> (checkpoint_protocol_error + bytes)" where
  "begin_request p request_id requested_at deadline_at =
     (if cp_state p \<noteq> Proto_Idle then (p, Err ActiveRequest)
      else if request_id = 0 \<or> deadline_at \<le> requested_at \<or> cp_endpoint_exited p
      then (p, Err InvalidRequest)
      else if 2 ^ 64 \<le> deadline_at then (p, Err DeadlineOutOfRange)
      else
        (p\<lparr>cp_state := Proto_RequestedUnverified,
           cp_active_request_id := Some request_id,
           cp_deadline_at := Some deadline_at\<rparr>,
         Ok (encode_request (cp_nonce p) request_id (of_nat deadline_at))))"

definition receive_frame ::
    "checkpoint_protocol \<Rightarrow> bytes
     \<Rightarrow> checkpoint_protocol \<times> (checkpoint_rejection + bytes option)" where
  "receive_frame p chunk =
     (if MAX_CHECKPOINT_FRAME_BYTES + FRAME_HEADER_BYTES < length (cp_buffer p) + length chunk
      then (p\<lparr>cp_buffer := []\<rparr>, Err Reject_Oversized)
      else
        let buffer = cp_buffer p @ chunk; p = p\<lparr>cp_buffer := buffer\<rparr> in
        if length buffer < FRAME_HEADER_BYTES then (p, Ok None)
        else
          let body_len = be_nat (take 4 buffer) in
          if MAX_CHECKPOINT_FRAME_BYTES < body_len
          then (p\<lparr>cp_buffer := []\<rparr>, Err Reject_Oversized)
          else
            let frame_len = FRAME_HEADER_BYTES + body_len in
            if length buffer < frame_len then (p, Ok None)
            else if length buffer \<noteq> frame_len then (p\<lparr>cp_buffer := []\<rparr>, Err Reject_Malformed)
            else (p\<lparr>cp_buffer := []\<rparr>, Ok (Some buffer)))"

fun state_after :: "checkpoint_worker_status \<Rightarrow> checkpoint_protocol_state" where
  "state_after WS_Completed = Proto_AcknowledgedUnverifiedDurability"
| "state_after WS_Failed = Proto_WorkerFailed"
| "state_after WS_Cancelled = Proto_Cancelled"

definition accept_frame ::
    "checkpoint_protocol \<Rightarrow> bytes \<Rightarrow> checkpoint_protocol \<times> checkpoint_poll" where
  "accept_frame p frame =
     (case decode_acknowledgement frame of
        Inl _ \<Rightarrow> (p, poll_rejected Reject_Malformed)
      | Inr ack \<Rightarrow>
          (if ca_nonce ack \<noteq> cp_nonce p then (p, poll_rejected Reject_WrongNonce)
           else if cp_active_request_id p \<noteq> Some (ca_request_id ack)
           then (p, poll_rejected Reject_Replay)
           else
             (p\<lparr>cp_active_request_id := None, cp_deadline_at := None,
                cp_state := state_after (ca_status ack)\<rparr>,
              \<lparr>poll_acknowledgement = Some ack, poll_rejections = []\<rparr>)))"

definition ingest ::
    "checkpoint_protocol \<Rightarrow> dur \<Rightarrow> bytes \<Rightarrow> checkpoint_protocol \<times> checkpoint_poll" where
  "ingest p t chunk =
     (if cp_endpoint_exited p then (p, poll_rejected Reject_PostExit)
      else if cp_state p = Proto_AcknowledgedUnverifiedDurability \<or> cp_state p = Proto_WorkerFailed
      then (p, poll_rejected Reject_Duplicate)
      else if cp_state p = Proto_TimedOut then (p, poll_rejected Reject_Late)
      else if cp_state p = Proto_Cancelled then (p, poll_rejected Reject_PostCancel)
      else if (case cp_deadline_at p of None \<Rightarrow> False | Some deadline_at \<Rightarrow> deadline_at \<le> t)
      then (p\<lparr>cp_state := Proto_TimedOut, cp_buffer := []\<rparr>, poll_rejected Reject_Late)
      else if cp_state p \<noteq> Proto_RequestedUnverified then (p, poll_rejected Reject_Malformed)
      else case receive_frame p chunk of
        (p, Inl rejection) \<Rightarrow> (p, poll_rejected rejection)
      | (p, Inr None) \<Rightarrow> (p, poll_pending)
      | (p, Inr (Some frame)) \<Rightarrow> accept_frame p frame)"

definition protocol_endpoint_exited ::
    "checkpoint_protocol \<Rightarrow> checkpoint_protocol \<times> checkpoint_poll" where
  "protocol_endpoint_exited p =
     (p\<lparr>cp_buffer := [], cp_active_request_id := None, cp_deadline_at := None,
        cp_endpoint_exited := True, cp_state := Proto_Cancelled\<rparr>,
      \<lparr>poll_acknowledgement = None,
       poll_rejections = (if cp_buffer p \<noteq> [] then [Reject_Partial] else []) @ [Reject_EndpointExited]\<rparr>)"

definition protocol_cancel :: "checkpoint_protocol \<Rightarrow> checkpoint_protocol \<times> checkpoint_poll" where
  "protocol_cancel p =
     (p\<lparr>cp_buffer := [], cp_active_request_id := None, cp_deadline_at := None,
        cp_state := Proto_Cancelled\<rparr>,
      \<lparr>poll_acknowledgement = None,
       poll_rejections = (if cp_buffer p \<noteq> [] then [Reject_Partial] else [])\<rparr>)"

section \<open>The channel\<close>

datatype checkpoint_channel_error =
    CreateFailed
  | ConfigureFailed
  | WriteFailed
  | ReadFailed
  | NegotiationFailed

datatype checkpoint_channel_request_error =
    NotReady
  | ProtocolError checkpoint_protocol_error
  | ChannelError checkpoint_channel_error

record checkpoint_channel =
  ch_protocol :: checkpoint_protocol
  ch_nonce :: checkpoint_nonce
  ch_negotiation_started :: bool
  ch_ready :: bool
  ch_negotiation_buffer :: bytes

text \<open>The supervisor side of \<open>pair\<close>, when the socket pair could be created.\<close>

definition channel_new :: "checkpoint_nonce \<Rightarrow> checkpoint_channel" where
  "channel_new nonce =
    \<lparr>ch_protocol = protocol_new nonce, ch_nonce = nonce, ch_negotiation_started = False,
     ch_ready = False, ch_negotiation_buffer = []\<rparr>"

text \<open>
  \<open>stream.write(frame)\<close> returns the number of bytes accepted or fails; \<open>stream.read\<close> returns at most
  as many bytes as the buffer holds, zero at end of file, or one of the error kinds the code
  distinguishes.
\<close>

type_synonym stream_write = "bytes \<Rightarrow> nat option"

datatype read_result =
    Read_Ok bytes
  | Read_WouldBlock
  | Read_EndpointExit
  | Read_Failed

definition written :: "stream_write \<Rightarrow> bytes \<Rightarrow> bool" where
  "written write frame \<longleftrightarrow> write frame = Some (length frame)"

definition channel_begin_request ::
    "stream_write \<Rightarrow> checkpoint_channel \<Rightarrow> u64 \<Rightarrow> dur \<Rightarrow> dur
     \<Rightarrow> checkpoint_channel \<times> (checkpoint_channel_request_error + unit)" where
  "channel_begin_request write ch request_id requested_at deadline_at =
     (if \<not> ch_ready ch then (ch, Err NotReady)
      else
        let (p, res) = begin_request (ch_protocol ch) request_id requested_at deadline_at;
            ch = ch\<lparr>ch_protocol := p\<rparr>
        in case res of
             Inl err \<Rightarrow> (ch, Err (ProtocolError err))
           | Inr frame \<Rightarrow>
               (if written write frame then (ch, Ok ()) else (ch, Err (ChannelError WriteFailed))))"

definition begin_negotiation ::
    "stream_write \<Rightarrow> checkpoint_channel \<Rightarrow> checkpoint_channel \<times> (checkpoint_channel_error + unit)" where
  "begin_negotiation write ch =
     (if ch_negotiation_started ch \<or> ch_ready ch then (ch, Err NegotiationFailed)
      else if written write (encode_negotiation HELLO_KIND (ch_nonce ch))
      then (ch\<lparr>ch_negotiation_started := True\<rparr>, Ok ())
      else (ch, Err WriteFailed))"

definition poll_ready ::
    "checkpoint_channel \<Rightarrow> read_result \<Rightarrow> checkpoint_channel \<times> (checkpoint_channel_error + bool)" where
  "poll_ready ch read =
     (if ch_ready ch then (ch, Ok True)
      else if \<not> ch_negotiation_started ch then (ch, Ok False)
      else case read of
        Read_WouldBlock \<Rightarrow> (ch, Ok False)
      | Read_EndpointExit \<Rightarrow> (ch, Err ReadFailed)
      | Read_Failed \<Rightarrow> (ch, Err ReadFailed)
      | Read_Ok chunk \<Rightarrow>
          (if chunk = [] then (ch, Err NegotiationFailed)
           else if NEGOTIATION_BODY_BYTES + FRAME_HEADER_BYTES
                     < length (ch_negotiation_buffer ch) + length chunk
           then (ch\<lparr>ch_negotiation_buffer := []\<rparr>, Err NegotiationFailed)
           else
             let buffer = ch_negotiation_buffer ch @ chunk;
                 ch = ch\<lparr>ch_negotiation_buffer := buffer\<rparr>
             in if length buffer < NEGOTIATION_BODY_BYTES + FRAME_HEADER_BYTES then (ch, Ok False)
                else case decode_negotiation buffer READY_KIND of
                  Inl _ \<Rightarrow> (ch, Err NegotiationFailed)
                | Inr nonce \<Rightarrow>
                    (if nonce \<noteq> ch_nonce ch then (ch, Err NegotiationFailed)
                     else (ch\<lparr>ch_negotiation_buffer := [], ch_ready := True\<rparr>, Ok True))))"

definition channel_poll ::
    "checkpoint_channel \<Rightarrow> dur \<Rightarrow> read_result
     \<Rightarrow> checkpoint_channel \<times> (checkpoint_channel_error + checkpoint_poll)" where
  "channel_poll ch t read =
     (if cp_state (ch_protocol ch) \<noteq> Proto_RequestedUnverified then (ch, Ok poll_pending)
      else
        let (p, deadline_poll) = ingest (ch_protocol ch) t []; ch = ch\<lparr>ch_protocol := p\<rparr> in
        if poll_rejections deadline_poll \<noteq> [] then (ch, Ok deadline_poll)
        else
          let exited = protocol_endpoint_exited (ch_protocol ch) in
          case read of
            Read_Ok chunk \<Rightarrow>
              (if chunk = [] then (ch\<lparr>ch_protocol := fst exited\<rparr>, Ok (snd exited))
               else
                 let (p, poll) = ingest (ch_protocol ch) t chunk
                 in (ch\<lparr>ch_protocol := p\<rparr>, Ok poll))
          | Read_WouldBlock \<Rightarrow> (ch, Ok poll_pending)
          | Read_EndpointExit \<Rightarrow> (ch\<lparr>ch_protocol := fst exited\<rparr>, Ok (snd exited))
          | Read_Failed \<Rightarrow> (ch, Err ReadFailed))"

text \<open>\<open>cancel\<close>, with the result of shutting the socket down.\<close>

definition channel_cancel ::
    "checkpoint_channel \<Rightarrow> bool \<Rightarrow> checkpoint_channel \<times> (checkpoint_channel_error + unit)" where
  "channel_cancel ch shutdown_ok =
     (ch\<lparr>ch_protocol := fst (protocol_cancel (ch_protocol ch))\<rparr>,
      if shutdown_ok then Ok () else Err ConfigureFailed)"

section \<open>The worker's side of the negotiation\<close>

definition decode_hello :: "bytes \<Rightarrow> checkpoint_protocol_error + checkpoint_nonce" where
  "decode_hello frame = decode_negotiation frame HELLO_KIND"

definition ready_frame :: "checkpoint_nonce \<Rightarrow> bytes" where
  "ready_frame nonce = encode_negotiation READY_KIND nonce"

section \<open>Signal configuration\<close>

record checkpoint_signal_config =
  cs_signal :: signal_number
  cs_timeout :: dur

datatype checkpoint_signal_config_error = SignalCollision | InvalidTimeout

text \<open>The numbers of the two user signals come from the platform's C library.\<close>

definition checkpoint_signal_config_new ::
    "u8 \<Rightarrow> u8 \<Rightarrow> signal_number \<Rightarrow> dur
     \<Rightarrow> checkpoint_signal_config_error + checkpoint_signal_config" where
  "checkpoint_signal_config_new sigusr1 sigusr2 signal timeout =
     (if timeout = 0 then Err InvalidTimeout
      else if signal_get signal \<noteq> sigusr1 \<and> signal_get signal \<noteq> sigusr2 then Err SignalCollision
      else Ok \<lparr>cs_signal = signal, cs_timeout = timeout\<rparr>)"

end
