(* ===== verification/Checkpoint_Props.thy ===== *)
theory Checkpoint_Props
  imports Checkpoint
begin

text \<open>
  The checkpoint wire format is canonical, and the protocol accepts at most one acknowledgement,
  only an authentic one, only before the deadline, in bounded memory, however the bytes arrive.
\<close>

section \<open>Frames\<close>

lemma split_at:
  assumes "length xs = m + k"
  obtains a b where "xs = a @ b" "length a = m" "length b = k"
  using assms that [of "take m xs" "drop m xs"] by simp

lemma exact_body_iff:
  assumes "n \<le> 128"
  shows "exact_body frame n = Ok body \<longleftrightarrow> length body = n \<and> frame = encode_body body"
proof
  assume ok: "exact_body frame n = Ok body"
  then have len: "length frame = 4 + n" and n: "be_nat (take 4 frame) = n" and body: "body = drop 4 frame"
    by (auto simp: exact_body_def Let_def split: if_splits)
  then have "take 4 frame = be_bytes 4 n" using be_bytes_be_nat [of "take 4 frame"] by simp
  moreover have "frame = take 4 frame @ drop 4 frame" by simp
  ultimately show "length body = n \<and> frame = encode_body body"
    using len body by (simp add: encode_body_def)
next
  assume "length body = n \<and> frame = encode_body body"
  then show "exact_body frame n = Ok body"
    using assms by (simp add: exact_body_def encode_body_def be_nat_be_bytes)
qed

lemma header_ok_iff:
  assumes "6 \<le> length body"
  shows "header_ok kind body \<longleftrightarrow>
    (\<exists>rest. body = MAGIC @ [CHECKPOINT_PROTOCOL_VERSION] @ [kind] @ rest)"
proof
  assume ok: "header_ok kind body"
  have "length body = 4 + (length body - 4)" using assms by simp
  then obtain a c where body: "body = a @ c" "length a = 4" and c: "length c = length body - 4"
    by (rule split_at)
  from c assms obtain x y rest where "c = x # y # rest"
    by (cases c; cases "tl c") auto
  with body ok show "\<exists>rest. body = MAGIC @ [CHECKPOINT_PROTOCOL_VERSION] @ [kind] @ rest"
    by (auto simp: header_ok_def nth_append)
next
  assume "\<exists>rest. body = MAGIC @ [CHECKPOINT_PROTOCOL_VERSION] @ [kind] @ rest"
  then show "header_ok kind body"
    by (auto simp: header_ok_def MAGIC_def nth_append)
qed

lemma header_part [simp]: "header_ok kind (MAGIC @ CHECKPOINT_PROTOCOL_VERSION # kind' # rest) \<longleftrightarrow> kind = kind'"
  by (auto simp: header_ok_def MAGIC_def)

lemma length_MAGIC [simp]: "length MAGIC = 4"
  by (simp add: MAGIC_def)

text \<open>The positions the decoders read, in a body laid out in fields.\<close>

lemma nonce_field:
  assumes "length nb = 32"
  shows "slice 6 38 (MAGIC @ v # kind # nb @ rest) = nb"
  using assms by (simp add: slice_def MAGIC_def)

lemma id_field:
  assumes "length nb = 32" "length ib = 8"
  shows "slice 38 46 (MAGIC @ v # kind # nb @ ib @ rest) = ib"
  using assms by (simp add: slice_def MAGIC_def)

lemma deadline_field:
  assumes "length nb = 32" "length ib = 8" "length db = 8"
  shows "slice 46 54 (MAGIC @ v # kind # nb @ ib @ db) = db"
  using assms by (simp add: slice_def MAGIC_def)

lemma ack_fields:
  assumes "length nb = 32" "length ib = 8" "length sb = 8"
  shows "(MAGIC @ v # kind # nb @ ib @ st # k # h # sb) ! 46 = st"
    "(MAGIC @ v # kind # nb @ ib @ st # k # h # sb) ! 47 = k"
    "(MAGIC @ v # kind # nb @ ib @ st # k # h # sb) ! 48 = h"
    "slice 49 57 (MAGIC @ v # kind # nb @ ib @ st # k # h # sb) = sb"
  using assms by (simp_all add: slice_def MAGIC_def nth_append)

lemma negotiation_iff:
  "decode_negotiation frame kind = Ok n \<longleftrightarrow> valid_nonce n \<and> frame = encode_negotiation kind n"
proof
  assume ok: "decode_negotiation frame kind = Ok n"
  then obtain body where body: "length body = 38" "frame = encode_body body" "header_ok kind body"
    "n = Nonce (slice 6 38 body)"
    by (auto simp: decode_negotiation_def exact_body_iff split: sum.splits if_splits)
  then obtain rest where "body = MAGIC @ [CHECKPOINT_PROTOCOL_VERSION] @ [kind] @ rest"
    by (auto simp: header_ok_iff)
  moreover from this body(1) have "length rest = 32" by simp
  ultimately show "valid_nonce n \<and> frame = encode_negotiation kind n"
    using body nonce_field [of rest _ _ "[]"] by (simp add: valid_nonce_def encode_negotiation_def)
next
  assume ok: "valid_nonce n \<and> frame = encode_negotiation kind n"
  have "exact_body frame NEGOTIATION_BODY_BYTES =
      Ok (MAGIC @ CHECKPOINT_PROTOCOL_VERSION # kind # nonce_bytes n)"
    using ok by (simp add: exact_body_iff encode_negotiation_def valid_nonce_def)
  then show "decode_negotiation frame kind = Ok n"
    using ok nonce_field [of "nonce_bytes n" _ _ "[]"]
    by (simp add: decode_negotiation_def valid_nonce_def)
qed

definition valid_request :: "checkpoint_request \<Rightarrow> bool" where
  "valid_request r \<longleftrightarrow> valid_nonce (cr_nonce r) \<and> cr_request_id r \<noteq> 0
     \<and> 0 < cr_deadline_at r \<and> cr_deadline_at r < 2 ^ 64"

definition request_frame :: "checkpoint_request \<Rightarrow> bytes" where
  "request_frame r = encode_request (cr_nonce r) (cr_request_id r) (of_nat (cr_deadline_at r))"

lemma request_iff:
  "decode_request frame = Ok r \<longleftrightarrow> valid_request r \<and> frame = request_frame r"
proof
  assume ok: "decode_request frame = Ok r"
  then obtain body where body: "length body = 54" "frame = encode_body body" "header_ok REQUEST_KIND body"
    and ids: "be_u64 (slice 38 46 body) \<noteq> 0" "be_u64 (slice 46 54 body) \<noteq> 0"
    and r: "r = \<lparr>cr_nonce = Nonce (slice 6 38 body), cr_request_id = be_u64 (slice 38 46 body),
             cr_deadline_at = unat (be_u64 (slice 46 54 body))\<rparr>"
    by (auto simp: decode_request_def exact_body_iff Let_def split: sum.splits if_splits)
  then obtain rest where rest: "body = MAGIC @ [CHECKPOINT_PROTOCOL_VERSION] @ [REQUEST_KIND] @ rest"
    by (auto simp: header_ok_iff)
  with body(1) have "length rest = 32 + 16" by simp
  then obtain nb r1 where nb: "rest = nb @ r1" "length nb = 32" "length r1 = 8 + 8"
    by (rule split_at) simp
  from nb(3) obtain ib db where ib: "r1 = ib @ db" "length ib = 8" "length db = 8" by (rule split_at)
  have deadline: "0 < unat (be_u64 db)" "unat (be_u64 db) < 2 ^ LENGTH(64)" if "be_u64 db \<noteq> 0"
    using that unsigned_less [of "be_u64 db"] by (auto simp: unat_gt_0)
  show "valid_request r \<and> frame = request_frame r"
    using body(2) ids r deadline
    by (simp add: rest nb ib nonce_field id_field deadline_field valid_request_def valid_nonce_def
        request_frame_def encode_request_def u64_be_be)
next
  assume ok: "valid_request r \<and> frame = request_frame r"
  have "exact_body frame REQUEST_BODY_BYTES =
      Ok (MAGIC @ CHECKPOINT_PROTOCOL_VERSION # REQUEST_KIND # nonce_bytes (cr_nonce r)
        @ u64_be (cr_request_id r) @ u64_be (of_nat (cr_deadline_at r)))"
    using ok by (simp add: exact_body_iff request_frame_def encode_request_def valid_request_def
        valid_nonce_def)
  then show "decode_request frame = Ok r"
    using ok by (simp add: decode_request_def nonce_field id_field deadline_field valid_request_def
        valid_nonce_def unat_of_nat word_unat_eq_iff)
qed

lemma decode_status_iff: "decode_status b = Ok st \<longleftrightarrow> status_byte st = b"
  by (cases st) (auto simp: decode_status_def)

lemma decode_artifact_iff: "decode_artifact k h n = Ok a \<longleftrightarrow> artifact_fields a = (k, h, n)"
proof (cases a)
  case None
  then show ?thesis by (auto simp: decode_artifact_def artifact_fields_def)
next
  case (Some m)
  obtain kind sz where m: "m = \<lparr>am_kind = kind, am_size_bytes = sz\<rparr>" by (cases m)
  show ?thesis
    by (cases kind; cases sz)
      (auto simp: Some m decode_artifact_def artifact_fields_def split: if_splits)
qed

definition valid_acknowledgement :: "checkpoint_acknowledgement \<Rightarrow> bool" where
  "valid_acknowledgement a \<longleftrightarrow> valid_nonce (ca_nonce a) \<and> ca_request_id a \<noteq> 0"

lemma acknowledgement_iff:
  "decode_acknowledgement frame = Ok a \<longleftrightarrow> valid_acknowledgement a \<and> frame = encode_acknowledgement a"
proof
  assume ok: "decode_acknowledgement frame = Ok a"
  then obtain body where body: "length body = 57" "frame = encode_body body"
    "header_ok ACKNOWLEDGEMENT_KIND body"
    and a: "be_u64 (slice 38 46 body) \<noteq> 0" "decode_status (body ! 46) = Ok (ca_status a)"
      "decode_artifact (body ! 47) (body ! 48) (be_u64 (slice 49 57 body)) = Ok (ca_artifact a)"
      "ca_nonce a = Nonce (slice 6 38 body)" "ca_request_id a = be_u64 (slice 38 46 body)"
    by (auto simp: decode_acknowledgement_def exact_body_iff Let_def split: sum.splits if_splits)
  then obtain rest where rest: "body = MAGIC @ [CHECKPOINT_PROTOCOL_VERSION] @ [ACKNOWLEDGEMENT_KIND] @ rest"
    by (auto simp: header_ok_iff)
  with body(1) have "length rest = 32 + 19" by simp
  then obtain nb r1 where nb: "rest = nb @ r1" "length nb = 32" "length r1 = 8 + 11"
    by (rule split_at) simp
  from nb(3) obtain ib r2 where ib: "r1 = ib @ r2" "length ib = 8" and r2: "length r2 = 11"
    by (rule split_at)
  from r2 have "length r2 = 3 + 8" by simp
  then obtain r3 sb where sb: "r2 = r3 @ sb" "length r3 = 3" "length sb = 8" by (rule split_at)
  from sb(2) obtain st k h where "r3 = [st, k, h]"
    by (auto simp: numeral_3_eq_3 length_Suc_conv)
  then have layout: "body = MAGIC @ CHECKPOINT_PROTOCOL_VERSION # ACKNOWLEDGEMENT_KIND # nb @ ib @ st # k # h # sb"
    by (simp add: rest nb ib sb)
  note fields = ack_fields [OF nb(2) ib(2) sb(3)] nonce_field [OF nb(2)] id_field [OF nb(2) ib(2)]
  show "valid_acknowledgement a \<and> frame = encode_acknowledgement a"
    using a body(2) nb ib sb
    by (simp add: layout fields decode_status_iff decode_artifact_iff valid_acknowledgement_def
        valid_nonce_def encode_acknowledgement_def u64_be_be)
next
  assume ok: "valid_acknowledgement a \<and> frame = encode_acknowledgement a"
  obtain k h n where art: "artifact_fields (ca_artifact a) = (k, h, n)" by (cases "artifact_fields (ca_artifact a)")
  have len: "length (nonce_bytes (ca_nonce a)) = 32"
    using ok by (simp add: valid_acknowledgement_def valid_nonce_def)
  note fields = ack_fields [OF len length_u64_be length_u64_be] nonce_field [OF len] id_field [OF len length_u64_be]
  have "exact_body frame ACKNOWLEDGEMENT_BODY_BYTES =
      Ok (MAGIC @ CHECKPOINT_PROTOCOL_VERSION # ACKNOWLEDGEMENT_KIND # nonce_bytes (ca_nonce a)
        @ u64_be (ca_request_id a) @ status_byte (ca_status a) # k # h # u64_be n)"
    using ok len by (simp add: exact_body_iff encode_acknowledgement_def art)
  moreover have "decode_status (status_byte (ca_status a)) = Ok (ca_status a)"
    by (simp add: decode_status_iff)
  moreover have "decode_artifact k h n = Ok (ca_artifact a)"
    by (simp add: decode_artifact_iff art)
  ultimately show "decode_acknowledgement frame = Ok a"
    using ok by (simp add: decode_acknowledgement_def fields valid_acknowledgement_def)
qed

interpretation hello_frames: codec "encode_negotiation HELLO_KIND" "\<lambda>f. decode_negotiation f HELLO_KIND" valid_nonce
  by unfold_locales (rule negotiation_iff)

interpretation ready_frames: codec "encode_negotiation READY_KIND" "\<lambda>f. decode_negotiation f READY_KIND" valid_nonce
  by unfold_locales (rule negotiation_iff)

interpretation request_frames: codec request_frame decode_request valid_request
  by unfold_locales (rule request_iff)

interpretation acknowledgements: codec encode_acknowledgement decode_acknowledgement valid_acknowledgement
  by unfold_locales (rule acknowledgement_iff)

text \<open>C32. The acknowledgement format is canonical: a byte string decodes to an acknowledgement if and
  only if the acknowledgement is well formed and the bytes are exactly its encoding. So decoding
  inverts encoding, and no second byte string passes for the same acknowledgement.\<close>

theorem acknowledgement_frames_canonical:
  "decode_acknowledgement frame = Ok a \<longleftrightarrow> valid_acknowledgement a \<and> frame = encode_acknowledgement a"
  by (rule acknowledgements.decode_iff)

text \<open>The same for the request the worker decodes: it is the frame the supervisor wrote for that
  nonce, request and deadline, and nothing else decodes to it.\<close>

theorem request_frames_canonical:
  "decode_request frame = Ok r \<longleftrightarrow> valid_request r \<and> frame = request_frame r"
  by (rule request_frames.decode_iff)

section \<open>Receiving a frame\<close>

lemma frame_header:
  assumes "length body \<le> 128"
  shows "length (encode_body body) = 4 + length body"
    and "4 \<le> length pre \<Longrightarrow> pre @ rest = encode_body body \<Longrightarrow> be_nat (take 4 pre) = length body"
proof -
  show "length (encode_body body) = 4 + length body" by (simp add: encode_body_def)
  assume "4 \<le> length pre" and "pre @ rest = encode_body body"
  then have "take 4 pre = take 4 (encode_body body)" by (metis append_eq_conv_conj min.absorb1 take_take)
  also have "\<dots> = be_bytes 4 (length body)" by (simp add: encode_body_def)
  finally show "be_nat (take 4 pre) = length body" using assms by (simp add: be_nat_be_bytes)
qed

lemma receive_part:
  assumes "length body \<le> 128" and "(cp_buffer p @ chunk) @ rest = encode_body body" and "rest \<noteq> []"
  shows "receive_frame p chunk = (p\<lparr>cp_buffer := cp_buffer p @ chunk\<rparr>, Ok None)"
proof -
  have len: "length (cp_buffer p) + length chunk + length rest = 4 + length body" and "0 < length rest"
    using arg_cong [OF assms(2), of length] frame_header(1) [OF assms(1)] assms(3) by simp_all
  then have "length (cp_buffer p) + length chunk < 4 + length body" by linarith
  with assms(1) frame_header(2) [OF assms(1), of "cp_buffer p @ chunk" rest] assms(2) show ?thesis
    by (auto simp: receive_frame_def Let_def simp del: take_append)
qed

lemma receive_rest:
  assumes "length body \<le> 128" and "cp_buffer p @ chunk = encode_body body"
  shows "receive_frame p chunk = (p\<lparr>cp_buffer := []\<rparr>, Ok (Some (encode_body body)))"
proof -
  have len: "length (cp_buffer p) + length chunk = 4 + length body"
    using arg_cong [OF assms(2), of length] frame_header(1) [OF assms(1)] by simp
  have "be_nat (take 4 (cp_buffer p @ chunk)) = length body"
    using frame_header(2) [OF assms(1), of "cp_buffer p @ chunk" "[]"] len assms(2)
      frame_header(1) [OF assms(1)] by simp
  with len assms frame_header(1) [OF assms(1)] show ?thesis
    by (auto simp: receive_frame_def Let_def simp del: take_append)
qed

text \<open>A protocol that is waiting for its acknowledgement.\<close>

definition waiting :: "checkpoint_protocol \<Rightarrow> dur \<Rightarrow> bool" where
  "waiting p d \<longleftrightarrow> cp_state p = Proto_RequestedUnverified \<and> \<not> cp_endpoint_exited p
     \<and> cp_deadline_at p = Some d"

lemma waiting_buffer [simp]: "waiting (p\<lparr>cp_buffer := b\<rparr>) d = waiting p d"
  by (simp add: waiting_def)

lemma ingest_waiting:
  assumes "waiting p d" and "t < d"
  shows "ingest p t chunk =
    (case receive_frame p chunk of
        (p, Inl rejection) \<Rightarrow> (p, poll_rejected rejection)
      | (p, Inr None) \<Rightarrow> (p, poll_pending)
      | (p, Inr (Some frame)) \<Rightarrow> accept_frame p frame)"
  using assms by (simp add: ingest_def waiting_def)

section \<open>Runs of the protocol\<close>

datatype protocol_op =
    Op_Begin u64 dur dur
  | Op_Ingest dur bytes
  | Op_EndpointExited
  | Op_Cancel

definition accepted :: "checkpoint_poll \<Rightarrow> checkpoint_acknowledgement list" where
  "accepted poll = (case poll_acknowledgement poll of None \<Rightarrow> [] | Some a \<Rightarrow> [a])"

fun protocol_step ::
    "checkpoint_protocol \<Rightarrow> protocol_op \<Rightarrow> checkpoint_protocol \<times> checkpoint_acknowledgement list" where
  "protocol_step p (Op_Begin rid requested deadline) = (fst (begin_request p rid requested deadline), [])"
| "protocol_step p (Op_Ingest t chunk) = (let (p', poll) = ingest p t chunk in (p', accepted poll))"
| "protocol_step p Op_EndpointExited = (fst (protocol_endpoint_exited p), [])"
| "protocol_step p Op_Cancel = (fst (protocol_cancel p), [])"

lemma accepted_simps [simp]:
  "accepted poll_pending = []" "accepted (poll_rejected r) = []"
  "accepted \<lparr>poll_acknowledgement = Some a, poll_rejections = rs\<rparr> = [a]"
  by (simp_all add: accepted_def poll_pending_def poll_rejected_def)

lemma accept_frame_cases:
  obtains (no) "fst (accept_frame p frame) = p" "accepted (snd (accept_frame p frame)) = []"
  | (yes) a where "decode_acknowledgement frame = Ok a" "ca_nonce a = cp_nonce p"
      "cp_active_request_id p = Some (ca_request_id a)"
      "accept_frame p frame =
        (p\<lparr>cp_active_request_id := None, cp_deadline_at := None, cp_state := state_after (ca_status a)\<rparr>,
         \<lparr>poll_acknowledgement = Some a, poll_rejections = []\<rparr>)"
proof (cases "\<exists>a. decode_acknowledgement frame = Ok a \<and> ca_nonce a = cp_nonce p
    \<and> cp_active_request_id p = Some (ca_request_id a)")
  case True
  with yes show ?thesis by (auto simp: accept_frame_def)
next
  case False
  then have "fst (accept_frame p frame) = p \<and> accepted (snd (accept_frame p frame)) = []"
    by (auto simp: accept_frame_def split: sum.splits)
  with no show ?thesis by blast
qed

lemma state_after_closed:
  "state_after st \<in> {Proto_AcknowledgedUnverifiedDurability, Proto_WorkerFailed, Proto_Cancelled}"
  by (cases st) simp_all

lemma state_after_not [simp]:
  "state_after st \<noteq> Proto_Idle" "state_after st \<noteq> Proto_RequestedUnverified"
  by (cases st; simp)+

text \<open>Empty reads after a frame was handled change nothing.\<close>

lemma empty_ingest_idle:
  assumes "waiting p d" and "cp_buffer p = []" and "t < d"
  shows "protocol_step p (Op_Ingest t []) = (p, [])"
  using assms by (simp add: ingest_waiting receive_frame_def)

lemma closed_ingest:
  assumes "cp_state p \<in> {Proto_AcknowledgedUnverifiedDurability, Proto_WorkerFailed, Proto_Cancelled}"
  shows "protocol_step p (Op_Ingest t chunk) = (p, [])"
  using assms by (auto simp: ingest_def)

abbreviation ingests :: "(dur \<times> bytes) list \<Rightarrow> protocol_op list" where
  "ingests chunks \<equiv> map (\<lambda>c. Op_Ingest (fst c) (snd c)) chunks"

lemma trailing_empty_chunks:
  assumes "list_all (\<lambda>c. fst c < d \<and> snd c = []) chunks"
    and "waiting p d \<and> cp_buffer p = [] \<or>
      cp_state p \<in> {Proto_AcknowledgedUnverifiedDurability, Proto_WorkerFailed, Proto_Cancelled}"
  shows "run_machine protocol_step p (ingests chunks) = (p, [])"
  using assms
proof (induction chunks)
  case (Cons c chunks)
  then have "protocol_step p (Op_Ingest (fst c) (snd c)) = (p, [])"
    using empty_ingest_idle closed_ingest by auto
  with Cons show ?case by (simp add: Let_def)
qed simp

lemma accept_after:
  assumes "waiting p d" and "cp_buffer p = []"
  shows "waiting (fst (accept_frame p frame)) d \<and> cp_buffer (fst (accept_frame p frame)) = [] \<or>
    cp_state (fst (accept_frame p frame))
      \<in> {Proto_AcknowledgedUnverifiedDurability, Proto_WorkerFailed, Proto_Cancelled}"
  using assms state_after_closed by (cases rule: accept_frame_cases [of p frame]) auto

lemma part_shorter: "xs @ ys = zs \<Longrightarrow> ys \<noteq> [] \<Longrightarrow> length xs < length zs"
  by auto

lemma chunked_delivery:
  assumes "waiting p d" and "length body \<le> 128" and "list_all (\<lambda>c. fst c < d) chunks"
    and "cp_buffer p @ concat (map snd chunks) = encode_body body"
    and "length (cp_buffer p) < length (encode_body body)"
  shows "run_machine protocol_step p (ingests chunks) =
    (let r = accept_frame (p\<lparr>cp_buffer := []\<rparr>) (encode_body body) in (fst r, accepted (snd r)))"
  using assms
proof (induction chunks arbitrary: p)
  case (Cons c chunks)
  show ?case
  proof (cases "concat (map snd chunks) = []")
    case True
    from True Cons.prems(4) have all: "cp_buffer p @ snd c = encode_body body"
      by (metis append.right_neutral concat.simps(2) list.simps(9))
    define r where "r = accept_frame (p\<lparr>cp_buffer := []\<rparr>) (encode_body body)"
    have step: "protocol_step p (Op_Ingest (fst c) (snd c)) = (fst r, accepted (snd r))"
      using Cons.prems(1,3) receive_rest [OF Cons.prems(2) all]
      by (simp add: ingest_waiting r_def Let_def split_beta)
    have "list_all (\<lambda>c. fst c < d \<and> snd c = []) chunks"
      using Cons.prems(3) True by (auto simp: list_all_iff)
    moreover have "waiting (p\<lparr>cp_buffer := []\<rparr>) d" using Cons.prems(1) by simp
    ultimately have "run_machine protocol_step (fst r) (ingests chunks) = (fst r, [])"
      unfolding r_def by (intro trailing_empty_chunks accept_after) simp_all
    with step show ?thesis by (simp add: r_def [symmetric] Let_def)
  next
    case False
    define q where "q = p\<lparr>cp_buffer := cp_buffer p @ snd c\<rparr>"
    have part: "(cp_buffer p @ snd c) @ concat (map snd chunks) = encode_body body"
      using Cons.prems(4) by simp
    have "protocol_step p (Op_Ingest (fst c) (snd c)) = (q, [])"
      using Cons.prems(1,3) receive_part [OF Cons.prems(2) part False]
      by (simp add: ingest_waiting q_def)
    moreover have "length (cp_buffer q) < length (encode_body body)"
      using part_shorter [OF part False] by (simp add: q_def)
    ultimately show ?thesis
      using Cons.IH [of q] Cons.prems part by (simp add: q_def Let_def)
  qed
qed simp

text \<open>C33. How the bytes arrive does not matter: a frame read in any number of pieces, empty ones
  included, leaves the protocol in the same state and accepts the same acknowledgement as the whole
  frame read at once, as long as every read happens before the deadline.\<close>

theorem chunking_is_irrelevant:
  assumes "waiting p d" and "cp_buffer p = []" and "length body \<le> MAX_CHECKPOINT_FRAME_BYTES"
    and "concat (map snd chunks) = encode_body body"
    and "list_all (\<lambda>c. fst c < d) chunks" and "t < d"
  shows "run_machine protocol_step p (ingests chunks)
    = run_machine protocol_step p (ingests [(t, encode_body body)])"
proof -
  have "length (cp_buffer p) < length (encode_body body)"
    using assms(2) by (simp add: encode_body_def)
  then show ?thesis
    using assms chunked_delivery [of p d body chunks]
      chunked_delivery [of p d body "[(t, encode_body body)]"] by simp
qed

section \<open>At most one acknowledgement\<close>

definition ack_budget :: "checkpoint_protocol \<Rightarrow> nat" where
  "ack_budget p = (if cp_state p \<in> {Proto_Idle, Proto_RequestedUnverified} then 1 else 0)"

definition buffer_ok :: "checkpoint_protocol \<Rightarrow> bool" where
  "buffer_ok p \<longleftrightarrow> length (cp_buffer p) \<le> MAX_CHECKPOINT_FRAME_BYTES + FRAME_HEADER_BYTES"

lemma receive_frame_keeps:
  "receive_frame p chunk = (p', r) \<Longrightarrow> \<exists>b. p' = p\<lparr>cp_buffer := b\<rparr> \<and> length b \<le> 132"
  by (auto simp: receive_frame_def Let_def split: if_splits intro!: exI)

text \<open>An ingest accepts only what \<open>accept_frame\<close> does, and only while waiting before the deadline.\<close>

lemma ingest_cases:
  obtains (quiet) b st where "fst (ingest p t chunk) = p\<lparr>cp_buffer := b, cp_state := st\<rparr>"
      "st = cp_state p \<or> st = Proto_TimedOut" "length b \<le> 132 \<or> b = cp_buffer p"
      "accepted (snd (ingest p t chunk)) = []"
  | (accepts) a b where "cp_state p = Proto_RequestedUnverified"
      "\<forall>d. cp_deadline_at p = Some d \<longrightarrow> t < d"
      "ca_nonce a = cp_nonce p" "cp_active_request_id p = Some (ca_request_id a)" "length b \<le> 132"
      "fst (ingest p t chunk) = p\<lparr>cp_buffer := b, cp_active_request_id := None, cp_deadline_at := None,
         cp_state := state_after (ca_status a)\<rparr>"
      "accepted (snd (ingest p t chunk)) = [a]"
proof (cases "cp_state p = Proto_RequestedUnverified \<and> \<not> cp_endpoint_exited p
    \<and> (\<forall>d. cp_deadline_at p = Some d \<longrightarrow> t < d)")
  case False
  then have "fst (ingest p t chunk) \<in> {p, p\<lparr>cp_state := Proto_TimedOut, cp_buffer := []\<rparr>}
      \<and> accepted (snd (ingest p t chunk)) = []"
    by (auto simp: ingest_def split: option.splits)
  then show ?thesis
    using quiet [where b = "cp_buffer p" and st = "cp_state p"]
      quiet [where b = "[]" and st = Proto_TimedOut] by auto
next
  case True
  then have eq: "ingest p t chunk =
    (case receive_frame p chunk of
        (p, Inl rejection) \<Rightarrow> (p, poll_rejected rejection)
      | (p, Inr None) \<Rightarrow> (p, poll_pending)
      | (p, Inr (Some frame)) \<Rightarrow> accept_frame p frame)"
    by (auto simp: ingest_def split: option.splits)
  obtain q r where rf: "receive_frame p chunk = (q, r)" by force
  then obtain b where b: "q = p\<lparr>cp_buffer := b\<rparr>" "length b \<le> 132"
    using receive_frame_keeps by blast
  show ?thesis
  proof (cases "\<exists>frame. r = Ok (Some frame)")
    case False
    then have "fst (ingest p t chunk) = q" "accepted (snd (ingest p t chunk)) = []"
      by (auto simp: eq rf split: sum.splits option.splits)
    with b quiet [where b = b and st = "cp_state p"] show ?thesis by simp
  next
    case True
    then obtain frame where "r = Ok (Some frame)" by blast
    then have ing: "ingest p t chunk = accept_frame q frame" by (simp add: eq rf)
    show ?thesis
    proof (cases rule: accept_frame_cases [of q frame])
      case no
      with ing b quiet [where b = b and st = "cp_state p"] show ?thesis by simp
    next
      case (yes a)
      with ing b \<open>cp_state p = _ \<and> _\<close> accepts [where a = a and b = b] show ?thesis by simp
    qed
  qed
qed

lemma protocol_step_pays:
  "length (snd (protocol_step p x)) + ack_budget (fst (protocol_step p x)) \<le> ack_budget p"
proof (cases x)
  case (Op_Ingest t chunk)
  then show ?thesis
    by (cases rule: ingest_cases [of p t chunk])
      (auto simp: Let_def split_beta ack_budget_def)
qed (auto simp: begin_request_def ack_budget_def protocol_endpoint_exited_def protocol_cancel_def)

lemma protocol_step_buffer: "buffer_ok p \<Longrightarrow> buffer_ok (fst (protocol_step p x))"
proof (cases x)
  case (Op_Ingest t chunk)
  assume "buffer_ok p"
  with Op_Ingest show ?thesis
    by (cases rule: ingest_cases [of p t chunk]) (auto simp: Let_def split_beta buffer_ok_def)
qed (auto simp: begin_request_def buffer_ok_def protocol_endpoint_exited_def protocol_cancel_def)

interpretation protocol: budgeted_machine protocol_step buffer_ok "\<lambda>a. True" ack_budget
  by unfold_locales (metis protocol_step_buffer fst_conv, metis protocol_step_pays fst_conv snd_conv filter_True)

text \<open>The exchange is at most once and in bounded memory: in any sequence of requests, reads,
  endpoint exits and cancellations, a run accepts at most one acknowledgement and never buffers more
  than one maximal frame of 132 bytes.\<close>

theorem at_most_one_acknowledgement:
  "length (snd (run_machine protocol_step (protocol_new nonce) ops)) \<le> 1
   \<and> length (cp_buffer (fst (run_machine protocol_step (protocol_new nonce) ops))) \<le> 132"
proof -
  have "buffer_ok (protocol_new nonce)" by (simp add: buffer_ok_def protocol_new_def)
  moreover from this have "buffer_ok (fst (run_machine protocol_step (protocol_new nonce) ops))"
    by (metis protocol.inv_run prod.collapse)
  ultimately show ?thesis
    using protocol.run_within_budget [of "protocol_new nonce" ops]
    by (simp add: buffer_ok_def ack_budget_def protocol_new_def)
qed

section \<open>Only an authentic acknowledgement, in time\<close>

text \<open>What a protocol remembers about the one request that is open.\<close>

definition remembers :: "checkpoint_protocol \<Rightarrow> protocol_op list \<Rightarrow> bool" where
  "remembers p ops \<longleftrightarrow>
     (\<forall>rid. cp_active_request_id p = Some rid \<longrightarrow>
        (\<exists>requested d. Op_Begin rid requested d \<in> set ops \<and> requested < d \<and> cp_deadline_at p = Some d))"

lemma remembers_step:
  assumes "remembers p ops"
  shows "remembers (fst (protocol_step p x)) (ops @ [x])"
    and "cp_nonce (fst (protocol_step p x)) = cp_nonce p"
proof -
  show "remembers (fst (protocol_step p x)) (ops @ [x])"
  proof (cases x)
    case (Op_Ingest t chunk)
    with assms show ?thesis
      by (cases rule: ingest_cases [of p t chunk])
        (fastforce simp: Let_def split_beta remembers_def)+
  qed (use assms in \<open>fastforce simp: begin_request_def remembers_def protocol_endpoint_exited_def
         protocol_cancel_def\<close>)+
  show "cp_nonce (fst (protocol_step p x)) = cp_nonce p"
  proof (cases x)
    case (Op_Ingest t chunk)
    then show ?thesis
      by (cases rule: ingest_cases [of p t chunk]) (auto simp: Let_def split_beta)
  qed (auto simp: begin_request_def protocol_endpoint_exited_def protocol_cancel_def)
qed

lemma remembers_run:
  "remembers (fst (run_machine protocol_step (protocol_new nonce) ops)) ops
   \<and> cp_nonce (fst (run_machine protocol_step (protocol_new nonce) ops)) = nonce"
proof (induction ops rule: rev_induct)
  case Nil
  then show ?case by (simp add: remembers_def protocol_new_def)
next
  case (snoc x ops)
  then show ?case
    using remembers_step [of "fst (run_machine protocol_step (protocol_new nonce) ops)" ops x]
    by (simp add: run_machine_append Let_def split_beta)
qed

text \<open>C31. Whatever was accepted was asked for: an acknowledgement that the protocol accepts comes out
  of a read, carries this run's secret nonce and the identifier of a request that was begun earlier
  in the run, and was read before that request's deadline.\<close>

theorem accepted_is_authentic:
  "list_all (\<lambda>a. ca_nonce a = nonce \<and> (\<exists>t chunk requested d. x = Op_Ingest t chunk
      \<and> Op_Begin (ca_request_id a) requested d \<in> set ops \<and> t < d))
    (snd (protocol_step (fst (run_machine protocol_step (protocol_new nonce) ops)) x))"
proof -
  define p where "p = fst (run_machine protocol_step (protocol_new nonce) ops)"
  from remembers_run [of nonce ops] have rem: "remembers p ops" and non: "cp_nonce p = nonce"
    by (simp_all add: p_def)
  show ?thesis
  proof (cases x)
    case (Op_Ingest t chunk)
    then show ?thesis
      using rem non by (cases rule: ingest_cases [of p t chunk])
        (auto simp: remembers_def p_def [symmetric] Let_def split_beta)
  qed simp_all
qed

section \<open>Both ends agree\<close>

text \<open>A cooperative worker is understood. The frame that begins a request decodes, on the worker's
  side, to that request; and the acknowledgement the worker then builds for it, with any status and
  any artifact facts, is accepted at every instant before the deadline and moves the protocol to the
  state of that status.\<close>

theorem worker_and_supervisor_agree:
  assumes "begin_request p rid requested deadline = (p', Ok frame)"
    and "valid_nonce (cp_nonce p)" and "cp_buffer p = []" and "t < deadline"
  shows "\<exists>r. decode_request frame = Ok r \<and> cr_request_id r = rid \<and> cr_deadline_at r = deadline
    \<and> snd (ingest p' t (encode_acknowledgement (acknowledgement_for_request r status artifact)))
        = \<lparr>poll_acknowledgement = Some (acknowledgement_for_request r status artifact), poll_rejections = []\<rparr>
    \<and> cp_state (fst (ingest p' t (encode_acknowledgement (acknowledgement_for_request r status artifact))))
        = state_after status"
proof -
  define r where "r = \<lparr>cr_nonce = cp_nonce p, cr_request_id = rid, cr_deadline_at = deadline\<rparr>"
  define a where "a = acknowledgement_for_request r status artifact"
  from assms(1) have facts: "rid \<noteq> 0" "requested < deadline" "deadline < 2 ^ 64" "\<not> cp_endpoint_exited p"
    and frame: "frame = encode_request (cp_nonce p) rid (of_nat deadline)"
    and p': "p' = p\<lparr>cp_state := Proto_RequestedUnverified, cp_active_request_id := Some rid,
                    cp_deadline_at := Some deadline\<rparr>"
    by (auto simp: begin_request_def split: if_splits)
  have "valid_request r" using facts assms(2) by (simp add: valid_request_def r_def)
  then have dec: "decode_request frame = Ok r"
    by (simp add: request_iff frame request_frame_def r_def)
  have "valid_acknowledgement a"
    using facts assms(2) by (simp add: valid_acknowledgement_def a_def acknowledgement_for_request_def r_def)
  then have adec: "decode_acknowledgement (encode_acknowledgement a) = Ok a"
    by (simp add: acknowledgement_iff)
  obtain body where body: "encode_acknowledgement a = encode_body body" "length body \<le> 128"
    using adec exact_body_iff [of 57]
    by (auto simp: decode_acknowledgement_def Let_def split: sum.splits if_splits)
  have w: "waiting p' deadline" and buf: "cp_buffer p' = []" using facts assms(3) by (simp_all add: waiting_def p')
  have "ingest p' t (encode_acknowledgement a) = accept_frame (p'\<lparr>cp_buffer := []\<rparr>) (encode_acknowledgement a)"
    using ingest_waiting [OF w assms(4)] receive_rest [OF body(2), of p' "encode_acknowledgement a"] buf body(1)
    by simp
  also have "\<dots> = (p'\<lparr>cp_buffer := [], cp_active_request_id := None, cp_deadline_at := None,
      cp_state := state_after status\<rparr>, \<lparr>poll_acknowledgement = Some a, poll_rejections = []\<rparr>)"
    using adec by (simp add: accept_frame_def p' a_def acknowledgement_for_request_def r_def)
  finally show ?thesis using dec by (intro exI [of _ r]) (simp add: a_def r_def)
qed

section \<open>Witnesses\<close>

definition demo_nonce :: checkpoint_nonce where "demo_nonce = Nonce (replicate 32 7)"

lemma demo_nonce [simp]: "valid_nonce demo_nonce"
  by (simp add: valid_nonce_def demo_nonce_def)

definition demo_waiting :: checkpoint_protocol where
  "demo_waiting = fst (begin_request (protocol_new demo_nonce) 1 10 20)"

lemma demo_begin:
  "begin_request (protocol_new demo_nonce) 1 10 20 = (demo_waiting, Ok (encode_request demo_nonce 1 20))"
  by (simp add: demo_waiting_def begin_request_def protocol_new_def)

lemma demo_waiting [simp]: "waiting demo_waiting 20" "cp_buffer demo_waiting = []"
  by (simp_all add: demo_waiting_def begin_request_def protocol_new_def waiting_def)

theorem chunking_is_irrelevant_witness:
  "run_machine protocol_step demo_waiting (ingests [(11, [0, 0]), (12, [0, 1, 9])])
    = run_machine protocol_step demo_waiting (ingests [(13, encode_body [9])])"
proof (rule chunking_is_irrelevant [where d = 20])
  have "be_bytes 4 1 = [0, 0, 0, 1]" by code_simp
  then show "concat (map snd [(11, [0, 0]), (12, [0, 1, 9])]) = encode_body [9]"
    by (simp add: encode_body_def)
qed simp_all

theorem worker_and_supervisor_agree_witness:
  "\<exists>r. decode_request (encode_request demo_nonce 1 20) = Ok r \<and> cr_request_id r = 1
    \<and> cp_state (fst (ingest demo_waiting 15 (encode_acknowledgement (acknowledgement_for_request r WS_Completed None))))
        = Proto_AcknowledgedUnverifiedDurability"
  using worker_and_supervisor_agree [OF demo_begin, of 15 WS_Completed None]
  by (force simp: protocol_new_def)

end
