(* ===== verification/Text.thy ===== *)
theory Text
  imports Prelude
begin

text \<open>
  Strings as the code handles them: a \<open>String\<close> is its UTF-8 bytes, one HOL character per byte, so
  \<open>len\<close> is the length of the list, and the ASCII tests and searches of the code are tests on
  characters. \<open>str::from_utf8\<close> and \<open>Path::file_name\<close> are modelled as far as the code uses them.
\<close>

abbreviation byte_of :: "char \<Rightarrow> nat" where "byte_of c \<equiv> of_char c"

definition ascii_digit :: "char \<Rightarrow> bool" where
  "ascii_digit c \<longleftrightarrow> 48 \<le> byte_of c \<and> byte_of c \<le> 57"

definition lower_hex :: "char \<Rightarrow> bool" where
  "lower_hex c \<longleftrightarrow> ascii_digit c \<or> 97 \<le> byte_of c \<and> byte_of c \<le> 102"

definition ascii_alphanumeric :: "char \<Rightarrow> bool" where
  "ascii_alphanumeric c \<longleftrightarrow> ascii_digit c \<or> 65 \<le> byte_of c \<and> byte_of c \<le> 90
     \<or> 97 \<le> byte_of c \<and> byte_of c \<le> 122"

text \<open>\<open>strip_prefix\<close>.\<close>

definition strip_prefix :: "string \<Rightarrow> string \<Rightarrow> string option" where
  "strip_prefix p s = (if take (length p) s = p then Some (drop (length p) s) else None)"

lemma strip_prefix_Some: "strip_prefix p s = Some r \<longleftrightarrow> s = p @ r"
  by (auto simp: strip_prefix_def) (metis append_take_drop_id)

text \<open>\<open>split(c)\<close>: the maximal runs without the separator, empty ones included.\<close>

fun split_on :: "char \<Rightarrow> string \<Rightarrow> string list" where
  "split_on c [] = [[]]"
| "split_on c (x # xs) =
     (if x = c then [] # split_on c xs
      else case split_on c xs of [] \<Rightarrow> [[x]] | s # ss \<Rightarrow> (x # s) # ss)"

lemma split_on_not_Nil [simp]: "split_on c s \<noteq> []"
  by (induction s) (auto split: list.splits)

lemma split_on_free: "part \<in> set (split_on c s) \<Longrightarrow> c \<notin> set part"
  by (induction s arbitrary: part) (auto split: if_splits list.splits)

text \<open>
  \<open>Path::file_name\<close>: the last component when it is a normal one. Repeated separators and \<open>.\<close>
  components do not count; a path that ends in \<open>..\<close> or has no normal component has no file name.
\<close>

definition file_name :: "string \<Rightarrow> string option" where
  "file_name path =
     (let components = filter (\<lambda>p. p \<noteq> [] \<and> p \<noteq> ''.'') (split_on CHR ''/'' path)
      in if components = [] \<or> last components = ''..'' then None else Some (last components))"

lemma file_name_Some:
  assumes "file_name path = Some name"
  shows "name \<noteq> []" "name \<noteq> ''.''" "name \<noteq> ''..''" "CHR ''/'' \<notin> set name"
proof -
  define components where "components = filter (\<lambda>p. p \<noteq> [] \<and> p \<noteq> ''.'') (split_on CHR ''/'' path)"
  from assms have name: "components \<noteq> []" "name = last components" "name \<noteq> ''..''"
    by (auto simp: file_name_def components_def [symmetric] Let_def split: if_splits)
  then have "name \<in> set components" by simp
  then show "name \<noteq> []" "name \<noteq> ''.''" "name \<noteq> ''..''" "CHR ''/'' \<notin> set name"
    using name(3) by (auto simp: components_def dest: split_on_free)
qed

text \<open>Well-formed UTF-8, by the table of the Unicode standard.\<close>

definition continuation :: "char \<Rightarrow> bool" where
  "continuation c \<longleftrightarrow> 128 \<le> byte_of c \<and> byte_of c \<le> 191"

definition between :: "nat \<Rightarrow> nat \<Rightarrow> char \<Rightarrow> bool" where
  "between a b c \<longleftrightarrow> a \<le> byte_of c \<and> byte_of c \<le> b"

function valid_utf8 :: "string \<Rightarrow> bool" where
  "valid_utf8 [] = True"
| "valid_utf8 (a # s) =
     (if byte_of a < 128 then valid_utf8 s
      else case s of
        [] \<Rightarrow> False
      | b # s1 \<Rightarrow>
          (if between 194 223 a then continuation b \<and> valid_utf8 s1
           else case s1 of
             [] \<Rightarrow> False
           | c # s2 \<Rightarrow>
               (if between 224 239 a
                then between (if byte_of a = 224 then 160 else 128) (if byte_of a = 237 then 159 else 191) b
                   \<and> continuation c \<and> valid_utf8 s2
                else case s2 of
                  [] \<Rightarrow> False
                | d # s3 \<Rightarrow>
                    between 240 244 a
                  \<and> between (if byte_of a = 240 then 144 else 128) (if byte_of a = 244 then 143 else 191) b
                  \<and> continuation c \<and> continuation d \<and> valid_utf8 s3)))"
  by pat_completeness auto
termination by (relation "measure length") auto

end
