(* ===== verification/Report.thy ===== *)
theory Report
  imports Policy Text
begin

text \<open>
  \<^verbatim>\<open>mlx-guard-core/src/report.rs\<close>: the schema-v1 report, the calibration artifact and their
  validation. The JSON text is produced and read by a library of the program and is a parameter of
  \<open>to_json_pretty\<close> and \<open>from_json\<close>. \<open>i64\<close> values are integers.
\<close>

type_synonym i64 = int

section \<open>Observations\<close>

datatype unavailable_reason = NotSupported | NotNegotiated | NotApplicable | NonUtf8

datatype observation_error =
    Obs_PermissionDenied
  | Obs_ProcessMissing
  | Obs_MalformedKernelData
  | Obs_ClockAnomaly
  | Obs_Internal

datatype 'a observed =
    Available 'a
  | Unknown
  | Unavailable unavailable_reason
  | Stale u64
  | ObsError observation_error

section \<open>Calibration\<close>

definition REPORT_SCHEMA_VERSION :: u32 where "REPORT_SCHEMA_VERSION = 1"
definition CALIBRATION_SCHEMA_VERSION :: u32 where "CALIBRATION_SCHEMA_VERSION = 1"

datatype calibration_guidance = ChooseExplicitLimitFromRepeatedRepresentativeRuns

record calibration_artifact =
  cal_schema_version :: u32
  cal_observation_only :: bool
  cal_safety_certified :: bool
  cal_total_samples :: u64
  cal_complete_samples :: u64
  cal_incomplete_samples :: u64
  cal_observed_duration_ms :: u64
  cal_peak_aggregate_footprint_bytes :: "u64 observed"
  cal_peak_growth_bytes_per_second :: "i64 observed"
  cal_automatic_limit_bytes :: "u64 option"
  cal_guidance :: calibration_guidance

datatype 'e calibration_error = InvalidArtifact | CalibrationJson 'e

definition calibration_valid :: "calibration_artifact \<Rightarrow> bool" where
  "calibration_valid c \<longleftrightarrow>
     (let counters_match =
            (checked_add (cal_complete_samples c) (cal_incomplete_samples c) = Some (cal_total_samples c));
          footprint_matches =
            (case cal_peak_aggregate_footprint_bytes c of
               Unknown \<Rightarrow> cal_complete_samples c = 0
             | Available _ \<Rightarrow> 1 \<le> cal_complete_samples c
             | _ \<Rightarrow> False);
          growth_matches =
            (case cal_peak_growth_bytes_per_second c of Available v \<Rightarrow> 0 < v | _ \<Rightarrow> True)
      in \<not> (cal_schema_version c \<noteq> CALIBRATION_SCHEMA_VERSION
             \<or> \<not> cal_observation_only c
             \<or> cal_safety_certified c
             \<or> cal_automatic_limit_bytes c \<noteq> None
             \<or> \<not> counters_match \<or> \<not> footprint_matches \<or> \<not> growth_matches))"

definition calibration_to_json ::
    "(calibration_artifact \<Rightarrow> 'e + string) \<Rightarrow> calibration_artifact \<Rightarrow> 'e calibration_error + string" where
  "calibration_to_json to_string c =
     (if \<not> calibration_valid c then Err InvalidArtifact
      else case to_string c of
        Inl e \<Rightarrow> Err (CalibrationJson e)
      | Inr s \<Rightarrow> Ok (s @ [CHR 0x0A]))"

definition calibration_from_json ::
    "(string \<Rightarrow> 'e + calibration_artifact) \<Rightarrow> string \<Rightarrow> 'e calibration_error + calibration_artifact" where
  "calibration_from_json from_str s =
     (case from_str s of
        Inl e \<Rightarrow> Err (CalibrationJson e)
      | Inr c \<Rightarrow> (if calibration_valid c then Ok c else Err InvalidArtifact))"

section \<open>Identity of a run\<close>

record run_identity =
  ri_run_id :: string
  ri_executable_basename :: string
  ri_argument_count :: u32
  ri_correlation_hash :: "string option"

datatype 'e report_error =
    InvalidIdentity
  | UnsupportedSchema
  | InvalidPackageVersion
  | ReportInvalidConfiguration
  | InvalidPrivacy
  | InvalidEventOrder
  | InvalidAdvisoryMetrics
  | InvalidCalibration
  | ReportJson 'e

definition valid_correlation_hash :: "string \<Rightarrow> bool" where
  "valid_correlation_hash value =
     (case strip_prefix ''sha256:'' value of
        None \<Rightarrow> False
      | Some digest \<Rightarrow> length digest = 64 \<and> list_all lower_hex digest)"

definition valid_package_version :: "string \<Rightarrow> bool" where
  "valid_package_version value =
     (let core = takeWhile (\<lambda>c. c \<noteq> CHR ''-'' \<and> c \<noteq> CHR ''+'') value;
          parts = split_on CHR ''.'' core;
          numbers_valid = (length parts = 3
            \<and> list_all (\<lambda>part. part \<noteq> [] \<and> list_all ascii_digit part) parts)
      in numbers_valid
       \<and> length value \<le> 64
       \<and> list_all (\<lambda>c. ascii_alphanumeric c \<or> c = CHR ''.'' \<or> c = CHR ''-'' \<or> c = CHR ''+'') value)"

definition valid_run_id :: "string \<Rightarrow> bool" where
  "valid_run_id run_id =
     (case strip_prefix ''run_'' run_id of
        None \<Rightarrow> False
      | Some suffix \<Rightarrow> length suffix = 32 \<and> list_all lower_hex suffix)"

definition identity_valid :: "run_identity \<Rightarrow> bool" where
  "identity_valid r \<longleftrightarrow>
     \<not> (\<not> valid_run_id (ri_run_id r)
        \<or> ri_executable_basename r = []
        \<or> 255 < length (ri_executable_basename r)
        \<or> ri_executable_basename r = ''.'' \<or> ri_executable_basename r = ''..''
        \<or> CHR ''/'' \<in> set (ri_executable_basename r) \<or> CHR 0x5C \<in> set (ri_executable_basename r)
        \<or> (case ri_correlation_hash r of None \<Rightarrow> False | Some h \<Rightarrow> \<not> valid_correlation_hash h))"

definition from_argv ::
    "string \<Rightarrow> string list \<Rightarrow> string option \<Rightarrow> 'e report_error + run_identity" where
  "from_argv run_id argv correlation_hash =
     (case argv of
        [] \<Rightarrow> Err InvalidIdentity
      | executable # _ \<Rightarrow>
          (case file_name executable of
             None \<Rightarrow> Err InvalidIdentity
           | Some name \<Rightarrow>
               (let basename = (if valid_utf8 name then name else ''<non-utf8>'')
                in if 2 ^ 32 \<le> length argv - 1 then Err InvalidIdentity
                   else
                     let identity = \<lparr>ri_run_id = run_id, ri_executable_basename = basename,
                           ri_argument_count = of_nat (length argv - 1),
                           ri_correlation_hash = correlation_hash\<rparr>
                     in if identity_valid identity then Ok identity else Err InvalidIdentity)))"

section \<open>Configuration\<close>

record capabilities =
  cap_darwin_footprint :: "bool observed"
  cap_owned_process_group :: "bool observed"
  cap_checkpoint_channel :: "bool observed"

datatype report_mode = ReportObserve | ReportEnforce
datatype on_parent_exit = OnParent_Terminate | OnParent_Detach
datatype parent_watch =
    Watch_Active
  | Watch_ParentIsLaunchd
  | Watch_HangupIgnored
  | Watch_Detach
  | Watch_ParentUnobservable

record report_configuration =
  rc_mode :: report_mode
  rc_max_footprint_bytes :: "u64 option"
  rc_warning_footprint_bytes :: "u64 option"
  rc_recovery_footprint_bytes :: "u64 option"
  rc_emergency_footprint_bytes :: "u64 option"
  rc_required_breach_samples :: u32
  rc_max_missing_samples :: u32
  rc_wall_time_ms :: "u64 option"
  rc_sample_interval_ms :: u64
  rc_max_sample_age_ms :: u64
  rc_max_sample_window_ms :: u64
  rc_checkpoint_timeout_ms :: "u64 option"
  rc_term_grace_ms :: u64
  rc_on_parent_exit :: "on_parent_exit option"
  rc_parent_watch :: "parent_watch option"

section \<open>Advisory values and events\<close>

datatype advisory_scope = Scope_System | Scope_OwnedProcessGroup
datatype advisory_source =
    Source_DispatchMemoryPressure
  | Source_SysctlVmSwapusage
  | Source_HostStatistics64
  | Source_DerivedFootprintSamples
datatype advisory_freshness = Fresh | InitialUnknown | Fresh_Stale | Fresh_Unavailable
datatype memory_pressure_level = Pressure_Normal | Pressure_Warning | Pressure_Critical

record advisory_metric_metadata =
  md_scope :: advisory_scope
  md_source :: advisory_source
  md_captured_at_ms :: u64
  md_freshness :: advisory_freshness

record advisory_metadata =
  ad_pressure_events :: advisory_metric_metadata
  ad_pressure_level :: advisory_metric_metadata
  ad_swap_bytes :: advisory_metric_metadata
  ad_compressor_bytes :: advisory_metric_metadata
  ad_wired_bytes :: advisory_metric_metadata
  ad_growth_bytes_per_second :: advisory_metric_metadata

record advisory_metrics =
  am_pressure_events :: "u64 observed"
  am_swap_bytes :: "u64 observed"
  am_compressor_bytes :: "u64 observed"
  am_wired_bytes :: "u64 observed"
  am_growth_bytes_per_second :: "i64 observed"
  am_pressure_level :: "memory_pressure_level observed option"
  am_metadata :: "advisory_metadata option"

record sample_window =
  sw_captured_at_ms :: u64
  sw_processed_at_ms :: u64
  sw_window_ms :: u64
  sw_aggregate_footprint_bytes :: "u64 observed"
  sw_advisory :: advisory_metrics

record transition_record =
  tr_at_ms :: u64
  tr_from :: policy_state
  tr_to :: policy_state
  tr_aggregate_footprint_bytes :: "u64 option"

datatype signal_target = Target_OwnedProcessGroup | Target_CooperativeEndpoint
datatype signal_result = Sig_Delivered | Sig_ProcessMissing | Sig_PermissionDenied | Sig_Failed
datatype signal_reason =
    Reason_Footprint
  | Reason_WallTime
  | Reason_ExternalSignal
  | Reason_RootExitCleanup
  | Reason_ParentExit
  | Reason_ObservationFailure
  | Reason_SupervisorFault

record signal_record =
  sr_at_ms :: u64
  sr_signal :: u8
  sr_target :: signal_target
  sr_result :: signal_result
  sr_reason :: "signal_reason option"

datatype checkpoint_status =
    Status_NotNegotiated
  | Status_RequestedUnverified
  | Status_AcknowledgedUnverifiedDurability
  | Status_TimedOut
  | Status_Cancelled

datatype artifact_kind = Artifact_File | Artifact_Directory | Artifact_Opaque

record checkpoint_artifact_record =
  car_kind :: artifact_kind
  car_size_bytes :: "u64 option"

record checkpoint_record =
  ck_status :: checkpoint_status
  ck_at_ms :: "u64 option"
  ck_request_id :: "u64 option"
  ck_reason :: "signal_reason option"
  ck_artifact :: "checkpoint_artifact_record option"

record escape_evidence =
  ee_detected :: "bool observed"
  ee_escaped_count :: "u64 option"

datatype artifact_error_code =
    Artifact_CreateFailed
  | Artifact_WriteFailed
  | Artifact_SyncFailed
  | Artifact_RenameFailed
  | Artifact_PermissionFailed

record artifact_error_record =
  ae_at_ms :: u64
  ae_code :: artifact_error_code

datatype terminal_kind =
    Kind_ChildExited u8
  | Kind_ChildSignaled u8
  | Kind_LaunchNotFound
  | Kind_LaunchNotExecutable
  | Kind_InvalidConfiguration
  | Kind_PolicyIntervention
  | Kind_SupervisorFailure
  | Kind_PartialArtifactFailure

datatype child_status = Child_Exited u8 | Child_Signaled u8

record terminal_outcome =
  to_at_ms :: u64
  to_kind :: terminal_kind
  to_final_footprint_bytes :: "u64 observed"
  to_child_status :: "child_status option"
  to_owned_group_survivors :: "bool option"
  to_parent_exited_at_ms :: "u64 option"

datatype upload_policy = UploadDisabled
datatype retention_policy = UserManaged
datatype capture_policy = RedactedMetadataOnly | RedactedMetadataWithCorrelationHash

record privacy_defaults =
  pd_redacted_before_persistence :: bool
  pd_file_mode :: string
  pd_upload :: upload_policy
  pd_retention :: retention_policy
  pd_capture :: capture_policy

definition privacy_default :: privacy_defaults where
  "privacy_default =
    \<lparr>pd_redacted_before_persistence = True, pd_file_mode = ''0600'', pd_upload = UploadDisabled,
     pd_retention = UserManaged, pd_capture = RedactedMetadataOnly\<rparr>"

record report_v1 =
  rep_schema_version :: u32
  rep_package_version :: string
  rep_run :: run_identity
  rep_capabilities :: capabilities
  rep_configuration :: report_configuration
  rep_samples :: "sample_window list"
  rep_transitions :: "transition_record list"
  rep_signals :: "signal_record list"
  rep_checkpoint :: checkpoint_record
  rep_escape :: escape_evidence
  rep_artifact_errors :: "artifact_error_record list"
  rep_outcome :: terminal_outcome
  rep_calibration :: "calibration_artifact option"
  rep_privacy :: privacy_defaults

section \<open>Validation\<close>

definition configuration_valid :: "report_v1 \<Rightarrow> bool" where
  "configuration_valid r \<longleftrightarrow>
     (let c = rep_configuration r;
          basic_values_valid =
            (0 < rc_sample_interval_ms c \<and> 0 < rc_required_breach_samples c
             \<and> 0 < rc_max_missing_samples c \<and> 0 < rc_max_sample_age_ms c
             \<and> 0 < rc_max_sample_window_ms c \<and> 0 < rc_term_grace_ms c
             \<and> (case rc_checkpoint_timeout_ms c of None \<Rightarrow> True | Some v \<Rightarrow> 0 < v)
             \<and> (case rc_wall_time_ms c of None \<Rightarrow> True | Some v \<Rightarrow> 0 < v));
          mode_valid =
            (case rc_mode c of
               ReportObserve \<Rightarrow>
                 rc_max_footprint_bytes c = None \<and> rc_warning_footprint_bytes c = None
                 \<and> rc_recovery_footprint_bytes c = None \<and> rc_emergency_footprint_bytes c = None
                 \<and> rc_wall_time_ms c = None \<and> rc_checkpoint_timeout_ms c = None
             | ReportEnforce \<Rightarrow>
                 (case (rc_recovery_footprint_bytes c, rc_warning_footprint_bytes c,
                        rc_max_footprint_bytes c, rc_emergency_footprint_bytes c) of
                    (Some recovery, Some warning, Some limit, Some emergency) \<Rightarrow>
                      recovery < warning \<and> warning < limit \<and> limit < emergency
                  | _ \<Rightarrow> False));
          parent_watch_agrees_with_option =
            (rc_parent_watch c \<noteq> Some Watch_Detach \<or> rc_on_parent_exit c = Some OnParent_Detach);
          detach_option_agrees_with_watch =
            (rc_on_parent_exit c \<noteq> Some OnParent_Detach
             \<or> rc_parent_watch c = Some Watch_Detach
             \<or> rc_parent_watch c = Some Watch_ParentUnobservable);
          parent_exit_evidence_has_a_watch =
            (to_parent_exited_at_ms (rep_outcome r) = None
             \<or> rc_parent_watch c = Some Watch_Active \<or> rc_parent_watch c = Some Watch_Detach)
      in basic_values_valid \<and> mode_valid \<and> parent_watch_agrees_with_option
       \<and> detach_option_agrees_with_watch \<and> parent_exit_evidence_has_a_watch)"

definition privacy_valid :: "report_v1 \<Rightarrow> bool" where
  "privacy_valid r \<longleftrightarrow>
     (let p = rep_privacy r in
      \<not> (\<not> pd_redacted_before_persistence p
         \<or> pd_file_mode p \<noteq> ''0600''
         \<or> pd_upload p \<noteq> UploadDisabled
         \<or> pd_retention p \<noteq> UserManaged
         \<or> pd_capture p \<noteq> (if ri_correlation_hash (rep_run r) \<noteq> None
                             then RedactedMetadataWithCorrelationHash else RedactedMetadataOnly)))"

fun freshness_for :: "'a observed \<Rightarrow> advisory_freshness" where
  "freshness_for (Available _) = Fresh"
| "freshness_for Unknown = InitialUnknown"
| "freshness_for (Stale _) = Fresh_Stale"
| "freshness_for (Unavailable _) = Fresh_Unavailable"
| "freshness_for (ObsError _) = Fresh_Unavailable"

definition metadata_matches ::
    "u64 \<Rightarrow> advisory_metric_metadata \<Rightarrow> advisory_scope \<Rightarrow> advisory_source \<Rightarrow> advisory_freshness
     \<Rightarrow> bool" where
  "metadata_matches processed_at_ms metadata scope source fresh \<longleftrightarrow>
     md_scope metadata = scope \<and> md_source metadata = source \<and> md_freshness metadata = fresh
   \<and> md_captured_at_ms metadata \<le> processed_at_ms"

definition valid_advisory_metrics :: "sample_window \<Rightarrow> bool" where
  "valid_advisory_metrics sample \<longleftrightarrow>
     (let a = sw_advisory sample; t = sw_processed_at_ms sample in
      case (am_pressure_level a, am_metadata a) of
        (Some pressure_level, Some m) \<Rightarrow>
          metadata_matches t (ad_pressure_events m) Scope_System Source_DispatchMemoryPressure
            (freshness_for (am_pressure_events a))
        \<and> metadata_matches t (ad_pressure_level m) Scope_System Source_DispatchMemoryPressure
            (freshness_for pressure_level)
        \<and> metadata_matches t (ad_swap_bytes m) Scope_System Source_SysctlVmSwapusage
            (freshness_for (am_swap_bytes a))
        \<and> metadata_matches t (ad_compressor_bytes m) Scope_System Source_HostStatistics64
            (freshness_for (am_compressor_bytes a))
        \<and> metadata_matches t (ad_wired_bytes m) Scope_System Source_HostStatistics64
            (freshness_for (am_wired_bytes a))
        \<and> metadata_matches t (ad_growth_bytes_per_second m) Scope_OwnedProcessGroup
            Source_DerivedFootprintSamples (freshness_for (am_growth_bytes_per_second a))
      | _ \<Rightarrow> am_pressure_level a = None \<and> am_metadata a = None)"

definition ordered_by :: "('a \<Rightarrow> u64) \<Rightarrow> 'a list \<Rightarrow> bool" where
  "ordered_by timestamp items = windows2 (\<lambda>a b. timestamp a \<le> timestamp b) items"

definition signal_in_range :: "u8 \<Rightarrow> bool" where
  "signal_in_range n \<longleftrightarrow> 1 \<le> n \<and> n \<le> 127"

definition samples_ordered :: "sample_window list \<Rightarrow> bool" where
  "samples_ordered samples \<longleftrightarrow>
     windows2 (\<lambda>a b. sw_processed_at_ms a \<le> sw_processed_at_ms b
       \<and> sw_captured_at_ms a \<le> sw_processed_at_ms a \<and> 0 < sw_window_ms a) samples
   \<and> (samples = [] \<or> sw_captured_at_ms (last samples) \<le> sw_processed_at_ms (last samples)
        \<and> 0 < sw_window_ms (last samples))"

definition checkpoint_record_valid :: "checkpoint_record \<Rightarrow> bool" where
  "checkpoint_record_valid c \<longleftrightarrow>
     (case ck_status c of Status_NotNegotiated \<Rightarrow> ck_at_ms c = None | _ \<Rightarrow> ck_at_ms c \<noteq> None)
   \<and> (case ck_request_id c of None \<Rightarrow> True | Some rid \<Rightarrow> rid \<noteq> 0)
   \<and> (case ck_request_id c of None \<Rightarrow> True | Some _ \<Rightarrow>
        ck_status c \<in> {Status_RequestedUnverified, Status_AcknowledgedUnverifiedDurability, Status_TimedOut})
   \<and> (ck_artifact c = None \<or> ck_status c = Status_AcknowledgedUnverifiedDurability)
   \<and> (case ck_reason c of None \<Rightarrow> True | Some reason \<Rightarrow> reason \<in> {Reason_Footprint, Reason_WallTime})"

definition outcome_valid :: "terminal_outcome \<Rightarrow> bool" where
  "outcome_valid t \<longleftrightarrow>
     (case to_kind t of Kind_ChildSignaled signal \<Rightarrow> signal_in_range signal | _ \<Rightarrow> True)
   \<and> (case to_child_status t of Some (Child_Signaled signal) \<Rightarrow> signal_in_range signal | _ \<Rightarrow> True)
   \<and> (case (to_kind t, to_child_status t) of
        (Kind_ChildExited code, Some status) \<Rightarrow> status = Child_Exited code
      | (Kind_ChildSignaled signal, Some status) \<Rightarrow> status = Child_Signaled signal
      | _ \<Rightarrow> True)
   \<and> (case to_parent_exited_at_ms t of None \<Rightarrow> True | Some at_ms \<Rightarrow> at_ms \<le> to_at_ms t)"

definition escape_valid :: "escape_evidence \<Rightarrow> bool" where
  "escape_valid e \<longleftrightarrow>
     (case ee_escaped_count e of None \<Rightarrow> True | Some n \<Rightarrow> 0 < n \<and> ee_detected e = Available True)"

definition event_times :: "report_v1 \<Rightarrow> u64 list" where
  "event_times r =
     map sw_processed_at_ms (rep_samples r) @ map tr_at_ms (rep_transitions r)
     @ map sr_at_ms (rep_signals r) @ map ae_at_ms (rep_artifact_errors r)
     @ (case ck_at_ms (rep_checkpoint r) of None \<Rightarrow> [] | Some t \<Rightarrow> [t])"

definition last_event :: "report_v1 \<Rightarrow> u64" where
  "last_event r = foldr max (event_times r) 0"

definition validate_events :: "report_v1 \<Rightarrow> 'e report_error + unit" where
  "validate_events r =
     (if \<not> list_all valid_advisory_metrics (rep_samples r) then Err InvalidAdvisoryMetrics
      else if \<not> samples_ordered (rep_samples r)
         \<or> \<not> (ordered_by tr_at_ms (rep_transitions r)
               \<and> list_all (\<lambda>t. tr_from t \<noteq> tr_to t) (rep_transitions r))
         \<or> \<not> (ordered_by sr_at_ms (rep_signals r)
               \<and> list_all (\<lambda>s. signal_in_range (sr_signal s)) (rep_signals r))
         \<or> \<not> ordered_by ae_at_ms (rep_artifact_errors r)
         \<or> \<not> checkpoint_record_valid (rep_checkpoint r)
         \<or> \<not> outcome_valid (rep_outcome r)
         \<or> \<not> escape_valid (rep_escape r)
         \<or> to_at_ms (rep_outcome r) < last_event r
      then Err InvalidEventOrder
      else Ok ())"

definition validate_calibration :: "report_v1 \<Rightarrow> 'e report_error + unit" where
  "validate_calibration r =
     (case rep_calibration r of
        None \<Rightarrow> Ok ()
      | Some calibration \<Rightarrow>
          (if rc_mode (rep_configuration r) \<noteq> ReportObserve then Err InvalidCalibration
           else if calibration_valid calibration then Ok () else Err InvalidCalibration))"

definition validate :: "report_v1 \<Rightarrow> 'e report_error + unit" where
  "validate r =
     (if rep_schema_version r \<noteq> REPORT_SCHEMA_VERSION then Err UnsupportedSchema
      else if \<not> valid_package_version (rep_package_version r) then Err InvalidPackageVersion
      else if \<not> identity_valid (rep_run r) then Err InvalidIdentity
      else if \<not> configuration_valid r then Err ReportInvalidConfiguration
      else if \<not> privacy_valid r then Err InvalidPrivacy
      else case validate_events r of
        Inl e \<Rightarrow> Err e
      | Inr _ \<Rightarrow> validate_calibration r)"

definition report_to_json :: "(report_v1 \<Rightarrow> 'e + string) \<Rightarrow> report_v1 \<Rightarrow> 'e report_error + string" where
  "report_to_json to_string r =
     (case validate r of
        Inl e \<Rightarrow> Err e
      | Inr _ \<Rightarrow> (case to_string r of Inl e \<Rightarrow> Err (ReportJson e) | Inr s \<Rightarrow> Ok (s @ [CHR 0x0A])))"

definition report_from_json :: "(string \<Rightarrow> 'e + report_v1) \<Rightarrow> string \<Rightarrow> 'e report_error + report_v1" where
  "report_from_json from_str s =
     (case from_str s of
        Inl e \<Rightarrow> Err (ReportJson e)
      | Inr r \<Rightarrow> (case validate r of Inl e \<Rightarrow> Err e | Inr _ \<Rightarrow> Ok r))"

end
