(* ===== verification/Report_Props.thy ===== *)
theory Report_Props
  imports Report
begin

text \<open>
  What a validated report guarantees to its reader, what a run identity reveals, and the round trip
  through the JSON library.
\<close>

section \<open>Event order\<close>

lemma ordered_by_sorted: "ordered_by f xs \<longleftrightarrow> sorted (map f xs)"
  by (simp add: ordered_by_def windows2_sorted_map)

lemma samples_ordered_windows:
  "samples_ordered ss \<longleftrightarrow> windows2 (\<lambda>a b. sw_processed_at_ms a \<le> sw_processed_at_ms b) ss
     \<and> list_all (\<lambda>s. sw_captured_at_ms s \<le> sw_processed_at_ms s \<and> 0 < sw_window_ms s) ss"
  by (induction ss rule: induct_list012) (auto simp: samples_ordered_def)

lemmas samples_ordered_iff = samples_ordered_windows [unfolded windows2_sorted_map]

lemma foldr_max_less: "t < foldr max xs (0 :: u64) \<longleftrightarrow> \<not> list_all (\<lambda>x. x \<le> t) xs"
  by (induction xs) (auto simp: max_def)

lemma validate_events_Ok_iff:
  "validate_events r = Ok () \<longleftrightarrow>
     list_all valid_advisory_metrics (rep_samples r)
   \<and> sorted (map sw_processed_at_ms (rep_samples r))
   \<and> list_all (\<lambda>s. sw_captured_at_ms s \<le> sw_processed_at_ms s \<and> 0 < sw_window_ms s) (rep_samples r)
   \<and> sorted (map tr_at_ms (rep_transitions r))
   \<and> list_all (\<lambda>t. tr_from t \<noteq> tr_to t) (rep_transitions r)
   \<and> sorted (map sr_at_ms (rep_signals r))
   \<and> list_all (\<lambda>s. signal_in_range (sr_signal s)) (rep_signals r)
   \<and> sorted (map ae_at_ms (rep_artifact_errors r))
   \<and> checkpoint_record_valid (rep_checkpoint r)
   \<and> outcome_valid (rep_outcome r)
   \<and> escape_valid (rep_escape r)
   \<and> list_all (\<lambda>t. t \<le> to_at_ms (rep_outcome r)) (event_times r)"
  by (auto simp: validate_events_def samples_ordered_iff ordered_by_sorted last_event_def
      foldr_max_less)

text \<open>The event checks of the writer and the reader mean what they are for: they pass if and only
  if the advisory metadata is consistent, every kind of event is in time order, every sample was
  captured no later than processed over a positive window, every recorded signal is a real one, the
  checkpoint, outcome and escape evidence is coherent, and no event of any kind is later than the
  recorded outcome.\<close>

theorem validate_events_iff:
  "validate_events r = Ok () \<longleftrightarrow>
     list_all valid_advisory_metrics (rep_samples r)
   \<and> sorted (map sw_processed_at_ms (rep_samples r))
   \<and> list_all (\<lambda>s. sw_captured_at_ms s \<le> sw_processed_at_ms s \<and> 0 < sw_window_ms s) (rep_samples r)
   \<and> sorted (map tr_at_ms (rep_transitions r))
   \<and> list_all (\<lambda>t. tr_from t \<noteq> tr_to t) (rep_transitions r)
   \<and> sorted (map sr_at_ms (rep_signals r))
   \<and> list_all (\<lambda>s. signal_in_range (sr_signal s)) (rep_signals r)
   \<and> sorted (map ae_at_ms (rep_artifact_errors r))
   \<and> checkpoint_record_valid (rep_checkpoint r)
   \<and> outcome_valid (rep_outcome r)
   \<and> escape_valid (rep_escape r)
   \<and> list_all (\<lambda>t. t \<le> to_at_ms (rep_outcome r)) (event_times r)"
  by (rule validate_events_Ok_iff)

section \<open>Privacy of the identity\<close>

lemma from_argv_Ok:
  assumes "from_argv rid argv h = Ok r"
  shows "identity_valid r" "ri_argument_count r = of_nat (length argv - 1)"
  using assms by (auto simp: from_argv_def Let_def split: list.splits option.splits if_splits)

text \<open>The arguments of the supervised command never reach a report: the recorded identity is the
  same for any arguments of the same number, all of them empty, say.\<close>

theorem arguments_are_redacted:
  "from_argv run_id (executable # args) correlation_hash
     = from_argv run_id (executable # replicate (length args) []) correlation_hash"
  by (simp add: from_argv_def Let_def split: option.split)

section \<open>Round trip\<close>

text \<open>What was written can be read back. If the JSON library reads its own output of a report with
  a final newline, then every report that is written validates when it is read, and is the same
  report.\<close>

theorem written_report_reads_back:
  assumes "\<And>x s. to_string x = Ok s \<Longrightarrow> from_str (s @ [CHR 0x0A]) = Ok x"
    and "report_to_json to_string r = Ok text"
  shows "report_from_json from_str text = Ok r"
proof -
  from assms(2) obtain s where "validate r = (Ok () :: 'a report_error + unit)"
    and "to_string r = Ok s" and out: "text = s @ [CHR 0x0A]"
    by (auto simp: report_to_json_def split: sum.splits)
  moreover from this(1) have "validate r = (Ok () :: 'b report_error + unit)"
    by (auto simp: validate_def validate_events_def validate_calibration_def split: if_splits option.splits)
  ultimately show ?thesis using assms(1) by (simp add: report_from_json_def out)
qed

section \<open>Witnesses\<close>

definition demo_report :: report_v1 where
  "demo_report =
    \<lparr>rep_schema_version = 1, rep_package_version = ''0.3.1'',
     rep_run = \<lparr>ri_run_id = ''run_'' @ replicate 32 CHR ''a'', ri_executable_basename = ''python'',
       ri_argument_count = 2, ri_correlation_hash = None\<rparr>,
     rep_capabilities = \<lparr>cap_darwin_footprint = Available True, cap_owned_process_group = Available True,
       cap_checkpoint_channel = Unavailable NotNegotiated\<rparr>,
     rep_configuration =
       \<lparr>rc_mode = ReportObserve, rc_max_footprint_bytes = None, rc_warning_footprint_bytes = None,
        rc_recovery_footprint_bytes = None, rc_emergency_footprint_bytes = None,
        rc_required_breach_samples = 2, rc_max_missing_samples = 3, rc_wall_time_ms = None,
        rc_sample_interval_ms = 100, rc_max_sample_age_ms = 500, rc_max_sample_window_ms = 250,
        rc_checkpoint_timeout_ms = None, rc_term_grace_ms = 1000, rc_on_parent_exit = None,
        rc_parent_watch = None\<rparr>,
     rep_samples = [], rep_transitions = [], rep_signals = [],
     rep_checkpoint = \<lparr>ck_status = Status_NotNegotiated, ck_at_ms = None, ck_request_id = None,
       ck_reason = None, ck_artifact = None\<rparr>,
     rep_escape = \<lparr>ee_detected = Available False, ee_escaped_count = None\<rparr>,
     rep_artifact_errors = [],
     rep_outcome = \<lparr>to_at_ms = 5, to_kind = Kind_ChildExited 0, to_final_footprint_bytes = Unknown,
       to_child_status = Some (Child_Exited 0), to_owned_group_survivors = None,
       to_parent_exited_at_ms = None\<rparr>,
     rep_calibration = None, rep_privacy = privacy_default\<rparr>"

lemma demo_report_valid: "validate demo_report = (Ok () :: 'e report_error + unit)"
proof -
  have "valid_package_version ''0.3.1''"
    by (simp add: valid_package_version_def ascii_digit_def ascii_alphanumeric_def)
  moreover have "identity_valid (rep_run demo_report)"
    by (simp add: identity_valid_def demo_report_def valid_run_id_def strip_prefix_def lower_hex_def
        list_all_iff)
  moreover have "validate_events demo_report = (Ok () :: 'e report_error + unit)"
    by (simp add: validate_events_Ok_iff demo_report_def event_times_def checkpoint_record_valid_def
        outcome_valid_def escape_valid_def)
  moreover have "configuration_valid demo_report \<and> privacy_valid demo_report"
    by (simp add: configuration_valid_def privacy_valid_def demo_report_def privacy_default_def)
  ultimately show ?thesis
    by (simp add: validate_def demo_report_def REPORT_SCHEMA_VERSION_def validate_calibration_def)
qed

theorem written_report_reads_back_witness:
  "report_from_json (\<lambda>s. if s = ''{}'' @ [CHR 0x0A] then Ok demo_report else Err ())
     (''{}'' @ [CHR 0x0A]) = Ok demo_report"
  by (rule written_report_reads_back
      [where to_string = "\<lambda>r. if r = demo_report then Ok ''{}'' else Err ()"])
    (simp_all add: report_to_json_def demo_report_valid split: if_splits)

end
