(* ===== verification/Advisory.thy ===== *)
theory Advisory
  imports Report Sampling "HOL-Library.Signed_Division"
begin

text \<open>
  \<^verbatim>\<open>mlx-guard-core/src/advisory.rs\<close>, the platform-independent part: the projection of a system
  snapshot and of a footprint sample into the report's fields, the growth tracker, the observe-only
  calibration and the prelaunch summary. The snapshot of the native observer is an
  argument here; the observer itself is in \<^verbatim>\<open>Native\<close>. \<open>i128\<close> arithmetic is exact on integers here, within the bounds checked where the
  code checks them; \<open>checked_div\<close> truncates, as \<open>sdiv\<close> does.
\<close>

record advisory_snapshot =
  as_captured_at :: dur
  as_pressure_events :: "u64 observed"
  as_pressure_level :: "memory_pressure_level observed"
  as_swap_bytes :: "u64 observed"
  as_compressor_bytes :: "u64 observed"
  as_wired_bytes :: "u64 observed"

fun freshness :: "'a observed \<Rightarrow> advisory_freshness" where
  "freshness (Available _) = Fresh"
| "freshness Unknown = InitialUnknown"
| "freshness (Stale _) = Fresh_Stale"
| "freshness (Unavailable _) = Fresh_Unavailable"
| "freshness (ObsError _) = Fresh_Unavailable"

fun stale_timestamp :: "'a observed \<Rightarrow> u64 option" where
  "stale_timestamp (Stale last_seen_at_ms) = Some last_seen_at_ms"
| "stale_timestamp _ = None"

definition observation_timestamp :: "'a observed \<Rightarrow> u64 \<Rightarrow> u64" where
  "observation_timestamp observation fallback =
     (case stale_timestamp observation of None \<Rightarrow> fallback | Some t \<Rightarrow> t)"

definition metadata ::
    "advisory_scope \<Rightarrow> advisory_source \<Rightarrow> u64 \<Rightarrow> 'a observed \<Rightarrow> advisory_metric_metadata" where
  "metadata scope source captured_at_ms observation =
    \<lparr>md_scope = scope, md_source = source, md_captured_at_ms = captured_at_ms,
     md_freshness = freshness observation\<rparr>"

definition with_growth :: "advisory_snapshot \<Rightarrow> i64 observed \<Rightarrow> dur option \<Rightarrow> advisory_metrics" where
  "with_growth s growth growth_observed_at =
     (let captured_at_ms = duration_ms (as_captured_at s);
          growth_at_ms =
            (case map_option duration_ms growth_observed_at of
               Some t \<Rightarrow> t
             | None \<Rightarrow> (case stale_timestamp growth of Some t \<Rightarrow> t | None \<Rightarrow> captured_at_ms))
      in \<lparr>am_pressure_events = as_pressure_events s,
          am_swap_bytes = as_swap_bytes s,
          am_compressor_bytes = as_compressor_bytes s,
          am_wired_bytes = as_wired_bytes s,
          am_growth_bytes_per_second = growth,
          am_pressure_level = Some (as_pressure_level s),
          am_metadata = Some
            \<lparr>ad_pressure_events = metadata Scope_System Source_DispatchMemoryPressure
               (observation_timestamp (as_pressure_events s) captured_at_ms) (as_pressure_events s),
             ad_pressure_level = metadata Scope_System Source_DispatchMemoryPressure
               (observation_timestamp (as_pressure_level s) captured_at_ms) (as_pressure_level s),
             ad_swap_bytes = metadata Scope_System Source_SysctlVmSwapusage
               (observation_timestamp (as_swap_bytes s) captured_at_ms) (as_swap_bytes s),
             ad_compressor_bytes = metadata Scope_System Source_HostStatistics64
               (observation_timestamp (as_compressor_bytes s) captured_at_ms) (as_compressor_bytes s),
             ad_wired_bytes = metadata Scope_System Source_HostStatistics64
               (observation_timestamp (as_wired_bytes s) captured_at_ms) (as_wired_bytes s),
             ad_growth_bytes_per_second = metadata Scope_OwnedProcessGroup Source_DerivedFootprintSamples
               growth_at_ms growth\<rparr>\<rparr>)"

definition system_metrics_available :: "advisory_snapshot \<Rightarrow> bool" where
  "system_metrics_available s \<longleftrightarrow>
     (case as_swap_bytes s of Available _ \<Rightarrow> True | _ \<Rightarrow> False)
   \<and> (case as_compressor_bytes s of Available _ \<Rightarrow> True | _ \<Rightarrow> False)
   \<and> (case as_wired_bytes s of Available _ \<Rightarrow> True | _ \<Rightarrow> False)"

section \<open>Growth\<close>

record growth_tracker =
  gt_baseline :: "(dur \<times> u64) option"
  gt_last_rate_at :: "dur option"

definition growth_default :: growth_tracker where
  "growth_default = \<lparr>gt_baseline = None, gt_last_rate_at = None\<rparr>"

definition in_i64 :: "int \<Rightarrow> bool" where
  "in_i64 v \<longleftrightarrow> - (2 ^ 63) \<le> v \<and> v < 2 ^ 63"

definition in_i128 :: "int \<Rightarrow> bool" where
  "in_i128 v \<longleftrightarrow> - (2 ^ 127) \<le> v \<and> v < 2 ^ 127"

definition growth_rate :: "u64 \<Rightarrow> u64 \<Rightarrow> dur \<Rightarrow> i64 option" where
  "growth_rate previous_bytes total_bytes elapsed =
     (let scaled = (uint total_bytes - uint previous_bytes) * 1000000000 in
      if \<not> in_i128 scaled \<or> 2 ^ 127 \<le> elapsed then None
      else let v = scaled sdiv int elapsed in if in_i64 v then Some v else None)"

definition growth_observe ::
    "growth_tracker \<Rightarrow> footprint_sample \<Rightarrow> growth_tracker \<times> i64 observed \<times> dur option" where
  "growth_observe g sample =
     (case fs_outcome sample of
        Outcome_Complete total_bytes \<Rightarrow>
          (let baseline = gt_baseline g;
               g = g\<lparr>gt_baseline := Some (fs_finished_at sample, total_bytes)\<rparr>
           in case baseline of
                None \<Rightarrow> (g, Unknown, None)
              | Some (previous_at, previous_bytes) \<Rightarrow>
                  (case dur_checked_sub (fs_finished_at sample) previous_at of
                     None \<Rightarrow> (g\<lparr>gt_baseline := None\<rparr>, ObsError Obs_ClockAnomaly, None)
                   | Some elapsed \<Rightarrow>
                       (if elapsed = 0
                        then (g\<lparr>gt_baseline := None\<rparr>, ObsError Obs_ClockAnomaly, None)
                        else case growth_rate previous_bytes total_bytes elapsed of
                          None \<Rightarrow> (g, ObsError Obs_Internal, None)
                        | Some v \<Rightarrow>
                            (g\<lparr>gt_last_rate_at := Some (fs_finished_at sample)\<rparr>, Available v,
                             Some (fs_finished_at sample)))))
      | _ \<Rightarrow>
          (g\<lparr>gt_baseline := None\<rparr>,
           (case gt_last_rate_at g of None \<Rightarrow> Unknown | Some t \<Rightarrow> Stale (duration_ms t)),
           gt_last_rate_at g))"

section \<open>Samples\<close>

definition snapshot_failure :: "observation_failure_kind \<Rightarrow> u64 observed" where
  "snapshot_failure kind =
     (case kind of
        Fail_Unsupported \<Rightarrow> Unavailable NotSupported
      | Fail_Unavailable \<Rightarrow> Unavailable NotSupported
      | Fail_PermissionDenied \<Rightarrow> ObsError Obs_PermissionDenied
      | Fail_Disappeared \<Rightarrow> ObsError Obs_ProcessMissing
      | Fail_StaleIdentity \<Rightarrow> ObsError Obs_ProcessMissing
      | Fail_MalformedData \<Rightarrow> ObsError Obs_MalformedKernelData
      | Fail_EnumerationFailed \<Rightarrow> ObsError Obs_Internal)"

definition sample_observation :: "sample_outcome \<Rightarrow> u64 observed" where
  "sample_observation outcome =
     (case outcome of
        Outcome_Complete total_bytes \<Rightarrow> Available total_bytes
      | Outcome_Partial _ _ _ \<Rightarrow> Unknown
      | Outcome_Overflow \<Rightarrow> ObsError Obs_Internal
      | Outcome_SnapshotFailed kind \<Rightarrow> snapshot_failure kind
      | Outcome_ClockDiscontinuity \<Rightarrow> ObsError Obs_ClockAnomaly)"

definition positive_duration_ms :: "dur \<Rightarrow> u64" where
  "positive_duration_ms v =
     (let milliseconds = duration_ms v in if milliseconds = 0 \<and> v \<noteq> 0 then 1 else milliseconds)"

section \<open>Calibration\<close>

record observe_calibration =
  oc_growth :: growth_tracker
  oc_total_samples :: u64
  oc_complete_samples :: u64
  oc_incomplete_samples :: u64
  oc_first_captured_at :: "dur option"
  oc_last_captured_at :: "dur option"
  oc_peak_aggregate_bytes :: "u64 option"
  oc_peak_growth_bytes_per_second :: "i64 option"

definition calibration_new :: observe_calibration where
  "calibration_new =
    \<lparr>oc_growth = growth_default, oc_total_samples = 0, oc_complete_samples = 0,
     oc_incomplete_samples = 0, oc_first_captured_at = None, oc_last_captured_at = None,
     oc_peak_aggregate_bytes = None, oc_peak_growth_bytes_per_second = None\<rparr>"

definition count_sample :: "observe_calibration \<Rightarrow> footprint_sample \<Rightarrow> observe_calibration" where
  "count_sample c sample =
     (let c = c\<lparr>oc_total_samples := sat_add (oc_total_samples c) 1,
                oc_first_captured_at :=
                  (case oc_first_captured_at c of None \<Rightarrow> Some (fs_finished_at sample) | Some t \<Rightarrow> Some t),
                oc_last_captured_at := Some (fs_finished_at sample)\<rparr>
      in case fs_outcome sample of
           Outcome_Complete total_bytes \<Rightarrow>
             c\<lparr>oc_complete_samples := sat_add (oc_complete_samples c) 1,
               oc_peak_aggregate_bytes :=
                 Some (case oc_peak_aggregate_bytes c of
                         None \<Rightarrow> total_bytes | Some peak \<Rightarrow> max peak total_bytes)\<rparr>
         | _ \<Rightarrow> c\<lparr>oc_incomplete_samples := sat_add (oc_incomplete_samples c) 1\<rparr>)"

definition note_growth :: "observe_calibration \<Rightarrow> i64 observed \<Rightarrow> observe_calibration" where
  "note_growth c growth =
     (case growth of
        Available v \<Rightarrow>
          (if 0 < v
           then c\<lparr>oc_peak_growth_bytes_per_second :=
                    Some (case oc_peak_growth_bytes_per_second c of None \<Rightarrow> v | Some peak \<Rightarrow> max peak v)\<rparr>
           else c)
      | _ \<Rightarrow> c)"

definition record_sample ::
    "observe_calibration \<Rightarrow> footprint_sample \<Rightarrow> dur \<Rightarrow> advisory_snapshot
     \<Rightarrow> observe_calibration \<times> sample_window" where
  "record_sample c sample processed_at advisory =
     (let c = count_sample c sample;
          (g, growth, growth_at) = growth_observe (oc_growth c) sample;
          c = note_growth (c\<lparr>oc_growth := g\<rparr>) growth
      in (c, \<lparr>sw_captured_at_ms = duration_ms (fs_finished_at sample),
              sw_processed_at_ms = duration_ms processed_at,
              sw_window_ms =
                positive_duration_ms (dur_sat_sub (fs_finished_at sample) (fs_started_at sample)),
              sw_aggregate_footprint_bytes = sample_observation (fs_outcome sample),
              sw_advisory = with_growth advisory growth growth_at\<rparr>))"

definition calibration_artifact_of :: "observe_calibration \<Rightarrow> calibration_artifact" where
  "calibration_artifact_of c =
    \<lparr>cal_schema_version = CALIBRATION_SCHEMA_VERSION,
     cal_observation_only = True,
     cal_safety_certified = False,
     cal_total_samples = oc_total_samples c,
     cal_complete_samples = oc_complete_samples c,
     cal_incomplete_samples = oc_incomplete_samples c,
     cal_observed_duration_ms = duration_ms
       (case (oc_first_captured_at c, oc_last_captured_at c) of
          (Some t0, Some t1) \<Rightarrow> dur_sat_sub t1 t0
        | _ \<Rightarrow> 0),
     cal_peak_aggregate_footprint_bytes =
       (case oc_peak_aggregate_bytes c of None \<Rightarrow> Unknown | Some v \<Rightarrow> Available v),
     cal_peak_growth_bytes_per_second =
       (case oc_peak_growth_bytes_per_second c of None \<Rightarrow> Unknown | Some v \<Rightarrow> Available v),
     cal_automatic_limit_bytes = None,
     cal_guidance = ChooseExplicitLimitFromRepeatedRepresentativeRuns\<rparr>"

section \<open>Prelaunch summary\<close>

datatype prelaunch_warning =
    FootprintObservationUnavailable
  | PressureStateUnknown
  | MemoryPressureWarning
  | MemoryPressureCritical
  | AdvisorySystemMetricsPartial

record prelaunch_summary =
  pl_footprint_observation :: "bool observed"
  pl_advisory :: advisory_metrics
  pl_warnings :: "prelaunch_warning list"
  pl_reject_launch :: bool

definition prelaunch_summary_new :: "bool observed \<Rightarrow> advisory_snapshot \<Rightarrow> prelaunch_summary" where
  "prelaunch_summary_new footprint_observation snapshot =
    \<lparr>pl_footprint_observation = footprint_observation,
     pl_advisory = with_growth snapshot Unknown None,
     pl_warnings =
       (if footprint_observation \<noteq> Available True then [FootprintObservationUnavailable] else [])
       @ (case as_pressure_level snapshot of
            Available Pressure_Normal \<Rightarrow> []
          | Available Pressure_Warning \<Rightarrow> [MemoryPressureWarning]
          | Available Pressure_Critical \<Rightarrow> [MemoryPressureCritical]
          | _ \<Rightarrow> [PressureStateUnknown])
       @ (if \<not> system_metrics_available snapshot then [AdvisorySystemMetricsPartial] else []),
     pl_reject_launch = False\<rparr>"

end
