(* ===== verification/Advisory_Props.thy ===== *)
theory Advisory_Props
  imports Advisory Report_Props
begin

text \<open>The calibration artifact and the advisory windows that the sampling loop produces are valid.\<close>

section \<open>Calibration\<close>

definition calibration_ok :: "observe_calibration \<Rightarrow> nat \<Rightarrow> bool" where
  "calibration_ok c n \<longleftrightarrow>
     unat (oc_total_samples c) = n
   \<and> unat (oc_complete_samples c) + unat (oc_incomplete_samples c) = n
   \<and> (oc_peak_aggregate_bytes c = None \<longleftrightarrow> oc_complete_samples c = 0)
   \<and> (case oc_peak_growth_bytes_per_second c of None \<Rightarrow> True | Some v \<Rightarrow> 0 < v)"

lemma unat_sat_succ: "Suc (unat (x :: u64)) < 2 ^ 64 \<Longrightarrow> unat (sat_add x 1) = Suc (unat x)"
  by (simp add: unat_sat_add)

lemma one_le_unat: "x \<noteq> 0 \<Longrightarrow> Suc 0 \<le> unat (x :: u64)"
  by (simp add: Suc_le_eq unat_gt_0)

lemma count_sample_ok:
  assumes "calibration_ok c n" and "Suc n < 2 ^ 64"
  shows "calibration_ok (count_sample c sample) (Suc n)"
  using assms
  by (auto simp: calibration_ok_def count_sample_def Let_def unat_sat_succ unat_eq_0 [symmetric]
      split: sample_outcome.splits)

lemma note_growth_ok: "calibration_ok c n \<Longrightarrow> calibration_ok (note_growth (c\<lparr>oc_growth := g\<rparr>) growth) n"
  by (auto simp: calibration_ok_def note_growth_def max_def split: observed.splits option.splits)

lemma record_sample_ok:
  assumes "calibration_ok c n" and "Suc n < 2 ^ 64"
  shows "calibration_ok (fst (record_sample c sample t adv)) (Suc n)"
  using count_sample_ok [OF assms, of sample]
  by (simp add: record_sample_def Let_def split_beta note_growth_ok)

definition calibrate ::
    "(footprint_sample \<times> dur \<times> advisory_snapshot) list \<Rightarrow> observe_calibration" where
  "calibrate xs =
     foldl (\<lambda>c x. fst (record_sample c (fst x) (fst (snd x)) (snd (snd x)))) calibration_new xs"

text \<open>The calibration artifact of an observe run is always valid evidence: after any sequence of
  fewer than 2 to the 64 samples its counters add up, a peak footprint is reported exactly when some
  sample was complete, a reported peak growth is positive, and it neither selects a limit nor claims
  safety.\<close>

theorem calibration_always_validates:
  assumes "length xs < 2 ^ 64"
  shows "calibration_valid (calibration_artifact_of (calibrate xs))"
proof -
  have "calibration_ok (calibrate xs) (length xs)"
    using assms
  proof (induction xs rule: rev_induct)
    case Nil
    then show ?case by (simp add: calibrate_def calibration_ok_def calibration_new_def)
  next
    case (snoc x xs)
    then show ?case by (simp add: calibrate_def record_sample_ok)
  qed
  then show ?thesis
    by (auto simp: calibration_valid_def calibration_artifact_of_def calibration_ok_def
        checked_add_Some Let_def word_le_nat_alt unat_gt_0 one_le_unat split: option.splits)
qed

section \<open>Advisory windows\<close>

lemma freshness_agree: "freshness x = freshness_for x"
  by (cases x) simp_all

text \<open>Every remembered instant lies in the past.\<close>

definition growth_past :: "growth_tracker \<Rightarrow> dur \<Rightarrow> bool" where
  "growth_past g t \<longleftrightarrow> (case gt_last_rate_at g of None \<Rightarrow> True | Some r \<Rightarrow> r \<le> t)"

definition stale_past :: "'a observed \<Rightarrow> u64 \<Rightarrow> bool" where
  "stale_past x t \<longleftrightarrow> (case stale_timestamp x of None \<Rightarrow> True | Some r \<Rightarrow> r \<le> t)"

definition snapshot_past :: "advisory_snapshot \<Rightarrow> dur \<Rightarrow> bool" where
  "snapshot_past s t \<longleftrightarrow> as_captured_at s \<le> t
     \<and> stale_past (as_pressure_events s) (duration_ms t) \<and> stale_past (as_pressure_level s) (duration_ms t)
     \<and> stale_past (as_swap_bytes s) (duration_ms t) \<and> stale_past (as_compressor_bytes s) (duration_ms t)
     \<and> stale_past (as_wired_bytes s) (duration_ms t)"

lemma timestamp_past:
  "stale_past x t \<Longrightarrow> n \<le> t \<Longrightarrow> observation_timestamp x n \<le> t"
  by (auto simp: stale_past_def observation_timestamp_def split: option.splits)

lemma growth_observe_past:
  assumes "growth_past g t" and "fs_finished_at sample \<le> t"
    and "growth_observe g sample = (g', growth, growth_at)"
  shows "growth_past g' t"
    and "case growth_at of None \<Rightarrow> stale_timestamp growth = None | Some r \<Rightarrow> r \<le> t"
  using assms
  by (auto simp: growth_observe_def growth_past_def Let_def
      split: sample_outcome.splits option.splits if_splits)

lemma recorded_window_ok:
  assumes "growth_past (oc_growth c) t" and "fs_finished_at sample \<le> t" and "snapshot_past adv t"
    and "fs_started_at sample < fs_finished_at sample"
  shows "valid_advisory_metrics (snd (record_sample c sample t adv))
    \<and> sw_captured_at_ms (snd (record_sample c sample t adv))
        \<le> sw_processed_at_ms (snd (record_sample c sample t adv))
    \<and> 0 < sw_window_ms (snd (record_sample c sample t adv))
    \<and> growth_past (oc_growth (fst (record_sample c sample t adv))) t"
proof -
  obtain g growth growth_at where gr: "growth_observe (oc_growth c) sample = (g, growth, growth_at)"
    by (cases "growth_observe (oc_growth c) sample")
  note past = growth_observe_past [OF assms(1,2) gr]
  have keep: "oc_growth (count_sample c sample) = oc_growth c"
    by (simp add: count_sample_def Let_def split: sample_outcome.splits)
  have grow: "oc_growth (note_growth d x) = oc_growth d" for d x
    by (simp add: note_growth_def split: observed.splits)
  have snap: "duration_ms (as_captured_at adv) \<le> duration_ms t"
    using assms(3) by (simp add: snapshot_past_def duration_ms_mono)
  have growth_time: "(case map_option duration_ms growth_at of
       Some t \<Rightarrow> t
     | None \<Rightarrow> (case stale_timestamp growth of Some t \<Rightarrow> t | None \<Rightarrow> duration_ms (as_captured_at adv)))
     \<le> duration_ms t"
    using past(2) snap by (auto split: option.splits intro: duration_ms_mono)
  have "valid_advisory_metrics (snd (record_sample c sample t adv))"
    using assms(3) snap growth_time
    by (simp add: record_sample_def keep gr Let_def with_growth_def valid_advisory_metrics_def
        metadata_matches_def metadata_def freshness_agree timestamp_past snapshot_past_def)
  moreover have "sw_captured_at_ms (snd (record_sample c sample t adv))
        \<le> sw_processed_at_ms (snd (record_sample c sample t adv))"
    using assms(2) by (simp add: record_sample_def Let_def split_beta duration_ms_mono)
  moreover have "0 < sw_window_ms (snd (record_sample c sample t adv))"
    using assms(4)
    by (auto simp: record_sample_def Let_def split_beta positive_duration_ms_def dur_sat_sub_def
        word_gt_0)
  moreover have "growth_past (oc_growth (fst (record_sample c sample t adv))) t"
    using past(1) by (simp add: record_sample_def keep gr Let_def grow)
  ultimately show ?thesis by simp
qed

text \<open>What a sampling loop records is valid advisory data: if the system snapshot and the sample lie
  in the past of the instant at which the sample is processed, the projected window passes the
  report's advisory check, its capture time does not exceed its processing time, and a window of
  positive width is recorded as at least one millisecond.\<close>

theorem recorded_window_is_valid:
  assumes "growth_past (oc_growth c) t" and "fs_finished_at sample \<le> t" and "snapshot_past adv t"
    and "fs_started_at sample < fs_finished_at sample"
  shows "valid_advisory_metrics (snd (record_sample c sample t adv))
    \<and> sw_captured_at_ms (snd (record_sample c sample t adv))
        \<le> sw_processed_at_ms (snd (record_sample c sample t adv))
    \<and> 0 < sw_window_ms (snd (record_sample c sample t adv))
    \<and> growth_past (oc_growth (fst (record_sample c sample t adv))) t"
  using assms by (rule recorded_window_ok)

text \<open>C34. The guard on the width is needed. A sample whose window has no width, which the sampler records
  when its clock stands still or steps back between the two readings, is projected to a window of zero
  milliseconds, and a report that retains one is rejected by its own validation.\<close>

theorem zero_width_sample_invalidates_report:
  assumes "fs_finished_at sample \<le> fs_started_at sample"
    and "snd (record_sample c sample t adv) \<in> set (rep_samples r)"
  shows "validate_events r \<noteq> Ok ()"
proof
  assume "validate_events r = Ok ()"
  then have "samples_ordered (rep_samples r)" by (auto simp: validate_events_def split: if_splits)
  then have "0 < sw_window_ms (snd (record_sample c sample t adv))"
    using assms(2) by (simp add: samples_ordered_windows list_all_iff)
  moreover have "sw_window_ms (snd (record_sample c sample t adv)) = 0"
    using assms(1) by (simp add: record_sample_def Let_def split_beta positive_duration_ms_def
        dur_sat_sub_def duration_ms_def)
  ultimately show False by simp
qed

section \<open>Witnesses\<close>

definition demo_snapshot :: advisory_snapshot where
  "demo_snapshot =
    \<lparr>as_captured_at = 4000000, as_pressure_events = Unknown, as_pressure_level = Unknown,
     as_swap_bytes = Available 7, as_compressor_bytes = Stale 3, as_wired_bytes = Available 9\<rparr>"

definition demo_sample :: "dur \<Rightarrow> footprint_sample" where
  "demo_sample started =
    \<lparr>fs_sequence = 1, fs_started_at = started, fs_finished_at = 5000000, fs_members = [],
     fs_outcome = Outcome_Complete 100, fs_events = [], fs_escape_observed = False\<rparr>"

theorem calibration_always_validates_witness:
  "calibration_valid (calibration_artifact_of
     (calibrate [(demo_sample 1000000, 6000000, demo_snapshot)]))"
  by (rule calibration_always_validates) simp

theorem recorded_window_is_valid_witness:
  "valid_advisory_metrics (snd (record_sample calibration_new (demo_sample 1000000) 6000000 demo_snapshot))"
  by (rule recorded_window_is_valid [THEN conjunct1])
    (simp_all add: calibration_new_def growth_default_def growth_past_def demo_sample_def demo_snapshot_def
      snapshot_past_def stale_past_def duration_ms_def)

theorem zero_width_sample_invalidates_report_witness:
  "validate_events (demo_report\<lparr>rep_samples :=
     [snd (record_sample calibration_new (demo_sample 5000000) 6000000 demo_snapshot)]\<rparr>) \<noteq> Ok ()"
  by (rule zero_width_sample_invalidates_report
      [where sample = "demo_sample 5000000" and t = 6000000 and c = calibration_new and adv = demo_snapshot])
    (simp_all add: demo_sample_def)

end
