(* ===== verification/Cli.thy ===== *)
theory Cli
  imports Report Sampling "HOL-Library.List_Lexorder" "HOL-Library.Char_ord"
begin

text \<open>
  \<^verbatim>\<open>mlx-guard-cli/src/lib.rs\<close>: the value parsers of the command line and the normalization of
  the parsed arguments, and from \<^verbatim>\<open>runtime.rs\<close> the configurations derived from them. The
  argument parser \<^verbatim>\<open>clap\<close> is a third-party library: its result, the raw command with every
  option passed through its value parser, is an argument.
\<close>

section \<open>Value parsers\<close>

text \<open>\<open>strip_suffix\<close>, and \<open>parse\<close> of a string of decimal digits.\<close>

definition strip_suffix :: "string \<Rightarrow> string \<Rightarrow> string option" where
  "strip_suffix p s =
     (if length p \<le> length s \<and> drop (length s - length p) s = p
      then Some (take (length s - length p) s) else None)"

lemma strip_suffix_Some: "strip_suffix p s = Some r \<longleftrightarrow> s = r @ p"
  by (auto simp: strip_suffix_def) (metis append_take_drop_id)

definition decimal :: "string \<Rightarrow> nat" where
  "decimal s = foldl (\<lambda>n c. n * 10 + (byte_of c - 48)) 0 s"

definition parse_u64 :: "string \<Rightarrow> u64 option" where
  "parse_u64 digits = (if decimal digits < 2 ^ 64 then Some (of_nat (decimal digits)) else None)"

text \<open>\<open>parse::<i32>\<close> accepts one leading sign.\<close>

definition parse_i32 :: "string \<Rightarrow> i32 option" where
  "parse_i32 s =
     (let negative = (s \<noteq> [] \<and> hd s = CHR ''-'');
          digits = (if s \<noteq> [] \<and> (hd s = CHR ''-'' \<or> hd s = CHR ''+'') then tl s else s);
          v = (if negative then - int (decimal digits) else int (decimal digits))
      in if digits \<noteq> [] \<and> list_all ascii_digit digits \<and> - (2 ^ 31) \<le> v \<and> v < 2 ^ 31
         then Some v else None)"

definition parse_positive_integer :: "string \<Rightarrow> string \<Rightarrow> string + u64" where
  "parse_positive_integer value name =
     (if value = [] \<or> \<not> list_all ascii_digit value
      then Err (name @ '' must be a positive integer'')
      else case parse_u64 value of
        None \<Rightarrow> Err (name @ '' overflows u64'')
      | Some parsed \<Rightarrow>
          (if parsed = 0 then Err (name @ '' must be greater than zero'') else Ok parsed))"

text \<open>\<open>find_map\<close> over the suffixes, the first that fits.\<close>

fun find_suffix :: "(string \<times> u64) list \<Rightarrow> string \<Rightarrow> (string \<times> u64) option" where
  "find_suffix [] value = None"
| "find_suffix ((suffix, multiplier) # rest) value =
     (case strip_suffix suffix value of
        Some digits \<Rightarrow> Some (digits, multiplier)
      | None \<Rightarrow> find_suffix rest value)"

definition byte_suffixes :: "(string \<times> u64) list" where
  "byte_suffixes =
     [(''TiB'', 1024 ^ 4), (''GiB'', 1024 ^ 3), (''MiB'', 1024 ^ 2), (''KiB'', 1024), (''B'', 1)]"

definition parse_bytes :: "string \<Rightarrow> string + u64" where
  "parse_bytes value =
     (case find_suffix byte_suffixes value of
        None \<Rightarrow> Err ''expected a binary byte suffix: B, KiB, MiB, GiB, or TiB''
      | Some (digits, multiplier) \<Rightarrow>
          (case parse_positive_integer digits ''byte quantity'' of
             Inl err \<Rightarrow> Err err
           | Inr parsed \<Rightarrow>
               (case checked_mul parsed multiplier of
                  None \<Rightarrow> Err ''byte quantity overflows u64''
                | Some bytes \<Rightarrow> Ok bytes)))"

definition duration_suffixes :: "(string \<times> u64) list" where
  "duration_suffixes = [(''ms'', 1), (''s'', 1000), (''m'', 60000), (''h'', 3600000)]"

definition parse_duration :: "string \<Rightarrow> string + dur" where
  "parse_duration value =
     (case find_suffix duration_suffixes value of
        None \<Rightarrow> Err ''expected a duration suffix: ms, s, m, or h''
      | Some (digits, multiplier) \<Rightarrow>
          (case parse_positive_integer digits ''duration'' of
             Inl err \<Rightarrow> Err err
           | Inr parsed \<Rightarrow>
               (case checked_mul parsed multiplier of
                  None \<Rightarrow> Err ''duration overflows u64 milliseconds''
                | Some milliseconds \<Rightarrow> Ok (from_millis (unat milliseconds)))))"

definition MAX_WALL_TIME :: dur where "MAX_WALL_TIME = from_secs (30 * 24 * 60 * 60)"
definition MIN_CHECKPOINT_TIMEOUT :: dur where "MIN_CHECKPOINT_TIMEOUT = from_millis 10"
definition MAX_CHECKPOINT_TIMEOUT :: dur where "MAX_CHECKPOINT_TIMEOUT = from_secs 60"

definition parse_wall_time :: "string \<Rightarrow> string + dur" where
  "parse_wall_time value =
     (case parse_duration value of
        Inl err \<Rightarrow> Err err
      | Inr duration \<Rightarrow>
          (if MAX_WALL_TIME < duration then Err ''--wall-time must not exceed 30 days''
           else Ok duration))"

definition parse_checkpoint_timeout :: "string \<Rightarrow> string + dur" where
  "parse_checkpoint_timeout value =
     (case parse_duration value of
        Inl err \<Rightarrow> Err err
      | Inr duration \<Rightarrow>
          (if \<not> (MIN_CHECKPOINT_TIMEOUT \<le> duration \<and> duration \<le> MAX_CHECKPOINT_TIMEOUT)
           then Err ''--checkpoint-timeout must be within 10ms..=60s''
           else Ok duration))"

datatype on_parent_exit_option = Option_Terminate | Option_Detach

definition parse_on_parent_exit :: "string \<Rightarrow> string + on_parent_exit_option" where
  "parse_on_parent_exit value =
     (if value = ''terminate'' then Ok Option_Terminate
      else if value = ''detach'' then Ok Option_Detach
      else Err ''--on-parent-exit must be terminate or detach'')"

definition parse_client_ready_fd :: "string \<Rightarrow> string + i32" where
  "parse_client_ready_fd value =
     (case parse_i32 value of
        None \<Rightarrow> Err ''client readiness descriptor must be an integer''
      | Some descriptor \<Rightarrow>
          (if descriptor < 3
           then Err ''client readiness descriptor must not replace standard I/O''
           else Ok descriptor))"

section \<open>Raw and normalized options\<close>

type_synonym env_map = "(string, string) rbt"

record raw_common =
  raw_sample_interval :: dur
  raw_report_path :: string
  raw_cwd :: "string option"
  raw_clear_env :: bool
  raw_env :: "string list"
  raw_client_ready_fd :: "i32 option"
  raw_on_parent_exit :: on_parent_exit_option
  raw_command_line :: "string list"

datatype raw_command =
    Raw_Observe raw_common
  | Raw_Run u64 "dur option" "dur option" raw_common

record common_options =
  co_sample_interval :: dur
  co_report_path :: string
  co_cwd :: "string option"
  co_clear_env :: bool
  co_env :: env_map
  co_client_ready_fd :: "i32 option"
  co_on_parent_exit :: on_parent_exit_option
  co_command :: "string list"

record run_options =
  ro_max_footprint_bytes :: u64
  ro_wall_time :: "dur option"
  ro_checkpoint_timeout :: "dur option"
  ro_common :: common_options

datatype command_mode = Mode_Observe common_options | Mode_Run run_options

text \<open>The text of an error; a duplicate key is rendered into it by \<open>format!\<close>.\<close>

datatype error_text = Message string | DuplicateEnvKey string

record cli_parse_error =
  ce_message :: error_text
  ce_display_only :: bool
  ce_flag :: "string option"

definition contract :: "string \<Rightarrow> error_text \<Rightarrow> cli_parse_error" where
  "contract flag message = \<lparr>ce_message = message, ce_display_only = False, ce_flag = Some flag\<rparr>"

text \<open>\<open>split_once('=')\<close>.\<close>

definition split_once :: "char \<Rightarrow> string \<Rightarrow> (string \<times> string) option" where
  "split_once c s =
     (if c \<in> set s then Some (takeWhile (\<lambda>x. x \<noteq> c) s, drop 1 (dropWhile (\<lambda>x. x \<noteq> c) s)) else None)"

fun normalize_env :: "env_map \<Rightarrow> string list \<Rightarrow> cli_parse_error + env_map" where
  "normalize_env env [] = Ok env"
| "normalize_env env (assignment # rest) =
     (case split_once CHR ''='' assignment of
        None \<Rightarrow> Err (contract ''--env'' (Message ''--env requires KEY=VALUE''))
      | Some (key, value) \<Rightarrow>
          (if key = [] then Err (contract ''--env'' (Message ''--env key must not be empty''))
           else if RBT.lookup env key \<noteq> None then Err (contract ''--env'' (DuplicateEnvKey key))
           else normalize_env (RBT.insert key value env) rest))"

definition normalize :: "raw_common \<Rightarrow> cli_parse_error + common_options" where
  "normalize raw =
     (if \<not> (MIN_SAMPLE_INTERVAL \<le> raw_sample_interval raw \<and> raw_sample_interval raw \<le> MAX_SAMPLE_INTERVAL)
      then Err (contract ''--sample-interval''
             (Message ''--sample-interval must be within 10ms..=10s''))
      else case normalize_env RBT.empty (raw_env raw) of
        Inl err \<Rightarrow> Err err
      | Inr env \<Rightarrow> Ok
          \<lparr>co_sample_interval = raw_sample_interval raw, co_report_path = raw_report_path raw,
           co_cwd = raw_cwd raw, co_clear_env = raw_clear_env raw, co_env = env,
           co_client_ready_fd = raw_client_ready_fd raw,
           co_on_parent_exit = raw_on_parent_exit raw, co_command = raw_command_line raw\<rparr>)"

definition policy_band_step :: "u64 \<Rightarrow> u64" where
  "policy_band_step limit = (let tenth = limit div 10 in if tenth = 0 then 1 else tenth)"

definition parse_cli :: "raw_command \<Rightarrow> cli_parse_error + command_mode" where
  "parse_cli raw =
     (case raw of
        Raw_Observe common \<Rightarrow>
          (case normalize common of Inl err \<Rightarrow> Err err | Inr c \<Rightarrow> Ok (Mode_Observe c))
      | Raw_Run max_footprint_bytes wall_time checkpoint_timeout common \<Rightarrow>
          (if max_footprint_bytes < 2
           then Err (contract ''--max-footprint'' (Message ''--max-footprint must be at least 2B''))
           else if checked_add max_footprint_bytes (policy_band_step max_footprint_bytes) = None
           then Err (contract ''--max-footprint''
                  (Message ''--max-footprint is too large for the emergency policy band''))
           else case normalize common of
             Inl err \<Rightarrow> Err err
           | Inr c \<Rightarrow> Ok (Mode_Run
               \<lparr>ro_max_footprint_bytes = max_footprint_bytes, ro_wall_time = wall_time,
                ro_checkpoint_timeout = checkpoint_timeout, ro_common = c\<rparr>)))"

section \<open>Derived configurations\<close>

definition REQUIRED_BREACH_SAMPLES :: u32 where "REQUIRED_BREACH_SAMPLES = 2"
definition MAX_MISSING_SAMPLES :: u32 where "MAX_MISSING_SAMPLES = 3"
definition DEFAULT_CHECKPOINT_TIMEOUT :: dur where "DEFAULT_CHECKPOINT_TIMEOUT = from_secs 1"
definition TERM_GRACE :: dur where "TERM_GRACE = from_secs 1"
definition MIN_SAMPLE_WINDOW :: dur where "MIN_SAMPLE_WINDOW = from_millis 250"
definition MIN_SAMPLE_AGE :: dur where "MIN_SAMPLE_AGE = from_millis 500"

definition sample_quality_bounds :: "dur \<Rightarrow> dur \<times> dur" where
  "sample_quality_bounds interval =
     (max interval MIN_SAMPLE_WINDOW, max (dur_sat_mul interval 2) MIN_SAMPLE_AGE)"

definition run_policy_config :: "run_options \<Rightarrow> policy_config" where
  "run_policy_config options =
     (let limit = ro_max_footprint_bytes options;
          threshold_step = policy_band_step limit;
          (window, age) = sample_quality_bounds (co_sample_interval (ro_common options))
      in \<lparr>pc_limit_bytes = limit,
          pc_warning_bytes = sat_sub limit threshold_step,
          pc_recovery_bytes = sat_sub (sat_sub limit threshold_step) threshold_step,
          pc_emergency_bytes = sat_add limit threshold_step,
          pc_required_breach_samples = REQUIRED_BREACH_SAMPLES,
          pc_max_missing_samples = MAX_MISSING_SAMPLES,
          pc_max_sample_age = age,
          pc_max_sample_window = window,
          pc_checkpoint_timeout = Some
            (case ro_checkpoint_timeout options of
               None \<Rightarrow> DEFAULT_CHECKPOINT_TIMEOUT | Some timeout \<Rightarrow> timeout),
          pc_term_grace = TERM_GRACE,
          pc_wall_time = ro_wall_time options\<rparr>)"

text \<open>\<open>sampling_config\<close> and the machine of an observe run; errors are rendered in \<^verbatim>\<open>Program\<close>.\<close>

definition sampling_config_for :: "common_options \<Rightarrow> sampling_config_error + sampling_config" where
  "sampling_config_for common =
     (let (window, age) = sample_quality_bounds (co_sample_interval common)
      in sampling_config_new (co_sample_interval common) age window MAX_SAMPLE_HISTORY_CAPACITY)"

definition observe_policy_machine :: "sampling_config \<Rightarrow> policy_machine" where
  "observe_policy_machine sample_config =
     policy_observe (sc_max_sample_age sample_config) (sc_max_sample_window sample_config)
       MAX_MISSING_SAMPLES"

section \<open>The parent watch\<close>

record parent_watch_state =
  pw_parent :: "process_identity option"
  pw_watch :: parent_watch
  pw_on_parent_exit :: on_parent_exit
  pw_exited_at_ms :: "u64 option"

definition unwatched :: "parent_watch \<Rightarrow> on_parent_exit \<Rightarrow> parent_watch_state" where
  "unwatched watch on_exit =
    \<lparr>pw_parent = None, pw_watch = watch, pw_on_parent_exit = on_exit, pw_exited_at_ms = None\<rparr>"

fun on_parent_exit_of :: "on_parent_exit_option \<Rightarrow> on_parent_exit" where
  "on_parent_exit_of Option_Terminate = OnParent_Terminate"
| "on_parent_exit_of Option_Detach = OnParent_Detach"

text \<open>The parent PID (zero when it does not fit) and the inventory's answer about it are arguments.\<close>

definition establish_parent_watch ::
    "i32 \<Rightarrow> process_observation option \<Rightarrow> bool \<Rightarrow> on_parent_exit_option \<Rightarrow> parent_watch_state" where
  "establish_parent_watch ppid inspected hangup_ignored opt =
     (let on_exit = on_parent_exit_of opt; wants_detach = (opt = Option_Detach)
      in if ppid \<le> 1 \<and> \<not> wants_detach then unwatched Watch_ParentIsLaunchd on_exit
         else if hangup_ignored \<and> \<not> wants_detach then unwatched Watch_HangupIgnored on_exit
         else case inspected of
           Some observation \<Rightarrow>
             (if \<not> po_exited observation
              then \<lparr>pw_parent = Some (po_identity observation),
                    pw_watch = (if wants_detach then Watch_Detach else Watch_Active),
                    pw_on_parent_exit = on_exit, pw_exited_at_ms = None\<rparr>
              else unwatched Watch_ParentUnobservable on_exit)
         | None \<Rightarrow> unwatched Watch_ParentUnobservable on_exit)"

definition parent_watch_state_for ::
    "i32 \<Rightarrow> process_observation option \<Rightarrow> bool option \<Rightarrow> on_parent_exit_option \<Rightarrow> parent_watch_state" where
  "parent_watch_state_for ppid inspected hangup opt =
     (case hangup of
        Some hangup_ignored \<Rightarrow> establish_parent_watch ppid inspected hangup_ignored opt
      | None \<Rightarrow> unwatched Watch_ParentUnobservable (on_parent_exit_of opt))"

text \<open>
  \<open>parent_has_exited\<close>: the current parent PID and the inventory's answer about the recorded
  identity (\<open>None\<close> for an error, else whether the process has exited) are arguments.
\<close>

definition parent_has_exited ::
    "parent_watch_state \<Rightarrow> i32 \<Rightarrow> bool option \<Rightarrow> dur \<Rightarrow> parent_watch_state \<times> bool" where
  "parent_has_exited s ppid expected_exited now =
     (if pw_exited_at_ms s \<noteq> None then (s, False)
      else case pw_parent s of
        None \<Rightarrow> (s, False)
      | Some parent \<Rightarrow>
          (if ppid = id_pid parent then (s, False)
           else if expected_exited = Some False then (s, False)
           else (s\<lparr>pw_exited_at_ms := Some (duration_ms now)\<rparr>, True)))"

section \<open>The recorded configuration\<close>

definition observe_configuration :: "common_options \<Rightarrow> parent_watch_state \<Rightarrow> report_configuration" where
  "observe_configuration common watch =
     (let (window, age) = sample_quality_bounds (co_sample_interval common)
      in \<lparr>rc_mode = ReportObserve, rc_max_footprint_bytes = None, rc_warning_footprint_bytes = None,
          rc_recovery_footprint_bytes = None, rc_emergency_footprint_bytes = None,
          rc_required_breach_samples = REQUIRED_BREACH_SAMPLES,
          rc_max_missing_samples = MAX_MISSING_SAMPLES, rc_wall_time_ms = None,
          rc_sample_interval_ms = duration_ms (co_sample_interval common),
          rc_max_sample_age_ms = duration_ms age, rc_max_sample_window_ms = duration_ms window,
          rc_checkpoint_timeout_ms = None, rc_term_grace_ms = duration_ms TERM_GRACE,
          rc_on_parent_exit = Some (pw_on_parent_exit watch), rc_parent_watch = Some (pw_watch watch)\<rparr>)"

definition run_configuration :: "run_options \<Rightarrow> parent_watch_state \<Rightarrow> report_configuration" where
  "run_configuration options watch =
     (let policy = run_policy_config options
      in \<lparr>rc_mode = ReportEnforce,
          rc_max_footprint_bytes = Some (pc_limit_bytes policy),
          rc_warning_footprint_bytes = Some (pc_warning_bytes policy),
          rc_recovery_footprint_bytes = Some (pc_recovery_bytes policy),
          rc_emergency_footprint_bytes = Some (pc_emergency_bytes policy),
          rc_required_breach_samples = pc_required_breach_samples policy,
          rc_max_missing_samples = pc_max_missing_samples policy,
          rc_wall_time_ms = map_option duration_ms (pc_wall_time policy),
          rc_sample_interval_ms = duration_ms (co_sample_interval (ro_common options)),
          rc_max_sample_age_ms = duration_ms (pc_max_sample_age policy),
          rc_max_sample_window_ms = duration_ms (pc_max_sample_window policy),
          rc_checkpoint_timeout_ms = map_option duration_ms (pc_checkpoint_timeout policy),
          rc_term_grace_ms = duration_ms (pc_term_grace policy),
          rc_on_parent_exit = Some (pw_on_parent_exit watch), rc_parent_watch = Some (pw_watch watch)\<rparr>)"

end
