(* ===== verification/Cli_Props.thy ===== *)
theory Cli_Props
  imports Cli Sampling_Props "HOL-Library.Sublist"
begin

text \<open>
  The quantities of the command line mean what they say, and an accepted command line yields
  configurations that every later stage accepts.
\<close>

section \<open>Quantities\<close>

text \<open>
  The tables of suffixes are unambiguous: a suffix has no digit, and none is a tail of a later one.
\<close>

definition unambiguous :: "(string \<times> u64) list \<Rightarrow> bool" where
  "unambiguous table \<longleftrightarrow>
     list_all (\<lambda>p. list_all (\<lambda>c. \<not> ascii_digit c) (fst p)) table
   \<and> sorted_wrt (\<lambda>p q. \<not> suffix (fst p) (fst q)) table"

lemma tables_unambiguous: "unambiguous byte_suffixes" "unambiguous duration_suffixes"
  by (simp_all add: unambiguous_def byte_suffixes_def duration_suffixes_def ascii_digit_def
      suffix_def Cons_eq_append_conv)

lemma find_suffix_mem:
  "find_suffix table v = Some (digits, m) \<Longrightarrow> \<exists>s. (s, m) \<in> set table \<and> v = digits @ s"
  by (induction table) (force simp: strip_suffix_Some split: option.splits)+

lemma tail_of_suffix:
  assumes "list_all ascii_digit digits" and "list_all (\<lambda>c. \<not> ascii_digit c) t"
    and "digits @ s = r @ t"
  shows "suffix t s"
proof (cases "length t \<le> length s")
  case True
  with assms(3) show ?thesis by (metis suffix_length_suffix suffixI)
next
  case False
  then have "suffix s t" using assms(3) by (metis nat_le_linear suffix_length_suffix suffixI)
  then obtain u where t: "t = u @ s" by (auto simp: suffix_def)
  with assms(3) have "digits = r @ u" by simp
  with assms(1,2) t have "u = []" by (cases u) auto
  with t show ?thesis by simp
qed

lemma find_suffix_digits:
  assumes "unambiguous table" and "(s, m) \<in> set table" and "list_all ascii_digit digits"
  shows "\<exists>m. find_suffix table (digits @ s) = Some (digits, m) \<and> (s, m) \<in> set table"
  using assms
proof (induction table)
  case Nil
  then show ?case by simp
next
  case (Cons p table)
  obtain t k where p: "p = (t, k)" by force
  show ?case
  proof (cases "strip_suffix t (digits @ s)")
    case None
    then have "(s, m) \<in> set table"
      using Cons.prems(2) by (auto simp: p strip_suffix_def)
    with Cons show ?thesis by (auto simp: p None unambiguous_def)
  next
    case (Some r)
    then have "digits @ s = r @ t" by (simp add: strip_suffix_Some)
    then have "suffix t s"
      using Cons.prems by (intro tail_of_suffix) (auto simp: p unambiguous_def)
    then have "s = t" using Cons.prems(1,2) by (auto simp: p unambiguous_def)
    with Some \<open>digits @ s = r @ t\<close> show ?thesis by (simp add: p)
  qed
qed

lemma parse_u64_Some: "parse_u64 d = Some n \<longleftrightarrow> unat n = decimal d"
proof -
  have "unat (n :: u64) < 2 ^ 64" using unsigned_less [of n] by simp
  then show ?thesis by (auto simp: parse_u64_def unat_of_nat word_unat_eq_iff)
qed

lemma parse_positive_integer_Ok:
  "parse_positive_integer d name = Ok n
   \<longleftrightarrow> d \<noteq> [] \<and> list_all ascii_digit d \<and> 0 < decimal d \<and> unat n = decimal d"
proof -
  have zero: "k = 0 \<longleftrightarrow> unat k = 0" for k :: u64 by (simp add: unat_eq_0)
  show ?thesis
  proof (cases "parse_u64 d")
    case None
    then have "unat n \<noteq> decimal d" using parse_u64_Some [of d n] by simp
    then show ?thesis by (simp add: parse_positive_integer_def None)
  next
    case (Some k)
    then have k: "unat k = decimal d" by (simp add: parse_u64_Some)
    have "n = k \<longleftrightarrow> unat n = decimal d" by (simp add: word_unat_eq_iff k)
    then show ?thesis by (auto simp: parse_positive_integer_def Some zero k)
  qed
qed

lemma scaled_Ok:
  assumes "0 < unat m"
  shows "(case parse_positive_integer d name of
       Inl err \<Rightarrow> Err err
     | Inr parsed \<Rightarrow>
         (case checked_mul parsed m of None \<Rightarrow> Err overflow | Some b \<Rightarrow> Ok (f b))) = Ok x
   \<longleftrightarrow> d \<noteq> [] \<and> list_all ascii_digit d \<and> 0 < decimal d \<and> (\<exists>b. unat b = decimal d * unat m \<and> x = f b)"
    (is "?lhs \<longleftrightarrow> ?rhs")
proof
  assume ?lhs
  then obtain k b where "parse_positive_integer d name = Ok k" "checked_mul k m = Some b" "x = f b"
    by (auto split: sum.splits option.splits)
  then show ?rhs by (auto simp: parse_positive_integer_Ok checked_mul_Some)
next
  assume r: ?rhs
  then obtain b where b: "unat b = decimal d * unat m" "x = f b" by blast
  have "decimal d \<le> unat b" using assms b(1) by simp
  also have "unat b < 2 ^ LENGTH(64)" by (rule unsigned_less)
  finally obtain k where k: "parse_u64 d = Some k" by (simp add: parse_u64_def)
  then have "unat k = decimal d" by (simp add: parse_u64_Some)
  with r have "parse_positive_integer d name = Ok k" by (simp add: parse_positive_integer_Ok)
  moreover have "checked_mul k m = Some b"
    using b(1) \<open>unat k = decimal d\<close> by (simp add: checked_mul_Some)
  ultimately show ?lhs using b(2) by simp
qed

text \<open>A quantity: decimal digits, positive, and one of the suffixes.\<close>

definition quantity :: "(string \<times> u64) list \<Rightarrow> string \<Rightarrow> nat \<Rightarrow> bool" where
  "quantity table v n \<longleftrightarrow> (\<exists>digits s m. v = digits @ s \<and> (s, m) \<in> set table
     \<and> digits \<noteq> [] \<and> list_all ascii_digit digits \<and> 0 < decimal digits
     \<and> n = decimal digits * unat m)"

lemma distinct_keys: "distinct (map fst byte_suffixes)" "distinct (map fst duration_suffixes)"
  by (simp_all add: byte_suffixes_def duration_suffixes_def)

lemma quantity_found:
  assumes "unambiguous table" and "distinct (map fst table)"
  shows "quantity table v n \<longleftrightarrow> (\<exists>digits m. find_suffix table v = Some (digits, m)
     \<and> digits \<noteq> [] \<and> list_all ascii_digit digits \<and> 0 < decimal digits \<and> n = decimal digits * unat m)"
proof
  assume "quantity table v n"
  then obtain digits s m where q: "v = digits @ s" "(s, m) \<in> set table" "digits \<noteq> []"
    "list_all ascii_digit digits" "0 < decimal digits" "n = decimal digits * unat m"
    by (auto simp: quantity_def)
  from find_suffix_digits [OF assms(1) q(2,4)] obtain k
    where k: "find_suffix table v = Some (digits, k)" "(s, k) \<in> set table" using q(1) by blast
  have "k = m" using assms(2) k(2) q(2) by (metis eq_key_imp_eq_value)
  then show "\<exists>digits m. find_suffix table v = Some (digits, m)
     \<and> digits \<noteq> [] \<and> list_all ascii_digit digits \<and> 0 < decimal digits \<and> n = decimal digits * unat m"
    using k q by blast
next
  assume "\<exists>digits m. find_suffix table v = Some (digits, m)
     \<and> digits \<noteq> [] \<and> list_all ascii_digit digits \<and> 0 < decimal digits \<and> n = decimal digits * unat m"
  then show "quantity table v n" unfolding quantity_def by (metis find_suffix_mem)
qed

lemma table_scales:
  "find_suffix byte_suffixes v = Some (d, m) \<Longrightarrow> 0 < unat m"
  "find_suffix duration_suffixes v = Some (d, m) \<Longrightarrow> 0 < unat m"
  using find_suffix_mem [of byte_suffixes v d m] find_suffix_mem [of duration_suffixes v d m]
  by (auto simp: byte_suffixes_def duration_suffixes_def simp del: find_suffix.simps)

lemma parse_bytes_Ok: "parse_bytes v = Ok n \<longleftrightarrow> quantity byte_suffixes v (unat n)"
proof (cases "find_suffix byte_suffixes v")
  case None
  then show ?thesis
    by (simp add: parse_bytes_def quantity_found [OF tables_unambiguous(1) distinct_keys(1)])
next
  case (Some p)
  obtain d m where p: "p = (d, m)" by force
  show ?thesis
    using scaled_Ok [where d = d and f = "\<lambda>b. b" and x = n, OF table_scales(1) [OF Some [unfolded p]]]
    by (auto simp: parse_bytes_def Some p quantity_found [OF tables_unambiguous(1) distinct_keys(1)]
        word_unat_eq_iff)
qed

lemma parse_duration_Ok:
  "parse_duration v = Ok t
   \<longleftrightarrow> (\<exists>ms. quantity duration_suffixes v ms \<and> ms < 2 ^ 64 \<and> t = from_millis ms)"
proof (cases "find_suffix duration_suffixes v")
  case None
  then show ?thesis
    by (simp add: parse_duration_def quantity_found [OF tables_unambiguous(2) distinct_keys(2)])
next
  case (Some p)
  obtain d m where p: "p = (d, m)" by force
  have ex: "(\<exists>b :: u64. unat b = n \<and> t = from_millis (unat b)) \<longleftrightarrow> n < 2 ^ 64 \<and> t = from_millis n" for n
  proof
    assume "\<exists>b :: u64. unat b = n \<and> t = from_millis (unat b)"
    then obtain b :: u64 where "unat b = n" "t = from_millis (unat b)" by blast
    moreover have "unat b < 2 ^ LENGTH(64)" by (rule unsigned_less)
    ultimately show "n < 2 ^ 64 \<and> t = from_millis n" by simp
  next
    assume "n < 2 ^ 64 \<and> t = from_millis n"
    then show "\<exists>b :: u64. unat b = n \<and> t = from_millis (unat b)"
      by (intro exI [of _ "of_nat n"]) (simp add: unat_of_nat)
  qed
  show ?thesis
    using scaled_Ok [where d = d and f = "\<lambda>b. from_millis (unat b)" and x = t,
        OF table_scales(2) [OF Some [unfolded p]]]
    by (auto simp: parse_duration_def Some p ex quantity_found [OF tables_unambiguous(2) distinct_keys(2)])
qed

text \<open>C35. The quantities of the command line are exact. A byte quantity is accepted if and only if it is a
  positive decimal integer followed by one of the five suffixes and the product fits into 64 bits, and
  then it is that product; likewise for durations in milliseconds. Nothing wraps, and no suffix is
  mistaken for another.\<close>

theorem quantities_are_exact:
  "(parse_bytes v = Ok n \<longleftrightarrow> quantity byte_suffixes v (unat n))
   \<and> (parse_duration v = Ok t
      \<longleftrightarrow> (\<exists>ms. quantity duration_suffixes v ms \<and> ms < 2 ^ 64 \<and> t = from_millis ms))"
  by (simp add: parse_bytes_Ok parse_duration_Ok)

section \<open>Accepted command lines\<close>

text \<open>The library passed the option's text through its value parser.\<close>

definition parsed_by :: "(string \<Rightarrow> string + dur) \<Rightarrow> dur option \<Rightarrow> bool" where
  "parsed_by p v \<longleftrightarrow> (case v of None \<Rightarrow> True | Some t \<Rightarrow> \<exists>s. p s = Ok t)"

lemma parse_duration_positive: "parse_duration s = Ok t \<Longrightarrow> 1000000 \<le> t"
  by (auto simp: parse_duration_Ok quantity_def from_millis_def duration_suffixes_def)

lemma bounded_durations:
  "parse_wall_time s = Ok t \<Longrightarrow> parse_duration s = Ok t"
  "parse_checkpoint_timeout s = Ok t \<Longrightarrow> parse_duration s = Ok t"
  by (auto simp: parse_wall_time_def parse_checkpoint_timeout_def split: sum.splits if_splits)

lemma parsed_durations_positive:
  "parsed_by parse_wall_time (Some t) \<Longrightarrow> 1000000 \<le> t"
  "parsed_by parse_checkpoint_timeout (Some t) \<Longrightarrow> 1000000 \<le> t"
  by (auto simp: parsed_by_def dest!: bounded_durations parse_duration_positive)

text \<open>What the checks of the command line establish about the options.\<close>

definition run_options_ok :: "run_options \<Rightarrow> bool" where
  "run_options_ok opts \<longleftrightarrow>
     2 \<le> unat (ro_max_footprint_bytes opts)
   \<and> unat (ro_max_footprint_bytes opts) + unat (policy_band_step (ro_max_footprint_bytes opts)) < 2 ^ 64
   \<and> 10000000 \<le> co_sample_interval (ro_common opts) \<and> co_sample_interval (ro_common opts) \<le> 10000000000
   \<and> (case ro_wall_time opts of None \<Rightarrow> True | Some t \<Rightarrow> 1000000 \<le> t)
   \<and> (case ro_checkpoint_timeout opts of None \<Rightarrow> True | Some t \<Rightarrow> 1000000 \<le> t)"

lemma accepted_run_options:
  assumes "parse_cli (Raw_Run limit wall timeout raw) = Ok (Mode_Run opts)"
    and "parsed_by parse_wall_time wall" and "parsed_by parse_checkpoint_timeout timeout"
  shows "run_options_ok opts"
proof -
  have two: "\<not> limit < 2 \<Longrightarrow> 2 \<le> unat limit" by (simp add: word_less_nat_alt)
  from assms(1) have "\<not> limit < 2"
    and "checked_add limit (policy_band_step limit) \<noteq> None"
    and o: "ro_max_footprint_bytes opts = limit" "ro_wall_time opts = wall" "ro_checkpoint_timeout opts = timeout"
    and iv: "MIN_SAMPLE_INTERVAL \<le> co_sample_interval (ro_common opts)"
      "co_sample_interval (ro_common opts) \<le> MAX_SAMPLE_INTERVAL"
    by (auto simp: parse_cli_def normalize_def split: if_splits sum.splits)
  then show ?thesis
    using two parsed_durations_positive assms(2,3)
    by (auto simp: run_options_ok_def checked_add_None MIN_SAMPLE_INTERVAL_def
        MAX_SAMPLE_INTERVAL_def from_millis_def from_secs_def split: option.splits)
qed

lemma band_step_bounds:
  assumes "2 \<le> unat limit"
  shows "0 < unat (policy_band_step limit)" and "unat (policy_band_step limit) < unat limit"
proof -
  have "unat (policy_band_step limit) = (if unat limit div 10 = 0 then 1 else unat limit div 10)"
    by (auto simp: policy_band_step_def Let_def unat_div word_unat_eq_iff)
  then show "0 < unat (policy_band_step limit)" and "unat (policy_band_step limit) < unat limit"
    using assms by auto
qed

lemma quality_bounds:
  assumes "i \<le> 10000000000"
  shows "sample_quality_bounds i = (max i 250000000, max (2 * i) 500000000)"
  using assms by (simp add: sample_quality_bounds_def dur_sat_mul_def DURATION_MAX_def
      MIN_SAMPLE_WINDOW_def MIN_SAMPLE_AGE_def from_millis_def)

lemma run_policy_config_valid:
  assumes "run_options_ok opts"
  shows "valid_config (run_policy_config opts)"
proof -
  have l: "2 \<le> unat (ro_max_footprint_bytes opts)"
    and sum: "unat (ro_max_footprint_bytes opts) + unat (policy_band_step (ro_max_footprint_bytes opts)) < 2 ^ 64"
    using assms by (simp_all add: run_options_ok_def)
  note s = band_step_bounds [OF l]
  have bands: "pc_recovery_bytes (run_policy_config opts) < pc_warning_bytes (run_policy_config opts)"
    "pc_warning_bytes (run_policy_config opts) < pc_limit_bytes (run_policy_config opts)"
    "pc_limit_bytes (run_policy_config opts) < pc_emergency_bytes (run_policy_config opts)"
    using l s sum
    by (simp_all add: run_policy_config_def Let_def split_beta word_less_nat_alt unat_sat_sub unat_sat_add)
  show ?thesis
    using assms bands
    by (auto simp: valid_config_def run_policy_config_def Let_def split_beta run_options_ok_def
        quality_bounds REQUIRED_BREACH_SAMPLES_def MAX_MISSING_SAMPLES_def TERM_GRACE_def
        DEFAULT_CHECKPOINT_TIMEOUT_def from_secs_def split: option.splits)
qed

lemma sampling_config_accepted:
  assumes "run_options_ok opts"
  shows "\<exists>sc. sampling_config_for (ro_common opts) = Ok sc \<and> same_bounds sc (run_policy_config opts)"
  using assms
  by (auto simp: sampling_config_for_def run_options_ok_def quality_bounds sampling_config_new_def
      MIN_SAMPLE_INTERVAL_def MAX_SAMPLE_INTERVAL_def MAX_SAMPLE_HISTORY_CAPACITY_def
      from_millis_def from_secs_def same_bounds_def run_policy_config_def Let_def)

text \<open>The polls of the parent during a run.\<close>

definition watch_run :: "parent_watch_state \<Rightarrow> (i32 \<times> bool option \<times> dur) list \<Rightarrow> parent_watch_state" where
  "watch_run = foldl (\<lambda>s p. fst (parent_has_exited s (fst p) (fst (snd p)) (snd (snd p))))"

definition watch_ok :: "on_parent_exit_option \<Rightarrow> parent_watch_state \<Rightarrow> bool" where
  "watch_ok opt w \<longleftrightarrow>
     pw_on_parent_exit w = on_parent_exit_of opt
   \<and> (pw_exited_at_ms w \<noteq> None \<longrightarrow> pw_parent w \<noteq> None)
   \<and> (pw_parent w \<noteq> None \<longrightarrow> pw_watch w \<in> {Watch_Active, Watch_Detach})
   \<and> (pw_watch w = Watch_Detach \<longrightarrow> opt = Option_Detach)
   \<and> (opt = Option_Detach \<longrightarrow> pw_watch w \<in> {Watch_Detach, Watch_ParentUnobservable})"

lemma watch_ok_start: "watch_ok opt (parent_watch_state_for ppid inspected hangup opt)"
  by (cases opt)
    (auto simp: watch_ok_def parent_watch_state_for_def establish_parent_watch_def unwatched_def
      Let_def split: option.splits)

lemma watch_ok_step: "watch_ok opt w \<Longrightarrow> watch_ok opt (fst (parent_has_exited w p e t))"
  by (auto simp: watch_ok_def parent_has_exited_def split: option.splits)

lemma watch_ok_run: "watch_ok opt w \<Longrightarrow> watch_ok opt (watch_run w polls)"
  unfolding watch_run_def by (induction polls arbitrary: w) (auto intro: watch_ok_step)

lemma watch_run_keeps: "pw_watch (watch_run w polls) = pw_watch w"
  "pw_on_parent_exit (watch_run w polls) = pw_on_parent_exit w"
  unfolding watch_run_def
  by (induction polls arbitrary: w)
    (auto simp: parent_has_exited_def split: option.splits)

lemma ms_positive: "1000000 \<le> d \<Longrightarrow> 0 < duration_ms d"
  by (simp add: word_less_nat_alt unat_duration_ms min_def) (simp add: div_greater_zero_iff)

lemma run_configuration_valid:
  assumes ok: "run_options_ok opts" and watch: "watch_ok (co_on_parent_exit (ro_common opts)) w"
    and conf: "rep_configuration r = run_configuration opts w0"
    and same: "pw_watch w0 = pw_watch w" "pw_on_parent_exit w0 = pw_on_parent_exit w"
    and out: "to_parent_exited_at_ms (rep_outcome r) = pw_exited_at_ms w"
  shows "configuration_valid r"
proof -
  have v: "valid_config (run_policy_config opts)" by (rule run_policy_config_valid [OF ok])
  have big: "1000000 \<le> pc_max_sample_age (run_policy_config opts)"
    "1000000 \<le> pc_max_sample_window (run_policy_config opts)"
    "1000000 \<le> pc_term_grace (run_policy_config opts)"
    "1000000 \<le> co_sample_interval (ro_common opts)"
    "case pc_checkpoint_timeout (run_policy_config opts) of None \<Rightarrow> True | Some t \<Rightarrow> 1000000 \<le> t"
    "case pc_wall_time (run_policy_config opts) of None \<Rightarrow> True | Some t \<Rightarrow> 1000000 \<le> t"
    using ok
    by (auto simp: run_policy_config_def Let_def split_beta run_options_ok_def quality_bounds
        TERM_GRACE_def DEFAULT_CHECKPOINT_TIMEOUT_def from_secs_def split: option.splits)
  have w: "pw_exited_at_ms w = None \<or> pw_watch w = Watch_Active \<or> pw_watch w = Watch_Detach"
    "pw_watch w \<noteq> Watch_Detach \<or> pw_on_parent_exit w = OnParent_Detach"
    "pw_on_parent_exit w \<noteq> OnParent_Detach \<or> pw_watch w = Watch_Detach
     \<or> pw_watch w = Watch_ParentUnobservable"
    using watch by (auto simp: watch_ok_def) (cases "co_on_parent_exit (ro_common opts)"; simp)+
  show ?thesis
    using v big w
    by (auto simp: configuration_valid_def conf run_configuration_def Let_def same out valid_config_def
        ms_positive split: option.splits)
qed

text \<open>C37. Whatever the command line accepts can be enforced, sampled and reported: the derived memory
  bands are strictly ordered below the 64-bit limit, the policy machine and the sampler accept their
  configurations, both with the same quality bounds, and the configuration recorded in the report
  passes the report's own validation, whatever the parent watch finds during the run.\<close>

theorem accepted_runs_are_enforceable:
  assumes "parse_cli (Raw_Run limit wall timeout raw) = Ok (Mode_Run options)"
    and "parsed_by parse_wall_time wall" and "parsed_by parse_checkpoint_timeout timeout"
    and "request_id \<noteq> 0"
    and "w = parent_watch_state_for ppid inspected hangup (co_on_parent_exit (ro_common options))"
  shows "(\<exists>m. enforce_with_initial_request_id (run_policy_config options) request_id = Ok m)
    \<and> (\<exists>sc. sampling_config_for (ro_common options) = Ok sc \<and> same_bounds sc (run_policy_config options))
    \<and> configuration_valid (r\<lparr>rep_configuration := run_configuration options w,
        rep_outcome := out\<lparr>to_parent_exited_at_ms := pw_exited_at_ms (watch_run w polls)\<rparr>\<rparr>)"
proof -
  note ok = accepted_run_options [OF assms(1-3)]
  have w: "watch_ok (co_on_parent_exit (ro_common options)) (watch_run w polls)"
    unfolding assms(5) by (intro watch_ok_run watch_ok_start)
  have "configuration_valid (r\<lparr>rep_configuration := run_configuration options w,
      rep_outcome := out\<lparr>to_parent_exited_at_ms := pw_exited_at_ms (watch_run w polls)\<rparr>\<rparr>)"
    by (rule run_configuration_valid [OF ok w]) (simp_all add: watch_run_keeps)
  moreover have "\<exists>m. enforce_with_initial_request_id (run_policy_config options) request_id = Ok m"
    using run_policy_config_valid [OF ok] assms(4) by (simp add: enforce_with_initial_request_id_def)
  ultimately show ?thesis using sampling_config_accepted [OF ok] by blast
qed

section \<open>Witnesses\<close>

definition demo_raw :: raw_common where
  "demo_raw =
    \<lparr>raw_sample_interval = 50000000, raw_report_path = ''r.json'', raw_cwd = None, raw_clear_env = False,
     raw_env = [], raw_client_ready_fd = None, raw_on_parent_exit = Option_Terminate,
     raw_command_line = [''python'']\<rparr>"

definition demo_run_options :: run_options where
  "demo_run_options =
    \<lparr>ro_max_footprint_bytes = 1000, ro_wall_time = None, ro_checkpoint_timeout = None,
     ro_common = \<lparr>co_sample_interval = 50000000, co_report_path = ''r.json'', co_cwd = None,
       co_clear_env = False, co_env = RBT.empty, co_client_ready_fd = None,
       co_on_parent_exit = Option_Terminate, co_command = [''python'']\<rparr>\<rparr>"

lemma demo_run_accepted: "parse_cli (Raw_Run 1000 None None demo_raw) = Ok (Mode_Run demo_run_options)"
  by (simp add: parse_cli_def normalize_def demo_raw_def demo_run_options_def checked_add_def
      policy_band_step_def MIN_SAMPLE_INTERVAL_def MAX_SAMPLE_INTERVAL_def from_millis_def from_secs_def)

theorem accepted_runs_are_enforceable_witness:
  "\<exists>m. enforce_with_initial_request_id (run_policy_config demo_run_options) 7 = Ok m"
  by (rule accepted_runs_are_enforceable
      [OF demo_run_accepted, of 7, OF _ _ _ refl, THEN conjunct1])
    (simp_all add: parsed_by_def)

end
