(* ===== verification/Journal.thy ===== *)
theory Journal
  imports Bytes Report Outcome
begin

text \<open>
  \<^verbatim>\<open>mlx-guard-core/src/persistence.rs\<close>: the append-only journal of checksummed records, its
  recovery, the replay of the records into a report, and the journal wrapper that survives a storage
  failure. The file is its bytes; whether a write or a synchronization succeeds, and how much of a
  failed write reached the file, is an argument of each append. The JSON library is the pair
  \<open>to_vec\<close>, \<open>from_slice\<close>. Paths, permissions and the directory are in \<^verbatim>\<open>Storage\<close>,
  recovery as a sequence of reads is in \<^verbatim>\<open>Recovery\<close>.
\<close>

definition JOURNAL_MAGIC :: bytes where
  "JOURNAL_MAGIC = [0x4D, 0x4C, 0x58, 0x47, 0x4A, 0x4E, 0x4C, 0x01]"
definition JOURNAL_RECORD_VERSION :: u16 where "JOURNAL_RECORD_VERSION = 1"
definition MAX_JOURNAL_RECORD_BYTES :: nat where "MAX_JOURNAL_RECORD_BYTES = 64 * 1024"
definition MAX_RECOVERED_RECORDS :: nat where "MAX_RECOVERED_RECORDS = 65536"

section \<open>Checksum\<close>

text \<open>One of the eight rounds per byte: the mask \<open>0.wrapping_sub(crc & 1)\<close> keeps the polynomial or not.\<close>

definition crc_round :: "u32 \<Rightarrow> u32" where
  "crc_round crc = (let mask = 0 - (and crc 1) in xor (drop_bit 1 crc) (and 0xEDB88320 mask))"

definition crc_byte :: "u32 \<Rightarrow> u8 \<Rightarrow> u32" where
  "crc_byte crc byte = (crc_round ^^ 8) (xor crc (ucast byte))"

definition crc32 :: "bytes \<Rightarrow> u32" where
  "crc32 bs = not (foldl crc_byte (- 1) bs)"

section \<open>Records\<close>

datatype storage_error_kind =
    InvalidPath
  | UnsafeDirectory
  | JournalExists
  | CreateJournalFailed
  | JournalWriteFailed
  | SyncFailed
  | JournalReadFailed
  | InvalidRecord
  | UnsafeTarget
  | FinalizeFailed

datatype journal_durability = Buffered | Sync

record journal_header =
  jh_schema_version :: u32
  jh_package_version :: string
  jh_run :: run_identity
  jh_capabilities :: capabilities
  jh_configuration :: report_configuration
  jh_privacy :: privacy_defaults

datatype journal_entry =
    E_Header journal_header
  | E_Sample sample_window
  | E_SampleHistoryReset
  | E_Transition transition_record
  | E_Signal signal_record
  | E_Checkpoint checkpoint_record
  | E_Escape escape_evidence
  | E_ArtifactError artifact_error_record
  | E_Calibration calibration_artifact
  | E_Outcome terminal_outcome

record journal_record =
  jr_version :: u16
  jr_sequence :: u64
  jr_entry :: journal_entry

definition journal_record_new :: "u64 \<Rightarrow> journal_entry \<Rightarrow> journal_record" where
  "journal_record_new sequence entry =
    \<lparr>jr_version = JOURNAL_RECORD_VERSION, jr_sequence = sequence, jr_entry = entry\<rparr>"

fun requires_sync :: "journal_entry \<Rightarrow> bool" where
  "requires_sync (E_Header _) = True"
| "requires_sync E_SampleHistoryReset = True"
| "requires_sync (E_Transition _) = True"
| "requires_sync (E_Signal _) = True"
| "requires_sync (E_Checkpoint _) = True"
| "requires_sync (E_Outcome _) = True"
| "requires_sync _ = False"

section \<open>Appending\<close>

record secure_journal =
  sj_file :: bytes
  sj_next_sequence :: u64
  sj_failed :: bool

text \<open>The journal after \<open>initialize\<close> succeeded: the magic is written and synchronized.\<close>

definition journal_initialized :: secure_journal where
  "journal_initialized = \<lparr>sj_file = JOURNAL_MAGIC, sj_next_sequence = 0, sj_failed = False\<rparr>"

text \<open>What the file system does with the writes and the synchronization of one append.\<close>

datatype append_io = Io_Ok | Io_WriteFails nat | Io_SyncFails

text \<open>Length, payload, checksum.\<close>

definition record_frame :: "bytes \<Rightarrow> bytes" where
  "record_frame payload = be_bytes 4 (length payload) @ payload @ be_bytes 4 (unat (crc32 payload))"

definition journal_append ::
    "(journal_record \<Rightarrow> bytes option) \<Rightarrow> append_io \<Rightarrow> secure_journal \<Rightarrow> journal_record
     \<Rightarrow> journal_durability \<Rightarrow> secure_journal \<times> (storage_error_kind + unit)" where
  "journal_append to_vec io j r durability =
     (if sj_failed j
         \<or> jr_version r \<noteq> JOURNAL_RECORD_VERSION
         \<or> jr_sequence r \<noteq> sj_next_sequence j
         \<or> requires_sync (jr_entry r) \<and> durability \<noteq> Sync
      then (j, Err InvalidRecord)
      else case to_vec r of
        None \<Rightarrow> (j, Err InvalidRecord)
      | Some payload \<Rightarrow>
          (if MAX_JOURNAL_RECORD_BYTES < length payload then (j, Err InvalidRecord)
           else
             let frame = record_frame payload;
                 written = j\<lparr>sj_file := sj_file j @ frame\<rparr>
             in case io of
                  Io_WriteFails n \<Rightarrow>
                    (j\<lparr>sj_file := sj_file j @ take n frame, sj_failed := True\<rparr>,
                     Err JournalWriteFailed)
                | Io_SyncFails \<Rightarrow>
                    (if durability = Sync then (written\<lparr>sj_failed := True\<rparr>, Err SyncFailed)
                     else (written\<lparr>sj_next_sequence := sat_add (sj_next_sequence j) 1\<rparr>, Ok ()))
                | Io_Ok \<Rightarrow>
                    (written\<lparr>sj_next_sequence := sat_add (sj_next_sequence j) 1\<rparr>, Ok ())))"

definition journal_flush :: "bool \<Rightarrow> secure_journal \<Rightarrow> secure_journal \<times> (storage_error_kind + unit)" where
  "journal_flush sync_ok j =
     (if sj_failed j then (j, Err SyncFailed)
      else if \<not> sync_ok then (j\<lparr>sj_failed := True\<rparr>, Err SyncFailed)
      else (j, Ok ()))"

definition append_next ::
    "(journal_record \<Rightarrow> bytes option) \<Rightarrow> append_io \<Rightarrow> secure_journal \<Rightarrow> journal_entry
     \<Rightarrow> journal_durability \<Rightarrow> secure_journal \<times> (storage_error_kind + unit)" where
  "append_next to_vec io j entry durability =
     journal_append to_vec io j (journal_record_new (sj_next_sequence j) entry) durability"

text \<open>The appends of \<open>append_report\<close> in order; the first failure ends them.\<close>

fun append_entries ::
    "(journal_record \<Rightarrow> bytes option) \<Rightarrow> (nat \<Rightarrow> append_io) \<Rightarrow> secure_journal
     \<Rightarrow> (journal_entry \<times> journal_durability) list
     \<Rightarrow> secure_journal \<times> (storage_error_kind + unit)" where
  "append_entries to_vec io j [] = (j, Ok ())"
| "append_entries to_vec io j ((entry, durability) # rest) =
     (case append_next to_vec (io (unat (sj_next_sequence j))) j entry durability of
        (j, Inl err) \<Rightarrow> (j, Err err)
      | (j, Inr _) \<Rightarrow> append_entries to_vec io j rest)"

definition header_of :: "report_v1 \<Rightarrow> journal_header" where
  "header_of r =
    \<lparr>jh_schema_version = rep_schema_version r, jh_package_version = rep_package_version r,
     jh_run = rep_run r, jh_capabilities = rep_capabilities r,
     jh_configuration = rep_configuration r, jh_privacy = rep_privacy r\<rparr>"

definition report_entries :: "report_v1 \<Rightarrow> (journal_entry \<times> journal_durability) list" where
  "report_entries r =
     [(E_Header (header_of r), Sync)]
     @ map (\<lambda>s. (E_Sample s, Buffered)) (rep_samples r)
     @ map (\<lambda>t. (E_Transition t, Sync)) (rep_transitions r)
     @ map (\<lambda>s. (E_Signal s, Sync)) (rep_signals r)
     @ [(E_Checkpoint (rep_checkpoint r), Sync), (E_Escape (rep_escape r), Buffered)]
     @ map (\<lambda>e. (E_ArtifactError e, Buffered)) (rep_artifact_errors r)
     @ (case rep_calibration r of None \<Rightarrow> [] | Some c \<Rightarrow> [(E_Calibration c, Buffered)])
     @ [(E_Outcome (rep_outcome r), Sync)]"

definition append_report ::
    "(journal_record \<Rightarrow> bytes option) \<Rightarrow> (nat \<Rightarrow> append_io) \<Rightarrow> secure_journal \<Rightarrow> report_v1
     \<Rightarrow> secure_journal \<times> (storage_error_kind + unit)" where
  "append_report to_vec io j r =
     (if validate r \<noteq> (Ok () :: unit report_error + unit) then (j, Err InvalidRecord)
      else if sj_next_sequence j \<noteq> 0 then (j, Err InvalidRecord)
      else append_entries to_vec io j (report_entries r))"

section \<open>Recovery\<close>

datatype journal_recovery_status = Recovered_Complete | Recovered_Truncated | Recovered_Corrupt

record journal_recovery =
  rec_records :: "journal_record list"
  rec_status :: journal_recovery_status

text \<open>
  The read loop over the bytes after the magic. \<open>read_remaining\<close> answers false exactly when the file
  ends before the requested bytes.
\<close>

function recover_loop ::
    "(bytes \<Rightarrow> journal_record option) \<Rightarrow> bytes \<Rightarrow> journal_record list \<Rightarrow> journal_recovery" where
  "recover_loop from_slice data records =
     (if data = [] then \<lparr>rec_records = records, rec_status = Recovered_Complete\<rparr>
      else if length data < 4 then \<lparr>rec_records = records, rec_status = Recovered_Truncated\<rparr>
      else
        let len = be_nat (take 4 data); rest = drop 4 data in
        if MAX_JOURNAL_RECORD_BYTES < len \<or> length records = MAX_RECOVERED_RECORDS
        then \<lparr>rec_records = records, rec_status = Recovered_Corrupt\<rparr>
        else if length rest < len + 4
        then \<lparr>rec_records = records, rec_status = Recovered_Truncated\<rparr>
        else
          let payload = take len rest; checksum = take 4 (drop len rest) in
          if unat (crc32 payload) \<noteq> be_nat checksum
          then \<lparr>rec_records = records, rec_status = Recovered_Corrupt\<rparr>
          else case from_slice payload of
            None \<Rightarrow> \<lparr>rec_records = records, rec_status = Recovered_Corrupt\<rparr>
          | Some r \<Rightarrow>
              (if jr_version r \<noteq> JOURNAL_RECORD_VERSION
                  \<or> unat (jr_sequence r) \<noteq> length records
               then \<lparr>rec_records = records, rec_status = Recovered_Corrupt\<rparr>
               else recover_loop from_slice (drop (len + 4) rest) (records @ [r])))"
  by pat_completeness auto
termination by (relation "measure (\<lambda>(_, data, _). length data)") auto

declare recover_loop.simps [simp del]

text \<open>\<open>private\<close>: the file is a regular file of the caller with mode 0600.\<close>

definition read_file ::
    "(bytes \<Rightarrow> journal_record option) \<Rightarrow> bool \<Rightarrow> bytes \<Rightarrow> storage_error_kind + journal_recovery" where
  "read_file from_slice private contents =
     (if \<not> private then Err InvalidRecord
      else if length contents < length JOURNAL_MAGIC then Err JournalReadFailed
      else if take (length JOURNAL_MAGIC) contents \<noteq> JOURNAL_MAGIC then Err InvalidRecord
      else Ok (recover_loop from_slice (drop (length JOURNAL_MAGIC) contents) []))"

section \<open>Replay into a report\<close>

record replay_state =
  rp_header :: "journal_header option"
  rp_samples :: "sample_window list"
  rp_sample_history_reset :: bool
  rp_transitions :: "transition_record list"
  rp_signals :: "signal_record list"
  rp_checkpoint :: "checkpoint_record option"
  rp_escape :: "escape_evidence option"
  rp_artifact_errors :: "artifact_error_record list"
  rp_outcome :: "terminal_outcome option"
  rp_calibration :: "calibration_artifact option"

definition replay_start :: replay_state where
  "replay_start =
    \<lparr>rp_header = None, rp_samples = [], rp_sample_history_reset = False, rp_transitions = [],
     rp_signals = [], rp_checkpoint = None, rp_escape = None, rp_artifact_errors = [],
     rp_outcome = None, rp_calibration = None\<rparr>"

text \<open>One entry, with its index and the number of all records.\<close>

definition replay_entry ::
    "nat \<Rightarrow> nat \<Rightarrow> replay_state \<Rightarrow> journal_entry \<Rightarrow> replay_state option" where
  "replay_entry total_records index s entry =
     (case entry of
        E_Header v \<Rightarrow>
          (if rp_header s = None \<and> index = 0 then Some (s\<lparr>rp_header := Some v\<rparr>) else None)
      | E_Sample v \<Rightarrow> Some (s\<lparr>rp_samples := rp_samples s @ [v]\<rparr>)
      | E_SampleHistoryReset \<Rightarrow>
          (if \<not> rp_sample_history_reset s
           then Some (s\<lparr>rp_samples := [], rp_sample_history_reset := True\<rparr>) else None)
      | E_Transition v \<Rightarrow> Some (s\<lparr>rp_transitions := rp_transitions s @ [v]\<rparr>)
      | E_Signal v \<Rightarrow> Some (s\<lparr>rp_signals := rp_signals s @ [v]\<rparr>)
      | E_Checkpoint v \<Rightarrow>
          (if rp_checkpoint s = None then Some (s\<lparr>rp_checkpoint := Some v\<rparr>) else None)
      | E_Escape v \<Rightarrow> (if rp_escape s = None then Some (s\<lparr>rp_escape := Some v\<rparr>) else None)
      | E_ArtifactError v \<Rightarrow> Some (s\<lparr>rp_artifact_errors := rp_artifact_errors s @ [v]\<rparr>)
      | E_Calibration v \<Rightarrow>
          (if rp_calibration s = None then Some (s\<lparr>rp_calibration := Some v\<rparr>) else None)
      | E_Outcome v \<Rightarrow>
          (if rp_outcome s = None \<and> index + 1 = total_records
           then Some (s\<lparr>rp_outcome := Some v\<rparr>) else None))"

fun replay :: "nat \<Rightarrow> nat \<Rightarrow> replay_state \<Rightarrow> journal_entry list \<Rightarrow> replay_state option" where
  "replay total_records index s [] = Some s"
| "replay total_records index s (e # es) =
     (case replay_entry total_records index s e of
        None \<Rightarrow> None
      | Some s \<Rightarrow> replay total_records (Suc index) s es)"

definition assemble :: "replay_state \<Rightarrow> report_v1 option" where
  "assemble s =
     (case (rp_header s, rp_checkpoint s, rp_escape s, rp_outcome s) of
        (Some header, Some checkpoint, Some escape, Some outcome) \<Rightarrow> Some
          \<lparr>rep_schema_version = jh_schema_version header,
           rep_package_version = jh_package_version header,
           rep_run = jh_run header, rep_capabilities = jh_capabilities header,
           rep_configuration = jh_configuration header, rep_samples = rp_samples s,
           rep_transitions = rp_transitions s, rep_signals = rp_signals s,
           rep_checkpoint = checkpoint, rep_escape = escape,
           rep_artifact_errors = rp_artifact_errors s, rep_outcome = outcome,
           rep_calibration = rp_calibration s, rep_privacy = jh_privacy header\<rparr>
      | _ \<Rightarrow> None)"

definition to_report :: "journal_recovery \<Rightarrow> storage_error_kind + report_v1" where
  "to_report recovery =
     (if rec_status recovery \<noteq> Recovered_Complete then Err InvalidRecord
      else case replay (length (rec_records recovery)) 0 replay_start
                  (map jr_entry (rec_records recovery)) of
        None \<Rightarrow> Err InvalidRecord
      | Some s \<Rightarrow>
          (case assemble s of
             None \<Rightarrow> Err InvalidRecord
           | Some r \<Rightarrow>
               (if validate r = (Ok () :: unit report_error + unit) then Ok r else Err InvalidRecord)))"

text \<open>
  \<open>finalize\<close> up to the replacement of the report file: flush, read the journal back, replay it and
  encode the report. The file the journal wrote is the file that is read.
\<close>

definition finalize ::
    "(bytes \<Rightarrow> journal_record option) \<Rightarrow> (report_v1 \<Rightarrow> 'e + string) \<Rightarrow> bool \<Rightarrow> bool \<Rightarrow> secure_journal
     \<Rightarrow> secure_journal \<times> (storage_error_kind + report_v1 \<times> string)" where
  "finalize from_slice to_string sync_ok private j =
     (case journal_flush sync_ok j of
        (j, Inl err) \<Rightarrow> (j, Err err)
      | (j, Inr _) \<Rightarrow>
          (j, case read_file from_slice private (sj_file j) of
                Inl err \<Rightarrow> Err err
              | Inr recovery \<Rightarrow>
                  (case to_report recovery of
                     Inl err \<Rightarrow> Err err
                   | Inr r \<Rightarrow>
                       (case report_to_json to_string r of
                          Inl _ \<Rightarrow> Err InvalidRecord
                        | Inr encoded \<Rightarrow> Ok (r, encoded)))))"

section \<open>The resilient journal\<close>

datatype persistence_attempt =
    Persisted
  | PersistFailed storage_error_kind
  | PersistDisabled storage_error_kind

record 'j resilient_journal =
  rj_journal :: "'j option"
  rj_failure :: "storage_error_kind option"

definition resilient_new :: "'j \<Rightarrow> 'j resilient_journal" where
  "resilient_new journal = \<lparr>rj_journal = Some journal, rj_failure = None\<rparr>"

type_synonym 'j appender =
  "'j \<Rightarrow> journal_record \<Rightarrow> journal_durability \<Rightarrow> 'j \<times> (storage_error_kind + unit)"

definition resilient_record ::
    "'j appender \<Rightarrow> 'j resilient_journal \<Rightarrow> journal_record \<Rightarrow> journal_durability
     \<Rightarrow> 'j resilient_journal \<times> persistence_attempt" where
  "resilient_record append_record rj r durability =
     (case rj_journal rj of
        None \<Rightarrow>
          (rj, PersistDisabled
            (case rj_failure rj of None \<Rightarrow> JournalWriteFailed | Some kind \<Rightarrow> kind))
      | Some journal \<Rightarrow>
          (case append_record journal r durability of
             (journal, Inr _) \<Rightarrow> (rj\<lparr>rj_journal := Some journal\<rparr>, Persisted)
           | (journal, Inl kind) \<Rightarrow>
               (rj\<lparr>rj_failure := Some kind, rj_journal := None\<rparr>, PersistFailed kind)))"

definition resilient_outcome :: "'j resilient_journal \<Rightarrow> supervisor_outcome option" where
  "resilient_outcome rj = (if rj_failure rj \<noteq> None then Some PartialArtifactFailure else None)"

definition stderr_notice :: "'j resilient_journal \<Rightarrow> string option" where
  "stderr_notice rj =
     (case rj_failure rj of
        Some JournalWriteFailed \<Rightarrow> Some
          ''mlx-guard: artifact write failed; safety enforcement continues; complete report unavailable''
      | Some SyncFailed \<Rightarrow> Some
          ''mlx-guard: artifact synchronization failed; safety enforcement continues; complete report unavailable''
      | Some _ \<Rightarrow> Some
          ''mlx-guard: artifact persistence failed; safety enforcement continues; complete report unavailable''
      | None \<Rightarrow> None)"

text \<open>\<open>record_resilient\<close> of the run loop: the next sequence number moves on only when persisted.\<close>

definition record_resilient ::
    "'j appender \<Rightarrow> 'j resilient_journal \<times> u64 \<Rightarrow> journal_entry \<Rightarrow> journal_durability
     \<Rightarrow> 'j resilient_journal \<times> u64" where
  "record_resilient append_record s entry durability =
     (let (rj, attempt) = resilient_record append_record (fst s)
            (journal_record_new (snd s) entry) durability
      in (rj, if attempt = Persisted then sat_add (snd s) 1 else snd s))"

end
