(* ===== verification/Journal_Props.thy ===== *)
theory Journal_Props
  imports Journal Report_Props
begin

text \<open>
  Recovery of the journal after a crash at any byte, the round trip of a report through the journal,
  the record limit of recovery, and the journal that survives a storage failure.
\<close>

section \<open>The bytes on disk\<close>

definition frame_for :: "(journal_record \<Rightarrow> bytes option) \<Rightarrow> journal_record \<Rightarrow> bytes" where
  "frame_for to_vec r = record_frame (case to_vec r of None \<Rightarrow> [] | Some p \<Rightarrow> p)"

definition frames :: "(journal_record \<Rightarrow> bytes option) \<Rightarrow> journal_record list \<Rightarrow> bytes" where
  "frames to_vec rs = concat (map (frame_for to_vec) rs)"

lemma frames_simps [simp]:
  "frames to_vec [] = []" "frames to_vec (r # rs) = frame_for to_vec r @ frames to_vec rs"
  "frames to_vec (rs @ ss) = frames to_vec rs @ frames to_vec ss"
  by (simp_all add: frames_def)

text \<open>A record that can be written, and records numbered from \<open>k\<close>.\<close>

definition writable :: "(journal_record \<Rightarrow> bytes option) \<Rightarrow> journal_record \<Rightarrow> bool" where
  "writable to_vec r \<longleftrightarrow> jr_version r = JOURNAL_RECORD_VERSION
     \<and> (case to_vec r of None \<Rightarrow> False | Some p \<Rightarrow> length p \<le> MAX_JOURNAL_RECORD_BYTES)"

fun numbered :: "(journal_record \<Rightarrow> bytes option) \<Rightarrow> nat \<Rightarrow> journal_record list \<Rightarrow> bool" where
  "numbered to_vec k [] = True"
| "numbered to_vec k (r # rs) =
     (writable to_vec r \<and> unat (jr_sequence r) = k \<and> numbered to_vec (Suc k) rs)"

lemma numbered_append [simp]:
  "numbered to_vec k (rs @ ss) \<longleftrightarrow> numbered to_vec k rs \<and> numbered to_vec (k + length rs) ss"
  by (induction rs arbitrary: k) simp_all

lemma numbered_take: "numbered to_vec k rs \<Longrightarrow> numbered to_vec k (take n rs)"
  by (induction rs arbitrary: k n) (auto simp: take_Cons split: nat.splits)

text \<open>The documented behaviour of the JSON library: what it writes it reads back.\<close>

definition reads_back ::
    "(journal_record \<Rightarrow> bytes option) \<Rightarrow> (bytes \<Rightarrow> journal_record option) \<Rightarrow> bool" where
  "reads_back to_vec from_slice \<longleftrightarrow> (\<forall>r p. to_vec r = Some p \<longrightarrow> from_slice p = Some r)"

lemma be_bytes_eq_Nil [simp]: "be_bytes k x = [] \<longleftrightarrow> k = 0"
  by (metis length_0_conv length_be_bytes)

lemma length_record_frame [simp]: "length (record_frame p) = length p + 8"
  by (simp add: record_frame_def)

lemma frame_parts:
  assumes "length p \<le> MAX_JOURNAL_RECORD_BYTES"
  shows "be_nat (take 4 (record_frame p @ rest)) = length p"
    and "take (length p) (drop 4 (record_frame p @ rest)) = p"
    and "take 4 (drop (length p) (drop 4 (record_frame p @ rest))) = be_bytes 4 (unat (crc32 p))"
    and "drop (length p + 4) (drop 4 (record_frame p @ rest)) = rest"
  using assms by (simp_all add: record_frame_def be_nat_be_bytes MAX_JOURNAL_RECORD_BYTES_def)

lemma crc_fits: "be_nat (be_bytes 4 (unat (c :: u32))) = unat c"
proof -
  have "unat c < 2 ^ LENGTH(32)" by (rule unsigned_less)
  then show ?thesis by (simp add: be_nat_be_bytes)
qed

lemma recover_frame:
  assumes codec: "reads_back to_vec from_slice"
    and "writable to_vec r" and "unat (jr_sequence r) = length acc"
    and "length acc < MAX_RECOVERED_RECORDS"
  shows "recover_loop from_slice (frame_for to_vec r @ rest) acc
    = recover_loop from_slice rest (acc @ [r])"
proof -
  obtain p where p: "to_vec r = Some p" "length p \<le> MAX_JOURNAL_RECORD_BYTES"
    using assms(2) by (auto simp: writable_def split: option.splits)
  have "length (record_frame p @ rest) = length p + 8 + length rest" by simp
  moreover have "record_frame p \<noteq> []" by (simp add: record_frame_def)
  ultimately show ?thesis
    using assms(2-4) p codec [unfolded reads_back_def, rule_format, OF p(1)]
    by (subst recover_loop.simps)
      (simp add: frame_for_def Let_def frame_parts crc_fits writable_def
        del: take_append drop_append drop_drop)
qed

lemma recover_torn_frame:
  assumes "writable to_vec r" and "k < length (frame_for to_vec r)"
    and "length acc < MAX_RECOVERED_RECORDS"
  shows "\<exists>st. recover_loop from_slice (take k (frame_for to_vec r)) acc
      = \<lparr>rec_records = acc, rec_status = st\<rparr> \<and> st \<noteq> Recovered_Corrupt"
proof -
  obtain p where p: "to_vec r = Some p" "length p \<le> MAX_JOURNAL_RECORD_BYTES"
    using assms(1) by (auto simp: writable_def split: option.splits)
  have f: "frame_for to_vec r = record_frame p" by (simp add: frame_for_def p)
  show ?thesis
  proof (cases "k < 4")
    case True
    then show ?thesis
      by (subst recover_loop.simps) (auto simp: f)
  next
    case False
    then have "take 4 (take k (record_frame p)) = be_bytes 4 (length p)"
      by (simp add: record_frame_def min_def)
    moreover have "take k (record_frame p) \<noteq> []" using False by (simp add: record_frame_def)
    moreover have "k - 4 < length p + 4" using assms(2) False by (simp add: f)
    moreover have "Recovered_Truncated \<noteq> Recovered_Corrupt" by simp
    ultimately show ?thesis
      using False assms(2,3) p(2)
      by (subst recover_loop.simps)
        (simp add: f Let_def be_nat_be_bytes MAX_JOURNAL_RECORD_BYTES_def min_def)
  qed
qed

lemma recover_torn:
  assumes codec: "reads_back to_vec from_slice"
  shows "numbered to_vec (length acc) rs \<Longrightarrow> length acc + length rs \<le> MAX_RECOVERED_RECORDS \<Longrightarrow>
    \<exists>n st. recover_loop from_slice (take k (frames to_vec rs)) acc
        = \<lparr>rec_records = acc @ take n rs, rec_status = st\<rparr>
      \<and> st \<noteq> Recovered_Corrupt
      \<and> (\<forall>as bs. rs = as @ bs \<longrightarrow> length (frames to_vec as) \<le> k \<longrightarrow> length as \<le> n)
      \<and> (length (frames to_vec rs) \<le> k \<longrightarrow> st = Recovered_Complete)"
proof (induction rs arbitrary: acc k)
  case Nil
  then show ?case by (subst recover_loop.simps) simp
next
  case (Cons r rs)
  define f where "f = frame_for to_vec r"
  from Cons.prems have wr: "writable to_vec r" "unat (jr_sequence r) = length acc"
    and rest: "numbered to_vec (length (acc @ [r])) rs"
      "length (acc @ [r]) + length rs \<le> MAX_RECOVERED_RECORDS"
      "length acc < MAX_RECOVERED_RECORDS" by simp_all
  show ?case
  proof (cases "length f \<le> k")
    case True
    then have "take k (frames to_vec (r # rs)) = f @ take (k - length f) (frames to_vec rs)"
      by (simp add: f_def)
    moreover obtain n st where ih: "recover_loop from_slice (take (k - length f) (frames to_vec rs)) (acc @ [r])
        = \<lparr>rec_records = (acc @ [r]) @ take n rs, rec_status = st\<rparr>" "st \<noteq> Recovered_Corrupt"
      "\<forall>as bs. rs = as @ bs \<longrightarrow> length (frames to_vec as) \<le> k - length f \<longrightarrow> length as \<le> n"
      "length (frames to_vec rs) \<le> k - length f \<longrightarrow> st = Recovered_Complete"
      using Cons.IH [OF rest(1,2), of "k - length f"] by blast
    ultimately have "recover_loop from_slice (take k (frames to_vec (r # rs))) acc
        = \<lparr>rec_records = acc @ take (Suc n) (r # rs), rec_status = st\<rparr>"
      using recover_frame [OF codec wr rest(3)] by (simp add: f_def)
    moreover have "length as \<le> Suc n" if "r # rs = as @ bs" "length (frames to_vec as) \<le> k" for as bs
      using that ih(3) by (cases as) (auto simp: f_def)
    ultimately show ?thesis using ih(2,4) by (intro exI [of _ "Suc n"] exI [of _ st]) (auto simp: f_def)
  next
    case False
    then have "take k (frames to_vec (r # rs)) = take k f" by (simp add: f_def)
    moreover obtain st where "recover_loop from_slice (take k f) acc
        = \<lparr>rec_records = acc, rec_status = st\<rparr>" "st \<noteq> Recovered_Corrupt"
      using recover_torn_frame [OF wr(1), of k acc from_slice] rest(3) False by (auto simp: f_def)
    moreover have "length as \<le> 0" if "r # rs = as @ bs" "length (frames to_vec as) \<le> k" for as bs
      using that False by (cases as) (auto simp: f_def)
    ultimately show ?thesis using False by (intro exI [of _ 0] exI [of _ st]) (auto simp: f_def)
  qed
qed

section \<open>What a run of appends leaves on disk\<close>

definition journal_step ::
    "(journal_record \<Rightarrow> bytes option) \<Rightarrow> secure_journal
     \<Rightarrow> journal_record \<times> journal_durability \<times> append_io
     \<Rightarrow> secure_journal \<times> (journal_record \<times> (storage_error_kind + unit)) list" where
  "journal_step to_vec j x =
     (let (j', res) = journal_append to_vec (snd (snd x)) j (fst x) (fst (snd x))
      in (j', [(fst x, res)]))"

text \<open>The records whose append succeeded, and those of which at least a part reached the file.\<close>

definition accepted :: "(journal_record \<times> (storage_error_kind + unit)) list \<Rightarrow> journal_record list" where
  "accepted out = map fst (filter (\<lambda>x. snd x = Ok ()) out)"

definition reached :: "(journal_record \<times> (storage_error_kind + unit)) list \<Rightarrow> journal_record list" where
  "reached out = map fst (filter (\<lambda>x. snd x \<noteq> Err InvalidRecord) out)"

lemma accepted_append [simp]: "accepted (a @ b) = accepted a @ accepted b"
  by (simp add: accepted_def)

lemma reached_append [simp]: "reached (a @ b) = reached a @ reached b"
  by (simp add: reached_def)

text \<open>A journal that holds the records: what recovery relies on.\<close>

definition holds :: "(journal_record \<Rightarrow> bytes option) \<Rightarrow> secure_journal \<Rightarrow> journal_record list \<Rightarrow> bool" where
  "holds to_vec j rs \<longleftrightarrow>
     sj_file j = JOURNAL_MAGIC @ frames to_vec rs \<and> numbered to_vec 0 rs
   \<and> \<not> sj_failed j \<and> unat (sj_next_sequence j) = length rs"

text \<open>A journal that failed while writing its last record.\<close>

definition torn :: "(journal_record \<Rightarrow> bytes option) \<Rightarrow> secure_journal \<Rightarrow> journal_record list
    \<Rightarrow> journal_record list \<Rightarrow> bool" where
  "torn to_vec j acc rea \<longleftrightarrow>
     (\<exists>r m. rea = acc @ [r] \<and> sj_failed j \<and> numbered to_vec 0 rea
        \<and> sj_file j = JOURNAL_MAGIC @ frames to_vec acc @ take m (frame_for to_vec r))"

lemma holds_initialized: "holds to_vec journal_initialized []"
  by (simp add: holds_def journal_initialized_def)

lemma append_held:
  assumes "holds to_vec j rs" and "Suc (length rs) < 2 ^ 64"
    and "journal_append to_vec io j r d = (j', res)"
  shows "res = Ok () \<and> holds to_vec j' (rs @ [r])
    \<or> res = Err InvalidRecord \<and> j' = j
    \<or> (\<exists>kind. res = Err kind \<and> kind \<noteq> InvalidRecord) \<and> torn to_vec j' rs (rs @ [r])"
proof -
  have next_seq: "unat (sat_add (sj_next_sequence j) 1) = Suc (length rs)"
    using assms(1,2) by (simp add: holds_def unat_sat_add)
  show ?thesis
  proof (cases "res = Err InvalidRecord")
    case True
    then have "j' = j"
      using assms(3) by (auto simp: journal_append_def Let_def split: if_splits option.splits append_io.splits)
    with True show ?thesis by blast
  next
    case False
    then obtain p where p: "to_vec r = Some p" "length p \<le> MAX_JOURNAL_RECORD_BYTES"
      and ok: "jr_version r = JOURNAL_RECORD_VERSION" "jr_sequence r = sj_next_sequence j"
      using assms(3) by (auto simp: journal_append_def split: if_splits option.splits)
    then have num: "numbered to_vec 0 (rs @ [r])"
      using assms(1) by (simp add: holds_def writable_def)
    have f: "record_frame p = frame_for to_vec r" by (simp add: frame_for_def p)
    have full: "\<exists>m. record_frame p = take m (frame_for to_vec r)"
      by (intro exI [of _ "length (record_frame p)"]) (simp add: f)
    from False p ok assms(1,3) num next_seq full show ?thesis
      by (auto simp: journal_append_def Let_def holds_def torn_def f
          split: if_splits append_io.splits)
  qed
qed

lemma append_failed: "sj_failed j \<Longrightarrow> journal_append to_vec io j r d = (j, Err InvalidRecord)"
  by (simp add: journal_append_def)

lemma journal_run_disk:
  assumes "run_machine (journal_step to_vec) journal_initialized ops = (j, out)"
    and "length ops < 2 ^ 64"
  shows "holds to_vec j (accepted out) \<and> reached out = accepted out
    \<or> torn to_vec j (accepted out) (reached out)"
  using assms
proof (induction ops arbitrary: j out rule: rev_induct)
  case Nil
  then show ?case by (simp add: holds_initialized accepted_def reached_def)
next
  case (snoc x ops)
  from snoc.prems(1) obtain j1 o1 o2 where run: "run_machine (journal_step to_vec) journal_initialized ops = (j1, o1)"
    and step: "journal_step to_vec j1 x = (j, o2)" and out: "out = o1 @ o2"
    by (rule run_machine_snoc_E)
  obtain r d io where x: "x = (r, d, io)" by (metis prod.exhaust)
  obtain res where ap: "journal_append to_vec io j1 r d = (j, res)" and o2: "o2 = [(r, res)]"
    using step by (auto simp: journal_step_def x split: prod.splits)
  from snoc.IH [OF run] snoc.prems(2)
  consider (held) "holds to_vec j1 (accepted o1)" "reached o1 = accepted o1"
    | (torn) "torn to_vec j1 (accepted o1) (reached o1)" by fastforce
  then show ?case
  proof cases
    case held
    have "length o1 = length ops" using run
      by (induction ops arbitrary: j1 o1 rule: rev_induct)
        (auto simp: run_machine_append journal_step_def Let_def split: prod.splits)
    then have "length (accepted o1) \<le> length ops"
      by (simp add: accepted_def) (metis length_filter_le)
    with snoc.prems(2) have "Suc (length (accepted o1)) < 2 ^ 64" by simp
    from append_held [OF held(1) this ap] held show ?thesis
      by (auto simp: out o2 accepted_def reached_def torn_def)
  next
    case torn
    then have "sj_failed j1" by (auto simp: torn_def)
    then have "res = Err InvalidRecord" "j = j1" using ap by (simp_all add: append_failed)
    with torn show ?thesis by (simp add: out o2 accepted_def reached_def)
  qed
qed

lemma length_JOURNAL_MAGIC [simp]: "length JOURNAL_MAGIC = 8"
  by (simp add: JOURNAL_MAGIC_def)

lemma read_prefix:
  "read_file from_slice True (take (8 + k) (JOURNAL_MAGIC @ data))
    = Ok (recover_loop from_slice (take k data) [])"
  by (simp add: read_file_def)

lemma recovered_prefix:
  assumes codec: "reads_back to_vec from_slice"
    and run: "run_machine (journal_step to_vec) journal_initialized ops = (j, out)"
    and few: "length ops \<le> MAX_RECOVERED_RECORDS"
  shows "\<exists>n st. read_file from_slice True (take (8 + k) (sj_file j))
      = Ok \<lparr>rec_records = take n (reached out), rec_status = st\<rparr>
    \<and> st \<noteq> Recovered_Corrupt
    \<and> (length (sj_file j) \<le> 8 + k \<longrightarrow> length (accepted out) \<le> n)
    \<and> (length (sj_file j) \<le> 8 + k \<longrightarrow> \<not> sj_failed j \<longrightarrow> st = Recovered_Complete)"
proof -
  have ops: "length ops < 2 ^ 64" using few by (simp add: MAX_RECOVERED_RECORDS_def)
  have "length out = length ops" using run
    by (induction ops arbitrary: j out rule: rev_induct)
      (auto simp: run_machine_append journal_step_def Let_def split: prod.splits)
  then have len: "length (reached out) \<le> MAX_RECOVERED_RECORDS"
    using few by (simp add: reached_def) (metis length_filter_le order_trans)
  obtain m where m: "sj_file j = JOURNAL_MAGIC @ take m (frames to_vec (reached out))"
    and acc: "length (frames to_vec (accepted out)) \<le> m" "\<exists>t. reached out = accepted out @ t"
    and num: "numbered to_vec 0 (reached out)"
    and whole: "\<not> sj_failed j \<Longrightarrow> length (frames to_vec (reached out)) \<le> m"
    using journal_run_disk [OF run ops]
  proof (elim disjE)
    assume h: "holds to_vec j (accepted out) \<and> reached out = accepted out"
    then show thesis
      by (intro that [of "length (frames to_vec (accepted out))"]) (auto simp: holds_def)
  next
    assume "torn to_vec j (accepted out) (reached out)"
    then obtain r m where t: "reached out = accepted out @ [r]" "sj_failed j"
      "numbered to_vec 0 (reached out)"
      "sj_file j = JOURNAL_MAGIC @ frames to_vec (accepted out) @ take m (frame_for to_vec r)"
      by (auto simp: torn_def)
    then show thesis
      by (intro that [of "length (frames to_vec (accepted out)) + m"]) auto
  qed
  have "take (8 + k) (sj_file j) = take (8 + min k m) (JOURNAL_MAGIC @ frames to_vec (reached out))"
    by (simp add: m min.commute)
  then have rd: "read_file from_slice True (take (8 + k) (sj_file j))
      = Ok (recover_loop from_slice (take (min k m) (frames to_vec (reached out))) [])"
    by (simp only: read_prefix)
  have top: "length (sj_file j) \<le> 8 + k \<Longrightarrow> m \<le> length (frames to_vec (reached out)) \<Longrightarrow> m \<le> k"
    by (simp add: m)
  have top2: "length (sj_file j) \<le> 8 + k \<Longrightarrow> length (frames to_vec (reached out)) \<le> m
      \<Longrightarrow> length (frames to_vec (reached out)) \<le> k"
    by (simp add: m)
  have acc_len: "length (frames to_vec (accepted out)) \<le> length (frames to_vec (reached out))"
    using acc(2) by auto
  obtain n st where rec: "recover_loop from_slice (take (min k m) (frames to_vec (reached out))) []
      = \<lparr>rec_records = take n (reached out), rec_status = st\<rparr>" "st \<noteq> Recovered_Corrupt"
    and as: "\<And>as bs. reached out = as @ bs \<Longrightarrow> length (frames to_vec as) \<le> min k m \<Longrightarrow> length as \<le> n"
    and fin: "length (frames to_vec (reached out)) \<le> min k m \<Longrightarrow> st = Recovered_Complete"
    using recover_torn [OF codec, where acc = "[]" and rs = "reached out" and k = "min k m"] num len
    by auto
  have "length (accepted out) \<le> n" if "length (sj_file j) \<le> 8 + k"
  proof -
    have "length (frames to_vec (accepted out)) \<le> k"
      using top [OF that] top2 [OF that] acc(1) acc_len by linarith
    with acc show ?thesis using as by auto
  qed
  moreover have "st = Recovered_Complete" if "length (sj_file j) \<le> 8 + k" "\<not> sj_failed j"
    using fin whole [OF that(2)] top2 [OF that(1)] by simp
  ultimately show ?thesis using rd rec by auto
qed

text \<open>C38. A crash does not corrupt the journal. After at most 65,536 operations on it (a longer one may
  be called corrupt, see the record limit below), whether or not a write or a synchronization failed
  half way, and wherever a crash cuts the file after the 8 bytes of its magic, recovery returns a
  prefix of the records in the order they were appended and does not report corruption; from the uncut
  file it returns at least every record whose append succeeded.\<close>

theorem torn_journal_recovers_a_prefix:
  assumes "reads_back to_vec from_slice"
    and "run_machine (journal_step to_vec) journal_initialized ops = (j, out)"
    and "length ops \<le> MAX_RECOVERED_RECORDS"
  shows "\<exists>n st. read_file from_slice True (take (8 + k) (sj_file j))
      = Ok \<lparr>rec_records = take n (reached out), rec_status = st\<rparr>
    \<and> st \<noteq> Recovered_Corrupt
    \<and> (length (sj_file j) \<le> 8 + k \<longrightarrow> length (accepted out) \<le> n)"
  using recovered_prefix [OF assms, where k = k] by blast

section \<open>A report through the journal\<close>

lemma recover_held:
  assumes "reads_back to_vec from_slice" and "holds to_vec j rs" and "length rs \<le> MAX_RECOVERED_RECORDS"
  shows "read_file from_slice True (sj_file j)
    = Ok \<lparr>rec_records = rs, rec_status = Recovered_Complete\<rparr>"
proof -
  have "numbered to_vec (length []) rs" using assms(2) by (simp add: holds_def)
  from recover_torn [OF assms(1) this, of "length (frames to_vec rs)"] assms(3)
  obtain n where "recover_loop from_slice (frames to_vec rs) []
      = \<lparr>rec_records = take n rs, rec_status = Recovered_Complete\<rparr>" "length rs \<le> n"
    by auto
  moreover have "read_file from_slice True (sj_file j) = Ok (recover_loop from_slice (frames to_vec rs) [])"
    using assms(2) by (simp add: holds_def read_file_def)
  ultimately show ?thesis by simp
qed

lemma append_entries_held:
  "append_entries to_vec io j es = (j', Ok ()) \<Longrightarrow> holds to_vec j rs \<Longrightarrow>
    length rs + length es < 2 ^ 64 \<Longrightarrow>
    \<exists>rs'. holds to_vec j' (rs @ rs') \<and> map jr_entry rs' = map fst es"
proof (induction es arbitrary: j rs)
  case Nil
  then show ?case by (intro exI [of _ "[]"]) simp
next
  case (Cons x es)
  obtain entry d where x: "x = (entry, d)" by force
  define r where "r = journal_record_new (sj_next_sequence j) entry"
  from Cons.prems(1) obtain j1 where ap: "journal_append to_vec (io (unat (sj_next_sequence j))) j r d = (j1, Ok ())"
    and rest: "append_entries to_vec io j1 es = (j', Ok ())"
    by (auto simp: x append_next_def r_def split: prod.splits sum.splits)
  have "holds to_vec j1 (rs @ [r])"
    using append_held [OF Cons.prems(2) _ ap] Cons.prems(3) by simp
  from Cons.IH [OF rest this] Cons.prems(3) obtain rs' where
    "holds to_vec j' ((rs @ [r]) @ rs')" "map jr_entry rs' = map fst es" by auto
  then show ?case by (intro exI [of _ "r # rs'"]) (simp add: x r_def journal_record_new_def)
qed

lemma replay_split:
  "replay total_records i s (xs @ ys) =
     (case replay total_records i s xs of
        None \<Rightarrow> None
      | Some s \<Rightarrow> replay total_records (i + length xs) s ys)"
  by (induction xs arbitrary: i s) (auto split: option.splits)

lemma replay_lists:
  "replay n i s (map E_Sample xs) = Some (s\<lparr>rp_samples := rp_samples s @ xs\<rparr>)"
  "replay n i s (map E_Transition ts) = Some (s\<lparr>rp_transitions := rp_transitions s @ ts\<rparr>)"
  "replay n i s (map E_Signal ss) = Some (s\<lparr>rp_signals := rp_signals s @ ss\<rparr>)"
  "replay n i s (map E_ArtifactError es) = Some (s\<lparr>rp_artifact_errors := rp_artifact_errors s @ es\<rparr>)"
  by (induction xs arbitrary: i s, simp_all add: replay_entry_def)
    (induction ts arbitrary: i s, simp_all add: replay_entry_def,
      induction ss arbitrary: i s, simp_all add: replay_entry_def,
      induction es arbitrary: i s, simp_all add: replay_entry_def)

lemma replay_report:
  "\<exists>s. replay (length (report_entries r)) 0 replay_start (map fst (report_entries r)) = Some s
    \<and> assemble s = Some r"
proof -
  have c: "map fst (case rep_calibration r of None \<Rightarrow> [] | Some c \<Rightarrow> [(E_Calibration c, Buffered)])
    = map E_Calibration (case rep_calibration r of None \<Rightarrow> [] | Some c \<Rightarrow> [c])"
    by (simp split: option.splits)
  show ?thesis
    by (cases "rep_calibration r")
      (simp_all add: report_entries_def c replay_split replay_lists replay_entry_def replay_start_def
        assemble_def header_of_def comp_def)
qed

text \<open>C39. A report survives the journal. If all appends of a report of at most 65,536 entries
  succeed (the record limit below), and the report encodes as JSON, then reading the journal file back
  and replaying it yields exactly that report, and \<open>finalize\<close> returns it with its encoding.\<close>

theorem report_survives_the_journal:
  assumes "reads_back to_vec from_slice"
    and "append_report to_vec io journal_initialized r = (j, Ok ())"
    and "length (report_entries r) \<le> MAX_RECOVERED_RECORDS"
    and "report_to_json to_string r = Ok encoded"
  shows "finalize from_slice to_string True True j = (j, Ok (r, encoded))"
proof -
  have valid: "validate r = (Ok () :: unit report_error + unit)"
    and ap: "append_entries to_vec io journal_initialized (report_entries r) = (j, Ok ())"
    using assms(2) by (auto simp: append_report_def split: if_splits)
  from append_entries_held [OF ap holds_initialized] assms(3)
  obtain rs where rs: "holds to_vec j rs" "map jr_entry rs = map fst (report_entries r)"
    by (auto simp: MAX_RECOVERED_RECORDS_def)
  then have len: "length rs = length (report_entries r)" by (metis length_map)
  have "read_file from_slice True (sj_file j)
      = Ok \<lparr>rec_records = rs, rec_status = Recovered_Complete\<rparr>"
    using recover_held [OF assms(1) rs(1)] assms(3) len by simp
  moreover have "to_report \<lparr>rec_records = rs, rec_status = Recovered_Complete\<rparr> = Ok r"
    using replay_report [of r] valid by (auto simp: to_report_def rs(2) len)
  moreover have "\<not> sj_failed j" using rs(1) by (simp add: holds_def)
  ultimately show ?thesis by (simp add: finalize_def journal_flush_def assms(4))
qed

section \<open>The record limit\<close>

lemma recover_overfull:
  "numbered to_vec k rs \<Longrightarrow> length acc \<le> MAX_RECOVERED_RECORDS \<Longrightarrow>
    MAX_RECOVERED_RECORDS < length acc + length rs \<Longrightarrow>
    rec_status (recover_loop from_slice (frames to_vec rs) acc) = Recovered_Corrupt"
proof (induction rs arbitrary: acc k)
  case Nil
  then show ?case by simp
next
  case (Cons r rs)
  then obtain p where p: "to_vec r = Some p" "length p \<le> MAX_JOURNAL_RECORD_BYTES"
    by (auto simp: writable_def split: option.splits)
  have data: "frames to_vec (r # rs) = record_frame p @ frames to_vec rs"
    by (simp add: frame_for_def p)
  have "record_frame p \<noteq> []" by (simp add: record_frame_def)
  moreover have "rec_status (recover_loop from_slice (frames to_vec rs) (acc @ [q])) = Recovered_Corrupt"
    if "length acc \<noteq> MAX_RECOVERED_RECORDS" for q
    using Cons.IH [of "Suc k" "acc @ [q]"] Cons.prems that by simp
  ultimately show ?case
    unfolding data
    by (subst recover_loop.simps)
      (simp add: Let_def frame_parts [OF p(2)] crc_fits
        del: take_append drop_append drop_drop split: option.split)
qed

text \<open>C40. The record limit is one-sided: appending has no limit, but recovery calls a journal of more than
  65,536 records corrupt. Such a journal, however healthy, cannot be turned into a report any more.\<close>

theorem overlong_journal_yields_no_report:
  assumes "run_machine (journal_step to_vec) journal_initialized ops = (j, out)"
    and "length ops < 2 ^ 64" and "\<not> sj_failed j"
    and "MAX_RECOVERED_RECORDS < length (accepted out)"
  shows "finalize from_slice to_string sync_ok True j
    = (if sync_ok then (j, Err InvalidRecord) else (j\<lparr>sj_failed := True\<rparr>, Err SyncFailed))"
proof -
  from journal_run_disk [OF assms(1,2)] assms(3) have h: "holds to_vec j (accepted out)"
    by (auto simp: torn_def)
  then have "rec_status (recover_loop from_slice (frames to_vec (accepted out)) []) = Recovered_Corrupt"
    using assms(4) by (intro recover_overfull [where k = 0]) (simp_all add: holds_def)
  moreover have "read_file from_slice True (sj_file j)
      = Ok (recover_loop from_slice (frames to_vec (accepted out)) [])"
    using h by (simp add: holds_def read_file_def)
  ultimately show ?thesis
    using assms(3) by (simp add: finalize_def journal_flush_def to_report_def)
qed

section \<open>Witnesses\<close>

definition demo_records :: "journal_record list" where
  "demo_records = map2 journal_record_new [0, 1, 2, 3] (map fst (report_entries demo_report))"

definition demo_to_vec :: "journal_record \<Rightarrow> bytes option" where
  "demo_to_vec r = (if r \<in> set demo_records then Some [ucast (jr_sequence r)] else None)"

definition demo_from_slice :: "bytes \<Rightarrow> journal_record option" where
  "demo_from_slice p = find (\<lambda>r. demo_to_vec r = Some p) demo_records"

lemma demo_records_eq:
  "demo_records =
     [journal_record_new 0 (E_Header (header_of demo_report)),
      journal_record_new 1 (E_Checkpoint (rep_checkpoint demo_report)),
      journal_record_new 2 (E_Escape (rep_escape demo_report)),
      journal_record_new 3 (E_Outcome (rep_outcome demo_report))]"
  by (simp add: demo_records_def report_entries_def demo_report_def)

lemma demo_reads_back: "reads_back demo_to_vec demo_from_slice"
  by (auto simp: reads_back_def demo_to_vec_def demo_from_slice_def demo_records_eq
      journal_record_new_def split: if_splits)

lemma demo_append:
  "\<exists>j. append_report demo_to_vec (\<lambda>_. Io_Ok) journal_initialized demo_report = (j, Ok ())"
proof -
  have es: "report_entries demo_report =
     [(E_Header (header_of demo_report), Sync), (E_Checkpoint (rep_checkpoint demo_report), Sync),
      (E_Escape (rep_escape demo_report), Buffered), (E_Outcome (rep_outcome demo_report), Sync)]"
    by (simp add: report_entries_def demo_report_def)
  show ?thesis
    by (simp add: append_report_def demo_report_valid es append_next_def journal_append_def
        journal_initialized_def demo_to_vec_def demo_records_eq journal_record_new_def Let_def
        MAX_JOURNAL_RECORD_BYTES_def sat_add_def)
qed

theorem torn_journal_recovers_a_prefix_witness:
  "\<exists>n st. read_file demo_from_slice True (take (8 + 3) (sj_file (fst (run_machine
       (journal_step demo_to_vec) journal_initialized [(hd demo_records, Sync, Io_WriteFails 5)]))))
     = Ok \<lparr>rec_records = take n (reached (snd (run_machine (journal_step demo_to_vec)
         journal_initialized [(hd demo_records, Sync, Io_WriteFails 5)]))), rec_status = st\<rparr>
   \<and> st \<noteq> Recovered_Corrupt"
  using torn_journal_recovers_a_prefix [OF demo_reads_back surjective_pairing,
      of "[(hd demo_records, Sync, Io_WriteFails 5)]" 3]
  by (simp add: MAX_RECOVERED_RECORDS_def) blast

theorem report_survives_the_journal_witness:
  "\<exists>j. finalize demo_from_slice (\<lambda>_. Ok ''{}'' :: unit + string) True True j
     = (j, Ok (demo_report, ''{}'' @ [CHR 0x0A]))"
proof -
  obtain j where j: "append_report demo_to_vec (\<lambda>_. Io_Ok) journal_initialized demo_report = (j, Ok ())"
    using demo_append by blast
  have "length (report_entries demo_report) \<le> MAX_RECOVERED_RECORDS"
    by (simp add: report_entries_def demo_report_def MAX_RECOVERED_RECORDS_def)
  from report_survives_the_journal [OF demo_reads_back j this,
      where to_string = "\<lambda>_. Ok ''{}'' :: unit + string" and encoded = "''{}'' @ [CHR 0x0A]"]
  show ?thesis by (auto simp: report_to_json_def demo_report_valid)
qed

definition reset_ops :: "nat \<Rightarrow> (journal_record \<times> journal_durability \<times> append_io) list" where
  "reset_ops n = map (\<lambda>k. (journal_record_new (of_nat k) E_SampleHistoryReset, Sync, Io_Ok)) [0..<n]"

lemma reset_run:
  "n < 2 ^ 64 \<Longrightarrow> \<exists>j out. run_machine (journal_step (\<lambda>_. Some [])) journal_initialized (reset_ops n) = (j, out)
    \<and> \<not> sj_failed j \<and> sj_next_sequence j = of_nat n \<and> length (accepted out) = n"
proof (induction n)
  case 0
  then show ?case by (simp add: reset_ops_def journal_initialized_def accepted_def)
next
  case (Suc n)
  then obtain j out where ih: "run_machine (journal_step (\<lambda>_. Some [])) journal_initialized (reset_ops n) = (j, out)"
    "\<not> sj_failed j" "sj_next_sequence j = of_nat n" "length (accepted out) = n" by auto
  have "reset_ops (Suc n) = reset_ops n
      @ [(journal_record_new (of_nat n) E_SampleHistoryReset, Sync, Io_Ok)]"
    by (simp add: reset_ops_def)
  moreover have "sat_add (of_nat n :: u64) 1 = of_nat (Suc n)"
    using Suc.prems by (simp add: sat_add_def unat_of_nat)
  then have "journal_step (\<lambda>_. Some []) j (journal_record_new (of_nat n) E_SampleHistoryReset, Sync, Io_Ok)
    = (j\<lparr>sj_file := sj_file j @ record_frame [], sj_next_sequence := of_nat (Suc n)\<rparr>,
       [(journal_record_new (of_nat n) E_SampleHistoryReset, Ok ())])"
    using ih(2,3) by (simp add: journal_step_def journal_append_def journal_record_new_def)
  ultimately show ?case
    using ih by (simp add: run_machine_append) (simp add: accepted_def)
qed

theorem overlong_journal_yields_no_report_witness:
  "\<exists>j. finalize (\<lambda>_. None) (\<lambda>_. Ok ''{}'' :: unit + string) True True j = (j, Err InvalidRecord)"
proof -
  obtain j out where run: "run_machine (journal_step (\<lambda>_. Some [])) journal_initialized (reset_ops 65537)
      = (j, out)" "\<not> sj_failed j" "length (accepted out) = 65537"
    using reset_run [of 65537] by auto
  have "length (reset_ops 65537) < 2 ^ 64" by (simp add: reset_ops_def)
  from overlong_journal_yields_no_report [OF run(1) this run(2), of "\<lambda>_. None" "\<lambda>_. Ok ''{}'' :: unit + string" True]
  show ?thesis using run(3) by (auto simp: MAX_RECOVERED_RECORDS_def)
qed

end
