(* ===== verification/Process.thy ===== *)
theory Process
  imports Identity Report
begin

text \<open>
  The platform boundary of \<^verbatim>\<open>mlx-guard-core/src/process_control.rs\<close> and of the native inventory in
  \<^verbatim>\<open>identity.rs\<close>: which signal goes to which target, how the answer of a system call is classified,
  how one process is inspected and which processes a snapshot covers. The system calls themselves
  are arguments: \<open>kill\<close> maps a target and a signal to an error number or success, the other calls
  are their answers.
\<close>

section \<open>Errors\<close>

datatype sys_errno = ESRCH | EPERM | EACCES | ENOENT | ENOTSUP | ENOSYS | Errno_Other

text \<open>\<open>kill(target, signal)\<close>: \<open>None\<close> when it returned zero.\<close>

type_synonym sys_kill = "i32 \<Rightarrow> u8 \<Rightarrow> sys_errno option"

datatype control_error_kind =
    Ctl_WaitFailed
  | Ctl_InvalidRootStatus
  | Ctl_UnsupportedExternalSignal
  | Ctl_InvalidCheckpointEndpoint
  | Ctl_GroupQueryFailed
  | Ctl_TerminalSignalMonitorUnavailable
  | Ctl_TerminalSignalMonitorAlreadyInstalled
  | Ctl_ClientReadyUnavailable
  | Ctl_SignalFailed

definition SIGTERM :: u8 where "SIGTERM = 15"
definition SIGKILL :: u8 where "SIGKILL = 9"

definition signal_raw :: "sys_kill \<Rightarrow> i32 \<Rightarrow> signal_number \<Rightarrow> control_error_kind + signal_result" where
  "signal_raw kill target signal =
     (if target = 0 then Err Ctl_SignalFailed
      else case kill target (signal_get signal) of
        None \<Rightarrow> Ok Sig_Delivered
      | Some ESRCH \<Rightarrow> Ok Sig_ProcessMissing
      | Some EPERM \<Rightarrow> Ok Sig_PermissionDenied
      | Some _ \<Rightarrow> Err Ctl_SignalFailed)"

section \<open>The owned group\<close>

text \<open>\<open>i32::checked_neg\<close>.\<close>

definition i32_checked_neg :: "i32 \<Rightarrow> i32 option" where
  "i32_checked_neg v = (if v = - (2 ^ 31) then None else Some (- v))"

definition owned_group_exists :: "sys_kill \<Rightarrow> i32 \<Rightarrow> control_error_kind + bool" where
  "owned_group_exists kill process_group =
     (case i32_checked_neg process_group of
        None \<Rightarrow> Err Ctl_GroupQueryFailed
      | Some target \<Rightarrow>
          (case kill target 0 of
             None \<Rightarrow> Ok True
           | Some ESRCH \<Rightarrow> Ok False
           | Some EPERM \<Rightarrow> Ok True
           | Some _ \<Rightarrow> Err Ctl_GroupQueryFailed))"

definition signal_group :: "sys_kill \<Rightarrow> i32 \<Rightarrow> signal_number \<Rightarrow> control_error_kind + signal_result" where
  "signal_group kill process_group signal =
     (case i32_checked_neg process_group of
        None \<Rightarrow> Err Ctl_SignalFailed
      | Some target \<Rightarrow> signal_raw kill target signal)"

text \<open>SIGHUP, SIGINT and SIGTERM.\<close>

definition forwardable :: "u8 \<Rightarrow> bool" where
  "forwardable value \<longleftrightarrow> value = 1 \<or> value = 2 \<or> value = 15"

definition forward_terminal_signal ::
    "sys_kill \<Rightarrow> i32 \<Rightarrow> signal_number \<Rightarrow> control_error_kind + signal_result" where
  "forward_terminal_signal kill process_group signal =
     (if \<not> forwardable (signal_get signal) then Err Ctl_UnsupportedExternalSignal
      else signal_group kill process_group signal)"

definition terminate_group :: "sys_kill \<Rightarrow> i32 \<Rightarrow> control_error_kind + signal_result" where
  "terminate_group kill process_group = signal_group kill process_group (SignalNumber SIGTERM)"

definition kill_group :: "sys_kill \<Rightarrow> i32 \<Rightarrow> control_error_kind + signal_result" where
  "kill_group kill process_group = signal_group kill process_group (SignalNumber SIGKILL)"

section \<open>Signals to the supervisor\<close>

text \<open>The reads of one poll of the signal pipe, in order; the poll ends at the first that says so.\<close>

datatype pipe_read = Pipe_Bytes "u8 list" | Pipe_End | Pipe_Again | Pipe_Interrupted | Pipe_Failed

definition monitored :: "u8 list \<Rightarrow> signal_number list" where
  "monitored buffer = List.map_filter signal_new (filter forwardable buffer)"

fun monitor_poll ::
    "signal_number list \<Rightarrow> pipe_read list \<Rightarrow> (control_error_kind + signal_number list) option" where
  "monitor_poll signals [] = None"
| "monitor_poll signals (r # rs) =
     (case r of
        Pipe_Bytes buffer \<Rightarrow>
          (if buffer = [] then Some (Ok signals) else monitor_poll (signals @ monitored buffer) rs)
      | Pipe_End \<Rightarrow> Some (Ok signals)
      | Pipe_Again \<Rightarrow> Some (Ok signals)
      | Pipe_Interrupted \<Rightarrow> monitor_poll signals rs
      | Pipe_Failed \<Rightarrow> Some (Err Ctl_TerminalSignalMonitorUnavailable))"

section \<open>The root process\<close>

datatype root_outcome = Root_Exited u8 | Root_Signaled signal_number

text \<open>\<open>ExitStatus\<close>: \<open>code()\<close> and \<open>signal()\<close>, both \<open>i32\<close>.\<close>

record exit_status =
  es_code :: "i32 option"
  es_signal :: "i32 option"

definition u8_try_from :: "i32 \<Rightarrow> u8 option" where
  "u8_try_from v = (if 0 \<le> v \<and> v < 256 then Some (word_of_int v) else None)"

definition root_outcome_from_status :: "exit_status \<Rightarrow> unit + root_outcome" where
  "root_outcome_from_status status =
     (case es_code status of
        Some code \<Rightarrow>
          (case u8_try_from code of None \<Rightarrow> Err () | Some v \<Rightarrow> Ok (Root_Exited v))
      | None \<Rightarrow>
          (case Option.bind (Option.bind (es_signal status) u8_try_from) signal_new of
             None \<Rightarrow> Err ()
           | Some signal \<Rightarrow> Ok (Root_Signaled signal)))"

text \<open>\<open>try_wait_root\<close>: the retained outcome, and what \<open>Child::try_wait\<close> answers.\<close>

definition try_wait_root ::
    "root_outcome option \<Rightarrow> sys_errno + exit_status option
     \<Rightarrow> root_outcome option \<times> (control_error_kind + root_outcome option)" where
  "try_wait_root retained waited =
     (case retained of
        Some outcome \<Rightarrow> (retained, Ok (Some outcome))
      | None \<Rightarrow>
          (case waited of
             Inl _ \<Rightarrow> (None, Err Ctl_WaitFailed)
           | Inr None \<Rightarrow> (None, Ok None)
           | Inr (Some status) \<Rightarrow>
               (case root_outcome_from_status status of
                  Inl _ \<Rightarrow> (None, Err Ctl_InvalidRootStatus)
                | Inr outcome \<Rightarrow> (Some outcome, Ok (Some outcome)))))"

datatype stdio_mode = Stdio_Inherit | Stdio_Null | Stdio_Piped
datatype stdin_disposition = Stdin_AsRequested | Stdin_TerminalReplacedWithNull

definition resolve_stdin :: "stdio_mode \<Rightarrow> bool \<Rightarrow> stdio_mode \<times> stdin_disposition" where
  "resolve_stdin requested supervisor_stdin_is_terminal =
     (if requested = Stdio_Inherit \<and> supervisor_stdin_is_terminal
      then (Stdio_Null, Stdin_TerminalReplacedWithNull)
      else (requested, Stdin_AsRequested))"

datatype launch_error_kind =
    Launch_EmptyCommand
  | Launch_InvalidWorkingDirectory
  | Launch_NotFound
  | Launch_NotExecutable
  | Launch_SpawnFailed
  | Launch_ProcessGroupValidationFailed
  | Launch_InvalidCheckpointChannel

datatype spawn_error = Spawn_NotFound | Spawn_PermissionDenied | Spawn_Other

fun map_spawn_error :: "spawn_error \<Rightarrow> launch_error_kind" where
  "map_spawn_error Spawn_NotFound = Launch_NotFound"
| "map_spawn_error Spawn_PermissionDenied = Launch_NotExecutable"
| "map_spawn_error Spawn_Other = Launch_SpawnFailed"

section \<open>Inspecting one process\<close>

record rusage_info =
  ru_physical_footprint :: u64
  ru_process_start_abstime :: u64
  ru_process_exit_abstime :: u64

record proc_bsd_info =
  bsd_pid :: u32
  bsd_ppid :: u32
  bsd_pgid :: u32

fun classify_errno :: "sys_errno \<Rightarrow> identity_unavailable" where
  "classify_errno ESRCH = Ident_Disappeared"
| "classify_errno EPERM = Ident_PermissionDenied"
| "classify_errno EACCES = Ident_PermissionDenied"
| "classify_errno ENOENT = Ident_Unavailable"
| "classify_errno ENOTSUP = Ident_Unsupported"
| "classify_errno ENOSYS = Ident_Unsupported"
| "classify_errno Errno_Other = Ident_Unavailable"

definition rusage :: "sys_errno + rusage_info \<Rightarrow> identity_unavailable + rusage_info" where
  "rusage answer = (case answer of Inl e \<Rightarrow> Err (classify_errno e) | Inr info \<Rightarrow> Ok info)"

definition i32_try_from :: "u32 \<Rightarrow> i32 option" where
  "i32_try_from v = (if unat v < 2 ^ 31 then Some (uint v) else None)"

text \<open>The Darwin \<open>inspect\<close>: resource usage, process information, resource usage again.\<close>

definition native_inspect ::
    "i32 \<Rightarrow> sys_errno + rusage_info \<Rightarrow> sys_errno + proc_bsd_info \<Rightarrow> sys_errno + rusage_info
     \<Rightarrow> identity_unavailable + process_observation" where
  "native_inspect pid usage1 info usage2 =
     (if pid \<le> 0 then Err Ident_MalformedData
      else case rusage usage1 of
        Inl e \<Rightarrow> Err e
      | Inr first_usage \<Rightarrow>
          (if ru_process_exit_abstime first_usage \<noteq> 0
           then Ok \<lparr>po_identity = ProcessIdentity pid (ru_process_start_abstime first_usage),
                    po_parent_pid = 0, po_process_group_id = 0,
                    po_footprint_bytes = Some (ru_physical_footprint first_usage),
                    po_exited = True\<rparr>
           else case info of
             Inl e \<Rightarrow> Err (classify_errno e)
           | Inr bsd \<Rightarrow>
               (case rusage usage2 of
                  Inl e \<Rightarrow> Err e
                | Inr second_usage \<Rightarrow>
                    (if ru_process_start_abstime first_usage \<noteq> ru_process_start_abstime second_usage
                     then Err Ident_Stale
                     else case i32_try_from (bsd_pid bsd) of
                       None \<Rightarrow> Err Ident_MalformedData
                     | Some observed_pid \<Rightarrow>
                         (if observed_pid \<noteq> pid then Err Ident_Stale
                          else case (i32_try_from (bsd_ppid bsd), i32_try_from (bsd_pgid bsd)) of
                            (Some parent, Some pgid) \<Rightarrow>
                              Ok \<lparr>po_identity =
                                    ProcessIdentity pid (ru_process_start_abstime second_usage),
                                  po_parent_pid = parent, po_process_group_id = pgid,
                                  po_footprint_bytes = Some (ru_physical_footprint second_usage),
                                  po_exited = (ru_process_exit_abstime second_usage \<noteq> 0)\<rparr>
                          | _ \<Rightarrow> Err Ident_MalformedData)))))"

text \<open>The inventory: what inspecting each PID answers.\<close>

type_synonym inventory = "i32 \<Rightarrow> identity_unavailable + process_observation"

definition inspect_expected ::
    "inventory \<Rightarrow> process_identity \<Rightarrow> identity_unavailable + process_observation" where
  "inspect_expected inspect expected =
     (case inspect (id_pid expected) of
        Inl e \<Rightarrow> Err e
      | Inr ob \<Rightarrow> (if po_identity ob \<noteq> expected then Err Ident_Stale else Ok ob))"

definition signal_identity ::
    "inventory \<Rightarrow> sys_kill \<Rightarrow> process_identity \<Rightarrow> signal_number
     \<Rightarrow> identity_unavailable + signal_result" where
  "signal_identity inspect kill expected signal =
     (case inspect_expected inspect expected of
        Inl e \<Rightarrow> Err e
      | Inr ob \<Rightarrow>
          (if po_exited ob then Err Ident_Disappeared
           else case kill (id_pid expected) (signal_get signal) of
             None \<Rightarrow> Ok Sig_Delivered
           | Some ESRCH \<Rightarrow> Err Ident_Disappeared
           | Some EPERM \<Rightarrow> Err Ident_PermissionDenied
           | Some EACCES \<Rightarrow> Err Ident_PermissionDenied
           | Some _ \<Rightarrow> Err Ident_Unavailable))"

section \<open>The checkpoint endpoint\<close>

record checkpoint_endpoint =
  ce_pid :: i32
  ce_process_group :: i32
  ce_start_abstime :: u64

text \<open>\<open>getpgid(pid)\<close> is minus one on failure.\<close>

definition negotiate_checkpoint_endpoint ::
    "i32 \<Rightarrow> (i32 \<Rightarrow> i32) \<Rightarrow> process_identity \<Rightarrow> control_error_kind + checkpoint_endpoint" where
  "negotiate_checkpoint_endpoint process_group getpgid identity =
     (if id_pid identity \<le> 0 then Err Ctl_InvalidCheckpointEndpoint
      else if getpgid (id_pid identity) \<noteq> process_group then Err Ctl_InvalidCheckpointEndpoint
      else Ok \<lparr>ce_pid = id_pid identity, ce_process_group = process_group,
               ce_start_abstime = id_start_abstime identity\<rparr>)"

definition signal_checkpoint ::
    "inventory \<Rightarrow> sys_kill \<Rightarrow> (i32 \<Rightarrow> i32) \<Rightarrow> i32 \<Rightarrow> checkpoint_endpoint \<Rightarrow> signal_number
     \<Rightarrow> control_error_kind + signal_result" where
  "signal_checkpoint inspect kill getpgid process_group endpoint signal =
     (if ce_process_group endpoint \<noteq> process_group then Err Ctl_InvalidCheckpointEndpoint
      else if ce_pid endpoint \<le> 0 then Err Ctl_InvalidCheckpointEndpoint
      else if getpgid (ce_pid endpoint) \<noteq> process_group then Err Ctl_InvalidCheckpointEndpoint
      else case signal_identity inspect kill
                  (ProcessIdentity (ce_pid endpoint) (ce_start_abstime endpoint)) signal of
        Inr res \<Rightarrow> Ok res
      | Inl Ident_Stale \<Rightarrow> Err Ctl_InvalidCheckpointEndpoint
      | Inl Ident_Disappeared \<Rightarrow> Ok Sig_ProcessMissing
      | Inl Ident_PermissionDenied \<Rightarrow> Ok Sig_PermissionDenied
      | Inl _ \<Rightarrow> Err Ctl_SignalFailed)"

section \<open>Snapshots\<close>

fun failure_kind :: "identity_unavailable \<Rightarrow> observation_failure_kind" where
  "failure_kind Ident_Disappeared = Fail_Disappeared"
| "failure_kind Ident_PermissionDenied = Fail_PermissionDenied"
| "failure_kind Ident_Stale = Fail_StaleIdentity"
| "failure_kind Ident_MalformedData = Fail_MalformedData"
| "failure_kind Ident_Unsupported = Fail_Unsupported"
| "failure_kind Ident_Unavailable = Fail_Unavailable"

fun snapshot_pids :: "inventory \<Rightarrow> i32 list \<Rightarrow> process_snapshot" where
  "snapshot_pids inspect [] = \<lparr>ps_observations = [], ps_failures = []\<rparr>"
| "snapshot_pids inspect (pid # pids) =
     (let rest = snapshot_pids inspect pids in
      case inspect pid of
        Inr ob \<Rightarrow> rest\<lparr>ps_observations := ob # ps_observations rest\<rparr>
      | Inl e \<Rightarrow> rest\<lparr>ps_failures := \<lparr>of_pid = Some pid, of_kind = failure_kind e\<rparr> # ps_failures rest\<rparr>)"

text \<open>
  One \<open>libproc\<close> list: the estimate of the first call, then the count and the buffer of the second
  for a given capacity.
\<close>

definition list_related_pids ::
    "int \<Rightarrow> (nat \<Rightarrow> int \<times> i32 list) \<Rightarrow> observation_failure_kind + i32 list" where
  "list_related_pids estimate fill =
     (if estimate < 0 then Err Fail_EnumerationFailed
      else if estimate = 0 then Ok []
      else
        let capacity = nat estimate + 16 in
        if 2 ^ 31 \<le> capacity * 4 then Err Fail_EnumerationFailed
        else
          let (count, buffer) = fill capacity in
          if count < 0 \<or> int capacity \<le> count then Err Fail_EnumerationFailed
          else Ok (filter (\<lambda>pid. 0 < pid) (take (nat count) buffer)))"

text \<open>New children enter the relevant set and the queue.\<close>

fun enqueue :: "i32 set \<Rightarrow> i32 list \<Rightarrow> i32 set \<times> i32 list" where
  "enqueue relevant [] = (relevant, [])"
| "enqueue relevant (c # cs) =
     (if c \<in> relevant then enqueue relevant cs
      else let (r, new) = enqueue (insert c relevant) cs in (r, c # new))"

lemma case_sum_mono [partial_function_mono]:
  "(\<And>a. mono_option (\<lambda>f. g f a)) \<Longrightarrow> (\<And>b. mono_option (\<lambda>f. h f b)) \<Longrightarrow>
   mono_option (\<lambda>f. case x of Inl a \<Rightarrow> g f a | Inr b \<Rightarrow> h f b)"
  by (cases x) simp_all

lemma case_list_mono [partial_function_mono]:
  "mono_option g \<Longrightarrow> (\<And>a as. mono_option (\<lambda>f. h f a as)) \<Longrightarrow>
   mono_option (\<lambda>f. case x of [] \<Rightarrow> g f | a # as \<Rightarrow> h f a as)"
  by (cases x) simp_all

partial_function (option) enumerate_children ::
    "(i32 \<Rightarrow> observation_failure_kind + i32 list) \<Rightarrow> i32 set \<Rightarrow> i32 set \<Rightarrow> i32 list
     \<Rightarrow> (observation_failure_kind + i32 set) option" where
  "enumerate_children children relevant visited pending =
     (case pending of
        [] \<Rightarrow> Some (Ok relevant)
      | parent # rest \<Rightarrow>
          (if parent \<in> visited then enumerate_children children relevant visited rest
           else case children parent of
             Inl e \<Rightarrow> Some (Err e)
           | Inr cs \<Rightarrow>
               enumerate_children children (fst (enqueue relevant cs)) (insert parent visited)
                 (rest @ snd (enqueue relevant cs))))"

definition relevant_start :: "i32 \<Rightarrow> i32 list \<Rightarrow> i32 list \<Rightarrow> i32 set" where
  "relevant_start root_pid members tracked_pids =
     insert root_pid (set (filter (\<lambda>pid. 0 < pid) tracked_pids)) \<union> set members"

definition list_relevant_pids ::
    "i32 \<Rightarrow> observation_failure_kind + i32 list
     \<Rightarrow> (i32 \<Rightarrow> observation_failure_kind + i32 list) \<Rightarrow> i32 list
     \<Rightarrow> (observation_failure_kind + i32 list) option" where
  "list_relevant_pids root_pid members children tracked_pids =
     (case members of
        Inl e \<Rightarrow> Some (Err e)
      | Inr ms \<Rightarrow>
          (let relevant = relevant_start root_pid ms tracked_pids
           in map_option (map_sum id sorted_list_of_set)
                (enumerate_children children relevant {} (sorted_list_of_set relevant))))"

definition snapshot_for_tracker ::
    "identity_tracker \<Rightarrow> observation_failure_kind + i32 list
     \<Rightarrow> (i32 \<Rightarrow> observation_failure_kind + i32 list) \<Rightarrow> inventory
     \<Rightarrow> (observation_failure_kind + process_snapshot) option" where
  "snapshot_for_tracker t members children inspect =
     map_option (map_sum id (snapshot_pids inspect))
       (list_relevant_pids (id_pid (it_root t)) members children
          (map id_pid (RBT.keys (it_tracked t))))"

end
