(* ===== verification/Actuator.thy ===== *)
theory Actuator
  imports Intervention Checkpoint Process
begin

text \<open>
  The concrete actuator of \<^verbatim>\<open>mlx-guard-core/src/intervention.rs\<close>: it sends group signals through the
  validated process group, delivers a checkpoint request through the channel and the endpoint, and
  classifies what came back for the policy machine. What the platform answers during the n-th
  execution is given by a function of n.
\<close>

section \<open>Classification\<close>

fun map_checkpoint_request_error :: "checkpoint_channel_request_error \<Rightarrow> actuation_failure" where
  "map_checkpoint_request_error NotReady = CheckpointUnavailable"
| "map_checkpoint_request_error (ChannelError _) = CheckpointUnavailable"
| "map_checkpoint_request_error (ProtocolError _) = CheckpointRejected"

fun map_control_error :: "control_error_kind \<Rightarrow> actuation_failure" where
  "map_control_error Ctl_UnsupportedExternalSignal = InvalidTarget"
| "map_control_error Ctl_InvalidCheckpointEndpoint = InvalidTarget"
| "map_control_error Ctl_WaitFailed = SignalFailed"
| "map_control_error Ctl_InvalidRootStatus = SignalFailed"
| "map_control_error Ctl_GroupQueryFailed = SignalFailed"
| "map_control_error Ctl_TerminalSignalMonitorUnavailable = SignalFailed"
| "map_control_error Ctl_TerminalSignalMonitorAlreadyInstalled = SignalFailed"
| "map_control_error Ctl_ClientReadyUnavailable = SignalFailed"
| "map_control_error Ctl_SignalFailed = SignalFailed"

definition frame_shows_live_member :: "tracking_frame \<Rightarrow> bool" where
  "frame_shows_live_member frame \<longleftrightarrow>
     tf_owned_members frame \<noteq> []
   \<or> list_ex (\<lambda>f. of_kind f \<noteq> Fail_Disappeared \<or> of_pid f = None) (tf_observation_failures frame)"

definition map_signal_result :: "signal_result \<Rightarrow> bool \<Rightarrow> actuation_result" where
  "map_signal_result res endpoint_only =
     (case res of
        Sig_Delivered \<Rightarrow> Ok Act_Delivered
      | Sig_ProcessMissing \<Rightarrow>
          (if endpoint_only then Err ProcessMissing else Ok Act_ProcessMissing)
      | Sig_PermissionDenied \<Rightarrow> Err PermissionDenied
      | Sig_Failed \<Rightarrow> Err SignalFailed)"

definition map_group_signal_result :: "signal_result \<Rightarrow> bool \<Rightarrow> actuation_result" where
  "map_group_signal_result res group_has_live_member =
     (if res = Sig_PermissionDenied \<and> \<not> group_has_live_member then Ok Act_ProcessMissing
      else map_signal_result res False)"

section \<open>The actuator\<close>

record checkpoint_binding =
  cb_channel :: checkpoint_channel
  cb_endpoint :: checkpoint_endpoint
  cb_signal :: signal_number

text \<open>\<open>pa_calls\<close> counts the executions; it selects the platform's answers and is not in the code.\<close>

record process_actuator =
  pa_root :: "process_identity option"
  pa_process_group :: i32
  pa_checkpoint :: "checkpoint_binding option"
  pa_calls :: nat

definition process_actuator_new ::
    "process_identity option \<Rightarrow> i32 \<Rightarrow> checkpoint_binding option \<Rightarrow> process_actuator" where
  "process_actuator_new root process_group checkpoint =
    \<lparr>pa_root = root, pa_process_group = process_group, pa_checkpoint = checkpoint, pa_calls = 0\<rparr>"

text \<open>What the platform answers during one execution. \<open>None\<close> is a scan that could not run.\<close>

record platform_answer =
  an_kill :: sys_kill
  an_getpgid :: "i32 \<Rightarrow> i32"
  an_inspect :: inventory
  an_scan :: "process_snapshot option"
  an_write :: stream_write
  an_shutdown_ok :: bool

definition group_has_live_member :: "process_actuator \<Rightarrow> process_snapshot option \<Rightarrow> bool" where
  "group_has_live_member a scan =
     (case pa_root a of
        None \<Rightarrow> True
      | Some root \<Rightarrow>
          (case identity_tracker_new root (pa_process_group a) of
             Inl _ \<Rightarrow> True
           | Inr tracker \<Rightarrow>
               (case scan of
                  None \<Rightarrow> True
                | Some snap \<Rightarrow> frame_shows_live_member (snd (tracker_update tracker snap)))))"

definition classify_group_signal ::
    "process_actuator \<Rightarrow> process_snapshot option \<Rightarrow> control_error_kind + signal_result
     \<Rightarrow> actuation_result" where
  "classify_group_signal a scan res =
     (case res of
        Inl kind \<Rightarrow> Err (map_control_error kind)
      | Inr r \<Rightarrow> map_group_signal_result r (group_has_live_member a scan))"

definition deliver_checkpoint ::
    "platform_answer \<Rightarrow> i32 \<Rightarrow> checkpoint_binding \<Rightarrow> dur \<Rightarrow> u64 \<Rightarrow> dur
     \<Rightarrow> checkpoint_binding \<times> actuation_result" where
  "deliver_checkpoint ans process_group b requested_at request_id deadline_at =
     (case channel_begin_request (an_write ans) (cb_channel b) request_id requested_at deadline_at of
        (ch, Inl err) \<Rightarrow> (b\<lparr>cb_channel := ch\<rparr>, Err (map_checkpoint_request_error err))
      | (ch, Inr _) \<Rightarrow>
          (let res = (case signal_checkpoint (an_inspect ans) (an_kill ans) (an_getpgid ans)
                             process_group (cb_endpoint b) (cb_signal b) of
                        Inl kind \<Rightarrow> Err (map_control_error kind)
                      | Inr r \<Rightarrow> map_signal_result r True)
           in if isl res
              then (b\<lparr>cb_channel := fst (channel_cancel ch (an_shutdown_ok ans))\<rparr>, res)
              else (b\<lparr>cb_channel := ch\<rparr>, res)))"

definition execute :: "(nat \<Rightarrow> platform_answer) \<Rightarrow> process_actuator actuator" where
  "execute answers a requested_at act =
     (let ans = answers (pa_calls a); a = a\<lparr>pa_calls := Suc (pa_calls a)\<rparr>;
          group_result = classify_group_signal a (an_scan ans)
      in case act of
           Act_Checkpoint request_id _ deadline_at \<Rightarrow>
             (case pa_checkpoint a of
                None \<Rightarrow> (a, Err CheckpointUnavailable)
              | Some b \<Rightarrow>
                  (let (b, res) = deliver_checkpoint ans (pa_process_group a) b requested_at
                                    request_id deadline_at
                   in (a\<lparr>pa_checkpoint := Some b\<rparr>, res)))
         | Act_Term _ \<Rightarrow> (a, group_result (terminate_group (an_kill ans) (pa_process_group a)))
         | Act_Kill \<Rightarrow> (a, group_result (kill_group (an_kill ans) (pa_process_group a)))
         | Act_ForwardSignal signal \<Rightarrow>
             (a, group_result (forward_terminal_signal (an_kill ans) (pa_process_group a) signal)))"

section \<open>Polling the checkpoint channel\<close>

record checkpoint_observation =
  cob_event :: "event option"
  cob_artifact :: "checkpoint_artifact_metadata option"
  cob_rejections :: "checkpoint_rejection list"

text \<open>Both polls with what one read of the stream returns.\<close>

definition poll_checkpoint_ready ::
    "process_actuator \<Rightarrow> read_result \<Rightarrow> process_actuator \<times> (actuation_failure + bool)" where
  "poll_checkpoint_ready a read =
     (case pa_checkpoint a of
        None \<Rightarrow> (a, Err CheckpointUnavailable)
      | Some b \<Rightarrow>
          (let (ch, res) = poll_ready (cb_channel b) read
           in (a\<lparr>pa_checkpoint := Some (b\<lparr>cb_channel := ch\<rparr>)\<rparr>,
               case res of Inl _ \<Rightarrow> Err CheckpointUnavailable | Inr ready \<Rightarrow> Ok ready)))"

definition observation_of_poll :: "dur \<Rightarrow> checkpoint_poll \<Rightarrow> checkpoint_observation" where
  "observation_of_poll t poll =
     (let (event, artifact) =
            (case poll_acknowledgement poll of
               Some ack \<Rightarrow>
                 (if ca_status ack = WS_Completed
                  then (Some (CheckpointAck t (ca_request_id ack) True), ca_artifact ack)
                  else (Some (ActuationFailed t KCheckpoint CheckpointRejected), None))
             | None \<Rightarrow> (None, None));
          endpoint_failed =
            list_ex (\<lambda>r. r = Reject_EndpointExited \<or> r = Reject_PostExit) (poll_rejections poll)
      in \<lparr>cob_event =
            (case event of
               Some e \<Rightarrow> Some e
             | None \<Rightarrow>
                 (if endpoint_failed
                  then Some (ActuationFailed t KCheckpoint CheckpointUnavailable) else None)),
          cob_artifact = artifact,
          cob_rejections = poll_rejections poll\<rparr>)"

definition poll_checkpoint ::
    "process_actuator \<Rightarrow> dur \<Rightarrow> read_result
     \<Rightarrow> process_actuator \<times> (actuation_failure + checkpoint_observation)" where
  "poll_checkpoint a t read =
     (case pa_checkpoint a of
        None \<Rightarrow> (a, Err CheckpointUnavailable)
      | Some b \<Rightarrow>
          (let (ch, res) = channel_poll (cb_channel b) t read
           in (a\<lparr>pa_checkpoint := Some (b\<lparr>cb_channel := ch\<rparr>)\<rparr>,
               case res of
                 Inl _ \<Rightarrow> Err CheckpointUnavailable
               | Inr poll \<Rightarrow> Ok (observation_of_poll t poll))))"

end
