(* ===== verification/Completion.thy ===== *)
theory Completion
  imports Process
begin

text \<open>
  \<^verbatim>\<open>mlx-guard-cli/src/completion.rs\<close>: the mapping of what a finished run knows about its end
  to the process status and the terminal kind it reports.
\<close>

fun child_status_of :: "root_outcome \<Rightarrow> child_status" where
  "child_status_of (Root_Exited code) = Child_Exited code"
| "child_status_of (Root_Signaled signal) = Child_Signaled (signal_get signal)"

fun supervisor_outcome_of :: "root_outcome \<Rightarrow> supervisor_outcome" where
  "supervisor_outcome_of (Root_Exited code) = ChildExited code"
| "supervisor_outcome_of (Root_Signaled signal) = ChildSignaled signal"

fun terminal_kind_of :: "root_outcome \<Rightarrow> terminal_kind" where
  "terminal_kind_of (Root_Exited code) = Kind_ChildExited code"
| "terminal_kind_of (Root_Signaled signal) = Kind_ChildSignaled (signal_get signal)"

record completion_inputs =
  ci_root_outcome :: "root_outcome option"
  ci_intervention_started :: bool
  ci_supervisor_error :: "string option"
  ci_supervisor_failure :: "string option"

record completion =
  cm_outcome :: supervisor_outcome
  cm_kind :: terminal_kind
  cm_child_status :: "child_status option"
  cm_diagnostic :: "string option"

definition complete :: "completion_inputs \<Rightarrow> completion" where
  "complete inputs =
     (let child_status = map_option child_status_of (ci_root_outcome inputs);
          (outcome, kind, diagnostic) =
            (case ci_supervisor_failure inputs of
               Some d \<Rightarrow> (SupervisorFailure, Kind_SupervisorFailure, Some d)
             | None \<Rightarrow>
                 (case ci_supervisor_error inputs of
                    Some d \<Rightarrow> (SupervisorFailure, Kind_SupervisorFailure, Some d)
                  | None \<Rightarrow>
                      (if ci_intervention_started inputs
                       then (PolicyIntervention, Kind_PolicyIntervention, None)
                       else case ci_root_outcome inputs of
                         Some root \<Rightarrow> (supervisor_outcome_of root, terminal_kind_of root, None)
                       | None \<Rightarrow>
                           (SupervisorFailure, Kind_SupervisorFailure,
                            Some ''supervision ended without an observed root status''))))
      in \<lparr>cm_outcome = outcome, cm_kind = kind, cm_child_status = child_status,
          cm_diagnostic = diagnostic\<rparr>)"

text \<open>A root status of the operating system: its signal is a real one.\<close>

definition real_root_outcome :: "root_outcome option \<Rightarrow> bool" where
  "real_root_outcome r \<longleftrightarrow> (case r of Some (Root_Signaled signal) \<Rightarrow> valid_signal signal | _ \<Rightarrow> True)"

lemma valid_signal_in_range: "valid_signal s \<Longrightarrow> signal_in_range (signal_get s)"
  by (simp add: valid_signal_iff signal_in_range_def word_le_nat_alt)

lemma complete_outcome_valid:
  assumes "real_root_outcome (ci_root_outcome inputs)"
    and "to_kind t = cm_kind (complete inputs)"
    and "to_child_status t = cm_child_status (complete inputs)"
    and "case to_parent_exited_at_ms t of None \<Rightarrow> True | Some at_ms \<Rightarrow> at_ms \<le> to_at_ms t"
  shows "outcome_valid t"
  using assms
  by (auto simp: outcome_valid_def complete_def Let_def real_root_outcome_def valid_signal_in_range
      split: option.splits root_outcome.splits)

end
