(* ===== verification/Runtime.thy ===== *)
theory Runtime
  imports Actuator Advisory Cli Journal Completion
begin

text \<open>
  The enforcing run of \<^verbatim>\<open>mlx-guard-cli/src/runtime.rs\<close>: how one event is labelled, applied,
  journaled and attributed, how one sample is taken, one iteration of the supervising loop, the
  wait of a failed supervision, and the end of the run. Clock readings and the answers of the
  platform are inputs of each iteration. The journal never influences the run, so a step returns
  what it writes, in order with the actuations it executes, and the journal is written from that.
\<close>

section \<open>Attribution\<close>

fun observed_value :: "u64 observed \<Rightarrow> u64 option" where
  "observed_value (Available v) = Some v"
| "observed_value _ = None"

fun shutdown_reason_for :: "event \<Rightarrow> signal_reason option" where
  "shutdown_reason_for (ExternalSignal _ _) = Some Reason_ExternalSignal"
| "shutdown_reason_for (RootExited _) = Some Reason_RootExitCleanup"
| "shutdown_reason_for (ParentExited _) = Some Reason_ParentExit"
| "shutdown_reason_for _ = None"

fun may_label_shutdown :: "event \<Rightarrow> policy_state \<Rightarrow> bool" where
  "may_label_shutdown (ParentExited _) s \<longleftrightarrow> s = Normal \<or> s = Warning"
| "may_label_shutdown (RootExited _) s \<longleftrightarrow> s = Normal \<or> s = Warning \<or> s = CheckpointRequested"
| "may_label_shutdown _ s \<longleftrightarrow> True"

fun opens_an_uncounted_shutdown :: "event \<Rightarrow> bool" where
  "opens_an_uncounted_shutdown (ExternalSignal _ _) = True"
| "opens_an_uncounted_shutdown (RootExited _) = True"
| "opens_an_uncounted_shutdown _ = False"

fun intervention_cause_for :: "event \<Rightarrow> signal_reason option" where
  "intervention_cause_for (Sample _) = Some Reason_Footprint"
| "intervention_cause_for (Tick _) = Some Reason_WallTime"
| "intervention_cause_for _ = None"

fun supervisor_error_diagnostic :: "event \<Rightarrow> string" where
  "supervisor_error_diagnostic (Sample _) = ''footprint observation failed''"
| "supervisor_error_diagnostic (ActuationFailed _ _ _) = ''signal delivery failed''"
| "supervisor_error_diagnostic (SupervisorFault _) = ''supervisor fault''"
| "supervisor_error_diagnostic _ = ''supervision failed closed''"

fun term_reason :: "checkpoint_disposition \<Rightarrow> signal_reason option \<Rightarrow> signal_reason option" where
  "term_reason Disp_SkippedRootExited cause = Some Reason_RootExitCleanup"
| "term_reason Disp_SkippedObservationFailure cause = Some Reason_ObservationFailure"
| "term_reason Disp_SkippedSupervisorFailure cause = Some Reason_SupervisorFault"
| "term_reason Disp_SkippedParentExited cause = Some Reason_ParentExit"
| "term_reason _ cause = cause"

fun actuation_reason ::
    "actuation \<Rightarrow> signal_reason option \<Rightarrow> signal_reason option \<Rightarrow> signal_reason option" where
  "actuation_reason (Act_Checkpoint _ _ _) cause reason = cause"
| "actuation_reason (Act_Term checkpoint) cause reason = term_reason checkpoint cause"
| "actuation_reason (Act_ForwardSignal _) cause reason = Some Reason_ExternalSignal"
| "actuation_reason Act_Kill cause reason = (case reason of Some r \<Rightarrow> Some r | None \<Rightarrow> cause)"

definition checkpoint_progress ::
    "actuation \<Rightarrow> actuation_result \<Rightarrow> bool \<Rightarrow> checkpoint_status option" where
  "checkpoint_progress act res negotiated =
     (case act of
        Act_Checkpoint _ _ _ \<Rightarrow>
          (case res of
             Inr Act_Delivered \<Rightarrow> Some Status_RequestedUnverified
           | Inr Act_ProcessMissing \<Rightarrow> None
           | Inl _ \<Rightarrow> (if negotiated then Some Status_Cancelled else None))
      | Act_Term checkpoint \<Rightarrow> (if checkpoint = Disp_TimedOut then Some Status_TimedOut else None)
      | _ \<Rightarrow> None)"

fun signal_result_of :: "actuation_result \<Rightarrow> signal_result" where
  "signal_result_of (Inr Act_Delivered) = Sig_Delivered"
| "signal_result_of (Inr Act_ProcessMissing) = Sig_ProcessMissing"
| "signal_result_of (Inl ProcessMissing) = Sig_ProcessMissing"
| "signal_result_of (Inl PermissionDenied) = Sig_PermissionDenied"
| "signal_result_of (Inl _) = Sig_Failed"

definition signal_record_of ::
    "dur \<Rightarrow> actuation \<Rightarrow> actuation_result \<Rightarrow> u8 option \<Rightarrow> signal_reason option
     \<Rightarrow> signal_record option" where
  "signal_record_of t act res checkpoint_signal reason =
     map_option (\<lambda>(signal, target).
         \<lparr>sr_at_ms = duration_ms t, sr_signal = signal, sr_target = target,
          sr_result = signal_result_of res, sr_reason = reason\<rparr>)
       (case act of
          Act_Checkpoint _ _ _ \<Rightarrow>
            (if res = Err CheckpointUnavailable \<or> res = Err CheckpointRejected then None
             else map_option (\<lambda>signal. (signal, Target_CooperativeEndpoint)) checkpoint_signal)
        | Act_Term _ \<Rightarrow> Some (15, Target_OwnedProcessGroup)
        | Act_Kill \<Rightarrow> Some (9, Target_OwnedProcessGroup)
        | Act_ForwardSignal signal \<Rightarrow> Some (signal_get signal, Target_OwnedProcessGroup))"

definition retain_recent_sample :: "sample_window list \<Rightarrow> sample_window \<Rightarrow> sample_window list" where
  "retain_recent_sample samples sample = push_capped MAX_SAMPLE_HISTORY_CAPACITY samples sample"

interpretation recent_samples: capped_queue
    MAX_SAMPLE_HISTORY_CAPACITY "[]" retain_recent_sample "\<lambda>q. q"
  by unfold_locales (simp_all add: MAX_SAMPLE_HISTORY_CAPACITY_def retain_recent_sample_def)

fun artifact_kind_of :: "checkpoint_artifact_kind \<Rightarrow> artifact_kind" where
  "artifact_kind_of AK_File = Artifact_File"
| "artifact_kind_of AK_Directory = Artifact_Directory"
| "artifact_kind_of AK_Opaque = Artifact_Opaque"

definition artifact_record_of :: "checkpoint_artifact_metadata \<Rightarrow> checkpoint_artifact_record" where
  "artifact_record_of artifact =
    \<lparr>car_kind = artifact_kind_of (am_kind artifact), car_size_bytes = am_size_bytes artifact\<rparr>"

fun control_error_text :: "control_error_kind \<Rightarrow> string" where
  "control_error_text Ctl_WaitFailed = ''waiting for the root process failed''"
| "control_error_text Ctl_InvalidRootStatus = ''root process returned an invalid Unix status''"
| "control_error_text Ctl_UnsupportedExternalSignal =
     ''only SIGHUP, SIGINT, and SIGTERM can be forwarded as terminal signals''"
| "control_error_text Ctl_InvalidCheckpointEndpoint =
     ''checkpoint endpoint is not the identity it was negotiated for, or is not a live member of the owned process group''"
| "control_error_text Ctl_GroupQueryFailed = ''owned process-group query failed''"
| "control_error_text Ctl_TerminalSignalMonitorUnavailable = ''terminal signal monitoring failed''"
| "control_error_text Ctl_TerminalSignalMonitorAlreadyInstalled =
     ''a terminal signal monitor is already installed''"
| "control_error_text Ctl_ClientReadyUnavailable =
     ''client readiness descriptor configuration failed''"
| "control_error_text Ctl_SignalFailed = ''signal delivery failed''"

section \<open>State\<close>

datatype checkpoint_negotiation = Neg_Pending | Neg_Ready | Neg_Unavailable

record run_runtime =
  rr_retained_outcome :: "root_outcome option"
  rr_process_group :: i32
  rr_sampler :: footprint_sampler
  rr_sample_interval :: dur
  rr_calibration :: observe_calibration
  rr_report_samples :: "sample_window list"
  rr_engine :: "process_actuator engine"
  rr_checkpoint_negotiation :: checkpoint_negotiation
  rr_checkpoint_status :: checkpoint_status
  rr_checkpoint_at_ms :: "u64 option"
  rr_checkpoint_request_id :: "u64 option"
  rr_checkpoint_reason :: "signal_reason option"
  rr_checkpoint_artifact :: "checkpoint_artifact_record option"
  rr_parent_watch :: parent_watch_state
  rr_root_outcome :: "root_outcome option"
  rr_final_footprint :: "u64 observed"
  rr_escape_detected :: bool
  rr_intervention_started :: bool
  rr_root_exit_applied :: bool
  rr_supervisor_error :: "string option"
  rr_intervention_cause :: "signal_reason option"
  rr_shutdown_reason :: "signal_reason option"

text \<open>What a step does to the outside, in order.\<close>

datatype run_effect =
    Wrote journal_entry journal_durability
  | Actuated dur actuation actuation_result

text \<open>The platform's answers to the executions, and the number of SIGUSR1.\<close>

record run_env =
  re_answers :: "nat \<Rightarrow> platform_answer"
  re_checkpoint_signal :: signal_number

abbreviation rr_policy :: "run_runtime \<Rightarrow> policy_machine" where
  "rr_policy r \<equiv> eng_policy (rr_engine r)"

section \<open>Applying one event\<close>

text \<open>The observer closure of \<open>handle_event\<close>, on the trace of the engine.\<close>

fun observe_entry ::
    "signal_reason option \<Rightarrow> string \<Rightarrow> u64 option \<Rightarrow> run_runtime \<Rightarrow> trace_entry
     \<Rightarrow> run_runtime \<times> run_effect list" where
  "observe_entry event_cause error_diagnostic final_footprint r (Transition t from_state to_state) =
     (let r = (if rr_intervention_cause r = None
                  \<and> (from_state = Normal \<or> from_state = Warning)
                  \<and> (to_state = CheckpointRequested \<or> to_state = Terminating \<or> to_state = Emergency)
               then r\<lparr>rr_intervention_cause := event_cause\<rparr> else r);
          r = (if to_state = SupervisorError \<and> rr_supervisor_error r = None
               then r\<lparr>rr_supervisor_error := Some error_diagnostic\<rparr> else r)
      in (r, [Wrote (E_Transition
                \<lparr>tr_at_ms = duration_ms t, tr_from = from_state, tr_to = to_state,
                 tr_aggregate_footprint_bytes = final_footprint\<rparr>) Sync]))"
| "observe_entry event_cause error_diagnostic final_footprint r (Executed t act res) =
     (r, [Actuated t act res])"

definition newest_records :: "intervention_evidence \<Rightarrow> u64 \<Rightarrow> intervention_record list" where
  "newest_records ev previous_attempts =
     (let new_attempts = sat_sub (ie_total_attempts ev) previous_attempts
      in drop (length (ie_records ev) - unat new_attempts) (ie_records ev))"

definition handle_event ::
    "run_env \<Rightarrow> run_runtime \<Rightarrow> event
     \<Rightarrow> run_runtime \<times> intervention_record list \<times> run_effect list" where
  "handle_event env r e =
     (let previous_attempts = ie_total_attempts (eng_evidence (rr_engine r));
          (g, _, tr) = handle (execute (re_answers env)) (rr_engine r) e;
          (r, fx) = run_machine
            (observe_entry (intervention_cause_for e) (supervisor_error_diagnostic e)
               (observed_value (rr_final_footprint r)))
            (r\<lparr>rr_engine := g\<rparr>) tr
      in (r, newest_records (eng_evidence g) previous_attempts, fx))"

definition record_actuation ::
    "run_env \<Rightarrow> run_runtime \<Rightarrow> intervention_record \<Rightarrow> run_runtime \<times> run_effect list" where
  "record_actuation env r record =
     (let act = ir_action record; res = ir_result record;
          reason = actuation_reason act (rr_intervention_cause r) (rr_shutdown_reason r);
          r = (case act of
                 Act_Checkpoint request_id _ _ \<Rightarrow>
                   (let r = r\<lparr>rr_checkpoint_reason := reason\<rparr>
                    in if res = Ok Act_Delivered
                       then r\<lparr>rr_checkpoint_request_id := Some request_id\<rparr> else r)
               | _ \<Rightarrow> r\<lparr>rr_shutdown_reason := reason\<rparr>);
          r = (case checkpoint_progress act res (rr_checkpoint_negotiation r = Neg_Ready) of
                 Some status \<Rightarrow>
                   r\<lparr>rr_checkpoint_status := status,
                     rr_checkpoint_at_ms := Some (duration_ms (ir_requested_at record))\<rparr>
               | None \<Rightarrow> r)
      in (r, case signal_record_of (ir_requested_at record) act res
                    (Some (signal_get (re_checkpoint_signal env))) reason of
               Some signal \<Rightarrow> [Wrote (E_Signal signal) Sync]
             | None \<Rightarrow> []))"

definition record_actuations ::
    "run_env \<Rightarrow> run_runtime \<Rightarrow> intervention_record list \<Rightarrow> run_runtime \<times> run_effect list" where
  "record_actuations env = run_machine (record_actuation env)"

definition label_shutdown :: "event \<Rightarrow> run_runtime \<Rightarrow> run_runtime" where
  "label_shutdown e r =
     (if may_label_shutdown e (pm_state (rr_policy r)) \<and> shutdown_reason_for e \<noteq> None
      then r\<lparr>rr_shutdown_reason := shutdown_reason_for e\<rparr> else r)"

definition note_acknowledgement :: "event \<Rightarrow> run_runtime \<Rightarrow> run_runtime" where
  "note_acknowledgement e r =
     (case e of
        CheckpointAck t _ True \<Rightarrow>
          r\<lparr>rr_checkpoint_status := Status_AcknowledgedUnverifiedDurability,
            rr_checkpoint_at_ms := Some (duration_ms t)\<rparr>
      | _ \<Rightarrow> r)"

definition run_apply :: "run_env \<Rightarrow> run_runtime \<Rightarrow> event \<Rightarrow> run_runtime \<times> run_effect list" where
  "run_apply env r e =
     (let uncounted = opens_an_uncounted_shutdown e;
          r = note_acknowledgement e (label_shutdown e r);
          (r, new_records, fx1) = handle_event env r e;
          r = r\<lparr>rr_intervention_started :=
                  (rr_intervention_started r \<or> \<not> uncounted \<and> new_records \<noteq> [])\<rparr>;
          (r, fx2) = record_actuations env r new_records
      in (r, fx1 @ fx2))"

section \<open>The checkpoint channel\<close>

text \<open>One poll: the clock, and what a read of the stream returns if there is one.\<close>

record poll_input =
  pi_now :: dur
  pi_ready_read :: read_result
  pi_read :: read_result

definition set_actuator :: "run_runtime \<Rightarrow> process_actuator \<Rightarrow> run_runtime" where
  "set_actuator r a = r\<lparr>rr_engine := (rr_engine r)\<lparr>eng_actuator := a\<rparr>\<rparr>"

definition negotiate :: "run_runtime \<Rightarrow> poll_input \<Rightarrow> run_runtime" where
  "negotiate r p =
     (if rr_checkpoint_negotiation r \<noteq> Neg_Pending then r
      else let (a, res) = poll_checkpoint_ready (eng_actuator (rr_engine r)) (pi_ready_read p);
               r = set_actuator r a
           in case res of
                Inr True \<Rightarrow> r\<lparr>rr_checkpoint_negotiation := Neg_Ready\<rparr>
              | Inr False \<Rightarrow> r
              | Inl _ \<Rightarrow> r\<lparr>rr_checkpoint_negotiation := Neg_Unavailable\<rparr>)"

definition poll_checkpoint_channel ::
    "run_env \<Rightarrow> run_runtime \<Rightarrow> poll_input \<Rightarrow> run_runtime \<times> run_effect list" where
  "poll_checkpoint_channel env r p =
     (let r = negotiate r p in
      if rr_checkpoint_negotiation r = Neg_Ready \<and> pm_state (rr_policy r) = CheckpointRequested
      then
        let (a, res) = poll_checkpoint (eng_actuator (rr_engine r)) (pi_now p) (pi_read p);
            r = set_actuator r a
        in case res of
             Inl failure \<Rightarrow> run_apply env r (ActuationFailed (pi_now p) KCheckpoint failure)
           | Inr observation \<Rightarrow>
               (let r = (case cob_artifact observation of
                           Some artifact \<Rightarrow>
                             r\<lparr>rr_checkpoint_artifact := Some (artifact_record_of artifact)\<rparr>
                         | None \<Rightarrow> r)
                in case cob_event observation of
                     Some e \<Rightarrow> run_apply env r e
                   | None \<Rightarrow> (r, []))
      else (r, []))"

section \<open>Sampling\<close>

record sample_input =
  si_started_at :: dur
  si_finished_at :: dur
  si_snapshot :: snapshot_result
  si_processed_at :: dur
  si_advisory :: advisory_snapshot

definition run_sample_once ::
    "run_env \<Rightarrow> run_runtime \<Rightarrow> sample_input \<Rightarrow> run_runtime \<times> run_effect list" where
  "run_sample_once env r i =
     (let (sampler, sample) =
            record_snapshot (rr_sampler r) (si_started_at i) (si_finished_at i) (si_snapshot i);
          event = policy_event sampler sample (si_processed_at i);
          (calibration, window) =
            record_sample (rr_calibration r) sample (si_processed_at i) (si_advisory i);
          r = r\<lparr>rr_sampler := sampler, rr_calibration := calibration,
                rr_report_samples := retain_recent_sample (rr_report_samples r) window,
                rr_final_footprint := sw_aggregate_footprint_bytes window,
                rr_escape_detected := (rr_escape_detected r \<or> fs_escape_observed sample)\<rparr>;
          fx1 = (if unat (fs_sequence sample) < MAX_SAMPLE_HISTORY_CAPACITY
                 then [Wrote (E_Sample window) Buffered] else []);
          (r, fx2) = run_apply env r (Sample event)
      in (r, fx1 @ fx2))"

section \<open>The supervising loop\<close>

text \<open>The inputs of one iteration, in the order in which the code obtains them.\<close>

record loop_input =
  li_waited :: "sys_errno + exit_status option"
  li_kill :: sys_kill
  li_parent_now :: dur
  li_ppid :: i32
  li_parent_exited :: "bool option"
  li_drain :: poll_input
  li_root_exit_at :: dur
  li_poll :: poll_input
  li_signals :: "control_error_kind + (dur \<times> signal_number) list"
  li_sample :: sample_input
  li_tick_at :: dur
  li_fault_at :: dur
  li_fault_readings :: "dur list"

datatype run_completion =
    Completed_Root root_outcome
  | Completed_SupervisorFailure string

text \<open>
  \<open>fail_supervisor\<close>: the fault, then waiting for the deadline it opened. \<open>None\<close> when the given clock
  readings end before the deadline.
\<close>

definition fail_supervisor ::
    "run_env \<Rightarrow> run_runtime \<Rightarrow> dur \<Rightarrow> dur list \<Rightarrow> string
     \<Rightarrow> (run_runtime \<times> run_effect list \<times> run_completion) option" where
  "fail_supervisor env r fault_at readings diagnostic =
     (let (r, fx) = run_apply env r (SupervisorFault fault_at);
          failed = Completed_SupervisorFailure diagnostic
      in case next_deadline (rr_policy r) of
           None \<Rightarrow> Some (r, fx, failed)
         | Some deadline \<Rightarrow>
             (case List.find (\<lambda>now. deadline \<le> now) readings of
                None \<Rightarrow> None
              | Some now \<Rightarrow>
                  (let (r, fx2) = run_apply env r (Tick now) in Some (r, fx @ fx2, failed))))"

definition watch_parent :: "run_env \<Rightarrow> run_runtime \<Rightarrow> loop_input \<Rightarrow> run_runtime \<times> run_effect list" where
  "watch_parent env r i =
     (let (watch, exited) =
            parent_has_exited (rr_parent_watch r) (li_ppid i) (li_parent_exited i) (li_parent_now i);
          r = r\<lparr>rr_parent_watch := watch\<rparr>
      in if exited \<and> pw_on_parent_exit watch = OnParent_Terminate
         then run_apply env r (ParentExited (li_parent_now i)) else (r, []))"

definition clean_up_survivors ::
    "run_env \<Rightarrow> run_runtime \<Rightarrow> loop_input \<Rightarrow> run_runtime \<times> run_effect list" where
  "clean_up_survivors env r i =
     (if rr_root_outcome r \<noteq> None \<and> \<not> rr_root_exit_applied r
      then
        let (r, fx1) = poll_checkpoint_channel env (r\<lparr>rr_root_exit_applied := True\<rparr>) (li_drain i);
            (r, fx2) = run_apply env r (RootExited (li_root_exit_at i))
        in (r, fx1 @ fx2)
      else (r, []))"

definition forward_signals ::
    "run_env \<Rightarrow> run_runtime \<Rightarrow> (dur \<times> signal_number) list \<Rightarrow> run_runtime \<times> run_effect list" where
  "forward_signals env = run_machine (\<lambda>r (t, signal). run_apply env r (ExternalSignal t signal))"

definition sample_and_tick ::
    "run_env \<Rightarrow> run_runtime \<Rightarrow> loop_input \<Rightarrow> run_runtime \<times> run_effect list" where
  "sample_and_tick env r i =
     (let (r, fx1) = run_sample_once env r (li_sample i);
          (r, fx2) = run_apply env r (Tick (li_tick_at i))
      in (r, fx1 @ fx2))"

text \<open>The part of an iteration after the checks that can end the run, up to the signal pipe.\<close>

definition before_signals ::
    "run_env \<Rightarrow> run_runtime \<Rightarrow> loop_input \<Rightarrow> bool \<Rightarrow> run_runtime \<times> run_effect list" where
  "before_signals env r i group_exists =
     (let (r, fx1) = watch_parent env r i;
          (r, fx2) = (if group_exists then clean_up_survivors env r i else (r, []));
          (r, fx3) = poll_checkpoint_channel env r (li_poll i)
      in (r, fx1 @ fx2 @ fx3))"

definition wait_for_root ::
    "run_runtime \<Rightarrow> sys_errno + exit_status option
     \<Rightarrow> run_runtime \<times> (control_error_kind + root_outcome option)" where
  "wait_for_root r waited =
     (if rr_root_outcome r \<noteq> None then (r, Ok (rr_root_outcome r))
      else let (retained, res) = try_wait_root (rr_retained_outcome r) waited;
               r = r\<lparr>rr_retained_outcome := retained\<rparr>
           in case res of
                Inl kind \<Rightarrow> (r, Err kind)
              | Inr outcome \<Rightarrow> (r\<lparr>rr_root_outcome := outcome\<rparr>, Ok outcome))"

text \<open>One iteration: \<open>None\<close> as in \<open>fail_supervisor\<close>, otherwise whether the loop returned.\<close>

definition run_iteration ::
    "run_env \<Rightarrow> run_runtime \<Rightarrow> loop_input
     \<Rightarrow> (run_runtime \<times> run_effect list \<times> run_completion option) option" where
  "run_iteration env r i =
     (let failing = (\<lambda>r fx kind. map_option (\<lambda>(r, fx2, c). (r, fx @ fx2, Some c))
            (fail_supervisor env r (li_fault_at i) (li_fault_readings i) (control_error_text kind)))
      in case wait_for_root r (li_waited i) of
           (r, Inl kind) \<Rightarrow> failing r [] kind
         | (r, Inr outcome) \<Rightarrow>
             (case owned_group_exists (li_kill i) (rr_process_group r) of
                Inl kind \<Rightarrow> failing r [] kind
              | Inr group_exists \<Rightarrow>
                  (case (outcome, group_exists) of
                     (Some root, False) \<Rightarrow> Some (r, [], Some (Completed_Root root))
                   | _ \<Rightarrow>
                       (let (r, fx1) = before_signals env r i group_exists in
                        case li_signals i of
                          Inl kind \<Rightarrow> failing r fx1 kind
                        | Inr signals \<Rightarrow>
                            (let (r, fx2) = forward_signals env r signals;
                                 (r, fx3) = sample_and_tick env r i
                             in Some (r, fx1 @ fx2 @ fx3, None))))))"

text \<open>The pause after an iteration; it does not change the state.\<close>

definition loop_delay :: "run_runtime \<Rightarrow> dur \<Rightarrow> dur" where
  "loop_delay r now =
     (let sample_delay = (case delay_until_next (rr_sampler r) now of
                            Inl _ \<Rightarrow> rr_sample_interval r | Inr d \<Rightarrow> d);
          policy_delay = (case next_deadline (rr_policy r) of
                            None \<Rightarrow> sample_delay | Some deadline \<Rightarrow> dur_sat_sub deadline now)
      in min sample_delay policy_delay)"

text \<open>\<open>sample_until_exit\<close> over the inputs of its iterations; \<open>None\<close> while it has not returned.\<close>

fun sample_until_exit ::
    "run_env \<Rightarrow> run_runtime \<Rightarrow> loop_input list
     \<Rightarrow> (run_runtime \<times> run_effect list \<times> run_completion) option" where
  "sample_until_exit env r [] = None"
| "sample_until_exit env r (i # is) =
     (case run_iteration env r i of
        None \<Rightarrow> None
      | Some (r, fx, Some completion) \<Rightarrow> Some (r, fx, completion)
      | Some (r, fx, None) \<Rightarrow>
          map_option (\<lambda>(r, fx2, completion). (r, fx @ fx2, completion)) (sample_until_exit env r is))"

section \<open>The end of a run\<close>

definition recent_sample_history ::
    "footprint_sampler \<Rightarrow> sample_window list \<Rightarrow> run_effect list" where
  "recent_sample_history sampler samples =
     (case sm_history sampler of
        [] \<Rightarrow> []
      | s # _ \<Rightarrow>
          (if fs_sequence s = 0 then []
           else Wrote E_SampleHistoryReset Sync # map (\<lambda>w. Wrote (E_Sample w) Buffered) samples))"

definition escape_of :: "bool \<Rightarrow> footprint_sampler \<Rightarrow> escape_evidence" where
  "escape_of escape_detected sampler =
     (let escaped_count = it_escaped_count (sm_tracker sampler)
      in \<lparr>ee_detected = Available escape_detected,
          ee_escaped_count = (if 0 < escaped_count then Some escaped_count else None)\<rparr>)"

definition run_record_terminal :: "run_runtime \<Rightarrow> terminal_outcome \<Rightarrow> run_effect list" where
  "run_record_terminal r outcome =
     recent_sample_history (rr_sampler r) (rr_report_samples r)
     @ [Wrote (E_Checkpoint
           \<lparr>ck_status = rr_checkpoint_status r, ck_at_ms = rr_checkpoint_at_ms r,
            ck_request_id = rr_checkpoint_request_id r, ck_reason = rr_checkpoint_reason r,
            ck_artifact = rr_checkpoint_artifact r\<rparr>) Sync,
        Wrote (E_Escape (escape_of (rr_escape_detected r) (rr_sampler r))) Buffered,
        Wrote (E_Outcome outcome) Sync]"

record run_end =
  re_outcome :: supervisor_outcome
  re_diagnostic :: "string option"
  re_terminal :: terminal_outcome

definition terminal_of :: "run_runtime \<Rightarrow> dur \<Rightarrow> completion \<Rightarrow> terminal_outcome" where
  "terminal_of r ended_at c =
    \<lparr>to_at_ms = duration_ms ended_at, to_kind = cm_kind c,
     to_final_footprint_bytes = rr_final_footprint r, to_child_status = cm_child_status c,
     to_owned_group_survivors = None,
     to_parent_exited_at_ms = pw_exited_at_ms (rr_parent_watch r)\<rparr>"

definition end_run ::
    "run_env \<Rightarrow> run_runtime \<Rightarrow> run_completion \<Rightarrow> dur
     \<Rightarrow> run_runtime \<times> run_effect list \<times> run_end" where
  "end_run env r completion ended_at =
     (let (r, fx, failure) = (case completion of
            Completed_Root _ \<Rightarrow>
              (let (r, fx) = run_apply env r
                     (ProcessExited ended_at (observed_value (rr_final_footprint r)))
               in (r, fx, None))
          | Completed_SupervisorFailure diagnostic \<Rightarrow> (r, [], Some diagnostic));
          c = complete \<lparr>ci_root_outcome = rr_root_outcome r,
                ci_intervention_started = rr_intervention_started r,
                ci_supervisor_error = rr_supervisor_error r, ci_supervisor_failure = failure\<rparr>;
          terminal = terminal_of r ended_at c
      in (r, fx @ run_record_terminal r terminal,
          \<lparr>re_outcome = cm_outcome c, re_diagnostic = cm_diagnostic c, re_terminal = terminal\<rparr>))"

text \<open>\<open>RunRuntime::run\<close> without the journal file.\<close>

definition run_supervised ::
    "run_env \<Rightarrow> run_runtime \<Rightarrow> loop_input list \<Rightarrow> dur
     \<Rightarrow> (run_runtime \<times> run_effect list \<times> run_end) option" where
  "run_supervised env r inputs ended_at =
     (case sample_until_exit env r inputs of
        None \<Rightarrow> None
      | Some (r, fx, completion) \<Rightarrow>
          (let (r, fx2, e) = end_run env r completion ended_at in Some (r, fx @ fx2, e)))"

section \<open>The journal of a run\<close>

definition journal_effect ::
    "'j appender \<Rightarrow> 'j resilient_journal \<times> u64 \<Rightarrow> run_effect \<Rightarrow> 'j resilient_journal \<times> u64" where
  "journal_effect append_record s fx =
     (case fx of
        Wrote entry durability \<Rightarrow> record_resilient append_record s entry durability
      | Actuated _ _ _ \<Rightarrow> s)"

definition journal_effects ::
    "'j appender \<Rightarrow> 'j resilient_journal \<times> u64 \<Rightarrow> run_effect list \<Rightarrow> 'j resilient_journal \<times> u64" where
  "journal_effects append_record = foldl (journal_effect append_record)"

text \<open>
  \<open>finish_journal\<close>: the process outcome, and the report with its text if one was finalized. The
  lines printed around it are in \<^verbatim>\<open>Launch\<close>.
\<close>

definition finish_journal ::
    "(bytes \<Rightarrow> journal_record option) \<Rightarrow> (report_v1 \<Rightarrow> 'e + string) \<Rightarrow> bool \<Rightarrow> bool
     \<Rightarrow> secure_journal resilient_journal \<Rightarrow> supervisor_outcome
     \<Rightarrow> supervisor_outcome \<times> (report_v1 \<times> string) option" where
  "finish_journal from_slice to_string sync_ok private rj outcome =
     (case rj_journal rj of
        None \<Rightarrow> (PartialArtifactFailure, None)
      | Some j \<Rightarrow>
          (case snd (finalize from_slice to_string sync_ok private j) of
             Inl _ \<Rightarrow> (PartialArtifactFailure, None)
           | Inr artifacts \<Rightarrow> (outcome, Some artifacts)))"

section \<open>The start of a run\<close>

definition initial_header ::
    "string \<Rightarrow> run_identity \<Rightarrow> report_configuration \<Rightarrow> bool \<Rightarrow> journal_header" where
  "initial_header package_version run configuration checkpoint_available =
    \<lparr>jh_schema_version = REPORT_SCHEMA_VERSION, jh_package_version = package_version,
     jh_run = run,
     jh_capabilities =
       \<lparr>cap_darwin_footprint = Available True, cap_owned_process_group = Available True,
        cap_checkpoint_channel =
          (if checkpoint_available then Available True else Unavailable NotNegotiated)\<rparr>,
     jh_configuration = configuration, jh_privacy = privacy_default\<rparr>"

text \<open>\<open>None\<close> when writing the header fails: then nothing is launched.\<close>

definition initialize ::
    "'j appender \<Rightarrow> 'j \<Rightarrow> journal_header \<Rightarrow> ('j \<times> u64) option" where
  "initialize append_record j header =
     (case append_record j (journal_record_new 0 (E_Header header)) Sync of
        (j, Inr _) \<Rightarrow> Some (j, 1)
      | (_, Inl _) \<Rightarrow> None)"

definition run_start ::
    "run_options \<Rightarrow> sampling_config \<Rightarrow> policy_machine \<Rightarrow> identity_tracker \<Rightarrow> root_outcome option
     \<Rightarrow> process_actuator \<Rightarrow> parent_watch_state \<Rightarrow> run_runtime" where
  "run_start options config policy tracker retained actuator watch =
    \<lparr>rr_retained_outcome = retained, rr_process_group = pa_process_group actuator,
     rr_sampler = sampler_new config tracker,
     rr_sample_interval = co_sample_interval (ro_common options),
     rr_calibration = calibration_new, rr_report_samples = [],
     rr_engine = engine_new policy actuator, rr_checkpoint_negotiation = Neg_Pending,
     rr_checkpoint_status = Status_NotNegotiated, rr_checkpoint_at_ms = None,
     rr_checkpoint_request_id = None, rr_checkpoint_reason = None, rr_checkpoint_artifact = None,
     rr_parent_watch = watch, rr_root_outcome = None, rr_final_footprint = Unknown,
     rr_escape_detected = False, rr_intervention_started = False, rr_root_exit_applied = False,
     rr_supervisor_error = None, rr_intervention_cause = None, rr_shutdown_reason = None\<rparr>"

end
