(* ===== verification/Run_Steps.thy ===== *)
theory Run_Steps
  imports Runtime Intervention_Props Policy_Props Advisory_Props Cli_Props Journal_Props
begin

text \<open>
  How one event goes through the engine of an enforcing run: what the policy asks for, what the
  actuator then executes, and which attempts the run loop finds in the evidence afterwards.
\<close>

section \<open>What one event asks for\<close>

definition closing :: "policy_machine \<Rightarrow> bool" where
  "closing m \<longleftrightarrow> pm_state m \<in> {Terminating, Emergency, SupervisorError, Exited}"

definition watching :: "policy_machine \<Rightarrow> bool" where
  "watching m \<longleftrightarrow> pm_state m \<in> {Normal, Warning}"

definition calm :: "action list \<Rightarrow> bool" where
  "calm acts \<longleftrightarrow> (\<forall>a\<in>set acts. actuation_for a = None)"

lemma calm_simps [simp]:
  "calm []" "calm (a # as) \<longleftrightarrow> actuation_for a = None \<and> calm as"
  "calm (as @ bs) \<longleftrightarrow> calm as \<and> calm bs"
  by (auto simp: calm_def)

lemma closing_started:
  "policy_inv m \<Longrightarrow> pm_mode m = EnforceMode \<Longrightarrow> closing m \<Longrightarrow>
   pm_intervention_started m \<or> pm_state m = Exited"
  by (cases "pm_state m") (auto simp: closing_def policy_inv_def)

text \<open>Once a run is closing it stays so, and all it can still ask for is KILL.\<close>

lemma closing_step:
  assumes "policy_inv m" and "pm_mode m = EnforceMode" and "closing m"
  shows "closing (fst (apply_event m e))"
    and "a \<in> set (snd (apply_event m e)) \<Longrightarrow> actuation_for a = None \<or> actuation_for a = Some Act_Kill"
proof -
  have "closing (fst (apply_event m e)) \<and>
    (\<forall>a\<in>set (snd (apply_event m e)). actuation_for a = None \<or> actuation_for a = Some Act_Kill)"
  proof (cases rule: apply_event_cases [of m e])
    case regressed
    with closing_started [OF assms] show ?thesis using assms(3) by (auto simp: fail_clock_def)
  next
    case dispatched
    with closing_started [OF assms] show ?thesis using assms(3)
      by (cases e; cases "pm_state m")
        (auto simp: closing_def apply_sample_def apply_missing_def apply_tick_def
          apply_supervisor_fault_def short_handlers Let_def assms(2))
  qed (use assms in \<open>auto simp: closing_def\<close>)
  then show "closing (fst (apply_event m e))"
    and "a \<in> set (snd (apply_event m e)) \<Longrightarrow> actuation_for a = None \<or> actuation_for a = Some Act_Kill"
    by auto
qed

text \<open>The three kinds of steps of an enforcing machine whose clock moves forwards.\<close>

definition stays :: "policy_machine \<Rightarrow> policy_machine \<Rightarrow> bool" where
  "stays m n \<longleftrightarrow> (watching n \<longrightarrow> watching m)
     \<and> (pm_state n = CheckpointRequested \<longrightarrow>
          pm_state m = CheckpointRequested \<and> pm_active_request_id n = pm_active_request_id m)"

definition asks :: "policy_machine \<Rightarrow> policy_machine \<Rightarrow> action list \<Rightarrow> bool" where
  "asks m n acts \<longleftrightarrow> watching m \<and> pm_state n = CheckpointRequested
     \<and> pm_active_request_id n = Some (pm_next_request_id m)
     \<and> (\<exists>pre over deadline. calm pre
          \<and> acts = pre @ [RequestCheckpoint (pm_next_request_id m) over deadline])"

definition stops :: "policy_machine \<Rightarrow> event \<Rightarrow> policy_machine \<Rightarrow> action list \<Rightarrow> bool" where
  "stops m e n acts \<longleftrightarrow> closing n \<and> (\<forall>a\<in>set acts. \<not> is_RequestCheckpoint a)
     \<and> (SendTerm Disp_TimedOut \<in> set acts \<longrightarrow> pm_state m = CheckpointRequested \<and> (\<exists>t. e = Tick t))
     \<and> (SendTerm Disp_AcknowledgedUnverifiedDurability \<in> set acts \<longrightarrow> (\<exists>t i. e = CheckpointAck t i True))"

lemma missing_kind:
  assumes "pm_mode m = EnforceMode"
  shows "stays m (fst (apply_missing m t)) \<and> calm (snd (apply_missing m t))
    \<or> stops m e (fst (apply_missing m t)) (snd (apply_missing m t))"
  using assms by (auto simp: apply_missing_def Let_def stays_def stops_def closing_def watching_def)

lemma sample_kind:
  assumes "policy_inv m" and "pm_mode m = EnforceMode" and "pm_state m \<noteq> Exited"
  shows "stays m (fst (apply_sample m s)) \<and> calm (snd (apply_sample m s))
    \<or> asks m (fst (apply_sample m s)) (snd (apply_sample m s))
    \<or> stops m (Sample s) (fst (apply_sample m s)) (snd (apply_sample m s))"
proof (cases "usable_sample (pm_config m) s")
  case False
  then show ?thesis using missing_kind [OF assms(2)] by (auto simp: apply_sample_def)
next
  case usable: True
  show ?thesis
  proof (cases "pm_intervention_started m")
    case True
    then show ?thesis
      by (simp add: apply_sample_passive [OF usable] stays_def watching_def)
  next
    case False
    from usable obtain bytes where b: "se_aggregate_bytes s = Some bytes"
      by (auto simp: usable_sample_def)
    note eq = apply_sample_watching [OF usable assms(2) False b refl refl]
    from watching_or_checkpoint(1) [OF assms(1,2) False assms(3)]
    consider "pm_state m = CheckpointRequested" | "watching m" by (auto simp: watching_def)
    then show ?thesis
    proof cases
      case 1
      then show ?thesis
        by (auto simp: eq Let_def stays_def stops_def closing_def watching_def is_RequestCheckpoint_def)
    next
      case 2
      then have "pm_state m \<noteq> CheckpointRequested" by (auto simp: watching_def)
      then show ?thesis
        using 2
        by (cases "pc_checkpoint_timeout (pm_config m)")
          (auto simp: eq Let_def stays_def watching_def begin_graceful_def asks_def stops_def
            closing_def calm_def is_RequestCheckpoint_def)
    qed
  qed
qed

lemma policy_step_kind:
  assumes inv: "policy_inv m" and mode: "pm_mode m = EnforceMode"
    and clock: "\<not> clock_regressed m (event_at e)"
  obtains (stays) "stays m (fst (apply_event m e))" "calm (snd (apply_event m e))"
  | (asks) "asks m (fst (apply_event m e)) (snd (apply_event m e))"
  | (stops) "stops m e (fst (apply_event m e)) (snd (apply_event m e))"
proof -
  have "stays m (fst (apply_event m e)) \<and> calm (snd (apply_event m e))
    \<or> asks m (fst (apply_event m e)) (snd (apply_event m e))
    \<or> stops m e (fst (apply_event m e)) (snd (apply_event m e))"
  proof (cases rule: apply_event_cases [of m e])
    case dispatched
    define n where "n = m\<lparr>pm_last_event_at := Some (event_at e)\<rparr>"
    have n: "policy_inv n" "pm_mode n = EnforceMode" "pm_state n \<noteq> Exited"
      using inv mode dispatched by (simp_all add: n_def)
    have same: "stays n = stays m" "asks n = asks m" "stops n = stops m"
      by (simp_all add: n_def stays_def asks_def stops_def watching_def fun_eq_iff)
    have "stays n (fst (dispatch_event n e)) \<and> calm (snd (dispatch_event n e))
      \<or> asks n (fst (dispatch_event n e)) (snd (dispatch_event n e))
      \<or> stops n e (fst (dispatch_event n e)) (snd (dispatch_event n e))"
    proof (cases e)
      case (Sample s)
      then show ?thesis using sample_kind [OF n] by simp
    next
      case (Tick t)
      then show ?thesis
        by (cases "pm_state n")
          (auto simp: apply_tick_def begin_graceful_def start_term_def Let_def stays_def asks_def
            stops_def watching_def closing_def calm_def is_RequestCheckpoint_def split: option.splits)
    next
      case (CheckpointAck t i a)
      then show ?thesis
        by (auto simp: apply_checkpoint_ack_def start_term_def stays_def stops_def watching_def
            closing_def is_RequestCheckpoint_def)
    next
      case (ExternalSignal t sg)
      then show ?thesis
        by (auto simp: apply_external_signal_def start_term_def stays_def stops_def watching_def
            closing_def is_RequestCheckpoint_def)
    next
      case (ActuationFailed t k f)
      then show ?thesis
        by (auto simp: apply_actuation_failed_def start_term_def stays_def stops_def watching_def
            closing_def is_RequestCheckpoint_def Let_def)
    next
      case (SupervisorFault t)
      then show ?thesis using n(2)
        by (auto simp: apply_supervisor_fault_def stays_def stops_def watching_def
            closing_def is_RequestCheckpoint_def Let_def)
    qed (auto simp: apply_root_exited_def apply_parent_exited_def start_term_def stays_def stops_def
          watching_def closing_def is_RequestCheckpoint_def)
    with dispatched show ?thesis by (simp add: n_def [symmetric] same)
  qed (use clock in \<open>auto simp: stays_def watching_def\<close>)
  with that show ?thesis by blast
qed

section \<open>What the engine then executes\<close>

text \<open>A list of attempts that sends signals to the group only: what the closing phases leave.\<close>

definition group_attempts :: "action list \<Rightarrow> dur \<Rightarrow> attempt_entry list \<Rightarrow> bool" where
  "group_attempts acts t xs \<longleftrightarrow>
     (\<forall>(u, act, res)\<in>set xs. u = t
        \<and> (act = Act_Kill \<or> (\<exists>a\<in>set acts. actuation_for a = Some act)))"

lemma group_attempts_Nil [simp]: "group_attempts acts t []"
  by (simp add: group_attempts_def)

lemma group_attempts_mono:
  "group_attempts acts t xs \<Longrightarrow> set acts \<subseteq> set bs \<Longrightarrow> group_attempts bs t xs"
  by (fastforce simp: group_attempts_def)

text \<open>The checkpoint side of the actuator: all that a group signal leaves alone.\<close>

definition same_binding :: "process_actuator \<Rightarrow> process_actuator \<Rightarrow> bool" where
  "same_binding a b \<longleftrightarrow> pa_checkpoint a = pa_checkpoint b"

lemma same_binding_refl [simp]: "same_binding a a"
  by (simp add: same_binding_def)

lemma same_binding_trans: "same_binding a b \<Longrightarrow> same_binding b c \<Longrightarrow> same_binding a c"
  by (simp add: same_binding_def)

fun asks_worker :: "actuation \<Rightarrow> bool" where
  "asks_worker (Act_Checkpoint _ _ _) = True"
| "asks_worker _ = False"

lemma execute_group:
  "\<not> asks_worker act \<Longrightarrow> same_binding (fst (execute answers a t act)) a"
  by (cases act) (simp_all add: execute_def same_binding_def Let_def)

lemma actuation_for_checkpoint:
  "actuation_for a = Some act \<Longrightarrow> \<not> is_RequestCheckpoint a \<Longrightarrow> \<not> asks_worker act"
  by (cases a) auto

lemma attempt_actuator:
  "attempt exec t g act = (g', after, tr) \<Longrightarrow> eng_actuator g' = fst (exec (eng_actuator g) t act)"
  by (auto simp: attempt_def Let_def split: prod.splits sum.splits)

lemma loop_calm:
  assumes "handle_loop exec t g acts = (g', ds, tr)" and "calm acts"
  shows "attempts_of tr = [] \<and> eng_policy g' = eng_policy g \<and> eng_actuator g' = eng_actuator g"
  using assms by (induction rule: loop_induct) simp_all

lemma loop_closing:
  assumes "handle_loop (execute answers) t g acts = (g', ds, tr)"
    and "policy_inv (eng_policy g)" and "pm_mode (eng_policy g) = EnforceMode"
    and "closing (eng_policy g)" and "\<forall>a\<in>set acts. \<not> is_RequestCheckpoint a"
  shows "group_attempts acts t (attempts_of tr) \<and> closing (eng_policy g')
    \<and> same_binding (eng_actuator g') (eng_actuator g)"
  using assms
proof (induction rule: loop_induct)
  case (skip g a pending g' ds tr)
  then have "group_attempts pending t (attempts_of tr) \<and> closing (eng_policy g')
    \<and> same_binding (eng_actuator g') (eng_actuator g)" by simp
  then show ?case by (auto intro: group_attempts_mono)
next
  case (act g a pending act g1 after tr1 g' ds tr)
  note closed = closing_step [OF act.prems(1-3)]
  have group: "\<not> asks_worker act"
    using actuation_for_checkpoint [OF act.hyps(1)] act.prems(4) by simp
  have bind: "same_binding (eng_actuator g1) (eng_actuator g)"
    using attempt_actuator [OF act.hyps(2)] execute_group [OF group] by simp
  have one: "policy_inv (eng_policy g1) \<and> pm_mode (eng_policy g1) = EnforceMode
    \<and> closing (eng_policy g1)
    \<and> (\<forall>b\<in>set after. actuation_for b = None \<or> actuation_for b = Some Act_Kill)
    \<and> (\<exists>res. attempts_of tr1 = [(t, act, res)])"
    using act.hyps(2)
  proof (cases rule: attempt_split)
    case (ok x outcome)
    with act.prems show ?thesis by simp
  next
    case (err x f)
    with act.prems closed show ?thesis by (auto simp: policy_inv_apply_event)
  qed
  then have "\<forall>b\<in>set after. \<not> is_RequestCheckpoint b"
    by (auto simp: is_RequestCheckpoint_def)
  with act.IH one act.prems(4)
  have ih: "group_attempts (pending @ after) t (attempts_of tr) \<and> closing (eng_policy g')
    \<and> same_binding (eng_actuator g') (eng_actuator g1)" by auto
  then have "group_attempts (a # pending) t (attempts_of tr)"
    using one by (fastforce simp: group_attempts_def)
  with ih one bind act.hyps(1) show ?case
    by (auto simp: group_attempts_def intro: same_binding_trans)
qed simp

lemma loop_skip_calm:
  assumes "calm pre" and "handle_loop exec t g (pre @ rest) = (g', ds, tr)"
  shows "\<exists>g0 ds'. handle_loop exec t g0 rest = (g', ds', tr)
    \<and> eng_policy g0 = eng_policy g \<and> eng_actuator g0 = eng_actuator g"
  using assms
proof (induction pre arbitrary: g ds)
  case (Cons a pre)
  from Cons.prems have "actuation_for a = None" "calm pre" by simp_all
  moreover obtain ds' where "handle_loop exec t (note_overshoot g a) (pre @ rest) = (g', ds', tr)"
    using Cons.prems(2) \<open>actuation_for a = None\<close> by (auto simp: Let_def split: prod.splits)
  ultimately show ?case using Cons.IH [of "note_overshoot g a" ds'] by simp
qed auto

lemma begun_request:
  assumes "channel_begin_request write ch rid t deadline = (ch', Ok ())"
  shows "cp_active_request_id (ch_protocol ch') = Some rid"
  using assms
  by (auto simp: channel_begin_request_def begin_request_def Let_def
      split: if_splits prod.splits sum.splits)

lemma execute_checkpoint_delivered:
  assumes "execute answers a t (Act_Checkpoint rid ov deadline) = (a', Ok res)"
  shows "res = Act_Delivered"
    and "\<exists>b. pa_checkpoint a' = Some b \<and> cp_active_request_id (ch_protocol (cb_channel b)) = Some rid"
  using assms
  by (auto simp: execute_def Let_def deliver_checkpoint_def map_signal_result_def
      split: option.splits prod.splits sum.splits if_splits signal_result.splits
      dest: begun_request)

text \<open>The three kinds of steps, through the engine.\<close>

lemma handle_stays:
  assumes "handle exec g e = (g', ds, tr)" and "calm (snd (apply_event (eng_policy g) e))"
  shows "attempts_of tr = [] \<and> eng_policy g' = fst (apply_event (eng_policy g) e)
    \<and> eng_actuator g' = eng_actuator g"
  using assms(1)
proof (rule handle_split)
  fix g0 tr'
  assume g0: "g0 = note_sample (g\<lparr>eng_policy := fst (apply_event (eng_policy g) e)\<rparr>) e
      (snd (apply_event (eng_policy g) e))"
    and loop: "handle_loop exec (event_at e) g0 (snd (apply_event (eng_policy g) e)) = (g', ds, tr')"
    and tr: "tr = transition_entry (event_at e) (pm_state (eng_policy g)) (pm_state (eng_policy g0)) @ tr'"
  from loop_calm [OF loop assms(2)] show ?thesis by (simp add: g0 tr)
qed

lemma handle_stops:
  assumes "handle (execute answers) g e = (g', ds, tr)"
    and "policy_inv (eng_policy g)" and "pm_mode (eng_policy g) = EnforceMode"
    and "closing (fst (apply_event (eng_policy g) e))"
    and "\<forall>a\<in>set (snd (apply_event (eng_policy g) e)). \<not> is_RequestCheckpoint a"
  shows "group_attempts (snd (apply_event (eng_policy g) e)) (event_at e) (attempts_of tr)
    \<and> closing (eng_policy g') \<and> same_binding (eng_actuator g') (eng_actuator g)"
  using assms(1)
proof (rule handle_split)
  fix g0 tr'
  assume g0: "g0 = note_sample (g\<lparr>eng_policy := fst (apply_event (eng_policy g) e)\<rparr>) e
      (snd (apply_event (eng_policy g) e))"
    and loop: "handle_loop (execute answers) (event_at e) g0 (snd (apply_event (eng_policy g) e))
      = (g', ds, tr')"
    and tr: "tr = transition_entry (event_at e) (pm_state (eng_policy g)) (pm_state (eng_policy g0)) @ tr'"
  from loop_closing [OF loop] assms(2-5) show ?thesis
    by (simp add: g0 tr policy_inv_apply_event)
qed

lemma handle_asks:
  assumes "handle (execute answers) g e = (g', ds, tr)"
    and "policy_inv (eng_policy g)" and "pm_mode (eng_policy g) = EnforceMode"
    and "\<not> clock_regressed (eng_policy g) (event_at e)"
    and "asks (eng_policy g) (fst (apply_event (eng_policy g) e)) (snd (apply_event (eng_policy g) e))"
    and rid: "rid = pm_next_request_id (eng_policy g)"
  obtains (delivered) b ov deadline
      where "attempts_of tr = [(event_at e, Act_Checkpoint rid ov deadline, Ok Act_Delivered)]"
      "eng_policy g' = fst (apply_event (eng_policy g) e)"
      "pa_checkpoint (eng_actuator g') = Some b"
      "cp_active_request_id (ch_protocol (cb_channel b)) = Some rid"
  | (failed) f xs ov deadline
      where "attempts_of tr = (event_at e, Act_Checkpoint rid ov deadline, Err f) # xs"
      "group_attempts [SendTerm Disp_SkippedCheckpointFailure] (event_at e) xs"
      "closing (eng_policy g')"
  using assms(1)
proof (rule handle_split)
  fix g0 tr'
  assume g0: "g0 = note_sample (g\<lparr>eng_policy := fst (apply_event (eng_policy g) e)\<rparr>) e
      (snd (apply_event (eng_policy g) e))"
    and loop: "handle_loop (execute answers) (event_at e) g0 (snd (apply_event (eng_policy g) e))
      = (g', ds, tr')"
    and tr: "tr = transition_entry (event_at e) (pm_state (eng_policy g)) (pm_state (eng_policy g0)) @ tr'"
  let ?m = "fst (apply_event (eng_policy g) e)" and ?t = "event_at e"
  from assms(5) rid obtain pre ov deadline where "calm pre"
    and acts: "snd (apply_event (eng_policy g) e) = pre @ [RequestCheckpoint rid ov deadline]"
    and st: "pm_state ?m = CheckpointRequested"
    by (auto simp: asks_def)
  from loop_skip_calm [OF this(1) loop [unfolded acts]] obtain g2 ds' where
    loop2: "handle_loop (execute answers) ?t g2 [RequestCheckpoint rid ov deadline] = (g', ds', tr')"
    and g2: "eng_policy g2 = ?m" "eng_actuator g2 = eng_actuator g"
    by (auto simp: g0)
  define act where "act = Act_Checkpoint rid ov deadline"
  from loop2 obtain g3 after tr1 ds3 tr2 where
    att: "attempt (execute answers) ?t (note_overshoot g2 (RequestCheckpoint rid ov deadline)) act
      = (g3, after, tr1)"
    and loop3: "handle_loop (execute answers) ?t g3 after = (g', ds3, tr2)" and tr': "tr' = tr1 @ tr2"
    by (rule loop_split) (auto simp: act_def)
  from att show thesis
  proof (cases rule: attempt_split)
    case (ok x outcome)
    with loop3 have g': "g' = g3" "tr2 = []" by simp_all
    have act3: "eng_actuator g3 = x"
      using attempt_actuator [OF att] ok by simp
    note dl = execute_checkpoint_delivered [OF ok(1) [unfolded act_def]]
    from dl(2) obtain b where "pa_checkpoint x = Some b"
      "cp_active_request_id (ch_protocol (cb_channel b)) = Some rid" by blast
    with ok g' dl(1) act3 g2 show thesis
      by (intro delivered [of ov deadline b]) (simp_all add: tr tr' act_def)
  next
    case (err x f)
    have live: "pm_state ?m \<noteq> Exited" using st by simp
    have clock: "\<not> clock_regressed ?m ?t"
      using assms(4) by (cases rule: apply_event_cases [of "eng_policy g" e])
        (simp_all add: clock_regressed_def)
    have step: "apply_event ?m (ActuationFailed ?t KCheckpoint f)
        = (start_term (?m\<lparr>pm_last_event_at := Some ?t\<rparr>) ?t, [SendTerm Disp_SkippedCheckpointFailure])"
      using clock st by (simp add: apply_event_def apply_actuation_failed_def)
    with err g2 have after: "after = [SendTerm Disp_SkippedCheckpointFailure]"
      and pol: "eng_policy g3 = start_term (?m\<lparr>pm_last_event_at := Some ?t\<rparr>) ?t"
      by (simp_all add: act_def)
    have "policy_inv (eng_policy g3)" "pm_mode (eng_policy g3) = EnforceMode" "closing (eng_policy g3)"
      using assms(2,3) policy_inv_apply_event [of "eng_policy g" e] pol
      by (auto simp: policy_inv_def start_term_def closing_def)
    from loop_closing [OF loop3 this] have "group_attempts after ?t (attempts_of tr2) \<and> closing (eng_policy g')"
      by (simp add: after)
    with err after show thesis
      by (intro failed [of ov deadline f "attempts_of tr2"]) (simp_all add: tr tr' act_def)
  qed
qed

end
