(* ===== verification/Run_Invariant.thy ===== *)
theory Run_Invariant
  imports Run_Steps
begin

text \<open>
  What an enforcing run keeps true while events go through it: the attempts it finds in the
  evidence are the ones just made, what it writes carries the time of the event, and the state of
  the checkpoint handshake agrees with the policy, the channel and what the report will say.
\<close>

section \<open>The attempts found in the evidence\<close>

definition attempt_of :: "intervention_record \<Rightarrow> attempt_entry" where
  "attempt_of r = (ir_requested_at r, ir_action r, ir_result r)"

lemma recorded_attempts: "recorded ev = map attempt_of (ie_records ev)"
  by (simp add: recorded_def attempt_of_def [abs_def])

lemma length_attempts: "length (attempts_of tr) = length (filter is_executed tr)"
  by (induction tr rule: attempts_of.induct) simp_all

lemma drop_newest:
  assumes "d \<le> length ys" and "length ys \<le> k"
  shows "drop (length (keep_last k (xs @ ys)) - d) (keep_last k (xs @ ys)) = drop (length ys - d) ys"
  using assms by (simp add: keep_last_def min_def)

lemma newest_attempts:
  assumes run: "handle exec g e = (g', ds, tr)" and inv: "policy_inv (eng_policy g)"
    and ev: "evidence_of (eng_evidence g) as"
  obtains n where
    "map attempt_of (newest_records (eng_evidence g') (ie_total_attempts (eng_evidence g)))
       = drop n (attempts_of tr)"
    and "length as + length (attempts_of tr) < 2 ^ 64 \<Longrightarrow> n = 0"
proof -
  let ?k = "length (attempts_of tr)"
  have k: "?k \<le> 3" using handle_tries [OF inv run] by (simp add: length_attempts)
  define d where "d = unat (sat_sub (ie_total_attempts (eng_evidence g')) (ie_total_attempts (eng_evidence g)))"
  note ev' = handle_evidence [OF run ev]
  have d: "d = min (length as + ?k) (2 ^ 64 - 1) - min (length as) (2 ^ 64 - 1)"
    using ev ev' by (simp add: d_def unat_sat_sub evidence_of_def)
  then have dk: "d \<le> ?k" by simp
  have "map attempt_of (newest_records (eng_evidence g') (ie_total_attempts (eng_evidence g)))
      = drop (length (recorded (eng_evidence g')) - d) (recorded (eng_evidence g'))"
    by (simp add: newest_records_def Let_def recorded_attempts drop_map d_def)
  also have "\<dots> = drop (?k - d) (attempts_of tr)"
    using ev' dk k drop_newest [of d "attempts_of tr" MAX_INTERVENTION_RECORDS as]
    by (simp add: evidence_of_def MAX_INTERVENTION_RECORDS_def)
  finally have "map attempt_of (newest_records (eng_evidence g') (ie_total_attempts (eng_evidence g)))
      = drop (?k - d) (attempts_of tr)" .
  moreover have "length as + ?k < 2 ^ 64 \<Longrightarrow> ?k - d = 0" by (simp add: d)
  ultimately show thesis using that by blast
qed

definition bare_record :: "attempt_entry \<Rightarrow> intervention_record" where
  "bare_record x =
    \<lparr>ir_requested_at = fst x, ir_action = fst (snd x), ir_result = snd (snd x),
     ir_baseline_footprint_bytes = None, ir_first_observation_latency = None,
     ir_observed_footprint_decrease_latency = None, ir_group_empty_latency = None\<rparr>"

definition note_attempt :: "run_env \<Rightarrow> run_runtime \<Rightarrow> attempt_entry \<Rightarrow> run_runtime \<times> run_effect list" where
  "note_attempt env r x = record_actuation env r (bare_record x)"

lemma record_actuations_attempts:
  "record_actuations env r rs = run_machine (note_attempt env) r (map attempt_of rs)"
proof -
  have "record_actuation env r x = note_attempt env r (attempt_of x)" for r x
    unfolding record_actuation_def note_attempt_def bare_record_def attempt_of_def
    by (simp only: intervention_record.select_convs fst_conv snd_conv)
  then show ?thesis
    unfolding record_actuations_def by (induction rs arbitrary: r) simp_all
qed

section \<open>What a step leaves alone\<close>

text \<open>Publishing the transitions can only add the two labels of the run.\<close>

lemma observe_entry_keeps:
  assumes "observe_entry c d f r x = (r', fx)"
  shows "\<exists>a b. r' = r\<lparr>rr_intervention_cause := a, rr_supervisor_error := b\<rparr>
    \<and> (a = rr_intervention_cause r \<or> a = c)"
proof (cases x)
  case (Transition t p q)
  with assms have "r' = r\<lparr>rr_intervention_cause := rr_intervention_cause r',
      rr_supervisor_error := rr_supervisor_error r'\<rparr>
    \<and> (rr_intervention_cause r' = rr_intervention_cause r \<or> rr_intervention_cause r' = c)"
    by (auto simp: Let_def)
  then show ?thesis by blast
next
  case (Executed t p q)
  with assms have "r' = r\<lparr>rr_intervention_cause := rr_intervention_cause r,
      rr_supervisor_error := rr_supervisor_error r\<rparr>" by simp
  then show ?thesis by blast
qed

lemma observe_keeps:
  assumes "run_machine (observe_entry c d f) r tr = (r', fx)"
  shows "\<exists>a b. r' = r\<lparr>rr_intervention_cause := a, rr_supervisor_error := b\<rparr>
    \<and> (a = rr_intervention_cause r \<or> a = c)"
  using assms
proof (induction tr arbitrary: r fx)
  case Nil
  then have "r' = r\<lparr>rr_intervention_cause := rr_intervention_cause r,
      rr_supervisor_error := rr_supervisor_error r\<rparr>" by simp
  then show ?case by blast
next
  case (Cons x tr)
  obtain s fx1 where one: "observe_entry c d f r x = (s, fx1)" by fastforce
  with Cons.prems obtain fx2 where many: "run_machine (observe_entry c d f) s tr = (r', fx2)"
    by (auto split: prod.splits)
  from observe_entry_keeps [OF one] obtain a b where
    s: "s = r\<lparr>rr_intervention_cause := a, rr_supervisor_error := b\<rparr>"
      "a = rr_intervention_cause r \<or> a = c" by blast
  from Cons.IH [OF many] obtain a' b' where
    "r' = s\<lparr>rr_intervention_cause := a', rr_supervisor_error := b'\<rparr>"
      "a' = rr_intervention_cause s \<or> a' = c" by blast
  with s have "r' = r\<lparr>rr_intervention_cause := a', rr_supervisor_error := b'\<rparr>"
    "a' = rr_intervention_cause r \<or> a' = c" by auto
  then show ?case by blast
qed

section \<open>What the engine keeps\<close>

lemma request_id_positive:
  assumes "pm_next_request_id m \<noteq> 0"
  shows "pm_next_request_id (fst (apply_event m e)) \<noteq> 0"
proof -
  have sat: "sat_add x 1 \<noteq> 0" if "x \<noteq> 0" for x :: u64
    using that sat_add_ge [of x 1] by (metis word_coorder.extremum_unique)
  show ?thesis
  proof (cases rule: apply_event_cases [of m e])
    case regressed
    with assms show ?thesis by (auto simp: fail_clock_def Let_def split: policy_mode.splits)
  next
    case dispatched
    with assms sat show ?thesis
      by (cases e) (auto simp: apply_sample_def apply_missing_def apply_tick_def begin_graceful_def
          apply_supervisor_fault_def short_handlers Let_def split: option.splits policy_mode.splits)
  qed (use assms in simp_all)
qed

text \<open>Everything an event causes carries the time of the event.\<close>

fun real_signal :: "actuation \<Rightarrow> bool" where
  "real_signal (Act_ForwardSignal signal) = valid_signal signal"
| "real_signal _ = True"

fun stamped :: "dur \<Rightarrow> trace_entry \<Rightarrow> bool" where
  "stamped t (Transition u a b) \<longleftrightarrow> u = t \<and> a \<noteq> b"
| "stamped t (Executed u act res) \<longleftrightarrow> u = t \<and> real_signal act"

lemma stamped_transition: "x \<in> set (transition_entry t a b) \<Longrightarrow> stamped t x"
  by (auto simp: transition_entry_def split: if_splits)

definition enforcing :: "policy_machine \<Rightarrow> dur \<Rightarrow> bool" where
  "enforcing m t \<longleftrightarrow> policy_inv m \<and> pm_mode m = EnforceMode \<and> pm_next_request_id m \<noteq> 0
     \<and> \<not> clock_regressed m t"

lemma enforcing_later: "enforcing m a \<Longrightarrow> a \<le> b \<Longrightarrow> enforcing m b"
  by (auto simp: enforcing_def clock_regressed_def split: option.splits)

lemma not_regressed_step:
  "\<not> clock_regressed m (event_at e) \<Longrightarrow> \<not> clock_regressed (fst (apply_event m e)) (event_at e)"
  by (cases rule: apply_event_cases [of m e]) (auto simp: clock_regressed_def)

lemma enforcing_step: "enforcing m (event_at e) \<Longrightarrow> enforcing (fst (apply_event m e)) (event_at e)"
  using request_id_positive [of m e] not_regressed_step [of m e]
  by (simp add: enforcing_def policy_inv_apply_event)

text \<open>The loop: every attempt and every transition is stamped, and the policy stays sound.\<close>

definition real_signals :: "action list \<Rightarrow> bool" where
  "real_signals acts \<longleftrightarrow> (\<forall>a\<in>set acts. \<forall>act. actuation_for a = Some act \<longrightarrow> real_signal act)"

lemma real_signals_simps [simp]:
  "real_signals []"
  "real_signals (a # as) \<longleftrightarrow> (\<forall>act. actuation_for a = Some act \<longrightarrow> real_signal act) \<and> real_signals as"
  "real_signals (as @ bs) \<longleftrightarrow> real_signals as \<and> real_signals bs"
  by (auto simp: real_signals_def)

definition real_event :: "event \<Rightarrow> bool" where
  "real_event e \<longleftrightarrow> (case e of ExternalSignal _ signal \<Rightarrow> valid_signal signal | _ \<Rightarrow> True)"

lemma real_signals_step:
  assumes "real_event e"
  shows "real_signals (snd (apply_event m e))"
proof (cases rule: apply_event_cases [of m e])
  case regressed
  then show ?thesis by (simp add: fail_clock_def Let_def split: policy_mode.splits)
next
  case dispatched
  with assms show ?thesis
    by (cases e) (auto simp: real_event_def apply_sample_def apply_missing_def apply_tick_def
        begin_graceful_def apply_supervisor_fault_def short_handlers Let_def
        split: option.splits policy_mode.splits)
qed simp_all

lemma loop_stamped:
  assumes "handle_loop exec t g acts = (g', ds, tr)"
    and "enforcing (eng_policy g) t" and "real_signals acts"
  shows "enforcing (eng_policy g') t \<and> (\<forall>x\<in>set tr. stamped t x)"
  using assms
proof (induction rule: loop_induct)
  case (act g a pending act g1 after tr1 g' ds tr)
  have "enforcing (eng_policy g1) t \<and> real_signals after \<and> (\<forall>x\<in>set tr1. stamped t x)"
    using act.hyps(2)
  proof (cases rule: attempt_split)
    case (ok x outcome)
    with act.prems act.hyps(1) show ?thesis by simp
  next
    case (err x f)
    have "real_event (ActuationFailed t (actuation_kind_of act) f)" by (simp add: real_event_def)
    from real_signals_step [OF this] err act.prems act.hyps(1)
      enforcing_step [of "eng_policy g" "ActuationFailed t (actuation_kind_of act) f"]
    show ?thesis by (auto simp: stamped_transition)
  qed
  with act show ?case by auto
qed auto

lemma handle_stamped:
  assumes "handle exec g e = (g', ds, tr)"
    and "enforcing (eng_policy g) (event_at e)" and "real_event e"
  shows "enforcing (eng_policy g') (event_at e) \<and> (\<forall>x\<in>set tr. stamped (event_at e) x)"
  using assms(1)
proof (rule handle_split)
  fix g0 tr'
  assume g0: "eng_policy g0 = fst (apply_event (eng_policy g) e)"
    and loop: "handle_loop exec (event_at e) g0 (snd (apply_event (eng_policy g) e)) = (g', ds, tr')"
    and tr: "tr = transition_entry (event_at e) (pm_state (eng_policy g)) (pm_state (eng_policy g0)) @ tr'"
  from loop_stamped [OF loop] g0 enforcing_step [OF assms(2)] real_signals_step [OF assms(3)]
  show ?thesis by (auto simp: tr stamped_transition)
qed

lemma stamped_attempts:
  "\<forall>x\<in>set tr. stamped t x \<Longrightarrow> (u, act, res) \<in> set (attempts_of tr) \<Longrightarrow> u = t \<and> real_signal act"
  by (induction tr rule: attempts_of.induct) auto

section \<open>What a step writes\<close>

text \<open>The entries a list of effects writes, in order.\<close>

definition entries_of :: "run_effect list \<Rightarrow> journal_entry list" where
  "entries_of = List.map_filter (\<lambda>x. case x of Wrote entry _ \<Rightarrow> Some entry | Actuated _ _ _ \<Rightarrow> None)"

lemma entries_of_simps [simp]:
  "entries_of [] = []"
  "entries_of (Wrote entry d # fx) = entry # entries_of fx"
  "entries_of (Actuated t act res # fx) = entries_of fx"
  "entries_of (fx @ fy) = entries_of fx @ entries_of fy"
  by (simp_all add: entries_of_def List.map_filter_def)

fun entry_at :: "journal_entry \<Rightarrow> u64" where
  "entry_at (E_Sample w) = sw_processed_at_ms w"
| "entry_at (E_Transition v) = tr_at_ms v"
| "entry_at (E_Signal v) = sr_at_ms v"
| "entry_at _ = 0"

text \<open>The entries a supervised run may write while it is going on.\<close>

definition sample_ok :: "sample_window \<Rightarrow> bool" where
  "sample_ok w \<longleftrightarrow> valid_advisory_metrics w \<and> sw_captured_at_ms w \<le> sw_processed_at_ms w
     \<and> 0 < sw_window_ms w"

fun entry_ok :: "journal_entry \<Rightarrow> bool" where
  "entry_ok (E_Sample w) = sample_ok w"
| "entry_ok (E_Transition v) \<longleftrightarrow> tr_from v \<noteq> tr_to v"
| "entry_ok (E_Signal v) = signal_in_range (sr_signal v)"
| "entry_ok _ = False"

text \<open>What is written between two clock readings.\<close>

definition stretch :: "dur \<Rightarrow> dur \<Rightarrow> journal_entry list \<Rightarrow> bool" where
  "stretch a b es \<longleftrightarrow> a \<le> b \<and> sorted (map entry_at es)
     \<and> (\<forall>e\<in>set es. entry_ok e \<and> duration_ms a \<le> entry_at e \<and> entry_at e \<le> duration_ms b)"

lemma stretch_Nil [simp]: "stretch a b [] \<longleftrightarrow> a \<le> b"
  by (simp add: stretch_def)

lemma stretch_append: "stretch a b xs \<Longrightarrow> stretch b c ys \<Longrightarrow> stretch a c (xs @ ys)"
  using duration_ms_mono [of a b] duration_ms_mono [of b c]
  by (auto simp: stretch_def sorted_append) (meson order_trans)+

lemma stretch_at:
  "stretch t t es \<longleftrightarrow> (\<forall>e\<in>set es. entry_ok e \<and> entry_at e = duration_ms t)"
proof -
  have "sorted (map entry_at es)" if "\<forall>e\<in>set es. entry_at e = duration_ms t"
    using that by (induction es) auto
  then show ?thesis by (auto simp: stretch_def)
qed

lemma stretch_at_append [simp]:
  "stretch t t (xs @ ys) \<longleftrightarrow> stretch t t xs \<and> stretch t t ys"
  by (auto simp: stretch_at)

text \<open>Publishing the trace of the engine.\<close>

fun publish :: "u64 option \<Rightarrow> trace_entry \<Rightarrow> run_effect" where
  "publish final_footprint (Transition t a b) =
     Wrote (E_Transition \<lparr>tr_at_ms = duration_ms t, tr_from = a, tr_to = b,
       tr_aggregate_footprint_bytes = final_footprint\<rparr>) Sync"
| "publish final_footprint (Executed t act res) = Actuated t act res"

lemma observe_publishes:
  "snd (run_machine (observe_entry c d f) r tr) = map (publish f) tr"
proof (induction tr arbitrary: r)
  case (Cons x tr)
  then show ?case by (cases x) (simp_all add: Let_def split_beta)
qed simp

lemma published_stretch:
  "\<forall>x\<in>set tr. stamped t x \<Longrightarrow> stretch t t (entries_of (map (publish f) tr))"
proof (induction tr)
  case (Cons x tr)
  then show ?case by (cases x) (simp_all add: stretch_at)
qed simp

text \<open>What no event touches.\<close>

definition frame :: "run_runtime \<Rightarrow> _" where
  "frame r = (rr_retained_outcome r, rr_process_group r, rr_sampler r, rr_sample_interval r,
     rr_calibration r, rr_report_samples r, rr_checkpoint_negotiation r, rr_checkpoint_artifact r,
     rr_parent_watch r, rr_root_outcome r, rr_final_footprint r, rr_escape_detected r,
     rr_root_exit_applied r)"

lemma note_attempt_effect:
  assumes "note_attempt env r (t, act, res) = (r', fx)" and "real_signal act"
    and "valid_signal (re_checkpoint_signal env)"
  shows "stretch t t (entries_of fx)" and "frame r' = frame r" and "rr_engine r' = rr_engine r"
    and "rr_intervention_cause r' = rr_intervention_cause r"
  using assms valid_signal_in_range
  by (auto simp: note_attempt_def record_actuation_def bare_record_def signal_record_of_def
      stretch_at frame_def signal_in_range_def Let_def
      split: actuation.splits option.splits if_splits)

lemma note_attempts_effect:
  assumes "run_machine (note_attempt env) r as = (r', fx)"
    and "\<forall>(u, act, res)\<in>set as. u = t \<and> real_signal act"
    and "valid_signal (re_checkpoint_signal env)"
  shows "stretch t t (entries_of fx) \<and> frame r' = frame r \<and> rr_engine r' = rr_engine r
    \<and> rr_intervention_cause r' = rr_intervention_cause r"
  using assms(1,2)
proof (induction as arbitrary: r fx)
  case (Cons x as)
  obtain act res where x: "x = (t, act, res)" "real_signal act" using Cons.prems(2) by (cases x) auto
  from Cons.prems(1) obtain s fx1 fx2 where
    one: "note_attempt env r x = (s, fx1)" and many: "run_machine (note_attempt env) s as = (r', fx2)"
    and fx: "fx = fx1 @ fx2" by (rule run_machine_Cons_E)
  from note_attempt_effect [OF one [unfolded x(1)] x(2) assms(3)] Cons.IH [OF many] Cons.prems(2)
  show ?case by (simp add: fx)
qed simp

section \<open>One event\<close>

lemma label_keeps [simp]:
  "frame (label_shutdown e r) = frame r"
  "rr_engine (label_shutdown e r) = rr_engine r"
  "rr_intervention_cause (label_shutdown e r) = rr_intervention_cause r"
  "rr_checkpoint_status (label_shutdown e r) = rr_checkpoint_status r"
  "rr_checkpoint_at_ms (label_shutdown e r) = rr_checkpoint_at_ms r"
  "rr_checkpoint_request_id (label_shutdown e r) = rr_checkpoint_request_id r"
  "rr_checkpoint_reason (label_shutdown e r) = rr_checkpoint_reason r"
  by (simp_all add: label_shutdown_def frame_def)

lemma note_acknowledgement_keeps [simp]:
  "frame (note_acknowledgement e r) = frame r"
  "rr_engine (note_acknowledgement e r) = rr_engine r"
  "rr_intervention_cause (note_acknowledgement e r) = rr_intervention_cause r"
  "rr_checkpoint_request_id (note_acknowledgement e r) = rr_checkpoint_request_id r"
  "rr_checkpoint_reason (note_acknowledgement e r) = rr_checkpoint_reason r"
  by (simp_all add: note_acknowledgement_def frame_def split: event.splits bool.splits)

text \<open>The record after one event, up to the labels that no later part depends on.\<close>

lemma run_apply_split:
  assumes run: "run_apply env r e = (r', fx)"
    and inv: "policy_inv (rr_policy r)" and ev: "evidence_of (eng_evidence (rr_engine r)) as"
  obtains g ds tr r1 n fx2 where
    "handle (execute (re_answers env)) (rr_engine r) e = (g, ds, tr)"
    and "rr_engine r1 = g" and "frame r1 = frame r"
    and "rr_intervention_cause r1 \<in> {rr_intervention_cause r, intervention_cause_for e}"
    and "rr_checkpoint_status r1 = rr_checkpoint_status (note_acknowledgement e r)"
    and "rr_checkpoint_at_ms r1 = rr_checkpoint_at_ms (note_acknowledgement e r)"
    and "rr_checkpoint_request_id r1 = rr_checkpoint_request_id r"
    and "rr_checkpoint_reason r1 = rr_checkpoint_reason r"
    and "run_machine (note_attempt env) r1 (drop n (attempts_of tr)) = (r', fx2)"
    and "fx = map (publish (observed_value (rr_final_footprint r))) tr @ fx2"
    and "length as + length (attempts_of tr) < 2 ^ 64 \<Longrightarrow> n = 0"
    and "evidence_of (eng_evidence g) (as @ attempts_of tr)"
proof -
  define r0 where "r0 = note_acknowledgement e (label_shutdown e r)"
  have r0: "rr_engine r0 = rr_engine r" "frame r0 = frame r" "rr_final_footprint r0 = rr_final_footprint r"
    by (simp_all add: r0_def label_shutdown_def note_acknowledgement_def frame_def
        split: event.splits bool.splits)
  obtain g ds tr where h: "handle (execute (re_answers env)) (rr_engine r) e = (g, ds, tr)"
    using prod_cases3 by blast
  obtain s fx1 where ob: "run_machine (observe_entry (intervention_cause_for e) (supervisor_error_diagnostic e)
      (observed_value (rr_final_footprint r))) (r0\<lparr>rr_engine := g\<rparr>) tr = (s, fx1)" by force
  from observe_keeps [OF ob] obtain a b where s: "s = r0\<lparr>rr_engine := g, rr_intervention_cause := a,
      rr_supervisor_error := b\<rparr>" "a = rr_intervention_cause r0 \<or> a = intervention_cause_for e" by auto
  define recs where "recs = newest_records (eng_evidence g) (ie_total_attempts (eng_evidence (rr_engine r)))"
  define r1 where "r1 = s\<lparr>rr_intervention_started :=
      (rr_intervention_started s \<or> \<not> opens_an_uncounted_shutdown e \<and> recs \<noteq> [])\<rparr>"
  obtain fx2 where ra: "record_actuations env r1 recs = (r', fx2)" and fx: "fx = fx1 @ fx2"
    using run by (auto simp: run_apply_def handle_event_def Let_def r0_def [symmetric] r0 h ob
        recs_def [symmetric] r1_def [symmetric] split: prod.splits)
  have "fx1 = map (publish (observed_value (rr_final_footprint r))) tr"
    using observe_publishes ob by (metis snd_conv)
  moreover obtain n where "map attempt_of recs = drop n (attempts_of tr)"
    and "length as + length (attempts_of tr) < 2 ^ 64 \<Longrightarrow> n = 0"
    using newest_attempts [OF h inv ev] unfolding recs_def by metis
  moreover have "frame r1 = frame r" using r0(2) by (simp add: r1_def s(1) frame_def)
  moreover have "rr_engine r1 = g" by (simp add: r1_def s(1))
  moreover have "rr_intervention_cause r1 \<in> {rr_intervention_cause r, intervention_cause_for e}"
    using s(2) by (simp add: r1_def s(1) r0_def)
  moreover have "rr_checkpoint_status r1 = rr_checkpoint_status (note_acknowledgement e r)
      \<and> rr_checkpoint_at_ms r1 = rr_checkpoint_at_ms (note_acknowledgement e r)"
    by (simp add: r1_def s(1) r0_def label_shutdown_def note_acknowledgement_def
        split: event.splits bool.splits)
  moreover have "rr_checkpoint_request_id r1 = rr_checkpoint_request_id r
      \<and> rr_checkpoint_reason r1 = rr_checkpoint_reason r"
    by (simp add: r1_def s(1) r0_def)
  ultimately show thesis
    using ra fx h handle_evidence [OF h ev]
    by (intro that [of g ds tr r1 n fx2]) (simp_all add: record_actuations_attempts)
qed

end
