(* ===== verification/Run_Effects.thy ===== *)
theory Run_Effects
  imports Run_Invariant
begin

text \<open>
  Invariants of a whole run that relate its state to everything it has done so far. The locale says
  what a predicate has to survive: one event, one written sample, and the updates that leave the
  policy, its evidence and the labels alone. The client lemmas carry it through the loop.
\<close>

section \<open>Carrying an invariant through the run\<close>

text \<open>What the updates around the events leave alone.\<close>

definition same_run :: "run_runtime \<Rightarrow> run_runtime \<Rightarrow> bool" where
  "same_run r s \<longleftrightarrow> eng_policy (rr_engine s) = eng_policy (rr_engine r)
     \<and> eng_evidence (rr_engine s) = eng_evidence (rr_engine r)
     \<and> rr_intervention_started s = rr_intervention_started r
     \<and> rr_supervisor_error s = rr_supervisor_error r"

lemma same_run_refl [simp]: "same_run r r"
  by (simp add: same_run_def)

lemma same_run_aside:
  "same_run r (set_actuator r a)"
  "same_run r (r\<lparr>rr_checkpoint_artifact := x1\<rparr>)"
  "same_run r (r\<lparr>rr_parent_watch := x2\<rparr>)"
  "same_run r (r\<lparr>rr_root_exit_applied := x3\<rparr>)"
  "same_run r (negotiate r p)"
  "same_run r (fst (wait_for_root r waited))"
  by (auto simp: same_run_def set_actuator_def negotiate_def wait_for_root_def Let_def
      split: prod.splits sum.splits bool.splits)

lemma supervisor_outcome_of_eq:
  "supervisor_outcome_of root \<noteq> PolicyIntervention"
  "supervisor_outcome_of root \<noteq> SupervisorFailure"
  "supervisor_outcome_of root = ChildExited code \<longleftrightarrow> root = Root_Exited code"
  "supervisor_outcome_of root = ChildSignaled signal \<longleftrightarrow> root = Root_Signaled signal"
  by (cases root; simp)+

locale run_preserves =
  fixes env :: run_env and P :: "run_runtime \<Rightarrow> run_effect list \<Rightarrow> bool"
  assumes event: "P r fx \<Longrightarrow> run_apply env r e = (r', fx') \<Longrightarrow> P r' (fx @ fx')"
    and aside: "P r fx \<Longrightarrow> same_run r s \<Longrightarrow> P s fx"
    and sampled: "P r fx \<Longrightarrow> P r (fx @ [Wrote (E_Sample w) Buffered])"
begin

text \<open>A part of the run keeps the invariant.\<close>

lemma event_keeps: "P r fx \<Longrightarrow> P (fst (run_apply env r e)) (fx @ snd (run_apply env r e))"
  by (rule event) simp_all

lemma poll_keeps:
  assumes "P r fx"
  shows "P (fst (poll_checkpoint_channel env r p)) (fx @ snd (poll_checkpoint_channel env r p))"
proof -
  define s where "s = negotiate r p"
  obtain a res where a: "poll_checkpoint (eng_actuator (rr_engine s)) (pi_now p) (pi_read p) = (a, res)"
    by force
  have s: "P s fx" and u: "P (set_actuator s a) fx"
    using aside [OF assms same_run_aside(5)] aside [OF _ same_run_aside(1)] by (auto simp: s_def)
  have v: "P ((set_actuator s a)\<lparr>rr_checkpoint_artifact := x\<rparr>) fx" for x
    using aside [OF u same_run_aside(2)] .
  show ?thesis
    using s u v event_keeps
    by (auto simp: poll_checkpoint_channel_def s_def [symmetric] a Let_def split: sum.splits option.splits)
qed

lemma sample_keeps:
  assumes "P r fx"
  shows "P (fst (run_sample_once env r i)) (fx @ snd (run_sample_once env r i))"
proof -
  obtain sm sample where snap: "record_snapshot (rr_sampler r) (si_started_at i) (si_finished_at i)
      (si_snapshot i) = (sm, sample)" by force
  obtain cal w where rec: "record_sample (rr_calibration r) sample (si_processed_at i) (si_advisory i) = (cal, w)"
    by force
  define s where "s = r\<lparr>rr_sampler := sm, rr_calibration := cal,
      rr_report_samples := retain_recent_sample (rr_report_samples r) w,
      rr_final_footprint := sw_aggregate_footprint_bytes w,
      rr_escape_detected := (rr_escape_detected r \<or> fs_escape_observed sample)\<rparr>"
  have "P s fx" by (rule aside [OF assms]) (simp add: same_run_def s_def)
  then have "P s (fx @ (if unat (fs_sequence sample) < MAX_SAMPLE_HISTORY_CAPACITY
      then [Wrote (E_Sample w) Buffered] else []))" using sampled by simp
  from event_keeps [OF this, of "Sample (policy_event sm sample (si_processed_at i))"] show ?thesis
    by (cases "unat (fs_sequence sample) < MAX_SAMPLE_HISTORY_CAPACITY")
      (simp_all add: run_sample_once_def snap rec s_def Let_def split_beta)
qed

lemma signals_keep:
  assumes "P r fx"
  shows "P (fst (forward_signals env r sg)) (fx @ snd (forward_signals env r sg))"
  using assms
proof (induction sg arbitrary: r fx)
  case (Cons x sg)
  obtain t s where x: "x = (t, s)" by force
  from Cons.IH [OF event_keeps [OF Cons.prems, of "ExternalSignal t s"]]
  show ?case by (simp add: forward_signals_def x Let_def split_beta)
qed (simp add: forward_signals_def)

lemma before_keeps:
  assumes "P r fx"
  shows "P (fst (before_signals env r i group_exists)) (fx @ snd (before_signals env r i group_exists))"
proof -
  obtain s fx1 where s: "watch_parent env r i = (s, fx1)" by force
  have one: "P s (fx @ fx1)"
  proof -
    obtain watch exited where w: "parent_has_exited (rr_parent_watch r) (li_ppid i)
        (li_parent_exited i) (li_parent_now i) = (watch, exited)" by force
    have "P (r\<lparr>rr_parent_watch := watch\<rparr>) fx" by (rule aside [OF assms same_run_aside(3)])
    with s event_keeps [OF this, of "ParentExited (li_parent_now i)"] show ?thesis
      by (cases "exited \<and> pw_on_parent_exit watch = OnParent_Terminate")
        (auto simp: watch_parent_def w)
  qed
  obtain u fx2 where u: "(if group_exists then clean_up_survivors env s i else (s, [])) = (u, fx2)" by force
  have two: "P u ((fx @ fx1) @ fx2)"
  proof (cases "group_exists \<and> rr_root_outcome s \<noteq> None \<and> \<not> rr_root_exit_applied s")
    case True
    obtain v fy where v: "poll_checkpoint_channel env (s\<lparr>rr_root_exit_applied := True\<rparr>) (li_drain i) = (v, fy)"
      by force
    have "P v ((fx @ fx1) @ fy)"
      using poll_keeps [OF aside [OF one same_run_aside(4)], of True "li_drain i"] v by simp
    from event_keeps [OF this, of "RootExited (li_root_exit_at i)"] True u v show ?thesis
      by (auto simp: clean_up_survivors_def split: prod.splits)
  next
    case False
    with u one show ?thesis by (auto simp: clean_up_survivors_def split: if_splits)
  qed
  from poll_keeps [OF two, of "li_poll i"] u show ?thesis
    by (cases group_exists) (auto simp: before_signals_def s Let_def split_beta)
qed

lemma fail_keeps:
  assumes "P r fx" and "fail_supervisor env r t readings d = Some (r', fx', c)"
  shows "P r' (fx @ fx')"
proof -
  obtain s fx1 where s: "run_apply env r (SupervisorFault t) = (s, fx1)" by force
  note one = event [OF assms(1) s]
  show ?thesis
  proof (cases "next_deadline (eng_policy (rr_engine s))")
    case None
    with assms(2) s one show ?thesis by (simp add: fail_supervisor_def)
  next
    case (Some deadline)
    with assms(2) s obtain now where "List.find (\<lambda>now. deadline \<le> now) readings = Some now"
      by (auto simp: fail_supervisor_def split: option.splits)
    with assms(2) s Some event_keeps [OF one, of "Tick now"] show ?thesis
      by (auto simp: fail_supervisor_def split: prod.splits)
  qed
qed

lemma iteration_keeps:
  assumes "P r fx" and "run_iteration env r i = Some (r', fx', c)"
  shows "P r' (fx @ fx')"
proof -
  obtain s res where wait: "wait_for_root r (li_waited i) = (s, res)" by force
  have s: "P s fx" using aside [OF assms(1) same_run_aside(6), of "li_waited i"] wait by simp
  obtain u fx1 where before: "before_signals env s i True = (u, fx1)" by force
  obtain v fx2 where before': "before_signals env s i False = (v, fx2)" by force
  have kept: "P u (fx @ fx1)" "P v (fx @ fx2)"
    using before_keeps [OF s, of i True] before_keeps [OF s, of i False] before before' by simp_all
  have failing: "P r' (fx @ fx')"
    if "P w (fx @ fy)" and "map_option (\<lambda>(r, fx2, c). (r, fy @ fx2, Some c))
        (fail_supervisor env w (li_fault_at i) (li_fault_readings i) d) = Some (r', fx', c)" for w fy d
    using that fail_keeps [OF that(1)] by fastforce
  have going: "P (fst (sample_and_tick env (fst (forward_signals env w sg)) i))
      ((((fx @ fy) @ snd (forward_signals env w sg))
        @ snd (sample_and_tick env (fst (forward_signals env w sg)) i)))"
    if "P w (fx @ fy)" for w fy sg
    using event_keeps [OF sample_keeps [OF signals_keep [OF that, of sg], of "li_sample i"],
        of "Tick (li_tick_at i)"]
    by (simp add: sample_and_tick_def split_beta)
  show ?thesis
  proof (cases "owned_group_exists (li_kill i) (rr_process_group s)")
    case (Inl kind)
    with assms(2) s failing [of s "[]"] show ?thesis
      by (cases res) (simp_all add: run_iteration_def wait)
  next
    case (Inr group_exists)
    show ?thesis
    proof (cases res)
      case (Inl kind)
      with assms(2) s failing [of s "[]"] show ?thesis by (simp add: run_iteration_def wait)
    next
      case ok: (Inr outcome)
      show ?thesis
      proof (cases "li_signals i")
        case (Inl kind)
        with assms(2) s kept failing [of u fx1] failing [of v fx2] show ?thesis
          by (cases outcome; cases group_exists)
            (simp_all add: run_iteration_def wait ok Inr before before')
      next
        case sg: (Inr sg)
        with assms(2) s going [OF kept(1), of sg] going [OF kept(2), of sg] show ?thesis
          by (cases outcome; cases group_exists)
            (auto simp: run_iteration_def wait ok Inr before before' Let_def split_beta)
      qed
    qed
  qed
qed

lemma loop_keeps:
  "P r fx \<Longrightarrow> sample_until_exit env r inputs = Some (r', fx', c) \<Longrightarrow> P r' (fx @ fx')"
proof (induction inputs arbitrary: r fx fx')
  case (Cons i inputs)
  from Cons.prems(2) obtain s fx1 d where it: "run_iteration env r i = Some (s, fx1, d)"
    by (auto split: option.splits prod.splits)
  note s = iteration_keeps [OF Cons.prems(1) it]
  show ?case
  proof (cases d)
    case None
    with Cons.prems(2) it obtain fx2 where
      "sample_until_exit env s inputs = Some (r', fx2, c)" "fx' = fx1 @ fx2" by auto
    with Cons.IH [OF s] show ?thesis by simp
  next
    case (Some completion)
    with Cons.prems(2) it s show ?thesis by simp
  qed
qed simp

text \<open>At the end only the evidence that is not about the policy is added.\<close>

lemma supervised_keeps:
  assumes "P r []" and "run_supervised env r inputs ended = Some (r', fx, e)"
  obtains fx0 where "P r' fx0" and "fx = fx0 @ run_record_terminal r' (re_terminal e)"
    and "(rr_supervisor_error r' \<noteq> None \<longrightarrow> re_outcome e = SupervisorFailure)
      \<and> (re_outcome e = PolicyIntervention \<longrightarrow>
           rr_supervisor_error r' = None \<and> rr_intervention_started r')
      \<and> (\<forall>code. re_outcome e = ChildExited code \<longrightarrow> rr_supervisor_error r' = None
           \<and> \<not> rr_intervention_started r' \<and> rr_root_outcome r' = Some (Root_Exited code))
      \<and> (\<forall>signal. re_outcome e = ChildSignaled signal \<longrightarrow> rr_supervisor_error r' = None
           \<and> \<not> rr_intervention_started r' \<and> rr_root_outcome r' = Some (Root_Signaled signal))"
proof -
  obtain s fx1 c where loop: "sample_until_exit env r inputs = Some (s, fx1, c)"
    using assms(2) by (auto simp: run_supervised_def split: option.splits)
  note s = loop_keeps [OF assms(1) loop, simplified]
  define bytes where "bytes = observed_value (rr_final_footprint s)"
  show thesis
  proof (cases c)
    case (Completed_Root root)
    obtain u fx2 where u: "run_apply env s (ProcessExited ended bytes) = (u, fx2)" by force
    from assms(2) loop Completed_Root u have "r' = u"
      "fx = (fx1 @ fx2) @ run_record_terminal r' (re_terminal e)"
      "re_outcome e = cm_outcome (complete \<lparr>ci_root_outcome = rr_root_outcome u,
         ci_intervention_started = rr_intervention_started u,
         ci_supervisor_error = rr_supervisor_error u, ci_supervisor_failure = None\<rparr>)"
      by (auto simp: run_supervised_def end_run_def Let_def bytes_def)
    with event [OF s u] show thesis
      by (intro that [of "fx1 @ fx2"])
        (auto simp: complete_def Let_def supervisor_outcome_of_eq split: option.splits if_splits)
  next
    case (Completed_SupervisorFailure d)
    from assms(2) loop this have "r' = s"
      "fx = fx1 @ run_record_terminal r' (re_terminal e)" "re_outcome e = SupervisorFailure"
      by (auto simp: run_supervised_def end_run_def Let_def complete_def)
    with s show thesis by (intro that [of fx1]) auto
  qed
qed

end

section \<open>What a run does, phase by phase\<close>

text \<open>The executions among the effects, in order.\<close>

definition actuated :: "run_effect list \<Rightarrow> attempt_entry list" where
  "actuated = List.map_filter (\<lambda>x. case x of Actuated t act res \<Rightarrow> Some (t, act, res) | Wrote _ _ \<Rightarrow> None)"

lemma actuated_simps [simp]:
  "actuated [] = []"
  "actuated (Wrote entry d # fx) = actuated fx"
  "actuated (Actuated t act res # fx) = (t, act, res) # actuated fx"
  "actuated (fx @ fy) = actuated fx @ actuated fy"
  by (simp_all add: actuated_def List.map_filter_def)

lemma actuated_publish [simp]: "actuated (map (publish f) tr) = attempts_of tr"
  by (induction tr rule: attempts_of.induct) simp_all

text \<open>
  Replays what a run does from a known phase: a transition is written with a sync and starts in the
  phase known so far, a signal is written with a sync, and an execution happens only in the phase
  that selects it.
\<close>

fun replay_effects :: "policy_state \<Rightarrow> run_effect list \<Rightarrow> policy_state option" where
  "replay_effects st [] = Some st"
| "replay_effects st (Wrote (E_Transition v) d # fx) =
     (if tr_from v = st \<and> tr_to v \<noteq> st \<and> d = Sync then replay_effects (tr_to v) fx else None)"
| "replay_effects st (Wrote (E_Signal v) d # fx) = (if d = Sync then replay_effects st fx else None)"
| "replay_effects st (Wrote _ d # fx) = replay_effects st fx"
| "replay_effects st (Actuated t act res # fx) =
     (if demand_phase (demand_of_actuation act) st then replay_effects st fx else None)"

lemma replay_effects_append:
  "replay_effects st xs = Some st' \<Longrightarrow> replay_effects st (xs @ ys) = replay_effects st' ys"
  by (induction st xs rule: replay_effects.induct) (simp_all split: if_splits)

lemma replay_effects_publish:
  "replay_effects st (map (publish f) tr) = Intervention_Props.replay st tr"
  by (induction st tr rule: Intervention_Props.replay.induct) auto

lemma note_attempt_writes:
  assumes "note_attempt env r (t, act, res) = (r', fx)"
  shows "fx = (case signal_record_of t act res (Some (signal_get (re_checkpoint_signal env)))
        (actuation_reason act (rr_intervention_cause r) (rr_shutdown_reason r)) of
      Some signal \<Rightarrow> [Wrote (E_Signal signal) Sync] | None \<Rightarrow> [])"
    and "rr_engine r' = rr_engine r" and "rr_intervention_started r' = rr_intervention_started r"
    and "rr_supervisor_error r' = rr_supervisor_error r"
  using assms
  by (auto simp: note_attempt_def record_actuation_def bare_record_def Let_def
      split: actuation.splits option.splits if_splits)

text \<open>The executions that the report has to name: every TERM, KILL and forwarded signal, whatever
  came of it, and every checkpoint request that was not kept back by its own channel.\<close>

definition sends_signal :: "attempt_entry \<Rightarrow> bool" where
  "sends_signal = (\<lambda>(t, act, res). case act of
       Act_Checkpoint _ _ _ \<Rightarrow> res \<noteq> Err CheckpointUnavailable \<and> res \<noteq> Err CheckpointRejected
     | _ \<Rightarrow> True)"

text \<open>What the record of an execution has to say: its time in milliseconds, the number of the signal,
  whom it was for, and what came of it.\<close>

fun executed_signal :: "run_env \<Rightarrow> actuation \<Rightarrow> u8 \<times> signal_target" where
  "executed_signal env (Act_Checkpoint _ _ _) =
     (signal_get (re_checkpoint_signal env), Target_CooperativeEndpoint)"
| "executed_signal env (Act_Term _) = (15, Target_OwnedProcessGroup)"
| "executed_signal env Act_Kill = (9, Target_OwnedProcessGroup)"
| "executed_signal env (Act_ForwardSignal signal) = (signal_get signal, Target_OwnedProcessGroup)"

definition names :: "run_env \<Rightarrow> attempt_entry \<Rightarrow> signal_record \<Rightarrow> bool" where
  "names env = (\<lambda>(t, act, res) s.
     unat (sr_at_ms s) = min (t div 1000000) (2 ^ 64 - 1)
   \<and> (sr_signal s, sr_target s) = executed_signal env act
   \<and> (sr_result s = Sig_Delivered \<longleftrightarrow> res = Ok Act_Delivered)
   \<and> (sr_result s = Sig_ProcessMissing \<longleftrightarrow> res \<in> {Ok Act_ProcessMissing, Err ProcessMissing})
   \<and> (sr_result s = Sig_PermissionDenied \<longleftrightarrow> res = Err PermissionDenied))"

lemma signal_result_of_iff:
  "signal_result_of res = Sig_Delivered \<longleftrightarrow> res = Ok Act_Delivered"
  "signal_result_of res = Sig_ProcessMissing \<longleftrightarrow> res \<in> {Ok Act_ProcessMissing, Err ProcessMissing}"
  "signal_result_of res = Sig_PermissionDenied \<longleftrightarrow> res = Err PermissionDenied"
  by (cases res rule: signal_result_of.cases; simp)+

lemma signal_record_of_names:
  "signal_record_of t act res (Some (signal_get (re_checkpoint_signal env))) reason = None
     \<longleftrightarrow> \<not> sends_signal (t, act, res)"
  "signal_record_of t act res (Some (signal_get (re_checkpoint_signal env))) reason = Some s
     \<Longrightarrow> names env (t, act, res) s"
  by (auto simp: sends_signal_def names_def signal_record_of_def signal_result_of_iff
      unat_duration_ms split: actuation.splits if_splits)

definition signals_written :: "run_effect list \<Rightarrow> signal_record list" where
  "signals_written fx = List.map_filter (\<lambda>e. case e of E_Signal v \<Rightarrow> Some v | _ \<Rightarrow> None) (entries_of fx)"

lemma signals_written_simps [simp]:
  "signals_written [] = []"
  "signals_written (Wrote (E_Signal v) d # fx) = v # signals_written fx"
  "signals_written (fx @ fy) = signals_written fx @ signals_written fy"
  by (simp_all add: signals_written_def List.map_filter_def)

lemma signals_written_publish [simp]: "signals_written (map (publish f) tr) = []"
proof (induction tr)
  case (Cons x tr)
  then show ?case by (cases x) (simp_all add: signals_written_def List.map_filter_def)
qed simp

lemma note_attempts_writes:
  assumes "run_machine (note_attempt env) r as = (r', fx)"
  shows "list_all2 (names env) (filter sends_signal as) (signals_written fx)
    \<and> actuated fx = [] \<and> replay_effects st fx = Some st
    \<and> rr_engine r' = rr_engine r \<and> rr_intervention_started r' = rr_intervention_started r
    \<and> rr_supervisor_error r' = rr_supervisor_error r \<and> entries_of fx = map E_Signal (signals_written fx)"
  using assms
proof (induction as arbitrary: r fx)
  case (Cons x as)
  obtain t act res where x: "x = (t, act, res)" by (cases x)
  from Cons.prems obtain s fx1 fx2 where one: "note_attempt env r x = (s, fx1)"
    and many: "run_machine (note_attempt env) s as = (r', fx2)" and fx: "fx = fx1 @ fx2"
    by (rule run_machine_Cons_E)
  define reason where "reason = actuation_reason act (rr_intervention_cause r) (rr_shutdown_reason r)"
  note w = note_attempt_writes(1) [OF one [unfolded x], folded reason_def]
  note same = note_attempt_writes(2-4) [OF one [unfolded x]]
  show ?case
  proof (cases "signal_record_of t act res (Some (signal_get (re_checkpoint_signal env))) reason")
    case None
    then have "\<not> sends_signal x" "fx1 = []"
      using w signal_record_of_names(1) [of t act res env reason] by (simp_all add: x)
    with Cons.IH [OF many] same show ?thesis by (simp add: fx)
  next
    case (Some v)
    then have "sends_signal x" "fx1 = [Wrote (E_Signal v) Sync]" "names env x v"
      using w signal_record_of_names [of t act res env reason] by (auto simp: x)
    with Cons.IH [OF many] same show ?thesis by (simp add: fx)
  qed
qed simp

section \<open>One event\<close>

definition faults :: "journal_entry \<Rightarrow> bool" where
  "faults entry \<longleftrightarrow> (case entry of E_Transition v \<Rightarrow> tr_to v = SupervisorError | _ \<Rightarrow> False)"

lemma observed_fault:
  "rr_supervisor_error (fst (run_machine (observe_entry c d f) r tr)) \<noteq> None
    \<longleftrightarrow> rr_supervisor_error r \<noteq> None \<or> (\<exists>entry\<in>set (entries_of (map (publish f) tr)). faults entry)"
proof (induction tr arbitrary: r)
  case (Cons x tr)
  show ?case
  proof (cases x)
    case (Transition t a b)
    with Cons.IH show ?thesis
      by (cases "b = SupervisorError") (simp_all add: Let_def split_beta faults_def)
  next
    case (Executed t act res)
    with Cons.IH show ?thesis by (simp add: Let_def split_beta)
  qed
qed simp

lemma observed_started:
  "rr_intervention_started (fst (run_machine (observe_entry c d f) r tr)) = rr_intervention_started r"
proof (induction tr arbitrary: r)
  case (Cons x tr)
  then show ?case by (cases x) (simp_all add: Let_def split_beta)
qed simp

lemma run_apply_flags:
  assumes run: "run_apply env r e = (r', fx)" and inv: "policy_inv (rr_policy r)"
    and ev: "evidence_of (eng_evidence (rr_engine r)) as"
  obtains g ds tr n fx2 where
    "handle (execute (re_answers env)) (rr_engine r) e = (g, ds, tr)" and "rr_engine r' = g"
    and "fx = map (publish (observed_value (rr_final_footprint r))) tr @ fx2"
    and "list_all2 (names env) (filter sends_signal (drop n (attempts_of tr))) (signals_written fx2)"
    and "length as + length (attempts_of tr) < 2 ^ 64 \<Longrightarrow> n = 0"
    and "\<And>st. replay_effects st fx2 = Some st" and "actuated fx2 = []"
    and "rr_intervention_started r' \<Longrightarrow> rr_intervention_started r \<or> attempts_of tr \<noteq> []"
    and "rr_supervisor_error r' \<noteq> None \<longleftrightarrow>
      rr_supervisor_error r \<noteq> None \<or> (\<exists>entry\<in>set (entries_of fx). faults entry)"
proof -
  define r0 where "r0 = note_acknowledgement e (label_shutdown e r)"
  have r0: "rr_engine r0 = rr_engine r" "rr_intervention_started r0 = rr_intervention_started r"
    "rr_supervisor_error r0 = rr_supervisor_error r" "rr_final_footprint r0 = rr_final_footprint r"
    by (simp_all add: r0_def label_shutdown_def note_acknowledgement_def split: event.splits bool.splits)
  let ?f = "observed_value (rr_final_footprint r)"
  obtain g ds tr where h: "handle (execute (re_answers env)) (rr_engine r) e = (g, ds, tr)"
    using prod_cases3 by blast
  obtain s fx1 where ob: "run_machine (observe_entry (intervention_cause_for e)
      (supervisor_error_diagnostic e) ?f) (r0\<lparr>rr_engine := g\<rparr>) tr = (s, fx1)" by force
  have fx1: "fx1 = map (publish ?f) tr" using observe_publishes ob by (metis snd_conv)
  from observe_keeps [OF ob] have engine: "rr_engine s = g" by auto
  have started: "rr_intervention_started s = rr_intervention_started r"
    using observed_started [of "intervention_cause_for e" "supervisor_error_diagnostic e" ?f
        "r0\<lparr>rr_engine := g\<rparr>" tr] r0(2) by (simp add: ob)
  have fault: "rr_supervisor_error s \<noteq> None \<longleftrightarrow>
      rr_supervisor_error r \<noteq> None \<or> (\<exists>entry\<in>set (entries_of (map (publish ?f) tr)). faults entry)"
    using observed_fault [of "intervention_cause_for e" "supervisor_error_diagnostic e" ?f
        "r0\<lparr>rr_engine := g\<rparr>" tr] r0(3) by (simp add: ob)
  define recs where "recs = newest_records (eng_evidence g) (ie_total_attempts (eng_evidence (rr_engine r)))"
  define r1 where "r1 = s\<lparr>rr_intervention_started :=
      (rr_intervention_started s \<or> \<not> opens_an_uncounted_shutdown e \<and> recs \<noteq> [])\<rparr>"
  obtain fx2 where ra: "record_actuations env r1 recs = (r', fx2)" and fx: "fx = fx1 @ fx2"
    using run by (auto simp: run_apply_def handle_event_def Let_def r0_def [symmetric] r0 h ob
        recs_def [symmetric] r1_def [symmetric] split: prod.splits)
  obtain n where n: "map attempt_of recs = drop n (attempts_of tr)"
    "length as + length (attempts_of tr) < 2 ^ 64 \<Longrightarrow> n = 0"
    using newest_attempts [OF h inv ev] unfolding recs_def by metis
  from ra have "run_machine (note_attempt env) r1 (drop n (attempts_of tr)) = (r', fx2)"
    by (simp add: record_actuations_attempts n(1))
  note w = note_attempts_writes [OF this]
  have quiet: "\<not> faults entry" if "entry \<in> set (entries_of fx2)" for entry
  proof -
    have "entries_of fx2 = map E_Signal (signals_written fx2)" using w by blast
    with that show ?thesis by (auto simp: faults_def)
  qed
  have attempts: "attempts_of tr \<noteq> []" if "recs \<noteq> []"
    using that n(1) by (cases "attempts_of tr") auto
  show thesis
  proof (rule that [OF h])
    show "rr_engine r' = g" using w by (simp add: r1_def engine)
    show "fx = map (publish ?f) tr @ fx2" by (simp add: fx fx1)
    show "rr_supervisor_error r' \<noteq> None \<longleftrightarrow>
        rr_supervisor_error r \<noteq> None \<or> (\<exists>entry\<in>set (entries_of fx). faults entry)"
    proof -
      have "rr_supervisor_error r' = rr_supervisor_error s" using w by (simp add: r1_def)
      with fault quiet show ?thesis by (auto simp: fx fx1)
    qed
    show "rr_intervention_started r \<or> attempts_of tr \<noteq> []" if "rr_intervention_started r'"
      using that w started attempts by (auto simp: r1_def)
  qed (use w n(2) in blast)+
qed

section \<open>The invariant of a run\<close>

definition run_inv :: "run_env \<Rightarrow> run_runtime \<Rightarrow> run_effect list \<Rightarrow> bool" where
  "run_inv env r fx \<longleftrightarrow> policy_inv (rr_policy r)
     \<and> evidence_of (eng_evidence (rr_engine r)) (actuated fx)
     \<and> replay_effects Normal fx = Some (pm_state (rr_policy r))
     \<and> (length (actuated fx) < 2 ^ 64 \<longrightarrow>
          list_all2 (names env) (filter sends_signal (actuated fx)) (signals_written fx))
     \<and> (rr_intervention_started r \<longrightarrow> actuated fx \<noteq> [])
     \<and> (rr_supervisor_error r \<noteq> None \<longleftrightarrow> (\<exists>entry\<in>set (entries_of fx). faults entry))"

lemma loop_policy_inv:
  assumes "handle_loop exec t g pending = (g', ds, tr)" and "loop_inv g t pending"
  shows "policy_inv (eng_policy g')"
  using assms
proof (induction rule: loop_induct)
  case (skip g a pending g' ds tr)
  then show ?case by (simp add: loop_inv_skip)
next
  case (act g a pending act g1 after tr1 g' ds tr)
  from act.IH [OF loop_inv_attempt(1) [OF act.prems act.hyps(1,2)]] show ?case .
qed (simp add: loop_inv_def)

lemma handle_policy_inv:
  assumes "handle exec g e = (g', ds, tr)" and "policy_inv (eng_policy g)"
  shows "policy_inv (eng_policy g')"
  using assms(1) by (rule handle_split) (blast intro: loop_policy_inv handle_loop_inv [OF assms(2)])

lemma run_inv_event:
  assumes "run_inv env r fx" and "run_apply env r e = (r', fy)"
  shows "run_inv env r' (fx @ fy)"
proof -
  from assms(1) have inv: "policy_inv (rr_policy r)"
    and ev: "evidence_of (eng_evidence (rr_engine r)) (actuated fx)"
    and rep: "replay_effects Normal fx = Some (pm_state (rr_policy r))"
    and sig: "length (actuated fx) < 2 ^ 64 \<longrightarrow>
      list_all2 (names env) (filter sends_signal (actuated fx)) (signals_written fx)"
    and started: "rr_intervention_started r \<longrightarrow> actuated fx \<noteq> []"
    and fault: "rr_supervisor_error r \<noteq> None \<longleftrightarrow> (\<exists>entry\<in>set (entries_of fx). faults entry)"
    by (auto simp: run_inv_def)
  show ?thesis
    using assms(2) inv ev
  proof (rule run_apply_flags)
    fix g ds tr n fx2
    assume h: "handle (execute (re_answers env)) (rr_engine r) e = (g, ds, tr)" and g: "rr_engine r' = g"
      and fy: "fy = map (publish (observed_value (rr_final_footprint r))) tr @ fx2"
      and sig2: "list_all2 (names env) (filter sends_signal (drop n (attempts_of tr))) (signals_written fx2)"
      and n: "length (actuated fx) + length (attempts_of tr) < 2 ^ 64 \<Longrightarrow> n = 0"
      and rep2: "\<And>st. replay_effects st fx2 = Some st" and act2: "actuated fx2 = []"
      and started2: "rr_intervention_started r' \<Longrightarrow> rr_intervention_started r \<or> attempts_of tr \<noteq> []"
      and fault2: "rr_supervisor_error r' \<noteq> None \<longleftrightarrow>
        rr_supervisor_error r \<noteq> None \<or> (\<exists>entry\<in>set (entries_of fy). faults entry)"
    have "policy_inv (rr_policy r')" using handle_policy_inv [OF h inv] g by simp
    moreover have "evidence_of (eng_evidence (rr_engine r')) (actuated (fx @ fy))"
      using handle_evidence [OF h ev] by (simp add: g fy act2)
    moreover have "replay_effects Normal (fx @ fy) = Some (pm_state (rr_policy r'))"
      using replay_effects_append [OF rep, of fy] handle_replay [OF inv h]
      by (simp add: fy g rep2 replay_effects_publish replay_effects_append)
    moreover have "list_all2 (names env) (filter sends_signal (actuated (fx @ fy))) (signals_written (fx @ fy))"
      if "length (actuated (fx @ fy)) < 2 ^ 64"
      using that sig sig2 n by (simp add: fy act2 list_all2_appendI)
    moreover have "actuated (fx @ fy) \<noteq> []" if "rr_intervention_started r'"
      using started2 [OF that] started by (auto simp: fy)
    ultimately show ?thesis using fault fault2 by (auto simp: run_inv_def)
  qed
qed

interpretation effects: run_preserves env "run_inv env"
proof
  show "run_inv env r' (fx @ fx')" if "run_inv env r fx" "run_apply env r e = (r', fx')" for r fx e r' fx'
    using that by (rule run_inv_event)
  show "run_inv env s fx" if "run_inv env r fx" "same_run r s" for r fx s
    using that by (auto simp: run_inv_def same_run_def)
  show "run_inv env r (fx @ [Wrote (E_Sample w) Buffered])" if "run_inv env r fx" for r fx w
    using that replay_effects_append [of Normal fx "pm_state (rr_policy r)" "[Wrote (E_Sample w) Buffered]"]
    by (simp add: run_inv_def faults_def signals_written_def List.map_filter_def)
qed

lemma run_inv_start:
  assumes "enforce_with_initial_request_id pc request_id = Ok policy"
  shows "run_inv env (run_start options config policy tracker retained actuator watch) []"
proof -
  have "pm_state policy = Normal"
    using assms by (auto simp: enforce_with_initial_request_id_def split: if_splits)
  moreover have "evidence_of evidence_default []"
    by (simp add: evidence_of_def evidence_default_def recorded_def)
  ultimately show ?thesis
    using policy_inv_enforce [OF assms] by (simp add: run_inv_def run_start_def engine_new_def)
qed

end
