(* ===== verification/Run_Handshake.thy ===== *)
theory Run_Handshake
  imports Run_Invariant Checkpoint_Props
begin

text \<open>
  The checkpoint handshake of an enforcing run: the policy, the channel and the checkpoint record of
  the report agree after every event, so the record that is finally written is a valid one.
\<close>

section \<open>The channel\<close>

lemma ingest_active:
  "cp_active_request_id (fst (ingest p t chunk)) = None
     \<or> cp_active_request_id (fst (ingest p t chunk)) = cp_active_request_id p"
  by (cases rule: ingest_cases [of p t chunk]) auto

lemma ingest_acknowledged:
  "poll_acknowledgement (snd (ingest p t chunk)) = Some a \<Longrightarrow>
   cp_active_request_id p = Some (ca_request_id a)"
  by (cases rule: ingest_cases [of p t chunk]) (auto simp: accepted_def)

lemma channel_poll_active:
  assumes "channel_poll ch t read = (ch', res)"
  shows "cp_active_request_id (ch_protocol ch') = None
      \<or> cp_active_request_id (ch_protocol ch') = cp_active_request_id (ch_protocol ch)"
    and "res = Ok poll \<Longrightarrow> poll_acknowledgement poll = Some a \<Longrightarrow>
      cp_active_request_id (ch_protocol ch) = Some (ca_request_id a)"
proof -
  obtain p1 poll1 where i1: "ingest (ch_protocol ch) t [] = (p1, poll1)" by force
  have p1: "cp_active_request_id p1 = None \<or> cp_active_request_id p1 = cp_active_request_id (ch_protocol ch)"
    using ingest_active [of "ch_protocol ch" t "[]"] by (simp add: i1)
  have a1: "cp_active_request_id (ch_protocol ch) = Some (ca_request_id x)"
    if "poll_acknowledgement poll1 = Some x" for x
    using ingest_acknowledged [of "ch_protocol ch" t "[]"] that by (simp add: i1)
  have p2: "cp_active_request_id (fst (ingest p1 t chunk)) = None"
    if "cp_active_request_id (fst (ingest p1 t chunk)) \<noteq> cp_active_request_id (ch_protocol ch)" for chunk
    using ingest_active [of p1 t chunk] p1 that by auto
  have a2: "cp_active_request_id (ch_protocol ch) = Some (ca_request_id x)"
    if "poll_acknowledgement (snd (ingest p1 t chunk)) = Some x" for x chunk
    using ingest_acknowledged [OF that] p1 by auto
  show "cp_active_request_id (ch_protocol ch') = None
      \<or> cp_active_request_id (ch_protocol ch') = cp_active_request_id (ch_protocol ch)"
    using assms p1 p2
    by (auto simp: channel_poll_def i1 Let_def protocol_endpoint_exited_def split_beta
        split: if_splits read_result.splits)
  show "cp_active_request_id (ch_protocol ch) = Some (ca_request_id a)"
    if "res = Ok poll" "poll_acknowledgement poll = Some a"
    using assms a1 a2 that
    by (auto simp: channel_poll_def i1 Let_def protocol_endpoint_exited_def poll_pending_def split_beta
        split: if_splits read_result.splits)
qed

lemma poll_ready_protocol: "poll_ready ch read = (ch', res) \<Longrightarrow> ch_protocol ch' = ch_protocol ch"
  by (auto simp: poll_ready_def Let_def split: if_splits read_result.splits sum.splits)

section \<open>The attempts on the group\<close>

lemma note_group_attempt:
  assumes "note_attempt env r (t, act, res) = (r', fx)" and "\<not> asks_worker act"
  shows "rr_checkpoint_request_id r' = rr_checkpoint_request_id r"
    and "rr_checkpoint_reason r' = rr_checkpoint_reason r"
    and "rr_checkpoint_status r' = rr_checkpoint_status r \<and> rr_checkpoint_at_ms r' = rr_checkpoint_at_ms r
      \<or> rr_checkpoint_status r' = Status_TimedOut \<and> rr_checkpoint_at_ms r' = Some (duration_ms t)
        \<and> act = Act_Term Disp_TimedOut"
  using assms
  by (auto simp: note_attempt_def record_actuation_def bare_record_def checkpoint_progress_def Let_def
      split: actuation.splits if_splits)

lemma note_group_attempts:
  assumes "run_machine (note_attempt env) r as = (r', fx)"
    and "\<forall>(u, act, res)\<in>set as. u = t \<and> \<not> asks_worker act"
  shows "rr_checkpoint_request_id r' = rr_checkpoint_request_id r
    \<and> rr_checkpoint_reason r' = rr_checkpoint_reason r
    \<and> (rr_checkpoint_status r' = rr_checkpoint_status r \<and> rr_checkpoint_at_ms r' = rr_checkpoint_at_ms r
      \<or> rr_checkpoint_status r' = Status_TimedOut \<and> rr_checkpoint_at_ms r' = Some (duration_ms t)
        \<and> (\<exists>res. (t, Act_Term Disp_TimedOut, res) \<in> set as))"
  using assms
proof (induction as arbitrary: r fx)
  case (Cons x as)
  obtain act res where x: "x = (t, act, res)" "\<not> asks_worker act" using Cons.prems(2) by (cases x) auto
  from Cons.prems(1) obtain s fx1 fx2 where
    one: "note_attempt env r x = (s, fx1)" and many: "run_machine (note_attempt env) s as = (r', fx2)"
    by (rule run_machine_Cons_E)
  from note_group_attempt [OF one [unfolded x(1)] x(2)] Cons.IH [OF many] Cons.prems(2)
  show ?case by (auto simp: x(1))
qed simp

section \<open>The invariant\<close>

abbreviation rr_evidence :: "run_runtime \<Rightarrow> intervention_evidence" where
  "rr_evidence r \<equiv> eng_evidence (rr_engine r)"

definition cause_ok :: "signal_reason option \<Rightarrow> bool" where
  "cause_ok c \<longleftrightarrow> c \<in> {None, Some Reason_Footprint, Some Reason_WallTime}"

lemma cause_ok_for [simp]: "cause_ok (intervention_cause_for e)"
  by (cases e) (simp_all add: cause_ok_def)

text \<open>The checkpoint record of the report without its artifact, as it would be written at \<open>t\<close>.\<close>

definition record_ok :: "dur \<Rightarrow> run_runtime \<Rightarrow> bool" where
  "record_ok t r \<longleftrightarrow>
     (rr_checkpoint_at_ms r = None \<longleftrightarrow> rr_checkpoint_status r = Status_NotNegotiated)
   \<and> (\<forall>x. rr_checkpoint_at_ms r = Some x \<longrightarrow> x \<le> duration_ms t)
   \<and> rr_checkpoint_request_id r \<noteq> Some 0
   \<and> (rr_checkpoint_request_id r \<noteq> None \<longrightarrow> rr_checkpoint_status r \<in>
        {Status_RequestedUnverified, Status_AcknowledgedUnverifiedDurability, Status_TimedOut})
   \<and> cause_ok (rr_checkpoint_reason r) \<and> cause_ok (rr_intervention_cause r)"

definition channel_agrees :: "process_actuator \<Rightarrow> policy_machine \<Rightarrow> bool" where
  "channel_agrees a m \<longleftrightarrow>
     (\<forall>b. pa_checkpoint a = Some b \<longrightarrow>
        cp_active_request_id (ch_protocol (cb_channel b)) \<in> {None, pm_active_request_id m})"

definition phase_record_ok :: "run_runtime \<Rightarrow> bool" where
  "phase_record_ok r \<longleftrightarrow>
     (watching (rr_policy r) \<longrightarrow> rr_checkpoint_status r = Status_NotNegotiated
        \<and> rr_checkpoint_request_id r = None \<and> evidence_of (rr_evidence r) [])
   \<and> (pm_state (rr_policy r) = CheckpointRequested \<longrightarrow>
        rr_checkpoint_status r = Status_RequestedUnverified
        \<and> channel_agrees (eng_actuator (rr_engine r)) (rr_policy r))"

definition handshake :: "dur \<Rightarrow> run_runtime \<Rightarrow> bool" where
  "handshake t r \<longleftrightarrow> enforcing (rr_policy r) t \<and> (\<exists>as. evidence_of (rr_evidence r) as)
     \<and> record_ok t r \<and> phase_record_ok r"

definition artifact_ok :: "run_runtime \<Rightarrow> bool" where
  "artifact_ok r \<longleftrightarrow> rr_checkpoint_artifact r = None
     \<or> rr_checkpoint_status r = Status_AcknowledgedUnverifiedDurability \<and> closing (rr_policy r)"

text \<open>An acknowledgement event answers the open request.\<close>

definition genuine :: "run_runtime \<Rightarrow> event \<Rightarrow> bool" where
  "genuine r e \<longleftrightarrow> (case e of
       CheckpointAck t i a \<Rightarrow> a \<and> pm_state (rr_policy r) = CheckpointRequested
         \<and> pm_active_request_id (rr_policy r) = Some i
     | _ \<Rightarrow> True)"

definition is_ack :: "event \<Rightarrow> bool" where
  "is_ack e \<longleftrightarrow> (case e of CheckpointAck _ _ _ \<Rightarrow> True | _ \<Rightarrow> False)"

lemma handshake_later:
  assumes "handshake a r" and "a \<le> b"
  shows "handshake b r"
  using assms enforcing_later [of "rr_policy r" a b] duration_ms_mono [OF assms(2)]
  by (fastforce simp: handshake_def record_ok_def intro: order_trans)

lemma phases:
  assumes "enforcing m t"
  obtains (watching) "watching m" "\<not> closing m" "pm_state m \<noteq> CheckpointRequested"
  | (requested) "pm_state m = CheckpointRequested" "\<not> watching m" "\<not> closing m"
  | (closing) "closing m" "\<not> watching m" "pm_state m \<noteq> CheckpointRequested"
  using assms by (cases "pm_state m") (auto simp: enforcing_def policy_inv_def watching_def closing_def)

text \<open>A genuine acknowledgement opens the shutdown.\<close>

lemma genuine_ack_step:
  assumes "genuine r e" and "is_ack e" and "enforcing (rr_policy r) (event_at e)"
  shows "apply_event (rr_policy r) e =
    (start_term ((rr_policy r)\<lparr>pm_last_event_at := Some (event_at e)\<rparr>) (event_at e),
     [SendTerm Disp_AcknowledgedUnverifiedDurability])"
  using assms
  by (cases e) (auto simp: genuine_def is_ack_def enforcing_def apply_event_def apply_checkpoint_ack_def)

lemma acknowledged_record:
  assumes "record_ok t r" and "event_at e = t" and "genuine r e"
    and "rr_checkpoint_status s = rr_checkpoint_status (note_acknowledgement e r)"
    and "rr_checkpoint_at_ms s = rr_checkpoint_at_ms (note_acknowledgement e r)"
    and "rr_checkpoint_request_id s = rr_checkpoint_request_id r"
    and "rr_checkpoint_reason s = rr_checkpoint_reason r"
    and "cause_ok (rr_intervention_cause s)"
  shows "record_ok t s" and "is_ack e \<Longrightarrow> rr_checkpoint_status s = Status_AcknowledgedUnverifiedDurability"
    and "\<not> is_ack e \<Longrightarrow> rr_checkpoint_status s = rr_checkpoint_status r"
  using assms
  by (cases e; auto simp: record_ok_def note_acknowledgement_def genuine_def is_ack_def; fail)+

section \<open>Every event keeps it\<close>

lemma group_attempts_group:
  assumes "group_attempts acts t xs" and "\<forall>a\<in>set acts. \<not> is_RequestCheckpoint a"
  shows "\<forall>(u, act, res)\<in>set (drop n xs). u = t \<and> \<not> asks_worker act"
    and "(t, Act_Term d, res) \<in> set (drop n xs) \<Longrightarrow> SendTerm d \<in> set acts"
proof -
  have sent: "actuation_for a = Some (Act_Term d) \<Longrightarrow> a = SendTerm d" for a by (cases a) auto
  have each: "u = t \<and> (act = Act_Kill \<or> (\<exists>a\<in>set acts. actuation_for a = Some act))"
    if "(u, act, res) \<in> set (drop n xs)" for u act res
    using assms(1) in_set_dropD [OF that] by (auto simp: group_attempts_def)
  have worker: "\<not> asks_worker act" if "(u, act, res) \<in> set (drop n xs)" for u act res
    using each [OF that] assms(2) actuation_for_checkpoint by auto
  from each worker show "\<forall>(u, act, res)\<in>set (drop n xs). u = t \<and> \<not> asks_worker act"
    by auto
  show "SendTerm d \<in> set acts" if "(t, Act_Term d, res) \<in> set (drop n xs)"
    using each [OF that] sent by auto
qed

lemma apply_stops:
  assumes run: "run_machine (note_attempt env) r1 (drop n xs) = (r', fx)"
    and xs: "group_attempts acts t xs" "\<forall>a\<in>set acts. \<not> is_RequestCheckpoint a"
    and timed: "SendTerm Disp_TimedOut \<in> set acts \<Longrightarrow> rr_checkpoint_status r1 = Status_RequestedUnverified"
    and ok: "record_ok t r1" and cause: "rr_intervention_cause r' = rr_intervention_cause r1"
  shows "record_ok t r'"
    and "SendTerm Disp_TimedOut \<notin> set acts \<Longrightarrow> rr_checkpoint_status r' = rr_checkpoint_status r1"
proof -
  note same = note_group_attempts [OF run group_attempts_group(1) [OF xs]]
  show "record_ok t r'" using same ok cause timed group_attempts_group(2) [OF xs]
    by (auto simp: record_ok_def)
  show "rr_checkpoint_status r' = rr_checkpoint_status r1" if "SendTerm Disp_TimedOut \<notin> set acts"
    using same that group_attempts_group(2) [OF xs] by blast
qed

text \<open>The attempt that asks the worker, and what follows a failed one.\<close>

lemma note_checkpoint_attempt:
  shows "fst (note_attempt env r (t, Act_Checkpoint rid ov deadline, Ok Act_Delivered)) =
      r\<lparr>rr_checkpoint_reason := rr_intervention_cause r, rr_checkpoint_request_id := Some rid,
        rr_checkpoint_status := Status_RequestedUnverified,
        rr_checkpoint_at_ms := Some (duration_ms t)\<rparr>"
    and "fst (note_attempt env r (t, Act_Checkpoint rid ov deadline, Err f)) =
      (if rr_checkpoint_negotiation r = Neg_Ready
       then r\<lparr>rr_checkpoint_reason := rr_intervention_cause r,
        rr_checkpoint_status := Status_Cancelled, rr_checkpoint_at_ms := Some (duration_ms t)\<rparr>
       else r\<lparr>rr_checkpoint_reason := rr_intervention_cause r\<rparr>)"
  by (cases "rr_checkpoint_negotiation r = Neg_Ready";
      simp add: note_attempt_def record_actuation_def bare_record_def checkpoint_progress_def Let_def)+

lemma apply_asks:
  assumes run: "run_machine (note_attempt env) r1 ((t, Act_Checkpoint rid ov deadline, res) # xs) = (r', fx)"
    and xs: "group_attempts [SendTerm Disp_SkippedCheckpointFailure] t xs"
    and ok: "record_ok t r1" and cause: "rr_intervention_cause r' = rr_intervention_cause r1"
    and rid: "rid \<noteq> 0" "rr_checkpoint_request_id r1 = None"
    and delivered: "res = Ok Act_Delivered \<and> xs = [] \<or> isl res"
  shows "record_ok t r'"
    and "res = Ok Act_Delivered \<Longrightarrow> rr_checkpoint_status r' = Status_RequestedUnverified"
proof -
  from run obtain s fx1 fx2 where one: "note_attempt env r1 (t, Act_Checkpoint rid ov deadline, res) = (s, fx1)"
    and many: "run_machine (note_attempt env) s xs = (r', fx2)" by (rule run_machine_Cons_E)
  have s_eq: "s = fst (note_attempt env r1 (t, Act_Checkpoint rid ov deadline, res))"
    using one by simp
  have s: "record_ok t s \<and> rr_intervention_cause s = rr_intervention_cause r1
      \<and> (res = Ok Act_Delivered \<longrightarrow> rr_checkpoint_status s = Status_RequestedUnverified)"
    unfolding s_eq using ok rid delivered
    by (cases res) (auto simp: record_ok_def note_checkpoint_attempt)
  have acts: "\<forall>a\<in>set [SendTerm Disp_SkippedCheckpointFailure]. \<not> is_RequestCheckpoint a"
    by (simp add: is_RequestCheckpoint_def)
  from apply_stops [of env s 0 xs r' fx2, OF _ xs acts] many s cause
  show "record_ok t r'" by simp
  show "rr_checkpoint_status r' = Status_RequestedUnverified" if "res = Ok Act_Delivered"
    using that delivered many s by auto
qed

lemma run_apply_stretch:
  assumes run: "run_apply env r e = (r', fx)" and hs: "handshake (event_at e) r"
    and real: "real_event e" "valid_signal (re_checkpoint_signal env)"
  shows "frame r' = frame r \<and> stretch (event_at e) (event_at e) (entries_of fx)
    \<and> enforcing (rr_policy r') (event_at e)"
proof -
  from hs obtain as where inv: "policy_inv (rr_policy r)" "enforcing (rr_policy r) (event_at e)"
    and ev: "evidence_of (rr_evidence r) as" by (auto simp: handshake_def enforcing_def)
  from run inv(1) ev show ?thesis
  proof (rule run_apply_split)
    fix g ds tr r1 n fx2
    assume h: "handle (execute (re_answers env)) (rr_engine r) e = (g, ds, tr)"
      and r1: "rr_engine r1 = g" "frame r1 = frame r"
      and many: "run_machine (note_attempt env) r1 (drop n (attempts_of tr)) = (r', fx2)"
      and fx: "fx = map (publish (observed_value (rr_final_footprint r))) tr @ fx2"
    note st = handle_stamped [OF h inv(2) real(1)]
    have "\<forall>(u, act, res)\<in>set (drop n (attempts_of tr)). u = event_at e \<and> real_signal act"
      using st stamped_attempts by (auto dest!: in_set_dropD)
    from note_attempts_effect [OF many this real(2)] st published_stretch r1
    show ?thesis by (auto simp: fx)
  qed
qed

text \<open>What one event leaves, in the terms of the checkpoint record.\<close>

definition applied :: "run_env \<Rightarrow> run_runtime \<Rightarrow> event \<Rightarrow> trace_entry list \<Rightarrow> nat
    \<Rightarrow> run_runtime \<Rightarrow> run_runtime \<Rightarrow> bool" where
  "applied env r e tr n r1 r' \<longleftrightarrow>
     (\<exists>ds. handle (execute (re_answers env)) (rr_engine r) e = (rr_engine r', ds, tr))
   \<and> (\<exists>fx. run_machine (note_attempt env) r1 (drop n (attempts_of tr)) = (r', fx))
   \<and> rr_intervention_cause r' = rr_intervention_cause r1
   \<and> rr_checkpoint_artifact r' = rr_checkpoint_artifact r
   \<and> record_ok (event_at e) r1 \<and> rr_checkpoint_request_id r1 = rr_checkpoint_request_id r
   \<and> (is_ack e \<longrightarrow> rr_checkpoint_status r1 = Status_AcknowledgedUnverifiedDurability)
   \<and> (\<not> is_ack e \<longrightarrow> rr_checkpoint_status r1 = rr_checkpoint_status r)
   \<and> (watching (rr_policy r) \<longrightarrow> n = 0 \<and> evidence_of (rr_evidence r') (attempts_of tr))
   \<and> enforcing (rr_policy r') (event_at e) \<and> (\<exists>as. evidence_of (rr_evidence r') as)"

lemma run_apply_applied:
  assumes run: "run_apply env r e = (r', fx)" and hs: "handshake (event_at e) r"
    and real: "real_event e" "valid_signal (re_checkpoint_signal env)" and gen: "genuine r e"
  shows "\<exists>tr n r1. applied env r e tr n r1 r'"
proof -
  from hs have inv: "policy_inv (rr_policy r)" and rec: "record_ok (event_at e) r"
    by (auto simp: handshake_def enforcing_def)
  obtain as where ev: "evidence_of (rr_evidence r) as" and as: "watching (rr_policy r) \<Longrightarrow> as = []"
    using hs by (auto simp: handshake_def phase_record_ok_def)
  note out = run_apply_stretch [OF run hs real]
  from run inv ev show ?thesis
  proof (rule run_apply_split)
    fix g ds tr r1 n fx2
    assume h: "handle (execute (re_answers env)) (rr_engine r) e = (g, ds, tr)"
      and r1: "rr_engine r1 = g"
        "rr_intervention_cause r1 \<in> {rr_intervention_cause r, intervention_cause_for e}"
      and same: "rr_checkpoint_status r1 = rr_checkpoint_status (note_acknowledgement e r)"
        "rr_checkpoint_at_ms r1 = rr_checkpoint_at_ms (note_acknowledgement e r)"
        "rr_checkpoint_request_id r1 = rr_checkpoint_request_id r"
        "rr_checkpoint_reason r1 = rr_checkpoint_reason r"
      and many: "run_machine (note_attempt env) r1 (drop n (attempts_of tr)) = (r', fx2)"
      and n: "length as + length (attempts_of tr) < 2 ^ 64 \<Longrightarrow> n = 0"
      and ev': "evidence_of (eng_evidence g) (as @ attempts_of tr)"
    have "\<forall>(u, act, res)\<in>set (drop n (attempts_of tr)). u = event_at e \<and> real_signal act"
      using handle_stamped [OF h _ real(1)] hs stamped_attempts
      by (auto simp: handshake_def dest!: in_set_dropD)
    from note_attempts_effect [OF many this real(2)]
    have eng: "rr_engine r' = g" "rr_intervention_cause r' = rr_intervention_cause r1"
      by (simp_all add: r1(1))
    have "cause_ok (rr_intervention_cause r1)" using r1(2) rec by (auto simp: record_ok_def)
    note rec1 = acknowledged_record [OF rec refl gen same this]
    have "length (attempts_of tr) \<le> 3" using handle_tries [OF inv h] by (simp add: length_attempts)
    then have "watching (rr_policy r) \<Longrightarrow> n = 0" using n as by simp
    with rec1 h many same(3) ev' eng out as show ?thesis
      by (intro exI [of _ tr] exI [of _ n] exI [of _ r1]) (auto simp: applied_def frame_def)
  qed
qed

text \<open>The three kinds of steps.\<close>

lemma applied_stays:
  assumes ap: "applied env r e tr n r1 r'" and hs: "handshake (event_at e) r"
    and stays: "stays (rr_policy r) (fst (apply_event (rr_policy r) e))"
      "calm (snd (apply_event (rr_policy r) e))" and na: "\<not> is_ack e"
  shows "handshake (event_at e) r' \<and> (artifact_ok r \<longrightarrow> artifact_ok r')"
proof -
  from ap obtain ds where h: "handle (execute (re_answers env)) (rr_engine r) e = (rr_engine r', ds, tr)"
    by (auto simp: applied_def)
  note hd = handle_stays [OF h stays(2)]
  with ap have r': "r' = r1" by (auto simp: applied_def)
  with ap na have st: "rr_checkpoint_status r' = rr_checkpoint_status r"
    and art: "rr_checkpoint_artifact r' = rr_checkpoint_artifact r" by (auto simp: applied_def)
  have "phase_record_ok r'"
    using stays(1) hs hd st ap
    by (auto simp: phase_record_ok_def stays_def handshake_def channel_agrees_def applied_def r')
  moreover have "artifact_ok r'" if "artifact_ok r"
    using that closing_step(1) [of "rr_policy r" e] hs art st hd
    by (auto simp: artifact_ok_def handshake_def enforcing_def)
  ultimately show ?thesis using ap by (simp add: handshake_def applied_def r')
qed

lemma applied_asks:
  assumes ap: "applied env r e tr n r1 r'" and hs: "handshake (event_at e) r"
    and asks: "asks (rr_policy r) (fst (apply_event (rr_policy r) e)) (snd (apply_event (rr_policy r) e))"
  shows "handshake (event_at e) r' \<and> (artifact_ok r \<longrightarrow> artifact_ok r')"
proof -
  let ?m = "rr_policy r" and ?t = "event_at e"
  from hs have inv: "policy_inv ?m" "pm_mode ?m = EnforceMode" "\<not> clock_regressed ?m ?t"
    and rid: "pm_next_request_id ?m \<noteq> 0" by (auto simp: handshake_def enforcing_def)
  have w: "watching ?m" using asks by (simp add: asks_def)
  from ap obtain ds where h: "handle (execute (re_answers env)) (rr_engine r) e = (rr_engine r', ds, tr)"
    by (auto simp: applied_def)
  from ap w obtain fx where many: "run_machine (note_attempt env) r1 (attempts_of tr) = (r', fx)"
    by (auto simp: applied_def)
  have rec1: "record_ok ?t r1" and cause: "rr_intervention_cause r' = rr_intervention_cause r1"
    and none: "rr_checkpoint_request_id r1 = None"
    using ap w hs by (simp_all add: applied_def handshake_def phase_record_ok_def)
  have noart: "artifact_ok r \<longrightarrow> artifact_ok r'"
    using w ap by (auto simp: artifact_ok_def watching_def closing_def applied_def)
  have fin: "handshake ?t r'" if "record_ok ?t r'" "phase_record_ok r'"
    using that ap by (simp add: handshake_def applied_def)
  from h inv asks refl show ?thesis
  proof (cases rule: handle_asks)
    case (delivered b ov deadline)
    note out = apply_asks [OF many [unfolded delivered(1)] group_attempts_Nil rec1 cause rid none]
    have "phase_record_ok r'"
      using out(2) delivered asks
      by (auto simp: phase_record_ok_def channel_agrees_def asks_def watching_def)
    then show ?thesis using out(1) fin noart by simp
  next
    case (failed f xs ov deadline)
    note out = apply_asks [OF many [unfolded failed(1)] failed(2) rec1 cause rid none]
    have "phase_record_ok r'"
      using failed(3) by (auto simp: phase_record_ok_def closing_def watching_def)
    then show ?thesis using out(1) fin noart by simp
  qed
qed

lemma applied_stops:
  assumes ap: "applied env r e tr n r1 r'" and hs: "handshake (event_at e) r"
    and stops: "stops (rr_policy r) e (fst (apply_event (rr_policy r) e)) (snd (apply_event (rr_policy r) e))"
  shows "handshake (event_at e) r' \<and> (artifact_ok r \<or> is_ack e \<longrightarrow> artifact_ok r')"
proof -
  let ?m = "rr_policy r" and ?acts = "snd (apply_event (rr_policy r) e)"
  from hs have inv: "policy_inv ?m" "pm_mode ?m = EnforceMode" by (auto simp: handshake_def enforcing_def)
  have quiet: "\<forall>a\<in>set ?acts. \<not> is_RequestCheckpoint a" and cl: "closing (fst (apply_event ?m e))"
    and timed: "SendTerm Disp_TimedOut \<in> set ?acts \<Longrightarrow>
      pm_state ?m = CheckpointRequested \<and> \<not> is_ack e"
    using stops by (auto simp: stops_def is_ack_def)
  from ap obtain ds where h: "handle (execute (re_answers env)) (rr_engine r) e = (rr_engine r', ds, tr)"
    by (auto simp: applied_def)
  from ap obtain fx where many: "run_machine (note_attempt env) r1 (drop n (attempts_of tr)) = (r', fx)"
    by (auto simp: applied_def)
  have rec1: "record_ok (event_at e) r1" and cause: "rr_intervention_cause r' = rr_intervention_cause r1"
    using ap by (simp_all add: applied_def)
  from handle_stops [OF h inv cl quiet]
  have ga: "group_attempts ?acts (event_at e) (attempts_of tr)" and cl': "closing (rr_policy r')"
    by simp_all
  have tm: "rr_checkpoint_status r1 = Status_RequestedUnverified" if "SendTerm Disp_TimedOut \<in> set ?acts"
    using timed [OF that] hs ap by (auto simp: phase_record_ok_def handshake_def applied_def)
  note out = apply_stops [OF many ga quiet tm rec1 cause]
  have "phase_record_ok r'" using cl' by (auto simp: phase_record_ok_def closing_def watching_def)
  moreover have "artifact_ok r'" if "artifact_ok r \<or> is_ack e"
  proof (cases "rr_checkpoint_artifact r = None")
    case False
    then have "is_ack e \<or> closing ?m \<and> rr_checkpoint_status r = Status_AcknowledgedUnverifiedDurability"
      using that by (auto simp: artifact_ok_def)
    moreover from this have "SendTerm Disp_TimedOut \<notin> set ?acts" using timed by (auto simp: closing_def)
    ultimately have "rr_checkpoint_status r' = Status_AcknowledgedUnverifiedDurability"
      using out(2) ap by (cases "is_ack e") (auto simp: applied_def)
    then show ?thesis using cl' by (simp add: artifact_ok_def)
  qed (use ap in \<open>simp add: artifact_ok_def applied_def\<close>)
  ultimately show ?thesis using out(1) ap by (simp add: handshake_def applied_def)
qed

lemma run_apply_handshake:
  assumes run: "run_apply env r e = (r', fx)" and hs: "handshake (event_at e) r"
    and real: "real_event e" "valid_signal (re_checkpoint_signal env)" and gen: "genuine r e"
  shows "handshake (event_at e) r' \<and> (artifact_ok r \<or> is_ack e \<longrightarrow> artifact_ok r')"
proof -
  from run_apply_applied [OF assms] obtain tr n r1 where ap: "applied env r e tr n r1 r'" by blast
  from hs have enf: "enforcing (rr_policy r) (event_at e)" by (simp add: handshake_def)
  have ack: "\<not> watching (rr_policy r) \<and> \<not> calm (snd (apply_event (rr_policy r) e))" if "is_ack e"
    using genuine_ack_step [OF gen that enf] that gen
    by (auto simp: genuine_def is_ack_def watching_def split: event.splits)
  from enf have "policy_inv (rr_policy r)" "pm_mode (rr_policy r) = EnforceMode"
    "\<not> clock_regressed (rr_policy r) (event_at e)" by (auto simp: enforcing_def)
  then show ?thesis
  proof (cases rule: policy_step_kind)
    case stays
    then have "\<not> is_ack e" using ack by blast
    then show ?thesis using applied_stays [OF ap hs stays] by simp
  next
    case asks
    then have "\<not> is_ack e" using ack by (auto simp: asks_def)
    then show ?thesis using applied_asks [OF ap hs asks] by simp
  next
    case stops
    then show ?thesis by (rule applied_stops [OF ap hs])
  qed
qed

end
