(* ===== verification/Run_Loop.thy ===== *)
theory Run_Loop
  imports Run_Handshake
begin

text \<open>
  The supervising loop of an enforcing run: what every iteration keeps and what it writes between
  its first and its last clock reading.
\<close>

section \<open>Everything the report will need\<close>

text \<open>The part of the state that no event touches; \<open>pw\<close> is the parent watch the run started with.\<close>

definition rest_ok :: "parent_watch_state \<Rightarrow> dur \<Rightarrow> run_runtime \<Rightarrow> bool" where
  "rest_ok pw t r \<longleftrightarrow>
     stretch 0 t (map E_Sample (rr_report_samples r))
   \<and> growth_past (oc_growth (rr_calibration r)) t
   \<and> (0 < it_escaped_count (sm_tracker (rr_sampler r)) \<longrightarrow> rr_escape_detected r)
   \<and> (case pw_exited_at_ms (rr_parent_watch r) of None \<Rightarrow> True | Some x \<Rightarrow> x \<le> duration_ms t)
   \<and> pw_watch (rr_parent_watch r) = pw_watch pw
   \<and> pw_on_parent_exit (rr_parent_watch r) = pw_on_parent_exit pw
   \<and> pw_parent (rr_parent_watch r) = pw_parent pw
   \<and> (pw_exited_at_ms (rr_parent_watch r) \<noteq> None \<longrightarrow> pw_parent pw \<noteq> None)
   \<and> real_root_outcome (rr_retained_outcome r) \<and> real_root_outcome (rr_root_outcome r)"

definition run_ok :: "parent_watch_state \<Rightarrow> dur \<Rightarrow> run_runtime \<Rightarrow> bool" where
  "run_ok pw t r \<longleftrightarrow> handshake t r \<and> rest_ok pw t r \<and> artifact_ok r"

lemma rest_ok_frame: "frame r' = frame r \<Longrightarrow> rest_ok pw t r' = rest_ok pw t r"
  by (auto simp: frame_def rest_ok_def)

lemma rest_ok_later:
  assumes "rest_ok pw a r" and "a \<le> b"
  shows "rest_ok pw b r"
  using assms duration_ms_mono [OF assms(2)] stretch_append [of 0 a _ b "[]"]
  by (auto simp: rest_ok_def growth_past_def split: option.splits)

lemma run_ok_later: "run_ok pw a r \<Longrightarrow> a \<le> b \<Longrightarrow> run_ok pw b r"
  using handshake_later rest_ok_later by (auto simp: run_ok_def)

text \<open>What a part of the run does from one clock reading to a later one.\<close>

definition advances :: "parent_watch_state \<Rightarrow> dur \<Rightarrow> dur \<Rightarrow> run_runtime \<times> run_effect list \<Rightarrow> bool" where
  "advances pw a b x \<longleftrightarrow> run_ok pw b (fst x) \<and> stretch a b (entries_of (snd x))"

lemma advancesI: "run_ok pw b r \<Longrightarrow> stretch a b (entries_of fx) \<Longrightarrow> advances pw a b (r, fx)"
  by (simp add: advances_def)

lemma advances_idle: "run_ok pw a r \<Longrightarrow> a \<le> b \<Longrightarrow> advances pw a b (r, [])"
  by (simp add: advances_def run_ok_later)

lemma advances_seq:
  "advances pw a b (r, fx) \<Longrightarrow> advances pw b c (r', fx') \<Longrightarrow> advances pw a c (r', fx @ fx')"
  by (auto simp: advances_def intro: stretch_append)

lemma advances_apply_early:
  assumes hs: "handshake a r" "rest_ok pw a r" and t: "a \<le> event_at e"
    and art: "artifact_ok r \<or> is_ack e" and gen: "genuine r e" and real: "real_event e"
    and sig: "valid_signal (re_checkpoint_signal env)"
  shows "advances pw a (event_at e) (run_apply env r e)"
proof -
  obtain r' fx where run: "run_apply env r e = (r', fx)" by force
  note hs' = handshake_later [OF hs(1) t]
  from run_apply_handshake [OF run hs' real sig gen] run_apply_stretch [OF run hs' real sig]
    rest_ok_later [OF hs(2) t] rest_ok_frame [of r' r] art
  have "run_ok pw (event_at e) r'" and st: "stretch (event_at e) (event_at e) (entries_of fx)"
    by (auto simp: run_ok_def)
  moreover have "stretch a (event_at e) (entries_of fx)"
    using stretch_append [of a "event_at e" "[]" _ "entries_of fx"] st t by simp
  ultimately show ?thesis by (simp add: run advances_def)
qed

lemma advances_apply:
  assumes "run_ok pw a r" and "a \<le> event_at e" and "genuine r e" and "real_event e"
    and "valid_signal (re_checkpoint_signal env)"
  shows "advances pw a (event_at e) (run_apply env r e)"
  using assms by (intro advances_apply_early) (auto simp: run_ok_def)

section \<open>The checkpoint channel\<close>

lemma set_actuator_ok:
  assumes "handshake t r" and "channel_agrees (eng_actuator (rr_engine r)) (rr_policy r) \<Longrightarrow>
    channel_agrees a (rr_policy r)"
  shows "handshake t (set_actuator r a)"
  using assms by (auto simp: handshake_def record_ok_def phase_record_ok_def set_actuator_def)

lemma set_actuator_keeps [simp]:
  "frame (set_actuator r a) = frame r" "artifact_ok (set_actuator r a) = artifact_ok r"
  "rr_policy (set_actuator r a) = rr_policy r" "eng_actuator (rr_engine (set_actuator r a)) = a"
  "rr_checkpoint_negotiation (set_actuator r a) = rr_checkpoint_negotiation r"
  by (simp_all add: set_actuator_def frame_def artifact_ok_def)

lemma ready_agrees:
  assumes "poll_checkpoint_ready a read = (a', res)" and "channel_agrees a m"
  shows "channel_agrees a' m"
  using assms poll_ready_protocol
  by (auto simp: poll_checkpoint_ready_def channel_agrees_def Let_def split: option.splits prod.splits)

lemma negotiate_ok:
  assumes "run_ok pw t r"
  shows "run_ok pw t (negotiate r p)"
    and "rr_policy (negotiate r p) = rr_policy r"
proof -
  obtain a res where a: "poll_checkpoint_ready (eng_actuator (rr_engine r)) (pi_ready_read p) = (a, res)"
    by force
  have hs: "handshake t (set_actuator r a)"
    using set_actuator_ok [of t r a] ready_agrees [OF a] assms by (simp add: run_ok_def)
  have neg: "handshake t (s\<lparr>rr_checkpoint_negotiation := n\<rparr>) = handshake t s"
    "artifact_ok (s\<lparr>rr_checkpoint_negotiation := n\<rparr>) = artifact_ok s"
    "rest_ok pw t (s\<lparr>rr_checkpoint_negotiation := n\<rparr>) = rest_ok pw t s" for s n
    by (simp_all add: handshake_def record_ok_def phase_record_ok_def artifact_ok_def rest_ok_def)
  show "run_ok pw t (negotiate r p)"
    using assms hs rest_ok_frame [of "set_actuator r a" r pw t]
    by (simp add: negotiate_def a Let_def run_ok_def neg split: sum.splits bool.splits)
  show "rr_policy (negotiate r p) = rr_policy r"
    by (simp add: negotiate_def a Let_def split: sum.splits bool.splits)
qed

lemma poll_agrees:
  assumes "poll_checkpoint a t read = (a', res)" and "channel_agrees a m"
  shows "channel_agrees a' m"
    and "res = Ok ob \<Longrightarrow> cob_artifact ob \<noteq> None \<Longrightarrow> \<exists>e. cob_event ob = Some e \<and> is_ack e"
    and "res = Ok ob \<Longrightarrow> cob_event ob = Some e \<Longrightarrow> event_at e = t \<and> real_event e
      \<and> (\<forall>u i x. e = CheckpointAck u i x \<longrightarrow> x \<and> pm_active_request_id m = Some i)"
proof -
  have act: "channel_agrees a' m \<and> (res = Ok ob \<longrightarrow> (\<exists>b ch poll. pa_checkpoint a = Some b
      \<and> channel_poll (cb_channel b) t read = (ch, Ok poll) \<and> ob = observation_of_poll t poll))"
  proof (cases "pa_checkpoint a")
    case None
    with assms show ?thesis by (auto simp: poll_checkpoint_def)
  next
    case (Some b)
    obtain ch x where ch: "channel_poll (cb_channel b) t read = (ch, x)" by force
    with Some assms channel_poll_active(1) [OF ch] show ?thesis
      by (auto simp: poll_checkpoint_def channel_agrees_def split: sum.splits)
  qed
  then show "channel_agrees a' m" by blast
  show "\<exists>e. cob_event ob = Some e \<and> is_ack e" if "res = Ok ob" "cob_artifact ob \<noteq> None"
    using act that by (auto simp: observation_of_poll_def is_ack_def Let_def split: option.splits if_splits)
  show "event_at e = t \<and> real_event e
      \<and> (\<forall>u i x. e = CheckpointAck u i x \<longrightarrow> x \<and> pm_active_request_id m = Some i)"
    if "res = Ok ob" "cob_event ob = Some e"
  proof -
    from act that obtain b ch poll where b: "pa_checkpoint a = Some b"
      and ch: "channel_poll (cb_channel b) t read = (ch, Ok poll)" and ob: "ob = observation_of_poll t poll"
      by blast
    have "pm_active_request_id m = Some (ca_request_id k)" if "poll_acknowledgement poll = Some k" for k
      using channel_poll_active(2) [OF ch refl that] assms(2) b by (auto simp: channel_agrees_def)
    with that ob show ?thesis
      by (auto simp: observation_of_poll_def real_event_def Let_def split: option.splits if_splits)
  qed
qed

lemma poll_channel_advances:
  assumes r: "run_ok pw a r" and t: "a \<le> pi_now p" and sig: "valid_signal (re_checkpoint_signal env)"
  shows "advances pw a (pi_now p) (poll_checkpoint_channel env r p)"
proof -
  define s where "s = negotiate r p"
  have s: "run_ok pw a s" using negotiate_ok(1) [OF r] by (simp add: s_def)
  show ?thesis
  proof (cases "rr_checkpoint_negotiation s = Neg_Ready \<and> pm_state (rr_policy s) = CheckpointRequested")
    case False
    with advances_idle [OF s t] show ?thesis
      by (auto simp: poll_checkpoint_channel_def s_def [symmetric] Let_def)
  next
    case True
    obtain x res where x: "poll_checkpoint (eng_actuator (rr_engine s)) (pi_now p) (pi_read p) = (x, res)"
      by force
    have agrees: "channel_agrees (eng_actuator (rr_engine s)) (rr_policy s)"
      using s True by (simp add: run_ok_def handshake_def phase_record_ok_def)
    note polled = poll_agrees [OF x agrees]
    define u where "u = set_actuator s x"
    have u: "handshake a u" "rest_ok pw a u" "artifact_ok u"
      using s set_actuator_ok [of a s x] polled(1) rest_ok_frame [of u s pw a]
      by (auto simp: run_ok_def u_def)
    then have ok: "run_ok pw a u" by (simp add: run_ok_def)
    show ?thesis
    proof (cases res)
      case (Inl f)
      have "advances pw a (pi_now p) (run_apply env u (ActuationFailed (pi_now p) KCheckpoint f))"
        using advances_apply [OF ok, of "ActuationFailed (pi_now p) KCheckpoint f" env] t sig
        by (simp add: genuine_def real_event_def)
      with True x Inl show ?thesis
        by (simp add: poll_checkpoint_channel_def s_def [symmetric] u_def Let_def)
    next
      case (Inr ob)
      define v where "v = (case cob_artifact ob of None \<Rightarrow> u
        | Some artifact \<Rightarrow> u\<lparr>rr_checkpoint_artifact := Some (artifact_record_of artifact)\<rparr>)"
      have v: "handshake a v" "rest_ok pw a v" "rr_policy v = rr_policy s"
        and va: "artifact_ok v \<or> cob_artifact ob \<noteq> None"
        using u by (auto simp: v_def u_def handshake_def record_ok_def phase_record_ok_def rest_ok_def
            split: option.splits)
      have "advances pw a (pi_now p) (case cob_event ob of Some e \<Rightarrow> run_apply env v e | None \<Rightarrow> (v, []))"
      proof (cases "cob_event ob")
        case None
        then have "artifact_ok v" using va polled(2) Inr by auto
        with v None t show ?thesis by (simp add: advances_idle run_ok_def)
      next
        case (Some e)
        from polled(3) [OF Inr Some] True v(3)
        have "event_at e = pi_now p" "real_event e" "genuine v e"
          by (auto simp: genuine_def split: event.splits)
        moreover have "artifact_ok v \<or> is_ack e" using va polled(2) [OF Inr] Some by auto
        ultimately show ?thesis using advances_apply_early [OF v(1,2), of e env] t sig Some by simp
      qed
      with True x Inr show ?thesis
        by (simp add: poll_checkpoint_channel_def s_def [symmetric] u_def [symmetric] v_def Let_def
            split: option.splits)
    qed
  qed
qed

section \<open>One sample\<close>

text \<open>The clock readings around one sample, and advisory metrics that lie in the past.\<close>

definition sample_clock :: "dur \<Rightarrow> sample_input \<Rightarrow> bool" where
  "sample_clock a i \<longleftrightarrow> a \<le> si_started_at i \<and> si_started_at i < si_finished_at i
     \<and> si_finished_at i \<le> si_processed_at i \<and> snapshot_past (si_advisory i) (si_processed_at i)"

lemma recorded_sample:
  "record_snapshot sm started finished snap = (sm', sample) \<Longrightarrow>
   fs_started_at sample = started \<and> fs_finished_at sample = finished
   \<and> (fs_escape_observed sample \<or> it_escaped_count (sm_tracker sm') = it_escaped_count (sm_tracker sm)
      \<or> it_escaped_count (sm_tracker sm') = 0)"
  by (auto simp: record_snapshot_def tracker_update_def Let_def split_beta word_gt_0
      split: if_splits sum.splits)

lemma stretch_drop: "stretch a b es \<Longrightarrow> stretch a b (drop n es)"
  by (auto simp: stretch_def drop_map [symmetric] sorted_wrt_drop dest!: in_set_dropD)

lemma stretch_samples_push:
  assumes "stretch 0 a (map E_Sample ws)" and "stretch a b [E_Sample w]"
  shows "stretch 0 b (map E_Sample (retain_recent_sample ws w))"
  using stretch_append [OF stretch_drop [OF assms(1), of 1] assms(2)] stretch_append [OF assms]
  by (simp add: retain_recent_sample_def push_capped_def drop_map)

lemma sample_advances:
  assumes r: "run_ok pw a r" and clock: "sample_clock a i" and sig: "valid_signal (re_checkpoint_signal env)"
  shows "advances pw a (si_processed_at i) (run_sample_once env r i)"
proof -
  let ?t = "si_processed_at i"
  obtain sm sample where snap: "record_snapshot (rr_sampler r) (si_started_at i) (si_finished_at i)
      (si_snapshot i) = (sm, sample)" by force
  obtain cal w where rec: "record_sample (rr_calibration r) sample ?t (si_advisory i) = (cal, w)" by force
  note times = recorded_sample [OF snap]
  have at: "a \<le> ?t" using clock by (simp add: sample_clock_def)
  have late: "run_ok pw ?t r" by (rule run_ok_later [OF r at])
  have win: "sample_ok w \<and> growth_past (oc_growth cal) ?t"
    using recorded_window_ok [of "rr_calibration r" ?t sample "si_advisory i"] late clock times
    by (simp add: rec run_ok_def rest_ok_def sample_clock_def sample_ok_def)
  have "sw_processed_at_ms w = duration_ms ?t"
    using rec by (auto simp: record_sample_def Let_def split_beta)
  with win at duration_ms_mono [OF at] have st: "stretch a ?t [E_Sample w]"
    by (simp add: stretch_def)
  define s where "s = r\<lparr>rr_sampler := sm, rr_calibration := cal,
      rr_report_samples := retain_recent_sample (rr_report_samples r) w,
      rr_final_footprint := sw_aggregate_footprint_bytes w,
      rr_escape_detected := (rr_escape_detected r \<or> fs_escape_observed sample)\<rparr>"
  have samples: "stretch 0 ?t (map E_Sample (retain_recent_sample (rr_report_samples r) w))"
    using stretch_samples_push [OF _ st] r by (simp add: run_ok_def rest_ok_def)
  have ok: "run_ok pw ?t s"
    using late win samples times
    by (auto simp: run_ok_def s_def rest_ok_def handshake_def record_ok_def phase_record_ok_def
        artifact_ok_def)
  have ap: "advances pw ?t ?t (run_apply env s (Sample (policy_event sm sample ?t)))"
    using advances_apply [OF ok, of "Sample (policy_event sm sample ?t)" env] sig
    by (simp add: genuine_def real_event_def policy_event_def)
  have "advances pw a ?t (s, if unat (fs_sequence sample) < MAX_SAMPLE_HISTORY_CAPACITY
      then [Wrote (E_Sample w) Buffered] else [])"
    using ok st at by (simp add: advances_def)
  from advances_seq [OF this, of ?t] ap show ?thesis
    by (auto simp: run_sample_once_def snap rec s_def [symmetric] Let_def split: prod.splits)
qed

section \<open>The steps of one iteration\<close>

lemma advances_late: "advances pw a b x \<Longrightarrow> b \<le> c \<Longrightarrow> advances pw a c x"
  using run_ok_later stretch_append [of a b _ c "[]"] by (fastforce simp: advances_def)

lemma advances_early: "advances pw b c x \<Longrightarrow> a \<le> b \<Longrightarrow> advances pw a c x"
  using stretch_append [of a b "[]" c] by (fastforce simp: advances_def)

text \<open>Fields that the handshake does not look at.\<close>

lemma handshake_untouched [simp]:
  "handshake t (r\<lparr>rr_retained_outcome := x1\<rparr>) = handshake t r"
  "handshake t (r\<lparr>rr_root_outcome := x2\<rparr>) = handshake t r"
  "handshake t (r\<lparr>rr_parent_watch := x3\<rparr>) = handshake t r"
  "handshake t (r\<lparr>rr_root_exit_applied := x4\<rparr>) = handshake t r"
  by (simp_all add: handshake_def record_ok_def phase_record_ok_def)

lemma artifact_untouched [simp]:
  "artifact_ok (r\<lparr>rr_retained_outcome := x1\<rparr>) = artifact_ok r"
  "artifact_ok (r\<lparr>rr_root_outcome := x2\<rparr>) = artifact_ok r"
  "artifact_ok (r\<lparr>rr_parent_watch := x3\<rparr>) = artifact_ok r"
  "artifact_ok (r\<lparr>rr_root_exit_applied := x4\<rparr>) = artifact_ok r"
  by (simp_all add: artifact_ok_def)

lemma watch_parent_advances:
  assumes r: "run_ok pw a r" and t: "a \<le> li_parent_now i" and sig: "valid_signal (re_checkpoint_signal env)"
  shows "advances pw a (li_parent_now i) (watch_parent env r i)"
proof -
  let ?t = "li_parent_now i"
  obtain w x where w: "parent_has_exited (rr_parent_watch r) (li_ppid i) (li_parent_exited i) ?t = (w, x)"
    by force
  have ok: "run_ok pw ?t (r\<lparr>rr_parent_watch := w\<rparr>)"
    using run_ok_later [OF r t] w
    by (auto simp: run_ok_def rest_ok_def parent_has_exited_def split: if_splits option.splits)
  have "advances pw ?t ?t (run_apply env (r\<lparr>rr_parent_watch := w\<rparr>) (ParentExited ?t))"
    using advances_apply [OF ok, of "ParentExited ?t" env] sig by (simp add: genuine_def real_event_def)
  with advances_early [OF _ t] advances_idle [OF ok order_refl] show ?thesis
    by (simp add: watch_parent_def w Let_def)
qed

lemma clean_up_advances:
  assumes r: "run_ok pw a r" and t: "a \<le> pi_now (li_drain i)" "pi_now (li_drain i) \<le> li_root_exit_at i"
    and sig: "valid_signal (re_checkpoint_signal env)"
  shows "advances pw a (li_root_exit_at i) (clean_up_survivors env r i)"
proof (cases "rr_root_outcome r \<noteq> None \<and> \<not> rr_root_exit_applied r")
  case True
  have ok: "run_ok pw a (r\<lparr>rr_root_exit_applied := True\<rparr>)"
    using r by (simp add: run_ok_def rest_ok_def)
  obtain s fx1 where s: "poll_checkpoint_channel env (r\<lparr>rr_root_exit_applied := True\<rparr>) (li_drain i) = (s, fx1)"
    by force
  note one = poll_channel_advances [OF ok t(1) sig, unfolded s]
  then have "run_ok pw (pi_now (li_drain i)) s" by (simp add: advances_def)
  from advances_apply [OF this, of "RootExited (li_root_exit_at i)" env] t(2) sig
  have two: "advances pw (pi_now (li_drain i)) (li_root_exit_at i)
      (run_apply env s (RootExited (li_root_exit_at i)))"
    by (simp add: genuine_def real_event_def)
  obtain u fx2 where u: "run_apply env s (RootExited (li_root_exit_at i)) = (u, fx2)" by force
  show ?thesis
    using advances_seq [OF one two [unfolded u]] True by (simp add: clean_up_survivors_def s u)
next
  case False
  with advances_idle [OF r] t show ?thesis by (auto simp: clean_up_survivors_def)
qed

lemma forward_advances:
  assumes "run_ok pw a r" and "sorted (a # map fst sg @ [b])" and "\<forall>(t, s)\<in>set sg. valid_signal s"
    and sig: "valid_signal (re_checkpoint_signal env)"
  shows "advances pw a b (forward_signals env r sg)"
  using assms(1-3)
proof (induction sg arbitrary: a r)
  case Nil
  then show ?case by (simp add: forward_signals_def advances_idle)
next
  case (Cons x sg)
  obtain t s where x: "x = (t, s)" by force
  obtain u fx1 where u: "run_apply env r (ExternalSignal t s) = (u, fx1)" by force
  have one: "advances pw a t (u, fx1)"
    using advances_apply [OF Cons.prems(1), of "ExternalSignal t s" env] Cons.prems(2,3) sig
    by (simp add: x u genuine_def real_event_def)
  then have "run_ok pw t u" by (simp add: advances_def)
  from Cons.IH [OF this] Cons.prems(2,3)
  have two: "advances pw t b (forward_signals env u sg)" by (auto simp: x)
  obtain v fx2 where v: "forward_signals env u sg = (v, fx2)" by force
  from advances_seq [OF one two [unfolded v]] v show ?case
    by (simp add: x u forward_signals_def)
qed

lemma sample_and_tick_advances:
  assumes r: "run_ok pw a r" and clock: "sample_clock a (li_sample i)"
    and t: "si_processed_at (li_sample i) \<le> li_tick_at i"
    and sig: "valid_signal (re_checkpoint_signal env)"
  shows "advances pw a (li_tick_at i) (sample_and_tick env r i)"
proof -
  obtain s fx1 where s: "run_sample_once env r (li_sample i) = (s, fx1)" by force
  note one = sample_advances [OF r clock sig, unfolded s]
  then have "run_ok pw (si_processed_at (li_sample i)) s" by (simp add: advances_def)
  from advances_apply [OF this, of "Tick (li_tick_at i)" env] t sig
  have two: "advances pw (si_processed_at (li_sample i)) (li_tick_at i) (run_apply env s (Tick (li_tick_at i)))"
    by (simp add: genuine_def real_event_def)
  obtain u fx2 where u: "run_apply env s (Tick (li_tick_at i)) = (u, fx2)" by force
  show ?thesis using advances_seq [OF one two [unfolded u]] by (simp add: sample_and_tick_def s u)
qed

definition early_clock :: "dur \<Rightarrow> loop_input \<Rightarrow> bool" where
  "early_clock a i \<longleftrightarrow>
     sorted [a, li_parent_now i, pi_now (li_drain i), li_root_exit_at i, pi_now (li_poll i)]"

lemma before_signals_advances:
  assumes r: "run_ok pw a r" and clock: "early_clock a i" and sig: "valid_signal (re_checkpoint_signal env)"
  shows "advances pw a (pi_now (li_poll i)) (before_signals env r i group_exists)"
proof -
  obtain s fx1 where s: "watch_parent env r i = (s, fx1)" by force
  have one: "advances pw a (li_parent_now i) (s, fx1)"
    using watch_parent_advances [OF r _ sig, of i] clock by (simp add: early_clock_def s)
  then have ok: "run_ok pw (li_parent_now i) s" by (simp add: advances_def)
  obtain u fx2 where u: "(if group_exists then clean_up_survivors env s i else (s, [])) = (u, fx2)" by force
  have two: "advances pw (li_parent_now i) (li_root_exit_at i) (u, fx2)"
    using clean_up_advances [OF ok _ _ sig, of i] advances_idle [OF ok, of "li_root_exit_at i"] clock u
    by (auto simp: early_clock_def split: if_splits)
  then have ok: "run_ok pw (li_root_exit_at i) u" by (simp add: advances_def)
  obtain v fx3 where v: "poll_checkpoint_channel env u (li_poll i) = (v, fx3)" by force
  have three: "advances pw (li_root_exit_at i) (pi_now (li_poll i)) (v, fx3)"
    using poll_channel_advances [OF ok _ sig, of "li_poll i"] clock by (simp add: early_clock_def v)
  show ?thesis
    using advances_seq [OF one advances_seq [OF two three]] u
    by (simp add: before_signals_def s v)
qed

section \<open>The loop\<close>

lemma real_status: "root_outcome_from_status st = Ok x \<Longrightarrow> real_root_outcome (Some x)"
  by (auto simp: root_outcome_from_status_def real_root_outcome_def signal_new_Some
      valid_signal_iff word_le_nat_alt unat_gt_0 Suc_le_eq split: option.splits if_splits bind_splits)

lemma wait_for_root_ok:
  assumes "run_ok pw a r" and "wait_for_root r waited = (r', res)"
  shows "run_ok pw a r'" and "res = Ok root \<Longrightarrow> root = rr_root_outcome r'"
  using assms real_status
  by (auto simp: wait_for_root_def try_wait_root_def Let_def run_ok_def rest_ok_def
      split: if_splits option.splits sum.splits)

text \<open>All clock readings of one iteration, and of the wait after a failure, in order and before \<open>b\<close>.\<close>

definition iteration_clock :: "dur \<Rightarrow> dur \<Rightarrow> loop_input \<Rightarrow> bool" where
  "iteration_clock a b i \<longleftrightarrow> early_clock a i
     \<and> (case li_signals i of
          Inl _ \<Rightarrow> pi_now (li_poll i) \<le> li_fault_at i
        | Inr sg \<Rightarrow> sorted (pi_now (li_poll i) # map fst sg @ [si_started_at (li_sample i)])
            \<and> (\<forall>(t, s)\<in>set sg. valid_signal s)
            \<and> sample_clock (si_started_at (li_sample i)) (li_sample i)
            \<and> si_processed_at (li_sample i) \<le> li_tick_at i)
     \<and> a \<le> li_fault_at i \<and> li_fault_at i \<le> b
     \<and> (\<forall>x\<in>set (li_fault_readings i). li_fault_at i \<le> x \<and> x \<le> b)"

fun clocked :: "dur \<Rightarrow> dur \<Rightarrow> loop_input list \<Rightarrow> bool" where
  "clocked a b [] \<longleftrightarrow> a \<le> b"
| "clocked a b (i # is) \<longleftrightarrow> a \<le> b \<and> iteration_clock a b i \<and> clocked (li_tick_at i) b is"

lemma fail_supervisor_advances:
  assumes r: "run_ok pw a r" and t: "a \<le> fault_at" "fault_at \<le> b" "\<forall>x\<in>set readings. fault_at \<le> x \<and> x \<le> b"
    and sig: "valid_signal (re_checkpoint_signal env)"
    and run: "fail_supervisor env r fault_at readings d = Some (r', fx, c)"
  shows "advances pw a b (r', fx) \<and> c = Completed_SupervisorFailure d"
proof -
  obtain s fx1 where s: "run_apply env r (SupervisorFault fault_at) = (s, fx1)" by force
  have one: "advances pw a fault_at (s, fx1)"
    using advances_apply [OF r, of "SupervisorFault fault_at" env] t(1) sig
    by (simp add: s genuine_def real_event_def)
  show ?thesis
  proof (cases "next_deadline (rr_policy s)")
    case None
    with run s advances_late [OF one t(2)] show ?thesis by (simp add: fail_supervisor_def)
  next
    case (Some deadline)
    with run obtain now where find: "List.find (\<lambda>now. deadline \<le> now) readings = Some now"
      by (auto simp: fail_supervisor_def s split: option.splits)
    then have now: "fault_at \<le> now" "now \<le> b"
      using t(3) by (auto simp: find_Some_iff)
    obtain u fx2 where u: "run_apply env s (Tick now) = (u, fx2)" by force
    have "run_ok pw fault_at s" using one by (simp add: advances_def)
    from advances_apply [OF this, of "Tick now" env] now sig
    have "advances pw fault_at now (u, fx2)" by (simp add: u genuine_def real_event_def)
    from advances_late [OF advances_seq [OF one this] now(2)] run s Some find u
    show ?thesis by (simp add: fail_supervisor_def)
  qed
qed

abbreviation failing where
  "failing env i r fx d \<equiv> map_option (\<lambda>(r, fx2, c). (r, fx @ fx2, Some c))
     (fail_supervisor env r (li_fault_at i) (li_fault_readings i) d)"

lemma failing_advances:
  assumes one: "advances pw a c (u, fx1)" and t: "c \<le> li_fault_at i" "li_fault_at i \<le> b"
      "\<forall>x\<in>set (li_fault_readings i). li_fault_at i \<le> x \<and> x \<le> b"
    and sig: "valid_signal (re_checkpoint_signal env)"
    and run: "failing env i u fx1 d = Some (r', fx, res)"
  shows "advances pw a b (r', fx) \<and> res = Some (Completed_SupervisorFailure d)"
proof -
  from run obtain fx2 c' where f: "fail_supervisor env u (li_fault_at i) (li_fault_readings i) d
      = Some (r', fx2, c')" and eq: "fx = fx1 @ fx2" "res = Some c'" by auto
  have "run_ok pw c u" using one by (simp add: advances_def)
  from fail_supervisor_advances [OF this t sig f] advances_seq [OF one] eq show ?thesis by auto
qed

text \<open>The part of an iteration after the checks that can end the run.\<close>

lemma supervised_iteration:
  assumes r: "run_ok pw a s" and clock: "iteration_clock a b i" and sig: "valid_signal (re_checkpoint_signal env)"
    and u: "before_signals env s i group_exists = (u, fx1)"
    and run: "Some (r', fx, res) = (case li_signals i of
        Inl kind \<Rightarrow> failing env i u fx1 (control_error_text kind)
      | Inr signals \<Rightarrow>
          (let (r, fx2) = forward_signals env u signals; (r, fx3) = sample_and_tick env r i
           in Some (r, fx1 @ fx2 @ fx3, None)))"
  shows "advances pw a (if res = None then li_tick_at i else b) (r', fx)
    \<and> (\<forall>root. res \<noteq> Some (Completed_Root root))"
proof -
  have early: "early_clock a i" using clock by (simp add: iteration_clock_def)
  note one = before_signals_advances [OF r early sig, of group_exists, unfolded u]
  show ?thesis
  proof (cases "li_signals i")
    case (Inl kind)
    with clock have t: "pi_now (li_poll i) \<le> li_fault_at i" "li_fault_at i \<le> b"
      "\<forall>x\<in>set (li_fault_readings i). li_fault_at i \<le> x \<and> x \<le> b" by (simp_all add: iteration_clock_def)
    from run Inl have "failing env i u fx1 (control_error_text kind) = Some (r', fx, res)" by simp
    from failing_advances [OF one t sig this] show ?thesis by simp
  next
    case (Inr sg)
    with clock have sc: "sorted (pi_now (li_poll i) # map fst sg @ [si_started_at (li_sample i)])"
      "\<forall>(t, s)\<in>set sg. valid_signal s" "sample_clock (si_started_at (li_sample i)) (li_sample i)"
      "si_processed_at (li_sample i) \<le> li_tick_at i" by (simp_all add: iteration_clock_def)
    obtain v fx2 where v: "forward_signals env u sg = (v, fx2)" by force
    obtain x fx3 where x: "sample_and_tick env v i = (x, fx3)" by force
    have "run_ok pw (pi_now (li_poll i)) u" using one by (simp add: advances_def)
    note two = forward_advances [OF this sc(1,2) sig, unfolded v]
    then have "run_ok pw (si_started_at (li_sample i)) v" by (simp add: advances_def)
    note three = sample_and_tick_advances [OF this sc(3,4) sig, unfolded x]
    from advances_seq [OF one advances_seq [OF two three]] run Inr v x show ?thesis by simp
  qed
qed

lemma run_iteration_advances:
  assumes r: "run_ok pw a r" and clock: "iteration_clock a b i" and ab: "a \<le> b"
    and sig: "valid_signal (re_checkpoint_signal env)"
    and run: "run_iteration env r i = Some (r', fx, res)"
  shows "advances pw a (if res = None then li_tick_at i else b) (r', fx)
    \<and> (\<forall>root. res = Some (Completed_Root root) \<longrightarrow> rr_root_outcome r' = Some root)"
proof -
  obtain s w where s: "wait_for_root r (li_waited i) = (s, w)" by force
  note ok = wait_for_root_ok [OF r s]
  note idle = advances_idle [OF ok(1) order_refl]
  from clock have t: "a \<le> li_fault_at i" "li_fault_at i \<le> b"
    "\<forall>x\<in>set (li_fault_readings i). li_fault_at i \<le> x \<and> x \<le> b" by (simp_all add: iteration_clock_def)
  note fails = failing_advances [OF idle t sig]
  show ?thesis
  proof (cases w)
    case (Inl kind)
    with run have "failing env i s [] (control_error_text kind) = Some (r', fx, res)"
      by (simp add: run_iteration_def s)
    from fails [OF this] show ?thesis by simp
  next
    case wait: (Inr root)
    then have root: "root = rr_root_outcome s" using ok(2) by blast
    show ?thesis
    proof (cases "owned_group_exists (li_kill i) (rr_process_group s)")
      case (Inl kind)
      with run wait have "failing env i s [] (control_error_text kind) = Some (r', fx, res)"
        by (simp add: run_iteration_def s)
      from fails [OF this] show ?thesis by simp
    next
      case group: (Inr group_exists)
      obtain u fx1 where u: "before_signals env s i group_exists = (u, fx1)" by force
      show ?thesis
      proof (cases "root \<noteq> None \<and> \<not> group_exists")
        case True
        with run wait group advances_idle [OF ok(1) ab] root show ?thesis
          by (auto simp: run_iteration_def s Let_def)
      next
        case False
        with run wait group u have "Some (r', fx, res) = (case li_signals i of
            Inl kind \<Rightarrow> failing env i u fx1 (control_error_text kind)
          | Inr signals \<Rightarrow>
              (let (r, fx2) = forward_signals env u signals; (r, fx3) = sample_and_tick env r i
               in Some (r, fx1 @ fx2 @ fx3, None)))"
          by (cases root; cases group_exists) (simp_all add: run_iteration_def s)
        from supervised_iteration [OF ok(1) clock sig u this] show ?thesis by simp
      qed
    qed
  qed
qed

lemma sample_until_exit_advances:
  assumes "run_ok pw a r" and "clocked a b is" and sig: "valid_signal (re_checkpoint_signal env)"
    and "sample_until_exit env r is = Some (r', fx, c)"
  shows "advances pw a b (r', fx) \<and> (\<forall>root. c = Completed_Root root \<longrightarrow> rr_root_outcome r' = Some root)"
  using assms(1,2,4)
proof (induction "is" arbitrary: a r fx)
  case (Cons i "is")
  from Cons.prems(3) obtain s fx1 res where one: "run_iteration env r i = Some (s, fx1, res)"
    by (auto split: option.splits)
  have clock: "iteration_clock a b i" "a \<le> b" "clocked (li_tick_at i) b is" using Cons.prems(2) by simp_all
  note step = run_iteration_advances [OF Cons.prems(1) clock(1,2) sig one]
  show ?case
  proof (cases res)
    case (Some fin)
    with Cons.prems(3) one step show ?thesis by simp
  next
    case None
    with Cons.prems(3) one obtain fx2 where rest: "sample_until_exit env s is = Some (r', fx2, c)"
      and fx: "fx = fx1 @ fx2" by auto
    have "run_ok pw (li_tick_at i) s" using step None by (simp add: advances_def)
    from Cons.IH [OF this clock(3) rest] step None fx advances_seq show ?thesis by auto
  qed
qed simp

end
