(* ===== verification/Run_Report.thy ===== *)
theory Run_Report
  imports Run_Loop Report_Props
begin

text \<open>
  From the effects of a finished run to its report: the journal keeps every entry that was written,
  replaying them rebuilds the report, and the report passes its own validation.
\<close>

section \<open>Journals that keep what they accept\<close>

locale journal_appender =
  fixes append_record :: "'j appender" and held :: "'j \<Rightarrow> journal_record list \<Rightarrow> bool"
  assumes appended: "held j rs \<Longrightarrow> Suc (length rs) < 2 ^ 64 \<Longrightarrow>
    append_record j r d = (j', Ok x) \<Longrightarrow> held j' (rs @ [r])"
begin

lemma persisted_step:
  assumes "journal_effect append_record (rj, n) x = (rj', n')" and "rj_journal rj' = Some j'"
  obtains j where "rj_journal rj = Some j"
    and "held j rs \<Longrightarrow> Suc (length rs) < 2 ^ 64 \<Longrightarrow>
      \<exists>rs'. held j' (rs @ rs') \<and> map jr_entry rs' = entries_of [x]"
proof (cases x)
  case (Wrote entry d)
  show thesis
  proof (cases "rj_journal rj")
    case None
    with assms Wrote show thesis
      by (auto simp: journal_effect_def record_resilient_def resilient_record_def Let_def)
  next
    case (Some j)
    obtain k res where ap: "append_record j (journal_record_new n entry) d = (k, res)" by force
    have "res = Ok () \<and> k = j'"
      using assms Wrote Some ap
      by (cases res) (auto simp: journal_effect_def record_resilient_def resilient_record_def Let_def)
    with ap have "held j' (rs @ [journal_record_new n entry])"
      if "held j rs" "Suc (length rs) < 2 ^ 64" using appended that by blast
    then have "\<exists>rs'. held j' (rs @ rs') \<and> map jr_entry rs' = entries_of [x]"
      if "held j rs" "Suc (length rs) < 2 ^ 64" using that Wrote
      by (intro exI [of _ "[journal_record_new n entry]"]) (simp add: journal_record_new_def)
    with Some that show thesis by blast
  qed
next
  case (Actuated t act res)
  with assms show thesis by (intro that [of j']) (auto simp: journal_effect_def)
qed

text \<open>A journal that is still there at the end of a run holds everything the run wrote.\<close>

lemma persisted_effects:
  assumes "journal_effects append_record (rj, n) fx = (rj', n')" and "rj_journal rj' = Some j'"
    and "rj_journal rj = Some j" and "held j rs" and "length rs + length (entries_of fx) < 2 ^ 64"
  shows "\<exists>rs'. held j' (rs @ rs') \<and> map jr_entry rs' = entries_of fx"
proof -
  have "\<exists>j. rj_journal rj = Some j \<and> (\<forall>rs. held j rs \<longrightarrow> length rs + length (entries_of fx) < 2 ^ 64 \<longrightarrow>
      (\<exists>rs'. held j' (rs @ rs') \<and> map jr_entry rs' = entries_of fx))"
    using assms(1,2)
  proof (induction fx arbitrary: rj n)
    case Nil
    then show ?case by (simp add: journal_effects_def)
  next
    case (Cons x fx)
    obtain s m where s: "journal_effect append_record (rj, n) x = (s, m)" by force
    from Cons.prems(1) s have "journal_effects append_record (s, m) fx = (rj', n')"
      by (simp add: journal_effects_def)
    from Cons.IH [OF this Cons.prems(2)] obtain k where k: "rj_journal s = Some k"
      and ih: "\<And>rs. held k rs \<Longrightarrow> length rs + length (entries_of fx) < 2 ^ 64 \<Longrightarrow>
        \<exists>rs'. held j' (rs @ rs') \<and> map jr_entry rs' = entries_of fx" by blast
    have entries: "entries_of (x # fx) = entries_of [x] @ entries_of fx" by (cases x) simp_all
    have "\<exists>j. rj_journal rj = Some j" by (rule persisted_step [OF s k]) blast
    then obtain j where j: "rj_journal rj = Some j" by blast
    have "\<exists>rs'. held j' (rs @ rs') \<and> map jr_entry rs' = entries_of (x # fx)"
      if held: "held j rs" and len: "length rs + length (entries_of (x # fx)) < 2 ^ 64" for rs
    proof (cases "entries_of [x]")
      case Nil
      with s j k have "k = j" by (cases x) (simp_all add: journal_effect_def)
      with ih [of rs] held len entries Nil show ?thesis by simp
    next
      case (Cons e es)
      then have "Suc (length rs) < 2 ^ 64" using len entries by simp
      from persisted_step [OF s k, of rs] j held this
      obtain r1 where r1: "held k (rs @ r1)" "map jr_entry r1 = entries_of [x]" by (metis option.inject)
      then have "length r1 = length (entries_of [x])" by (metis length_map)
      with ih [OF r1(1)] len entries obtain r2 where "held j' ((rs @ r1) @ r2)" "map jr_entry r2 = entries_of fx"
        by auto
      with r1(2) entries show ?thesis by (intro exI [of _ "r1 @ r2"]) simp
    qed
    with j show ?case by blast
  qed
  with assms(3-5) show ?thesis by auto
qed

end

text \<open>The journal file, with the outcome of the writes of each record.\<close>

definition disk_append ::
    "(journal_record \<Rightarrow> bytes option) \<Rightarrow> (nat \<Rightarrow> append_io) \<Rightarrow> secure_journal appender" where
  "disk_append to_vec io j r d = journal_append to_vec (io (unat (sj_next_sequence j))) j r d"

interpretation disk: journal_appender "disk_append to_vec io" "holds to_vec" for to_vec io
  by unfold_locales (auto simp: disk_append_def dest: append_held)

section \<open>Replaying a run\<close>

definition samples_in :: "journal_entry list \<Rightarrow> sample_window list" where
  "samples_in = List.map_filter (\<lambda>e. case e of E_Sample w \<Rightarrow> Some w | _ \<Rightarrow> None)"

definition transitions_in :: "journal_entry list \<Rightarrow> transition_record list" where
  "transitions_in = List.map_filter (\<lambda>e. case e of E_Transition v \<Rightarrow> Some v | _ \<Rightarrow> None)"

definition signals_in :: "journal_entry list \<Rightarrow> signal_record list" where
  "signals_in = List.map_filter (\<lambda>e. case e of E_Signal v \<Rightarrow> Some v | _ \<Rightarrow> None)"

lemmas entries_in_defs = samples_in_def transitions_in_def signals_in_def List.map_filter_def

lemma replay_running:
  "list_all entry_ok es \<Longrightarrow> Journal.replay n i s es =
     Some (s\<lparr>rp_samples := rp_samples s @ samples_in es,
       rp_transitions := rp_transitions s @ transitions_in es,
       rp_signals := rp_signals s @ signals_in es\<rparr>)"
proof (induction es arbitrary: i s)
  case (Cons e es)
  then show ?case by (cases e) (simp_all add: replay_entry_def entries_in_defs)
qed (simp add: entries_in_defs)

lemma set_map_filter: "x \<in> set (List.map_filter f es) \<longleftrightarrow> (\<exists>e\<in>set es. f e = Some x)"
  by (induction es) (auto simp: List.map_filter_def)

lemma sorted_map_filter:
  assumes "sorted (map k es)" and "\<And>e v. f e = Some v \<Longrightarrow> g v = k e"
  shows "sorted (map g (List.map_filter f es))"
  using assms(1)
proof (induction es)
  case (Cons e es)
  then show ?case
    using assms(2) by (cases "f e") (auto simp: List.map_filter_simps set_map_filter)
qed (simp add: List.map_filter_simps)

lemma sorted_entries_in:
  assumes "sorted (map entry_at es)"
  shows "sorted (map sw_processed_at_ms (samples_in es))" "sorted (map tr_at_ms (transitions_in es))"
    "sorted (map sr_at_ms (signals_in es))"
  unfolding samples_in_def transitions_in_def signals_in_def
  by (rule sorted_map_filter [OF assms], simp split: journal_entry.splits)+

lemma entry_cases [simp]:
  "(case e of E_Sample w \<Rightarrow> Some w | _ \<Rightarrow> None) = Some w' \<longleftrightarrow> e = E_Sample w'"
  "(case e of E_Transition v \<Rightarrow> Some v | _ \<Rightarrow> None) = Some v' \<longleftrightarrow> e = E_Transition v'"
  "(case e of E_Signal u \<Rightarrow> Some u | _ \<Rightarrow> None) = Some u' \<longleftrightarrow> e = E_Signal u'"
  by (cases e; simp)+

lemma entries_in_set [simp]:
  "w \<in> set (samples_in es) \<longleftrightarrow> E_Sample w \<in> set es"
  "v \<in> set (transitions_in es) \<longleftrightarrow> E_Transition v \<in> set es"
  "u \<in> set (signals_in es) \<longleftrightarrow> E_Signal u \<in> set es"
  by (simp_all add: samples_in_def transitions_in_def signals_in_def set_map_filter)

section \<open>The end of a run\<close>

definition checkpoint_of :: "run_runtime \<Rightarrow> checkpoint_record" where
  "checkpoint_of r =
    \<lparr>ck_status = rr_checkpoint_status r, ck_at_ms = rr_checkpoint_at_ms r,
     ck_request_id = rr_checkpoint_request_id r, ck_reason = rr_checkpoint_reason r,
     ck_artifact = rr_checkpoint_artifact r\<rparr>"

text \<open>Whether the first samples are still in the sampler's history: then no history is rewritten.\<close>

definition complete_history :: "run_runtime \<Rightarrow> bool" where
  "complete_history r \<longleftrightarrow> (case sm_history (rr_sampler r) of [] \<Rightarrow> True | s # _ \<Rightarrow> fs_sequence s = 0)"

text \<open>The report of a run: its header, what it wrote while it was going on, and its end.\<close>

definition report_of ::
    "journal_header \<Rightarrow> journal_entry list \<Rightarrow> run_runtime \<Rightarrow> terminal_outcome \<Rightarrow> report_v1" where
  "report_of h es r out =
    \<lparr>rep_schema_version = jh_schema_version h, rep_package_version = jh_package_version h,
     rep_run = jh_run h, rep_capabilities = jh_capabilities h,
     rep_configuration = jh_configuration h,
     rep_samples = (if complete_history r then samples_in es else rr_report_samples r),
     rep_transitions = transitions_in es, rep_signals = signals_in es,
     rep_checkpoint = checkpoint_of r, rep_escape = escape_of (rr_escape_detected r) (rr_sampler r),
     rep_artifact_errors = [], rep_outcome = out, rep_calibration = None, rep_privacy = jh_privacy h\<rparr>"

definition final_entries :: "run_runtime \<Rightarrow> terminal_outcome \<Rightarrow> journal_entry list" where
  "final_entries r out =
     (if complete_history r then [] else E_SampleHistoryReset # map E_Sample (rr_report_samples r))
     @ [E_Checkpoint (checkpoint_of r), E_Escape (escape_of (rr_escape_detected r) (rr_sampler r)),
        E_Outcome out]"

lemma entries_of_buffered: "entries_of (map (\<lambda>w. Wrote (E_Sample w) Buffered) ws) = map E_Sample ws"
  by (induction ws) simp_all

lemma entries_of_terminal: "entries_of (run_record_terminal r out) = final_entries r out"
  by (cases "sm_history (rr_sampler r)")
    (auto simp: run_record_terminal_def recent_sample_history_def final_entries_def checkpoint_of_def
      complete_history_def entries_of_buffered)

lemma replay_run:
  assumes "list_all entry_ok es" and "n = Suc (length (es @ final_entries r out))"
  shows "\<exists>s. Journal.replay n 0 replay_start (E_Header h # es @ final_entries r out) = Some s
    \<and> assemble s = Some (report_of h es r out)"
  using assms
  by (cases "complete_history r")
    (simp_all add: final_entries_def replay_split replay_running replay_lists replay_entry_def replay_start_def
      assemble_def report_of_def)

lemma end_run_ok:
  assumes r: "run_ok pw a r" and t: "a \<le> b" and sig: "valid_signal (re_checkpoint_signal env)"
    and run: "end_run env r completion b = (r', fx, e)"
  obtains fx1 where "entries_of fx = entries_of fx1 @ final_entries r' (re_terminal e)"
    and "advances pw a b (r', fx1)" and "outcome_valid (re_terminal e)"
    and "to_at_ms (re_terminal e) = duration_ms b"
    and "to_parent_exited_at_ms (re_terminal e) = pw_exited_at_ms (rr_parent_watch r')"
proof -
  define ev where "ev = ProcessExited b (observed_value (rr_final_footprint r))"
  obtain s fx1 failure where s: "(s, fx1, failure) = (case completion of
      Completed_Root _ \<Rightarrow> (let (r, fx) = run_apply env r ev in (r, fx, None))
    | Completed_SupervisorFailure diagnostic \<Rightarrow> (r, [], Some diagnostic))" by (metis prod_cases3)
  have "advances pw a b (run_apply env r ev)"
    using advances_apply [OF r, of ev env] t sig by (simp add: ev_def genuine_def real_event_def)
  with s advances_idle [OF r t] have adv: "advances pw a b (s, fx1)"
    by (auto split: run_completion.splits prod.splits)
  define inputs where "inputs = \<lparr>ci_root_outcome = rr_root_outcome s,
      ci_intervention_started = rr_intervention_started s,
      ci_supervisor_error = rr_supervisor_error s, ci_supervisor_failure = failure\<rparr>"
  have res: "r' = s" "fx = fx1 @ run_record_terminal s (re_terminal e)"
    "re_terminal e = terminal_of s b (complete inputs)"
    using run s by (auto simp: end_run_def ev_def inputs_def Let_def split: run_completion.splits prod.splits)
  from adv have ok: "rest_ok pw b s" by (simp add: advances_def run_ok_def)
  then have "outcome_valid (re_terminal e)"
    by (intro complete_outcome_valid [where inputs = inputs])
      (auto simp: res(3) terminal_of_def inputs_def rest_ok_def split: option.splits)
  with res adv show thesis
    by (intro that [of fx1]) (simp_all add: entries_of_terminal terminal_of_def)
qed

lemma checkpoint_of_valid:
  assumes "record_ok t r" and "artifact_ok r"
  shows "checkpoint_record_valid (checkpoint_of r)"
  using assms
  by (cases "rr_checkpoint_status r"; cases "rr_checkpoint_request_id r"; cases "rr_checkpoint_reason r")
    (simp_all add: record_ok_def artifact_ok_def checkpoint_record_valid_def checkpoint_of_def cause_ok_def)

lemma report_events_valid:
  assumes r: "run_ok pw b r" and es: "stretch a b es"
    and out: "to_at_ms out = duration_ms b" "outcome_valid out"
  shows "validate_events (report_of h es r out) = Ok ()"
proof -
  have es': "sorted (map entry_at es)" "\<And>e. e \<in> set es \<Longrightarrow> entry_ok e \<and> entry_at e \<le> duration_ms b"
    using es by (auto simp: stretch_def)
  have ok: "sorted (map sw_processed_at_ms (rr_report_samples r))
    \<and> (\<forall>w\<in>set (rr_report_samples r). sample_ok w \<and> sw_processed_at_ms w \<le> duration_ms b)"
    using r by (simp add: run_ok_def rest_ok_def stretch_def comp_def)
  have samples: "sorted (map sw_processed_at_ms (rep_samples (report_of h es r out)))
    \<and> (\<forall>w\<in>set (rep_samples (report_of h es r out)). sample_ok w \<and> sw_processed_at_ms w \<le> duration_ms b)"
  proof (cases "complete_history r")
    case True
    have "sample_ok w \<and> sw_processed_at_ms w \<le> duration_ms b" if "w \<in> set (samples_in es)" for w
      using es'(2) [of "E_Sample w"] that by simp
    with sorted_entries_in(1) [OF es'(1)] True show ?thesis by (simp add: report_of_def)
  next
    case False
    with ok show ?thesis by (simp add: report_of_def)
  qed
  have transitions: "tr_from v \<noteq> tr_to v \<and> tr_at_ms v \<le> duration_ms b" if "E_Transition v \<in> set es" for v
    using es'(2) [OF that] by simp
  have signals: "signal_in_range (sr_signal u) \<and> sr_at_ms u \<le> duration_ms b" if "E_Signal u \<in> set es" for u
    using es'(2) [OF that] by simp
  have "escape_valid (escape_of (rr_escape_detected r) (rr_sampler r))"
    using r by (simp add: run_ok_def rest_ok_def escape_valid_def escape_of_def Let_def)
  moreover have "record_ok b r" "artifact_ok r" using r by (simp_all add: run_ok_def handshake_def)
  then have "checkpoint_record_valid (checkpoint_of r)"
    and "case ck_at_ms (checkpoint_of r) of None \<Rightarrow> True | Some x \<Rightarrow> x \<le> duration_ms b"
    using checkpoint_of_valid [of b r] by (auto simp: record_ok_def checkpoint_of_def split: option.splits)
  ultimately show ?thesis
    using samples sorted_entries_in(2,3) [OF es'(1)] transitions signals out
    by (auto simp: validate_events_Ok_iff list_all_iff event_times_def report_of_def sample_ok_def
        split: option.splits)
qed

end
