(* ===== verification/Runtime_Props.thy ===== *)
theory Runtime_Props
  imports Run_Report
begin

text \<open>
  What an enforcing run guarantees as a whole: its journal always becomes a valid report of what it
  did, as long as the storage keeps what was written and the clock does not run backwards.
\<close>

section \<open>From the start to the report\<close>

lemma run_start_ok:
  assumes "enforce_with_initial_request_id policy_config rid = Ok policy"
    and "identity_tracker_new root pgid = Ok tracker"
    and "pw_exited_at_ms watch = None" and "real_root_outcome retained"
  shows "run_ok watch 0 (run_start options config policy tracker retained actuator watch)"
proof -
  have start: "pm_state policy = Normal" "pm_mode policy = EnforceMode" "pm_last_event_at policy = None"
    "pm_next_request_id policy \<noteq> 0" "pm_config policy = policy_config" "valid_config policy_config"
    "\<not> pm_intervention_started policy" "pm_term_deadline policy = None"
    using assms(1) by (auto simp: enforce_with_initial_request_id_def split: if_splits)
  have track: "it_escaped_count tracker = 0"
    using assms(2) by (auto simp: identity_tracker_new_def split: if_splits)
  have "evidence_of evidence_default []"
    by (simp add: evidence_of_def evidence_default_def recorded_def)
  with start track assms(3,4) show ?thesis
    by (auto simp: run_ok_def handshake_def rest_ok_def artifact_ok_def run_start_def record_ok_def
        phase_record_ok_def enforcing_def policy_inv_def clock_regressed_def cause_ok_def engine_new_def
        sampler_new_def calibration_new_def growth_default_def growth_past_def real_root_outcome_def)
qed

lemma supervised_effects:
  assumes "run_ok pw 0 r" and "clocked 0 ended inputs" and "valid_signal (re_checkpoint_signal env)"
    and "run_supervised env r inputs ended = Some (r', fx, e)"
  obtains es where "entries_of fx = es @ final_entries r' (re_terminal e)" and "stretch 0 ended es"
    and "run_ok pw ended r'" and "outcome_valid (re_terminal e)"
    and "to_at_ms (re_terminal e) = duration_ms ended"
    and "to_parent_exited_at_ms (re_terminal e) = pw_exited_at_ms (rr_parent_watch r')"
proof -
  from assms(4) obtain s fx1 c fx2 where loop: "sample_until_exit env r inputs = Some (s, fx1, c)"
    and fin: "end_run env s c ended = (r', fx2, e)" and fx: "fx = fx1 @ fx2"
    by (auto simp: run_supervised_def split: option.splits prod.splits)
  from sample_until_exit_advances [OF assms(1-3) loop]
  have one: "advances pw 0 ended (s, fx1)" by simp
  then have "run_ok pw ended s" by (simp add: advances_def)
  from end_run_ok [OF this order_refl assms(3) fin] obtain fx3 where
    w: "entries_of fx2 = entries_of fx3 @ final_entries r' (re_terminal e)"
    and two: "advances pw ended ended (r', fx3)" and out: "outcome_valid (re_terminal e)"
      "to_at_ms (re_terminal e) = duration_ms ended"
      "to_parent_exited_at_ms (re_terminal e) = pw_exited_at_ms (rr_parent_watch r')" by blast
  from advances_seq [OF one two] w out show thesis
    by (intro that [of "entries_of (fx1 @ fx3)"]) (simp_all add: fx advances_def)
qed

lemma report_of_valid:
  assumes ok: "run_options_ok options" and watch: "watch_ok (co_on_parent_exit (ro_common options)) pw"
    and r: "run_ok pw b r" and es: "stretch a b es"
    and out: "to_at_ms out = duration_ms b" "outcome_valid out"
      "to_parent_exited_at_ms out = pw_exited_at_ms (rr_parent_watch r)"
    and ident: "identity_valid identity" "ri_correlation_hash identity = None"
    and version: "valid_package_version version"
    and h: "h = initial_header version identity (run_configuration options pw) available"
  shows "validate (report_of h es r out) = (Ok () :: 'e report_error + unit)"
proof -
  let ?r = "report_of h es r out"
  have same: "pw_watch pw = pw_watch (rr_parent_watch r)"
    "pw_on_parent_exit pw = pw_on_parent_exit (rr_parent_watch r)"
    and watch': "watch_ok (co_on_parent_exit (ro_common options)) (rr_parent_watch r)"
    using r watch by (auto simp: run_ok_def rest_ok_def watch_ok_def)
  have "configuration_valid ?r"
    by (rule run_configuration_valid [OF ok watch' _ same])
      (simp_all add: report_of_def h initial_header_def out)
  moreover have "privacy_valid ?r"
    by (simp add: privacy_valid_def report_of_def h initial_header_def privacy_default_def ident)
  moreover have "rep_schema_version ?r = REPORT_SCHEMA_VERSION" "rep_package_version ?r = version"
    "rep_run ?r = identity" "rep_calibration ?r = None"
    by (simp_all add: report_of_def h initial_header_def)
  moreover have "validate_events ?r = (Ok () :: 'e report_error + unit)"
    by (rule report_events_valid [OF r es out(1,2)])
  ultimately show ?thesis using ident version
    by (simp add: validate_def validate_calibration_def)
qed

lemma initialized_holds:
  assumes "initialize (disk_append to_vec io) journal_initialized h = Some (j, n)"
  shows "holds to_vec j [journal_record_new 0 (E_Header h)]" and "n = 1"
proof -
  obtain k res where ap: "disk_append to_vec io journal_initialized (journal_record_new 0 (E_Header h)) Sync
      = (k, res)" by force
  with assms have "res = Ok ()" "k = j" and n: "n = 1" by (auto simp: initialize_def split: sum.splits)
  with ap have "disk_append to_vec io journal_initialized (journal_record_new 0 (E_Header h)) Sync
      = (j, Ok ())" by simp
  from disk.appended [OF holds_initialized _ this]
  show "holds to_vec j [journal_record_new 0 (E_Header h)]" by simp
  from n show "n = 1" .
qed

lemma entries_in_append [simp]:
  "samples_in (xs @ ys) = samples_in xs @ samples_in ys"
  "transitions_in (xs @ ys) = transitions_in xs @ transitions_in ys"
  "signals_in (xs @ ys) = signals_in xs @ signals_in ys"
  by (simp_all add: entries_in_defs)

lemma final_entries_in [simp]:
  "transitions_in (final_entries r out) = []" "signals_in (final_entries r out) = []"
proof -
  have "transitions_in (map E_Sample ws) = []" "signals_in (map E_Sample ws) = []" for ws
    by (induction ws) (simp_all add: entries_in_defs)
  moreover have "transitions_in (E_SampleHistoryReset # es) = transitions_in es"
    "signals_in (E_SampleHistoryReset # es) = signals_in es" for es
    by (simp_all add: entries_in_defs)
  ultimately show "transitions_in (final_entries r out) = []" "signals_in (final_entries r out) = []"
    by (simp_all add: final_entries_def) (simp_all add: entries_in_defs)
qed

lemma finished_journal:
  assumes "reads_back to_vec from_slice" and "holds to_vec j rs" and "length rs \<le> MAX_RECOVERED_RECORDS"
    and "Journal.replay (length rs) 0 replay_start (map jr_entry rs) = Some s" and "assemble s = Some report"
    and "validate report = (Ok () :: unit report_error + unit)"
    and "report_to_json to_string report = Ok text"
  shows "finalize from_slice to_string True True j = (j, Ok (report, text))"
proof -
  have "read_file from_slice True (sj_file j) = Ok \<lparr>rec_records = rs, rec_status = Recovered_Complete\<rparr>"
    by (rule recover_held [OF assms(1-3)])
  moreover have "\<not> sj_failed j" using assms(2) by (simp add: holds_def)
  ultimately show ?thesis using assms(4-) by (simp add: finalize_def journal_flush_def to_report_def)
qed

text \<open>A journal that kept everything becomes the report that its entries replay to.\<close>

lemma journal_becomes_report:
  fixes to_string :: "report_v1 \<Rightarrow> 'e + string"
  assumes start: "initialize (disk_append to_vec io) journal_initialized h = Some (j, n)"
    and run: "journal_effects (disk_append to_vec io) (resilient_new j, n) fx = (rj, n')"
    and kept: "rj_journal rj \<noteq> None" and few: "length (entries_of fx) < MAX_RECOVERED_RECORDS"
    and reads: "reads_back to_vec from_slice" and prints: "\<forall>report. \<exists>text. to_string report = Ok text"
    and replay: "Journal.replay (Suc (length (entries_of fx))) 0 replay_start (E_Header h # entries_of fx) = Some s"
    and report: "assemble s = Some report" "validate report = (Ok () :: unit report_error + unit)"
  shows "\<exists>text. finish_journal from_slice to_string True True rj outcome = (outcome, Some (report, text))"
proof -
  obtain j' where j': "rj_journal rj = Some j'" using kept by blast
  have len: "length (entries_of fx) < 65536" using few by (simp add: MAX_RECOVERED_RECORDS_def)
  note start = initialized_holds [OF start]
  have "rj_journal (resilient_new j) = Some j" by (simp add: resilient_new_def)
  moreover have "length [journal_record_new 0 (E_Header h)] + length (entries_of fx) < 2 ^ 64"
    using len by simp
  ultimately obtain rs where held: "holds to_vec j' ([journal_record_new 0 (E_Header h)] @ rs)"
    and entries: "map jr_entry rs = entries_of fx"
    using disk.persisted_effects [OF run j' _ start(1)] by blast
  have "length rs = length (entries_of fx)" using arg_cong [OF entries, of length] by simp
  then have n: "length ([journal_record_new 0 (E_Header h)] @ rs) = Suc (length (entries_of fx))" by simp
  obtain str where str: "to_string report = Ok str" using prints by blast
  have valid: "validate report = (Ok () :: 'e report_error + unit)"
    using report(2)
    by (auto simp: validate_def validate_events_def validate_calibration_def split: if_splits option.splits)
  have "finalize from_slice to_string True True j' = (j', Ok (report, str @ [CHR 0x0A]))"
  proof (rule finished_journal [OF reads held _ _ report(1)])
    show "length ([journal_record_new 0 (E_Header h)] @ rs) \<le> MAX_RECOVERED_RECORDS"
      using len by (simp only: n) (simp add: MAX_RECOVERED_RECORDS_def)
    show "Journal.replay (length ([journal_record_new 0 (E_Header h)] @ rs)) 0 replay_start
        (map jr_entry ([journal_record_new 0 (E_Header h)] @ rs)) = Some s"
      unfolding n using replay entries by (simp add: journal_record_new_def)
  qed (simp_all add: report(2) valid report_to_json_def str)
  then show ?thesis by (simp add: finish_journal_def j')
qed

text \<open>C1. An enforcing run ends in a valid report, if these conditions hold: the readings of the clock are
  in order, every sample has a positive width and no advisory metric from the future (\<open>clocked\<close>;
  \<open>Advisory_Props\<close> shows that a sample of no width does make the report invalid),
  the signals are terminal signals and the statuses of the root those of a process, the storage took
  every record, at most 65,536 with the header, and the codec reads back what it wrote and encodes the
  report. Then, for any accepted command line, any answers of the platform, samples and worker behaviour, the journal of the finished run replays into a report that
  passes the report's own validation; it carries the outcome the run ended with and exactly the
  transitions and signals the run wrote, and the process status is the outcome of the run.\<close>

theorem supervised_run_is_reported:
  assumes "parse_cli (Raw_Run limit wall timeout raw) = Ok (Mode_Run options)"
    and "parsed_by parse_wall_time wall" and "parsed_by parse_checkpoint_timeout timeout"
    and "enforce_with_initial_request_id (run_policy_config options) request_id = Ok policy"
    and "identity_tracker_new root pgid = Ok tracker"
    and "from_argv run_id argv None = Ok identity" and "valid_package_version version"
    and "watch = parent_watch_state_for ppid inspected hangup (co_on_parent_exit (ro_common options))"
    and "valid_signal (re_checkpoint_signal env)" and "real_root_outcome retained"
    and "clocked 0 ended inputs"
    and "initialize (disk_append to_vec io) journal_initialized
      (initial_header version identity (run_configuration options watch) True) = Some (j, n)"
    and "run_supervised env (run_start options config policy tracker retained actuator watch) inputs ended
      = Some (r', fx, e)"
    and "journal_effects (disk_append to_vec io) (resilient_new j, n) fx = (rj, n')"
    and "rj_journal rj \<noteq> None" and "length (entries_of fx) < MAX_RECOVERED_RECORDS"
    and "reads_back to_vec from_slice" and "\<forall>report. \<exists>text. to_string report = Ok text"
  shows "\<exists>report text. finish_journal from_slice to_string True True rj (re_outcome e)
        = (re_outcome e, Some (report, text))
      \<and> validate report = (Ok () :: 'e report_error + unit)
      \<and> rep_outcome report = re_terminal e
      \<and> rep_transitions report = transitions_in (entries_of fx)
      \<and> rep_signals report = signals_in (entries_of fx)"
proof -
  define h where "h = initial_header version identity (run_configuration options watch) True"
  note ok = accepted_run_options [OF assms(1-3)]
  have w: "watch_ok (co_on_parent_exit (ro_common options)) watch" and w0: "pw_exited_at_ms watch = None"
    unfolding assms(8)
    by (rule watch_ok_start) (simp add: parent_watch_state_for_def establish_parent_watch_def
        unwatched_def Let_def split: option.splits)
  have ident: "identity_valid identity" "ri_correlation_hash identity = None"
    using assms(6) by (auto simp: from_argv_def Let_def split: list.splits option.splits if_splits)
  from supervised_effects [OF run_start_ok [OF assms(4,5) w0 assms(10)] assms(11,9,13)]
  obtain es where fx: "entries_of fx = es @ final_entries r' (re_terminal e)" and es: "stretch 0 ended es"
    and r': "run_ok watch ended r'" and out: "outcome_valid (re_terminal e)"
      "to_at_ms (re_terminal e) = duration_ms ended"
      "to_parent_exited_at_ms (re_terminal e) = pw_exited_at_ms (rr_parent_watch r')" by blast
  define report where "report = report_of h es r' (re_terminal e)"
  note valid = report_of_valid [OF ok w r' es out(2,1,3) ident assms(7) h_def]
  have "list_all entry_ok es" using es by (auto simp: stretch_def list_all_iff)
  from replay_run [OF this refl, of r' "re_terminal e" h] obtain s where
    s: "Journal.replay (Suc (length (entries_of fx))) 0 replay_start (E_Header h # entries_of fx) = Some s"
      "assemble s = Some report" by (auto simp: fx report_def)
  have "validate report = (Ok () :: unit report_error + unit)" by (simp add: report_def valid)
  from journal_becomes_report [OF assms(12) [folded h_def] assms(14-18) s this] show ?thesis
    by (auto simp: report_def valid fx intro!: exI [of _ report]) (simp_all add: report_of_def)
qed

section \<open>Witnesses\<close>

text \<open>
  A run whose signal pipe breaks: the supervisor faults after a millisecond, asks the group to end
  with TERM and, a second later, with KILL, and reports both.
\<close>

definition demo_watch :: parent_watch_state where
  "demo_watch = unwatched Watch_ParentIsLaunchd OnParent_Terminate"

definition demo_env :: run_env where
  "demo_env = \<lparr>re_answers = (\<lambda>n. \<lparr>an_kill = (\<lambda>_ _. None), an_getpgid = (\<lambda>_. 100),
      an_inspect = (\<lambda>_. Err Ident_Disappeared), an_scan = None, an_write = (\<lambda>_. None),
      an_shutdown_ok = True\<rparr>),
     re_checkpoint_signal = SignalNumber 30\<rparr>"

definition demo_poll :: poll_input where
  "demo_poll = \<lparr>pi_now = 0, pi_ready_read = Read_WouldBlock, pi_read = Read_WouldBlock\<rparr>"

definition demo_input :: loop_input where
  "demo_input = \<lparr>li_waited = Ok None, li_kill = (\<lambda>_ _. None), li_parent_now = 0, li_ppid = 1,
     li_parent_exited = None, li_drain = demo_poll, li_root_exit_at = 0, li_poll = demo_poll,
     li_signals = Err Ctl_TerminalSignalMonitorUnavailable,
     li_sample = \<lparr>si_started_at = 0, si_finished_at = 0, si_snapshot = Err Fail_EnumerationFailed,
       si_processed_at = 0, si_advisory = Advisory_Props.demo_snapshot\<rparr>,
     li_tick_at = 0, li_fault_at = 1000000, li_fault_readings = [2000000, 2000000000]\<rparr>"

definition demo_actuator :: process_actuator where
  "demo_actuator = process_actuator_new (Some Identity_Props.demo_root) 100 None"

definition demo_config :: sampling_config where
  "demo_config = \<lparr>sc_interval = 50000000, sc_max_sample_age = 500000000,
     sc_max_sample_window = 250000000, sc_history_capacity = 64\<rparr>"

definition demo_policy :: policy_machine where
  "demo_policy = \<lparr>pm_mode = EnforceMode, pm_state = Normal, pm_config = run_policy_config demo_run_options,
     pm_breach_streak = 0, pm_missing_streak = 0, pm_next_request_id = 7, pm_active_request_id = None,
     pm_checkpoint_deadline = None, pm_term_deadline = None,
     pm_last_event_at = None, pm_post_signal_observations = 0, pm_intervention_started = False\<rparr>"

definition demo_start :: run_runtime where
  "demo_start = run_start demo_run_options demo_config demo_policy demo_tracker None demo_actuator demo_watch"

lemma demo_policy: "enforce_with_initial_request_id (run_policy_config demo_run_options) 7 = Ok demo_policy"
  using run_policy_config_valid [OF accepted_run_options [OF demo_run_accepted]]
  by (simp add: parsed_by_def enforce_with_initial_request_id_def demo_policy_def)

definition demo_entries :: "journal_entry list" where
  "demo_entries =
    [E_Transition \<lparr>tr_at_ms = 1, tr_from = Normal, tr_to = SupervisorError, tr_aggregate_footprint_bytes = None\<rparr>,
     E_Signal \<lparr>sr_at_ms = 1, sr_signal = 15, sr_target = Target_OwnedProcessGroup, sr_result = Sig_Delivered,
       sr_reason = Some Reason_SupervisorFault\<rparr>,
     E_Transition \<lparr>tr_at_ms = 2000, tr_from = SupervisorError, tr_to = Emergency, tr_aggregate_footprint_bytes = None\<rparr>,
     E_Signal \<lparr>sr_at_ms = 2000, sr_signal = 9, sr_target = Target_OwnedProcessGroup, sr_result = Sig_Delivered,
       sr_reason = Some Reason_SupervisorFault\<rparr>,
     E_Checkpoint \<lparr>ck_status = Status_NotNegotiated, ck_at_ms = None, ck_request_id = None, ck_reason = None, ck_artifact = None\<rparr>,
     E_Escape \<lparr>ee_detected = Available False, ee_escaped_count = None\<rparr>,
     E_Outcome \<lparr>to_at_ms = 3000, to_kind = Kind_SupervisorFailure, to_final_footprint_bytes = Unknown,
       to_child_status = None, to_owned_group_survivors = None, to_parent_exited_at_ms = None\<rparr>]"

lemma demo_config_fields [simp]: "pc_term_grace (run_policy_config demo_run_options) = 1000000000"
  by (simp add: run_policy_config_def TERM_GRACE_def from_secs_def Let_def split_beta)

lemmas demo_defs = run_supervised_def run_iteration_def demo_start_def run_start_def wait_for_root_def try_wait_root_def
  owned_group_exists_def i32_checked_neg_def demo_actuator_def process_actuator_new_def before_signals_def watch_parent_def
  parent_has_exited_def demo_watch_def unwatched_def clean_up_survivors_def poll_checkpoint_channel_def negotiate_def
  poll_checkpoint_ready_def engine_new_def set_actuator_def fail_supervisor_def demo_poll_def Let_def
  run_apply_def label_shutdown_def note_acknowledgement_def handle_event_def handle_def apply_event_def
  clock_regressed_def apply_supervisor_fault_def demo_policy_def transition_entry_def note_sample_def note_overshoot_def attempt_def
  execute_def demo_env_def terminate_group_def kill_group_def signal_group_def signal_raw_def classify_group_signal_def
  map_group_signal_result_def map_signal_result_def SIGTERM_def SIGKILL_def evidence_default_def record_attempt_def push_record_def
  newest_records_def record_actuations_def record_actuation_def MAX_INTERVENTION_RECORDS_def sat_add_def sat_sub_def
  apply_tick_def dur_sat_add_def signal_record_of_def checkpoint_progress_def duration_ms_def
  DURATION_MAX_def end_run_def complete_def terminal_of_def run_record_terminal_def recent_sample_history_def
  sampler_new_def escape_of_def demo_tracker_def

lemma demo_ms: "duration_ms 1000000 = 1" "duration_ms 2000000000 = 2000" "duration_ms 3000000000 = 3000"
  by (simp_all add: duration_ms_def)

definition demo_effects :: "run_effect list" where
  "demo_effects = map2 (\<lambda>x d. case x of Inl e \<Rightarrow> Wrote e d | Inr (t, act) \<Rightarrow> Actuated t act (Ok Act_Delivered))
     [Inl (demo_entries ! 0), Inr (1000000, Act_Term Disp_SkippedSupervisorFailure), Inl (demo_entries ! 1),
      Inl (demo_entries ! 2), Inr (2000000000, Act_Kill), Inl (demo_entries ! 3), Inl (demo_entries ! 4),
      Inl (demo_entries ! 5), Inl (demo_entries ! 6)]
     [Sync, Sync, Sync, Sync, Sync, Sync, Sync, Buffered, Sync]"

lemma demo_supervised:
  "\<exists>r e. run_supervised demo_env demo_start [demo_input] 3000000000 = Some (r, demo_effects, e)
    \<and> re_outcome e = SupervisorFailure"
  by (simp add: demo_defs demo_input_def demo_effects_def demo_entries_def)

definition demo_identity :: run_identity where
  "demo_identity = \<lparr>ri_run_id = ''run_'' @ replicate 32 CHR ''a'', ri_executable_basename = ''python'',
       ri_argument_count = 0, ri_correlation_hash = None\<rparr>"

lemma demo_identity: "from_argv (''run_'' @ replicate 32 CHR ''a'') [''python''] None
    = (Ok demo_identity :: unit report_error + run_identity)"
proof -
  have "file_name ''python'' = Some ''python''" by code_simp
  moreover have "valid_utf8 ''python''" by code_simp
  moreover have "identity_valid demo_identity"
    by (simp add: identity_valid_def demo_identity_def valid_run_id_def strip_prefix_def lower_hex_def
        list_all_iff)
  ultimately show ?thesis by (simp add: from_argv_def demo_identity_def)
qed

text \<open>A codec that knows the records of this run.\<close>

definition demo_header :: journal_header where
  "demo_header = initial_header ''0.3.1'' demo_identity (run_configuration demo_run_options demo_watch) True"

definition run_records :: "journal_record list" where
  "run_records = map2 journal_record_new [0, 1, 2, 3, 4, 5, 6, 7] (E_Header demo_header # demo_entries)"

definition run_to_vec :: "journal_record \<Rightarrow> bytes option" where
  "run_to_vec r = (if r \<in> set run_records then Some [ucast (jr_sequence r)] else None)"

definition run_from_slice :: "bytes \<Rightarrow> journal_record option" where
  "run_from_slice p = find (\<lambda>r. run_to_vec r = Some p) run_records"

lemma run_reads_back: "reads_back run_to_vec run_from_slice"
  by (auto simp: reads_back_def run_to_vec_def run_from_slice_def run_records_def demo_entries_def
      journal_record_new_def split: if_splits)

lemma run_initialized:
  "\<exists>j. initialize (disk_append run_to_vec (\<lambda>_. Io_Ok)) journal_initialized demo_header = Some (j, 1)
    \<and> sj_next_sequence j = 1 \<and> \<not> sj_failed j"
  by (simp add: initialize_def disk_append_def journal_append_def journal_initialized_def
      journal_record_new_def run_to_vec_def run_records_def Let_def MAX_JOURNAL_RECORD_BYTES_def sat_add_def)

lemma run_persists:
  assumes "sj_next_sequence j = 1" and "\<not> sj_failed j"
  shows "\<exists>rj n. journal_effects (disk_append run_to_vec (\<lambda>_. Io_Ok)) (resilient_new j, 1) demo_effects = (rj, n)
    \<and> rj_journal rj \<noteq> None"
  using assms
  by (simp add: journal_effects_def journal_effect_def record_resilient_def resilient_record_def resilient_new_def
      demo_effects_def demo_entries_def disk_append_def journal_append_def journal_record_new_def run_to_vec_def
      run_records_def Let_def MAX_JOURNAL_RECORD_BYTES_def sat_add_def)

lemma demo_run_watch:
  "demo_watch = parent_watch_state_for 1 None (Some False) (co_on_parent_exit (ro_common demo_run_options))"
  by (simp add: demo_watch_def parent_watch_state_for_def establish_parent_watch_def demo_run_options_def)

theorem supervised_run_is_reported_witness:
  "\<exists>rj report text. finish_journal run_from_slice (\<lambda>_. Ok ''{}'' :: unit + string) True True rj
      SupervisorFailure = (SupervisorFailure, Some (report, text))
    \<and> rep_signals report = signals_in (entries_of demo_effects)"
proof -
  obtain r e where run: "run_supervised demo_env demo_start [demo_input] 3000000000 = Some (r, demo_effects, e)"
    and e: "re_outcome e = SupervisorFailure" using demo_supervised by blast
  obtain j where j: "initialize (disk_append run_to_vec (\<lambda>_. Io_Ok)) journal_initialized demo_header
      = Some (j, 1)" "sj_next_sequence j = 1" "\<not> sj_failed j" using run_initialized by blast
  obtain rj n where fin: "journal_effects (disk_append run_to_vec (\<lambda>_. Io_Ok)) (resilient_new j, 1)
      demo_effects = (rj, n)" "rj_journal rj \<noteq> None" using run_persists [OF j(2,3)] by blast
  have clock: "clocked 0 3000000000 [demo_input]"
    by (simp add: iteration_clock_def early_clock_def demo_input_def demo_poll_def)
  have sig: "valid_signal (re_checkpoint_signal demo_env)" by (simp add: demo_env_def valid_signal_iff)
  have version: "valid_package_version ''0.3.1''"
    by (simp add: valid_package_version_def ascii_digit_def ascii_alphanumeric_def)
  have few: "length (entries_of demo_effects) < MAX_RECOVERED_RECORDS"
    by (simp add: demo_effects_def MAX_RECOVERED_RECORDS_def)
  from supervised_run_is_reported [OF demo_run_accepted _ _ demo_policy demo_tracker demo_identity version
      demo_run_watch sig _ clock j(1) [unfolded demo_header_def] run [unfolded demo_start_def] fin few
      run_reads_back, where to_string = "\<lambda>_. Ok ''{}'' :: unit + string"] e
  show ?thesis by (auto simp: parsed_by_def real_root_outcome_def)
qed

end
