(* ===== verification/Effects_Props.thy ===== *)
theory Effects_Props
  imports Run_Effects Runtime_Props
begin

text \<open>
  What holds of everything an enforcing run does, from its start to its end: executions are
  announced in the journal, every signal is reported, and the status of the process is truthful.
\<close>

section \<open>The whole run\<close>

lemma quiet_terminal:
  "replay_effects st (run_record_terminal r t) = Some st"
  "signals_written (run_record_terminal r t) = []" "actuated (run_record_terminal r t) = []"
  "entry \<in> set (entries_of (run_record_terminal r t)) \<Longrightarrow> \<not> faults entry"
proof -
  have samples: "replay_effects st (map (\<lambda>w. Wrote (E_Sample w) Buffered) ws @ fx) = replay_effects st fx"
    "signals_written (map (\<lambda>w. Wrote (E_Sample w) Buffered) ws @ fx) = signals_written fx"
    "actuated (map (\<lambda>w. Wrote (E_Sample w) Buffered) ws @ fx) = actuated fx"
    "entries_of (map (\<lambda>w. Wrote (E_Sample w) Buffered) ws) = map E_Sample ws" for ws fx
    by (induction ws) (simp_all add: signals_written_def List.map_filter_def)
  show "replay_effects st (run_record_terminal r t) = Some st"
    by (simp add: run_record_terminal_def recent_sample_history_def samples split: list.splits)
  show "signals_written (run_record_terminal r t) = []"
    by (simp add: run_record_terminal_def recent_sample_history_def signals_written_def
        List.map_filter_def samples split: list.splits)
  show "actuated (run_record_terminal r t) = []"
    using samples(3) [of _ "[]"]
    by (simp add: run_record_terminal_def recent_sample_history_def split: list.splits)
  show "\<not> faults entry" if "entry \<in> set (entries_of (run_record_terminal r t))"
    using that samples(4)
    by (auto simp: run_record_terminal_def recent_sample_history_def faults_def
        split: list.splits if_splits)
qed

text \<open>C10. Nothing is done to the command before the journal says why. In every enforcing run, from its
  start to its last effect, each phase change of the policy is written with a sync, in order and
  without gaps, and each checkpoint request, TERM, forwarded signal or KILL is executed only after
  the change to the phase that selects it was written; every signal record is written with a sync.\<close>

theorem executions_are_announced:
  assumes "enforce_with_initial_request_id pc request_id = Ok policy"
    and "run_supervised env (run_start options config policy tracker retained actuator watch) inputs ended
      = Some (r', fx, e)"
  shows "replay_effects Normal fx = Some (pm_state (rr_policy r'))"
proof -
  from effects.supervised_keeps [OF run_inv_start [OF assms(1)] assms(2)] obtain fx0 where
    "run_inv env r' fx0" "fx = fx0 @ run_record_terminal r' (re_terminal e)" by metis
  then show ?thesis by (simp add: run_inv_def replay_effects_append quiet_terminal)
qed

text \<open>C11. No signal goes unreported. A run writes exactly one signal record for every TERM, KILL and
  forwarded signal it executed, delivered or not, and for every checkpoint request but one that its
  channel kept back (unavailable or refused), in the order of the executions, with the time in
  milliseconds, the number, the target and the result of each, as long as fewer than \<open>2 ^ 64\<close>
  executions were made.\<close>

theorem signals_are_reported:
  assumes "enforce_with_initial_request_id pc request_id = Ok policy"
    and "run_supervised env (run_start options config policy tracker retained actuator watch) inputs ended
      = Some (r', fx, e)"
    and "length (actuated fx) < 2 ^ 64"
  shows "list_all2 (names env) (filter sends_signal (actuated fx)) (signals_written fx)"
proof -
  from effects.supervised_keeps [OF run_inv_start [OF assms(1)] assms(2)] obtain fx0 where
    "run_inv env r' fx0" "fx = fx0 @ run_record_terminal r' (re_terminal e)" by metis
  with assms(3) show ?thesis by (simp add: run_inv_def quiet_terminal)
qed


section \<open>Witnesses\<close>

theorem executions_are_announced_witness:
  "\<exists>r. replay_effects Normal demo_effects = Some (pm_state (rr_policy r))"
proof -
  obtain r e where run: "run_supervised demo_env demo_start [demo_input] 3000000000 = Some (r, demo_effects, e)"
    using demo_supervised by blast
  show ?thesis using executions_are_announced [OF demo_policy run [unfolded demo_start_def]] by blast
qed

lemma demo_actuated: "actuated demo_effects =
    [(1000000, Act_Term Disp_SkippedSupervisorFailure, Ok Act_Delivered), (2000000000, Act_Kill, Ok Act_Delivered)]"
  by (simp add: demo_effects_def)

theorem signals_are_reported_witness:
  "list_all2 (names demo_env) (filter sends_signal (actuated demo_effects)) (signals_written demo_effects)
    \<and> length (signals_written demo_effects) = 2"
proof -
  obtain r e where run: "run_supervised demo_env demo_start [demo_input] 3000000000 = Some (r, demo_effects, e)"
    using demo_supervised by blast
  have "length (actuated demo_effects) < 2 ^ 64" by (simp add: demo_actuated)
  from signals_are_reported [OF demo_policy run [unfolded demo_start_def] this]
  have all: "list_all2 (names demo_env) (filter sends_signal (actuated demo_effects))
    (signals_written demo_effects)" .
  moreover from list_all2_lengthD [OF this] have "length (signals_written demo_effects) = 2"
    by (simp add: demo_actuated sends_signal_def)
  ultimately show ?thesis by blast
qed


end
