(* ===== verification/Explain.thy ===== *)
theory Explain
  imports Journal
begin

text \<open>
  \<^verbatim>\<open>mlx-guard-core/src/explain.rs\<close>: the two plain lines printed for an outcome, one for what
  happened and one for what to do. Every sentence is built from the report, or from the cause the
  supervisor holds when there is no report. The code computes with 128-bit integers; with 64-bit
  inputs no intermediate value reaches them, so they are natural numbers here.
\<close>

section \<open>Constants\<close>

definition KILL_SIGNAL :: u8 where "KILL_SIGNAL = 9"
definition TERM_SIGNAL :: u8 where "TERM_SIGNAL = 15"

definition COLLISION_CODES :: "u8 list" where
  "COLLISION_CODES = [64, 70, 74, 75, 126, 127]"

datatype anchor =
    ANCHOR_COMMAND_LINE
  | ANCHOR_LAUNCH_SETTING
  | ANCHOR_BEFORE_LAUNCH_70
  | ANCHOR_WHILE_STARTING
  | ANCHOR_READINGS_LOST
  | ANCHOR_NOT_DELIVERED
  | ANCHOR_INTERNAL
  | ANCHOR_PATH_USED
  | ANCHOR_DIRECTORY
  | ANCHOR_BEFORE_LAUNCH_74
  | ANCHOR_AFTER_LAUNCH
  | ANCHOR_FOOTPRINT
  | ANCHOR_EMERGENCY
  | ANCHOR_WALL
  | ANCHOR_PARENT
  | ANCHOR_IGNORED_SIGNAL
  | ANCHOR_SURVIVORS
  | ANCHOR_UNRECORDED
  | ANCHOR_NOT_EXECUTABLE
  | ANCHOR_NOT_FOUND
  | ANCHOR_PASSED_ON
  | ANCHOR_ELSEWHERE
  | ANCHOR_COLLISION

text \<open>The text of an anchor.\<close>

fun anchor_text :: "anchor \<Rightarrow> string" where
  "anchor_text ANCHOR_COMMAND_LINE = ''64-the-command-line''"
| "anchor_text ANCHOR_LAUNCH_SETTING = ''64-a-launch-setting''"
| "anchor_text ANCHOR_BEFORE_LAUNCH_70 = ''70-before-launch''"
| "anchor_text ANCHOR_WHILE_STARTING = ''70-while-starting-the-command''"
| "anchor_text ANCHOR_READINGS_LOST = ''70-footprint-readings-lost''"
| "anchor_text ANCHOR_NOT_DELIVERED = ''70-a-signal-not-delivered''"
| "anchor_text ANCHOR_INTERNAL = ''70-an-internal-failure''"
| "anchor_text ANCHOR_PATH_USED = ''74-report-path-already-used''"
| "anchor_text ANCHOR_DIRECTORY = ''74-report-directory''"
| "anchor_text ANCHOR_BEFORE_LAUNCH_74 = ''74-before-launch''"
| "anchor_text ANCHOR_AFTER_LAUNCH = ''74-after-launch''"
| "anchor_text ANCHOR_FOOTPRINT = ''75-the-footprint-limit''"
| "anchor_text ANCHOR_EMERGENCY = ''75-emergency-kill''"
| "anchor_text ANCHOR_WALL = ''75-the-wall-time-limit''"
| "anchor_text ANCHOR_PARENT = ''75-the-launching-process-exited''"
| "anchor_text ANCHOR_IGNORED_SIGNAL = ''75-a-signal-the-command-ignored''"
| "anchor_text ANCHOR_SURVIVORS = ''75-processes-left-behind''"
| "anchor_text ANCHOR_UNRECORDED = ''75-cause-not-recorded''"
| "anchor_text ANCHOR_NOT_EXECUTABLE = ''126-not-executable''"
| "anchor_text ANCHOR_NOT_FOUND = ''127-not-found''"
| "anchor_text ANCHOR_PASSED_ON = ''signal-passed-on-by-mlx-guard''"
| "anchor_text ANCHOR_ELSEWHERE = ''signal-from-somewhere-else''"
| "anchor_text ANCHOR_COLLISION = ''a-code-mlx-guard-also-uses''"

definition ANCHORS :: "anchor list" where
  "ANCHORS =
    [ANCHOR_COMMAND_LINE, ANCHOR_LAUNCH_SETTING, ANCHOR_BEFORE_LAUNCH_70, ANCHOR_WHILE_STARTING,
     ANCHOR_READINGS_LOST, ANCHOR_NOT_DELIVERED, ANCHOR_INTERNAL, ANCHOR_PATH_USED,
     ANCHOR_DIRECTORY, ANCHOR_BEFORE_LAUNCH_74, ANCHOR_AFTER_LAUNCH, ANCHOR_FOOTPRINT,
     ANCHOR_EMERGENCY, ANCHOR_WALL, ANCHOR_PARENT, ANCHOR_IGNORED_SIGNAL, ANCHOR_SURVIVORS,
     ANCHOR_UNRECORDED, ANCHOR_NOT_EXECUTABLE, ANCHOR_NOT_FOUND, ANCHOR_PASSED_ON,
     ANCHOR_ELSEWHERE, ANCHOR_COLLISION]"

section \<open>Lines\<close>

record lines =
  ln_happened :: string
  ln_to_do :: string
  ln_anchor :: anchor

definition lines_new :: "string \<Rightarrow> string \<Rightarrow> anchor \<Rightarrow> lines" where
  "lines_new happened to_do anchor =
    \<lparr>ln_happened = happened, ln_to_do = to_do, ln_anchor = anchor\<rparr>"

record plain_outcome =
  pl_what_happened :: string
  pl_what_to_do :: string
  pl_anchor :: anchor
  pl_version :: string

definition with_version :: "lines \<Rightarrow> string \<Rightarrow> plain_outcome" where
  "with_version l version =
    \<lparr>pl_what_happened = ln_happened l, pl_what_to_do = ln_to_do l, pl_anchor = ln_anchor l,
     pl_version = version\<rparr>"

abbreviation newline :: char where "newline \<equiv> CHR 0x0A"

definition doc_url :: "string \<Rightarrow> string \<Rightarrow> string" where
  "doc_url version anchor =
     ''https://github.com/IonDen/mlx-guard/blob/v'' @ version
     @ ''/docs/TROUBLESHOOTING.md#'' @ anchor"

definition plain_text :: "plain_outcome \<Rightarrow> string" where
  "plain_text p =
     ''what happened: '' @ pl_what_happened p @ [newline] @ ''what to do: '' @ pl_what_to_do p
     @ '' More: '' @ doc_url (pl_version p) (anchor_text (pl_anchor p))"

definition stderr_lines :: "plain_outcome \<Rightarrow> string" where
  "stderr_lines p =
     concat (map (\<lambda>line. ''mlx-guard: '' @ line @ [newline]) (split_on newline (plain_text p)))"

section \<open>Causes without a report\<close>

datatype storage_phase =
    BeforeLaunch
  | LaunchFailed
  | StartUnfinished
  | EndedWhileStarting
  | AfterLaunch

datatype storage_class =
    Class_InvalidPath
  | Class_UnsafeDirectory
  | Class_JournalExists
  | Class_CreateFailed
  | Class_WriteFailed
  | Class_SyncFailed
  | Class_ReadFailed
  | Class_InvalidRecord
  | Class_UnsafeTarget
  | Class_FinalizeFailed
  | Class_Unknown

fun storage_class_from :: "storage_error_kind \<Rightarrow> storage_class" where
  "storage_class_from InvalidPath = Class_InvalidPath"
| "storage_class_from UnsafeDirectory = Class_UnsafeDirectory"
| "storage_class_from JournalExists = Class_JournalExists"
| "storage_class_from CreateJournalFailed = Class_CreateFailed"
| "storage_class_from JournalWriteFailed = Class_WriteFailed"
| "storage_class_from SyncFailed = Class_SyncFailed"
| "storage_class_from JournalReadFailed = Class_ReadFailed"
| "storage_class_from InvalidRecord = Class_InvalidRecord"
| "storage_class_from UnsafeTarget = Class_UnsafeTarget"
| "storage_class_from FinalizeFailed = Class_FinalizeFailed"

datatype early_cause =
    Early_CommandLine "string option"
  | Early_ClientReadyDescriptor
  | Early_Configuration
  | Early_UnsupportedPlatform
  | Early_FootprintUnavailable
  | Early_RunIdentity
  | Early_SupervisorSetup
  | Early_Storage storage_class storage_phase

fun generic_early_cause :: "supervisor_outcome \<Rightarrow> early_cause option" where
  "generic_early_cause InvalidConfiguration = Some Early_Configuration"
| "generic_early_cause SupervisorFailure = Some Early_SupervisorSetup"
| "generic_early_cause PartialArtifactFailure = Some (Early_Storage Class_Unknown BeforeLaunch)"
| "generic_early_cause _ = None"

section \<open>Numbers\<close>

text \<open>Decimal rendering of an integer, most significant digit first.\<close>

definition digit_char :: "nat \<Rightarrow> char" where
  "digit_char d = char_of (48 + d)"

fun show_nat :: "nat \<Rightarrow> string" where
  "show_nat n = (if n < 10 then [digit_char n] else show_nat (n div 10) @ [digit_char (n mod 10)])"

declare show_nat.simps [simp del]

abbreviation show_word :: "'a::len word \<Rightarrow> string" where "show_word w \<equiv> show_nat (unat w)"

text \<open>The format \<open>{:02}\<close>.\<close>

definition show_02 :: "nat \<Rightarrow> string" where
  "show_02 n = (if n < 10 then ''0'' else []) @ show_nat n"

text \<open>The three units; \<open>rposition\<close> picks the last one that is not above the value.\<close>

definition UNITS :: "(nat \<times> string) list" where
  "UNITS = [(2 ^ 10, ''KiB''), (2 ^ 20, ''MiB''), (2 ^ 30, ''GiB'')]"

fun rposition :: "('a \<Rightarrow> bool) \<Rightarrow> 'a list \<Rightarrow> nat option" where
  "rposition p [] = None"
| "rposition p (x # xs) =
     (case rposition p xs of Some i \<Rightarrow> Some (Suc i) | None \<Rightarrow> if p x then Some 0 else None)"

definition hundredths :: "nat \<Rightarrow> nat \<Rightarrow> nat" where
  "hundredths v u = (v * 100 + u div 2) div u"

definition format_bytes :: "u64 \<Rightarrow> string" where
  "format_bytes bytes =
     (let v = unat bytes in
      case rposition (\<lambda>(u, _). u \<le> v) UNITS of
        None \<Rightarrow> show_word bytes @ '' B''
      | Some index \<Rightarrow>
          (let rendered = hundredths v (fst (UNITS ! index));
               index' = (if 102400 \<le> rendered \<and> index + 1 < length UNITS then index + 1 else index);
               rendered = hundredths v (fst (UNITS ! index'))
           in show_nat (rendered div 100) @ ''.'' @ show_02 (rendered mod 100) @ '' ''
              @ snd (UNITS ! index')))"

definition format_duration_ms :: "u64 \<Rightarrow> string" where
  "format_duration_ms milliseconds =
     (let ms = unat milliseconds; tenths = (ms + 50) div 100; seconds = (ms + 500) div 1000;
          minutes = (ms + 30000) div 60000
      in if ms < 1000 then show_nat ms @ '' ms''
         else if tenths < 600 then show_nat (tenths div 10) @ ''.'' @ show_nat (tenths mod 10) @ '' s''
         else if seconds < 3600
         then (if seconds mod 60 = 0 then show_nat (seconds div 60) @ '' min''
               else show_nat (seconds div 60) @ '' min '' @ show_nat (seconds mod 60) @ '' s'')
         else (if minutes mod 60 = 0 then show_nat (minutes div 60) @ '' h''
               else show_nat (minutes div 60) @ '' h '' @ show_nat (minutes mod 60) @ '' min''))"

definition signal_name :: "u8 \<Rightarrow> string" where
  "signal_name signal =
     (if signal = 1 then ''SIGHUP''
      else if signal = 2 then ''SIGINT''
      else if signal = 3 then ''SIGQUIT''
      else if signal = 6 then ''SIGABRT''
      else if signal = KILL_SIGNAL then ''SIGKILL''
      else if signal = 10 then ''SIGBUS''
      else if signal = 11 then ''SIGSEGV''
      else if signal = 13 then ''SIGPIPE''
      else if signal = TERM_SIGNAL then ''SIGTERM''
      else if signal = 30 then ''SIGUSR1''
      else ''signal '' @ show_word signal)"

section \<open>Shared rendering helpers\<close>

text \<open>Two different values that render alike.\<close>

fun ambiguous :: "u64 list \<Rightarrow> bool" where
  "ambiguous [] = False"
| "ambiguous (v # vs) =
     (list_ex (\<lambda>w. v \<noteq> w \<and> format_bytes v = format_bytes w) vs \<or> ambiguous vs)"

definition compared_bytes :: "u64 list \<Rightarrow> string list" where
  "compared_bytes values =
     (if ambiguous values then map (\<lambda>v. show_word v @ '' bytes'') values
      else map format_bytes values)"

definition is_group_signal :: "u8 \<Rightarrow> signal_record \<Rightarrow> bool" where
  "is_group_signal signal s \<longleftrightarrow>
     sr_target s = Target_OwnedProcessGroup \<and> sr_signal s = signal"

definition first_group_signal :: "report_v1 \<Rightarrow> u8 \<Rightarrow> signal_record option" where
  "first_group_signal report signal = List.find (is_group_signal signal) (rep_signals report)"

definition sent_to_group :: "u8 \<Rightarrow> u64 \<Rightarrow> string" where
  "sent_to_group signal at_ms =
     ''sent '' @ signal_name signal @ '' to the command's process group at ''
     @ format_duration_ms at_ms"

fun position :: "('a \<Rightarrow> bool) \<Rightarrow> 'a list \<Rightarrow> nat option" where
  "position p [] = None"
| "position p (x # xs) = (if p x then Some 0 else map_option Suc (position p xs))"

abbreviation delivered_to_group :: "u8 \<Rightarrow> signal_record \<Rightarrow> bool" where
  "delivered_to_group signal s \<equiv> is_group_signal signal s \<and> sr_result s = Sig_Delivered"

definition kill_suffix :: "signal_record list \<Rightarrow> nat \<Rightarrow> string" where
  "kill_suffix signals term_index =
     (let first_term = signals ! term_index in
      case List.find (delivered_to_group KILL_SIGNAL) (drop (term_index + 1) signals) of
        None \<Rightarrow> []
      | Some kill \<Rightarrow>
          (let gap = format_duration_ms (sat_sub (sr_at_ms kill) (sr_at_ms first_term));
               second_signal = (sr_reason kill = Some Reason_ExternalSignal)
           in if second_signal \<and> sr_result first_term = Sig_ProcessMissing
              then ''; a SIGKILL for a second terminal signal reached its process group '' @ gap @ '' later''
              else if second_signal
              then '', and SIGKILL '' @ gap @ '' later, after a second terminal signal arrived''
              else if sr_reason kill = sr_reason first_term
              then '', and SIGKILL '' @ gap @ '' later because it was still running''
              else []))"

definition action_clause :: "report_v1 \<Rightarrow> string" where
  "action_clause report =
     (let signals = rep_signals report;
          first_term = map_option (\<lambda>index. (index, signals ! index))
            (position (is_group_signal TERM_SIGNAL) signals);
          requested = List.find (\<lambda>s. sr_target s = Target_CooperativeEndpoint
            \<and> sr_result s = Sig_Delivered) signals
      in case requested of
           Some request \<Rightarrow>
             (let asked = ''asked the command to save a checkpoint at ''
                    @ format_duration_ms (sr_at_ms request)
              in case first_term of
                   Some (index, s) \<Rightarrow>
                     (if sr_result s = Sig_Delivered
                      then asked @ '' and then sent SIGTERM to its process group'' @ kill_suffix signals index
                      else if sr_result s = Sig_ProcessMissing
                      then asked @ ''; the command ended before the SIGTERM that followed could reach it''
                        @ kill_suffix signals index
                      else asked)
                 | None \<Rightarrow> asked)
         | None \<Rightarrow>
             (let otherwise =
                (case List.find (delivered_to_group KILL_SIGNAL) signals of
                   Some kill \<Rightarrow> sent_to_group KILL_SIGNAL (sr_at_ms kill)
                 | None \<Rightarrow> ''stopped the command at '' @ format_duration_ms (to_at_ms (rep_outcome report)))
              in case first_term of
                   Some (index, s) \<Rightarrow>
                     (if sr_result s = Sig_Delivered
                      then sent_to_group TERM_SIGNAL (sr_at_ms s) @ kill_suffix signals index
                      else if sr_result s = Sig_ProcessMissing
                      then ''found the command already ended when it sent SIGTERM at ''
                        @ format_duration_ms (sr_at_ms s) @ kill_suffix signals index
                      else otherwise)
                 | None \<Rightarrow> otherwise))"

definition checkpoint_clause :: "report_v1 \<Rightarrow> string" where
  "checkpoint_clause report =
     (let checkpoint = rep_checkpoint report in
      case (ck_status checkpoint, ck_request_id checkpoint) of
        (Status_AcknowledgedUnverifiedDurability, Some i) \<Rightarrow>
          '' The command acknowledged checkpoint request '' @ show_word i @ ''.''
      | (Status_TimedOut, Some i) \<Rightarrow>
          (case rc_checkpoint_timeout_ms (rep_configuration report) of
             None \<Rightarrow> []
           | Some timeout \<Rightarrow>
               '' The command did not acknowledge checkpoint request '' @ show_word i @ '' within ''
               @ format_duration_ms timeout @ ''; it may still have saved it.'')
      | (Status_RequestedUnverified, Some i) \<Rightarrow>
          '' The command had not acknowledged checkpoint request '' @ show_word i @ '' when it ended.''
      | (Status_RequestedUnverified, None) \<Rightarrow> '' A checkpoint was requested but not acknowledged.''
      | (Status_Cancelled, _) \<Rightarrow> '' The checkpoint request could not be delivered.''
      | _ \<Rightarrow> [])"

definition resume_clause :: "report_v1 \<Rightarrow> string" where
  "resume_clause report =
     (case (ck_status (rep_checkpoint report), ck_request_id (rep_checkpoint report)) of
        (Status_AcknowledgedUnverifiedDurability, Some i) \<Rightarrow>
          ''; resume from the state saved for checkpoint request '' @ show_word i
      | (Status_TimedOut, Some i) \<Rightarrow>
          ''; if the command saved state for checkpoint request '' @ show_word i @ '', resume from it''
      | _ \<Rightarrow> [])"

section \<open>Rows backed by a report\<close>

definition child_exited :: "u8 \<Rightarrow> lines option" where
  "child_exited code =
     (if code \<in> set COLLISION_CODES
      then Some (lines_new
        (''the command itself exited with code '' @ show_word code
         @ '', and mlx-guard did not intervene; '' @ show_word code
         @ '' is also one of mlx-guard's own exit codes.'')
        ''read the command's own output; the report's outcome.kind is child_exited.''
        ANCHOR_COLLISION)
      else None)"

definition child_signaled :: "report_v1 \<Rightarrow> u8 \<Rightarrow> lines" where
  "child_signaled report signal =
     (let passed_on = list_ex (\<lambda>s. sr_reason s = Some Reason_ExternalSignal
            \<and> sr_result s = Sig_Delivered \<and> sr_signal s = signal) (rep_signals report);
          name = signal_name signal
      in if passed_on
         then lines_new
           (if signal = KILL_SIGNAL
            then (''the command ended on SIGKILL, which mlx-guard sent after a second terminal signal ''
             @ ''arrived.'')
            else ''the command ended on '' @ name @ '', which mlx-guard received and passed on to it.'')
           ''nothing to do if you sent it.'' ANCHOR_PASSED_ON
         else
           (let happened = ''the command ended on '' @ name @ '', and it did not come from mlx-guard'' in
            if signal = KILL_SIGNAL
            then lines_new
              (happened @ ''; something else stopped it, and macOS can do this when memory runs short.'')
              (''check the command's own output and the macOS logs; if memory ran short, set ''
               @ ''--max-footprint (with mlx-guard run) below that point so mlx-guard stops the ''
               @ ''command first.'')
              ANCHOR_ELSEWHERE
            else lines_new (happened @ ''.'')
              ''the command's own output or its macOS crash report says why.'' ANCHOR_ELSEWHERE))"

definition launch_setting :: lines where
  "launch_setting = lines_new
     (''mlx-guard refused a launch setting before starting the command, so nothing ran; the ''
      @ ''error line on stderr names the setting.'')
     (''--cwd must name an existing directory, and --env must not set ''
      @ ''MLX_GUARD_CHECKPOINT_FD; fix the one named, and give the retry a new --report name, ''
      @ ''because this run kept its report.'')
     ANCHOR_LAUNCH_SETTING"

definition not_executable :: lines where
  "not_executable = lines_new
     ''the file named after -- exists but could not be run, so nothing was launched.''
     (''make it executable (chmod +x) or put its interpreter first, as in -- python ''
      @ ''script.py; give the retry a new --report name, because this run kept its report.'')
     ANCHOR_NOT_EXECUTABLE"

definition not_found :: lines where
  "not_found = lines_new
     ''no executable was found for the command named after --, so nothing was launched.''
     (''check the spelling, give the full path, or activate the environment that provides ''
      @ ''it; give the retry a new --report name, because this run kept its report.'')
     ANCHOR_NOT_FOUND"

definition while_starting :: lines where
  "while_starting = lines_new
     (''mlx-guard could not finish starting the run, so it supervised nothing; the error ''
      @ ''line on stderr names the step.'')
     ''run it again; if it repeats, open an issue with that error line and the redacted report.''
     ANCHOR_WHILE_STARTING"

text \<open>The first group signal that neither arrived nor found the group ended, with its result.\<close>

definition undelivered :: "signal_record \<Rightarrow> (u8 \<times> string) option" where
  "undelivered s =
     (if sr_target s \<noteq> Target_OwnedProcessGroup then None
      else case sr_result s of
        Sig_PermissionDenied \<Rightarrow> Some (sr_signal s, ''permission denied'')
      | Sig_Failed \<Rightarrow> Some (sr_signal s, ''failed'')
      | Sig_Delivered \<Rightarrow> None
      | Sig_ProcessMissing \<Rightarrow> None)"

fun find_map :: "('a \<Rightarrow> 'b option) \<Rightarrow> 'a list \<Rightarrow> 'b option" where
  "find_map f [] = None"
| "find_map f (x # xs) = (case f x of Some y \<Rightarrow> Some y | None \<Rightarrow> find_map f xs)"

definition not_delivered :: "report_v1 \<Rightarrow> lines option" where
  "not_delivered report =
     map_option (\<lambda>(signal, words). lines_new
         (''mlx-guard could not deliver '' @ signal_name signal
          @ ('' to the command's process group, which still had a live member or could not be ''
           @ ''checked (result: '')
          @ words @ '').'')
         (''check whether the command is still running and stop it yourself, then open an issue ''
          @ ''with the redacted report.'')
         ANCHOR_NOT_DELIVERED)
       (find_map undelivered (rep_signals report))"

fun error_words :: "observation_error \<Rightarrow> string" where
  "error_words Obs_PermissionDenied = ''permission denied''"
| "error_words Obs_ProcessMissing = ''a process disappeared''"
| "error_words Obs_MalformedKernelData = ''the kernel returned malformed data''"
| "error_words Obs_ClockAnomaly = ''the clock went backwards''"
| "error_words Obs_Internal = ''an internal error''"

definition last_reading :: "report_v1 \<Rightarrow> string" where
  "last_reading report =
     (let shown = (\<lambda>words. '' (last reading: '' @ words @ '')'') in
      case (if rep_samples report = [] then None
            else Some (sw_aggregate_footprint_bytes (last (rep_samples report)))) of
        None \<Rightarrow> []
      | Some (Available _) \<Rightarrow> []
      | Some (ObsError code) \<Rightarrow> shown (error_words code)
      | Some (Stale _) \<Rightarrow> shown ''the reading was too old''
      | Some (Unavailable _) \<Rightarrow> shown ''no reading''
      | Some Unknown \<Rightarrow> shown ''no reading'')"

definition readings_lost_row :: "report_v1 \<Rightarrow> lines" where
  "readings_lost_row report =
     (let lost = ''mlx-guard could not read the OS-accounted footprint for ''
            @ show_word (rc_max_missing_samples (rep_configuration report)) @ '' samples in a row''
            @ last_reading report
      in case rc_mode (rep_configuration report) of
           ReportEnforce \<Rightarrow> lines_new
             (lost @ '', so it stopped the command rather than let it run unwatched: it ''
              @ action_clause report @ ''.'')
             ''run it again on a less loaded machine; if it repeats, open an issue with the redacted report.''
             ANCHOR_READINGS_LOST
         | ReportObserve \<Rightarrow> lines_new
             (lost @ '', so observation ended at '' @ format_duration_ms (to_at_ms (rep_outcome report))
              @ ''. Observe mode does not stop the command, so it may still be running.'')
             (''check whether the command is still running and stop it yourself if you need to, ''
              @ ''then observe again.'')
             ANCHOR_READINGS_LOST)"

definition internal_failure :: "report_v1 \<Rightarrow> lines" where
  "internal_failure report =
     (let sent = (case List.find (delivered_to_group TERM_SIGNAL) (rep_signals report) of
            None \<Rightarrow> []
          | Some s \<Rightarrow> '', and it '' @ sent_to_group TERM_SIGNAL (sr_at_ms s))
      in lines_new
        (''mlx-guard hit an internal failure while supervising'' @ sent
         @ ''; the error line on stderr names it.'')
        (''check whether the command is still running, then run it again; if it repeats, open ''
         @ ''an issue with that error line and the redacted report.'')
        ANCHOR_INTERNAL)"

definition readings_lost :: "report_v1 \<Rightarrow> bool" where
  "readings_lost report \<longleftrightarrow>
     list_ex (\<lambda>s. sr_reason s = Some Reason_ObservationFailure) (rep_signals report)
     \<or> rc_mode (rep_configuration report) = ReportObserve
       \<and> list_ex (\<lambda>t. tr_to t = SupervisorError) (rep_transitions report)"

definition supervisor_failure :: "report_v1 \<Rightarrow> lines" where
  "supervisor_failure report =
     (if rep_samples report = [] \<and> to_at_ms (rep_outcome report) = 0 then while_starting
      else case (if rc_mode (rep_configuration report) = ReportEnforce
                 then not_delivered report else None) of
        Some l \<Rightarrow> l
      | None \<Rightarrow>
          (if readings_lost report then readings_lost_row report else internal_failure report))"

definition emergency :: "report_v1 \<Rightarrow> lines option" where
  "emergency report =
     (case List.find (\<lambda>t. (tr_from t = Normal \<or> tr_from t = Warning) \<and> tr_to t = Emergency)
             (rep_transitions report) of
        None \<Rightarrow> None
      | Some transition \<Rightarrow>
     (case tr_aggregate_footprint_bytes transition of None \<Rightarrow> None | Some v \<Rightarrow>
     (case rc_emergency_footprint_bytes (rep_configuration report) of None \<Rightarrow> None | Some threshold \<Rightarrow>
     (case rc_max_footprint_bytes (rep_configuration report) of None \<Rightarrow> None | Some limit \<Rightarrow>
     (case first_group_signal report KILL_SIGNAL of None \<Rightarrow> None | Some kill \<Rightarrow>
       (let sent_at = format_duration_ms (sr_at_ms kill);
            action = (case sr_result kill of
              Sig_Delivered \<Rightarrow> Some (''sent SIGKILL to the command's process group at once at '' @ sent_at
                @ '', with no checkpoint and no grace period'')
            | Sig_ProcessMissing \<Rightarrow>
                Some (''found the command already ended when it sent SIGKILL at '' @ sent_at)
            | Sig_PermissionDenied \<Rightarrow> None
            | Sig_Failed \<Rightarrow> None);
            shown = compared_bytes [v, threshold, limit]
        in map_option (\<lambda>action. lines_new
             (''one sample of the OS-accounted footprint, '' @ shown ! 0
              @ '', was at or above the emergency threshold of '' @ shown ! 1 @ '', which is ''
              @ format_bytes (sat_sub threshold limit) @ '' more than your '' @ shown ! 2
              @ '' limit, so mlx-guard '' @ action @ ''.'')
             (''find what allocates that much between samples, or raise --max-footprint if that ''
              @ ''peak is expected; a shorter --sample-interval sees growth sooner.'')
             ANCHOR_EMERGENCY) action))))))"

definition breach_footprint :: "report_v1 \<Rightarrow> u64 option" where
  "breach_footprint report =
     (case List.find (\<lambda>t. tr_from t = Warning
             \<and> (tr_to t = CheckpointRequested \<or> tr_to t = Terminating)) (rep_transitions report) of
        None \<Rightarrow> None
      | Some t \<Rightarrow> tr_aggregate_footprint_bytes t)"

definition footprint_row :: "report_v1 \<Rightarrow> lines option" where
  "footprint_row report =
     map_option (\<lambda>limit.
       let samples = show_word (rc_required_breach_samples (rep_configuration report));
           measured = (case breach_footprint report of
               Some v \<Rightarrow>
                 (let shown = compared_bytes [v, limit] in
                  ''reached '' @ shown ! 0 @ '', at or above the '' @ shown ! 1 @ '' limit you set, on ''
                  @ samples @ '' samples in a row'')
             | None \<Rightarrow>
                 ''was at or above the '' @ format_bytes limit @ '' limit you set on '' @ samples
                 @ '' samples in a row'')
       in lines_new
         (''the OS-accounted footprint '' @ measured @ '', so mlx-guard '' @ action_clause report @ ''.''
          @ checkpoint_clause report)
         (''observe the command to see its peak, then fix the growth or raise --max-footprint''
          @ resume_clause report @ ''.'')
         ANCHOR_FOOTPRINT)
       (rc_max_footprint_bytes (rep_configuration report))"

definition wall_time_row :: "report_v1 \<Rightarrow> lines option" where
  "wall_time_row report =
     map_option (\<lambda>wall. lines_new
         (''the run reached the '' @ format_duration_ms wall
          @ '' wall-time limit you set, so mlx-guard '' @ action_clause report @ ''.''
          @ checkpoint_clause report)
         (''raise --wall-time if the command needs longer, or find out why it ran longer than expected''
          @ resume_clause report @ ''.'')
         ANCHOR_WALL)
       (rc_wall_time_ms (rep_configuration report))"

definition parent_exit_row :: "report_v1 \<Rightarrow> lines option" where
  "parent_exit_row report =
     map_option (\<lambda>parent. lines_new
         (''the process that started mlx-guard exited at '' @ format_duration_ms parent
          @ '', and the default --on-parent-exit=terminate stops the command with it, so mlx-guard ''
          @ action_clause report @ ''.'')
         (''keep the launching process running until the run ends, or pass ''
          @ ''--on-parent-exit=detach to let the command outlive it.'')
         ANCHOR_PARENT)
       (to_parent_exited_at_ms (rep_outcome report))"

definition limit_reason :: "signal_record \<Rightarrow> signal_reason option" where
  "limit_reason s =
     (case sr_reason s of
        Some Reason_Footprint \<Rightarrow> Some Reason_Footprint
      | Some Reason_WallTime \<Rightarrow> Some Reason_WallTime
      | Some Reason_ParentExit \<Rightarrow> Some Reason_ParentExit
      | _ \<Rightarrow> None)"

definition recorded_cause :: "report_v1 \<Rightarrow> lines option" where
  "recorded_cause report =
     (case (case ck_reason (rep_checkpoint report) of
              Some reason \<Rightarrow> Some reason
            | None \<Rightarrow> find_map limit_reason (rep_signals report)) of
        Some Reason_Footprint \<Rightarrow> footprint_row report
      | Some Reason_WallTime \<Rightarrow> wall_time_row report
      | Some Reason_ParentExit \<Rightarrow> parent_exit_row report
      | _ \<Rightarrow> None)"

definition ignored_signal :: "report_v1 \<Rightarrow> lines option" where
  "ignored_signal report =
     (case position (\<lambda>s. is_group_signal KILL_SIGNAL s \<and> sr_reason s = Some Reason_ExternalSignal)
             (rep_signals report) of
        None \<Rightarrow> None
      | Some kill_index \<Rightarrow>
          (let kill = rep_signals report ! kill_index in
           if sr_result kill \<noteq> Sig_Delivered then None
           else map_option (\<lambda>forwarded. lines_new
               (''the command was still running after the '' @ signal_name (sr_signal forwarded)
                @ '' that mlx-guard passed on to it, so mlx-guard sent SIGKILL to its process group at ''
                @ format_duration_ms (sr_at_ms kill) @ ''.'')
               (''nothing, if you meant to stop it; otherwise make the command exit when it receives ''
                @ ''SIGINT or SIGTERM.'')
               ANCHOR_IGNORED_SIGNAL)
             (List.find (\<lambda>s. sr_reason s = Some Reason_ExternalSignal \<and> sr_result s = Sig_Delivered)
                (take kill_index (rep_signals report)))))"

definition survivors :: "report_v1 \<Rightarrow> lines option" where
  "survivors report =
     (if \<not> list_ex (\<lambda>s. sr_reason s = Some Reason_RootExitCleanup) (rep_signals report) then None
      else case first_group_signal report KILL_SIGNAL of
        None \<Rightarrow> None
      | Some kill \<Rightarrow>
          (let sent_at = format_duration_ms (sr_at_ms kill);
               action = (case sr_result kill of
                 Sig_Delivered \<Rightarrow> Some (''sent SIGKILL to them at '' @ sent_at)
               | Sig_ProcessMissing \<Rightarrow>
                   Some (''found them already ended when it sent SIGKILL at '' @ sent_at)
               | Sig_PermissionDenied \<Rightarrow> None
               | Sig_Failed \<Rightarrow> None)
           in map_option (\<lambda>action. lines_new
                ((''the command exited, but processes it started were still running after SIGTERM, so ''
                 @ ''mlx-guard '')
                 @ action
                 @ ''; the command's own exit status is in the report under outcome.child_status.'')
                ''make the command wait for, or stop, the processes it starts before it exits.''
                ANCHOR_SURVIVORS) action))"

definition reasons_recorded :: "report_v1 \<Rightarrow> bool" where
  "reasons_recorded report \<longleftrightarrow>
     ck_reason (rep_checkpoint report) \<noteq> None
     \<or> list_ex (\<lambda>s. sr_reason s \<noteq> None) (rep_signals report)"

definition unrecorded :: "report_v1 \<Rightarrow> lines" where
  "unrecorded report =
     (if reasons_recorded report
      then lines_new
        (''mlx-guard '' @ action_clause report @ ''.'' @ checkpoint_clause report)
        ''read signals in the report to see what mlx-guard did; no limit was crossed.''
        ANCHOR_UNRECORDED
      else lines_new
        (''mlx-guard '' @ action_clause report
         @ '', and this report does not record which limit caused it.'' @ checkpoint_clause report)
        ''read signals and transitions in the report to see which limit was crossed.''
        ANCHOR_UNRECORDED)"

definition policy_intervention :: "report_v1 \<Rightarrow> lines" where
  "policy_intervention report =
     (case emergency report of Some l \<Rightarrow> l | None \<Rightarrow>
     (case recorded_cause report of Some l \<Rightarrow> l | None \<Rightarrow>
     (case ignored_signal report of Some l \<Rightarrow> l | None \<Rightarrow>
     (case survivors report of Some l \<Rightarrow> l | None \<Rightarrow> unrecorded report))))"

text \<open>The detail in parentheses that some rows carry.\<close>

definition in_parentheses :: "string option \<Rightarrow> string" where
  "in_parentheses detail = (case detail of None \<Rightarrow> [] | Some words \<Rightarrow> '' ('' @ words @ ('')''))"

definition after_launch :: "string option \<Rightarrow> lines" where
  "after_launch detail = lines_new
     (''the command was supervised, but mlx-guard could not write its complete report''
      @ in_parentheses detail @ ''; safety enforcement was not affected.'')
     (''check free disk space and that nothing else changed the report directory during the ''
      @ ''run; the hidden .<name>.journal beside the report path keeps what was saved. Use a ''
      @ ''new --report name next time.'')
     ANCHOR_AFTER_LAUNCH"

definition explain_report :: "report_v1 \<Rightarrow> plain_outcome option" where
  "explain_report report =
     map_option (\<lambda>l. with_version l (rep_package_version report))
       (case to_kind (rep_outcome report) of
          Kind_ChildExited code \<Rightarrow> child_exited code
        | Kind_ChildSignaled signal \<Rightarrow> Some (child_signaled report signal)
        | Kind_InvalidConfiguration \<Rightarrow> Some launch_setting
        | Kind_LaunchNotExecutable \<Rightarrow> Some not_executable
        | Kind_LaunchNotFound \<Rightarrow> Some not_found
        | Kind_SupervisorFailure \<Rightarrow> Some (supervisor_failure report)
        | Kind_PolicyIntervention \<Rightarrow> Some (policy_intervention report)
        | Kind_PartialArtifactFailure \<Rightarrow> Some (after_launch None))"

section \<open>Rows without a report\<close>

definition command_line :: "string option \<Rightarrow> lines" where
  "command_line flag =
     (let shown = map_option (\<lambda>flag. if flag = ''<COMMAND>'' then ''the command after --'' else flag) flag
      in lines_new
        (''the command line was not accepted'' @ in_parentheses shown
         @ '', so nothing was launched and no report was written.'')
        (''fix '' @ (case shown of None \<Rightarrow> ''the command line'' | Some flag \<Rightarrow> flag)
         @ '' as the error above says, then run the command again.'')
        ANCHOR_COMMAND_LINE)"

definition client_ready :: lines where
  "client_ready = lines_new
     (''the internal --client-ready-fd descriptor could not be used, so nothing was ''
      @ ''launched and no report was written.'')
     (''leave --client-ready-fd out when you run mlx-guard yourself; it is for the Python ''
      @ ''client. If the Python client produced this, open an issue.'')
     ANCHOR_COMMAND_LINE"

definition configuration_row :: lines where
  "configuration_row = lines_new
     (''a setting was rejected before launch (the error above names it), so nothing was ''
      @ ''launched and no report was written.'')
     ''fix that setting and run the command again.''
     ANCHOR_COMMAND_LINE"

definition unsupported_platform :: lines where
  "unsupported_platform = lines_new
     ''mlx-guard needs macOS to read the OS-accounted footprint, so it launched nothing and wrote no report.''
     ''run it on a Mac with Apple Silicon.''
     ANCHOR_BEFORE_LAUNCH_70"

definition footprint_unavailable :: lines where
  "footprint_unavailable = lines_new
     (''mlx-guard could not read the OS-accounted footprint on this Mac, so it launched ''
      @ ''nothing and wrote no report.'')
     (''check the compatibility page for your macOS version, then open an issue with your ''
      @ ''macOS version and chip.'')
     ANCHOR_BEFORE_LAUNCH_70"

definition run_identity_row :: lines where
  "run_identity_row = lines_new
     ''mlx-guard could not set up the run's identity, so it launched nothing and wrote no report.''
     (''make sure the command after -- names a file (an empty string or / does not); if it ''
      @ ''does, open an issue.'')
     ANCHOR_BEFORE_LAUNCH_70"

definition supervisor_setup :: lines where
  "supervisor_setup = lines_new
     ''mlx-guard could not set up its own supervision, so it launched nothing and wrote no report.''
     ''run it again; if it repeats, open an issue with the error line above.''
     ANCHOR_BEFORE_LAUNCH_70"

fun storage_detail :: "storage_class \<Rightarrow> string option" where
  "storage_detail Class_CreateFailed = Some ''the journal could not be created''"
| "storage_detail Class_WriteFailed = Some ''a write failed''"
| "storage_detail Class_SyncFailed = Some ''a sync to disk failed''"
| "storage_detail Class_ReadFailed = Some ''reading the journal back failed''"
| "storage_detail Class_InvalidRecord = Some ''a journal record was invalid''"
| "storage_detail Class_UnsafeTarget = Some ''the report path is a link or another kind of file''"
| "storage_detail Class_FinalizeFailed = Some ''the final report could not be written''"
| "storage_detail _ = None"

definition path_used :: lines where
  "path_used = lines_new
     (''an earlier run already used this report path, and its report and hidden journal are ''
      @ ''kept, so nothing was launched.'')
     (''pass a new --report name, or move both the report and its hidden .<name>.journal ''
      @ ''away before reusing the path.'')
     ANCHOR_PATH_USED"

definition report_directory :: lines where
  "report_directory = lines_new
     ''the report directory is missing, not yours, or not owner-only (mode 0700), so nothing was launched.''
     ''create the directory with mkdir -m 700, or fix its owner and mode, then run again.''
     ANCHOR_DIRECTORY"

definition before_launch :: "string option \<Rightarrow> lines" where
  "before_launch detail = lines_new
     (''mlx-guard could not prepare its journal'' @ in_parentheses detail @ '', so nothing was launched.'')
     (''check free disk space, then pass a new --report name or move the hidden ''
      @ ''.<name>.journal file away, and run again.'')
     ANCHOR_BEFORE_LAUNCH_74"

definition start_unfinished :: "string option \<Rightarrow> lines" where
  "start_unfinished detail = lines_new
     (''mlx-guard could not finish starting the run, and could not write its report''
      @ in_parentheses detail @ '', so it supervised nothing.'')
     (''check free disk space and the report directory, then run again with a new --report ''
      @ ''name; the error lines above name the step.'')
     ANCHOR_AFTER_LAUNCH"

definition ended_while_starting :: "string option \<Rightarrow> lines" where
  "ended_while_starting detail = lines_new
     ((''the command ended while mlx-guard was still starting to supervise it, and mlx-guard ''
      @ ''could not write its report'')
      @ in_parentheses detail @ ''.'')
     ''check free disk space and the report directory, then run again with a new --report name.''
     ANCHOR_AFTER_LAUNCH"

definition launch_failed :: lines where
  "launch_failed = lines_new
     (''the command could not be launched, and mlx-guard could not finish the report about ''
      @ ''that, so the cause is not recorded.'')
     (''check free disk space and the report directory, then run again with a new --report ''
      @ ''name to see the launch error.'')
     ANCHOR_AFTER_LAUNCH"

definition storage_row :: "storage_class \<Rightarrow> storage_phase \<Rightarrow> lines" where
  "storage_row kind phase =
     (if kind = Class_JournalExists then path_used
      else case phase of
        BeforeLaunch \<Rightarrow>
          (if kind = Class_UnsafeDirectory \<or> kind = Class_InvalidPath then report_directory
           else before_launch (storage_detail kind))
      | LaunchFailed \<Rightarrow> launch_failed
      | StartUnfinished \<Rightarrow> start_unfinished (storage_detail kind)
      | EndedWhileStarting \<Rightarrow> ended_while_starting (storage_detail kind)
      | AfterLaunch \<Rightarrow> after_launch (storage_detail kind))"

text \<open>\<open>version\<close> is the version of the binary, fixed when it is built.\<close>

definition explain_early :: "string \<Rightarrow> early_cause \<Rightarrow> plain_outcome" where
  "explain_early version cause =
     with_version
       (case cause of
          Early_CommandLine flag \<Rightarrow> command_line flag
        | Early_ClientReadyDescriptor \<Rightarrow> client_ready
        | Early_Configuration \<Rightarrow> configuration_row
        | Early_UnsupportedPlatform \<Rightarrow> unsupported_platform
        | Early_FootprintUnavailable \<Rightarrow> footprint_unavailable
        | Early_RunIdentity \<Rightarrow> run_identity_row
        | Early_SupervisorSetup \<Rightarrow> supervisor_setup
        | Early_Storage kind phase \<Rightarrow> storage_row kind phase)
       version"

end
