(* ===== verification/Explain_Props.thy ===== *)
theory Explain_Props
  imports Explain Cli Report_Props "HOL-Library.Sublist"
begin

text \<open>
  What the two plain lines promise: numbers are rendered exactly or rounded correctly, values that
  a sentence compares look different when they differ, a sentence names a signal only if the report
  has a record that bears it out, and the output is always two lines of printable text.
\<close>

section \<open>Numbers\<close>

lemma byte_of_digit_char: "d < 10 \<Longrightarrow> byte_of (digit_char d) = 48 + d"
  by (simp add: digit_char_def of_char_of)

lemma decimal_snoc: "decimal (s @ [c]) = decimal s * 10 + (byte_of c - 48)"
  by (simp add: decimal_def)

text \<open>What the command line parses is what is printed.\<close>

lemma decimal_show_nat [simp]: "decimal (show_nat n) = n"
proof (induction n rule: show_nat.induct)
  case (1 n)
  show ?case
  proof (cases "n < 10")
    case True
    then show ?thesis by (subst show_nat.simps) (simp add: decimal_def byte_of_digit_char)
  next
    case False
    with 1 show ?thesis
      by (subst show_nat.simps) (simp add: decimal_snoc byte_of_digit_char)
  qed
qed

lemma show_nat_inject [simp]: "show_nat m = show_nat n \<longleftrightarrow> m = n"
  using decimal_show_nat by metis

lemma show_nat_digits: "c \<in> set (show_nat n) \<Longrightarrow> ascii_digit c"
proof (induction n rule: show_nat.induct)
  case (1 n)
  have "ascii_digit (digit_char d)" if "d < 10" for d
    using that by (simp add: ascii_digit_def byte_of_digit_char)
  with 1 show ?case by (subst (asm) (2) show_nat.simps) (auto split: if_splits)
qed

text \<open>Dividing with rounding to the nearest.\<close>

lemma hundredths_nearest:
  assumes "0 < u" and "even u"
  shows "2 * \<bar>int (hundredths v u * u) - int (v * 100)\<bar> \<le> int u"
proof -
  define a m h where "a = hundredths v u * u" and "m = (v * 100 + u div 2) mod u" and "h = u div 2"
  have "a + m = v * 100 + h" by (simp add: a_def m_def h_def hundredths_def)
  then have "int a + int m = int (v * 100) + int h" by (metis of_nat_add)
  moreover have "int m < int u" using assms(1) by (simp add: m_def)
  moreover have "0 \<le> int m" by simp
  moreover have "2 * int h = int u" using assms(2) unfolding h_def by presburger
  ultimately have "2 * \<bar>int a - int (v * 100)\<bar> \<le> int u" by (simp add: abs_if split: if_splits)
  then show ?thesis by (simp add: a_def)
qed

lemma units [simp]:
  "fst (UNITS ! 0) = 1024" "fst (UNITS ! Suc 0) = 1048576" "fst (UNITS ! 2) = 1073741824" "length UNITS = 3"
  by (simp_all add: UNITS_def)

text \<open>The unit chosen for a value, and the text that shows the value in a unit.\<close>

definition shown_unit :: "nat \<Rightarrow> nat option" where
  "shown_unit v = map_option (\<lambda>i. if 102400 \<le> hundredths v (fst (UNITS ! i)) \<and> i + 1 < 3 then i + 1 else i)
     (rposition (\<lambda>(u, _). u \<le> v) UNITS)"

definition shown_in :: "nat \<Rightarrow> nat \<Rightarrow> string" where
  "shown_in r k = show_nat (r div 100) @ ''.'' @ show_02 (r mod 100) @ '' '' @ snd (UNITS ! k)"

lemma format_bytes_shown:
  "format_bytes bytes = (case shown_unit (unat bytes) of
      None \<Rightarrow> show_word bytes @ '' B''
    | Some k \<Rightarrow> shown_in (hundredths (unat bytes) (fst (UNITS ! k))) k)"
  by (cases "rposition (\<lambda>(u, _). u \<le> unat bytes) UNITS")
    (simp_all add: format_bytes_def shown_unit_def shown_in_def Let_def)

lemma hundredths_bounds:
  assumes "0 < u"
  shows "c \<le> hundredths v u \<longleftrightarrow> c * u \<le> v * 100 + u div 2"
    and "hundredths v u < c \<longleftrightarrow> v * 100 + u div 2 < c * u"
  using assms by (simp_all add: hundredths_def less_eq_div_iff_mult_less_eq div_less_iff_less_mult)

lemma unit_fits:
  "shown_unit v = None \<longleftrightarrow> v < 1024"
  "shown_unit v = Some k \<Longrightarrow> k < 3 \<and> 100 \<le> hundredths v (fst (UNITS ! k))
     \<and> (k < 2 \<longrightarrow> hundredths v (fst (UNITS ! k)) < 102400)"
proof -
  consider "v < 1024" | "1024 \<le> v" "v < 1048576" | "1048576 \<le> v" "v < 1073741824" | "1073741824 \<le> v"
    by linarith
  then have "(shown_unit v = None \<longleftrightarrow> v < 1024) \<and> (\<forall>k. shown_unit v = Some k \<longrightarrow>
      k < 3 \<and> 100 \<le> hundredths v (fst (UNITS ! k)) \<and> (k < 2 \<longrightarrow> hundredths v (fst (UNITS ! k)) < 102400))"
  proof cases
    case 1
    then show ?thesis by (simp add: shown_unit_def UNITS_def)
  next
    case 2
    then have "rposition (\<lambda>(u, _). u \<le> v) UNITS = Some 0" by (simp add: UNITS_def)
    with 2 show ?thesis by (auto simp: shown_unit_def hundredths_bounds)
  next
    case 3
    then have "rposition (\<lambda>(u, _). u \<le> v) UNITS = Some 1" by (simp add: UNITS_def)
    with 3 show ?thesis by (auto simp: shown_unit_def hundredths_bounds numeral_2_eq_2 [symmetric])
  next
    case 4
    then have "rposition (\<lambda>(u, _). u \<le> v) UNITS = Some 2" by (simp add: UNITS_def)
    with 4 show ?thesis by (auto simp: shown_unit_def hundredths_bounds)
  qed
  then show "shown_unit v = None \<longleftrightarrow> v < 1024"
    "shown_unit v = Some k \<Longrightarrow> k < 3 \<and> 100 \<le> hundredths v (fst (UNITS ! k))
       \<and> (k < 2 \<longrightarrow> hundredths v (fst (UNITS ! k)) < 102400)" by blast+
qed

text \<open>C36. Byte quantities are rounded, never distorted. Below 1 KiB the exact count is printed; from
  there on the printed hundredths differ from the true value by at most half a hundredth of the unit
  shown, at least one whole unit is shown, and KiB and MiB figures stay below 1024.\<close>

theorem bytes_are_rounded:
  "if unat bytes < 1024 then format_bytes bytes = show_word bytes @ '' B''
   else \<exists>k r. k < 3
     \<and> format_bytes bytes = show_nat (r div 100) @ ''.'' @ show_02 (r mod 100) @ '' '' @ snd (UNITS ! k)
     \<and> 2 * \<bar>int (r * fst (UNITS ! k)) - int (unat bytes * 100)\<bar> \<le> int (fst (UNITS ! k))
     \<and> 100 \<le> r \<and> (k < 2 \<longrightarrow> r < 102400)"
proof (cases "shown_unit (unat bytes)")
  case None
  with unit_fits(1) [of "unat bytes"] show ?thesis by (simp add: format_bytes_shown)
next
  case (Some k)
  have "0 < fst (UNITS ! k)" "even (fst (UNITS ! k))" if "k < 3"
  proof -
    from that consider "k = 0" | "k = Suc 0" | "k = 2" by linarith
    then show "0 < fst (UNITS ! k)" "even (fst (UNITS ! k))" by (cases; simp)+
  qed
  with Some unit_fits [of "unat bytes"] hundredths_nearest [of "fst (UNITS ! k)" "unat bytes"] show ?thesis
    by (auto simp: format_bytes_shown shown_in_def)
qed

text \<open>Values that a sentence compares can be told apart: two of them are printed alike if and only
  if they are equal.\<close>

theorem compared_values_differ_visibly:
  assumes "i < length xs" and "j < length xs"
  shows "compared_bytes xs ! i = compared_bytes xs ! j \<longleftrightarrow> xs ! i = xs ! j"
proof -
  have clash: "ambiguous vs \<longleftrightarrow> (\<exists>i j. i < j \<and> j < length vs \<and> vs ! i \<noteq> vs ! j
      \<and> format_bytes (vs ! i) = format_bytes (vs ! j))" (is "_ \<longleftrightarrow> ?clash vs") for vs
  proof (induction vs)
    case (Cons v vs)
    have "?clash (v # vs) \<longleftrightarrow>
        (\<exists>j < length vs. v \<noteq> vs ! j \<and> format_bytes v = format_bytes (vs ! j)) \<or> ?clash vs"
      (is "_ \<longleftrightarrow> ?first \<or> _")
    proof
      assume "?clash (v # vs)"
      then obtain i j where ij: "i < j" "j < Suc (length vs)" "(v # vs) ! i \<noteq> (v # vs) ! j"
        "format_bytes ((v # vs) ! i) = format_bytes ((v # vs) ! j)" by auto
      then obtain j' where "j = Suc j'" by (cases j) auto
      with ij show "?first \<or> ?clash vs" by (cases i) auto
    next
      assume "?first \<or> ?clash vs"
      then show "?clash (v # vs)"
      proof
        assume ?first
        then obtain j where "j < length vs" "v \<noteq> vs ! j" "format_bytes v = format_bytes (vs ! j)" by auto
        then show ?thesis by (intro exI [of _ 0] exI [of _ "Suc j"]) simp
      next
        assume "?clash vs"
        then obtain i j where "i < j" "j < length vs" "vs ! i \<noteq> vs ! j"
          "format_bytes (vs ! i) = format_bytes (vs ! j)" by auto
        then show ?thesis by (intro exI [of _ "Suc i"] exI [of _ "Suc j"]) simp
      qed
    qed
    with Cons show ?case by (auto simp: list_ex_length)
  qed simp
  show "compared_bytes xs ! i = compared_bytes xs ! j \<longleftrightarrow> xs ! i = xs ! j"
  proof (cases "ambiguous xs")
    case True
    with assms show ?thesis by (simp add: compared_bytes_def word_unat_eq_iff)
  next
    case False
    with clash [of xs] assms show ?thesis
      by (simp add: compared_bytes_def) (metis linorder_less_linear)
  qed
qed

text \<open>The characters of the rendered numbers.\<close>

definition number_chars :: "char set" where
  "number_chars = set ''0123456789 .BKMGibhmns''"

lemma number_chars_simps [simp]:
  "CHR ''0'' \<in> number_chars" "CHR '' '' \<in> number_chars" "CHR ''.'' \<in> number_chars"
  "CHR ''B'' \<in> number_chars" "CHR ''K'' \<in> number_chars" "CHR ''M'' \<in> number_chars"
  "CHR ''G'' \<in> number_chars" "CHR ''i'' \<in> number_chars" "CHR ''h'' \<in> number_chars"
  "CHR ''m'' \<in> number_chars" "CHR ''n'' \<in> number_chars" "CHR ''s'' \<in> number_chars"
  by (simp_all add: number_chars_def)

lemma digit_chars: "ascii_digit c \<Longrightarrow> c \<in> number_chars"
proof -
  assume "ascii_digit c"
  then have "byte_of c \<in> {48..<58}" by (auto simp: ascii_digit_def)
  then have "char_of (byte_of c) \<in> set (map char_of [48..<58])" by (metis imageI list.set_map set_upt)
  moreover have "list_all (\<lambda>c. c \<in> set ''0123456789 .BKMGibhmns'') (map char_of [48..<58])"
    by code_simp
  ultimately show ?thesis by (simp only: char_of_char number_chars_def list_all_iff)
qed

lemma show_nat_chars: "c \<in> set (show_nat n) \<Longrightarrow> c \<in> number_chars"
  by (rule digit_chars [OF show_nat_digits])

lemma show_02_chars: "c \<in> set (show_02 n) \<Longrightarrow> c \<in> number_chars"
  using show_nat_chars by (auto simp: show_02_def split: if_splits)

lemma unit_chars: "i < 3 \<Longrightarrow> c \<in> set (snd (UNITS ! i)) \<Longrightarrow> c \<in> number_chars"
  by (auto simp: UNITS_def less_Suc_eq numeral_3_eq_3)

lemma format_bytes_cases:
  obtains "format_bytes b = show_word b @ '' B''"
  | k r where "k < 3"
      "format_bytes b = show_nat (r div 100) @ ''.'' @ show_02 (r mod 100) @ '' '' @ snd (UNITS ! k)"
proof (cases "rposition (\<lambda>(u, _). u \<le> unat b) UNITS")
  case None
  then show ?thesis by (intro that(1)) (simp only: format_bytes_def Let_def option.case)
next
  case (Some i)
  then have "i < 3" by (auto simp: UNITS_def split: if_splits)
  moreover have "length UNITS = 3" by (simp add: UNITS_def)
  ultimately show ?thesis
    by (intro that(2) [of "if 102400 \<le> hundredths (unat b) (fst (UNITS ! i)) \<and> i + 1 < length UNITS
        then i + 1 else i"]) (simp, simp only: format_bytes_def Let_def Some option.case)
qed

lemma format_bytes_chars: "c \<in> set (format_bytes b) \<Longrightarrow> c \<in> number_chars"
  by (cases b rule: format_bytes_cases) (auto dest: show_nat_chars show_02_chars unit_chars)

lemma format_duration_chars: "c \<in> set (format_duration_ms t) \<Longrightarrow> c \<in> number_chars"
  by (auto simp: format_duration_ms_def Let_def dest: show_nat_chars split: if_splits)

section \<open>What a sentence names\<close>

lemma found: "List.find p xs = Some x \<Longrightarrow> x \<in> set xs \<and> p x"
  by (auto simp: find_Some_iff)

lemma position_found: "position p xs = Some i \<Longrightarrow> i < length xs \<and> p (xs ! i)"
  by (induction xs arbitrary: i) (auto split: if_splits)

text \<open>Three letters that each occur in one phrase only: of a KILL, a TERM, and a request.\<close>

lemma marks_not_in_numbers [simp]:
  "CHR ''L'' \<notin> set (format_duration_ms t)" "CHR ''T'' \<notin> set (format_duration_ms t)"
  "CHR ''k'' \<notin> set (format_duration_ms t)" "CHR ''L'' \<notin> set (format_bytes b)"
  "CHR ''L'' \<notin> set (show_nat n)"
proof -
  have "CHR ''L'' \<notin> number_chars" "CHR ''T'' \<notin> number_chars" "CHR ''k'' \<notin> number_chars"
    by (simp_all add: number_chars_def)
  then show "CHR ''L'' \<notin> set (format_duration_ms t)" "CHR ''T'' \<notin> set (format_duration_ms t)"
    "CHR ''k'' \<notin> set (format_duration_ms t)" "CHR ''L'' \<notin> set (format_bytes b)"
    "CHR ''L'' \<notin> set (show_nat n)"
    using format_duration_chars format_bytes_chars show_nat_chars by blast+
qed

lemma kill_suffix_marks:
  "CHR ''L'' \<in> set (kill_suffix ss i) \<Longrightarrow> \<exists>s\<in>set ss. delivered_to_group KILL_SIGNAL s"
  "CHR ''T'' \<notin> set (kill_suffix ss i)" "CHR ''k'' \<notin> set (kill_suffix ss i)"
proof -
  show "\<exists>s\<in>set ss. delivered_to_group KILL_SIGNAL s" if "CHR ''L'' \<in> set (kill_suffix ss i)"
  proof (cases "List.find (delivered_to_group KILL_SIGNAL) (drop (i + 1) ss)")
    case None
    with that show ?thesis by (simp add: kill_suffix_def Let_def)
  next
    case (Some s)
    from found [OF Some] show ?thesis by (blast dest: in_set_dropD)
  qed
  show "CHR ''T'' \<notin> set (kill_suffix ss i)" "CHR ''k'' \<notin> set (kill_suffix ss i)"
    by (simp_all add: kill_suffix_def Let_def split: option.splits)
qed

lemma sent_to_group_marks [simp]:
  "CHR ''L'' \<in> set (sent_to_group n t) \<longleftrightarrow> CHR ''L'' \<in> set (signal_name n)"
  "CHR ''T'' \<in> set (sent_to_group n t) \<longleftrightarrow> CHR ''T'' \<in> set (signal_name n)"
  "CHR ''k'' \<in> set (sent_to_group n t) \<longleftrightarrow> CHR ''k'' \<in> set (signal_name n)"
  by (simp_all add: sent_to_group_def)

lemma signal_name_simps [simp]:
  "signal_name KILL_SIGNAL = ''SIGKILL''" "signal_name TERM_SIGNAL = ''SIGTERM''"
  by (simp_all add: signal_name_def KILL_SIGNAL_def TERM_SIGNAL_def)

definition found_by_group :: "u8 \<Rightarrow> signal_record \<Rightarrow> bool" where
  "found_by_group signal s \<longleftrightarrow>
     is_group_signal signal s \<and> (sr_result s = Sig_Delivered \<or> sr_result s = Sig_ProcessMissing)"

text \<open>The clause has one of three beginnings.\<close>

lemma action_clause_cases:
  obtains (asked) request rest where "request \<in> set (rep_signals report)"
      "sr_target request = Target_CooperativeEndpoint" "sr_result request = Sig_Delivered"
      "action_clause report = ''asked the command to save a checkpoint at ''
        @ format_duration_ms (sr_at_ms request) @ rest"
      "rest = [] \<or> (\<exists>s\<in>set (rep_signals report). \<exists>i. found_by_group TERM_SIGNAL s
        \<and> rest \<in> {'' and then sent SIGTERM to its process group'' @ kill_suffix (rep_signals report) i,
             ''; the command ended before the SIGTERM that followed could reach it''
               @ kill_suffix (rep_signals report) i})"
  | (term_sent) s i where "s \<in> set (rep_signals report)" "found_by_group TERM_SIGNAL s"
      "action_clause report \<in> {sent_to_group TERM_SIGNAL (sr_at_ms s) @ kill_suffix (rep_signals report) i,
         ''found the command already ended when it sent SIGTERM at ''
           @ format_duration_ms (sr_at_ms s) @ kill_suffix (rep_signals report) i}"
  | (kill_sent) s where "s \<in> set (rep_signals report)" "delivered_to_group KILL_SIGNAL s"
      "action_clause report = sent_to_group KILL_SIGNAL (sr_at_ms s)"
  | (stopped) "action_clause report
      = ''stopped the command at '' @ format_duration_ms (to_at_ms (rep_outcome report))"
proof -
  let ?ss = "rep_signals report"
  let ?coop = "\<lambda>s. sr_target s = Target_CooperativeEndpoint \<and> sr_result s = Sig_Delivered"
  have at_term: "?ss ! i \<in> set ?ss \<and> is_group_signal TERM_SIGNAL (?ss ! i)"
    if "position (is_group_signal TERM_SIGNAL) ?ss = Some i" for i
    using position_found [OF that] by simp
  show thesis
  proof (cases "List.find ?coop ?ss")
    case (Some request)
    define rest where "rest = (case position (is_group_signal TERM_SIGNAL) ?ss of
        Some i \<Rightarrow> (if sr_result (?ss ! i) = Sig_Delivered
          then '' and then sent SIGTERM to its process group'' @ kill_suffix ?ss i
          else if sr_result (?ss ! i) = Sig_ProcessMissing
          then ''; the command ended before the SIGTERM that followed could reach it'' @ kill_suffix ?ss i
          else []) | None \<Rightarrow> [])"
    have "action_clause report = ''asked the command to save a checkpoint at ''
        @ format_duration_ms (sr_at_ms request) @ rest"
      by (cases "position (is_group_signal TERM_SIGNAL) ?ss")
        (simp_all add: action_clause_def Some rest_def Let_def)
    moreover have "rest = [] \<or> (\<exists>s\<in>set ?ss. \<exists>i. found_by_group TERM_SIGNAL s
        \<and> rest \<in> {'' and then sent SIGTERM to its process group'' @ kill_suffix ?ss i,
             ''; the command ended before the SIGTERM that followed could reach it'' @ kill_suffix ?ss i})"
    proof (cases "position (is_group_signal TERM_SIGNAL) ?ss")
      case pos: (Some i)
      from at_term [OF pos] show ?thesis
        by (auto simp: rest_def pos found_by_group_def intro!: bexI [of _ "?ss ! i"])
    qed (simp add: rest_def)
    ultimately show thesis using asked found [OF Some] by blast
  next
    case none: None
    define otherwise where "otherwise = (case List.find (delivered_to_group KILL_SIGNAL) ?ss of
        Some kill \<Rightarrow> sent_to_group KILL_SIGNAL (sr_at_ms kill)
      | None \<Rightarrow> ''stopped the command at '' @ format_duration_ms (to_at_ms (rep_outcome report)))"
    have otherwise: thesis if "action_clause report = otherwise"
    proof (cases "List.find (delivered_to_group KILL_SIGNAL) ?ss")
      case None
      with that show thesis by (intro stopped) (simp add: otherwise_def)
    next
      case (Some s)
      from found [OF Some] that Some show thesis
        by (intro kill_sent [of s]) (simp_all add: otherwise_def)
    qed
    show thesis
    proof (cases "position (is_group_signal TERM_SIGNAL) ?ss")
      case None
      then show thesis by (intro otherwise) (simp add: action_clause_def none otherwise_def Let_def)
    next
      case (Some i)
      consider "sr_result (?ss ! i) = Sig_Delivered" | "sr_result (?ss ! i) = Sig_ProcessMissing"
        | "sr_result (?ss ! i) \<notin> {Sig_Delivered, Sig_ProcessMissing}" by blast
      then show thesis
      proof cases
        case 1
        with at_term [OF Some] show thesis
          by (intro term_sent [of "?ss ! i" i])
            (simp_all add: action_clause_def none Some found_by_group_def Let_def)
      next
        case 2
        with at_term [OF Some] show thesis
          by (intro term_sent [of "?ss ! i" i])
            (simp_all add: action_clause_def none Some found_by_group_def Let_def)
      next
        case 3
        then show thesis
          by (intro otherwise) (simp add: action_clause_def none Some otherwise_def Let_def)
      qed
    qed
  qed
qed

lemma action_clause_marks:
  shows "CHR ''L'' \<in> set (action_clause report) \<Longrightarrow>
      \<exists>s\<in>set (rep_signals report). delivered_to_group KILL_SIGNAL s"
    and "CHR ''T'' \<in> set (action_clause report) \<Longrightarrow>
      \<exists>s\<in>set (rep_signals report). found_by_group TERM_SIGNAL s"
    and "CHR ''k'' \<in> set (action_clause report) \<Longrightarrow>
      \<exists>s\<in>set (rep_signals report). sr_target s = Target_CooperativeEndpoint \<and> sr_result s = Sig_Delivered"
  by (cases rule: action_clause_cases [of report]; use kill_suffix_marks in auto)+

lemma sublist_mark: "sublist p s \<Longrightarrow> c \<in> set p \<Longrightarrow> c \<in> set s"
  using set_mono_sublist by blast

lemma clause_marks [simp]:
  "CHR ''L'' \<notin> set (checkpoint_clause report)"
  by (simp add: checkpoint_clause_def Let_def split: checkpoint_status.splits option.splits)

lemma compared_bytes_marks:
  "i < length vs \<Longrightarrow> CHR ''L'' \<notin> set (compared_bytes vs ! i)"
  by (simp add: compared_bytes_def)

lemma policy_names_kill:
  assumes "CHR ''L'' \<in> set (ln_happened (policy_intervention report))"
  shows "\<exists>s\<in>set (rep_signals report). found_by_group KILL_SIGNAL s"
proof -
  let ?K = "\<exists>s\<in>set (rep_signals report). found_by_group KILL_SIGNAL s"
  have group: "?K" if "first_group_signal report KILL_SIGNAL = Some s"
    and "sr_result s \<in> {Sig_Delivered, Sig_ProcessMissing}" for s
    using found that by (fastforce simp: first_group_signal_def found_by_group_def)
  have clause: "?K" if "CHR ''L'' \<in> set (action_clause report)"
    using action_clause_marks(1) [OF that] by (auto simp: found_by_group_def)
  have emergency: "?K" if "emergency report = Some l" for l
    using that group by (auto simp: emergency_def Let_def split: option.splits signal_result.splits)
  have survivors: "?K" if "survivors report = Some l" for l
    using that group by (auto simp: survivors_def Let_def split: option.splits signal_result.splits if_splits)
  have ignored: "?K" if "ignored_signal report = Some l" for l
    using that position_found
    by (fastforce simp: ignored_signal_def found_by_group_def Let_def split: option.splits if_splits)
  have cause: "?K" if "recorded_cause report = Some l" "CHR ''L'' \<in> set (ln_happened l)" for l
    using that clause compared_bytes_marks
    by (auto simp: recorded_cause_def footprint_row_def wall_time_row_def parent_exit_row_def
        lines_new_def Let_def split: option.splits signal_reason.splits)
  have other: "?K" if "CHR ''L'' \<in> set (ln_happened (unrecorded report))"
    using that clause by (auto simp: unrecorded_def lines_new_def split: if_splits)
  from assms emergency cause ignored survivors other show ?K
    by (auto simp: policy_intervention_def split: option.splits)
qed

text \<open>The letters by which the name of TERM differs from every other name of a signal.\<close>

abbreviation term_marks :: "string \<Rightarrow> bool" where
  "term_marks s \<equiv> CHR ''E'' \<in> set s \<and> CHR ''R'' \<in> set s"

lemma term_marks_not_in_numbers [simp]:
  "CHR ''E'' \<notin> set (format_duration_ms t)" "CHR ''R'' \<notin> set (format_duration_ms t)"
  "CHR ''E'' \<notin> set (format_bytes b)" "CHR ''R'' \<notin> set (format_bytes b)"
  "CHR ''E'' \<notin> set (show_nat n)" "CHR ''R'' \<notin> set (show_nat n)"
proof -
  have "CHR ''E'' \<notin> number_chars" "CHR ''R'' \<notin> number_chars" by (simp_all add: number_chars_def)
  then show "CHR ''E'' \<notin> set (format_duration_ms t)" "CHR ''R'' \<notin> set (format_duration_ms t)"
    "CHR ''E'' \<notin> set (format_bytes b)" "CHR ''R'' \<notin> set (format_bytes b)"
    "CHR ''E'' \<notin> set (show_nat n)" "CHR ''R'' \<notin> set (show_nat n)"
    using format_duration_chars format_bytes_chars show_nat_chars by blast+
qed

lemma signal_name_marks [simp]:
  "CHR ''L'' \<in> set (signal_name n) \<longleftrightarrow> n = KILL_SIGNAL"
  "CHR ''E'' \<in> set (signal_name n) \<and> CHR ''R'' \<in> set (signal_name n) \<longleftrightarrow> n = TERM_SIGNAL"
  by (auto simp: signal_name_def KILL_SIGNAL_def TERM_SIGNAL_def)

lemma term_name: "CHR ''E'' \<in> set (signal_name n) \<Longrightarrow> CHR ''R'' \<in> set (signal_name n) \<Longrightarrow> n = TERM_SIGNAL"
  using signal_name_marks(2) by blast

lemma error_words_marks [simp]:
  "CHR ''E'' \<notin> set (error_words code)" "CHR ''R'' \<notin> set (error_words code)"
  "CHR ''L'' \<notin> set (error_words code)"
  by (cases code; simp)+

lemma no_term_marks [simp]:
  "CHR ''E'' \<notin> set (kill_suffix ss i)" "CHR ''R'' \<notin> set (kill_suffix ss i)"
  "CHR ''E'' \<notin> set (checkpoint_clause report)" "CHR ''R'' \<notin> set (checkpoint_clause report)"
  "CHR ''E'' \<notin> set (last_reading report)" "CHR ''R'' \<notin> set (last_reading report)"
  "CHR ''L'' \<notin> set (last_reading report)"
  by (auto simp: kill_suffix_def checkpoint_clause_def last_reading_def Let_def
      split: option.splits checkpoint_status.splits observed.splits observation_error.splits)

lemma compared_bytes_term:
  "i < length vs \<Longrightarrow> CHR ''E'' \<notin> set (compared_bytes vs ! i) \<and> CHR ''R'' \<notin> set (compared_bytes vs ! i)"
  by (simp add: compared_bytes_def)

text \<open>What the report has to show before its explanation may name a signal: the command ended on it,
  or it has a record of it that was delivered or found the command ended, or, in a run that failed,
  at least one that was for the process group.\<close>

definition evidenced :: "report_v1 \<Rightarrow> u8 \<Rightarrow> bool" where
  "evidenced report n \<longleftrightarrow>
     to_kind (rep_outcome report) = Kind_ChildSignaled n
   \<or> (\<exists>s\<in>set (rep_signals report). sr_signal s = n
        \<and> (sr_result s = Sig_Delivered \<or> sr_result s = Sig_ProcessMissing
          \<or> to_kind (rep_outcome report) = Kind_SupervisorFailure
            \<and> sr_target s = Target_OwnedProcessGroup))"

lemma find_map_found: "find_map f xs = Some y \<Longrightarrow> \<exists>x\<in>set xs. f x = Some y"
  by (induction xs) (auto split: option.splits)

lemma evidenced_group: "s \<in> set (rep_signals report) \<Longrightarrow> found_by_group n s \<Longrightarrow> evidenced report n"
  by (auto simp: evidenced_def found_by_group_def is_group_signal_def)

lemma clause_evidence:
  "CHR ''L'' \<in> set (action_clause report) \<Longrightarrow> evidenced report KILL_SIGNAL"
  "CHR ''E'' \<in> set (action_clause report) \<Longrightarrow> evidenced report TERM_SIGNAL"
proof -
  show "evidenced report KILL_SIGNAL" if "CHR ''L'' \<in> set (action_clause report)"
    using action_clause_marks(1) [OF that] evidenced_group by (auto simp: found_by_group_def)
  show "evidenced report TERM_SIGNAL" if "CHR ''E'' \<in> set (action_clause report)"
    using that evidenced_group
    by (cases rule: action_clause_cases [of report]) (auto simp: sent_to_group_def)
qed

lemma not_delivered_evidence:
  assumes "not_delivered report = Some l" and "to_kind (rep_outcome report) = Kind_SupervisorFailure"
  shows "CHR ''L'' \<in> set (ln_happened l) \<Longrightarrow> evidenced report KILL_SIGNAL"
    and "term_marks (ln_happened l) \<Longrightarrow> evidenced report TERM_SIGNAL"
proof -
  from assms(1) obtain s signal words where s: "s \<in> set (rep_signals report)"
    and u: "undelivered s = Some (signal, words)"
    and l: "ln_happened l = ''mlx-guard could not deliver '' @ signal_name signal
          @ ('' to the command's process group, which still had a live member or could not be ''
           @ ''checked (result: '') @ words @ '').''"
    by (auto simp: not_delivered_def lines_new_def dest!: find_map_found)
  from u have "evidenced report signal" and w: "words = ''permission denied'' \<or> words = ''failed''"
    using s assms(2) by (auto simp: undelivered_def evidenced_def split: if_splits signal_result.splits)
  then show "evidenced report KILL_SIGNAL" if "CHR ''L'' \<in> set (ln_happened l)"
    using that by (auto simp: l)
  have "signal = TERM_SIGNAL" if "term_marks (ln_happened l)"
    using that w term_name [of signal] by (auto simp: l)
  then show "evidenced report TERM_SIGNAL" if "term_marks (ln_happened l)"
    using that \<open>evidenced report signal\<close> by simp
qed

lemma failure_evidence:
  assumes "to_kind (rep_outcome report) = Kind_SupervisorFailure"
  shows "CHR ''L'' \<in> set (ln_happened (supervisor_failure report)) \<Longrightarrow> evidenced report KILL_SIGNAL"
    and "term_marks (ln_happened (supervisor_failure report)) \<Longrightarrow> evidenced report TERM_SIGNAL"
proof -
  have starting: "CHR ''L'' \<notin> set (ln_happened while_starting)" "\<not> term_marks (ln_happened while_starting)"
    by (simp_all add: while_starting_def lines_new_def)
  have lost: "CHR ''L'' \<in> set (ln_happened (readings_lost_row report)) \<Longrightarrow> evidenced report KILL_SIGNAL"
    "term_marks (ln_happened (readings_lost_row report)) \<Longrightarrow> evidenced report TERM_SIGNAL"
    using clause_evidence [of report]
    by (auto simp: readings_lost_row_def lines_new_def Let_def split: report_mode.splits)
  have internal: "CHR ''L'' \<notin> set (ln_happened (internal_failure report))"
    by (simp add: internal_failure_def lines_new_def split: option.splits)
  have sent: "evidenced report TERM_SIGNAL" if "term_marks (ln_happened (internal_failure report))"
  proof (cases "List.find (delivered_to_group TERM_SIGNAL) (rep_signals report)")
    case None
    with that show ?thesis by (simp add: internal_failure_def lines_new_def)
  next
    case (Some s)
    from found [OF this] evidenced_group show ?thesis by (auto simp: found_by_group_def)
  qed
  show "evidenced report KILL_SIGNAL" if "CHR ''L'' \<in> set (ln_happened (supervisor_failure report))"
    using that starting lost(1) internal not_delivered_evidence(1) [OF _ assms]
    by (auto simp: supervisor_failure_def split: if_splits option.splits)
  show "evidenced report TERM_SIGNAL" if "term_marks (ln_happened (supervisor_failure report))"
    using that starting lost(2) sent not_delivered_evidence(2) [OF _ assms]
    by (auto simp: supervisor_failure_def split: if_splits option.splits)
qed

lemma policy_names_term:
  assumes "term_marks (ln_happened (policy_intervention report))"
  shows "evidenced report TERM_SIGNAL
    \<or> (\<exists>s\<in>set (rep_signals report). sr_reason s = Some Reason_RootExitCleanup)"
proof -
  have emergency: "\<not> term_marks (ln_happened l)" if "emergency report = Some l" for l
    using that compared_bytes_term
    by (auto simp: emergency_def lines_new_def Let_def split: option.splits signal_result.splits)
  have cause: "evidenced report TERM_SIGNAL" if "recorded_cause report = Some l" "term_marks (ln_happened l)" for l
    using that clause_evidence(2) [of report] compared_bytes_term
    by (auto simp: recorded_cause_def footprint_row_def wall_time_row_def parent_exit_row_def
        lines_new_def Let_def split: option.splits signal_reason.splits)
  have ignored: "evidenced report TERM_SIGNAL" if ig: "ignored_signal report = Some l" "term_marks (ln_happened l)" for l
  proof -
    from ig(1) obtain i s where s: "List.find (\<lambda>s. sr_reason s = Some Reason_ExternalSignal
        \<and> sr_result s = Sig_Delivered) (take i (rep_signals report)) = Some s"
      and marks: "term_marks (ln_happened l) \<longleftrightarrow> term_marks (signal_name (sr_signal s))"
      by (auto simp: ignored_signal_def lines_new_def Let_def split: option.splits if_splits)
    from found [OF s] have "s \<in> set (rep_signals report)" "sr_result s = Sig_Delivered"
      by (auto dest: in_set_takeD)
    moreover have "sr_signal s = TERM_SIGNAL" using ig(2) marks term_name by blast
    ultimately show ?thesis by (auto simp: evidenced_def)
  qed
  have survivors: "\<exists>s\<in>set (rep_signals report). sr_reason s = Some Reason_RootExitCleanup"
    if "survivors report = Some l" for l
    using that by (auto simp: survivors_def list_ex_iff split: if_splits)
  have other: "evidenced report TERM_SIGNAL" if "term_marks (ln_happened (unrecorded report))"
    using that clause_evidence(2) [of report] by (auto simp: unrecorded_def lines_new_def split: if_splits)
  from assms emergency cause ignored survivors other show ?thesis
    by (auto simp: policy_intervention_def split: option.splits)
qed

lemma signaled_marks:
  "CHR ''L'' \<in> set (ln_happened (child_signaled report n)) \<Longrightarrow> n = KILL_SIGNAL"
  "term_marks (ln_happened (child_signaled report n)) \<Longrightarrow> n = TERM_SIGNAL"
  by (auto simp: child_signaled_def lines_new_def Let_def dest: term_name split: if_splits)

text \<open>Every row that can be read from a report.\<close>

lemma row_evidence:
  assumes "explain_report report = Some told"
  shows "CHR ''L'' \<in> set (pl_what_happened told) \<Longrightarrow> evidenced report KILL_SIGNAL"
    and "term_marks (pl_what_happened told) \<Longrightarrow> evidenced report TERM_SIGNAL
      \<or> (\<exists>s\<in>set (rep_signals report). sr_reason s = Some Reason_RootExitCleanup)"
proof -
  have quiet: "CHR ''L'' \<notin> set (ln_happened l)" "CHR ''R'' \<notin> set (ln_happened l)"
    if "l \<in> {launch_setting, not_executable, not_found, after_launch None}" for l
    using that by (auto simp: launch_setting_def not_executable_def not_found_def after_launch_def
        in_parentheses_def lines_new_def)
  have exited: "CHR ''L'' \<notin> set (ln_happened l)" "CHR ''R'' \<notin> set (ln_happened l)"
    if "child_exited code = Some l" for l code
    using that by (auto simp: child_exited_def lines_new_def split: if_splits)
  note rows = failure_evidence signaled_marks quiet exited
  have told: "pl_what_happened (with_version l v) = ln_happened l" for l v by (simp add: with_version_def)
  show "evidenced report KILL_SIGNAL" if "CHR ''L'' \<in> set (pl_what_happened told)"
  proof (cases "to_kind (rep_outcome report)")
    case Kind_PolicyIntervention
    with that assms have "CHR ''L'' \<in> set (ln_happened (policy_intervention report))"
      by (auto simp: explain_report_def told)
    with policy_names_kill evidenced_group show ?thesis by blast
  qed (use that assms rows in \<open>auto simp: explain_report_def told evidenced_def\<close>)
  show "evidenced report TERM_SIGNAL
      \<or> (\<exists>s\<in>set (rep_signals report). sr_reason s = Some Reason_RootExitCleanup)"
    if "term_marks (pl_what_happened told)"
  proof (cases "to_kind (rep_outcome report)")
    case Kind_PolicyIntervention
    with that assms have "term_marks (ln_happened (policy_intervention report))"
      by (auto simp: explain_report_def told)
    then show ?thesis by (rule policy_names_term)
  qed (use that assms rows in \<open>auto simp: explain_report_def told evidenced_def\<close>)
qed

text \<open>Only the row of a command that ended on a signal can say that it was passed on.\<close>

lemma failure_anchor: "ln_anchor (supervisor_failure report) \<noteq> ANCHOR_PASSED_ON"
  by (auto simp: supervisor_failure_def while_starting_def not_delivered_def readings_lost_row_def
      internal_failure_def lines_new_def Let_def split: option.splits report_mode.splits)

lemma policy_anchor: "ln_anchor (policy_intervention report) \<noteq> ANCHOR_PASSED_ON"
proof -
  have "ln_anchor l \<noteq> ANCHOR_PASSED_ON" if "emergency report = Some l" for l
    using that by (auto simp: emergency_def lines_new_def Let_def split: option.splits signal_result.splits)
  moreover have "ln_anchor l \<noteq> ANCHOR_PASSED_ON" if "recorded_cause report = Some l" for l
    using that by (auto simp: recorded_cause_def footprint_row_def wall_time_row_def parent_exit_row_def
        lines_new_def Let_def split: option.splits signal_reason.splits)
  moreover have "ln_anchor l \<noteq> ANCHOR_PASSED_ON" if "ignored_signal report = Some l" for l
    using that by (auto simp: ignored_signal_def lines_new_def Let_def split: option.splits if_splits)
  moreover have "ln_anchor l \<noteq> ANCHOR_PASSED_ON" if "survivors report = Some l" for l
    using that by (auto simp: survivors_def lines_new_def Let_def split: option.splits if_splits)
  moreover have "ln_anchor (unrecorded report) \<noteq> ANCHOR_PASSED_ON"
    by (simp add: unrecorded_def lines_new_def)
  ultimately show ?thesis by (auto simp: policy_intervention_def split: option.splits)
qed

lemma passed_on_evidence:
  assumes told: "explain_report report = Some told" and anchor: "pl_anchor told = ANCHOR_PASSED_ON"
  shows "\<exists>n. to_kind (rep_outcome report) = Kind_ChildSignaled n
    \<and> (\<exists>s\<in>set (rep_signals report). sr_signal s = n \<and> sr_result s = Sig_Delivered
         \<and> sr_reason s = Some Reason_ExternalSignal)"
proof (cases "to_kind (rep_outcome report)")
  case (Kind_ChildSignaled n)
  with told anchor have "ln_anchor (child_signaled report n) = ANCHOR_PASSED_ON"
    by (auto simp: explain_report_def with_version_def)
  with Kind_ChildSignaled show ?thesis
    by (auto simp: child_signaled_def lines_new_def list_ex_iff Let_def split: if_splits)
qed (use told anchor failure_anchor [of report] policy_anchor [of report] in
  \<open>auto simp: explain_report_def with_version_def child_exited_def launch_setting_def not_executable_def
     not_found_def after_launch_def lines_new_def split: if_splits\<close>)

text \<open>C15. An explanation claims nothing that the report does not show. What happened, as any report is
  explained, names SIGKILL only if the command ended on it, or the report has a SIGKILL that was
  delivered or found the command ended or, where the supervision failed, one to the process group;
  and SIGTERM only on the same evidence or where the survivors of an exited command were cleaned up.
  The row that says that a signal was passed on is chosen only if the command ended on that signal and
  the report has it delivered for an external one. The clause that says what mlx-guard did names SIGKILL only if a
  KILL was delivered to the process group, SIGTERM only if a TERM to the group was delivered or found
  it ended, and says the command was asked for a checkpoint only if a request was delivered; and the
  first line on a policy intervention names SIGKILL only if a KILL to the group was delivered or
  found it ended.\<close>

theorem explanations_claim_only_what_happened:
  "(\<forall>told. explain_report report = Some told \<longrightarrow>
      (sublist ''SIGKILL'' (pl_what_happened told) \<longrightarrow> evidenced report KILL_SIGNAL)
    \<and> (sublist ''SIGTERM'' (pl_what_happened told) \<longrightarrow> evidenced report TERM_SIGNAL
        \<or> (\<exists>s\<in>set (rep_signals report). sr_reason s = Some Reason_RootExitCleanup))
    \<and> (pl_anchor told = ANCHOR_PASSED_ON \<longrightarrow>
        (\<exists>n. to_kind (rep_outcome report) = Kind_ChildSignaled n
          \<and> (\<exists>s\<in>set (rep_signals report). sr_signal s = n \<and> sr_result s = Sig_Delivered
               \<and> sr_reason s = Some Reason_ExternalSignal))))
   \<and> (sublist ''SIGKILL'' (action_clause report) \<longrightarrow>
      (\<exists>s\<in>set (rep_signals report). delivered_to_group KILL_SIGNAL s))
   \<and> (sublist ''SIGTERM'' (action_clause report) \<longrightarrow>
      (\<exists>s\<in>set (rep_signals report). found_by_group TERM_SIGNAL s))
   \<and> (sublist ''asked'' (action_clause report) \<longrightarrow>
      (\<exists>s\<in>set (rep_signals report). sr_target s = Target_CooperativeEndpoint \<and> sr_result s = Sig_Delivered))
   \<and> (sublist ''SIGKILL'' (ln_happened (policy_intervention report)) \<longrightarrow>
      (\<exists>s\<in>set (rep_signals report). found_by_group KILL_SIGNAL s))"
proof -
  have marks: "sublist ''SIGKILL'' s \<Longrightarrow> CHR ''L'' \<in> set s" "sublist ''SIGTERM'' s \<Longrightarrow> CHR ''T'' \<in> set s"
    "sublist ''SIGTERM'' s \<Longrightarrow> term_marks s" "sublist ''asked'' s \<Longrightarrow> CHR ''k'' \<in> set s" for s
    by (auto dest: sublist_mark)
  note clause = action_clause_marks [of report] and row = row_evidence [of report]
    and policy = policy_names_kill [of report] and passed = passed_on_evidence [of report]
  show ?thesis
    by (intro conjI allI impI)
      (use marks clause row policy passed in blast)+
qed

section \<open>Two lines of printable text\<close>

definition printable :: "char \<Rightarrow> bool" where
  "printable c \<longleftrightarrow> 32 \<le> byte_of c \<and> byte_of c \<le> 126"

definition plain :: "string \<Rightarrow> bool" where
  "plain s \<longleftrightarrow> list_all printable s"

lemma plain_simps [simp]:
  "plain []" "plain (c # s) \<longleftrightarrow> printable c \<and> plain s" "plain (s @ t) \<longleftrightarrow> plain s \<and> plain t"
  by (simp_all add: plain_def)

lemma plain_numbers:
  assumes "\<And>c. c \<in> set s \<Longrightarrow> c \<in> number_chars"
  shows "plain s"
proof -
  have "list_all printable ''0123456789 .BKMGibhmns''" by (simp add: printable_def)
  with assms show ?thesis unfolding plain_def number_chars_def list_all_iff by blast
qed

lemma plain_rendered [simp]:
  "plain (show_nat n)" "plain (format_bytes b)" "plain (format_duration_ms t)"
  using show_nat_chars format_bytes_chars format_duration_chars by (blast intro: plain_numbers)+

lemma plain_signal_name [simp]: "plain (signal_name n)"
  by (simp add: signal_name_def printable_def)

lemma plain_compared [simp]: "i < length vs \<Longrightarrow> plain (compared_bytes vs ! i)"
  by (simp add: compared_bytes_def printable_def)

lemma plain_clauses [simp]:
  "plain (kill_suffix ss i)" "plain (action_clause report)" "plain (checkpoint_clause report)"
  "plain (resume_clause report)" "plain (last_reading report)"
proof -
  show suffix: "plain (kill_suffix ss i)" for ss i
    by (simp add: kill_suffix_def Let_def printable_def split: option.splits)
  show "plain (action_clause report)"
    by (cases rule: action_clause_cases [of report])
      (auto simp: suffix sent_to_group_def printable_def)
  show "plain (checkpoint_clause report)" "plain (resume_clause report)"
    by (simp_all add: checkpoint_clause_def resume_clause_def Let_def printable_def
        split: checkpoint_status.splits option.splits)
  have "plain (error_words code)" for code by (cases code) (simp_all add: printable_def)
  then show "plain (last_reading report)"
    by (simp add: last_reading_def Let_def printable_def split: observed.splits)
qed

definition plain_lines :: "lines \<Rightarrow> bool" where
  "plain_lines l \<longleftrightarrow> plain (ln_happened l) \<and> plain (ln_to_do l)"

lemma plain_lines_new [simp]: "plain_lines (lines_new a b c) \<longleftrightarrow> plain a \<and> plain b"
  by (simp add: plain_lines_def lines_new_def)

lemma plain_early_rows:
  "plain_lines launch_setting" "plain_lines not_executable" "plain_lines not_found"
  "plain_lines while_starting" "plain_lines (after_launch None)"
  by (simp_all add: launch_setting_def not_executable_def not_found_def while_starting_def
      after_launch_def in_parentheses_def printable_def)

lemma plain_child_rows:
  "child_exited code = Some l \<Longrightarrow> plain_lines l" "plain_lines (child_signaled report signal)"
  by (auto simp: child_exited_def child_signaled_def Let_def printable_def split: if_splits)

lemma plain_failure_rows:
  "not_delivered report = Some l \<Longrightarrow> plain_lines l" "plain_lines (readings_lost_row report)"
  "plain_lines (internal_failure report)"
proof -
  have "plain words" if "find_map undelivered ss = Some (signal, words)" for ss signal words
    using that
    by (induction ss) (auto simp: undelivered_def printable_def split: option.splits signal_result.splits if_splits)
  then show "not_delivered report = Some l \<Longrightarrow> plain_lines l"
    by (auto simp: not_delivered_def printable_def)
  show "plain_lines (readings_lost_row report)"
    by (simp add: readings_lost_row_def Let_def printable_def split: report_mode.splits)
  show "plain_lines (internal_failure report)"
    by (simp add: internal_failure_def Let_def sent_to_group_def printable_def split: option.splits)
qed

lemma plain_stop_rows:
  "emergency report = Some l \<Longrightarrow> plain_lines l" "ignored_signal report = Some l \<Longrightarrow> plain_lines l"
  "survivors report = Some l \<Longrightarrow> plain_lines l" "plain_lines (unrecorded report)"
  by (auto simp: emergency_def ignored_signal_def survivors_def unrecorded_def Let_def printable_def
      split: option.splits signal_result.splits if_splits)

lemma plain_limit_rows: "recorded_cause report = Some l \<Longrightarrow> plain_lines l"
  by (auto simp: recorded_cause_def footprint_row_def wall_time_row_def parent_exit_row_def Let_def
      printable_def split: option.splits signal_reason.splits)

lemma plain_report_rows:
  assumes "explain_report report = Some p"
  shows "plain (pl_what_happened p) \<and> plain (pl_what_to_do p) \<and> pl_version p = rep_package_version report"
proof -
  obtain l where p: "p = with_version l (rep_package_version report)"
    and l: "(case to_kind (rep_outcome report) of
          Kind_ChildExited code \<Rightarrow> child_exited code
        | Kind_ChildSignaled signal \<Rightarrow> Some (child_signaled report signal)
        | Kind_InvalidConfiguration \<Rightarrow> Some launch_setting
        | Kind_LaunchNotExecutable \<Rightarrow> Some not_executable
        | Kind_LaunchNotFound \<Rightarrow> Some not_found
        | Kind_SupervisorFailure \<Rightarrow> Some (supervisor_failure report)
        | Kind_PolicyIntervention \<Rightarrow> Some (policy_intervention report)
        | Kind_PartialArtifactFailure \<Rightarrow> Some (after_launch None)) = Some l"
    using assms by (auto simp: explain_report_def)
  have failure: "plain_lines (supervisor_failure report)"
    using plain_failure_rows plain_early_rows(4)
    by (simp add: supervisor_failure_def split: option.splits)
  have stop: "plain_lines (policy_intervention report)"
    using plain_stop_rows plain_limit_rows
    by (simp add: policy_intervention_def split: option.splits)
  have "plain_lines l"
    using l plain_child_rows plain_early_rows failure stop
    by (cases "to_kind (rep_outcome report)") auto
  then show ?thesis by (simp add: p with_version_def plain_lines_def)
qed

lemma split_two_lines:
  "c \<notin> set a \<Longrightarrow> c \<notin> set b \<Longrightarrow> split_on c (a @ c # b) = [a, b]"
proof (induction a)
  case Nil
  then have "split_on c b = [b]" by (induction b) auto
  then show ?case by simp
qed auto

lemma newline_not_plain: "plain s \<Longrightarrow> newline \<notin> set s"
  by (auto simp: plain_def list_all_iff printable_def)

text \<open>C16. Whatever is in a report, explaining it prints exactly two lines of printable ASCII: no
  content of a report with a valid package version can add a line or a control character.\<close>

theorem two_printable_lines:
  assumes "explain_report report = Some p" and "valid_package_version (rep_package_version report)"
  shows "\<exists>first second. stderr_lines p =
      ''mlx-guard: what happened: '' @ first @ [newline] @ ''mlx-guard: what to do: '' @ second @ [newline]
    \<and> plain first \<and> plain second"
proof -
  have "printable c" if "ascii_alphanumeric c \<or> c = CHR ''.'' \<or> c = CHR ''-'' \<or> c = CHR ''+''" for c
    using that by (auto simp: printable_def ascii_alphanumeric_def ascii_digit_def)
  with assms(2) have version: "plain (rep_package_version report)"
    by (auto simp: valid_package_version_def plain_def list_all_iff Let_def)
  have anchor: "plain (anchor_text a)" for a by (cases a) (simp_all add: printable_def)
  note rows = plain_report_rows [OF assms(1)]
  define second where "second = pl_what_to_do p @ '' More: '' @ doc_url (pl_version p) (anchor_text (pl_anchor p))"
  have plain: "plain (pl_what_happened p)" "plain second"
    using rows version anchor by (simp_all add: second_def doc_url_def printable_def)
  have "plain_text p = (''what happened: '' @ pl_what_happened p) @ newline # (''what to do: '' @ second)"
    by (simp add: plain_text_def second_def)
  moreover have "newline \<notin> set (''what happened: '' @ pl_what_happened p)"
    "newline \<notin> set (''what to do: '' @ second)"
    using plain newline_not_plain by auto
  ultimately have "split_on newline (plain_text p) = [''what happened: '' @ pl_what_happened p, ''what to do: '' @ second]"
    using split_two_lines by metis
  then have "stderr_lines p = ''mlx-guard: what happened: '' @ pl_what_happened p @ [newline]
      @ ''mlx-guard: what to do: '' @ second @ [newline]"
    by (simp add: stderr_lines_def)
  with plain show ?thesis by blast
qed

section \<open>Witnesses\<close>

theorem bytes_are_rounded_witness:
  "\<exists>k r. k < 3 \<and> 100 \<le> r \<and> format_bytes 1610612736
     = show_nat (r div 100) @ ''.'' @ show_02 (r mod 100) @ '' '' @ snd (UNITS ! k)"
  using bytes_are_rounded [of 1610612736] by auto

theorem compared_values_differ_visibly_witness:
  "compared_bytes [1048576, 1048577] ! 0 \<noteq> compared_bytes [1048576, 1048577] ! 1
    \<and> format_bytes 1048576 = format_bytes 1048577"
proof -
  have "format_bytes 1048576 = format_bytes 1048577"
    by (simp add: format_bytes_def UNITS_def hundredths_def Let_def)
  moreover have "compared_bytes [1048576, 1048577] ! 0 \<noteq> compared_bytes [1048576, 1048577] ! 1"
    using compared_values_differ_visibly [of 0 "[1048576, 1048577]" 1] by simp
  ultimately show ?thesis by blast
qed

definition killed_report :: report_v1 where
  "killed_report = demo_report\<lparr>rep_signals :=
    [\<lparr>sr_at_ms = 2000, sr_signal = 9, sr_target = Target_OwnedProcessGroup, sr_result = Sig_Delivered,
      sr_reason = None\<rparr>]\<rparr>"

definition ended_report :: report_v1 where
  "ended_report = killed_report\<lparr>rep_outcome := (rep_outcome demo_report)\<lparr>to_kind := Kind_ChildSignaled 9\<rparr>\<rparr>"

theorem explanations_claim_only_what_happened_witness:
  "(sublist ''SIGKILL'' (action_clause killed_report)
    \<and> (\<exists>s\<in>set (rep_signals killed_report). delivered_to_group KILL_SIGNAL s))
   \<and> (\<exists>told. explain_report ended_report = Some told \<and> sublist ''SIGKILL'' (pl_what_happened told)
        \<and> evidenced ended_report KILL_SIGNAL)"
proof -
  have "action_clause killed_report = ''sent '' @ ''SIGKILL'' @ '' to the command's process group at ''
      @ format_duration_ms 2000"
    by (simp add: action_clause_def killed_report_def Let_def is_group_signal_def KILL_SIGNAL_def
        TERM_SIGNAL_def sent_to_group_def signal_name_def)
  then have clause: "sublist ''SIGKILL'' (action_clause killed_report)" by (metis sublist_appendI)
  have "\<exists>told. explain_report ended_report = Some told \<and> pl_what_happened told =
      ''the command ended on '' @ ''SIGKILL'' @ '', and it did not come from mlx-guard''
      @ ''; something else stopped it, and macOS can do this when memory runs short.''"
    by (simp add: explain_report_def with_version_def ended_report_def killed_report_def
        child_signaled_def lines_new_def KILL_SIGNAL_def signal_name_def Let_def)
  then obtain told where told: "explain_report ended_report = Some told"
    and "sublist ''SIGKILL'' (pl_what_happened told)" by (metis sublist_appendI)
  with clause explanations_claim_only_what_happened [of killed_report]
    explanations_claim_only_what_happened [of ended_report] show ?thesis by blast
qed

theorem two_printable_lines_witness:
  "\<exists>p first second. explain_report (demo_report\<lparr>rep_outcome := (rep_outcome demo_report)\<lparr>to_kind := Kind_ChildExited 75\<rparr>\<rparr>) = Some p
    \<and> stderr_lines p = ''mlx-guard: what happened: '' @ first @ [newline]
      @ ''mlx-guard: what to do: '' @ second @ [newline] \<and> plain second"
proof -
  let ?r = "demo_report\<lparr>rep_outcome := (rep_outcome demo_report)\<lparr>to_kind := Kind_ChildExited 75\<rparr>\<rparr>"
  obtain p where p: "explain_report ?r = Some p"
    by (simp add: explain_report_def child_exited_def COLLISION_CODES_def demo_report_def)
  have "valid_package_version (rep_package_version ?r)"
    by (simp add: demo_report_def valid_package_version_def ascii_digit_def ascii_alphanumeric_def)
  from two_printable_lines [OF p this] p show ?thesis by blast
qed

end
