(* ===== verification/Observe.thy ===== *)
theory Observe
  imports Runtime
begin

text \<open>
  The observing run of \<^verbatim>\<open>mlx-guard-cli/src/runtime.rs\<close>: it samples and records, forwards the signals
  that reach the supervisor, and ends the group only when the launching process has gone. Clock
  readings and the answers of the platform are inputs of each iteration, as for the enforcing run.
\<close>

section \<open>State and effects\<close>

record observe_runtime =
  or_retained_outcome :: "root_outcome option"
  or_process_group :: i32
  or_sampler :: footprint_sampler
  or_sample_interval :: dur
  or_calibration :: observe_calibration
  or_report_samples :: "sample_window list"
  or_policy :: policy_machine
  or_observation_failed :: bool
  or_signal_count :: u32
  or_parent_watch :: parent_watch_state
  or_shutdown_deadline :: "dur option"
  or_root_outcome :: "root_outcome option"
  or_final_footprint :: "u64 observed"
  or_escape_detected :: bool

text \<open>A signal to the owned group with the answer to it, and an entry handed to the journal.\<close>

datatype observe_effect =
    Sent u8 "control_error_kind + signal_result"
  | Logged journal_entry journal_durability

datatype observe_completion =
    Observe_Root root_outcome bool
  | Observe_ParentExit "root_outcome option" bool
  | Observe_ObservationFailure
  | Observe_SupervisorFailure string

section \<open>Signals\<close>

definition signal_entry :: "dur \<Rightarrow> u8 \<Rightarrow> signal_result \<Rightarrow> signal_reason \<Rightarrow> observe_effect" where
  "signal_entry recorded_at signal res reason =
     Logged (E_Signal
       \<lparr>sr_at_ms = duration_ms recorded_at, sr_signal = signal, sr_target = Target_OwnedProcessGroup,
        sr_result = res, sr_reason = Some reason\<rparr>) Sync"

definition record_parent_exit_signal :: "dur \<Rightarrow> u8 \<Rightarrow> signal_result \<Rightarrow> observe_effect" where
  "record_parent_exit_signal recorded_at signal res =
     signal_entry recorded_at signal res Reason_ParentExit"

text \<open>
  The signals of one poll, each with the answer of \<open>kill\<close> and the time it is recorded at. The loop
  ends at the first delivery that fails.
\<close>

fun forward_terminal_signals ::
    "observe_runtime \<Rightarrow> (signal_number \<times> sys_kill \<times> dur) list
     \<Rightarrow> observe_runtime \<times> observe_effect list \<times> control_error_kind option" where
  "forward_terminal_signals r [] = (r, [], None)"
| "forward_terminal_signals r ((signal, kill, recorded_at) # signals) =
     (let (delivered_signal, res) =
            (if or_signal_count r = 0
             then (signal_get signal, forward_terminal_signal kill (or_process_group r) signal)
             else (SIGKILL, kill_group kill (or_process_group r)));
          r = r\<lparr>or_signal_count := sat_add (or_signal_count r) 1\<rparr>
      in case res of
           Inl kind \<Rightarrow> (r, [Sent delivered_signal res], Some kind)
         | Inr result \<Rightarrow>
             (let (r, fx, failure) = forward_terminal_signals r signals
              in (r, Sent delivered_signal res
                     # signal_entry recorded_at delivered_signal result Reason_ExternalSignal # fx,
                  failure)))"

section \<open>Sampling\<close>

definition observe_sample_once ::
    "observe_runtime \<Rightarrow> sample_input \<Rightarrow> observe_runtime \<times> observe_effect list" where
  "observe_sample_once r i =
     (let (sampler, sample) =
            record_snapshot (or_sampler r) (si_started_at i) (si_finished_at i) (si_snapshot i);
          event = policy_event sampler sample (si_processed_at i);
          (calibration, window) =
            record_sample (or_calibration r) sample (si_processed_at i) (si_advisory i);
          fx1 = (if unat (fs_sequence sample) < MAX_SAMPLE_HISTORY_CAPACITY
                 then [Logged (E_Sample window) Buffered] else []);
          previous_state = pm_state (or_policy r);
          policy = fst (apply_event (or_policy r) (Sample event));
          current_state = pm_state policy;
          fx2 = (if previous_state \<noteq> current_state
                 then [Logged (E_Transition
                    \<lparr>tr_at_ms = duration_ms (si_processed_at i), tr_from = previous_state,
                     tr_to = current_state,
                     tr_aggregate_footprint_bytes =
                       observed_value (sw_aggregate_footprint_bytes window)\<rparr>) Sync]
                 else [])
      in (r\<lparr>or_sampler := sampler, or_calibration := calibration,
            or_report_samples := retain_recent_sample (or_report_samples r) window,
            or_final_footprint := sw_aggregate_footprint_bytes window,
            or_escape_detected := (or_escape_detected r \<or> fs_escape_observed sample),
            or_policy := policy, or_observation_failed := (current_state = SupervisorError)\<rparr>,
          fx1 @ fx2))"

section \<open>The loop\<close>

text \<open>
  The inputs of one iteration. \<open>oi_now\<close> is the reading that the deadline or the parent watch is
  compared with; \<open>oi_group\<close> answers the signal of the shutdown, recorded at \<open>oi_recorded_at\<close>.
\<close>

record observe_input =
  oi_waited :: "sys_errno + exit_status option"
  oi_kill :: sys_kill
  oi_now :: dur
  oi_ppid :: i32
  oi_parent_exited :: "bool option"
  oi_group :: sys_kill
  oi_recorded_at :: dur
  oi_signals :: "control_error_kind + (signal_number \<times> sys_kill \<times> dur) list"
  oi_sample :: sample_input

type_synonym observe_step =
  "observe_runtime \<times> observe_effect list \<times> observe_completion option"

definition observe_failed ::
    "observe_runtime \<Rightarrow> observe_effect list \<Rightarrow> control_error_kind \<Rightarrow> observe_step" where
  "observe_failed r fx kind = (r, fx, Some (Observe_SupervisorFailure (control_error_text kind)))"

definition observe_wait ::
    "observe_runtime \<Rightarrow> sys_errno + exit_status option
     \<Rightarrow> observe_runtime \<times> (control_error_kind + unit)" where
  "observe_wait r waited =
     (if or_root_outcome r \<noteq> None then (r, Ok ())
      else let (retained, res) = try_wait_root (or_retained_outcome r) waited;
               r = r\<lparr>or_retained_outcome := retained\<rparr>
           in case res of
                Inl kind \<Rightarrow> (r, Err kind)
              | Inr outcome \<Rightarrow> (r\<lparr>or_root_outcome := outcome\<rparr>, Ok ()))"

text \<open>The part of an iteration after the checks that can end the run.\<close>

definition observe_signals_and_sample ::
    "observe_runtime \<Rightarrow> observe_effect list \<Rightarrow> observe_input \<Rightarrow> observe_step" where
  "observe_signals_and_sample r fx i =
     (case oi_signals i of
        Inl kind \<Rightarrow> observe_failed r fx kind
      | Inr signals \<Rightarrow>
          (let (r, fx1, failure) = forward_terminal_signals r signals in
           case failure of
             Some kind \<Rightarrow> observe_failed r (fx @ fx1) kind
           | None \<Rightarrow>
               (let (r, fx2) =
                      (if or_observation_failed r then (r, []) else observe_sample_once r (oi_sample i))
                in (r, fx @ fx1 @ fx2,
                    if or_observation_failed r \<and> or_shutdown_deadline r = None
                    then Some Observe_ObservationFailure else None))))"

text \<open>While a shutdown is in flight, it owns the completion.\<close>

definition observe_shutdown :: "observe_runtime \<Rightarrow> bool \<Rightarrow> dur \<Rightarrow> observe_input \<Rightarrow> observe_step" where
  "observe_shutdown r group_exists deadline i =
     (if \<not> group_exists then (r, [], Some (Observe_ParentExit (or_root_outcome r) False))
      else if deadline \<le> oi_now i
      then
        let res = kill_group (oi_group i) (or_process_group r) in
        case res of
          Inl kind \<Rightarrow> observe_failed r [Sent SIGKILL res] kind
        | Inr result \<Rightarrow>
            (r, [Sent SIGKILL res, record_parent_exit_signal (oi_recorded_at i) SIGKILL result],
             Some (Observe_ParentExit (or_root_outcome r) True))
      else observe_signals_and_sample r [] i)"

definition observe_watch :: "observe_runtime \<Rightarrow> observe_input \<Rightarrow> observe_step" where
  "observe_watch r i =
     (let (watch, exited) =
            parent_has_exited (or_parent_watch r) (oi_ppid i) (oi_parent_exited i) (oi_now i);
          r = r\<lparr>or_parent_watch := watch\<rparr>
      in if exited \<and> pw_on_parent_exit watch = OnParent_Terminate
         then
           let res = terminate_group (oi_group i) (or_process_group r) in
           case res of
             Inl kind \<Rightarrow> observe_failed r [Sent SIGTERM res] kind
           | Inr result \<Rightarrow>
               observe_signals_and_sample
                 (r\<lparr>or_shutdown_deadline := Some (dur_sat_add (oi_now i) TERM_GRACE)\<rparr>)
                 [Sent SIGTERM res, record_parent_exit_signal (oi_recorded_at i) SIGTERM result] i
         else observe_signals_and_sample r [] i)"

definition observe_iteration :: "observe_runtime \<Rightarrow> observe_input \<Rightarrow> observe_step" where
  "observe_iteration r i =
     (case observe_wait r (oi_waited i) of
        (r, Inl kind) \<Rightarrow> observe_failed r [] kind
      | (r, Inr _) \<Rightarrow>
          (case owned_group_exists (oi_kill i) (or_process_group r) of
             Inl kind \<Rightarrow> observe_failed r [] kind
           | Inr group_exists \<Rightarrow>
               (case or_shutdown_deadline r of
                  Some deadline \<Rightarrow> observe_shutdown r group_exists deadline i
                | None \<Rightarrow>
                    (case or_root_outcome r of
                       Some outcome \<Rightarrow> (r, [], Some (Observe_Root outcome group_exists))
                     | None \<Rightarrow> observe_watch r i))))"

text \<open>The pause after an iteration; it does not change the state.\<close>

definition observe_delay :: "observe_runtime \<Rightarrow> dur \<Rightarrow> dur" where
  "observe_delay r now =
     (let sample_delay = (if or_observation_failed r then or_sample_interval r
                          else case delay_until_next (or_sampler r) now of
                                 Inl _ \<Rightarrow> or_sample_interval r | Inr d \<Rightarrow> d)
      in case or_shutdown_deadline r of
           None \<Rightarrow> sample_delay
         | Some deadline \<Rightarrow> min sample_delay (dur_sat_sub deadline now))"

fun observe_until_exit ::
    "observe_runtime \<Rightarrow> observe_input list
     \<Rightarrow> (observe_runtime \<times> observe_effect list \<times> observe_completion) option" where
  "observe_until_exit r [] = None"
| "observe_until_exit r (i # is) =
     (case observe_iteration r i of
        (r, fx, Some completion) \<Rightarrow> Some (r, fx, completion)
      | (r, fx, None) \<Rightarrow>
          map_option (\<lambda>(r, fx2, completion). (r, fx @ fx2, completion)) (observe_until_exit r is))"

section \<open>The end of a run\<close>

definition OBSERVE_SURVIVORS_DIAGNOSTIC :: string where
  "OBSERVE_SURVIVORS_DIAGNOSTIC =
     ''observe ended at root exit; owned-group members were still running and were not signalled''"

definition OBSERVE_PARENT_EXIT_DIAGNOSTIC :: string where
  "OBSERVE_PARENT_EXIT_DIAGNOSTIC =
     ''observe ended because the launching parent exited; the owned group was terminated''"

record observe_final =
  ob_outcome :: supervisor_outcome
  ob_kind :: terminal_kind
  ob_child_status :: "child_status option"
  ob_owned_group_survivors :: "bool option"
  ob_diagnostic :: "string option"
  ob_relinquish :: bool

fun observe_final_of :: "observe_completion \<Rightarrow> observe_final" where
  "observe_final_of (Observe_Root outcome survivors) =
    \<lparr>ob_outcome = supervisor_outcome_of outcome, ob_kind = terminal_kind_of outcome,
     ob_child_status = Some (child_status_of outcome),
     ob_owned_group_survivors = (if survivors then Some True else None),
     ob_diagnostic = (if survivors then Some OBSERVE_SURVIVORS_DIAGNOSTIC else None),
     ob_relinquish = survivors\<rparr>"
| "observe_final_of (Observe_ParentExit root survivors) =
    \<lparr>ob_outcome = PolicyIntervention, ob_kind = Kind_PolicyIntervention,
     ob_child_status = map_option child_status_of root, ob_owned_group_survivors = Some survivors,
     ob_diagnostic = Some OBSERVE_PARENT_EXIT_DIAGNOSTIC, ob_relinquish = False\<rparr>"
| "observe_final_of Observe_ObservationFailure =
    \<lparr>ob_outcome = SupervisorFailure, ob_kind = Kind_SupervisorFailure, ob_child_status = None,
     ob_owned_group_survivors = None, ob_diagnostic = Some ''footprint observation failed'',
     ob_relinquish = True\<rparr>"
| "observe_final_of (Observe_SupervisorFailure diagnostic) =
    \<lparr>ob_outcome = SupervisorFailure, ob_kind = Kind_SupervisorFailure, ob_child_status = None,
     ob_owned_group_survivors = None, ob_diagnostic = Some diagnostic, ob_relinquish = True\<rparr>"

definition observe_terminal :: "observe_runtime \<Rightarrow> dur \<Rightarrow> observe_final \<Rightarrow> terminal_outcome" where
  "observe_terminal r ended_at f =
    \<lparr>to_at_ms = duration_ms ended_at, to_kind = ob_kind f,
     to_final_footprint_bytes = or_final_footprint r, to_child_status = ob_child_status f,
     to_owned_group_survivors = ob_owned_group_survivors f,
     to_parent_exited_at_ms = pw_exited_at_ms (or_parent_watch r)\<rparr>"

definition observe_sample_history ::
    "footprint_sampler \<Rightarrow> sample_window list \<Rightarrow> observe_effect list" where
  "observe_sample_history sampler samples =
     (case sm_history sampler of
        [] \<Rightarrow> []
      | s # _ \<Rightarrow>
          (if fs_sequence s = 0 then []
           else Logged E_SampleHistoryReset Sync # map (\<lambda>w. Logged (E_Sample w) Buffered) samples))"

definition observe_record_terminal ::
    "footprint_sampler \<Rightarrow> sample_window list \<Rightarrow> bool \<Rightarrow> calibration_artifact \<Rightarrow> terminal_outcome
     \<Rightarrow> observe_effect list" where
  "observe_record_terminal sampler samples escape_detected calibration outcome =
     observe_sample_history sampler samples
     @ [Logged (E_Checkpoint
           \<lparr>ck_status = Status_NotNegotiated, ck_at_ms = None, ck_request_id = None,
            ck_reason = None, ck_artifact = None\<rparr>) Sync,
        Logged (E_Escape (escape_of escape_detected sampler)) Buffered,
        Logged (E_Calibration calibration) Buffered,
        Logged (E_Outcome outcome) Sync]"

text \<open>
  \<open>ObserveRuntime::run\<close> without the journal file: the effects, how the run ended, and the outcome
  that is recorded. \<open>ob_relinquish\<close> says whether the group is left running.
\<close>

definition run_observed ::
    "observe_runtime \<Rightarrow> observe_input list \<Rightarrow> dur
     \<Rightarrow> (observe_runtime \<times> observe_effect list \<times> observe_final \<times> terminal_outcome) option" where
  "run_observed r inputs ended_at =
     (case observe_until_exit r inputs of
        None \<Rightarrow> None
      | Some (r, fx, completion) \<Rightarrow>
          (let f = observe_final_of completion; terminal = observe_terminal r ended_at f
           in Some (r, fx @ observe_record_terminal (or_sampler r) (or_report_samples r)
                (or_escape_detected r) (calibration_artifact_of (or_calibration r)) terminal,
              f, terminal)))"

text \<open>The part of the effects that goes to the journal.\<close>

definition logged :: "observe_effect list \<Rightarrow> run_effect list" where
  "logged = List.map_filter (\<lambda>x. case x of Logged entry d \<Rightarrow> Some (Wrote entry d) | Sent _ _ \<Rightarrow> None)"

section \<open>The start of a run\<close>

definition observe_start ::
    "common_options \<Rightarrow> sampling_config \<Rightarrow> identity_tracker \<Rightarrow> root_outcome option \<Rightarrow> i32
     \<Rightarrow> parent_watch_state \<Rightarrow> observe_runtime" where
  "observe_start common config tracker retained process_group watch =
    \<lparr>or_retained_outcome = retained, or_process_group = process_group,
     or_sampler = sampler_new config tracker, or_sample_interval = co_sample_interval common,
     or_calibration = calibration_new, or_report_samples = [],
     or_policy = observe_policy_machine config, or_observation_failed = False,
     or_signal_count = 0, or_parent_watch = watch, or_shutdown_deadline = None,
     or_root_outcome = None, or_final_footprint = Unknown, or_escape_detected = False\<rparr>"

end
