(* ===== verification/Observe_Props.thy ===== *)
theory Observe_Props
  imports Observe Runtime_Props
begin

text \<open>
  What an observing run guarantees: its journal always becomes a valid report of what it did, it
  leaves the command alone, and a group orphaned by the launching process is brought to an end.
\<close>

section \<open>Effects\<close>

lemma logged_simps [simp]:
  "logged [] = []" "logged (Sent n res # fx) = logged fx"
  "logged (Logged entry d # fx) = Wrote entry d # logged fx" "logged (fx @ fy) = logged fx @ logged fy"
  by (simp_all add: logged_def List.map_filter_def)

definition entries_logged :: "observe_effect list \<Rightarrow> journal_entry list" where
  "entries_logged fx = entries_of (logged fx)"

lemma entries_logged_simps [simp]:
  "entries_logged [] = []" "entries_logged (Sent n res # fx) = entries_logged fx"
  "entries_logged (Logged entry d # fx) = entry # entries_logged fx"
  "entries_logged (fx @ fy) = entries_logged fx @ entries_logged fy"
  by (simp_all add: entries_logged_def)

section \<open>The invariant\<close>

text \<open>Everything the report of an observing run will need, after \<open>n\<close> samples, at time \<open>t\<close>.\<close>

definition observe_ok :: "parent_watch_state \<Rightarrow> nat \<Rightarrow> dur \<Rightarrow> observe_runtime \<Rightarrow> bool" where
  "observe_ok pw n t r \<longleftrightarrow>
     stretch 0 t (map E_Sample (or_report_samples r))
   \<and> growth_past (oc_growth (or_calibration r)) t
   \<and> (\<exists>k\<le>n. calibration_ok (or_calibration r) k)
   \<and> (0 < it_escaped_count (sm_tracker (or_sampler r)) \<longrightarrow> or_escape_detected r)
   \<and> (case pw_exited_at_ms (or_parent_watch r) of None \<Rightarrow> True | Some x \<Rightarrow> x \<le> duration_ms t)
   \<and> pw_watch (or_parent_watch r) = pw_watch pw
   \<and> pw_on_parent_exit (or_parent_watch r) = pw_on_parent_exit pw
   \<and> pw_parent (or_parent_watch r) = pw_parent pw
   \<and> (pw_exited_at_ms (or_parent_watch r) \<noteq> None \<longrightarrow> pw_parent pw \<noteq> None)
   \<and> real_root_outcome (or_retained_outcome r) \<and> real_root_outcome (or_root_outcome r)"

lemma observe_ok_later:
  assumes "observe_ok pw n a r" and "a \<le> b" and "n \<le> m"
  shows "observe_ok pw m b r"
  using assms duration_ms_mono [OF assms(2)] stretch_append [of 0 a _ b "[]"]
  by (auto simp: observe_ok_def growth_past_def split: option.splits intro: order_trans)

definition observes :: "parent_watch_state \<Rightarrow> nat \<Rightarrow> dur \<Rightarrow> dur \<Rightarrow> observe_runtime \<Rightarrow> observe_effect list \<Rightarrow> bool" where
  "observes pw n a b r fx \<longleftrightarrow> observe_ok pw n b r \<and> stretch a b (entries_logged fx)"

lemma observes_idle: "observe_ok pw n a r \<Longrightarrow> a \<le> b \<Longrightarrow> observes pw n a b r []"
  by (simp add: observes_def observe_ok_later)

lemma observes_later: "observes pw n a b r fx \<Longrightarrow> b \<le> c \<Longrightarrow> n \<le> m \<Longrightarrow> observes pw m a c r fx"
  using stretch_append [of a b "entries_logged fx" c "[]"] by (auto simp: observes_def intro: observe_ok_later)

lemma observes_seq:
  "observes pw n a b r fx \<Longrightarrow> observes pw m b c r' fx' \<Longrightarrow> observes pw m a c r' (fx @ fx')"
  by (auto simp: observes_def intro: stretch_append)

lemma observe_ok_updates [simp]:
  "observe_ok pw n t (r\<lparr>or_signal_count := c\<rparr>) = observe_ok pw n t r"
  "observe_ok pw n t (r\<lparr>or_shutdown_deadline := d\<rparr>) = observe_ok pw n t r"
  by (simp_all add: observe_ok_def)

section \<open>Parts of an iteration\<close>

lemma signal_entry_stretch:
  assumes "a \<le> t" and "signal_in_range signal"
  shows "stretch a t (entries_logged [signal_entry t signal res reason])"
  using assms duration_ms_mono [OF assms(1)] by (simp add: signal_entry_def stretch_def)

lemma kill_in_range [simp]: "signal_in_range SIGKILL" "signal_in_range SIGTERM"
  by (simp_all add: signal_in_range_def SIGKILL_def SIGTERM_def)

lemma forward_observes:
  assumes "forward_terminal_signals r sg = (r', fx, failure)" and "observe_ok pw n a r"
    and "sorted (a # map (\<lambda>(signal, kill, t). t) sg @ [b])" and "\<forall>(signal, kill, t)\<in>set sg. valid_signal signal"
  shows "observes pw n a b r' fx"
  using assms
proof (induction sg arbitrary: r a fx)
  case Nil
  then show ?case by (simp add: observes_idle)
next
  case (Cons x sg)
  obtain signal kill t where x: "x = (signal, kill, t)" by (cases x)
  define d where "d = (if or_signal_count r = 0
      then (signal_get signal, forward_terminal_signal kill (or_process_group r) signal)
      else (SIGKILL, kill_group kill (or_process_group r)))"
  obtain n' res where d': "d = (n', res)" by force
  let ?s = "r\<lparr>or_signal_count := sat_add (or_signal_count r) 1\<rparr>"
  have range: "signal_in_range n'"
    using d' Cons.prems(4) by (auto simp: x d_def valid_signal_in_range split: if_splits)
  have at: "a \<le> t" "t \<le> b" "sorted (t # map (\<lambda>(signal, kill, t). t) sg @ [b])"
    using Cons.prems(3) by (auto simp: x)
  note later = observe_ok_later [OF Cons.prems(2) at(1) order_refl]
  show ?case
  proof (cases res)
    case (Inl kind)
    then have "fx = [Sent n' res]" "r' = ?s" using Cons.prems(1) d' by (auto simp: x d_def Let_def)
    with at observe_ok_later [OF Cons.prems(2), of b n] show ?thesis by (simp add: observes_def)
  next
    case (Inr result)
    obtain fx2 where fx2: "forward_terminal_signals ?s sg = (r', fx2, failure)"
      and fx: "fx = Sent n' res # signal_entry t n' result Reason_ExternalSignal # fx2"
      using Cons.prems(1) d' Inr by (auto simp: x d_def Let_def split: prod.splits)
    have "observes pw n t b r' fx2"
      using Cons.IH [OF fx2 _ at(3)] later Cons.prems(4) by simp
    moreover have "observes pw n a t ?s [Sent n' res, signal_entry t n' result Reason_ExternalSignal]"
      using signal_entry_stretch [OF at(1) range] later by (simp add: observes_def)
    ultimately show ?thesis using observes_seq fx by fastforce
  qed
qed

lemma observe_sample_observes:
  assumes r: "observe_ok pw n a r" and clock: "sample_clock a i" and few: "Suc n < 2 ^ 64"
  shows "observes pw (Suc n) a (si_processed_at i) (fst (observe_sample_once r i)) (snd (observe_sample_once r i))"
proof -
  let ?t = "si_processed_at i"
  obtain sm sample where snap: "record_snapshot (or_sampler r) (si_started_at i) (si_finished_at i)
      (si_snapshot i) = (sm, sample)" by force
  obtain cal w where rec: "record_sample (or_calibration r) sample ?t (si_advisory i) = (cal, w)" by force
  note times = recorded_sample [OF snap]
  have at: "a \<le> ?t" using clock by (simp add: sample_clock_def)
  have late: "observe_ok pw n ?t r" by (rule observe_ok_later [OF r at order_refl])
  have win: "sample_ok w \<and> growth_past (oc_growth cal) ?t"
    using recorded_window_ok [of "or_calibration r" ?t sample "si_advisory i"] late clock times
    by (simp add: rec observe_ok_def sample_clock_def sample_ok_def)
  have "sw_processed_at_ms w = duration_ms ?t"
    using rec by (auto simp: record_sample_def Let_def split_beta)
  with win at duration_ms_mono [OF at] have st: "stretch a ?t [E_Sample w]"
    by (simp add: stretch_def)
  from late obtain k where "k \<le> n" "calibration_ok (or_calibration r) k" by (auto simp: observe_ok_def)
  with record_sample_ok [of "or_calibration r" k sample ?t "si_advisory i"] few rec
  have cal: "\<exists>k\<le>Suc n. calibration_ok cal k" by (intro exI [of _ "Suc k"]) simp
  have "stretch 0 ?t (map E_Sample (retain_recent_sample (or_report_samples r) w))"
    using stretch_samples_push [OF _ st] r by (simp add: observe_ok_def)
  with late win cal times have ok: "observe_ok pw (Suc n) ?t (fst (observe_sample_once r i))"
    by (auto simp: observe_sample_once_def snap rec Let_def observe_ok_def)
  have "stretch ?t ?t (if p \<noteq> q then [E_Transition \<lparr>tr_at_ms = duration_ms ?t, tr_from = p, tr_to = q,
      tr_aggregate_footprint_bytes = f\<rparr>] else [])" for p q f
    by (simp add: stretch_at)
  moreover have "stretch a ?t (if c then [E_Sample w] else [])" for c using st at by simp
  ultimately have "stretch a ?t ((if c then [E_Sample w] else []) @ (if p \<noteq> q then [E_Transition
      \<lparr>tr_at_ms = duration_ms ?t, tr_from = p, tr_to = q, tr_aggregate_footprint_bytes = f\<rparr>] else []))" for c p q f
    using stretch_append by blast
  moreover have "entries_logged (snd (observe_sample_once r i)) = (if unat (fs_sequence sample) < MAX_SAMPLE_HISTORY_CAPACITY
      then [E_Sample w] else []) @ (if pm_state (or_policy r)
        \<noteq> pm_state (fst (apply_event (or_policy r) (Sample (policy_event sm sample ?t))))
      then [E_Transition \<lparr>tr_at_ms = duration_ms ?t, tr_from = pm_state (or_policy r),
        tr_to = pm_state (fst (apply_event (or_policy r) (Sample (policy_event sm sample ?t)))),
        tr_aggregate_footprint_bytes = observed_value (sw_aggregate_footprint_bytes w)\<rparr>] else [])"
    by (simp add: observe_sample_once_def snap rec Let_def)
  ultimately show ?thesis using ok by (simp only: observes_def)
qed

text \<open>The clock readings of one iteration that starts at \<open>a\<close> and may end at \<open>b\<close>.\<close>

definition observe_clock :: "dur \<Rightarrow> dur \<Rightarrow> observe_input \<Rightarrow> bool" where
  "observe_clock a b i \<longleftrightarrow> a \<le> oi_now i \<and> oi_now i \<le> oi_recorded_at i \<and> oi_recorded_at i \<le> b
     \<and> (case oi_signals i of
          Inl _ \<Rightarrow> True
        | Inr sg \<Rightarrow> sorted (oi_recorded_at i # map (\<lambda>(signal, kill, t). t) sg @ [si_started_at (oi_sample i)])
            \<and> (\<forall>(signal, kill, t)\<in>set sg. valid_signal signal)
            \<and> sample_clock (si_started_at (oi_sample i)) (oi_sample i)
            \<and> si_processed_at (oi_sample i) \<le> b)"

fun observed_clock :: "dur \<Rightarrow> dur \<Rightarrow> observe_input list \<Rightarrow> bool" where
  "observed_clock a b [] \<longleftrightarrow> a \<le> b"
| "observed_clock a b (i # is) \<longleftrightarrow>
     a \<le> b \<and> observe_clock a b i \<and> observed_clock (si_processed_at (oi_sample i)) b is"

text \<open>An iteration that goes on ends with its sample; one that returns ends before \<open>b\<close>.\<close>

definition step_observes ::
    "parent_watch_state \<Rightarrow> nat \<Rightarrow> dur \<Rightarrow> dur \<Rightarrow> observe_input \<Rightarrow> observe_step \<Rightarrow> bool" where
  "step_observes pw n a b i = (\<lambda>(r, fx, c). case c of
     Some completion \<Rightarrow> observes pw n a b r fx
       \<and> (\<forall>root survivors. completion = Observe_Root root survivors \<longrightarrow> real_root_outcome (Some root))
       \<and> (\<forall>root survivors. completion = Observe_ParentExit root survivors \<longrightarrow> real_root_outcome root)
   | None \<Rightarrow> observes pw n a (si_processed_at (oi_sample i)) r fx)"

lemma rest_observes:
  assumes "observes pw n a (oi_recorded_at i) r fx" and "observe_clock a b i" and "Suc n < 2 ^ 64"
  shows "step_observes pw (Suc n) a b i (observe_signals_and_sample r fx i)"
proof (cases "oi_signals i")
  case (Inl kind)
  with assms observes_later [OF assms(1), of b "Suc n"] show ?thesis
    by (simp add: observe_signals_and_sample_def observe_failed_def step_observes_def observe_clock_def)
next
  case (Inr sg)
  let ?start = "si_started_at (oi_sample i)"
  from Inr assms(2) have sc: "sorted (oi_recorded_at i # map (\<lambda>(signal, kill, t). t) sg @ [?start])"
    "\<forall>(signal, kill, t)\<in>set sg. valid_signal signal" "sample_clock ?start (oi_sample i)"
    "si_processed_at (oi_sample i) \<le> b" by (simp_all add: observe_clock_def)
  obtain s fx1 failure where s: "forward_terminal_signals r sg = (s, fx1, failure)" using prod_cases3 by blast
  have "observe_ok pw n (oi_recorded_at i) r" using assms(1) by (simp add: observes_def)
  from observes_seq [OF assms(1) forward_observes [OF s this sc(1,2)]]
  have one: "observes pw n a ?start s (fx @ fx1)" .
  have end_le: "?start \<le> si_processed_at (oi_sample i)" using sc(3) by (simp add: sample_clock_def)
  show ?thesis
  proof (cases failure)
    case (Some kind)
    with s Inr observes_later [OF one, of b "Suc n"] end_le sc(4) show ?thesis
      by (simp add: observe_signals_and_sample_def observe_failed_def step_observes_def)
  next
    case None
    obtain u fx2 where u: "(if or_observation_failed s then (s, []) else observe_sample_once s (oi_sample i)) = (u, fx2)"
      by force
    have "observe_ok pw n ?start s" using one by (simp add: observes_def)
    from observe_sample_observes [OF this sc(3) assms(3)] observes_later [OF observes_idle [OF this end_le] order_refl, of "Suc n"] u
    have "observes pw (Suc n) ?start (si_processed_at (oi_sample i)) u fx2" by (auto split: if_splits)
    from observes_seq [OF one this] have all: "observes pw (Suc n) a (si_processed_at (oi_sample i)) u (fx @ fx1 @ fx2)"
      by simp
    have res: "observe_signals_and_sample r fx i = (u, fx @ fx1 @ fx2,
        if or_observation_failed u \<and> or_shutdown_deadline u = None then Some Observe_ObservationFailure else None)"
      by (simp add: observe_signals_and_sample_def Inr s None u)
    from all observes_later [OF all sc(4) order_refl] show ?thesis
      by (simp add: res step_observes_def)
  qed
qed

lemma failed_observes:
  "observes pw n a c r fx \<Longrightarrow> c \<le> b \<Longrightarrow> step_observes pw (Suc n) a b i (observe_failed r fx kind)"
  using observes_later [of pw n a c r fx b "Suc n"] by (simp add: observe_failed_def step_observes_def)

lemma sent_observes:
  assumes "observe_ok pw n a r" and "a \<le> t" and "signal_in_range signal"
  shows "observes pw n a t r [Sent signal res, signal_entry t signal result reason]"
  using assms signal_entry_stretch [OF assms(2,3)] observe_ok_later [OF assms(1,2) order_refl]
  by (simp add: observes_def)

lemma shutdown_observes:
  assumes r: "observe_ok pw n a r" and clock: "observe_clock a b i" and few: "Suc n < 2 ^ 64"
  shows "step_observes pw (Suc n) a b i (observe_shutdown r group_exists deadline i)"
proof -
  from clock have t: "a \<le> oi_recorded_at i" "oi_recorded_at i \<le> b" by (simp_all add: observe_clock_def)
  have idle: "observes pw n a b r []" "observes pw n a (oi_recorded_at i) r []"
    using observes_idle [OF r] t by simp_all
  have root: "real_root_outcome (or_root_outcome r)" using r by (simp add: observe_ok_def)
  show ?thesis
  proof (cases "group_exists \<and> deadline \<le> oi_now i")
    case False
    with root observes_later [OF idle(1) order_refl, of "Suc n"] rest_observes [OF idle(2) clock few]
    show ?thesis by (auto simp: observe_shutdown_def step_observes_def)
  next
    case True
    define res where "res = kill_group (oi_group i) (or_process_group r)"
    have "observes pw n a b r [Sent SIGKILL res]" using idle(1) by (simp add: observes_def)
    from failed_observes [OF this order_refl, of i] show ?thesis
      using True root observes_later [OF sent_observes [OF r t(1) kill_in_range(1)] t(2), of "Suc n"]
      by (cases res) (simp_all add: observe_shutdown_def res_def [symmetric] Let_def step_observes_def
          record_parent_exit_signal_def)
  qed
qed

lemma watch_observes:
  assumes r: "observe_ok pw n a r" and clock: "observe_clock a b i" and few: "Suc n < 2 ^ 64"
  shows "step_observes pw (Suc n) a b i (observe_watch r i)"
proof -
  from clock have t: "a \<le> oi_now i" "oi_now i \<le> oi_recorded_at i" "oi_recorded_at i \<le> b"
    by (simp_all add: observe_clock_def)
  obtain watch exited where w: "parent_has_exited (or_parent_watch r) (oi_ppid i) (oi_parent_exited i)
      (oi_now i) = (watch, exited)" by force
  let ?s = "r\<lparr>or_parent_watch := watch\<rparr>"
  have s: "observe_ok pw n (oi_now i) ?s"
    using observe_ok_later [OF r t(1) order_refl] w
    by (auto simp: observe_ok_def parent_has_exited_def split: option.splits if_splits)
  have up: "stretch a (oi_now i) []" using t(1) by simp
  have idle: "observes pw n a (oi_recorded_at i) ?s []"
    using observe_ok_later [OF s t(2) order_refl] t by (simp add: observes_def)
  show ?thesis
  proof (cases "exited \<and> pw_on_parent_exit watch = OnParent_Terminate")
    case False
    with rest_observes [OF idle clock few] show ?thesis by (auto simp: observe_watch_def w)
  next
    case True
    define res where "res = terminate_group (oi_group i) (or_process_group r)"
    show ?thesis
    proof (cases res)
      case (Inl kind)
      have "observes pw n a (oi_recorded_at i) ?s [Sent SIGTERM res]" using idle by (simp add: observes_def)
      from failed_observes [OF this t(3)] True Inl show ?thesis
        by (simp add: observe_watch_def w res_def [symmetric] Let_def)
    next
      case (Inr result)
      let ?u = "?s\<lparr>or_shutdown_deadline := Some (dur_sat_add (oi_now i) TERM_GRACE)\<rparr>"
      have "observe_ok pw n (oi_now i) ?u" using s by simp
      from sent_observes [OF this t(2) kill_in_range(2), of res result Reason_ParentExit]
      have "observes pw n a (oi_recorded_at i) ?u
          [Sent SIGTERM res, record_parent_exit_signal (oi_recorded_at i) SIGTERM result]"
        using stretch_append [OF up] by (auto simp: observes_def record_parent_exit_signal_def)
      from rest_observes [OF this clock few] True Inr show ?thesis
        by (simp add: observe_watch_def w res_def [symmetric] Let_def)
    qed
  qed
qed

lemma wait_observes:
  assumes "observe_wait r waited = (s, res)" and "observe_ok pw n t r"
  shows "observe_ok pw n t s"
proof -
  obtain retained x where w: "try_wait_root (or_retained_outcome r) waited = (retained, x)" by force
  have none: "real_root_outcome None" by (simp add: real_root_outcome_def)
  have "real_root_outcome (or_retained_outcome r)" using assms(2) by (simp add: observe_ok_def)
  with w none have "real_root_outcome retained" "\<And>y. x = Ok y \<Longrightarrow> real_root_outcome y"
    by (auto simp: try_wait_root_def dest: real_status split: option.splits sum.splits)
  with assms w show ?thesis
    by (cases x) (auto simp: observe_wait_def Let_def observe_ok_def split: if_splits)
qed

lemma iteration_observes:
  assumes r: "observe_ok pw n a r" and clock: "observe_clock a b i" and few: "Suc n < 2 ^ 64"
  shows "step_observes pw (Suc n) a b i (observe_iteration r i)"
proof -
  obtain s res where s: "observe_wait r (oi_waited i) = (s, res)" by force
  note ok = wait_observes [OF s r]
  have "a \<le> b" using clock by (simp add: observe_clock_def)
  note idle = observes_idle [OF ok this]
  note fail = failed_observes [OF idle order_refl]
  show ?thesis
  proof (cases res)
    case (Inl kind)
    with fail show ?thesis by (simp add: observe_iteration_def s)
  next
    case ok_wait: (Inr x)
    show ?thesis
    proof (cases "owned_group_exists (oi_kill i) (or_process_group s)")
      case (Inl kind)
      with ok_wait fail show ?thesis by (simp add: observe_iteration_def s)
    next
      case (Inr group_exists)
      show ?thesis
      proof (cases "or_shutdown_deadline s")
        case (Some deadline)
        with ok_wait Inr shutdown_observes [OF ok clock few] show ?thesis
          by (simp add: observe_iteration_def s)
      next
        case None
        have "real_root_outcome (or_root_outcome s)" using ok by (simp add: observe_ok_def)
        then show ?thesis
          using None ok_wait Inr watch_observes [OF ok clock few] observes_later [OF idle order_refl, of "Suc n"]
          by (cases "or_root_outcome s") (simp_all add: observe_iteration_def s step_observes_def)
      qed
    qed
  qed
qed

lemma observe_loop:
  assumes "observe_until_exit r inputs = Some (r', fx, c)" and "observe_ok pw n a r"
    and "observed_clock a b inputs" and "n + length inputs < 2 ^ 64"
  shows "observes pw (n + length inputs) a b r' fx
    \<and> (\<forall>root survivors. c = Observe_Root root survivors \<longrightarrow> real_root_outcome (Some root))
    \<and> (\<forall>root survivors. c = Observe_ParentExit root survivors \<longrightarrow> real_root_outcome root)"
  using assms
proof (induction inputs arbitrary: r n a fx)
  case (Cons i inputs)
  obtain s fx1 d where it: "observe_iteration r i = (s, fx1, d)" using prod_cases3 by blast
  have clock: "observe_clock a b i" "observed_clock (si_processed_at (oi_sample i)) b inputs"
    and few: "Suc n < 2 ^ 64" using Cons.prems by auto
  note step = iteration_observes [OF Cons.prems(2) clock(1) few, unfolded it]
  show ?case
  proof (cases d)
    case (Some completion)
    with it Cons.prems(1) have "r' = s" "fx = fx1" "c = completion" by auto
    with step Some observes_later [of pw "Suc n" a b s fx1 b "n + length (i # inputs)"] show ?thesis
      by (simp add: step_observes_def)
  next
    case None
    with it Cons.prems(1) obtain fx2 where fx2: "observe_until_exit s inputs = Some (r', fx2, c)" "fx = fx1 @ fx2"
      by auto
    from step None have one: "observes pw (Suc n) a (si_processed_at (oi_sample i)) s fx1"
      by (simp add: step_observes_def)
    then have ok: "observe_ok pw (Suc n) (si_processed_at (oi_sample i)) s" by (simp add: observes_def)
    from Cons.IH [OF fx2(1) ok clock(2)] Cons.prems(4)
    have "observes pw (Suc n + length inputs) (si_processed_at (oi_sample i)) b r' fx2"
      and ends: "\<forall>root survivors. c = Observe_Root root survivors \<longrightarrow> real_root_outcome (Some root)"
        "\<forall>root survivors. c = Observe_ParentExit root survivors \<longrightarrow> real_root_outcome root" by simp_all
    from observes_seq [OF one this(1)] ends fx2(2) show ?thesis by simp
  qed
qed simp

section \<open>The report\<close>

definition observe_complete :: "observe_runtime \<Rightarrow> bool" where
  "observe_complete r \<longleftrightarrow> (case sm_history (or_sampler r) of [] \<Rightarrow> True | s # _ \<Rightarrow> fs_sequence s = 0)"

definition no_checkpoint :: checkpoint_record where
  "no_checkpoint = \<lparr>ck_status = Status_NotNegotiated, ck_at_ms = None, ck_request_id = None,
     ck_reason = None, ck_artifact = None\<rparr>"

definition observe_report ::
    "journal_header \<Rightarrow> journal_entry list \<Rightarrow> observe_runtime \<Rightarrow> terminal_outcome \<Rightarrow> report_v1" where
  "observe_report h es r out =
    \<lparr>rep_schema_version = jh_schema_version h, rep_package_version = jh_package_version h,
     rep_run = jh_run h, rep_capabilities = jh_capabilities h,
     rep_configuration = jh_configuration h,
     rep_samples = (if observe_complete r then samples_in es else or_report_samples r),
     rep_transitions = transitions_in es, rep_signals = signals_in es,
     rep_checkpoint = no_checkpoint, rep_escape = escape_of (or_escape_detected r) (or_sampler r),
     rep_artifact_errors = [], rep_outcome = out,
     rep_calibration = Some (calibration_artifact_of (or_calibration r)), rep_privacy = jh_privacy h\<rparr>"

definition observe_entries :: "observe_runtime \<Rightarrow> terminal_outcome \<Rightarrow> journal_entry list" where
  "observe_entries r out =
     (if observe_complete r then [] else E_SampleHistoryReset # map E_Sample (or_report_samples r))
     @ [E_Checkpoint no_checkpoint, E_Escape (escape_of (or_escape_detected r) (or_sampler r)),
        E_Calibration (calibration_artifact_of (or_calibration r)), E_Outcome out]"

lemma entries_logged_samples: "entries_logged (map (\<lambda>w. Logged (E_Sample w) Buffered) ws) = map E_Sample ws"
  by (induction ws) simp_all

lemma entries_of_observe_terminal:
  "entries_logged (observe_record_terminal (or_sampler r) (or_report_samples r) (or_escape_detected r)
     (calibration_artifact_of (or_calibration r)) out) = observe_entries r out"
  by (cases "sm_history (or_sampler r)")
    (auto simp: observe_record_terminal_def observe_sample_history_def observe_entries_def no_checkpoint_def
      observe_complete_def entries_logged_samples)

lemma replay_observed:
  assumes "list_all entry_ok es" and "n = Suc (length (es @ observe_entries r out))"
  shows "\<exists>s. Journal.replay n 0 replay_start (E_Header h # es @ observe_entries r out) = Some s
    \<and> assemble s = Some (observe_report h es r out)"
  using assms
  by (cases "observe_complete r")
    (simp_all add: observe_entries_def replay_split replay_running replay_lists replay_entry_def replay_start_def
      assemble_def observe_report_def)

lemma observe_configuration_valid:
  assumes iv: "MIN_SAMPLE_INTERVAL \<le> co_sample_interval common" "co_sample_interval common \<le> MAX_SAMPLE_INTERVAL"
    and watch: "watch_ok (co_on_parent_exit common) w"
    and conf: "rep_configuration r = observe_configuration common w0"
    and same: "pw_watch w0 = pw_watch w" "pw_on_parent_exit w0 = pw_on_parent_exit w"
    and out: "to_parent_exited_at_ms (rep_outcome r) = pw_exited_at_ms w"
  shows "configuration_valid r"
proof -
  have i: "1000000 \<le> co_sample_interval common" "co_sample_interval common \<le> 10000000000"
    using iv by (simp_all add: MIN_SAMPLE_INTERVAL_def MAX_SAMPLE_INTERVAL_def from_millis_def from_secs_def)
  have w: "pw_exited_at_ms w = None \<or> pw_watch w = Watch_Active \<or> pw_watch w = Watch_Detach"
    "pw_watch w \<noteq> Watch_Detach \<or> pw_on_parent_exit w = OnParent_Detach"
    "pw_on_parent_exit w \<noteq> OnParent_Detach \<or> pw_watch w = Watch_Detach
     \<or> pw_watch w = Watch_ParentUnobservable"
    using watch by (auto simp: watch_ok_def) (cases "co_on_parent_exit common"; simp)+
  show ?thesis
    using i w
    by (auto simp: configuration_valid_def conf observe_configuration_def quality_bounds Let_def same out
        ms_positive REQUIRED_BREACH_SAMPLES_def MAX_MISSING_SAMPLES_def TERM_GRACE_def from_secs_def)
qed

lemma calibration_valid_of:
  assumes "calibration_ok c k" and "k < 2 ^ 64"
  shows "calibration_valid (calibration_artifact_of c)"
  using assms
  by (auto simp: calibration_valid_def calibration_artifact_of_def calibration_ok_def
      checked_add_Some Let_def word_le_nat_alt unat_gt_0 one_le_unat split: option.splits)

lemma recorded_events_valid:
  assumes es: "stretch a b es" and ws: "stretch 0 b (map E_Sample ws)"
    and samples: "rep_samples rep = (if c then samples_in es else ws)"
    and rest: "rep_transitions rep = transitions_in es" "rep_signals rep = signals_in es"
      "rep_artifact_errors rep = []"
    and checkpoint: "checkpoint_record_valid (rep_checkpoint rep)"
      "case ck_at_ms (rep_checkpoint rep) of None \<Rightarrow> True | Some x \<Rightarrow> x \<le> duration_ms b"
    and escape: "escape_valid (rep_escape rep)"
    and out: "to_at_ms (rep_outcome rep) = duration_ms b" "outcome_valid (rep_outcome rep)"
  shows "validate_events rep = Ok ()"
proof -
  have es': "sorted (map entry_at es)" "\<And>e. e \<in> set es \<Longrightarrow> entry_ok e \<and> entry_at e \<le> duration_ms b"
    using es by (auto simp: stretch_def)
  have ok: "sorted (map sw_processed_at_ms ws)
    \<and> (\<forall>w\<in>set ws. sample_ok w \<and> sw_processed_at_ms w \<le> duration_ms b)"
    using ws by (simp add: stretch_def comp_def)
  have windows: "sorted (map sw_processed_at_ms (rep_samples rep))
    \<and> (\<forall>w\<in>set (rep_samples rep). sample_ok w \<and> sw_processed_at_ms w \<le> duration_ms b)"
  proof (cases c)
    case True
    have "sample_ok w \<and> sw_processed_at_ms w \<le> duration_ms b" if "w \<in> set (samples_in es)" for w
      using es'(2) [of "E_Sample w"] that by simp
    with sorted_entries_in(1) [OF es'(1)] True show ?thesis by (simp add: samples)
  next
    case False
    with ok show ?thesis by (simp add: samples)
  qed
  have transitions: "tr_from v \<noteq> tr_to v \<and> tr_at_ms v \<le> duration_ms b" if "E_Transition v \<in> set es" for v
    using es'(2) [OF that] by simp
  have signals: "signal_in_range (sr_signal u) \<and> sr_at_ms u \<le> duration_ms b" if "E_Signal u \<in> set es" for u
    using es'(2) [OF that] by simp
  show ?thesis
    using windows sorted_entries_in(2,3) [OF es'(1)] transitions signals checkpoint escape out
    by (auto simp: validate_events_Ok_iff list_all_iff event_times_def rest sample_ok_def
        split: option.splits)
qed

lemma observe_report_valid:
  assumes iv: "MIN_SAMPLE_INTERVAL \<le> co_sample_interval common" "co_sample_interval common \<le> MAX_SAMPLE_INTERVAL"
    and watch: "watch_ok (co_on_parent_exit common) pw"
    and r: "observe_ok pw n b r" and few: "n < 2 ^ 64" and es: "stretch a b es"
    and out: "to_at_ms out = duration_ms b" "outcome_valid out"
      "to_parent_exited_at_ms out = pw_exited_at_ms (or_parent_watch r)"
    and ident: "identity_valid identity" "ri_correlation_hash identity = None"
    and version: "valid_package_version version"
    and h: "h = initial_header version identity (observe_configuration common pw) available"
  shows "validate (observe_report h es r out) = (Ok () :: 'e report_error + unit)"
proof -
  let ?r = "observe_report h es r out"
  have same: "pw_watch pw = pw_watch (or_parent_watch r)"
    "pw_on_parent_exit pw = pw_on_parent_exit (or_parent_watch r)"
    and watch': "watch_ok (co_on_parent_exit common) (or_parent_watch r)"
    using r watch by (auto simp: observe_ok_def watch_ok_def)
  have "configuration_valid ?r"
    by (rule observe_configuration_valid [OF iv watch' _ same])
      (simp_all add: observe_report_def h initial_header_def out)
  moreover have "privacy_valid ?r"
    by (simp add: privacy_valid_def observe_report_def h initial_header_def privacy_default_def ident)
  moreover have "rep_schema_version ?r = REPORT_SCHEMA_VERSION" "rep_package_version ?r = version"
    "rep_run ?r = identity" "rep_calibration ?r = Some (calibration_artifact_of (or_calibration r))"
    "rc_mode (rep_configuration ?r) = ReportObserve"
    by (simp_all add: observe_report_def h initial_header_def observe_configuration_def Let_def split_beta)
  moreover obtain k where "k \<le> n" "calibration_ok (or_calibration r) k" using r by (auto simp: observe_ok_def)
  then have "calibration_valid (calibration_artifact_of (or_calibration r))"
    using calibration_valid_of few by simp
  moreover have "validate_events ?r = (Ok () :: 'e report_error + unit)"
  proof (rule recorded_events_valid [OF es, where ws = "or_report_samples r"])
    show "stretch 0 b (map E_Sample (or_report_samples r))" using r by (simp add: observe_ok_def)
    show "escape_valid (rep_escape ?r)"
      using r by (simp add: observe_ok_def observe_report_def escape_valid_def escape_of_def Let_def)
    show "to_at_ms (rep_outcome ?r) = duration_ms b" "outcome_valid (rep_outcome ?r)"
      using out by (simp_all add: observe_report_def)
    show "rep_samples ?r = (if observe_complete r then samples_in es else or_report_samples r)"
      by (simp add: observe_report_def)
  qed (simp_all add: observe_report_def no_checkpoint_def checkpoint_record_valid_def)
  ultimately show ?thesis using ident version
    by (simp add: validate_def validate_calibration_def)
qed

lemma observe_outcome_valid:
  assumes "\<forall>root survivors. c = Observe_Root root survivors \<longrightarrow> real_root_outcome (Some root)"
    and "\<forall>root survivors. c = Observe_ParentExit root survivors \<longrightarrow> real_root_outcome root"
    and "case pw_exited_at_ms (or_parent_watch r) of None \<Rightarrow> True | Some x \<Rightarrow> x \<le> duration_ms b"
  shows "outcome_valid (observe_terminal r b (observe_final_of c))"
proof (cases c)
  case (Observe_Root root survivors)
  with assms show ?thesis
    by (cases root) (auto simp: outcome_valid_def observe_terminal_def real_root_outcome_def valid_signal_in_range
        split: option.splits)
next
  case (Observe_ParentExit root survivors)
  with assms show ?thesis
    by (cases root)
      (auto simp: outcome_valid_def observe_terminal_def real_root_outcome_def valid_signal_in_range
        split: root_outcome.splits option.splits)
qed (use assms(3) in \<open>auto simp: outcome_valid_def observe_terminal_def split: option.splits\<close>)

lemma observe_start_ok:
  assumes "identity_tracker_new root pgid = Ok tracker" and "pw_exited_at_ms watch = None"
    and "real_root_outcome retained"
  shows "observe_ok watch 0 0 (observe_start common config tracker retained pg watch)"
proof -
  have "it_escaped_count tracker = 0"
    using assms(1) by (auto simp: identity_tracker_new_def split: if_splits)
  moreover have "calibration_ok calibration_new 0"
    by (simp add: calibration_ok_def calibration_new_def)
  moreover have "growth_past (oc_growth calibration_new) 0"
    by (simp add: calibration_new_def growth_default_def growth_past_def)
  ultimately show ?thesis using assms(2,3)
    by (auto simp: observe_ok_def observe_start_def sampler_new_def real_root_outcome_def)
qed

lemma accepted_observe_options:
  assumes "parse_cli (Raw_Observe raw) = Ok (Mode_Observe common)"
  shows "MIN_SAMPLE_INTERVAL \<le> co_sample_interval common" "co_sample_interval common \<le> MAX_SAMPLE_INTERVAL"
  using assms by (auto simp: parse_cli_def normalize_def split: if_splits sum.splits)

text \<open>C3. An observing run ends in a valid report, if these conditions hold: the readings of the clock are
  in order, every sample has a positive width and no advisory metric from the future (\<open>observed_clock\<close>;
  \<open>Advisory_Props\<close> shows that a sample of no width does make the report invalid),
  the signals are terminal signals and a retained status of the root is that of a process, the storage
  took every record, at most 65,536 with the header, and the codec reads back what it wrote and encodes
  the report. Then, for any accepted command line, any samples and answers of the platform, the journal
  of the finished run replays into a report that passes the report's own validation, with the outcome of
  the run and exactly the transitions and signals it recorded; and the process status is the outcome of
  the run.\<close>

theorem observed_run_is_reported:
  assumes "parse_cli (Raw_Observe raw) = Ok (Mode_Observe common)"
    and "identity_tracker_new root pgid = Ok tracker"
    and "from_argv run_id argv None = Ok identity" and "valid_package_version version"
    and "watch = parent_watch_state_for ppid inspected hangup (co_on_parent_exit common)"
    and "real_root_outcome retained" and "observed_clock 0 ended inputs" and "length inputs < 2 ^ 64"
    and "initialize (disk_append to_vec io) journal_initialized
      (initial_header version identity (observe_configuration common watch) False) = Some (j, n)"
    and "run_observed (observe_start common config tracker retained pg watch) inputs ended
      = Some (r', fx, f, terminal)"
    and "journal_effects (disk_append to_vec io) (resilient_new j, n) (logged fx) = (rj, n')"
    and "rj_journal rj \<noteq> None" and "length (entries_logged fx) < MAX_RECOVERED_RECORDS"
    and "reads_back to_vec from_slice" and "\<forall>report. \<exists>text. to_string report = Ok text"
  shows "\<exists>report text. finish_journal from_slice to_string True True rj (ob_outcome f)
        = (ob_outcome f, Some (report, text))
      \<and> validate report = (Ok () :: 'e report_error + unit)
      \<and> rep_outcome report = terminal
      \<and> rep_transitions report = transitions_in (entries_logged fx)
      \<and> rep_signals report = signals_in (entries_logged fx)"
proof -
  define h where "h = initial_header version identity (observe_configuration common watch) False"
  have w: "watch_ok (co_on_parent_exit common) watch" and w0: "pw_exited_at_ms watch = None"
    unfolding assms(5)
    by (rule watch_ok_start) (simp add: parent_watch_state_for_def establish_parent_watch_def
        unwatched_def Let_def split: option.splits)
  have ident: "identity_valid identity" "ri_correlation_hash identity = None"
    using assms(3) by (auto simp: from_argv_def Let_def split: list.splits option.splits if_splits)
  from assms(10) obtain fx1 c where loop: "observe_until_exit (observe_start common config tracker retained pg watch)
      inputs = Some (r', fx1, c)" and f: "f = observe_final_of c" and terminal: "terminal = observe_terminal r' ended f"
    and fx: "entries_logged fx = entries_logged fx1 @ observe_entries r' terminal"
    by (auto simp: run_observed_def Let_def entries_of_observe_terminal split: option.splits)
  from observe_loop [OF loop observe_start_ok [OF assms(2) w0 assms(6)] assms(7)] assms(8)
  have r': "observe_ok watch (length inputs) ended r'" and es: "stretch 0 ended (entries_logged fx1)"
    and ends: "\<forall>root survivors. c = Observe_Root root survivors \<longrightarrow> real_root_outcome (Some root)"
      "\<forall>root survivors. c = Observe_ParentExit root survivors \<longrightarrow> real_root_outcome root"
    by (simp_all add: observes_def)
  have out: "to_at_ms terminal = duration_ms ended" "outcome_valid terminal"
    "to_parent_exited_at_ms terminal = pw_exited_at_ms (or_parent_watch r')"
    using observe_outcome_valid [OF ends] r' by (simp_all add: terminal f observe_terminal_def observe_ok_def)
  define report where "report = observe_report h (entries_logged fx1) r' terminal"
  note valid = observe_report_valid [OF accepted_observe_options [OF assms(1)] w r' assms(8) es out ident assms(4) h_def]
  have "list_all entry_ok (entries_logged fx1)" using es by (auto simp: stretch_def list_all_iff)
  from replay_observed [OF this refl, of r' terminal h] obtain s where
    s: "Journal.replay (Suc (length (entries_of (logged fx)))) 0 replay_start (E_Header h # entries_of (logged fx)) = Some s"
      "assemble s = Some report" by (auto simp: fx [unfolded entries_logged_def] report_def entries_logged_def)
  have "validate report = (Ok () :: unit report_error + unit)" by (simp add: report_def valid)
  from journal_becomes_report [OF assms(9) [folded h_def] assms(11,12) assms(13) [unfolded entries_logged_def]
      assms(14,15) s this]
  obtain str where "finish_journal from_slice to_string True True rj (ob_outcome f) = (ob_outcome f, Some (report, str))"
    by blast
  moreover have "transitions_in (observe_entries r' terminal) = []" "signals_in (observe_entries r' terminal) = []"
  proof -
    have "transitions_in (map E_Sample ws) = []" "signals_in (map E_Sample ws) = []" for ws
      by (induction ws) (simp_all add: entries_in_defs)
    then show "transitions_in (observe_entries r' terminal) = []" "signals_in (observe_entries r' terminal) = []"
      by (simp_all add: observe_entries_def) (simp_all add: entries_in_defs)
  qed
  then have "rep_transitions report = transitions_in (entries_logged fx)"
    "rep_signals report = signals_in (entries_logged fx)" "rep_outcome report = terminal"
    by (simp_all add: report_def observe_report_def fx)
  ultimately show ?thesis using valid by (intro exI [of _ report] exI [of _ str]) (simp add: report_def)
qed

section \<open>What an observing run leaves alone\<close>

definition sends :: "observe_effect list \<Rightarrow> u8 list" where
  "sends = List.map_filter (\<lambda>x. case x of Sent n _ \<Rightarrow> Some n | Logged _ _ \<Rightarrow> None)"

lemma sends_simps [simp]:
  "sends [] = []" "sends (Sent n res # fx) = n # sends fx" "sends (Logged entry d # fx) = sends fx"
  "sends (fx @ fy) = sends fx @ sends fy"
  by (simp_all add: sends_def List.map_filter_def)

lemma sends_signal_entry [simp]: "sends (signal_entry t n res reason # fx) = sends fx"
  by (simp add: signal_entry_def)

text \<open>The supervisor was asked, by a signal to itself or by the exit of the launching process.\<close>

definition asked_by_signal :: "observe_input list \<Rightarrow> bool" where
  "asked_by_signal inputs \<longleftrightarrow> (\<exists>i\<in>set inputs. \<exists>sg. oi_signals i = Ok sg \<and> sg \<noteq> [])"

definition asked_by_parent :: "observe_runtime \<Rightarrow> bool" where
  "asked_by_parent r \<longleftrightarrow> pw_exited_at_ms (or_parent_watch r) \<noteq> None
     \<and> pw_on_parent_exit (or_parent_watch r) = OnParent_Terminate"

text \<open>What one iteration may have done, from \<open>r\<close> to \<open>s\<close>.\<close>

definition restrained :: "observe_input \<Rightarrow> observe_runtime \<Rightarrow> observe_runtime \<Rightarrow> observe_effect list \<Rightarrow> bool" where
  "restrained i r s fx \<longleftrightarrow>
     (sends fx \<noteq> [] \<longrightarrow> asked_by_parent s \<or> asked_by_signal [i])
   \<and> (asked_by_parent r \<longrightarrow> asked_by_parent s)
   \<and> (or_shutdown_deadline s \<noteq> None \<longrightarrow> or_shutdown_deadline r \<noteq> None \<or> asked_by_parent s)
   \<and> or_process_group s = or_process_group r"

lemma forward_restrained:
  "forward_terminal_signals r sg = (s, fx, failure) \<Longrightarrow>
   (sg = [] \<longrightarrow> fx = []) \<and> or_parent_watch s = or_parent_watch r
   \<and> or_shutdown_deadline s = or_shutdown_deadline r \<and> or_process_group s = or_process_group r"
proof (induction sg arbitrary: r s fx failure)
  case (Cons x sg)
  obtain signal kill t where x: "x = (signal, kill, t)" by (cases x)
  define d where "d = (if or_signal_count r = 0
      then (signal_get signal, forward_terminal_signal kill (or_process_group r) signal)
      else (SIGKILL, kill_group kill (or_process_group r)))"
  obtain n' res where d': "d = (n', res)" by force
  let ?s = "r\<lparr>or_signal_count := sat_add (or_signal_count r) 1\<rparr>"
  obtain u fx2 f2 where u: "forward_terminal_signals ?s sg = (u, fx2, f2)" using prod_cases3 by blast
  from Cons.prems Cons.IH [OF u] show ?case
    by (cases res) (auto simp: x d_def [symmetric] d' u Let_def)
qed simp

lemma rest_restrained:
  assumes "observe_signals_and_sample u fx i = (s, fx', c)"
    and "sends fx \<noteq> [] \<longrightarrow> asked_by_parent u"
    and "asked_by_parent r \<longrightarrow> asked_by_parent u"
    and "or_shutdown_deadline u \<noteq> None \<longrightarrow> or_shutdown_deadline r \<noteq> None \<or> asked_by_parent u"
    and "or_process_group u = or_process_group r"
  shows "restrained i r s fx' \<and> (c = None \<or> c = Some Observe_ObservationFailure \<or> (\<exists>d. c = Some (Observe_SupervisorFailure d)))"
proof (cases "oi_signals i")
  case (Inl kind)
  with assms show ?thesis
    by (auto simp: observe_signals_and_sample_def observe_failed_def restrained_def)
next
  case (Inr sg)
  obtain v fx1 failure where v: "forward_terminal_signals u sg = (v, fx1, failure)" using prod_cases3 by blast
  note fwd = forward_restrained [OF v]
  have asked: "asked_by_signal [i]" if "sg \<noteq> []" using that Inr by (simp add: asked_by_signal_def)
  have same: "asked_by_parent v = asked_by_parent u" using fwd by (simp add: asked_by_parent_def)
  have smp: "asked_by_parent (fst (observe_sample_once v j)) = asked_by_parent v
    \<and> or_shutdown_deadline (fst (observe_sample_once v j)) = or_shutdown_deadline v
    \<and> or_process_group (fst (observe_sample_once v j)) = or_process_group v
    \<and> sends (snd (observe_sample_once v j)) = []" for j
    by (simp add: observe_sample_once_def asked_by_parent_def Let_def split_beta)
  obtain w fx2 where w: "(if or_observation_failed v then (v, []) else observe_sample_once v (oi_sample i)) = (w, fx2)"
    by force
  have w': "asked_by_parent w = asked_by_parent u" "or_shutdown_deadline w = or_shutdown_deadline u"
    "or_process_group w = or_process_group u" "sends fx2 = []"
    using w smp [of "oi_sample i"] fwd same by (auto split: if_splits)
  show ?thesis
  proof (cases failure)
    case (Some kind)
    with assms(1) have "s = v" "fx' = fx @ fx1" "\<exists>d. c = Some (Observe_SupervisorFailure d)"
      by (auto simp: observe_signals_and_sample_def Inr v observe_failed_def)
    with assms(2-5) fwd asked same show ?thesis
      by (cases "sg = []") (auto simp: restrained_def)
  next
    case None
    have "observe_signals_and_sample u fx i = (w, fx @ fx1 @ fx2,
        if or_observation_failed w \<and> or_shutdown_deadline w = None then Some Observe_ObservationFailure else None)"
      by (simp add: observe_signals_and_sample_def Inr v None w)
    with assms(1) have "s = w" "fx' = fx @ fx1 @ fx2" "c = None \<or> c = Some Observe_ObservationFailure"
      by (auto split: if_splits)
    with assms(2-5) fwd asked w' show ?thesis
      by (cases "sg = []") (auto simp: restrained_def)
  qed
qed

text \<open>How an iteration can end the run.\<close>

definition ends_well :: "observe_input \<Rightarrow> observe_runtime \<Rightarrow> observe_completion \<Rightarrow> bool" where
  "ends_well i s c \<longleftrightarrow> (case c of
       Observe_Root _ survivors \<Rightarrow> \<not> survivors \<longrightarrow> owned_group_exists (oi_kill i) (or_process_group s) = Ok False
     | Observe_ParentExit _ survivors \<Rightarrow> or_shutdown_deadline s \<noteq> None
     | _ \<Rightarrow> True)"

lemma iteration_restrained:
  assumes "observe_iteration r i = (s, fx, c)"
    and "or_shutdown_deadline r \<noteq> None \<longrightarrow> asked_by_parent r"
  shows "restrained i r s fx \<and> (\<forall>completion. c = Some completion \<longrightarrow> ends_well i s completion)"
proof -
  obtain u res where u: "observe_wait r (oi_waited i) = (u, res)" by force
  then have same: "or_parent_watch u = or_parent_watch r" "or_shutdown_deadline u = or_shutdown_deadline r"
    "or_process_group u = or_process_group r"
    by (auto simp: observe_wait_def Let_def split: if_splits prod.splits sum.splits)
  then have parent: "asked_by_parent u = asked_by_parent r" by (simp add: asked_by_parent_def)
  have idle: "restrained i r u []" using same parent by (simp add: restrained_def)
  show ?thesis
  proof (cases res)
    case (Inl kind)
    with assms(1) idle show ?thesis
      by (auto simp: observe_iteration_def u observe_failed_def ends_well_def)
  next
    case waited: (Inr x)
    show ?thesis
    proof (cases "owned_group_exists (oi_kill i) (or_process_group u)")
      case (Inl kind)
      with waited assms(1) idle show ?thesis
        by (auto simp: observe_iteration_def u observe_failed_def ends_well_def)
    next
      case exists: (Inr group_exists)
      show ?thesis
      proof (cases "or_shutdown_deadline u")
        case (Some deadline)
        with waited exists assms(1) have step: "observe_shutdown u group_exists deadline i = (s, fx, c)"
          by (simp add: observe_iteration_def u)
        have asked: "asked_by_parent u" using assms(2) Some same parent by simp
        show ?thesis
        proof (cases "group_exists \<and> \<not> deadline \<le> oi_now i")
          case True
          with step have "observe_signals_and_sample u [] i = (s, fx, c)" by (simp add: observe_shutdown_def)
          from rest_restrained [OF this, of r] same parent show ?thesis
            by (auto simp: ends_well_def)
        next
          case False
          define k where "k = kill_group (oi_group i) (or_process_group u)"
          from False step have "s = u" "\<forall>completion. c = Some completion \<longrightarrow> ends_well i s completion"
            using Some by (cases k; auto simp: observe_shutdown_def observe_failed_def Let_def
                k_def [symmetric] ends_well_def split: if_splits)+
          with asked same parent show ?thesis by (auto simp: restrained_def)
        qed
      next
        case None
        show ?thesis
        proof (cases "or_root_outcome u")
          case (Some root)
          with None waited exists assms(1) idle show ?thesis
            by (auto simp: observe_iteration_def u ends_well_def)
        next
          case running: None
          with None waited exists assms(1) have step: "observe_watch u i = (s, fx, c)"
            by (simp add: observe_iteration_def u)
          obtain watch exited where w: "parent_has_exited (or_parent_watch u) (oi_ppid i)
              (oi_parent_exited i) (oi_now i) = (watch, exited)" by force
          let ?v = "u\<lparr>or_parent_watch := watch\<rparr>"
          have w': "pw_on_parent_exit watch = pw_on_parent_exit (or_parent_watch u)"
            "exited \<Longrightarrow> pw_exited_at_ms watch \<noteq> None"
            "pw_exited_at_ms (or_parent_watch u) \<noteq> None \<Longrightarrow> pw_exited_at_ms watch \<noteq> None"
            using w by (auto simp: parent_has_exited_def split: option.splits if_splits)
          then have later: "asked_by_parent r \<longrightarrow> asked_by_parent ?v"
            using parent same by (simp add: asked_by_parent_def)
          show ?thesis
          proof (cases "exited \<and> pw_on_parent_exit watch = OnParent_Terminate")
            case False
            with step have "observe_signals_and_sample ?v [] i = (s, fx, c)"
              by (auto simp: observe_watch_def w)
            from rest_restrained [OF this, of r] same later None show ?thesis
              by (auto simp: ends_well_def)
          next
            case True
            then have asked: "asked_by_parent ?v" using w' by (simp add: asked_by_parent_def)
            define k where "k = terminate_group (oi_group i) (or_process_group u)"
            show ?thesis
            proof (cases k)
              case (Inl kind)
              with True step have "s = ?v" "\<exists>d. c = Some (Observe_SupervisorFailure d)"
                by (auto simp: observe_watch_def w k_def [symmetric] Let_def observe_failed_def)
              with asked same None show ?thesis by (auto simp: restrained_def ends_well_def)
            next
              case (Inr result)
              let ?z = "?v\<lparr>or_shutdown_deadline := Some (dur_sat_add (oi_now i) TERM_GRACE)\<rparr>"
              have asked: "asked_by_parent ?z" using asked by (simp add: asked_by_parent_def)
              from True step Inr have rest: "observe_signals_and_sample ?z
                  [Sent SIGTERM k, record_parent_exit_signal (oi_recorded_at i) SIGTERM result] i = (s, fx, c)"
                by (simp add: observe_watch_def w k_def [symmetric] Let_def)
              from rest_restrained [OF rest, of r] asked same show ?thesis
                by (auto simp: ends_well_def)
            qed
          qed
        qed
      qed
    qed
  qed
qed

lemma loop_restrained:
  assumes "observe_until_exit r inputs = Some (s, fx, c)"
    and "or_shutdown_deadline r \<noteq> None \<longrightarrow> asked_by_parent r"
  shows "(sends fx \<noteq> [] \<longrightarrow> asked_by_parent s \<or> asked_by_signal inputs)
    \<and> (asked_by_parent r \<longrightarrow> asked_by_parent s) \<and> or_process_group s = or_process_group r
    \<and> (or_shutdown_deadline s \<noteq> None \<longrightarrow> asked_by_parent s) \<and> (\<exists>i\<in>set inputs. ends_well i s c)"
  using assms
proof (induction inputs arbitrary: r fx)
  case (Cons i inputs)
  obtain u fx1 d where it: "observe_iteration r i = (u, fx1, d)" using prod_cases3 by blast
  note step = iteration_restrained [OF it Cons.prems(2)]
  then have asked: "or_shutdown_deadline u \<noteq> None \<longrightarrow> asked_by_parent u"
    using Cons.prems(2) by (auto simp: restrained_def)
  show ?case
  proof (cases d)
    case (Some completion)
    with it Cons.prems(1) have "s = u" "fx = fx1" "c = completion" by auto
    with step Some asked show ?thesis by (auto simp: restrained_def asked_by_signal_def)
  next
    case None
    with it Cons.prems(1) obtain fx2 where fx2: "observe_until_exit u inputs = Some (s, fx2, c)" "fx = fx1 @ fx2"
      by auto
    from Cons.IH [OF fx2(1) asked] step show ?thesis
      by (auto simp: restrained_def asked_by_signal_def fx2(2))
  qed
qed simp

lemma terminal_sends [simp]: "sends (observe_record_terminal sm ws e cal out) = []"
proof -
  have "sends (map (\<lambda>w. Logged (E_Sample w) Buffered) ws) = []" by (induction ws) simp_all
  then show ?thesis
    by (simp add: observe_record_terminal_def observe_sample_history_def split: list.splits)
qed

text \<open>C13. Observing leaves the command alone. An observing run sends a signal only if the supervisor itself
  received a signal, or its launching process exited and the run was asked to end with it. And at its
  end it keeps the group within reach of the cleanup that kills it only if the group was already gone
  or that launching process exited: whatever the footprint, the limits or the failures were,
  surviving processes are left running.\<close>

theorem observing_leaves_the_command_alone:
  assumes "run_observed (observe_start common config tracker retained pg watch) inputs ended
      = Some (r', fx, f, terminal)"
  shows "(sends fx \<noteq> [] \<longrightarrow> asked_by_parent r' \<or> asked_by_signal inputs)
    \<and> (\<not> ob_relinquish f \<longrightarrow> asked_by_parent r'
        \<or> (\<exists>i\<in>set inputs. owned_group_exists (oi_kill i) pg = Ok False))"
proof -
  from assms obtain fx1 c where loop: "observe_until_exit (observe_start common config tracker retained pg watch)
      inputs = Some (r', fx1, c)" and f: "f = observe_final_of c" and fx: "sends fx = sends fx1"
    by (auto simp: run_observed_def Let_def split: option.splits)
  have "or_process_group (observe_start common config tracker retained pg watch) = pg"
    by (simp add: observe_start_def)
  with loop_restrained [OF loop] obtain i where i: "i \<in> set inputs" "ends_well i r' c"
    and all: "sends fx1 \<noteq> [] \<longrightarrow> asked_by_parent r' \<or> asked_by_signal inputs"
      "or_process_group r' = pg" "or_shutdown_deadline r' \<noteq> None \<longrightarrow> asked_by_parent r'"
    by (auto simp: observe_start_def)
  have "asked_by_parent r' \<or> owned_group_exists (oi_kill i) pg = Ok False" if "\<not> ob_relinquish f"
    using that i(2) all(2,3) by (cases c) (auto simp: f ends_well_def split: if_splits)
  with all(1) i(1) fx show ?thesis by auto
qed

section \<open>An orphaned group comes to an end\<close>

lemma rest_keeps_deadline:
  assumes "observe_signals_and_sample u fx i = (s, fx', c)"
  shows "or_shutdown_deadline s = or_shutdown_deadline u"
    and "or_shutdown_deadline u \<noteq> None \<Longrightarrow> c \<noteq> Some Observe_ObservationFailure"
proof -
  have smp: "or_shutdown_deadline (fst (observe_sample_once v j)) = or_shutdown_deadline v" for v j
    by (simp add: observe_sample_once_def Let_def split_beta)
  have "or_shutdown_deadline s = or_shutdown_deadline u
    \<and> (or_shutdown_deadline u \<noteq> None \<longrightarrow> c \<noteq> Some Observe_ObservationFailure)"
  proof (cases "oi_signals i")
    case (Inl kind)
    with assms show ?thesis by (auto simp: observe_signals_and_sample_def observe_failed_def)
  next
    case (Inr sg)
    obtain v fx1 failure where v: "forward_terminal_signals u sg = (v, fx1, failure)" using prod_cases3 by blast
    with assms Inr smp [of v "oi_sample i"] forward_restrained [OF v] show ?thesis
      by (cases failure)
        (auto simp: observe_signals_and_sample_def observe_failed_def split_beta Let_def split: if_splits)
  qed
  then show "or_shutdown_deadline s = or_shutdown_deadline u"
    and "or_shutdown_deadline u \<noteq> None \<Longrightarrow> c \<noteq> Some Observe_ObservationFailure" by simp_all
qed

text \<open>How a shutdown ends, in the iteration with the inputs \<open>i\<close>: \<open>kill\<close> with signal 0 found no process
  of the group, or the deadline had passed and KILL was sent to it, or a call to the system failed.\<close>

definition group_gone :: "observe_input \<Rightarrow> i32 \<Rightarrow> bool" where
  "group_gone i pg \<longleftrightarrow> (\<exists>target. i32_checked_neg pg = Some target \<and> oi_kill i target 0 = Some ESRCH)"

definition call_failed ::
    "observe_input \<Rightarrow> i32 \<Rightarrow> observe_effect list \<Rightarrow> control_error_kind \<Rightarrow> bool" where
  "call_failed i pg fx kind \<longleftrightarrow>
     snd (try_wait_root None (oi_waited i)) = Err kind
   \<or> owned_group_exists (oi_kill i) pg = Err kind
   \<or> oi_signals i = Err kind
   \<or> (\<exists>fx0 n. fx = fx0 @ [Sent n (Err kind)])"

fun ends_orphans ::
    "dur \<Rightarrow> i32 \<Rightarrow> observe_input \<Rightarrow> observe_effect list \<Rightarrow> observe_completion \<Rightarrow> bool" where
  "ends_orphans d pg i fx (Observe_ParentExit _ survivors) \<longleftrightarrow>
     (if survivors
      then \<not> group_gone i pg \<and> d \<le> oi_now i
        \<and> (\<exists>fx0 result. fx = fx0 @ [Sent SIGKILL (Ok result),
               record_parent_exit_signal (oi_recorded_at i) SIGKILL result])
      else group_gone i pg)"
| "ends_orphans d pg i fx (Observe_SupervisorFailure diagnostic) \<longleftrightarrow>
     (\<exists>kind. call_failed i pg fx kind \<and> diagnostic = control_error_text kind)"
| "ends_orphans d pg i fx _ \<longleftrightarrow> False"

lemma group_gone_iff: "owned_group_exists (oi_kill i) pg = Ok False \<longleftrightarrow> group_gone i pg"
  by (auto simp: owned_group_exists_def group_gone_def split: option.splits sys_errno.splits)

lemma ends_orphans_append: "ends_orphans d pg i fx c \<Longrightarrow> ends_orphans d pg i (fy @ fx) c"
  by (cases c) (fastforce simp: call_failed_def split: if_splits)+

lemma wait_fails:
  "observe_wait r waited = (s, Err kind) \<Longrightarrow> snd (try_wait_root None waited) = Err kind"
  by (auto simp: observe_wait_def try_wait_root_def Let_def split: option.splits sum.splits if_splits prod.splits)

lemma forward_failed:
  "forward_terminal_signals r sg = (s, fx, Some kind) \<Longrightarrow> \<exists>fx0 n. fx = fx0 @ [Sent n (Err kind)]"
proof (induction sg arbitrary: r s fx)
  case (Cons x sg)
  obtain signal kill t where x: "x = (signal, kill, t)" by (cases x)
  define d where "d = (if or_signal_count r = 0
      then (signal_get signal, forward_terminal_signal kill (or_process_group r) signal)
      else (SIGKILL, kill_group kill (or_process_group r)))"
  obtain n res where d': "d = (n, res)" by force
  obtain u fx2 f where u: "forward_terminal_signals (r\<lparr>or_signal_count := sat_add (or_signal_count r) 1\<rparr>) sg
      = (u, fx2, f)" using prod_cases3 by blast
  show ?case
  proof (cases res)
    case (Inl k)
    with Cons.prems have "fx = [] @ [Sent n (Err kind)]"
      by (auto simp: x d_def [symmetric] d' Let_def)
    then show ?thesis by blast
  next
    case (Inr k)
    with Cons.prems Cons.IH u have "\<exists>fx0 n. fx2 = fx0 @ [Sent n (Err kind)]"
      by (simp add: x d_def [symmetric] d' Let_def)
    moreover have "fx = Sent n res # signal_entry t n k Reason_ExternalSignal # fx2"
      using Cons.prems Inr u by (simp add: x d_def [symmetric] d' Let_def)
    ultimately show ?thesis by (metis append_Cons)
  qed
qed simp

lemma rest_fails:
  assumes "observe_signals_and_sample u fx i = (s, fx', c)" and "or_shutdown_deadline u \<noteq> None"
  shows "c = None \<or> (\<exists>completion. c = Some completion \<and> ends_orphans d pg i fx' completion)"
proof (cases "oi_signals i")
  case (Inl kind)
  with assms(1) show ?thesis
    by (auto simp: observe_signals_and_sample_def observe_failed_def call_failed_def)
next
  case (Inr sg)
  obtain v fx1 failure where v: "forward_terminal_signals u sg = (v, fx1, failure)" using prod_cases3 by blast
  show ?thesis
  proof (cases failure)
    case None
    with assms rest_keeps_deadline [OF assms(1)] Inr v show ?thesis
      by (auto simp: observe_signals_and_sample_def split_beta Let_def split: if_splits)
  next
    case (Some kind)
    with forward_failed obtain fx0 n where "fx1 = fx0 @ [Sent n (Err kind)]" using v by blast
    with Some Inr v assms(1) show ?thesis
      by (auto simp: observe_signals_and_sample_def observe_failed_def call_failed_def)
  qed
qed

lemma shutdown_iteration:
  assumes "observe_iteration r i = (s, fx, c)" and "or_shutdown_deadline r = Some d"
  shows "case c of
      None \<Rightarrow> or_shutdown_deadline s = Some d \<and> or_process_group s = or_process_group r
        \<and> oi_now i < d \<and> \<not> group_gone i (or_process_group r)
    | Some completion \<Rightarrow> ends_orphans d (or_process_group r) i fx completion"
proof -
  obtain u res where u: "observe_wait r (oi_waited i) = (u, res)" by force
  then have same: "or_shutdown_deadline u = Some d" "or_process_group u = or_process_group r"
    using assms(2) by (auto simp: observe_wait_def Let_def split: if_splits prod.splits sum.splits)
  define k where "k = kill_group (oi_group i) (or_process_group r)"
  define q where "q = owned_group_exists (oi_kill i) (or_process_group r)"
  have gone: "q = Ok False \<longleftrightarrow> group_gone i (or_process_group r)" by (simp add: q_def group_gone_iff)
  show ?thesis
  proof (cases "res = Ok () \<and> q = Ok True \<and> oi_now i < d")
    case True
    with assms(1) same have rest: "observe_signals_and_sample u [] i = (s, fx, c)"
      by (simp add: observe_iteration_def u q_def observe_shutdown_def)
    have "\<not> group_gone i (or_process_group r)" using True gone by auto
    moreover have "or_shutdown_deadline s = Some d" "or_process_group s = or_process_group r"
      using rest_keeps_deadline(1) [OF rest] rest_restrained [OF rest, of u] same
      by (auto simp: restrained_def)
    ultimately show ?thesis using rest_fails [OF rest, of d "or_process_group r"] True same
      by (auto split: option.split)
  next
    case False
    then consider kind where "res = Err kind" | kind where "res = Ok ()" "q = Err kind"
      | "res = Ok ()" "q = Ok False" | "res = Ok ()" "q = Ok True" "d \<le> oi_now i"
      by (cases res; cases q; cases "q = Ok True") (auto simp: linorder_not_less)
    then show ?thesis
    proof cases
      case 1
      with assms(1) wait_fails [of r "oi_waited i" u] show ?thesis
        by (auto simp: observe_iteration_def u observe_failed_def call_failed_def)
    next
      case 2
      with assms(1) same show ?thesis
        by (auto simp: observe_iteration_def u observe_failed_def call_failed_def q_def)
    next
      case 3
      with assms(1) same gone show ?thesis
        by (auto simp: observe_iteration_def u observe_shutdown_def q_def)
    next
      case 4
      with assms(1) same gone show ?thesis
        by (cases k) (auto simp: observe_iteration_def u observe_shutdown_def observe_failed_def
            call_failed_def q_def k_def [symmetric] Let_def)
    qed
  qed
qed

text \<open>C14. A group orphaned by its launching process is brought to an end in bounded time. Once the
  shutdown has begun, the run ends at the latest in the first iteration that reads the clock at or
  after its deadline. It reports the group gone only in an iteration whose query of the group found
  no process, and surviving processes only after the deadline, when its last acts are the delivery of
  KILL to the group and the record of it; any other end is a supervisor failure that names the call
  to the system which failed in that iteration. Before it, the deadline was ahead and the group was
  there: neither the loss of the measurements nor the exit of the command ends it.\<close>

theorem orphaned_group_is_ended:
  assumes "or_shutdown_deadline r = Some d" and "\<exists>i\<in>set inputs. d \<le> oi_now i"
  shows "\<exists>before i after r' fx c. inputs = before @ i # after
    \<and> (\<forall>j\<in>set before. oi_now j < d \<and> \<not> group_gone j (or_process_group r))
    \<and> observe_until_exit r inputs = Some (r', fx, c) \<and> ends_orphans d (or_process_group r) i fx c"
  using assms
proof (induction inputs arbitrary: r)
  case (Cons i inputs)
  obtain s fx1 c where it: "observe_iteration r i = (s, fx1, c)" using prod_cases3 by blast
  note step = shutdown_iteration [OF it Cons.prems(1)]
  show ?case
  proof (cases c)
    case (Some completion)
    with it step show ?thesis by (intro exI [of _ "[]"]) auto
  next
    case None
    with step Cons.prems(2) have next_state: "or_shutdown_deadline s = Some d" "\<exists>i\<in>set inputs. d \<le> oi_now i"
      and same: "or_process_group s = or_process_group r"
      and here: "oi_now i < d" "\<not> group_gone i (or_process_group r)" by auto
    from Cons.IH [OF next_state, unfolded same] obtain before j after r' fx2 c' where
      "inputs = before @ j # after" "\<forall>j\<in>set before. oi_now j < d \<and> \<not> group_gone j (or_process_group r)"
      "observe_until_exit s inputs = Some (r', fx2, c')" "ends_orphans d (or_process_group r) j fx2 c'"
      by blast
    with it None here ends_orphans_append show ?thesis by (intro exI [of _ "i # before"]) auto
  qed
qed simp

section \<open>Witnesses\<close>

text \<open>A command that exits with status 3 before the first sample.\<close>

definition demo_common :: common_options where
  "demo_common = ro_common demo_run_options"

definition demo_observe_input :: observe_input where
  "demo_observe_input = \<lparr>oi_waited = Ok (Some \<lparr>es_code = Some 3, es_signal = None\<rparr>), oi_kill = (\<lambda>_ _. Some ESRCH),
     oi_now = 0, oi_ppid = 1, oi_parent_exited = None, oi_group = (\<lambda>_ _. None), oi_recorded_at = 0,
     oi_signals = Err Ctl_TerminalSignalMonitorUnavailable,
     oi_sample = \<lparr>si_started_at = 0, si_finished_at = 0, si_snapshot = Err Fail_EnumerationFailed,
       si_processed_at = 0, si_advisory = Advisory_Props.demo_snapshot\<rparr>\<rparr>"

definition demo_observer :: observe_runtime where
  "demo_observer = observe_start demo_common demo_config demo_tracker None 100 demo_watch"

lemma demo_observe_accepted: "parse_cli (Raw_Observe demo_raw) = Ok (Mode_Observe demo_common)"
  by (simp add: parse_cli_def normalize_def demo_raw_def demo_run_options_def demo_common_def
      MIN_SAMPLE_INTERVAL_def MAX_SAMPLE_INTERVAL_def from_millis_def from_secs_def)

definition demo_logged :: "journal_entry list" where
  "demo_logged =
    [E_Checkpoint no_checkpoint, E_Escape \<lparr>ee_detected = Available False, ee_escaped_count = None\<rparr>,
     E_Calibration (calibration_artifact_of calibration_new),
     E_Outcome \<lparr>to_at_ms = 1000, to_kind = Kind_ChildExited 3, to_final_footprint_bytes = Unknown,
       to_child_status = Some (Child_Exited 3), to_owned_group_survivors = None, to_parent_exited_at_ms = None\<rparr>]"

definition demo_observe_effects :: "observe_effect list" where
  "demo_observe_effects = map2 Logged demo_logged [Sync, Buffered, Buffered, Sync]"

lemma demo_observed:
  "\<exists>r f t. run_observed demo_observer [demo_observe_input] 1000000000 = Some (r, demo_observe_effects, f, t)
    \<and> ob_outcome f = ChildExited 3 \<and> to_kind t = Kind_ChildExited 3 \<and> pw_exited_at_ms (or_parent_watch r) = None"
  by (simp add: run_observed_def demo_observer_def observe_start_def demo_observe_input_def observe_iteration_def
      observe_wait_def try_wait_root_def root_outcome_from_status_def u8_try_from_def owned_group_exists_def
      i32_checked_neg_def Let_def observe_terminal_def observe_record_terminal_def observe_sample_history_def
      sampler_new_def demo_tracker_def demo_watch_def unwatched_def demo_observe_effects_def demo_logged_def
      no_checkpoint_def escape_of_def duration_ms_def)

definition observe_header :: journal_header where
  "observe_header = initial_header ''0.3.1'' demo_identity (observe_configuration demo_common demo_watch) False"

definition observe_records :: "journal_record list" where
  "observe_records = map2 journal_record_new [0, 1, 2, 3, 4] (E_Header observe_header # demo_logged)"

definition observe_to_vec :: "journal_record \<Rightarrow> bytes option" where
  "observe_to_vec r = (if r \<in> set observe_records then Some [ucast (jr_sequence r)] else None)"

definition observe_from_slice :: "bytes \<Rightarrow> journal_record option" where
  "observe_from_slice p = find (\<lambda>r. observe_to_vec r = Some p) observe_records"

lemma observe_reads_back: "reads_back observe_to_vec observe_from_slice"
  by (auto simp: reads_back_def observe_to_vec_def observe_from_slice_def observe_records_def demo_logged_def
      journal_record_new_def split: if_splits)

lemma observe_initialized:
  "\<exists>j. initialize (disk_append observe_to_vec (\<lambda>_. Io_Ok)) journal_initialized observe_header = Some (j, 1)
    \<and> sj_next_sequence j = 1 \<and> \<not> sj_failed j"
  by (simp add: initialize_def disk_append_def journal_append_def journal_initialized_def
      journal_record_new_def observe_to_vec_def observe_records_def Let_def MAX_JOURNAL_RECORD_BYTES_def sat_add_def)

lemma observe_persists:
  assumes "sj_next_sequence j = 1" and "\<not> sj_failed j"
  shows "\<exists>rj n. journal_effects (disk_append observe_to_vec (\<lambda>_. Io_Ok)) (resilient_new j, 1)
      (logged demo_observe_effects) = (rj, n) \<and> rj_journal rj \<noteq> None"
  using assms
  by (simp add: journal_effects_def journal_effect_def record_resilient_def resilient_record_def resilient_new_def
      demo_observe_effects_def demo_logged_def disk_append_def journal_append_def journal_record_new_def observe_to_vec_def
      observe_records_def Let_def MAX_JOURNAL_RECORD_BYTES_def sat_add_def)

lemma demo_observe_watch:
  "demo_watch = parent_watch_state_for 1 None (Some False) (co_on_parent_exit demo_common)"
  using demo_run_watch by (simp add: demo_common_def)

theorem observed_run_is_reported_witness:
  "\<exists>rj report text. finish_journal observe_from_slice (\<lambda>_. Ok ''{}'' :: unit + string) True True rj
      (ChildExited 3) = (ChildExited 3, Some (report, text))
    \<and> to_kind (rep_outcome report) = Kind_ChildExited 3"
proof -
  obtain r f t where run: "run_observed demo_observer [demo_observe_input] 1000000000
      = Some (r, demo_observe_effects, f, t)" and f: "ob_outcome f = ChildExited 3"
    "to_kind t = Kind_ChildExited 3" using demo_observed by blast
  obtain j where j: "initialize (disk_append observe_to_vec (\<lambda>_. Io_Ok)) journal_initialized observe_header
      = Some (j, 1)" "sj_next_sequence j = 1" "\<not> sj_failed j" using observe_initialized by blast
  obtain rj n where fin: "journal_effects (disk_append observe_to_vec (\<lambda>_. Io_Ok)) (resilient_new j, 1)
      (logged demo_observe_effects) = (rj, n)" "rj_journal rj \<noteq> None" using observe_persists [OF j(2,3)] by blast
  have clock: "observed_clock 0 1000000000 [demo_observe_input]"
    by (simp add: observe_clock_def demo_observe_input_def)
  have version: "valid_package_version ''0.3.1''"
    by (simp add: valid_package_version_def ascii_digit_def ascii_alphanumeric_def)
  have few: "length (entries_logged demo_observe_effects) < MAX_RECOVERED_RECORDS"
    by (simp add: demo_observe_effects_def demo_logged_def MAX_RECOVERED_RECORDS_def)
  have none: "real_root_outcome None" by (simp add: real_root_outcome_def)
  from observed_run_is_reported [OF demo_observe_accepted demo_tracker demo_identity version demo_observe_watch none
      clock _ j(1) [unfolded observe_header_def] run [unfolded demo_observer_def] fin few observe_reads_back,
      where to_string = "\<lambda>_. Ok ''{}'' :: unit + string"] f
  show ?thesis by auto
qed

theorem observing_leaves_the_command_alone_witness:
  "\<exists>r' fx f terminal. run_observed demo_observer [demo_observe_input] 1000000000 = Some (r', fx, f, terminal)
    \<and> sends fx = []"
proof -
  obtain r f t where run: "run_observed demo_observer [demo_observe_input] 1000000000
      = Some (r, demo_observe_effects, f, t)" and "pw_exited_at_ms (or_parent_watch r) = None"
    using demo_observed by blast
  then have "\<not> asked_by_signal [demo_observe_input]" "\<not> asked_by_parent r"
    by (auto simp: asked_by_signal_def asked_by_parent_def demo_observe_input_def)
  with observing_leaves_the_command_alone [OF run [unfolded demo_observer_def]] run show ?thesis by blast
qed

text \<open>A shutdown whose deadline has passed, with the group still there.\<close>

definition demo_orphan :: observe_runtime where
  "demo_orphan = demo_observer\<lparr>or_shutdown_deadline := Some 5\<rparr>"

definition demo_late_input :: observe_input where
  "demo_late_input = demo_observe_input\<lparr>oi_kill := \<lambda>_ _. None, oi_now := 7\<rparr>"

lemma demo_orphan_run:
  "\<exists>r'. observe_until_exit demo_orphan [demo_late_input] =
     Some (r', [Sent SIGKILL (Ok Sig_Delivered), record_parent_exit_signal 0 SIGKILL Sig_Delivered],
       Observe_ParentExit (Some (Root_Exited 3)) True)"
  by (simp add: demo_orphan_def demo_late_input_def demo_observer_def observe_start_def
      demo_observe_input_def observe_iteration_def observe_wait_def try_wait_root_def
      root_outcome_from_status_def u8_try_from_def owned_group_exists_def i32_checked_neg_def
      observe_shutdown_def kill_group_def signal_group_def signal_raw_def Let_def)

theorem orphaned_group_is_ended_witness:
  "\<exists>before i after r' fx c. [demo_late_input] = before @ i # after
    \<and> observe_until_exit demo_orphan [demo_late_input] = Some (r', fx, c)
    \<and> ends_orphans 5 (or_process_group demo_orphan) i fx c \<and> sends fx = [SIGKILL]"
proof -
  have "or_shutdown_deadline demo_orphan = Some 5" "\<exists>i\<in>set [demo_late_input]. 5 \<le> oi_now i"
    by (simp_all add: demo_orphan_def demo_late_input_def)
  from orphaned_group_is_ended [OF this] obtain before i after r' fx c where
    split: "[demo_late_input] = before @ i # after"
    and run: "observe_until_exit demo_orphan [demo_late_input] = Some (r', fx, c)"
    and ends: "ends_orphans 5 (or_process_group demo_orphan) i fx c" by blast
  from demo_orphan_run run have "sends fx = [SIGKILL]"
    by (auto simp: record_parent_exit_signal_def)
  with split run ends show ?thesis by blast
qed

end
