(* ===== verification/Host.thy ===== *)
theory Host
  imports Process Cli
begin

text \<open>
  What \<^verbatim>\<open>mlx-guard-core/src/process_control.rs\<close> does with the host: the readiness descriptor of the
  client, the capture of terminal signals, the launch of the command into its own process group and
  the cleanup when the owned process is dropped. The answers of the system calls are arguments; the
  signal dispositions of the supervisor, the static descriptor of the handler and the bytes in its
  pipe are a state.
\<close>

unbundle bit_operations_syntax

section \<open>Descriptors\<close>

text \<open>\<open>fcntl\<close>: a descriptor, the command with its argument, and the answer, minus one on failure.\<close>

datatype fcntl_op = F_GETFD | F_SETFD i32 | F_GETFL | F_SETFL i32

type_synonym sys_fcntl = "i32 \<Rightarrow> fcntl_op \<Rightarrow> i32"

definition FD_CLOEXEC :: i32 where "FD_CLOEXEC = 1"
definition O_NONBLOCK :: i32 where "O_NONBLOCK = 4"

text \<open>The descriptor a \<open>ClientReady\<close> holds; dropping or notifying closes it once.\<close>

definition client_ready_take :: "sys_fcntl \<Rightarrow> i32 option \<Rightarrow> control_error_kind + i32 option" where
  "client_ready_take fcntl raw =
     (case raw of
        None \<Rightarrow> Ok None
      | Some fd \<Rightarrow>
          (if fd < 3 then Err Ctl_ClientReadyUnavailable
           else
             let current = fcntl fd F_GETFD in
             if current = -1 \<or> fcntl fd (F_SETFD (current OR FD_CLOEXEC)) = -1
             then Err Ctl_ClientReadyUnavailable else Ok (Some fd)))"

text \<open>\<open>close\<close>: the descriptor left, and the descriptors closed.\<close>

definition client_ready_close :: "i32 option \<Rightarrow> i32 option \<times> i32 list" where
  "client_ready_close descriptor =
     (None, case descriptor of None \<Rightarrow> [] | Some fd \<Rightarrow> [fd])"

definition configure_signal_pipe :: "sys_fcntl \<Rightarrow> i32 \<Rightarrow> bool \<Rightarrow> control_error_kind + unit" where
  "configure_signal_pipe fcntl descriptor nonblocking =
     (let descriptor_flags = fcntl descriptor F_GETFD in
      if descriptor_flags = -1 \<or> fcntl descriptor (F_SETFD (descriptor_flags OR FD_CLOEXEC)) = -1
      then Err Ctl_TerminalSignalMonitorUnavailable
      else if nonblocking
      then
        let status_flags = fcntl descriptor F_GETFL in
        if status_flags = -1 \<or> fcntl descriptor (F_SETFL (status_flags OR O_NONBLOCK)) = -1
        then Err Ctl_TerminalSignalMonitorUnavailable else Ok ()
      else Ok ())"

section \<open>Capturing terminal signals\<close>

definition SIGHUP :: u8 where "SIGHUP = 1"
definition SIGINT :: u8 where "SIGINT = 2"

datatype disposition = Handle_Default | Handle_Ignore | Handle_Monitor | Handle_Other nat

text \<open>
  The dispositions, \<open>TERMINAL_SIGNAL_WRITE_FD\<close>, and the bytes in the pipe it names, which holds at
  most \<open>sh_capacity\<close> of them.
\<close>

record signal_host =
  sh_actions :: "u8 \<Rightarrow> disposition"
  sh_write_fd :: i32
  sh_queue :: "u8 list"
  sh_capacity :: nat

record terminal_signal_monitor =
  tm_read :: i32
  tm_write :: i32
  tm_previous_hangup :: "disposition option"
  tm_previous_interrupt :: disposition
  tm_previous_terminate :: disposition

text \<open>\<open>sigaction\<close> with the answer whether it succeeded: the old disposition, if it did.\<close>

definition sigaction :: "bool \<Rightarrow> u8 \<Rightarrow> disposition \<Rightarrow> signal_host \<Rightarrow> signal_host \<times> disposition option" where
  "sigaction ok signal action h =
     (if ok then (h\<lparr>sh_actions := (sh_actions h)(signal := action)\<rparr>, Some (sh_actions h signal))
      else (h, None))"

text \<open>Restoring a disposition is best effort: its answer is not looked at.\<close>

definition restore_action :: "(u8 \<Rightarrow> bool) \<Rightarrow> u8 \<Rightarrow> disposition \<Rightarrow> signal_host \<Rightarrow> signal_host" where
  "restore_action answer signal previous h = fst (sigaction (answer signal) signal previous h)"

definition restore_hangup :: "(u8 \<Rightarrow> bool) \<Rightarrow> disposition option \<Rightarrow> signal_host \<Rightarrow> signal_host" where
  "restore_hangup answer previous h =
     (case previous of None \<Rightarrow> h | Some action \<Rightarrow> restore_action answer SIGHUP action h)"

definition hangup_is_ignored :: "bool \<Rightarrow> signal_host \<Rightarrow> control_error_kind + bool" where
  "hangup_is_ignored query_ok h =
     (if query_ok then Ok (sh_actions h SIGHUP = Handle_Ignore)
      else Err Ctl_TerminalSignalMonitorUnavailable)"

text \<open>The answers during one installation; \<open>ia_restore\<close> answers the calls that undo it.\<close>

record install_answers =
  ia_query :: bool
  ia_pipe :: "(i32 \<times> i32) option"
  ia_fcntl :: sys_fcntl
  ia_emptyset :: bool
  ia_install :: "u8 \<Rightarrow> bool"
  ia_restore :: "u8 \<Rightarrow> bool"

type_synonym installed = "signal_host \<times> (control_error_kind + terminal_signal_monitor)"

text \<open>The failure paths after the descriptor was published: it is withdrawn again.\<close>

definition withdraw :: "signal_host \<Rightarrow> installed" where
  "withdraw h = (h\<lparr>sh_write_fd := -1\<rparr>, Err Ctl_TerminalSignalMonitorUnavailable)"

text \<open>The handlers, once the descriptor is published.\<close>

definition install_handlers ::
    "install_answers \<Rightarrow> bool \<Rightarrow> i32 \<Rightarrow> i32 \<Rightarrow> signal_host \<Rightarrow> installed" where
  "install_handlers a hangup_ignored rfd wfd h =
     (if \<not> ia_emptyset a then withdraw h
      else case (if hangup_ignored then (h, Some None)
                 else case sigaction (ia_install a SIGHUP) SIGHUP Handle_Monitor h of
                   (h, None) \<Rightarrow> (h, None) | (h, Some previous) \<Rightarrow> (h, Some (Some previous))) of
        (h, None) \<Rightarrow> withdraw h
      | (h, Some previous_hangup) \<Rightarrow>
          (case sigaction (ia_install a SIGINT) SIGINT Handle_Monitor h of
             (h, None) \<Rightarrow> withdraw (restore_hangup (ia_restore a) previous_hangup h)
           | (h, Some previous_interrupt) \<Rightarrow>
               (case sigaction (ia_install a SIGTERM) SIGTERM Handle_Monitor h of
                  (h, None) \<Rightarrow>
                    withdraw (restore_hangup (ia_restore a) previous_hangup
                      (restore_action (ia_restore a) SIGINT previous_interrupt h))
                | (h, Some previous_terminate) \<Rightarrow>
                    (h, Ok \<lparr>tm_read = rfd, tm_write = wfd, tm_previous_hangup = previous_hangup,
                            tm_previous_interrupt = previous_interrupt,
                            tm_previous_terminate = previous_terminate\<rparr>))))"

definition install :: "install_answers \<Rightarrow> signal_host \<Rightarrow> installed" where
  "install a h =
     (case hangup_is_ignored (ia_query a) h of
        Inl kind \<Rightarrow> (h, Err kind)
      | Inr hangup_ignored \<Rightarrow>
          (case ia_pipe a of
             None \<Rightarrow> (h, Err Ctl_TerminalSignalMonitorUnavailable)
           | Some (rfd, wfd) \<Rightarrow>
               (case configure_signal_pipe (ia_fcntl a) rfd True of
                  Inl kind \<Rightarrow> (h, Err kind)
                | Inr _ \<Rightarrow>
                    (case configure_signal_pipe (ia_fcntl a) wfd True of
                       Inl kind \<Rightarrow> (h, Err kind)
                     | Inr _ \<Rightarrow>
                         (if sh_write_fd h \<noteq> -1 then (h, Err Ctl_TerminalSignalMonitorAlreadyInstalled)
                          else install_handlers a hangup_ignored rfd wfd
                            (h\<lparr>sh_write_fd := wfd, sh_queue := []\<rparr>))))))"

definition hangup_ignored :: "terminal_signal_monitor \<Rightarrow> bool" where
  "hangup_ignored m \<longleftrightarrow> tm_previous_hangup m = None"

definition drop_monitor :: "(u8 \<Rightarrow> bool) \<Rightarrow> terminal_signal_monitor \<Rightarrow> signal_host \<Rightarrow> signal_host" where
  "drop_monitor answer m h =
     (restore_hangup answer (tm_previous_hangup m)
       (restore_action answer SIGTERM (tm_previous_terminate m)
         (restore_action answer SIGINT (tm_previous_interrupt m) h)))\<lparr>sh_write_fd := -1\<rparr>"

text \<open>The handler writes one byte; a full nonblocking pipe takes none.\<close>

definition terminal_signal_handler :: "i32 \<Rightarrow> signal_host \<Rightarrow> signal_host" where
  "terminal_signal_handler signal h =
     (case u8_try_from signal of
        None \<Rightarrow> h
      | Some v \<Rightarrow>
          (if 0 \<le> sh_write_fd h \<and> length (sh_queue h) < sh_capacity h
           then h\<lparr>sh_queue := sh_queue h @ [v]\<rparr> else h))"

section \<open>Launching the command\<close>

definition CHECKPOINT_FD_ENV :: string where "CHECKPOINT_FD_ENV = ''MLX_GUARD_CHECKPOINT_FD''"
definition CHECKPOINT_CHILD_FD :: i32 where "CHECKPOINT_CHILD_FD = 198"

record launch_options =
  lo_command :: "string list"
  lo_cwd :: "string option"
  lo_clear_env :: bool
  lo_env :: env_map
  lo_stdin :: stdio_mode
  lo_stdout :: stdio_mode
  lo_stderr :: stdio_mode

text \<open>
  The \<open>Command\<close> that is spawned. \<open>sq_inherited\<close> is the descriptor duplicated between fork and exec,
  with the number it gets and without close-on-exec.
\<close>

record spawn_request =
  sq_program :: string
  sq_args :: "string list"
  sq_cwd :: "string option"
  sq_clear_env :: bool
  sq_env :: env_map
  sq_stdin :: stdio_mode
  sq_stdout :: stdio_mode
  sq_stderr :: stdio_mode
  sq_process_group :: i32
  sq_inherited :: "(i32 \<times> i32) option"

record owned_process =
  op_root_pid :: i32
  op_process_group :: i32
  op_root_outcome :: "root_outcome option"
  op_cleanup_on_drop :: bool
  op_stdin_disposition :: stdin_disposition

record launch_answers =
  la_terminal :: bool
  la_is_dir :: "string \<Rightarrow> bool"
  la_spawn :: "spawn_request \<Rightarrow> spawn_error + u32"
  la_getpgid :: "i32 \<Rightarrow> sys_errno + i32"
  la_waited :: "sys_errno + exit_status option"

text \<open>What the launch and the cleanup do to processes.\<close>

datatype process_effect =
    Spawned spawn_request
  | Child_Killed
  | Child_Waited
  | Group_Signalled i32 u8

type_synonym launched = "process_effect list \<times> (launch_error_kind + owned_process)"

definition spawn_request_of ::
    "launch_options \<Rightarrow> string \<Rightarrow> stdio_mode \<Rightarrow> i32 option \<Rightarrow> launch_error_kind + spawn_request" where
  "spawn_request_of lo executable stdin checkpoint =
     (let command =
        \<lparr>sq_program = executable, sq_args = drop 1 (lo_command lo), sq_cwd = lo_cwd lo,
         sq_clear_env = lo_clear_env lo, sq_env = lo_env lo, sq_stdin = stdin,
         sq_stdout = lo_stdout lo, sq_stderr = lo_stderr lo, sq_process_group = 0,
         sq_inherited = None\<rparr>
      in case checkpoint of
           None \<Rightarrow> Ok command
         | Some checkpoint_fd \<Rightarrow>
             (if RBT.lookup (lo_env lo) CHECKPOINT_FD_ENV \<noteq> None then Err Launch_InvalidCheckpointChannel
              else Ok (command\<lparr>sq_env := RBT.insert CHECKPOINT_FD_ENV ''198'' (sq_env command),
                               sq_inherited := Some (checkpoint_fd, CHECKPOINT_CHILD_FD)\<rparr>)))"

text \<open>Whether the child leads its own group, or had already ended when it was asked.\<close>

definition validate_group :: "launch_answers \<Rightarrow> i32 \<Rightarrow> process_effect list \<times> (launch_error_kind + root_outcome option)" where
  "validate_group a raw_pid =
     (if la_getpgid a raw_pid = Ok raw_pid then ([], Ok None)
      else if la_getpgid a raw_pid = Err ESRCH
      then
        (case la_waited a of
           Inl _ \<Rightarrow> ([], Err Launch_ProcessGroupValidationFailed)
         | Inr None \<Rightarrow> ([Child_Killed, Child_Waited], Err Launch_ProcessGroupValidationFailed)
         | Inr (Some status) \<Rightarrow>
             (case root_outcome_from_status status of
                Inl _ \<Rightarrow> ([], Err Launch_ProcessGroupValidationFailed)
              | Inr outcome \<Rightarrow> ([], Ok (Some outcome))))
      else ([Child_Killed, Child_Waited], Err Launch_ProcessGroupValidationFailed))"

text \<open>
  \<open>launch_inner\<close>: the checks before the spawn, the spawn, and the validation of the group. A child
  that cannot be validated is killed and reaped, unless it has ended already.
\<close>

definition spawn_validated :: "launch_answers \<Rightarrow> spawn_request \<Rightarrow> stdin_disposition \<Rightarrow> launched" where
  "spawn_validated a request stdin_disposition =
     (case la_spawn a request of
        Inl err \<Rightarrow> ([], Err (map_spawn_error err))
      | Inr child_id \<Rightarrow>
          (case i32_try_from child_id of
             None \<Rightarrow> ([Spawned request], Err Launch_ProcessGroupValidationFailed)
           | Some raw_pid \<Rightarrow>
               (if raw_pid = 0 then ([Spawned request], Err Launch_ProcessGroupValidationFailed)
                else case validate_group a raw_pid of
                  (fx, Inl kind) \<Rightarrow> (Spawned request # fx, Err kind)
                | (fx, Inr root_outcome) \<Rightarrow>
                    (Spawned request # fx,
                     Ok \<lparr>op_root_pid = raw_pid, op_process_group = raw_pid,
                         op_root_outcome = root_outcome, op_cleanup_on_drop = True,
                         op_stdin_disposition = stdin_disposition\<rparr>))))"

definition launch_inner :: "launch_answers \<Rightarrow> launch_options \<Rightarrow> i32 option \<Rightarrow> launched" where
  "launch_inner a lo checkpoint =
     (let (stdin, disposition) = resolve_stdin (lo_stdin lo) (la_terminal a) in
      case lo_command lo of
        [] \<Rightarrow> ([], Err Launch_EmptyCommand)
      | executable # _ \<Rightarrow>
          (if executable = [] then ([], Err Launch_EmptyCommand)
           else if (case lo_cwd lo of None \<Rightarrow> False | Some path \<Rightarrow> \<not> la_is_dir a path)
           then ([], Err Launch_InvalidWorkingDirectory)
           else case spawn_request_of lo executable stdin checkpoint of
             Inl kind \<Rightarrow> ([], Err kind)
           | Inr request \<Rightarrow> spawn_validated a request disposition))"

fun launch_error_text :: "launch_error_kind \<Rightarrow> string" where
  "launch_error_text Launch_EmptyCommand = ''command argv is empty''"
| "launch_error_text Launch_InvalidWorkingDirectory = ''child working directory is invalid''"
| "launch_error_text Launch_NotFound = ''command was not found''"
| "launch_error_text Launch_NotExecutable = ''command is not executable''"
| "launch_error_text Launch_SpawnFailed = ''command launch failed''"
| "launch_error_text Launch_ProcessGroupValidationFailed = ''new process group could not be validated''"
| "launch_error_text Launch_InvalidCheckpointChannel = ''checkpoint channel configuration is invalid''"

section \<open>Owning the command\<close>

definition relinquish :: "owned_process \<Rightarrow> owned_process" where
  "relinquish p = p\<lparr>op_cleanup_on_drop := False\<rparr>"

text \<open>\<open>wait_root\<close>: the answer of \<open>Child::wait\<close>.\<close>

definition wait_root ::
    "sys_errno + exit_status \<Rightarrow> owned_process \<Rightarrow> owned_process \<times> (control_error_kind + root_outcome)" where
  "wait_root waited p =
     (case op_root_outcome p of
        Some outcome \<Rightarrow> (p, Ok outcome)
      | None \<Rightarrow>
          (case waited of
             Inl _ \<Rightarrow> (p, Err Ctl_WaitFailed)
           | Inr status \<Rightarrow>
               (case root_outcome_from_status status of
                  Inl _ \<Rightarrow> (p, Err Ctl_InvalidRootStatus)
                | Inr outcome \<Rightarrow> (p\<lparr>op_root_outcome := Some outcome\<rparr>, Ok outcome))))"

text \<open>The drop of an owned process.\<close>

definition drop_process :: "owned_process \<Rightarrow> process_effect list" where
  "drop_process p =
     (if \<not> op_cleanup_on_drop p then [] else [Group_Signalled (op_process_group p) SIGKILL, Child_Waited])"

end
