(* ===== verification/Host_Props.thy ===== *)
theory Host_Props
  imports Host
begin

text \<open>
  What holds of the host boundary: capturing terminal signals can be undone and loses no signal, and
  a launch leaves no process behind that nobody owns.
\<close>

section \<open>Dispositions\<close>

lemma sigaction_simps [simp]:
  "sigaction True n d h = (h\<lparr>sh_actions := (sh_actions h)(n := d)\<rparr>, Some (sh_actions h n))"
  "sigaction False n d h = (h, None)"
  by (simp_all add: sigaction_def)

lemma restore_simps [simp]:
  "sh_write_fd (restore_action f n d h) = sh_write_fd h" "sh_queue (restore_action f n d h) = sh_queue h"
  "sh_capacity (restore_action f n d h) = sh_capacity h"
  "sh_actions (restore_action f n d h) = (if f n then (sh_actions h)(n := d) else sh_actions h)"
  "restore_hangup f None h = h" "restore_hangup f (Some d) h = restore_action f SIGHUP d h"
  by (cases "f n"; simp add: restore_action_def restore_hangup_def)+

lemma signals_distinct [simp]:
  "SIGHUP \<noteq> SIGINT" "SIGHUP \<noteq> SIGTERM" "SIGINT \<noteq> SIGTERM" "SIGINT \<noteq> SIGHUP" "SIGTERM \<noteq> SIGHUP" "SIGTERM \<noteq> SIGINT"
  by (simp_all add: SIGHUP_def SIGINT_def SIGTERM_def)

text \<open>What a successful installation is.\<close>

definition captures :: "signal_host \<Rightarrow> i32 \<Rightarrow> signal_host \<Rightarrow> terminal_signal_monitor \<Rightarrow> bool" where
  "captures h wfd h' m \<longleftrightarrow>
     (let ignored = (sh_actions h SIGHUP = Handle_Ignore) in
        sh_actions h' = ((if ignored then sh_actions h else (sh_actions h)(SIGHUP := Handle_Monitor))
          (SIGINT := Handle_Monitor, SIGTERM := Handle_Monitor))
      \<and> sh_write_fd h' = wfd \<and> sh_queue h' = [] \<and> sh_capacity h' = sh_capacity h \<and> sh_write_fd h = -1
      \<and> tm_write m = wfd
      \<and> tm_previous_hangup m = (if ignored then None else Some (sh_actions h SIGHUP))
      \<and> tm_previous_interrupt m = sh_actions h SIGINT \<and> tm_previous_terminate m = sh_actions h SIGTERM)"

lemma installed_captures:
  assumes "install a h = (h', Ok m)"
  shows "\<exists>rfd wfd. ia_pipe a = Some (rfd, wfd) \<and> captures h wfd h' m"
  using assms
  by (cases "ia_install a SIGHUP"; cases "ia_install a SIGINT"; cases "ia_install a SIGTERM")
    (auto simp: install_def install_handlers_def withdraw_def hangup_is_ignored_def captures_def Let_def
      split: if_splits option.splits sum.splits)

lemma failed_install:
  assumes "install a h = (h', Err kind)" and "\<forall>n. ia_restore a n"
  shows "sh_actions h' = sh_actions h \<and> sh_write_fd h' = sh_write_fd h"
  using assms
  by (cases "ia_install a SIGHUP"; cases "ia_install a SIGINT"; cases "ia_install a SIGTERM")
    (auto simp: install_def install_handlers_def withdraw_def hangup_is_ignored_def fun_eq_iff
      split: if_splits option.splits sum.splits)

text \<open>A signal that reaches the supervisor.\<close>

definition deliver :: "signal_host \<Rightarrow> u8 \<Rightarrow> signal_host" where
  "deliver h n = (if sh_actions h n = Handle_Monitor then terminal_signal_handler (uint n) h else h)"

lemma u8_try_from_uint [simp]: "u8_try_from (uint (n :: u8)) = Some n"
  using unsigned_less [of n, where ?'a = int] by (simp add: u8_try_from_def)

lemma deliver_keeps [simp]:
  "sh_actions (deliver h n) = sh_actions h" "sh_write_fd (deliver h n) = sh_write_fd h"
  "sh_capacity (deliver h n) = sh_capacity h"
  by (simp_all add: deliver_def terminal_signal_handler_def)

lemma delivered_keeps [simp]:
  "sh_actions (foldl deliver h ns) = sh_actions h" "sh_write_fd (foldl deliver h ns) = sh_write_fd h"
  by (induction ns arbitrary: h) simp_all

text \<open>Capturing the terminal signals is undone completely. If the calls that restore a disposition
  succeed, an installation that fails, at whatever step, leaves every disposition and the descriptor
  of the handler as they were; and after a successful one, whatever signals arrived, dropping the
  monitor gives back exactly the dispositions from before and withdraws the descriptor.\<close>

theorem signal_capture_is_undone:
  assumes "\<forall>n. ia_restore a n" and "\<forall>n. restored n"
  shows "case install a h of
      (h', Inl kind) \<Rightarrow> sh_actions h' = sh_actions h \<and> sh_write_fd h' = sh_write_fd h
    | (h', Inr m) \<Rightarrow> sh_actions (drop_monitor restored m (foldl deliver h' ns)) = sh_actions h
        \<and> sh_write_fd (drop_monitor restored m (foldl deliver h' ns)) = sh_write_fd h"
proof (cases "install a h")
  case (Pair h' res)
  show ?thesis
  proof (cases res)
    case (Inl kind)
    with Pair failed_install [OF _ assms(1)] show ?thesis by simp
  next
    case (Inr m)
    with Pair installed_captures obtain wfd where "captures h wfd h' m" by blast
    with Pair Inr assms(2) show ?thesis
      by (auto simp: captures_def drop_monitor_def Let_def fun_eq_iff split: if_splits)
  qed
qed

text \<open>A hangup that is ignored stays ignored: the supervisor started under \<open>nohup\<close> never changes that
  disposition, whichever calls succeed or fail, neither when it installs the monitor nor when it
  drops it.\<close>

theorem ignored_hangup_stays_ignored:
  assumes "sh_actions h SIGHUP = Handle_Ignore"
  shows "case install a h of
      (h', Inl kind) \<Rightarrow> sh_actions h' SIGHUP = Handle_Ignore
    | (h', Inr m) \<Rightarrow> hangup_ignored m \<and> sh_actions h' SIGHUP = Handle_Ignore
        \<and> sh_actions (drop_monitor restored m (foldl deliver h' ns)) SIGHUP = Handle_Ignore"
  using assms
  by (cases "ia_install a SIGINT"; cases "ia_install a SIGTERM")
    (auto simp: install_def install_handlers_def withdraw_def hangup_is_ignored_def hangup_ignored_def
      drop_monitor_def split: if_splits option.splits sum.splits)

section \<open>The pipe\<close>

text \<open>Reading a nonblocking pipe with the buffer of the poll, 32 bytes at a time.\<close>

function pipe_reads :: "u8 list \<Rightarrow> pipe_read list" where
  "pipe_reads q = (if q = [] then [Pipe_Again] else Pipe_Bytes (take 32 q) # pipe_reads (drop 32 q))"
  by pat_completeness auto
termination by (relation "measure length") auto

declare pipe_reads.simps [simp del]

lemma poll_reads_all: "monitor_poll signals (pipe_reads q) = Some (Ok (signals @ monitored q))"
proof (induction q arbitrary: signals rule: pipe_reads.induct)
  case (1 q)
  show ?case
  proof (cases "q = []")
    case True
    then show ?thesis by (simp add: pipe_reads.simps monitored_def)
  next
    case False
    have "monitored (take 32 q) @ monitored (drop 32 q) = monitored q"
      unfolding monitored_def List.map_filter_def filter_append [symmetric] map_append [symmetric]
        append_take_drop_id by (rule refl)
    with False 1 show ?thesis by (simp add: pipe_reads.simps)
  qed
qed

lemma monitored_numbers: "monitored ns = map SignalNumber (filter forwardable ns)"
  by (induction ns) (auto simp: monitored_def List.map_filter_def signal_new_def forwardable_def)

lemma delivered_queue:
  assumes "0 \<le> sh_write_fd h" and "length (sh_queue h) + length ns \<le> sh_capacity h"
  shows "sh_queue (foldl deliver h ns) = sh_queue h @ filter (\<lambda>n. sh_actions h n = Handle_Monitor) ns"
  using assms
proof (induction ns arbitrary: h)
  case (Cons n ns)
  have "sh_queue (deliver h n) = sh_queue h @ filter (\<lambda>n. sh_actions h n = Handle_Monitor) [n]"
    using Cons.prems by (simp add: deliver_def terminal_signal_handler_def)
  with Cons.IH [of "deliver h n"] Cons.prems show ?case by (auto split: if_splits)
qed simp

text \<open>C9. No terminal signal is lost or reordered. After a successful installation, a poll returns the
  signals that arrived, in order of arrival: exactly the interrupts, the terminations and, unless it
  was ignored before, the hangups, as long as they fit the pipe.\<close>

theorem signals_arrive_in_order:
  assumes "install a h = (h', Ok m)" and "0 \<le> tm_write m" and "length ns \<le> sh_capacity h"
  shows "monitor_poll [] (pipe_reads (sh_queue (foldl deliver h' ns)))
    = Some (Ok (map SignalNumber (filter (\<lambda>n. n = SIGINT \<or> n = SIGTERM
        \<or> n = SIGHUP \<and> sh_actions h SIGHUP \<noteq> Handle_Ignore) ns)))"
proof -
  from installed_captures [OF assms(1)] obtain wfd where c: "captures h wfd h' m" by blast
  have "sh_queue (foldl deliver h' ns) = filter (\<lambda>n. sh_actions h' n = Handle_Monitor) ns"
    using delivered_queue [of h' ns] c assms(2,3) by (simp add: captures_def Let_def)
  moreover have "filter forwardable (filter (\<lambda>n. sh_actions h' n = Handle_Monitor) ns)
      = filter (\<lambda>n. n = SIGINT \<or> n = SIGTERM \<or> n = SIGHUP \<and> sh_actions h SIGHUP \<noteq> Handle_Ignore) ns"
    unfolding filter_filter
    by (rule filter_cong [OF refl])
      (use c in \<open>auto simp: captures_def Let_def forwardable_def SIGHUP_def SIGINT_def SIGTERM_def split: if_splits\<close>)
  ultimately show ?thesis by (simp add: poll_reads_all monitored_numbers)
qed

section \<open>The launch\<close>

text \<open>The kernel gives a child a positive number of 31 bits.\<close>

definition real_pids :: "launch_answers \<Rightarrow> bool" where
  "real_pids a \<longleftrightarrow> (\<forall>request child. la_spawn a request = Ok child \<longrightarrow> 0 < unat child \<and> unat child < 2 ^ 31)"

text \<open>
  Nothing was spawned; or the child's whole group was killed and the child reaped; or, where the kernel
  did not confirm that the child leads its own group, the child alone was killed and reaped; or the
  kernel knew no such process, and a wait did not find the child still running.
\<close>

definition child_gone :: "launch_answers \<Rightarrow> process_effect list \<Rightarrow> bool" where
  "child_gone a fx \<longleftrightarrow> fx = [] \<or> (\<exists>request child rest. fx = Spawned request # rest \<and> la_spawn a request = Ok child
     \<and> (rest = [Group_Signalled (uint child) SIGKILL, Child_Waited]
        \<or> rest = [Child_Killed, Child_Waited] \<and> la_getpgid a (uint child) \<noteq> Ok (uint child)
        \<or> rest = [] \<and> la_getpgid a (uint child) = Err ESRCH \<and> la_waited a \<noteq> Ok None))"

text \<open>The child leads its own group, which is the owned one, and the cleanup is armed.\<close>

definition child_owned :: "launch_answers \<Rightarrow> process_effect list \<Rightarrow> owned_process \<Rightarrow> bool" where
  "child_owned a fx p \<longleftrightarrow> (\<exists>request child. fx = [Spawned request] \<and> la_spawn a request = Ok child
     \<and> 0 < uint child \<and> op_root_pid p = uint child \<and> op_process_group p = uint child \<and> op_cleanup_on_drop p
     \<and> (la_getpgid a (uint child) = Ok (uint child) \<or> op_root_outcome p \<noteq> None))"

lemma validated_group:
  assumes "validate_group a pid = (fx, res)"
  shows "case res of
      Inl kind \<Rightarrow> fx = [Child_Killed, Child_Waited] \<and> la_getpgid a pid \<noteq> Ok pid
        \<or> fx = [] \<and> la_getpgid a pid = Err ESRCH \<and> la_waited a \<noteq> Ok None
    | Inr outcome \<Rightarrow> fx = [] \<and> (la_getpgid a pid = Ok pid \<or> outcome \<noteq> None)"
  using assms by (auto simp: validate_group_def split: if_splits sum.splits option.splits)

lemma spawned_child:
  assumes "spawn_validated a request disposition = (fx, res)" and "real_pids a"
  shows "case res of Inl kind \<Rightarrow> child_gone a fx | Inr p \<Rightarrow> child_owned a fx p"
proof (cases "la_spawn a request")
  case (Inl err)
  with assms(1) show ?thesis by (auto simp: spawn_validated_def child_gone_def)
next
  case (Inr child)
  with assms(2) have "0 < unat child" "unat child < 2 ^ 31" by (auto simp: real_pids_def)
  moreover have "uint child = int (unat child)" by simp
  ultimately have pid: "0 < uint child" "i32_try_from child = Some (uint child)"
    by (simp_all only: i32_try_from_def) simp_all
  obtain fx1 valid where v: "validate_group a (uint child) = (fx1, valid)" by force
  from validated_group [OF this] assms(1) Inr pid show ?thesis
    by (cases valid) (auto simp: spawn_validated_def v child_gone_def child_owned_def)
qed

lemma launched_child:
  assumes "launch_inner a lo checkpoint = (fx, res)" and "real_pids a"
  shows "case res of Inl kind \<Rightarrow> child_gone a fx | Inr p \<Rightarrow> child_owned a fx p"
proof -
  from assms(1) have "(fx = [] \<and> (\<exists>kind. res = Err kind))
      \<or> (\<exists>request disposition. spawn_validated a request disposition = (fx, res))"
    by (auto simp: launch_inner_def Let_def split_beta split: list.splits if_splits sum.splits)
  with spawned_child [OF _ assms(2)] show ?thesis by (auto simp: child_gone_def)
qed

section \<open>Witnesses\<close>

text \<open>A supervisor started under \<open>nohup\<close>, on a host where the last handler cannot be installed or can.\<close>

definition demo_host :: "disposition \<Rightarrow> signal_host" where
  "demo_host hangup = \<lparr>sh_actions = (\<lambda>_. Handle_Default)(SIGHUP := hangup), sh_write_fd = -1, sh_queue = [],
     sh_capacity = 512\<rparr>"

definition demo_install :: "bool \<Rightarrow> install_answers" where
  "demo_install ok = \<lparr>ia_query = True, ia_pipe = Some (5, 6), ia_fcntl = (\<lambda>_ _. 0), ia_emptyset = True,
     ia_install = (\<lambda>n. ok \<or> n \<noteq> SIGTERM), ia_restore = (\<lambda>_. True)\<rparr>"

lemmas demo_install_defs = demo_install_def demo_host_def install_def install_handlers_def withdraw_def
  hangup_is_ignored_def configure_signal_pipe_def Let_def

lemma demo_installed: "\<exists>h m. install (demo_install True) (demo_host Handle_Ignore) = (h, Ok m) \<and> tm_write m = 6"
  by (simp add: demo_install_defs)

lemma demo_failed: "\<exists>h. install (demo_install False) (demo_host Handle_Default)
    = (h, Err Ctl_TerminalSignalMonitorUnavailable)"
  by (simp add: demo_install_defs)

theorem signal_capture_is_undone_witness:
  "\<exists>h. install (demo_install False) (demo_host Handle_Default) = (h, Err Ctl_TerminalSignalMonitorUnavailable)
    \<and> sh_actions h SIGINT = Handle_Default"
proof -
  obtain h where h: "install (demo_install False) (demo_host Handle_Default)
      = (h, Err Ctl_TerminalSignalMonitorUnavailable)" using demo_failed by blast
  have "\<forall>n. ia_restore (demo_install False) n" by (simp add: demo_install_def)
  from signal_capture_is_undone [OF this, of "\<lambda>_. True" "demo_host Handle_Default"] h
  have "sh_actions h = sh_actions (demo_host Handle_Default)" by simp
  with h show ?thesis by (simp add: demo_host_def)
qed

theorem ignored_hangup_stays_ignored_witness:
  "\<exists>h m. install (demo_install True) (demo_host Handle_Ignore) = (h, Ok m)
    \<and> sh_actions (drop_monitor (\<lambda>_. True) m h) SIGHUP = Handle_Ignore"
proof -
  obtain h m where h: "install (demo_install True) (demo_host Handle_Ignore) = (h, Ok m)"
    using demo_installed by blast
  have "sh_actions (demo_host Handle_Ignore) SIGHUP = Handle_Ignore" by (simp add: demo_host_def)
  from ignored_hangup_stays_ignored [OF this, where a = "demo_install True" and restored = "\<lambda>_. True" and ns = "[]"] h show ?thesis by simp
qed

theorem signals_arrive_in_order_witness:
  "\<exists>h m. install (demo_install True) (demo_host Handle_Ignore) = (h, Ok m)
    \<and> monitor_poll [] (pipe_reads (sh_queue (foldl deliver h [SIGTERM, SIGHUP, SIGINT])))
        = Some (Ok [SignalNumber SIGTERM, SignalNumber SIGINT])"
proof -
  obtain h m where h: "install (demo_install True) (demo_host Handle_Ignore) = (h, Ok m)" "tm_write m = 6"
    using demo_installed by blast
  from signals_arrive_in_order [OF h(1), of "[SIGTERM, SIGHUP, SIGINT]"] h show ?thesis
    by (simp add: demo_host_def)
qed

end
