(* ===== verification/Storage.thy ===== *)
theory Storage
  imports Journal Explain
begin

text \<open>
  The file-system half of \<^verbatim>\<open>mlx-guard-core/src/persistence.rs\<close>: the exclusive creation of the journal
  before anything is launched, and the replacement of the report file when it is finalized. The
  directory is a map from names to files; it is opened once, and every later access is relative to it
  and follows no link. Whether a system call succeeds is an argument.
\<close>

unbundle bit_operations_syntax

section \<open>The directory\<close>

text \<open>A file of the directory: whether it is a regular file, its owner, permission bits and bytes.\<close>

record node =
  nd_regular :: bool
  nd_uid :: nat
  nd_mode :: nat
  nd_content :: bytes

type_synonym directory = "string \<Rightarrow> node option"

text \<open>The permissions \<open>0o600\<close> and \<open>0o700\<close>.\<close>

definition OWNER_ONLY :: nat where "OWNER_ONLY = 384"
definition OWNER_ONLY_DIRECTORY :: nat where "OWNER_ONLY_DIRECTORY = 448"

definition owner_only :: "nat \<Rightarrow> node \<Rightarrow> bool" where
  "owner_only euid nd \<longleftrightarrow> nd_regular nd \<and> nd_uid nd = euid \<and> nd_mode nd = OWNER_ONLY"

definition c_name :: "string \<Rightarrow> storage_error_kind + string" where
  "c_name name = (if CHR 0x00 \<in> set name then Err InvalidPath else Ok name)"

definition artifact_name :: "string \<Rightarrow> string \<Rightarrow> string \<Rightarrow> string" where
  "artifact_name name prefix suffix = prefix @ name @ suffix"

text \<open>\<open>stat_ok\<close> is false when \<open>fstatat\<close> fails although the name exists or could.\<close>

definition validate_existing_output_at ::
    "nat \<Rightarrow> bool \<Rightarrow> directory \<Rightarrow> string \<Rightarrow> storage_error_kind + unit" where
  "validate_existing_output_at euid stat_ok d name =
     (case c_name name of
        Inl err \<Rightarrow> Err err
      | Inr name \<Rightarrow>
          (if \<not> stat_ok then Err UnsafeTarget
           else case d name of
             None \<Rightarrow> Ok ()
           | Some nd \<Rightarrow> (if owner_only euid nd then Ok () else Err UnsafeTarget)))"

section \<open>Creating the journal\<close>

text \<open>
  What the system answers: \<open>symlink_metadata\<close> of the report path (whether it is a regular file), the
  opened directory (whether it is one, its owner and mode), and the calls that create the journal.
  \<open>in_write\<close> is the number of bytes that reach the file when the write fails.
\<close>

record initialize_io =
  in_euid :: nat
  in_target :: "bool option"
  in_open :: bool
  in_directory :: "(bool \<times> nat \<times> nat) option"
  in_stat :: bool
  in_create :: bool
  in_created_mode :: nat
  in_permissions :: bool
  in_write :: "nat option"
  in_sync :: bool
  in_sync_directory :: bool

definition validate_report_target :: "initialize_io \<Rightarrow> string \<Rightarrow> storage_error_kind + string" where
  "validate_report_target io report_path =
     (case file_name report_path of
        None \<Rightarrow> Err InvalidPath
      | Some name \<Rightarrow>
          (if name = [] \<or> name = ''.'' \<or> name = ''..'' then Err InvalidPath
           else if in_target io = Some False then Err InvalidPath
           else Ok name))"

definition validate_directory :: "initialize_io \<Rightarrow> storage_error_kind + unit" where
  "validate_directory io =
     (case in_directory io of
        None \<Rightarrow> Err UnsafeDirectory
      | Some (is_dir, uid, mode) \<Rightarrow>
          (if \<not> is_dir \<or> uid \<noteq> in_euid io \<or> mode \<noteq> OWNER_ONLY_DIRECTORY then Err UnsafeDirectory
           else Ok ()))"

text \<open>The journal with the names of its two files.\<close>

record journal_files =
  jf_journal :: secure_journal
  jf_report_name :: string
  jf_journal_name :: string

text \<open>The part of \<open>initialize\<close> after the journal file was created.\<close>

definition fill_journal ::
    "initialize_io \<Rightarrow> string \<Rightarrow> string \<Rightarrow> directory \<Rightarrow> directory \<times> (storage_error_kind + journal_files)" where
  "fill_journal io report_name journal_name d =
     (let nd = \<lparr>nd_regular = True, nd_uid = in_euid io, nd_mode = in_created_mode io, nd_content = []\<rparr>;
          created = d(journal_name \<mapsto> nd);
          private = d(journal_name \<mapsto> nd\<lparr>nd_mode := OWNER_ONLY\<rparr>)
      in if \<not> in_permissions io then (created, Err CreateJournalFailed)
         else case in_write io of
           Some n \<Rightarrow>
             (d(journal_name \<mapsto> nd\<lparr>nd_mode := OWNER_ONLY, nd_content := take n JOURNAL_MAGIC\<rparr>),
              Err JournalWriteFailed)
         | None \<Rightarrow>
             (d(journal_name \<mapsto> nd\<lparr>nd_mode := OWNER_ONLY, nd_content := JOURNAL_MAGIC\<rparr>),
              if \<not> in_sync io then Err SyncFailed
              else if \<not> in_sync_directory io then Err SyncFailed
              else Ok \<lparr>jf_journal = journal_initialized, jf_report_name = report_name,
                       jf_journal_name = journal_name\<rparr>))"

definition initialize_journal ::
    "initialize_io \<Rightarrow> string \<Rightarrow> directory \<Rightarrow> directory \<times> (storage_error_kind + journal_files)" where
  "initialize_journal io report_path d =
     (case validate_report_target io report_path of
        Inl err \<Rightarrow> (d, Err err)
      | Inr report_name \<Rightarrow>
          (let journal_name = artifact_name report_name ''.'' ''.journal'' in
           if \<not> in_open io then (d, Err UnsafeDirectory)
           else case validate_directory io of
             Inl err \<Rightarrow> (d, Err err)
           | Inr _ \<Rightarrow>
               (case validate_existing_output_at (in_euid io) (in_stat io) d report_name of
                  Inl err \<Rightarrow> (d, Err err)
                | Inr _ \<Rightarrow>
                    (case c_name journal_name of
                       Inl err \<Rightarrow> (d, Err err)
                     | Inr name \<Rightarrow>
                         (if d name \<noteq> None then (d, Err JournalExists)
                          else if \<not> in_create io then (d, Err CreateJournalFailed)
                          else fill_journal io report_name name d)))))"

section \<open>Replacing the report\<close>

record replace_io =
  rf_euid :: nat
  rf_stat :: bool
  rf_create :: bool
  rf_created_mode :: nat
  rf_permissions :: bool
  rf_write :: "nat option"
  rf_sync :: bool
  rf_rename :: bool
  rf_unlink :: bool
  rf_sync_directory :: bool

definition bytes_of :: "string \<Rightarrow> bytes" where
  "bytes_of s = map of_char s"

definition create_at :: "replace_io \<Rightarrow> string \<Rightarrow> directory \<Rightarrow> directory \<times> (storage_error_kind + unit)" where
  "create_at io name d =
     (case c_name name of
        Inl err \<Rightarrow> (d, Err err)
      | Inr name \<Rightarrow>
          (if d name \<noteq> None then (d, Err UnsafeTarget)
           else if \<not> rf_create io then (d, Err FinalizeFailed)
           else (d(name \<mapsto> \<lparr>nd_regular = True, nd_uid = rf_euid io, nd_mode = rf_created_mode io,
                             nd_content = []\<rparr>), Ok ())))"

definition unlink_at :: "replace_io \<Rightarrow> string \<Rightarrow> directory \<Rightarrow> directory" where
  "unlink_at io name d = (if rf_unlink io then d(name := None) else d)"

definition rename_at :: "replace_io \<Rightarrow> string \<Rightarrow> string \<Rightarrow> directory \<Rightarrow> directory \<times> bool" where
  "rename_at io source target d =
     (if rf_rename io then (d(target := d source, source := None), True) else (d, False))"

text \<open>The temporary file while it is filled: the states it passes through, and whether all went well.\<close>

definition fill_temporary :: "replace_io \<Rightarrow> bytes \<Rightarrow> node \<Rightarrow> node list \<times> bool" where
  "fill_temporary io content nd =
     (if \<not> rf_permissions io then ([], False)
      else
        let private = nd\<lparr>nd_mode := OWNER_ONLY\<rparr> in
        case rf_write io of
          Some n \<Rightarrow> ([private, private\<lparr>nd_content := take n content\<rparr>], False)
        | None \<Rightarrow> ([private, private\<lparr>nd_content := content\<rparr>], rf_sync io))"

text \<open>
  The replacement of the report, with every state of the directory that it passes through in order:
  a crash leaves one of them, or the one before.
\<close>

definition replace_report ::
    "replace_io \<Rightarrow> string \<Rightarrow> bytes \<Rightarrow> directory \<Rightarrow> directory list \<times> (storage_error_kind + unit)" where
  "replace_report io report_name content d =
     (case validate_existing_output_at (rf_euid io) (rf_stat io) d report_name of
        Inl err \<Rightarrow> ([], Err err)
      | Inr _ \<Rightarrow>
          (let temp_name = artifact_name report_name ''.'' ''.tmp'' in
           case create_at io temp_name d of
             (d1, Inl err) \<Rightarrow> ([], Err err)
           | (d1, Inr _) \<Rightarrow>
               (let (nodes, filled) = fill_temporary io content (the (d1 temp_name));
                    ds = d1 # map (\<lambda>nd. d1(temp_name \<mapsto> nd)) nodes;
                    d2 = last ds
                in if \<not> filled then (ds @ [unlink_at io temp_name d2], Err FinalizeFailed)
                   else case rename_at io temp_name report_name d2 of
                     (d3, False) \<Rightarrow> (ds @ [unlink_at io temp_name d3], Err FinalizeFailed)
                   | (d3, True) \<Rightarrow>
                       (ds @ [d3], if rf_sync_directory io then Ok () else Err SyncFailed))))"

section \<open>The summary\<close>

fun outcome_word :: "terminal_kind \<Rightarrow> string" where
  "outcome_word (Kind_ChildExited _) = ''child_exited''"
| "outcome_word (Kind_ChildSignaled _) = ''child_signaled''"
| "outcome_word Kind_LaunchNotFound = ''launch_not_found''"
| "outcome_word Kind_LaunchNotExecutable = ''launch_not_executable''"
| "outcome_word Kind_InvalidConfiguration = ''invalid_configuration''"
| "outcome_word Kind_PolicyIntervention = ''policy_intervention''"
| "outcome_word Kind_SupervisorFailure = ''supervisor_failure''"
| "outcome_word Kind_PartialArtifactFailure = ''partial_artifact_failure''"

definition report_summary :: "report_v1 \<Rightarrow> string" where
  "report_summary r =
     ''mlx-guard: '' @ outcome_word (to_kind (rep_outcome r)) @ '' at ''
     @ show_word (to_at_ms (rep_outcome r)) @ ''ms; '' @ show_nat (length (rep_samples r)) @ '' sample''
     @ (if length (rep_samples r) = 1 then [] else ''s'') @ '', ''
     @ show_nat (length (rep_signals r)) @ '' signal''
     @ (if length (rep_signals r) = 1 then [] else ''s'') @ [newline]"

fun storage_error_text :: "storage_error_kind \<Rightarrow> string" where
  "storage_error_text InvalidPath = ''artifact target path is invalid''"
| "storage_error_text UnsafeDirectory = ''artifact directory is not private and owned''"
| "storage_error_text JournalExists = ''journal target already exists; choose a new --report path''"
| "storage_error_text CreateJournalFailed = ''journal target creation failed''"
| "storage_error_text JournalWriteFailed = ''artifact write failed''"
| "storage_error_text SyncFailed = ''artifact synchronization failed''"
| "storage_error_text JournalReadFailed = ''artifact read failed''"
| "storage_error_text InvalidRecord = ''journal record is invalid''"
| "storage_error_text UnsafeTarget = ''artifact output target is unsafe''"
| "storage_error_text FinalizeFailed = ''final report creation failed''"

section \<open>Finalizing\<close>

text \<open>
  The whole of \<open>finalize\<close>. \<open>sync_ok\<close> answers the flush; the journal is read back through the
  directory, so it must still be there as a private file; its bytes are those of the journal. The flush
  inside \<open>finalize\<close> has been answered already.
\<close>

record finalize_io =
  fz_sync :: bool
  fz_open :: bool
  fz_replace :: replace_io

definition finalize_artifacts ::
    "(bytes \<Rightarrow> journal_record option) \<Rightarrow> (report_v1 \<Rightarrow> 'e + string) \<Rightarrow> finalize_io \<Rightarrow> journal_files
     \<Rightarrow> directory \<Rightarrow> directory list \<times> (storage_error_kind + report_v1 \<times> string)" where
  "finalize_artifacts from_slice to_string io jf d =
     (case journal_flush (fz_sync io) (jf_journal jf) of
        (_, Inl err) \<Rightarrow> ([], Err err)
      | (j, Inr _) \<Rightarrow>
          (case c_name (jf_journal_name jf) of
             Inl err \<Rightarrow> ([], Err err)
           | Inr name \<Rightarrow>
               (case (if fz_open io then d name else None) of
                  None \<Rightarrow> ([], Err JournalReadFailed)
                | Some nd \<Rightarrow>
                    (case snd (finalize from_slice to_string True (owner_only (rf_euid (fz_replace io)) nd) j) of
                       Inl err \<Rightarrow> ([], Err err)
                     | Inr (r, encoded) \<Rightarrow>
                         (case replace_report (fz_replace io) (jf_report_name jf) (bytes_of encoded) d of
                            (ds, Inl err) \<Rightarrow> (ds, Err err)
                          | (ds, Inr _) \<Rightarrow> (ds, Ok (r, report_summary r)))))))"

end
