(* ===== verification/Storage_Props.thy ===== *)
theory Storage_Props
  imports Storage Runtime_Props
begin

text \<open>
  What the files of a run are worth: creating the journal never touches another file, and the report
  is replaced atomically, whatever fails and wherever a crash cuts the replacement.
\<close>

section \<open>Names\<close>

lemma artifact_names [simp]:
  "artifact_name name ''.'' ''.journal'' \<noteq> name" "artifact_name name ''.'' ''.tmp'' \<noteq> name"
  "name \<noteq> artifact_name name ''.'' ''.journal''" "name \<noteq> artifact_name name ''.'' ''.tmp''"
  "artifact_name name ''.'' ''.journal'' \<noteq> artifact_name name ''.'' ''.tmp''"
  "artifact_name name ''.'' ''.tmp'' \<noteq> artifact_name name ''.'' ''.journal''"
proof -
  have "length (artifact_name name ''.'' ''.journal'') = length name + 9"
    "length (artifact_name name ''.'' ''.tmp'') = length name + 5"
    by (simp_all add: artifact_name_def)
  then have "length (artifact_name name ''.'' ''.journal'') \<noteq> length name"
    "length (artifact_name name ''.'' ''.tmp'') \<noteq> length name"
    "length (artifact_name name ''.'' ''.journal'') \<noteq> length (artifact_name name ''.'' ''.tmp'')" by simp_all
  then show "artifact_name name ''.'' ''.journal'' \<noteq> name" "artifact_name name ''.'' ''.tmp'' \<noteq> name"
    "name \<noteq> artifact_name name ''.'' ''.journal''" "name \<noteq> artifact_name name ''.'' ''.tmp''"
    "artifact_name name ''.'' ''.journal'' \<noteq> artifact_name name ''.'' ''.tmp''"
    "artifact_name name ''.'' ''.tmp'' \<noteq> artifact_name name ''.'' ''.journal''" by metis+
qed

lemma c_name_eq [simp]:
  "c_name name = Ok name' \<longleftrightarrow> name' = name \<and> CHR 0x00 \<notin> set name"
  "c_name name = Err err \<longleftrightarrow> err = InvalidPath \<and> CHR 0x00 \<in> set name"
  by (auto simp: c_name_def)

section \<open>The journal\<close>

text \<open>C8. Creating the journal is exclusive. It changes no existing file, and at most one name appears
  in the directory, that of the journal. If it succeeds, this name was free, its file is private and
  holds exactly the magic, the directory belongs to the user alone, and what stands under the name of
  the report, if anything does, is a private file of the user.\<close>

theorem journal_is_exclusive:
  assumes "initialize_journal io report_path d = (d', res)"
  shows "(\<forall>n nd. d n = Some nd \<longrightarrow> d' n = Some nd)
    \<and> (\<forall>n. d' n \<noteq> d n \<longrightarrow> (\<exists>name. file_name report_path = Some name
        \<and> n = artifact_name name ''.'' ''.journal''))
    \<and> (case res of
         Inl _ \<Rightarrow> True
       | Inr jf \<Rightarrow> d (jf_journal_name jf) = None \<and> jf_journal_name jf \<noteq> jf_report_name jf
           \<and> d' (jf_journal_name jf) = Some \<lparr>nd_regular = True, nd_uid = in_euid io,
               nd_mode = OWNER_ONLY, nd_content = sj_file (jf_journal jf)\<rparr>
           \<and> sj_file (jf_journal jf) = JOURNAL_MAGIC
           \<and> in_directory io = Some (True, in_euid io, OWNER_ONLY_DIRECTORY)
           \<and> (case d (jf_report_name jf) of None \<Rightarrow> True | Some nd \<Rightarrow> owner_only (in_euid io) nd))"
proof (cases "validate_report_target io report_path")
  case (Inl err)
  with assms show ?thesis by (auto simp: initialize_journal_def)
next
  case (Inr name)
  then have name: "file_name report_path = Some name"
    by (auto simp: validate_report_target_def split: option.splits if_splits)
  let ?journal = "artifact_name name ''.'' ''.journal''"
  show ?thesis
  proof (cases "in_open io \<and> validate_directory io = Ok () \<and> c_name ?journal = Ok ?journal
      \<and> validate_existing_output_at (in_euid io) (in_stat io) d name = Ok () \<and> d ?journal = None \<and> in_create io")
    case False
    then have "d' = d" "\<exists>err. res = Err err"
      using assms Inr by (auto simp: initialize_journal_def Let_def split: sum.splits if_splits)
    then show ?thesis by auto
  next
    case True
    with assms Inr have fill: "fill_journal io name ?journal d = (d', res)"
      by (simp add: initialize_journal_def Let_def)
    from True have "in_directory io = Some (True, in_euid io, OWNER_ONLY_DIRECTORY)"
      "case d name of None \<Rightarrow> True | Some nd \<Rightarrow> owner_only (in_euid io) nd"
      by (auto simp: validate_directory_def validate_existing_output_at_def c_name_def
          split: option.splits if_splits sum.splits)
    with fill True name show ?thesis
      by (auto simp: fill_journal_def Let_def journal_initialized_def split: if_splits option.splits)
  qed
qed

section \<open>The report\<close>

text \<open>A private file that holds a complete valid report.\<close>

definition complete_report :: "(report_v1 \<Rightarrow> 'e + string) \<Rightarrow> nat \<Rightarrow> report_v1 \<Rightarrow> node \<Rightarrow> bool" where
  "complete_report to_string euid r nd \<longleftrightarrow> owner_only euid nd
     \<and> validate r = (Ok () :: unit report_error + unit)
     \<and> (\<exists>text. to_string r = Ok text \<and> nd_content nd = bytes_of (text @ [newline]))"

lemma filled_temporary:
  assumes "fill_temporary io content nd = (nodes, filled)"
  shows "filled \<Longrightarrow> nodes \<noteq> [] \<and> last nodes = nd\<lparr>nd_mode := OWNER_ONLY, nd_content := content\<rparr>"
  using assms by (auto simp: fill_temporary_def Let_def split: if_splits option.splits)

lemma replaced_report:
  assumes "replace_report io name content d = (ds, res)"
  defines "temp \<equiv> artifact_name name ''.'' ''.tmp''"
    and "new \<equiv> \<lparr>nd_regular = True, nd_uid = rf_euid io, nd_mode = OWNER_ONLY, nd_content = content\<rparr>"
  shows "\<forall>d'\<in>set ds. d' name = d name \<or> d' name = Some new"
    and "\<forall>d'\<in>set ds. \<forall>n. n \<noteq> name \<and> n \<noteq> temp \<longrightarrow> d' n = d n"
    and "res = Ok () \<Longrightarrow> last (d # ds) name = Some new \<and> last (d # ds) temp = None"
    and "res = Err err \<Longrightarrow> err = SyncFailed \<and> \<not> rf_sync_directory io \<or> last (d # ds) name = d name"
    and "rf_unlink io \<Longrightarrow> last (d # ds) temp = d temp"
proof -
  have "(\<forall>d'\<in>set ds. d' name = d name \<or> d' name = Some new)
    \<and> (\<forall>d'\<in>set ds. \<forall>n. n \<noteq> name \<and> n \<noteq> temp \<longrightarrow> d' n = d n)
    \<and> (res = Ok () \<longrightarrow> last (d # ds) name = Some new \<and> last (d # ds) temp = None)
    \<and> (\<forall>err. res = Err err \<longrightarrow>
         err = SyncFailed \<and> \<not> rf_sync_directory io \<or> last (d # ds) name = d name)
    \<and> (rf_unlink io \<longrightarrow> last (d # ds) temp = d temp)"
  proof (cases "validate_existing_output_at (rf_euid io) (rf_stat io) d name = Ok ()
      \<and> snd (create_at io temp d) = Ok ()")
    case False
    obtain d1 created where created: "create_at io temp d = (d1, created)" by force
    with False consider err where "validate_existing_output_at (rf_euid io) (rf_stat io) d name = Err err"
      | err where "validate_existing_output_at (rf_euid io) (rf_stat io) d name = Ok ()" "created = Err err"
      by (cases "validate_existing_output_at (rf_euid io) (rf_stat io) d name"; cases created) auto
    then have "\<exists>err. replace_report io name content d = ([], Err err)"
      by cases (use created in \<open>simp_all add: replace_report_def temp_def Let_def\<close>)
    with assms(1) have "ds = []" "\<exists>err. res = Err err" by auto
    then show ?thesis by auto
  next
    case True
    define nd where "nd = \<lparr>nd_regular = True, nd_uid = rf_euid io, nd_mode = rf_created_mode io, nd_content = []\<rparr>"
    have d1: "create_at io temp d = (d(temp \<mapsto> nd), Ok ())" "d temp = None"
      using True by (auto simp: create_at_def nd_def c_name_def split: sum.splits if_splits)
    obtain nodes filled where fill: "fill_temporary io content nd = (nodes, filled)" by force
    define ds' where "ds' = d(temp \<mapsto> nd) # map (\<lambda>nd'. d(temp \<mapsto> nd')) nodes"
    have same: "\<forall>d'\<in>set ds'. \<forall>n. n \<noteq> temp \<longrightarrow> d' n = d n" by (auto simp: ds'_def)
    have ne: "ds' \<noteq> []" by (simp add: ds'_def)
    then have last_same: "n \<noteq> temp \<Longrightarrow> last ds' n = d n" for n using same last_in_set by blast
    have diff: "name \<noteq> temp" by (simp add: temp_def)
    note unfolded = assms(1) [unfolded replace_report_def, folded temp_def] True d1 fill
    show ?thesis
    proof (cases filled)
      case False
      with unfolded have "ds = ds' @ [unlink_at io temp (last ds')]" "res = Err FinalizeFailed"
        by (auto simp: Let_def ds'_def)
      with same last_same diff d1(2) show ?thesis by (auto simp: unlink_at_def split: if_splits)
    next
      case True
      from filled_temporary [OF fill this] have "last ds' temp = Some new"
        by (simp add: ds'_def last_map nd_def new_def)
      moreover have "ds = ds' @ [fst (rename_at io temp name (last ds'))]
          \<and> res = (if rf_sync_directory io then Ok () else Err SyncFailed)" if "rf_rename io"
        using unfolded True that by (auto simp: Let_def ds'_def rename_at_def)
      moreover have "ds = ds' @ [unlink_at io temp (last ds')] \<and> res = Err FinalizeFailed" if "\<not> rf_rename io"
        using unfolded True that by (auto simp: Let_def ds'_def rename_at_def)
      ultimately show ?thesis using same last_same diff d1(2)
        by (cases "rf_rename io") (auto simp: rename_at_def unlink_at_def split: if_splits)
    qed
  qed
  then show "\<forall>d'\<in>set ds. d' name = d name \<or> d' name = Some new"
    and "\<forall>d'\<in>set ds. \<forall>n. n \<noteq> name \<and> n \<noteq> temp \<longrightarrow> d' n = d n"
    and "res = Ok () \<Longrightarrow> last (d # ds) name = Some new \<and> last (d # ds) temp = None"
    and "res = Err err \<Longrightarrow> err = SyncFailed \<and> \<not> rf_sync_directory io \<or> last (d # ds) name = d name"
    and "rf_unlink io \<Longrightarrow> last (d # ds) temp = d temp" by blast+
qed

lemma finalized_report:
  assumes "snd (finalize from_slice to_string sync_ok private j) = Ok (r, encoded)"
  shows "validate r = (Ok () :: unit report_error + unit)
    \<and> (\<exists>text. to_string r = Ok text \<and> encoded = text @ [newline])"
proof -
  have "validate r = (Ok () :: unit report_error + unit)"
    using assms by (auto simp: finalize_def to_report_def split: prod.splits sum.splits option.splits if_splits)
  moreover have "\<exists>text. to_string r = Ok text \<and> encoded = text @ [newline]"
    using assms by (auto simp: finalize_def report_to_json_def split: prod.splits sum.splits)
  ultimately show ?thesis by simp
qed

text \<open>Either nothing was touched, or a valid report was encoded and its replacement decides.\<close>

lemma finalize_cases:
  assumes "finalize_artifacts from_slice to_string io jf d = (ds, res)"
  obtains (untouched) err where "ds = []" and "res = Err err"
  | (encoded) r str res' where "validate r = (Ok () :: unit report_error + unit)" and "to_string r = Ok str"
      and "replace_report (fz_replace io) (jf_report_name jf) (bytes_of (str @ [newline])) d = (ds, res')"
      and "res = (case res' of Inl err \<Rightarrow> Err err | Inr _ \<Rightarrow> Ok (r, report_summary r))"
proof -
  obtain j flushed where j: "journal_flush (fz_sync io) (jf_journal jf) = (j, flushed)" by force
  define read where "read = (case flushed of
      Inl err \<Rightarrow> Err err
    | Inr _ \<Rightarrow> (case c_name (jf_journal_name jf) of
        Inl err \<Rightarrow> Err err
      | Inr name \<Rightarrow> (case (if fz_open io then d name else None) of
          None \<Rightarrow> Err JournalReadFailed
        | Some nd \<Rightarrow> snd (finalize from_slice to_string True (owner_only (rf_euid (fz_replace io)) nd) j))))"
  have fin: "finalize_artifacts from_slice to_string io jf d = (case read of
      Inl err \<Rightarrow> ([], Err err)
    | Inr (r, encoded) \<Rightarrow> (case replace_report (fz_replace io) (jf_report_name jf) (bytes_of encoded) d of
        (ds, Inl err) \<Rightarrow> (ds, Err err) | (ds, Inr _) \<Rightarrow> (ds, Ok (r, report_summary r))))"
    by (simp add: finalize_artifacts_def j read_def split: sum.splits option.splits)
  show thesis
  proof (cases read)
    case (Inl err)
    with fin assms show thesis by (auto intro: untouched)
  next
    case (Inr x)
    obtain r encoded where x: "x = (r, encoded)" by force
    obtain res' where rep: "replace_report (fz_replace io) (jf_report_name jf) (bytes_of encoded) d = (ds, res')"
      and res: "res = (case res' of Inl err \<Rightarrow> Err err | Inr _ \<Rightarrow> Ok (r, report_summary r))"
      using assms fin by (auto simp: Inr x split: prod.splits sum.splits)
    obtain p where "snd (finalize from_slice to_string True p j) = Ok (r, encoded)"
      using Inr x by (auto simp: read_def split: sum.splits option.splits if_splits)
    from finalized_report [OF this] rep res show thesis by (auto intro: encoded)
  qed
qed

text \<open>C7. The report is replaced atomically. In every state of the directory while a run is finalized,
  and so after a crash at any point, what stands under the name of the report is either exactly what
  stood there before or a private file with the complete text of one valid report; no other file
  changes, the journal included, except the temporary one. If finalizing succeeds the report is in place and the temporary
  file is gone. If it fails the old one is still in place, except when it was the synchronization of the
  directory after the replacement that failed: then the new report may be in place already.\<close>

theorem report_is_replaced_atomically:
  assumes "finalize_artifacts from_slice to_string io jf d = (ds, res)"
  defines "temp \<equiv> artifact_name (jf_report_name jf) ''.'' ''.tmp''"
  shows "\<exists>r. (\<forall>d'\<in>set ds. d' (jf_report_name jf) = d (jf_report_name jf)
          \<or> (\<exists>nd. d' (jf_report_name jf) = Some nd \<and> complete_report to_string (rf_euid (fz_replace io)) r nd))
    \<and> (\<forall>d'\<in>set ds. \<forall>n. n \<noteq> jf_report_name jf \<and> n \<noteq> temp \<longrightarrow> d' n = d n)
    \<and> (case res of
         Inl err \<Rightarrow> err = SyncFailed \<and> \<not> rf_sync_directory (fz_replace io)
           \<or> last (d # ds) (jf_report_name jf) = d (jf_report_name jf)
       | Inr (r', _) \<Rightarrow> r' = r \<and> last (d # ds) temp = None
           \<and> (\<exists>nd. last (d # ds) (jf_report_name jf) = Some nd
                \<and> complete_report to_string (rf_euid (fz_replace io)) r nd))"
  using assms(1)
proof (cases rule: finalize_cases)
  case untouched
  then show ?thesis by simp
next
  case (encoded r str res')
  define new where "new = \<lparr>nd_regular = True, nd_uid = rf_euid (fz_replace io), nd_mode = OWNER_ONLY,
      nd_content = bytes_of (str @ [newline])\<rparr>"
  have complete: "complete_report to_string (rf_euid (fz_replace io)) r new"
    using encoded(1,2) by (simp add: complete_report_def owner_only_def new_def)
  note facts = replaced_report [OF encoded(3), folded temp_def new_def]
  show ?thesis
  proof (intro exI [of _ r] conjI)
    show "\<forall>d'\<in>set ds. d' (jf_report_name jf) = d (jf_report_name jf)
        \<or> (\<exists>nd. d' (jf_report_name jf) = Some nd \<and> complete_report to_string (rf_euid (fz_replace io)) r nd)"
      using facts(1) complete by blast
    show "\<forall>d'\<in>set ds. \<forall>n. n \<noteq> jf_report_name jf \<and> n \<noteq> temp \<longrightarrow> d' n = d n" by (rule facts(2))
    show "case res of
         Inl err \<Rightarrow> err = SyncFailed \<and> \<not> rf_sync_directory (fz_replace io)
           \<or> last (d # ds) (jf_report_name jf) = d (jf_report_name jf)
       | Inr (r', _) \<Rightarrow> r' = r \<and> last (d # ds) temp = None
           \<and> (\<exists>nd. last (d # ds) (jf_report_name jf) = Some nd
                \<and> complete_report to_string (rf_euid (fz_replace io)) r nd)"
    proof (cases res')
      case (Inl err)
      with facts(4) encoded(4) show ?thesis by simp
    next
      case (Inr u)
      with facts(3) encoded(4) complete show ?thesis by simp
    qed
  qed
qed

section \<open>Witnesses\<close>

definition demo_initialize :: initialize_io where
  "demo_initialize = \<lparr>in_euid = 501, in_target = None, in_open = True,
     in_directory = Some (True, 501, OWNER_ONLY_DIRECTORY), in_stat = True, in_create = True,
     in_created_mode = OWNER_ONLY, in_permissions = True, in_write = None, in_sync = True,
     in_sync_directory = True\<rparr>"

theorem journal_is_exclusive_witness:
  "\<exists>d' jf. initialize_journal demo_initialize ''runs/r.json'' Map.empty = (d', Ok jf)
    \<and> d' ''.r.json.journal'' = Some \<lparr>nd_regular = True, nd_uid = 501, nd_mode = OWNER_ONLY,
        nd_content = JOURNAL_MAGIC\<rparr>"
proof -
  have "\<exists>d' jf. initialize_journal demo_initialize ''runs/r.json'' Map.empty = (d', Ok jf)
      \<and> jf_journal_name jf = ''.r.json.journal''"
    by (simp add: initialize_journal_def validate_report_target_def file_name_def Let_def demo_initialize_def
        validate_directory_def validate_existing_output_at_def c_name_def artifact_name_def fill_journal_def)
  then obtain d' jf where run: "initialize_journal demo_initialize ''runs/r.json'' Map.empty = (d', Ok jf)"
    and "jf_journal_name jf = ''.r.json.journal''" by blast
  with journal_is_exclusive [OF run] show ?thesis by (simp add: demo_initialize_def)
qed

definition demo_replace :: replace_io where
  "demo_replace = \<lparr>rf_euid = 501, rf_stat = True, rf_create = True, rf_created_mode = OWNER_ONLY,
     rf_permissions = True, rf_write = None, rf_sync = True, rf_rename = True, rf_unlink = True,
     rf_sync_directory = True\<rparr>"

lemma demo_finalized:
  "\<exists>j. \<not> sj_failed j \<and> finalize demo_from_slice (\<lambda>_. Ok ''{}'' :: unit + string) True True j
     = (j, Ok (demo_report, ''{}'' @ [newline]))"
proof -
  obtain j where "append_report demo_to_vec (\<lambda>_. Io_Ok) journal_initialized demo_report = (j, Ok ())"
    using demo_append by blast
  then have ap: "append_entries demo_to_vec (\<lambda>_. Io_Ok) journal_initialized (report_entries demo_report) = (j, Ok ())"
    by (simp add: append_report_def demo_report_valid journal_initialized_def)
  have four: "length (report_entries demo_report) = 4"
    by (simp add: report_entries_def demo_report_def)
  with append_entries_held [OF ap holds_initialized]
  obtain rs where rs: "holds demo_to_vec j rs" "map jr_entry rs = map fst (report_entries demo_report)"
    by auto
  have len: "length rs = 4"
    using arg_cong [OF rs(2), of length] by (simp add: report_entries_def demo_report_def)
  obtain s where s: "Journal.replay (length rs) 0 replay_start (map jr_entry rs) = Some s"
      "assemble s = Some demo_report"
    using replay_report [of demo_report] unfolding rs(2) len four by blast
  have "report_to_json (\<lambda>_. Ok ''{}'' :: unit + string) demo_report = Ok (''{}'' @ [newline])"
    by (simp add: report_to_json_def demo_report_valid)
  from finished_journal [OF demo_reads_back rs(1) _ s demo_report_valid this] len
  have "finalize demo_from_slice (\<lambda>_. Ok ''{}'' :: unit + string) True True j
      = (j, Ok (demo_report, ''{}'' @ [newline]))"
    by (simp add: MAX_RECOVERED_RECORDS_def)
  moreover have "\<not> sj_failed j" using rs(1) by (simp add: holds_def)
  ultimately show ?thesis by blast
qed

definition demo_directory :: directory where
  "demo_directory = [''.r.json.journal'' \<mapsto> \<lparr>nd_regular = True, nd_uid = 501, nd_mode = OWNER_ONLY,
     nd_content = []\<rparr>]"

theorem report_is_replaced_atomically_witness:
  "\<exists>j ds s nd. finalize_artifacts demo_from_slice (\<lambda>_. Ok ''{}'' :: unit + string)
       \<lparr>fz_sync = True, fz_open = True, fz_replace = demo_replace\<rparr>
       \<lparr>jf_journal = j, jf_report_name = ''r.json'', jf_journal_name = ''.r.json.journal''\<rparr> demo_directory
     = (ds, Ok (demo_report, s))
   \<and> last (demo_directory # ds) ''r.json'' = Some nd
   \<and> complete_report (\<lambda>_. Ok ''{}'' :: unit + string) 501 demo_report nd"
proof -
  obtain j where j: "\<not> sj_failed j" "finalize demo_from_slice (\<lambda>_. Ok ''{}'' :: unit + string) True True j
      = (j, Ok (demo_report, ''{}'' @ [newline]))" using demo_finalized by blast
  then have "\<exists>ds s. finalize_artifacts demo_from_slice (\<lambda>_. Ok ''{}'' :: unit + string)
       \<lparr>fz_sync = True, fz_open = True, fz_replace = demo_replace\<rparr>
       \<lparr>jf_journal = j, jf_report_name = ''r.json'', jf_journal_name = ''.r.json.journal''\<rparr> demo_directory
     = (ds, Ok (demo_report, s))"
    by (simp add: finalize_artifacts_def journal_flush_def c_name_def demo_directory_def owner_only_def
        demo_replace_def replace_report_def validate_existing_output_at_def artifact_name_def create_at_def
        fill_temporary_def Let_def rename_at_def)
  then obtain ds s where run: "finalize_artifacts demo_from_slice (\<lambda>_. Ok ''{}'' :: unit + string)
       \<lparr>fz_sync = True, fz_open = True, fz_replace = demo_replace\<rparr>
       \<lparr>jf_journal = j, jf_report_name = ''r.json'', jf_journal_name = ''.r.json.journal''\<rparr> demo_directory
     = (ds, Ok (demo_report, s))" by blast
  have euid: "rf_euid demo_replace = 501" by (simp add: demo_replace_def)
  from report_is_replaced_atomically [OF run]
  obtain nd where "last (demo_directory # ds) ''r.json'' = Some nd"
    "complete_report (\<lambda>_. Ok ''{}'' :: unit + string) 501 demo_report nd"
    by (auto simp: euid simp del: last.simps)
  with run show ?thesis by blast
qed

end
