(* ===== verification/Launch.thy ===== *)
theory Launch
  imports Observe Host Storage
begin

text \<open>
  The start and the end of a run in \<^verbatim>\<open>mlx-guard-cli/src/runtime.rs\<close>: every step before the supervision
  loop with its failure, in the order of the code, the resources released on the way out, the
  report of a run whose command never was supervised, and the printed result. Each answer of the
  platform is an argument.
\<close>

section \<open>Results\<close>

record runtime_result =
  res_outcome :: supervisor_outcome
  res_stdout :: string
  res_stderr :: string

definition diagnostic_line :: "string \<Rightarrow> string" where
  "diagnostic_line message = ''mlx-guard: '' @ message @ [newline]"

text \<open>\<open>version\<close> is the version of the binary.\<close>

definition result_failure :: "string \<Rightarrow> supervisor_outcome \<Rightarrow> string \<Rightarrow> runtime_result" where
  "result_failure version outcome message =
    \<lparr>res_outcome = outcome, res_stdout = [],
     res_stderr = diagnostic_line message
       @ (case generic_early_cause outcome of
            None \<Rightarrow> [] | Some cause \<Rightarrow> stderr_lines (explain_early version cause))\<rparr>"

definition result_refused :: "string \<Rightarrow> supervisor_outcome \<Rightarrow> string \<Rightarrow> early_cause \<Rightarrow> runtime_result" where
  "result_refused version outcome message cause =
    \<lparr>res_outcome = outcome, res_stdout = [],
     res_stderr = diagnostic_line message @ stderr_lines (explain_early version cause)\<rparr>"

definition finished ::
    "supervisor_outcome \<Rightarrow> report_v1 \<Rightarrow> string \<Rightarrow> string option \<Rightarrow> bool \<Rightarrow> runtime_result" where
  "finished outcome report summary diagnostic show_summary =
    \<lparr>res_outcome = outcome, res_stdout = (if show_summary then summary else []),
     res_stderr = (case diagnostic of None \<Rightarrow> [] | Some message \<Rightarrow> diagnostic_line message)
       @ (case explain_report report of None \<Rightarrow> [] | Some plain \<Rightarrow> stderr_lines plain)\<rparr>"

section \<open>The platform during the start\<close>

record start_io =
  st_version :: string
  st_supported :: bool
  st_fcntl :: sys_fcntl
  st_ppid :: i32
  st_parent :: "process_observation option"
  st_hangup_query :: bool
  st_probe :: bool
  st_random :: "bytes option"
  st_initialize :: initialize_io
  st_append :: "nat \<Rightarrow> append_io"
  st_install :: install_answers
  st_restore :: "u8 \<Rightarrow> bool"
  st_launch :: launch_answers
  st_inspect :: "identity_unavailable + process_observation"
  st_waited :: "sys_errno + exit_status option"
  st_getpgid :: "i32 \<Rightarrow> i32"
  st_finalize :: finalize_io
  st_urandom :: bool
  st_nonce :: "bytes option"
  st_request_ids :: "bytes option list"
  st_pair :: "checkpoint_channel_error + i32"
  st_hello :: stream_write
  st_actuator_root :: "identity_unavailable + process_observation"

text \<open>The JSON codec of the journal, and the JSON of the report.\<close>

record 'e codec =
  cd_to_vec :: "journal_record \<Rightarrow> bytes option"
  cd_from_slice :: "bytes \<Rightarrow> journal_record option"
  cd_to_string :: "report_v1 \<Rightarrow> 'e + string"

record world =
  w_directory :: directory
  w_signals :: signal_host

text \<open>
  What the start does, in order. \<open>Report_Written\<close> holds the states the directory passed through while
  the report was finalized.
\<close>

datatype start_effect =
    Header_Written
  | Handlers_Installed
  | Handlers_Dropped
  | Processes process_effect
  | Standard_Input_Replaced
  | Banner_Printed string
  | Report_Written "directory list"
  | Readiness_Closed i32

section \<open>Steps\<close>

text \<open>
  A step changes the world, has effects, and either returns the result of the whole run early or goes
  on with a value. \<open>leaving\<close> releases a resource when a later step returns early.
\<close>

type_synonym 'a step = "world \<Rightarrow> world \<times> start_effect list \<times> (runtime_result + 'a)"

definition step_return :: "'a \<Rightarrow> 'a step" where
  "step_return x w = (w, [], Ok x)"

definition step_exit :: "runtime_result \<Rightarrow> 'a step" where
  "step_exit r w = (w, [], Err r)"

definition step_bind :: "'a step \<Rightarrow> ('a \<Rightarrow> 'b step) \<Rightarrow> 'b step" where
  "step_bind m f w =
     (case m w of
        (w, fx, Inl r) \<Rightarrow> (w, fx, Err r)
      | (w, fx, Inr x) \<Rightarrow> (case f x w of (w, gx, res) \<Rightarrow> (w, fx @ gx, res)))"

definition leaving :: "(world \<Rightarrow> world \<times> start_effect list) \<Rightarrow> 'a step \<Rightarrow> 'a step" where
  "leaving release m w =
     (case m w of
        (w, fx, Inl r) \<Rightarrow> (case release w of (w, gx) \<Rightarrow> (w, fx @ gx, Err r))
      | (w, fx, Inr x) \<Rightarrow> (w, fx, Ok x))"

definition close_ready :: "i32 option \<Rightarrow> world \<Rightarrow> world \<times> start_effect list" where
  "close_ready ready w = (w, map Readiness_Closed (snd (client_ready_close ready)))"

definition drop_handlers ::
    "(u8 \<Rightarrow> bool) \<Rightarrow> terminal_signal_monitor \<Rightarrow> world \<Rightarrow> world \<times> start_effect list" where
  "drop_handlers restored m w = (w\<lparr>w_signals := drop_monitor restored m (w_signals w)\<rparr>, [Handlers_Dropped])"

definition ready_step :: "start_io \<Rightarrow> common_options \<Rightarrow> (i32 option) step" where
  "ready_step io common =
     (case client_ready_take (st_fcntl io) (co_client_ready_fd common) of
        Inl kind \<Rightarrow> step_exit (result_refused (st_version io) InvalidConfiguration (control_error_text kind)
          Early_ClientReadyDescriptor)
      | Inr ready \<Rightarrow> step_return ready)"

fun sampling_error_text :: "sampling_config_error \<Rightarrow> string" where
  "sampling_error_text IntervalOutOfRange = ''sample interval is outside 10 ms through 10 s''"
| "sampling_error_text InvalidQualityWindow = ''sample age and window bounds are incoherent''"
| "sampling_error_text HistoryCapacityOutOfRange = ''sample history capacity is outside 1 through 4096''"

definition sampling_step :: "start_io \<Rightarrow> common_options \<Rightarrow> sampling_config step" where
  "sampling_step io common =
     (case sampling_config_for common of
        Inl err \<Rightarrow> step_exit (result_refused (st_version io) InvalidConfiguration (sampling_error_text err)
          Early_Configuration)
      | Inr config \<Rightarrow> step_return config)"

text \<open>\<open>parent_watch_state\<close>: the disposition of SIGHUP is queried, not changed.\<close>

definition parent_watch_of :: "start_io \<Rightarrow> on_parent_exit_option \<Rightarrow> world \<Rightarrow> parent_watch_state" where
  "parent_watch_of io opt w =
     parent_watch_state_for (st_ppid io) (st_parent io)
       (case hangup_is_ignored (st_hangup_query io) (w_signals w) of Inl _ \<Rightarrow> None | Inr ignored \<Rightarrow> Some ignored) opt"

section \<open>The journal of the run\<close>

text \<open>Two lowercase hexadecimal digits.\<close>

definition hex_digit :: "nat \<Rightarrow> char" where
  "hex_digit d = char_of (if d < 10 then 48 + d else 87 + d)"

definition hex_02 :: "u8 \<Rightarrow> string" where
  "hex_02 b = [hex_digit (unat b div 16), hex_digit (unat b mod 16)]"

text \<open>The 16 random bytes, if they could be read.\<close>

definition run_identity_for :: "bytes option \<Rightarrow> common_options \<Rightarrow> unit + run_identity" where
  "run_identity_for random common =
     (case random of
        None \<Rightarrow> Err ()
      | Some bs \<Rightarrow>
          (case from_argv (''run_'' @ concat (map hex_02 bs)) (co_command common) None of
             Inl (_ :: unit report_error) \<Rightarrow> Err ()
           | Inr identity \<Rightarrow> Ok identity))"

definition append_entry ::
    "'j appender \<Rightarrow> 'j \<times> u64 \<Rightarrow> journal_entry \<Rightarrow> journal_durability
     \<Rightarrow> ('j \<times> u64) \<times> (storage_error_kind + unit)" where
  "append_entry append_record s entry durability =
     (case append_record (fst s) (journal_record_new (snd s) entry) durability of
        (j, Inl kind) \<Rightarrow> ((j, snd s), Err kind)
      | (j, Inr _) \<Rightarrow> ((j, sat_add (snd s) 1), Ok ()))"

definition appender_of :: "start_io \<Rightarrow> 'e codec \<Rightarrow> secure_journal appender" where
  "appender_of io cd j r durability =
     journal_append (cd_to_vec cd) (st_append io (unat (sj_next_sequence j))) j r durability"

text \<open>The journal with its names and the next sequence number.\<close>

type_synonym run_journal = "journal_files \<times> u64"

definition begin_journal ::
    "start_io \<Rightarrow> 'e codec \<Rightarrow> common_options \<Rightarrow> report_configuration \<Rightarrow> bool \<Rightarrow> run_journal step" where
  "begin_journal io cd common configuration checkpoint_available w =
     (if \<not> st_probe io
      then step_exit (result_refused (st_version io) SupervisorFailure
        ''OS-accounted footprint observation is unavailable'' Early_FootprintUnavailable) w
      else case run_identity_for (st_random io) common of
        Inl _ \<Rightarrow> step_exit (result_refused (st_version io) SupervisorFailure
          ''secure run identity generation failed'' Early_RunIdentity) w
      | Inr run \<Rightarrow>
          (let header = initial_header (st_version io) run configuration checkpoint_available;
               before_launch = (\<lambda>kind. result_refused (st_version io) PartialArtifactFailure
                 (storage_error_text kind) (Early_Storage (storage_class_from kind) BeforeLaunch))
           in case initialize_journal (st_initialize io) (co_report_path common) (w_directory w) of
                (d, Inl kind) \<Rightarrow> step_exit (before_launch kind) (w\<lparr>w_directory := d\<rparr>)
              | (d, Inr jf) \<Rightarrow>
                  (case append_entry (appender_of io cd) (jf_journal jf, 0) (E_Header header) Sync of
                     (_, Inl kind) \<Rightarrow> step_exit (before_launch kind) (w\<lparr>w_directory := d\<rparr>)
                   | ((j, sequence), Inr _) \<Rightarrow>
                       (w\<lparr>w_directory := d\<rparr>, [Header_Written], Ok (jf\<lparr>jf_journal := j\<rparr>, sequence)))))"

section \<open>The end without a worker\<close>

record launch_failure =
  lf_outcome :: supervisor_outcome
  lf_diagnostic :: string

definition is_child_exit :: "supervisor_outcome \<Rightarrow> bool" where
  "is_child_exit outcome \<longleftrightarrow> (case outcome of ChildExited _ \<Rightarrow> True | ChildSignaled _ \<Rightarrow> True | _ \<Rightarrow> False)"

fun kind_without_worker :: "supervisor_outcome \<Rightarrow> terminal_kind" where
  "kind_without_worker LaunchNotFound = Kind_LaunchNotFound"
| "kind_without_worker LaunchNotExecutable = Kind_LaunchNotExecutable"
| "kind_without_worker InvalidConfiguration = Kind_InvalidConfiguration"
| "kind_without_worker (ChildExited code) = Kind_ChildExited code"
| "kind_without_worker (ChildSignaled signal) = Kind_ChildSignaled (signal_get signal)"
| "kind_without_worker _ = Kind_SupervisorFailure"

fun status_without_worker :: "supervisor_outcome \<Rightarrow> child_status option" where
  "status_without_worker (ChildExited code) = Some (Child_Exited code)"
| "status_without_worker (ChildSignaled signal) = Some (Child_Signaled (signal_get signal))"
| "status_without_worker _ = None"

definition terminal_without_worker :: "supervisor_outcome \<Rightarrow> terminal_outcome" where
  "terminal_without_worker outcome =
    \<lparr>to_at_ms = 0, to_kind = kind_without_worker outcome, to_final_footprint_bytes = Unknown,
     to_child_status = status_without_worker outcome, to_owned_group_survivors = None,
     to_parent_exited_at_ms = None\<rparr>"

text \<open>The three appends; the first failure ends them.\<close>

definition append_terminal ::
    "'j appender \<Rightarrow> 'j \<times> u64 \<Rightarrow> bool \<Rightarrow> terminal_outcome \<Rightarrow> ('j \<times> u64) \<times> (storage_error_kind + unit)" where
  "append_terminal append_record s escape_detected outcome =
     (case append_entry append_record s (E_Checkpoint
            \<lparr>ck_status = Status_NotNegotiated, ck_at_ms = None, ck_request_id = None, ck_reason = None,
             ck_artifact = None\<rparr>) Sync of
        (s, Inl kind) \<Rightarrow> (s, Err kind)
      | (s, Inr _) \<Rightarrow>
          (case append_entry append_record s
                  (E_Escape \<lparr>ee_detected = Available escape_detected, ee_escaped_count = None\<rparr>) Buffered of
             (s, Inl kind) \<Rightarrow> (s, Err kind)
           | (s, Inr _) \<Rightarrow> append_entry append_record s (E_Outcome outcome) Sync))"

definition lost_without_worker ::
    "string \<Rightarrow> supervisor_outcome \<Rightarrow> string \<Rightarrow> storage_class \<Rightarrow> runtime_result" where
  "lost_without_worker version outcome diagnostic kind =
     (let (error_line, message, phase) =
        (if is_child_exit outcome
         then (None, ''child exited but its report could not be finalized'', EndedWhileStarting)
         else if outcome \<in> {LaunchNotFound, LaunchNotExecutable, InvalidConfiguration}
         then (Some diagnostic, ''launch failed and its report could not be finalized'', LaunchFailed)
         else (Some diagnostic,
               ''the run did not finish starting, and its report could not be finalized'', StartUnfinished))
      in \<lparr>res_outcome = PartialArtifactFailure, res_stdout = [],
          res_stderr = (case error_line of None \<Rightarrow> [] | Some line \<Rightarrow> diagnostic_line line)
            @ diagnostic_line message @ stderr_lines (explain_early version (Early_Storage kind phase))\<rparr>)"

definition finalize_without_worker ::
    "start_io \<Rightarrow> 'e codec \<Rightarrow> run_journal \<Rightarrow> launch_failure \<Rightarrow> 'a step" where
  "finalize_without_worker io cd rj failure w =
     (let outcome = lf_outcome failure;
          lost = (\<lambda>kind. lost_without_worker (st_version io) outcome (lf_diagnostic failure)
            (storage_class_from kind))
      in case append_terminal (appender_of io cd) (jf_journal (fst rj), snd rj) False
                (terminal_without_worker outcome) of
           (_, Inl kind) \<Rightarrow> (w, [], Err (lost kind))
         | ((j, _), Inr _) \<Rightarrow>
             (case finalize_artifacts (cd_from_slice cd) (cd_to_string cd) (st_finalize io)
                     ((fst rj)\<lparr>jf_journal := j\<rparr>) (w_directory w) of
                (ds, res) \<Rightarrow>
                  (w\<lparr>w_directory := last (w_directory w # ds)\<rparr>, [Report_Written ds],
                   Err (case res of
                          Inl kind \<Rightarrow> lost kind
                        | Inr (report, summary) \<Rightarrow>
                            (if is_child_exit outcome then finished outcome report summary None True
                             else finished outcome report summary (Some (lf_diagnostic failure)) False)))))"

section \<open>Preparing the worker\<close>

fun launch_outcome :: "launch_error_kind \<Rightarrow> supervisor_outcome" where
  "launch_outcome Launch_NotFound = LaunchNotFound"
| "launch_outcome Launch_NotExecutable = LaunchNotExecutable"
| "launch_outcome Launch_EmptyCommand = InvalidConfiguration"
| "launch_outcome Launch_InvalidWorkingDirectory = InvalidConfiguration"
| "launch_outcome Launch_InvalidCheckpointChannel = InvalidConfiguration"
| "launch_outcome Launch_SpawnFailed = SupervisorFailure"
| "launch_outcome Launch_ProcessGroupValidationFailed = SupervisorFailure"

definition early_exit_or_failure :: "root_outcome option \<Rightarrow> string \<Rightarrow> launch_failure \<Rightarrow> launch_failure" where
  "early_exit_or_failure root_status window step_failure =
     (case root_status of
        Some outcome \<Rightarrow>
          \<lparr>lf_outcome = supervisor_outcome_of outcome, lf_diagnostic = ''child exited before '' @ window\<rparr>
      | None \<Rightarrow> step_failure)"

definition supervisor_failure_of :: "string \<Rightarrow> launch_failure" where
  "supervisor_failure_of diagnostic = \<lparr>lf_outcome = SupervisorFailure, lf_diagnostic = diagnostic\<rparr>"

definition launch_options_of :: "common_options \<Rightarrow> launch_options" where
  "launch_options_of common =
    \<lparr>lo_command = co_command common, lo_cwd = co_cwd common, lo_clear_env = co_clear_env common,
     lo_env = co_env common, lo_stdin = Stdio_Inherit, lo_stdout = Stdio_Inherit,
     lo_stderr = Stdio_Inherit\<rparr>"

text \<open>\<open>announce_stdin_disposition\<close>.\<close>

definition announce_stdin :: "owned_process \<Rightarrow> start_effect list" where
  "announce_stdin p =
     (if op_stdin_disposition p = Stdin_TerminalReplacedWithNull then [Standard_Input_Replaced] else [])"

text \<open>\<open>try_wait_root().ok().flatten()\<close>.\<close>

definition root_status :: "start_io \<Rightarrow> owned_process \<Rightarrow> root_outcome option" where
  "root_status io p =
     (case snd (try_wait_root (op_root_outcome p) (st_waited io)) of Inl _ \<Rightarrow> None | Inr status \<Rightarrow> status)"

record prepared =
  pr_process :: owned_process
  pr_tracker :: identity_tracker
  pr_endpoint :: "checkpoint_endpoint option"

text \<open>
  The launched process is bound to its identity; a failure drops it. \<open>last_step\<close> is the negotiation of
  the checkpoint endpoint, which only an enforcing run has.
\<close>

definition bind_worker ::
    "start_io \<Rightarrow> (process_identity \<Rightarrow> owned_process \<Rightarrow> launch_failure + checkpoint_endpoint option)
     \<Rightarrow> owned_process \<Rightarrow> start_effect list \<times> (launch_failure + prepared)" where
  "bind_worker io last_step p =
     (let dropped = map Processes (drop_process p) in
      case i32_try_from (word_of_int (op_root_pid p)) of
        None \<Rightarrow> (dropped, Err (supervisor_failure_of ''root process identity is invalid''))
      | Some _ \<Rightarrow>
          (case st_inspect io of
             Inl _ \<Rightarrow>
               (dropped, Err (early_exit_or_failure (root_status io p) ''identity inspection''
                 (supervisor_failure_of ''root process identity could not be established'')))
           | Inr observation \<Rightarrow>
               (case identity_tracker_new (po_identity observation) (op_process_group p) of
                  Inl _ \<Rightarrow>
                    (dropped, Err (supervisor_failure_of ''owned process identity could not be established''))
                | Inr tracker \<Rightarrow>
                    (case last_step (po_identity observation) p of
                       Inl failure \<Rightarrow> (dropped, Err failure)
                     | Inr endpoint \<Rightarrow>
                         ([], Ok \<lparr>pr_process = p, pr_tracker = tracker, pr_endpoint = endpoint\<rparr>)))))"

definition prepare_worker ::
    "start_io \<Rightarrow> common_options \<Rightarrow> i32 option
     \<Rightarrow> (process_identity \<Rightarrow> owned_process \<Rightarrow> launch_failure + checkpoint_endpoint option)
     \<Rightarrow> start_effect list \<times> (launch_failure + prepared)" where
  "prepare_worker io common checkpoint last_step =
     (case launch_inner (st_launch io) (launch_options_of common) checkpoint of
        (fx, Inl kind) \<Rightarrow>
          (map Processes fx,
           Err \<lparr>lf_outcome = launch_outcome kind, lf_diagnostic = launch_error_text kind\<rparr>)
      | (fx, Inr p) \<Rightarrow>
          (case bind_worker io last_step p of
             (gx, res) \<Rightarrow> (map Processes fx @ announce_stdin p @ gx, res)))"

definition prepare_observe_worker ::
    "start_io \<Rightarrow> common_options \<Rightarrow> start_effect list \<times> (launch_failure + prepared)" where
  "prepare_observe_worker io common = prepare_worker io common None (\<lambda>_ _. Ok None)"

definition negotiate_worker ::
    "start_io \<Rightarrow> process_identity \<Rightarrow> owned_process \<Rightarrow> launch_failure + checkpoint_endpoint option" where
  "negotiate_worker io root p =
     (case negotiate_checkpoint_endpoint (op_process_group p) (st_getpgid io) root of
        Inl kind \<Rightarrow> Err (early_exit_or_failure (root_status io p) ''checkpoint negotiation''
          (supervisor_failure_of (control_error_text kind)))
      | Inr endpoint \<Rightarrow> Ok (Some endpoint))"

definition prepare_run_worker ::
    "start_io \<Rightarrow> common_options \<Rightarrow> i32 \<Rightarrow> start_effect list \<times> (launch_failure + prepared)" where
  "prepare_run_worker io common checkpoint = prepare_worker io common (Some checkpoint) (negotiate_worker io)"

section \<open>The start of a run\<close>

text \<open>The part of both starts from the signal handlers on; the worker is the value.\<close>

definition start_worker ::
    "start_io \<Rightarrow> 'e codec \<Rightarrow> run_journal \<Rightarrow> start_effect list \<times> (launch_failure + prepared) \<Rightarrow> prepared step" where
  "start_worker io cd rj worker w =
     (case worker of
        (fx, Inl failure) \<Rightarrow>
          (case finalize_without_worker io cd rj failure w of (w, gx, res) \<Rightarrow> (w, fx @ gx, res))
      | (fx, Inr p) \<Rightarrow> (w, fx, Ok p))"

definition install_step ::
    "start_io \<Rightarrow> 'e codec \<Rightarrow> run_journal \<Rightarrow> terminal_signal_monitor step" where
  "install_step io cd rj w =
     (case install (st_install io) (w_signals w) of
        (h, Inl kind) \<Rightarrow>
          finalize_without_worker io cd rj (supervisor_failure_of (control_error_text kind)) (w\<lparr>w_signals := h\<rparr>)
      | (h, Inr m) \<Rightarrow> (w\<lparr>w_signals := h\<rparr>, [Handlers_Installed], Ok m))"

text \<open>
  The part that both starts share: the journal with its header, the handlers, the worker. The worker
  is dropped with the handlers when it fails.
\<close>

definition launch_step ::
    "start_io \<Rightarrow> 'e codec \<Rightarrow> common_options \<Rightarrow> report_configuration \<Rightarrow> bool
     \<Rightarrow> start_effect list \<times> (launch_failure + prepared)
     \<Rightarrow> (run_journal \<times> terminal_signal_monitor \<times> prepared) step" where
  "launch_step io cd common configuration checkpoint_available worker =
     step_bind (begin_journal io cd common configuration checkpoint_available) (\<lambda>rj.
     step_bind (install_step io cd rj) (\<lambda>monitor.
     step_bind (leaving (drop_handlers (st_restore io) monitor) (start_worker io cd rj worker)) (\<lambda>worker.
     step_return (rj, monitor, worker))))"

text \<open>What the supervision loop is given.\<close>

record 'r started =
  sd_runtime :: 'r
  sd_journal :: run_journal
  sd_monitor :: terminal_signal_monitor
  sd_process :: owned_process

text \<open>\<open>ready.notify()\<close> closes the descriptor just before the loop; an early return drops it.\<close>

definition notify :: "i32 option \<Rightarrow> 'a \<Rightarrow> 'a step" where
  "notify ready x w = (case close_ready ready w of (w, fx) \<Rightarrow> (w, fx, Ok x))"

definition observe_started ::
    "common_options \<Rightarrow> sampling_config \<Rightarrow> parent_watch_state
     \<Rightarrow> run_journal \<times> terminal_signal_monitor \<times> prepared \<Rightarrow> observe_runtime started" where
  "observe_started common config watch = (\<lambda>(rj, monitor, worker).
     \<lparr>sd_runtime = observe_start common config (pr_tracker worker)
        (op_root_outcome (pr_process worker)) (op_process_group (pr_process worker)) watch,
      sd_journal = rj, sd_monitor = monitor, sd_process = pr_process worker\<rparr>)"

definition start_observe :: "start_io \<Rightarrow> 'e codec \<Rightarrow> common_options \<Rightarrow> observe_runtime started step" where
  "start_observe io cd common =
     step_bind (ready_step io common) (\<lambda>ready.
     step_bind (leaving (close_ready ready) (
       step_bind (sampling_step io common) (\<lambda>config w.
       (let watch = parent_watch_of io (co_on_parent_exit common) w in
        step_bind (launch_step io cd common (observe_configuration common watch) False
          (prepare_observe_worker io common)) (\<lambda>launched.
        step_return (observe_started common config watch launched))) w)))
     (notify ready))"

section \<open>The start of an enforcing run\<close>

text \<open>The request identifiers drawn until one is not zero; \<open>None\<close> when the draws given run out.\<close>

fun draw_request_id :: "bytes option list \<Rightarrow> (unit + u64) option" where
  "draw_request_id [] = None"
| "draw_request_id (draw # draws) =
     (case draw of
        None \<Rightarrow> Some (Err ())
      | Some bs \<Rightarrow> (if be_u64 bs \<noteq> 0 then Some (Ok (be_u64 bs)) else draw_request_id draws))"

fun channel_error_text :: "checkpoint_channel_error \<Rightarrow> string" where
  "channel_error_text CreateFailed = ''checkpoint channel creation failed''"
| "channel_error_text ConfigureFailed = ''checkpoint channel configuration failed''"
| "channel_error_text WriteFailed = ''checkpoint request write failed''"
| "channel_error_text ReadFailed = ''checkpoint acknowledgement read failed''"
| "channel_error_text NegotiationFailed = ''checkpoint channel negotiation failed''"

text \<open>\<open>checkpoint_channel\<close>: the channel, the descriptor of the worker and the first request identifier.\<close>

definition channel_step :: "start_io \<Rightarrow> ((checkpoint_channel \<times> i32 \<times> u64) option) step" where
  "channel_step io =
     (let setup = (\<lambda>message. step_exit
        (result_refused (st_version io) SupervisorFailure message Early_SupervisorSetup)) in
      if \<not> st_urandom io then setup ''secure checkpoint nonce generation failed''
      else case st_nonce io of
        None \<Rightarrow> setup ''secure checkpoint nonce generation failed''
      | Some nonce \<Rightarrow>
          (case draw_request_id (st_request_ids io) of
             None \<Rightarrow> step_return None
           | Some (Inl _) \<Rightarrow> setup ''secure checkpoint request-id generation failed''
           | Some (Inr request_id) \<Rightarrow>
               (case st_pair io of
                  Inl err \<Rightarrow> setup (channel_error_text err)
                | Inr worker_fd \<Rightarrow> step_return (Some (channel_new (Nonce nonce), worker_fd, request_id)))))"

definition launch_banner :: "policy_config \<Rightarrow> string" where
  "launch_banner policy =
     ''mlx-guard: enforcing a '' @ show_word (pc_limit_bytes policy) @ ''-byte footprint limit; emergency KILL at ''
     @ show_word (pc_emergency_bytes policy) @ '' bytes, about 10% above the limit''"

definition policy_step :: "start_io \<Rightarrow> run_options \<Rightarrow> u64 \<Rightarrow> policy_machine step" where
  "policy_step io options request_id =
     (case enforce_with_initial_request_id (run_policy_config options) request_id of
        Inl _ \<Rightarrow> step_exit (result_failure (st_version io) InvalidConfiguration
          ''policy thresholds or durations are invalid'')
      | Inr policy \<Rightarrow> step_return policy)"

definition hello_step :: "start_io \<Rightarrow> checkpoint_channel \<Rightarrow> checkpoint_channel step" where
  "hello_step io channel =
     (case begin_negotiation (st_hello io) channel of
        (_, Inl err) \<Rightarrow> step_exit (result_failure (st_version io) SupervisorFailure (channel_error_text err))
      | (channel, Inr _) \<Rightarrow> step_return channel)"

text \<open>The actuator inspects the root again when it is built.\<close>

definition actuator_for ::
    "start_io \<Rightarrow> signal_number \<Rightarrow> checkpoint_channel \<Rightarrow> prepared \<Rightarrow> process_actuator" where
  "actuator_for io signal channel worker =
     process_actuator_new
       (case st_actuator_root io of Inl _ \<Rightarrow> None | Inr observation \<Rightarrow> Some (po_identity observation))
       (op_process_group (pr_process worker))
       (map_option (\<lambda>endpoint. \<lparr>cb_channel = channel, cb_endpoint = endpoint, cb_signal = signal\<rparr>)
          (pr_endpoint worker))"

text \<open>\<open>SIGUSR1\<close> is the argument \<open>signal\<close>.\<close>

definition run_started ::
    "start_io \<Rightarrow> signal_number \<Rightarrow> run_options \<Rightarrow> sampling_config \<Rightarrow> policy_machine \<Rightarrow> checkpoint_channel
     \<Rightarrow> parent_watch_state \<Rightarrow> run_journal \<times> terminal_signal_monitor \<times> prepared \<Rightarrow> run_runtime started" where
  "run_started io signal options config policy channel watch = (\<lambda>(rj, monitor, worker).
     \<lparr>sd_runtime = run_start options config policy (pr_tracker worker)
        (op_root_outcome (pr_process worker)) (actuator_for io signal channel worker) watch,
      sd_journal = rj, sd_monitor = monitor, sd_process = pr_process worker\<rparr>)"

definition banner_step :: "string \<Rightarrow> unit step" where
  "banner_step banner w = (w, [Banner_Printed banner], Ok ())"

text \<open>\<open>None\<close> is the loop over zero request identifiers going on.\<close>

definition start_run ::
    "start_io \<Rightarrow> 'e codec \<Rightarrow> signal_number \<Rightarrow> run_options \<Rightarrow> (run_runtime started option) step" where
  "start_run io cd signal options =
     (let common = ro_common options in
      step_bind (ready_step io common) (\<lambda>ready.
      step_bind (leaving (close_ready ready) (
        step_bind (channel_step io) (\<lambda>drawn. case drawn of
          None \<Rightarrow> step_return None
        | Some (channel, worker_fd, request_id) \<Rightarrow>
            step_bind (policy_step io options request_id) (\<lambda>policy.
            step_bind (hello_step io channel) (\<lambda>channel.
            step_bind (sampling_step io common) (\<lambda>config w.
            (let watch = parent_watch_of io (co_on_parent_exit common) w in
             step_bind (launch_step io cd common (run_configuration options watch) True
               (prepare_run_worker io common worker_fd)) (\<lambda>launched.
             step_bind (banner_step (launch_banner (run_policy_config options))) (\<lambda>_.
             step_return (Some (run_started io signal options config policy channel watch launched))))) w))))))
      (notify ready)))"

section \<open>The end of a supervised run\<close>

text \<open>\<open>finish_journal\<close> with the report on disk and the printed lines.\<close>

definition finish_result ::
    "string \<Rightarrow> 'e codec \<Rightarrow> finalize_io \<Rightarrow> journal_files \<Rightarrow> directory
     \<Rightarrow> secure_journal resilient_journal \<Rightarrow> supervisor_outcome \<Rightarrow> string option
     \<Rightarrow> directory list \<times> runtime_result" where
  "finish_result version cd io jf d rj outcome diagnostic =
     (case rj_journal rj of
        None \<Rightarrow>
          ([], \<lparr>res_outcome = PartialArtifactFailure, res_stdout = [],
               res_stderr = (case stderr_notice rj of
                   None \<Rightarrow> ''mlx-guard: artifact persistence failed'' | Some notice \<Rightarrow> notice) @ [newline]
                 @ stderr_lines (explain_early version (Early_Storage
                     (case rj_failure rj of None \<Rightarrow> Class_Unknown | Some kind \<Rightarrow> storage_class_from kind)
                     AfterLaunch))\<rparr>)
      | Some j \<Rightarrow>
          (case finalize_artifacts (cd_from_slice cd) (cd_to_string cd) io (jf\<lparr>jf_journal := j\<rparr>) d of
             (ds, Inl kind) \<Rightarrow>
               (ds, result_refused version PartialArtifactFailure (storage_error_text kind)
                 (Early_Storage (storage_class_from kind) AfterLaunch))
           | (ds, Inr (report, summary)) \<Rightarrow> (ds, finished outcome report summary diagnostic True)))"

text \<open>The drop of the process of an observing run, which may have been relinquished.\<close>

definition observed_process :: "observe_final \<Rightarrow> owned_process \<Rightarrow> owned_process" where
  "observed_process f p = (if ob_relinquish f then relinquish p else p)"

end
