(* ===== verification/Program.thy ===== *)
theory Program
  imports Launch
begin

text \<open>
  The program as a whole: \<open>execute\<close> of \<^verbatim>\<open>mlx-guard-cli/src/runtime.rs\<close>, which starts a run, supervises it
  and ends it, and \<^verbatim>\<open>mlx-guard-cli/src/main.rs\<close> around it, with the errors of the command line from
  \<^verbatim>\<open>mlx-guard-cli/src/lib.rs\<close>. The inputs of the supervision loop are arguments; \<open>None\<close> stands for a
  loop that has not returned within them.
\<close>

section \<open>Supervision\<close>

datatype program_effect =
    Startup start_effect
  | Observing observe_effect
  | Enforcing run_effect

text \<open>The inputs of the two loops, and the time the run ends at.\<close>

record loop_io =
  lp_observe :: "observe_input list"
  lp_env :: run_env
  lp_enforce :: "loop_input list"
  lp_ended :: dur

type_synonym execution = "world \<times> program_effect list \<times> runtime_result"

text \<open>
  The end that both runs share: the journal is finalized, then the fields of the run are dropped in
  their order, the process before the handlers.
\<close>

definition conclude ::
    "start_io \<Rightarrow> 'e codec \<Rightarrow> 'r started \<Rightarrow> owned_process \<Rightarrow> run_effect list \<Rightarrow> supervisor_outcome
     \<Rightarrow> string option \<Rightarrow> world \<Rightarrow> execution" where
  "conclude io cd sd process fx outcome diagnostic w =
     (let (jf, sequence) = sd_journal sd;
          (rj, _) = journal_effects (appender_of io cd) (resilient_new (jf_journal jf), sequence) fx;
          (ds, res) = finish_result (st_version io) cd (st_finalize io) jf (w_directory w) rj outcome diagnostic
      in (\<lparr>w_directory = last (w_directory w # ds),
           w_signals = drop_monitor (st_restore io) (sd_monitor sd) (w_signals w)\<rparr>,
          map Startup (Report_Written ds # map Processes (drop_process process) @ [Handlers_Dropped]), res))"

definition supervise_observe ::
    "start_io \<Rightarrow> 'e codec \<Rightarrow> loop_io \<Rightarrow> observe_runtime started \<Rightarrow> world \<Rightarrow> execution option" where
  "supervise_observe io cd lp sd w =
     (case run_observed (sd_runtime sd) (lp_observe lp) (lp_ended lp) of
        None \<Rightarrow> None
      | Some (_, fx, f, _) \<Rightarrow>
          (case conclude io cd sd (observed_process f (sd_process sd)) (logged fx) (ob_outcome f)
                  (ob_diagnostic f) w of
             (w, gx, res) \<Rightarrow> Some (w, map Observing fx @ gx, res)))"

definition supervise_run ::
    "start_io \<Rightarrow> 'e codec \<Rightarrow> loop_io \<Rightarrow> run_runtime started \<Rightarrow> world \<Rightarrow> execution option" where
  "supervise_run io cd lp sd w =
     (case run_supervised (lp_env lp) (sd_runtime sd) (lp_enforce lp) (lp_ended lp) of
        None \<Rightarrow> None
      | Some (_, fx, e) \<Rightarrow>
          (case conclude io cd sd (sd_process sd) fx (re_outcome e) (re_diagnostic e) w of
             (w, gx, res) \<Rightarrow> Some (w, map Enforcing fx @ gx, res)))"

text \<open>A start that went on is supervised; one that did not is the whole execution.\<close>

definition after_start ::
    "world \<times> start_effect list \<times> (runtime_result + 'a) \<Rightarrow> ('a \<Rightarrow> world \<Rightarrow> execution option)
     \<Rightarrow> execution option" where
  "after_start s supervise =
     (case s of
        (w, fx, Inl res) \<Rightarrow> Some (w, map Startup fx, res)
      | (w, fx, Inr x) \<Rightarrow> map_option (\<lambda>(w, gx, res). (w, map Startup fx @ gx, res)) (supervise x w))"

definition execute_observe ::
    "start_io \<Rightarrow> 'e codec \<Rightarrow> loop_io \<Rightarrow> common_options \<Rightarrow> world \<Rightarrow> execution option" where
  "execute_observe io cd lp common w =
     after_start (start_observe io cd common w) (supervise_observe io cd lp)"

definition execute_run ::
    "start_io \<Rightarrow> 'e codec \<Rightarrow> signal_number \<Rightarrow> loop_io \<Rightarrow> run_options \<Rightarrow> world \<Rightarrow> execution option" where
  "execute_run io cd signal lp options w =
     after_start (start_run io cd signal options w) (\<lambda>started w.
       case started of None \<Rightarrow> None | Some sd \<Rightarrow> supervise_run io cd lp sd w)"

definition execute_cli ::
    "start_io \<Rightarrow> 'e codec \<Rightarrow> signal_number \<Rightarrow> loop_io \<Rightarrow> command_mode \<Rightarrow> world \<Rightarrow> execution option" where
  "execute_cli io cd signal lp mode w =
     (if \<not> st_supported io
      then Some (w, [], result_refused (st_version io) SupervisorFailure
             ''OS-accounted footprint observation is unsupported on this platform'' Early_UnsupportedPlatform)
      else case mode of
        Mode_Observe common \<Rightarrow> execute_observe io cd lp common w
      | Mode_Run options \<Rightarrow> execute_run io cd signal lp options w)"

section \<open>Errors of the command line\<close>

definition REPORTABLE_FLAGS :: "string list" where
  "REPORTABLE_FLAGS =
     [''--max-footprint'', ''--wall-time'', ''--checkpoint-timeout'', ''--sample-interval'', ''--report'',
      ''--cwd'', ''--clear-env'', ''--env'', ''--on-parent-exit'', ''--client-ready-fd'', ''<COMMAND>'']"

text \<open>What the parser library says of an error: its text, its kind, and the argument it is about.\<close>

datatype clap_kind =
    Clap_DisplayHelp
  | Clap_DisplayVersion
  | Clap_InvalidValue
  | Clap_ValueValidation
  | Clap_MissingRequiredArgument
  | Clap_Other

datatype context_value = Ctx_String string | Ctx_Strings "string list" | Ctx_Other

record clap_error =
  ca_text :: string
  ca_kind :: clap_kind
  ca_invalid_arg :: "context_value option"

text \<open>The first word of an ASCII text.\<close>

definition ascii_whitespace :: "char \<Rightarrow> bool" where
  "ascii_whitespace c \<longleftrightarrow> c \<in> {CHR '' '', CHR 0x09, CHR 0x0A, CHR 0x0B, CHR 0x0C, CHR 0x0D}"

definition first_word :: "string \<Rightarrow> string option" where
  "first_word s =
     (case dropWhile ascii_whitespace s of
        [] \<Rightarrow> None | rest \<Rightarrow> Some (takeWhile (\<lambda>c. \<not> ascii_whitespace c) rest))"

definition strip_dots :: "string \<Rightarrow> string" where
  "strip_dots token =
     (if 3 \<le> length token \<and> drop (length token - 3) token = ''...''
      then take (length token - 3) token else token)"

definition clap_flag :: "clap_error \<Rightarrow> string option" where
  "clap_flag err =
     (if ca_kind err \<notin> {Clap_InvalidValue, Clap_ValueValidation, Clap_MissingRequiredArgument} then None
      else case (case ca_invalid_arg err of
          Some (Ctx_String s) \<Rightarrow> first_word s
        | Some (Ctx_Strings [s]) \<Rightarrow> first_word s
        | _ \<Rightarrow> None) of
        None \<Rightarrow> None
      | Some token \<Rightarrow> find (\<lambda>flag. flag = strip_dots token) REPORTABLE_FLAGS)"

definition from_clap :: "clap_error \<Rightarrow> cli_parse_error" where
  "from_clap err =
    \<lparr>ce_message = Message (ca_text err),
     ce_display_only = ca_kind err \<in> {Clap_DisplayHelp, Clap_DisplayVersion}, ce_flag = clap_flag err\<rparr>"

text \<open>The whole \<open>parse_cli\<close> on what the parser library returned.\<close>

definition parse_arguments :: "clap_error + raw_command \<Rightarrow> cli_parse_error + command_mode" where
  "parse_arguments parsed =
     (case parsed of Inl err \<Rightarrow> Err (from_clap err) | Inr raw \<Rightarrow> parse_cli raw)"

section \<open>The process\<close>

text \<open>\<open>quoted\<close> is the debug form of a string.\<close>

fun error_message :: "(string \<Rightarrow> string) \<Rightarrow> error_text \<Rightarrow> string" where
  "error_message quoted (Message s) = s"
| "error_message quoted (DuplicateEnvKey key) = ''duplicate --env key '' @ quoted key"

text \<open>What the process leaves: its output, what it printed as errors, and its status.\<close>

record process_exit =
  px_stdout :: string
  px_stderr :: string
  px_status :: u8

definition ExitSuccess :: u8 where "ExitSuccess = 0"

definition rejected :: "(string \<Rightarrow> string) \<Rightarrow> string \<Rightarrow> cli_parse_error \<Rightarrow> process_exit" where
  "rejected quoted version err =
     (let message = error_message quoted (ce_message err) in
      if ce_display_only err then \<lparr>px_stdout = message, px_stderr = [], px_status = ExitSuccess\<rparr>
      else \<lparr>px_stdout = [],
            px_stderr = message @ (if message \<noteq> [] \<and> last message = newline then [] else [newline])
              @ stderr_lines (explain_early version (Early_CommandLine (ce_flag err))),
            px_status = exit_code InvalidConfiguration\<rparr>)"

text \<open>
  The output of a result whose readers are there; what \<open>write_summary\<close> does when one
  has gone away or a write fails is in \<^verbatim>\<open>Stdio\<close>. The lines printed while the run starts are
  effects.
\<close>

definition main ::
    "(string \<Rightarrow> string) \<Rightarrow> start_io \<Rightarrow> 'e codec \<Rightarrow> signal_number \<Rightarrow> loop_io \<Rightarrow> clap_error + raw_command
     \<Rightarrow> world \<Rightarrow> (world \<times> program_effect list \<times> process_exit) option" where
  "main quoted io cd signal lp arguments w =
     (case parse_arguments arguments of
        Inl err \<Rightarrow> Some (w, [], rejected quoted (st_version io) err)
      | Inr mode \<Rightarrow>
          map_option (\<lambda>(w, fx, res).
            (w, fx, \<lparr>px_stdout = res_stdout res, px_stderr = res_stderr res,
                     px_status = exit_code (res_outcome res)\<rparr>))
            (execute_cli io cd signal lp mode w))"

end
