(* ===== verification/Launch_Props.thy ===== *)
theory Launch_Props
  imports Launch Host_Props Storage_Props Explain_Props
begin

text \<open>
  What the start of a run guarantees: nothing is launched before the journal and the signal handlers
  stand, a start that fails leaves no process behind, and what it reports is what happened.
\<close>

section \<open>Steps\<close>

lemma step_bind_Err:
  "step_bind m f w = (w', fx, Err r) \<longleftrightarrow> m w = (w', fx, Err r)
     \<or> (\<exists>w1 fx1 x fx2. m w = (w1, fx1, Ok x) \<and> f x w1 = (w', fx2, Err r) \<and> fx = fx1 @ fx2)"
  by (cases "m w") (auto simp: step_bind_def split: sum.splits prod.splits)

lemma step_bind_Ok:
  "step_bind m f w = (w', fx, Ok y) \<longleftrightarrow>
     (\<exists>w1 fx1 x fx2. m w = (w1, fx1, Ok x) \<and> f x w1 = (w', fx2, Ok y) \<and> fx = fx1 @ fx2)"
  by (cases "m w") (auto simp: step_bind_def split: sum.splits prod.splits)

lemma leaving_eq:
  "leaving release m w = (w', fx, Ok y) \<longleftrightarrow> m w = (w', fx, Ok y)"
  "leaving release m w = (w', fx, Err r) \<longleftrightarrow>
     (\<exists>w1 fx1 fx2. m w = (w1, fx1, Err r) \<and> release w1 = (w', fx2) \<and> fx = fx1 @ fx2)"
  by (cases "m w"; auto simp: leaving_def split: sum.splits prod.splits)+

lemmas step_simps = step_bind_Err step_bind_Ok leaving_eq

lemma plain_steps [simp]:
  "step_return x w = (w', fx, res) \<longleftrightarrow> w' = w \<and> fx = [] \<and> res = Ok x"
  "step_exit r w = (w', fx, res) \<longleftrightarrow> w' = w \<and> fx = [] \<and> res = Err r"
  by (auto simp: step_return_def step_exit_def)

lemma banner_then_return [simp]:
  "step_bind (banner_step b) (\<lambda>_. step_return x) w = (w', fx, res) \<longleftrightarrow>
     w' = w \<and> fx = [Banner_Printed b] \<and> res = Ok x"
  by (auto simp: step_bind_def banner_step_def step_return_def)

section \<open>The order of the start\<close>

lemma finalized_without_worker:
  assumes "finalize_without_worker io cd rj failure w = (w', fx, res)"
  shows "(\<exists>r. res = Err r) \<and> (fx = [] \<or> (\<exists>ds. fx = [Report_Written ds])) \<and> w_signals w' = w_signals w"
  using assms by (auto simp: finalize_without_worker_def Let_def split: prod.splits sum.splits)

lemma begin_journal_effects:
  assumes "begin_journal io cd common conf available w = (w', fx, res)"
  shows "case res of Inl r \<Rightarrow> fx = [] | Inr rj \<Rightarrow> fx = [Header_Written]"
  using assms by (auto simp: begin_journal_def Let_def split: if_splits sum.splits prod.splits)

lemma install_step_effects:
  assumes "install_step io cd rj w = (w', fx, res)"
  shows "case res of Inl r \<Rightarrow> fx = [] \<or> (\<exists>ds. fx = [Report_Written ds]) | Inr m \<Rightarrow> fx = [Handlers_Installed]"
  using assms finalized_without_worker [of io cd rj]
  by (auto simp: install_step_def split: sum.splits prod.splits) fastforce+

lemma start_worker_effects:
  assumes "start_worker io cd rj worker w = (w', fx, res)"
  shows "case res of
      Inl r \<Rightarrow> (\<exists>failure. snd worker = Err failure) \<and> (fx = fst worker \<or> (\<exists>ds. fx = fst worker @ [Report_Written ds]))
    | Inr p \<Rightarrow> fx = fst worker \<and> snd worker = Ok p"
  using assms finalized_without_worker [of io cd rj]
  by (auto simp: start_worker_def split: sum.splits prod.splits) fastforce+

text \<open>The effects of the shared part, which also decide whether it went on.\<close>

definition launching :: "start_effect list \<times> (launch_failure + prepared) \<Rightarrow> start_effect list \<Rightarrow> bool \<Rightarrow> bool" where
  "launching worker fx ok \<longleftrightarrow>
     (if ok then fx = Header_Written # Handlers_Installed # fst worker \<and> \<not> isl (snd worker)
      else \<exists>report. (report = [] \<or> (\<exists>ds. report = [Report_Written ds]))
        \<and> (fx = [] \<or> fx = Header_Written # report
           \<or> fx = Header_Written # Handlers_Installed # fst worker @ report @ [Handlers_Dropped] \<and> isl (snd worker)))"

lemma launch_step_effects:
  assumes "launch_step io cd common conf available worker w = (w', fx, res)"
  shows "launching worker fx (\<not> isl res)
    \<and> (\<forall>rj m p. res = Ok (rj, m, p) \<longrightarrow> snd worker = Ok p)"
proof (cases res)
  case (Inl r)
  from assms [unfolded Inl] Inl show ?thesis
    unfolding launch_step_def step_simps
    by (auto simp: launching_def drop_handlers_def dest!: begin_journal_effects install_step_effects start_worker_effects)
      blast+
next
  case (Inr x)
  from assms [unfolded Inr] Inr show ?thesis
    unfolding launch_step_def step_simps
    by (auto simp: launching_def dest!: begin_journal_effects install_step_effects start_worker_effects)
qed

text \<open>The worker's own part: only process effects and the notice about standard input.\<close>

definition processes :: "start_effect list \<Rightarrow> process_effect list" where
  "processes = List.map_filter (\<lambda>x. case x of Processes p \<Rightarrow> Some p | _ \<Rightarrow> None)"

lemma processes_simps [simp]:
  "processes [] = []" "processes (fx @ gx) = processes fx @ processes gx"
  "processes (Processes p # fx) = p # processes fx" "processes (Header_Written # fx) = processes fx"
  "processes (Handlers_Installed # fx) = processes fx" "processes (Handlers_Dropped # fx) = processes fx"
  "processes (Standard_Input_Replaced # fx) = processes fx" "processes (Banner_Printed b # fx) = processes fx"
  "processes (Report_Written ds # fx) = processes fx" "processes (Readiness_Closed fd # fx) = processes fx"
  by (simp_all add: processes_def List.map_filter_def)

lemma processes_map [simp]: "processes (map Processes ps) = ps"
  by (induction ps) simp_all

lemma processes_closed [simp]: "processes (map Readiness_Closed fds) = []"
  by (induction fds) simp_all

lemma processes_announced [simp]: "processes (announce_stdin p) = []"
  by (simp add: announce_stdin_def)

definition worker_effects :: "start_effect list \<Rightarrow> bool" where
  "worker_effects fx \<longleftrightarrow> (\<forall>x\<in>set fx. x = Standard_Input_Replaced \<or> (\<exists>p. x = Processes p))"

lemma prepared_worker:
  assumes "prepare_worker io common checkpoint last_step = (fx, res)" and "real_pids (st_launch io)"
  shows "case res of
      Inl failure \<Rightarrow> child_gone (st_launch io) (processes fx)
    | Inr p \<Rightarrow> child_owned (st_launch io) (processes fx) (pr_process p)"
proof -
  obtain ps launched where launch: "launch_inner (st_launch io) (launch_options_of common) checkpoint = (ps, launched)"
    by force
  note child = launched_child [OF launch assms(2)]
  show ?thesis
  proof (cases launched)
    case (Inl kind)
    with child assms(1) show ?thesis by (auto simp: prepare_worker_def launch)
  next
    case (Inr p)
    then have p: "child_owned (st_launch io) ps p" using child by simp
    then obtain request child where ps: "ps = [Spawned request]" "la_spawn (st_launch io) request = Ok child"
      "drop_process p = [Group_Signalled (uint child) SIGKILL, Child_Waited]"
      by (auto simp: child_owned_def drop_process_def)
    then have gone: "child_gone (st_launch io) (ps @ drop_process p)" by (auto simp: child_gone_def)
    obtain gx bound where b: "bind_worker io last_step p = (gx, bound)" by force
    then have "case bound of Inl _ \<Rightarrow> processes gx = drop_process p | Inr q \<Rightarrow> gx = [] \<and> pr_process q = p"
      by (auto simp: bind_worker_def Let_def split: option.splits sum.splits)
    with assms(1) Inr launch b p gone show ?thesis
      by (auto simp: prepare_worker_def split: sum.splits)
  qed
qed

lemma worker_only:
  assumes "prepare_worker io common checkpoint last_step = (fx, res)"
  shows "worker_effects fx"
proof -
  have bind: "\<exists>p. x = Processes p" if "x \<in> set gx" "bind_worker io last_step p = (gx, bound)" for x p gx bound
    using that by (auto simp: bind_worker_def Let_def split: option.splits sum.splits)
  show ?thesis using assms
    by (auto simp: prepare_worker_def worker_effects_def announce_stdin_def split: prod.splits sum.splits if_splits)
      (use bind in blast)+
qed

text \<open>A record of the start is orderly: a command is spawned and announced only after the header is in the
  journal and the handlers stand, and the readiness descriptor is closed once, as the final effect.\<close>

definition orderly :: "start_effect list \<Rightarrow> bool" where
  "orderly fx \<longleftrightarrow>
     (processes fx \<noteq> [] \<or> Handlers_Installed \<in> set fx \<or> (\<exists>b. Banner_Printed b \<in> set fx)
        \<longrightarrow> (\<exists>rest. fx = Header_Written # Handlers_Installed # rest \<and> Header_Written \<notin> set rest))
   \<and> (\<forall>fd. Readiness_Closed fd \<in> set fx \<longrightarrow> (\<exists>before. fx = before @ [Readiness_Closed fd]
        \<and> (\<forall>fd'. Readiness_Closed fd' \<notin> set before)))"

lemma launching_orderly:
  assumes "launching worker fx ok" and "worker_effects (fst worker)"
    and "\<forall>x\<in>set tail. \<exists>b. x = Banner_Printed b" and "tail \<noteq> [] \<longrightarrow> ok"
  shows "orderly (fx @ tail @ map Readiness_Closed (snd (client_ready_close ready)))"
proof -
  have w: "x \<in> set (fst worker) \<Longrightarrow> x = Standard_Input_Replaced \<or> (\<exists>p. x = Processes p)" for x
    using assms(2) by (simp add: worker_effects_def)
  have tail: "x \<in> set tail \<Longrightarrow> \<exists>b. x = Banner_Printed b" for x using assms(3) by blast
  have "processes tail = []" using assms(3) by (induction tail) auto
  with assms(1,4) show ?thesis
    by (cases ready; cases ok)
      (auto simp: orderly_def launching_def client_ready_close_def dest!: w tail)
qed

text \<open>What every end of a step satisfies, given the world before and after, the effects and the result.\<close>

definition yields ::
    "(world \<Rightarrow> world \<Rightarrow> start_effect list \<Rightarrow> runtime_result + 'a \<Rightarrow> bool) \<Rightarrow> 'a step \<Rightarrow> bool" where
  "yields P m \<longleftrightarrow> (\<forall>w. P w (fst (m w)) (fst (snd (m w))) (snd (snd (m w))))"

lemma yieldsD: "yields P m \<Longrightarrow> m w = (w', fx, res) \<Longrightarrow> P w w' fx res"
  unfolding yields_def by (metis fst_conv snd_conv)

lemma yieldsI: "(\<And>w w' fx res. m w = (w', fx, res) \<Longrightarrow> P w w' fx res) \<Longrightarrow> yields P m"
  unfolding yields_def by (metis surjective_pairing)

lemma yields_return: "(\<And>w. P w w [] (Ok x)) \<Longrightarrow> yields P (step_return x)"
  by (simp add: yields_def step_return_def)

lemma yields_watch: "(\<And>watch. yields P (f watch)) \<Longrightarrow> yields P (\<lambda>w. (let watch = g w in f watch) w)"
  by (simp add: yields_def Let_def)

lemma yields_bind:
  assumes "yields P m" and "\<And>w w' fx r. P w w' fx (Err r) \<Longrightarrow> Q w w' fx (Err r)"
    and "\<And>w w1 fx x w' gx res. P w w1 fx (Ok x) \<Longrightarrow> f x w1 = (w', gx, res) \<Longrightarrow> Q w w' (fx @ gx) res"
  shows "yields Q (step_bind m f)"
proof (rule yieldsI)
  fix w w' fx res
  assume run: "step_bind m f w = (w', fx, res)"
  obtain w1 gx first where m: "m w = (w1, gx, first)" using prod_cases3 by blast
  note P = yieldsD [OF assms(1) m]
  show "Q w w' fx res"
  proof (cases first)
    case (Inl r)
    with run m P assms(2) show ?thesis by (auto simp: step_bind_def)
  next
    case (Inr x)
    obtain w2 hx res2 where f: "f x w1 = (w2, hx, res2)" using prod_cases3 by blast
    from assms(3) [OF P [unfolded Inr] f] run m Inr f show ?thesis by (auto simp: step_bind_def)
  qed
qed

text \<open>The steps of a start before the shared part change nothing.\<close>

abbreviation quiet :: "'a step \<Rightarrow> bool" where
  "quiet \<equiv> yields (\<lambda>w w' fx _. w' = w \<and> fx = [])"

lemma yields_quiet_bind:
  assumes "quiet m" and "\<And>x. yields P (f x)" and "\<And>w r. P w w [] (Err r)"
  shows "yields P (step_bind m f)"
  by (rule yields_bind [OF assms(1)]) (use assms(2,3) in \<open>auto dest: yieldsD\<close>)

lemma early_steps:
  "quiet (ready_step io common)" "quiet (channel_step io)" "quiet (policy_step io options request_id)"
  "quiet (hello_step io channel)" "quiet (sampling_step io common)"
  by (auto simp: yields_def ready_step_def channel_step_def policy_step_def hello_step_def sampling_step_def
      Let_def step_exit_def step_return_def split: sum.splits prod.splits option.splits)

text \<open>The readiness descriptor is closed on every way out.\<close>

abbreviation closes :: "i32 option \<Rightarrow> start_effect list" where
  "closes ready \<equiv> map Readiness_Closed (snd (client_ready_close ready))"

lemma released_yields:
  assumes "yields P inner" and "\<And>w w' fx res ready. P w w' fx res \<Longrightarrow> Q w w' (fx @ closes ready) res"
    and "\<And>w r. Q w w [] (Err r)"
  shows "yields Q (step_bind (ready_step io common) (\<lambda>ready.
    step_bind (leaving (close_ready ready) inner) (notify ready)))"
proof (rule yields_quiet_bind [where P = Q, OF early_steps(1) _ assms(3)], rule yieldsI)
  fix ready w w' fx res
  assume run: "step_bind (leaving (close_ready ready) inner) (notify ready) w = (w', fx, res)"
  obtain w1 gx res1 where inner: "inner w = (w1, gx, res1)" using prod_cases3 by blast
  have "w' = w1 \<and> fx = gx @ closes ready \<and> res = res1"
    using run inner by (cases res1) (auto simp: step_bind_def leaving_def notify_def close_ready_def)
  with assms(2) [OF yieldsD [OF assms(1) inner]] show "Q w w' fx res" by simp
qed

text \<open>What holds of the part that both starts share, with what follows it, holds of both starts.\<close>

lemma start_observe_yields:
  assumes "\<And>config watch. yields P (step_bind (launch_step io cd common (observe_configuration common watch) False
      (prepare_observe_worker io common)) (\<lambda>launched. step_return (observe_started common config watch launched)))"
    and "\<And>w r. P w w [] (Err r)" and "\<And>w r. Q w w [] (Err r)"
    and "\<And>w w' fx res ready. P w w' fx res \<Longrightarrow> Q w w' (fx @ closes ready) res"
  shows "yields Q (start_observe io cd common)"
  unfolding start_observe_def
  by (rule released_yields [where P = P and Q = Q, OF _ assms(4,3)])
    (intro yields_quiet_bind [OF early_steps(5)] yields_watch assms(1,2))

lemma start_run_yields:
  assumes "\<And>config policy channel worker_fd watch. yields P
      (step_bind (launch_step io cd (ro_common options) (run_configuration options watch) True
        (prepare_run_worker io (ro_common options) worker_fd)) (\<lambda>launched.
      step_bind (banner_step (launch_banner (run_policy_config options))) (\<lambda>_.
      step_return (Some (run_started io signal options config policy channel watch launched)))))"
    and "\<And>w r. P w w [] (Err r)" and "\<And>w r. Q w w [] (Err r)" and "\<And>w. P w w [] (Ok None)"
    and "\<And>w w' fx res ready. P w w' fx res \<Longrightarrow> Q w w' (fx @ closes ready) res"
  shows "yields Q (start_run io cd signal options)"
proof -
  have none: "yields P (step_return None)" using assms(4) by (rule yields_return)
  show ?thesis
    unfolding start_run_def Let_def [of "ro_common options"]
    apply (rule released_yields [where P = P and Q = Q, OF _ _ assms(3)])
     prefer 2 apply (erule assms(5))
    apply (rule yields_quiet_bind [where P = P, OF early_steps(2) _ assms(2)])
    subgoal for drawn
      by (cases drawn; simp only: option.case none prod.case split_beta)
        (intro yields_quiet_bind [OF early_steps(3)] yields_quiet_bind [OF early_steps(4)]
          yields_quiet_bind [OF early_steps(5)] yields_watch assms(1,2))
    done
qed

text \<open>What both starts do between taking the readiness descriptor and closing it.\<close>

definition start_shape ::
    "(start_effect list \<times> (launch_failure + prepared)) set \<Rightarrow> (prepared option \<Rightarrow> 'a \<Rightarrow> bool)
     \<Rightarrow> start_effect list \<Rightarrow> runtime_result + 'a \<Rightarrow> bool" where
  "start_shape workers gives fx res \<longleftrightarrow>
     fx = [] \<and> (\<forall>y. res = Ok y \<longrightarrow> gives None y)
   \<or> (\<exists>worker gx tail. worker \<in> workers \<and> fx = gx @ tail \<and> launching worker gx (\<not> isl res)
       \<and> (tail = [] \<or> (\<exists>b. tail = [Banner_Printed b]) \<and> \<not> isl res)
       \<and> (\<forall>y. res = Ok y \<longrightarrow> (\<exists>p. snd worker = Ok p \<and> gives (Some p) y)))"

lemma start_shapeE:
  assumes "start_shape workers gives fx res"
  obtains (quiet) "fx = []" "\<forall>y. res = Ok y \<longrightarrow> gives None y"
  | (worker) worker gx tail where "worker \<in> workers" "fx = gx @ tail" "launching worker gx (\<not> isl res)"
      "tail = [] \<or> (\<exists>b. tail = [Banner_Printed b]) \<and> \<not> isl res"
      "\<forall>y. res = Ok y \<longrightarrow> (\<exists>p. snd worker = Ok p \<and> gives (Some p) y)"
  using assms unfolding start_shape_def by metis

lemma launch_step_shape:
  assumes "worker \<in> workers"
    and f: "\<And>rj m p w w' gx res. f (rj, m, p) w = (w', gx, res) \<Longrightarrow>
      (gx = [] \<or> (\<exists>b. gx = [Banner_Printed b])) \<and> (\<exists>y. res = Ok y \<and> gives (Some p) y)"
  shows "yields (\<lambda>_ _. start_shape workers gives)
    (step_bind (launch_step io cd common conf available worker) f)"
proof (rule yields_bind)
  show "yields (\<lambda>_ _ fx res. launching worker fx (\<not> isl res) \<and> (\<forall>rj m p. res = Ok (rj, m, p) \<longrightarrow> snd worker = Ok p))
      (launch_step io cd common conf available worker)"
    by (rule yieldsI) (rule launch_step_effects)
next
  fix fx and r :: runtime_result
  assume "launching worker fx (\<not> isl (Err r :: runtime_result + run_journal \<times> terminal_signal_monitor \<times> prepared))
    \<and> (\<forall>rj m p. (Err r :: runtime_result + run_journal \<times> terminal_signal_monitor \<times> prepared) = Ok (rj, m, p)
      \<longrightarrow> snd worker = Ok p)"
  with assms(1) show "start_shape workers gives fx (Err r)"
    unfolding start_shape_def by (intro disjI2 exI [of _ worker] exI [of _ fx] exI [of _ "[]"]) simp
next
  fix w1 fx w' gx res and x :: "run_journal \<times> terminal_signal_monitor \<times> prepared"
  assume shape: "launching worker fx (\<not> isl (Ok x :: runtime_result + run_journal \<times> terminal_signal_monitor \<times> prepared))
      \<and> (\<forall>rj m p. (Ok x :: runtime_result + run_journal \<times> terminal_signal_monitor \<times> prepared) = Ok (rj, m, p)
        \<longrightarrow> snd worker = Ok p)"
    and run: "f x w1 = (w', gx, res)"
  obtain rj m p where x: "x = (rj, m, p)" using prod_cases3 by blast
  from f [OF run [unfolded x]] shape x assms(1) show "start_shape workers gives (fx @ gx) res"
    unfolding start_shape_def by (intro disjI2 exI [of _ worker] exI [of _ fx] exI [of _ gx]) auto
qed

text \<open>A whole start: nothing, or what it does until it closes the descriptor.\<close>

definition whole_shape ::
    "(start_effect list \<times> (launch_failure + prepared)) set \<Rightarrow> (prepared option \<Rightarrow> 'a \<Rightarrow> bool)
     \<Rightarrow> start_effect list \<Rightarrow> runtime_result + 'a \<Rightarrow> bool" where
  "whole_shape workers gives fx res \<longleftrightarrow>
     fx = [] \<and> isl res \<or> (\<exists>gx ready. fx = gx @ closes ready \<and> start_shape workers gives gx res)"

lemma whole_shapes:
  "whole_shape workers gives [] (Err r)"
  "start_shape workers gives gx res \<Longrightarrow> whole_shape workers gives (gx @ closes ready) res"
  by (auto simp: whole_shape_def)

lemma start_observe_shape:
  assumes "start_observe io cd common w = (w', fx, res)"
  shows "whole_shape {prepare_observe_worker io common}
    (\<lambda>worker sd. map_option pr_process worker = Some (sd_process sd)) fx res"
    (is "whole_shape ?W ?G _ _")
  by (rule yieldsD [where P = "\<lambda>_ _. whole_shape ?W ?G" and m = "start_observe io cd common", OF _ assms],
      rule start_observe_yields [where P = "\<lambda>_ _. start_shape ?W ?G"])
    (auto simp: whole_shapes start_shape_def [of _ _ "[]"] observe_started_def intro!: launch_step_shape)

lemma start_run_shape:
  assumes "start_run io cd signal options w = (w', fx, res)"
  shows "whole_shape (range (prepare_run_worker io (ro_common options)))
    (\<lambda>worker sd. map_option pr_process worker = map_option sd_process sd) fx res"
    (is "whole_shape ?W ?G _ _")
  by (rule yieldsD [where P = "\<lambda>_ _. whole_shape ?W ?G" and m = "start_run io cd signal options", OF _ assms],
      rule start_run_yields [where P = "\<lambda>_ _. start_shape ?W ?G"])
    (auto simp: whole_shapes start_shape_def [of _ _ "[]"] run_started_def
    intro!: launch_step_shape)

lemma worker_effects_prepared:
  "worker_effects (fst (prepare_worker io common checkpoint last_step))"
  by (rule worker_only) (rule surjective_pairing)

lemma start_shape_orderly:
  assumes "start_shape workers gives gx res" and "\<forall>worker\<in>workers. worker_effects (fst worker)"
  shows "orderly (gx @ map Readiness_Closed (snd (client_ready_close ready)))"
  using assms(1)
proof (cases rule: start_shapeE)
  case quiet
  then show ?thesis by (cases ready) (auto simp: orderly_def client_ready_close_def)
next
  case (worker worker fx tail)
  with assms(2) launching_orderly [of worker fx "\<not> isl res" tail ready] show ?thesis by auto
qed

lemma whole_shape_orderly:
  assumes "whole_shape workers gives fx res" and "\<forall>worker\<in>workers. worker_effects (fst worker)"
  shows "orderly fx"
  using assms start_shape_orderly by (auto simp: whole_shape_def orderly_def [of "[]"])

lemma surjective_triple: "x = (fst x, fst (snd x), snd (snd x))"
  by simp

text \<open>C6. Nothing runs unrecorded. Whatever fails during the start of an observing or an enforcing run, if the
  command was spawned, or its launch announced, then before that the header of the run was written to
  the journal and synchronized and the handlers of the terminal signals were installed, and nothing
  else had been done; and the readiness descriptor of the client is closed once at most, when
  everything else is done.\<close>

theorem nothing_runs_unrecorded:
  "orderly (fst (snd (start_observe io cd common w)))
   \<and> orderly (fst (snd (start_run io cd signal options w)))"
proof
  show "orderly (fst (snd (start_observe io cd common w)))"
    by (rule whole_shape_orderly [OF start_observe_shape [OF surjective_triple]])
      (simp add: worker_effects_prepared prepare_observe_worker_def)
  show "orderly (fst (snd (start_run io cd signal options w)))"
    by (rule whole_shape_orderly [OF start_run_shape [OF surjective_triple]])
      (simp add: worker_effects_prepared prepare_run_worker_def)
qed

lemma start_shape_child:
  assumes "start_shape workers gives gx res"
    and "\<forall>worker\<in>workers. \<exists>checkpoint last_step. worker = prepare_worker io common checkpoint last_step"
    and "real_pids (st_launch io)"
  shows "case res of
      Inl _ \<Rightarrow> child_gone (st_launch io) (processes gx)
    | Inr y \<Rightarrow> gives None y \<and> processes gx = []
        \<or> (\<exists>p. gives (Some p) y \<and> child_owned (st_launch io) (processes gx) (pr_process p))"
  using assms(1)
proof (cases rule: start_shapeE)
  case quiet
  then show ?thesis by (auto simp: child_gone_def split: sum.splits)
next
  case (worker worker fx tail)
  with assms(2) obtain checkpoint last_step where "prepare_worker io common checkpoint last_step = (fst worker, snd worker)"
    by (metis prod.collapse)
  note child = prepared_worker [OF this assms(3)]
  have "child_gone (st_launch io) []" by (simp add: child_gone_def)
  with child worker show ?thesis
    by (cases res; cases "snd worker") (auto simp: launching_def)
qed

lemma whole_shape_child:
  assumes "whole_shape workers gives fx res"
    and "\<forall>worker\<in>workers. \<exists>checkpoint last_step. worker = prepare_worker io common checkpoint last_step"
    and "real_pids (st_launch io)"
  shows "case res of
      Inl _ \<Rightarrow> child_gone (st_launch io) (processes fx)
    | Inr y \<Rightarrow> gives None y \<and> processes fx = []
        \<or> (\<exists>p. gives (Some p) y \<and> child_owned (st_launch io) (processes fx) (pr_process p))"
  using assms(1) unfolding whole_shape_def
proof (elim disjE exE conjE)
  assume "fx = []" "isl res"
  then show ?thesis by (cases res) (simp_all add: child_gone_def)
next
  fix gx ready
  assume "fx = gx @ closes ready" "start_shape workers gives gx res"
  with start_shape_child [OF this(2) assms(2,3)] show ?thesis by (auto split: sum.splits)
qed

lemma start_children:
  assumes "real_pids (st_launch io)"
  shows "case start_observe io cd common w of
        (w', fx, Inl _) \<Rightarrow> child_gone (st_launch io) (processes fx)
      | (w', fx, Inr sd) \<Rightarrow> child_owned (st_launch io) (processes fx) (sd_process sd)" (is ?observe)
    and "case start_run io cd signal options w of
        (w', fx, Inl _) \<Rightarrow> child_gone (st_launch io) (processes fx)
      | (w', fx, Inr None) \<Rightarrow> processes fx = []
      | (w', fx, Inr (Some sd)) \<Rightarrow> child_owned (st_launch io) (processes fx) (sd_process sd)" (is ?run)
proof -
  have observe: "\<forall>worker\<in>{prepare_observe_worker io common}. \<exists>checkpoint last_step.
      worker = prepare_worker io common checkpoint last_step"
    by (auto simp: prepare_observe_worker_def)
  show ?observe
  proof (cases "start_observe io cd common w")
    case (fields w' fx res)
    from whole_shape_child [OF start_observe_shape [OF this] observe assms] show ?thesis
      by (auto simp: fields split: sum.splits)
  qed
  have run: "\<forall>worker\<in>range (prepare_run_worker io (ro_common options)). \<exists>checkpoint last_step.
      worker = prepare_worker io (ro_common options) checkpoint last_step"
    by (auto simp: prepare_run_worker_def)
  show ?run
  proof (cases "start_run io cd signal options w")
    case (fields w' fx res)
    from whole_shape_child [OF start_run_shape [OF this] run assms] show ?thesis
      by (auto simp: fields split: sum.splits option.splits)
  qed
qed

end
