(* ===== verification/Program_Props.thy ===== *)
theory Program_Props
  imports Program Launch_Props Observe_Props
begin

text \<open>
  What one execution of the program guarantees from its first step to its last: the status it returns
  and the report it leaves say the same, and everything it took from its host is given back.
\<close>

section \<open>The report of a finished journal\<close>

lemma replayed_outcome:
  assumes "Journal.replay n i s (es @ [E_Outcome t]) = Some s'" and "assemble s' = Some r"
  shows "rep_outcome r = t"
  using assms
  by (auto simp: replay_split replay_entry_def assemble_def split: option.splits if_splits)

lemma finalized_entries:
  assumes "reads_back to_vec from_slice" and "holds to_vec j rs"
    and "snd (finalize from_slice to_string True private j) = Ok (r, encoded)"
  shows "\<exists>s. Journal.replay (length rs) 0 replay_start (map jr_entry rs) = Some s \<and> assemble s = Some r"
proof (cases "length rs \<le> MAX_RECOVERED_RECORDS")
  case True
  from recover_held [OF assms(1,2) this] assms(2,3) show ?thesis
    by (cases "private")
      (auto simp: finalize_def journal_flush_def holds_def read_file_def to_report_def
        split: option.splits sum.splits if_splits)
next
  case False
  then have "rec_status (recover_loop from_slice (frames to_vec rs) []) = Recovered_Corrupt"
    using assms(2) by (intro recover_overfull [where k = 0]) (simp_all add: holds_def)
  with assms(2,3) show ?thesis
    by (auto simp: finalize_def journal_flush_def holds_def read_file_def to_report_def
        split: option.splits sum.splits if_splits)
qed

text \<open>The report in place after a successful \<open>finalize\<close> carries the recorded outcome.\<close>

lemma finalized_outcome:
  assumes "reads_back to_vec from_slice" and "holds to_vec (jf_journal jf) rs"
    and "map jr_entry rs = es @ [E_Outcome t]"
    and "finalize_artifacts from_slice to_string io jf d = (ds, Ok (r, summary))"
  shows "\<exists>nd. last (d # ds) (jf_report_name jf) = Some nd
      \<and> complete_report to_string (rf_euid (fz_replace io)) r nd"
    and "rep_outcome r = t" and "summary = report_summary r"
proof -
  have "\<not> sj_failed (jf_journal jf)" using assms(2) by (simp add: holds_def)
  then obtain p encoded res where fin: "snd (finalize from_slice to_string True p (jf_journal jf)) = Ok (r, encoded)"
    and sum: "summary = report_summary r"
    and rep: "replace_report (fz_replace io) (jf_report_name jf) (bytes_of encoded) d = (ds, Ok ())"
    using assms(4)
    by (auto simp: finalize_artifacts_def journal_flush_def split: if_splits sum.splits option.splits prod.splits)
  from finalized_report [OF fin] obtain str where r: "validate r = (Ok () :: unit report_error + unit)"
    "to_string r = Ok str" "encoded = str @ [newline]" by blast
  from replaced_report(3) [OF rep refl] r
  show "\<exists>nd. last (d # ds) (jf_report_name jf) = Some nd
      \<and> complete_report to_string (rf_euid (fz_replace io)) r nd"
    by (simp add: complete_report_def owner_only_def)
  from finalized_entries [OF assms(1,2) fin] assms(3) show "rep_outcome r = t"
    by (auto dest: replayed_outcome)
  from sum show "summary = report_summary r" .
qed

section \<open>Status and report\<close>

fun outcome_kind :: "supervisor_outcome \<Rightarrow> terminal_kind" where
  "outcome_kind (ChildExited code) = Kind_ChildExited code"
| "outcome_kind (ChildSignaled signal) = Kind_ChildSignaled (signal_get signal)"
| "outcome_kind LaunchNotFound = Kind_LaunchNotFound"
| "outcome_kind LaunchNotExecutable = Kind_LaunchNotExecutable"
| "outcome_kind InvalidConfiguration = Kind_InvalidConfiguration"
| "outcome_kind PolicyIntervention = Kind_PolicyIntervention"
| "outcome_kind SupervisorFailure = Kind_SupervisorFailure"
| "outcome_kind PartialArtifactFailure = Kind_SupervisorFailure"

text \<open>A private file with a complete valid report of this outcome, of which the printed summary is one.\<close>

definition reported :: "start_io \<Rightarrow> 'e codec \<Rightarrow> string \<Rightarrow> directory \<Rightarrow> runtime_result \<Rightarrow> bool" where
  "reported io cd name d res \<longleftrightarrow> (\<exists>nd r. d name = Some nd
     \<and> complete_report (cd_to_string cd) (rf_euid (fz_replace (st_finalize io))) r nd
     \<and> to_kind (rep_outcome r) = outcome_kind (res_outcome res)
     \<and> (res_stdout res = [] \<or> res_stdout res = report_summary r))"

lemma finished_result [simp]:
  "res_outcome (finished outcome r summary diagnostic show_summary) = outcome"
  "res_stdout (finished outcome r summary diagnostic show_summary) = (if show_summary then summary else [])"
  by (simp_all add: finished_def)

text \<open>The end without a worker.\<close>

definition early_outcome :: "supervisor_outcome \<Rightarrow> bool" where
  "early_outcome outcome \<longleftrightarrow> outcome \<noteq> PolicyIntervention \<and> outcome \<noteq> PartialArtifactFailure"

lemma early_kind: "early_outcome outcome \<Longrightarrow> kind_without_worker outcome = outcome_kind outcome"
  by (cases outcome) (simp_all add: early_outcome_def)

lemma appender_is_disk: "appender_of io cd = disk_append (cd_to_vec cd) (st_append io)"
  by (simp add: fun_eq_iff appender_of_def disk_append_def)

lemma appended_entry:
  assumes "append_entry (appender_of io cd) (j, n) entry d = ((j', n'), Ok ())"
    and "holds (cd_to_vec cd) j rs" and "Suc (length rs) < 2 ^ 64"
  shows "\<exists>r. holds (cd_to_vec cd) j' (rs @ [r]) \<and> jr_entry r = entry"
proof -
  have "appender_of io cd j (journal_record_new n entry) d = (j', Ok ())"
    using assms(1) by (auto simp: append_entry_def split: prod.splits sum.splits)
  from append_held [OF assms(2,3) this [unfolded appender_of_def]]
  have "holds (cd_to_vec cd) j' (rs @ [journal_record_new n entry])" by auto
  then show ?thesis by (intro exI [of _ "journal_record_new n entry"]) (simp add: journal_record_new_def)
qed

text \<open>What the end without a worker records.\<close>

definition early_entries :: "bool \<Rightarrow> terminal_outcome \<Rightarrow> journal_entry list" where
  "early_entries escaped t =
     [E_Checkpoint \<lparr>ck_status = Status_NotNegotiated, ck_at_ms = None, ck_request_id = None, ck_reason = None,
        ck_artifact = None\<rparr>,
      E_Escape \<lparr>ee_detected = Available escaped, ee_escaped_count = None\<rparr>, E_Outcome t]"

lemma appended_terminal:
  assumes "append_terminal (appender_of io cd) (j, n) escaped t = ((j', n'), Ok ())"
    and "holds (cd_to_vec cd) j rs" and "length rs < 2 ^ 63"
  shows "\<exists>rs'. holds (cd_to_vec cd) j' (rs @ rs') \<and> map jr_entry rs' = early_entries escaped t"
proof -
  obtain j1 n1 j2 n2 e1 e2 where
    one: "append_entry (appender_of io cd) (j, n) e1 Sync = ((j1, n1), Ok ())"
    and two: "append_entry (appender_of io cd) (j1, n1) e2 Buffered = ((j2, n2), Ok ())"
    and three: "append_entry (appender_of io cd) (j2, n2) (E_Outcome t) Sync = ((j', n'), Ok ())"
    and entries: "early_entries escaped t = [e1, e2, E_Outcome t]"
    using assms(1) by (auto simp: append_terminal_def early_entries_def split: prod.splits sum.splits)
  obtain r1 where r1: "holds (cd_to_vec cd) j1 (rs @ [r1])" "jr_entry r1 = e1"
    using appended_entry [OF one assms(2)] assms(3) by auto
  obtain r2 where r2: "holds (cd_to_vec cd) j2 ((rs @ [r1]) @ [r2])" "jr_entry r2 = e2"
    using appended_entry [OF two r1(1)] assms(3) by auto
  obtain r3 where r3: "holds (cd_to_vec cd) j' (((rs @ [r1]) @ [r2]) @ [r3])" "jr_entry r3 = E_Outcome t"
    using appended_entry [OF three r2(1)] assms(3) by auto
  with r1(2) r2(2) show ?thesis by (intro exI [of _ "[r1, r2, r3]"]) (simp add: entries)
qed

lemma lost_is_partial [simp]: "res_outcome (lost_without_worker version outcome diagnostic kind) = PartialArtifactFailure"
  by (simp add: lost_without_worker_def Let_def)

lemma finalized_early:
  assumes "finalize_without_worker io cd rj failure w = (w', fx, Err res)"
    and "reads_back (cd_to_vec cd) (cd_from_slice cd)"
    and "holds (cd_to_vec cd) (jf_journal (fst rj)) rs" and "length rs < 2 ^ 63"
    and "early_outcome (lf_outcome failure)"
  shows "res_outcome res = PartialArtifactFailure \<or> reported io cd (jf_report_name (fst rj)) (w_directory w') res"
proof -
  let ?t = "terminal_without_worker (lf_outcome failure)"
  obtain s appended where ap: "append_terminal (appender_of io cd) (jf_journal (fst rj), snd rj) False ?t = (s, appended)"
    by (rule prod.exhaust)
  show ?thesis
  proof (cases appended)
    case (Inl kind)
    with assms(1) ap show ?thesis by (auto simp: finalize_without_worker_def Let_def)
  next
    case (Inr u)
    obtain j n where s: "s = (j, n)" by force
    obtain es where held: "holds (cd_to_vec cd) j (rs @ es)" "map jr_entry es = early_entries False ?t"
      using appended_terminal [OF _ assms(3,4)] ap Inr s by (metis old.unit.exhaust)
    then have entries: "map jr_entry (rs @ es) = (map jr_entry rs @ butlast (early_entries False ?t)) @ [E_Outcome ?t]"
      by (simp add: early_entries_def)
    let ?jf = "(fst rj)\<lparr>jf_journal := j\<rparr>"
    obtain ds fin where fin: "finalize_artifacts (cd_from_slice cd) (cd_to_string cd) (st_finalize io) ?jf
        (w_directory w) = (ds, fin)" by force
    show ?thesis
    proof (cases fin)
      case (Inl kind)
      with assms(1) ap Inr s fin show ?thesis by (auto simp: finalize_without_worker_def Let_def)
    next
      case fin': (Inr x)
      obtain r summary where x: "x = (r, summary)" by force
      have held': "holds (cd_to_vec cd) (jf_journal ?jf) (rs @ es)" using held(1) by simp
      note facts = finalized_outcome [OF assms(2) held' entries fin [unfolded fin' x]]
      have "w_directory w' = last (w_directory w # ds)" "res_outcome res = lf_outcome failure"
        "res_stdout res = [] \<or> res_stdout res = report_summary r"
        using assms(1) ap Inr s fin fin' x facts(3)
        by (auto simp: finalize_without_worker_def Let_def simp del: last.simps split: if_splits)
      moreover have "to_kind (rep_outcome r) = outcome_kind (lf_outcome failure)"
        using facts(2) early_kind [OF assms(5)] by (simp add: terminal_without_worker_def)
      ultimately show ?thesis using facts(1) unfolding reported_def by auto
    qed
  qed
qed

section \<open>The start\<close>

text \<open>The journal of a run holds its header, under the name the command line gave.\<close>

definition has_header :: "'e codec \<Rightarrow> common_options \<Rightarrow> run_journal \<Rightarrow> bool" where
  "has_header cd common rj \<longleftrightarrow> file_name (co_report_path common) = Some (jf_report_name (fst rj))
     \<and> (\<exists>r. holds (cd_to_vec cd) (jf_journal (fst rj)) [r])"

text \<open>
  How a start ends: if it ends the run after the header was written, then with a report of the status,
  or with the status that says that there is none.
\<close>

definition accounted ::
    "start_io \<Rightarrow> 'e codec \<Rightarrow> common_options \<Rightarrow> ('a \<Rightarrow> bool) \<Rightarrow> world \<Rightarrow> start_effect list
     \<Rightarrow> runtime_result + 'a \<Rightarrow> bool" where
  "accounted io cd common good w fx res \<longleftrightarrow>
     (case res of
        Inl r \<Rightarrow> Header_Written \<in> set fx \<longrightarrow> res_outcome r \<noteq> PartialArtifactFailure
          \<longrightarrow> (\<exists>name. file_name (co_report_path common) = Some name \<and> reported io cd name (w_directory w) r)
      | Inr y \<Rightarrow> good y)"

lemma begun_journal:
  assumes "begin_journal io cd common conf available w = (w', fx, Ok rj)"
  shows "has_header cd common rj"
proof -
  obtain header d jf where init: "initialize_journal (st_initialize io) (co_report_path common) (w_directory w) = (d, Ok jf)"
    and ap: "append_entry (appender_of io cd) (jf_journal jf, 0) (E_Header header) Sync
      = ((jf_journal (fst rj), snd rj), Ok ())" and rj: "fst rj = jf\<lparr>jf_journal := jf_journal (fst rj)\<rparr>"
    using assms by (auto simp: begin_journal_def Let_def split: if_splits sum.splits prod.splits)
  have jf: "jf_journal jf = journal_initialized" "file_name (co_report_path common) = Some (jf_report_name jf)"
    using init
    by (auto simp: initialize_journal_def validate_report_target_def fill_journal_def Let_def
        split: option.splits if_splits sum.splits)
  from appended_entry [OF ap, of "[]"] obtain r where "holds (cd_to_vec cd) (jf_journal (fst rj)) [r]"
    by (auto simp: jf(1) holds_initialized)
  moreover have "jf_report_name (fst rj) = jf_report_name jf" by (subst rj) simp
  ultimately show ?thesis using jf(2) by (auto simp: has_header_def)
qed

definition failing_early :: "start_effect list \<times> (launch_failure + prepared) \<Rightarrow> bool" where
  "failing_early worker \<longleftrightarrow> (\<forall>failure. snd worker = Err failure \<longrightarrow> early_outcome (lf_outcome failure))"

lemma early_failures:
  "early_outcome (launch_outcome kind)"
  "early_outcome (lf_outcome (supervisor_failure_of diagnostic))"
  "early_outcome (lf_outcome (early_exit_or_failure status window (supervisor_failure_of diagnostic)))"
proof -
  show "early_outcome (launch_outcome kind)" by (cases kind) (simp_all add: early_outcome_def)
  show "early_outcome (lf_outcome (supervisor_failure_of diagnostic))"
    by (simp add: early_outcome_def supervisor_failure_of_def)
  show "early_outcome (lf_outcome (early_exit_or_failure status window (supervisor_failure_of diagnostic)))"
  proof (cases status)
    case None
    then show ?thesis by (simp add: early_exit_or_failure_def early_outcome_def supervisor_failure_of_def)
  next
    case (Some root)
    then show ?thesis by (cases root) (simp_all add: early_exit_or_failure_def early_outcome_def)
  qed
qed

lemma bound_early:
  assumes "snd (bind_worker io last_step p) = Err failure"
    and "\<And>root p failure. last_step root p = Err failure \<Longrightarrow> early_outcome (lf_outcome failure)"
  shows "early_outcome (lf_outcome failure)"
  using assms by (auto simp: bind_worker_def Let_def early_failures split: option.splits sum.splits)

lemma prepared_early:
  assumes "\<And>root p failure. last_step root p = Err failure \<Longrightarrow> early_outcome (lf_outcome failure)"
  shows "failing_early (prepare_worker io common checkpoint last_step)"
proof -
  have "early_outcome (lf_outcome failure)" if "bind_worker io last_step p = (fx, Err failure)" for p fx failure
    using bound_early [of io last_step p failure, OF _ assms] that by simp
  then show ?thesis
    by (auto simp: failing_early_def prepare_worker_def early_failures split: prod.splits sum.splits)
qed

lemma workers_early:
  "failing_early (prepare_observe_worker io common)" "failing_early (prepare_run_worker io common fd)"
  unfolding prepare_observe_worker_def prepare_run_worker_def
  by (rule prepared_early;
      auto simp: negotiate_worker_def early_failures split: sum.splits)+

lemma finalized_from_header:
  assumes "finalize_without_worker io cd rj failure w = (w', fx, Err r)"
    and "has_header cd common rj" and "early_outcome (lf_outcome failure)"
    and "reads_back (cd_to_vec cd) (cd_from_slice cd)"
  shows "res_outcome r = PartialArtifactFailure
    \<or> (\<exists>name. file_name (co_report_path common) = Some name \<and> reported io cd name (w_directory w') r)"
  using finalized_early [OF assms(1,4) _ _ assms(3)] assms(2) by (auto simp: has_header_def)

lemma launch_step_ends:
  assumes "reads_back (cd_to_vec cd) (cd_from_slice cd)" and "failing_early worker"
  shows "yields (\<lambda>_. accounted io cd common (\<lambda>(rj, _, _). has_header cd common rj))
    (launch_step io cd common conf available worker)"
proof (rule yieldsI)
  fix w w' fx and res :: "runtime_result + run_journal \<times> terminal_signal_monitor \<times> prepared"
  assume run: "launch_step io cd common conf available worker w = (w', fx, res)"
  show "accounted io cd common (\<lambda>(rj, _, _). has_header cd common rj) w' fx res"
  proof (cases res)
    case (Inr x)
    with run show ?thesis
      by (auto simp: launch_step_def step_simps accounted_def dest: begun_journal)
  next
    case (Inl r)
    from run [unfolded Inl launch_step_def step_simps]
    consider (journal) "begin_journal io cd common conf available w = (w', fx, Err r)"
      | (install) w1 fx1 rj fx2 where "begin_journal io cd common conf available w = (w1, fx1, Ok rj)"
          "install_step io cd rj w1 = (w', fx2, Err r)"
      | (worker) w1 fx1 rj w2 fx2 w3 where "begin_journal io cd common conf available w = (w1, fx1, Ok rj)"
          "start_worker io cd rj worker w2 = (w3, fx2, Err r)" "w_directory w' = w_directory w3"
      by (auto simp: drop_handlers_def)
    then have "Header_Written \<in> set fx \<longrightarrow> res_outcome r \<noteq> PartialArtifactFailure
        \<longrightarrow> (\<exists>name. file_name (co_report_path common) = Some name \<and> reported io cd name (w_directory w') r)"
    proof cases
      case journal
      then show ?thesis using begin_journal_effects by fastforce
    next
      case install
      from install(2) obtain kind v where fin: "finalize_without_worker io cd rj
          (supervisor_failure_of (control_error_text kind)) v
          = (w', fx2, Err r :: runtime_result + terminal_signal_monitor)"
        by (auto simp: install_step_def split: prod.splits sum.splits)
      from install(1) have "has_header cd common rj" by (rule begun_journal)
      with finalized_from_header [OF fin _ early_failures(2) assms(1)] show ?thesis by blast
    next
      case worker
      from worker(2) obtain failure gx where failed: "snd worker = Err failure"
        and fin: "finalize_without_worker io cd rj failure w2 = (w3, gx, Err r :: runtime_result + prepared)"
        by (auto simp: start_worker_def split: prod.splits sum.splits)
      from worker(1) have "has_header cd common rj" by (rule begun_journal)
      moreover have "early_outcome (lf_outcome failure)" using failed assms(2) by (simp add: failing_early_def)
      ultimately show ?thesis using finalized_from_header [OF fin _ _ assms(1)] worker(3) by auto
    qed
    then show ?thesis by (simp add: accounted_def Inl)
  qed
qed

lemma accounted_early [simp]: "accounted io cd common good w [] (Err r)"
  by (simp add: accounted_def)

lemma accounted_closes [simp]:
  "accounted io cd common good w (fx @ closes ready) res = accounted io cd common good w fx res"
  by (auto simp: accounted_def split: sum.splits)

lemma launch_step_then:
  assumes "reads_back (cd_to_vec cd) (cd_from_slice cd)" and "failing_early worker"
    and "\<And>launched w. has_header cd common (fst launched) \<Longrightarrow>
      \<exists>gx y. f launched w = (w, gx, Ok y) \<and> good y"
  shows "yields (\<lambda>_. accounted io cd common good)
    (step_bind (launch_step io cd common conf available worker) f)"
proof (rule yields_bind [OF launch_step_ends [OF assms(1,2)]])
  fix w1 fx w' gx res and launched :: "run_journal \<times> terminal_signal_monitor \<times> prepared"
  assume "accounted io cd common (\<lambda>(rj, _, _). has_header cd common rj) w1 fx (Ok launched)"
    and run: "f launched w1 = (w', gx, res)"
  then have "has_header cd common (fst launched)" by (auto simp: accounted_def split: prod.splits)
  from assms(3) [OF this, of w1] run show "accounted io cd common good w' (fx @ gx) res"
    by (auto simp: accounted_def)
qed (simp add: accounted_def)

lemma start_observe_ends:
  assumes "reads_back (cd_to_vec cd) (cd_from_slice cd)"
  shows "yields (\<lambda>_. accounted io cd common (\<lambda>sd. has_header cd common (sd_journal sd)))
    (start_observe io cd common)" (is "yields ?P _")
  by (rule start_observe_yields [where P = ?P])
    (auto simp: step_return_def observe_started_def split: prod.splits
      intro!: launch_step_then [OF assms workers_early(1)])

lemma start_run_ends:
  assumes "reads_back (cd_to_vec cd) (cd_from_slice cd)"
  shows "yields (\<lambda>_. accounted io cd (ro_common options) (\<lambda>started. \<forall>sd. started = Some sd
      \<longrightarrow> has_header cd (ro_common options) (sd_journal sd))) (start_run io cd signal options)" (is "yields ?P _")
  by (rule start_run_yields [where P = ?P])
    (auto simp: accounted_def [of _ _ _ _ _ "[]" "Ok None"] run_started_def split: prod.splits
      intro!: launch_step_then [OF assms workers_early(2)])

section \<open>Supervision\<close>

lemma supervised_ends:
  assumes "run_supervised env r inputs ended = Some (r', fx, e)"
  shows "\<exists>es t. entries_of fx = es @ [E_Outcome t] \<and> to_kind t = outcome_kind (re_outcome e)"
proof -
  have final: "\<exists>es. entries_of (fx1 @ run_record_terminal q t) = es @ [E_Outcome t]" for fx1 q t
    by (simp add: run_record_terminal_def)
  have kind: "cm_kind (complete i) = outcome_kind (cm_outcome (complete i))" for i
  proof -
    have "terminal_kind_of root = outcome_kind (supervisor_outcome_of root)" for root by (cases root) simp_all
    then show ?thesis by (auto simp: complete_def Let_def split: option.splits)
  qed
  from assms obtain s fx1 c fx2 where end_run: "end_run env s c ended = (r', fx2, e)" and fx: "fx = fx1 @ fx2"
    by (auto simp: run_supervised_def split: option.splits prod.splits)
  obtain fx3 i where "fx2 = fx3 @ run_record_terminal r' (terminal_of r' ended (complete i))"
    and e: "re_outcome e = cm_outcome (complete i)"
  proof (cases c)
    case (Completed_SupervisorFailure diagnostic)
    with end_run that [of "[]"] show thesis by (auto simp: end_run_def Let_def)
  next
    case (Completed_Root root)
    with end_run that show thesis by (auto simp: end_run_def Let_def split: prod.splits)
  qed
  with final [of "fx1 @ fx3"] obtain es where "entries_of fx = es @ [E_Outcome (terminal_of r' ended (complete i))]"
    by (auto simp: fx)
  with kind e show ?thesis by (intro exI conjI) (auto simp: terminal_of_def)
qed

lemma entries_of_logged [simp]: "entries_of (logged (fx @ [Logged (E_Outcome t) d])) = entries_of (logged fx) @ [E_Outcome t]"
  by (simp add: logged_def map_filter_def)

lemma observed_ends:
  assumes "run_observed r inputs ended = Some (r', fx, f, t)"
  shows "\<exists>es. entries_of (logged fx) = es @ [E_Outcome t]" and "to_kind t = outcome_kind (ob_outcome f)"
proof -
  from assms obtain fx1 c where c: "f = observe_final_of c" "t = observe_terminal r' ended f"
    and fx: "fx = fx1 @ observe_record_terminal (or_sampler r') (or_report_samples r') (or_escape_detected r')
      (calibration_artifact_of (or_calibration r')) t"
    by (auto simp: run_observed_def Let_def split: option.splits)
  obtain gx where "fx = gx @ [Logged (E_Outcome t) Sync]" by (simp add: fx observe_record_terminal_def)
  then show "\<exists>es. entries_of (logged fx) = es @ [E_Outcome t]" by simp
  have "terminal_kind_of root = outcome_kind (supervisor_outcome_of root)" for root by (cases root) simp_all
  then show "to_kind t = outcome_kind (ob_outcome f)" by (cases c) (simp_all add: c observe_terminal_def)
qed

lemma concluded:
  assumes "conclude io cd sd process fx outcome diagnostic w = (w', gx, res)"
    and "has_header cd common (sd_journal sd)" and "reads_back (cd_to_vec cd) (cd_from_slice cd)"
    and "entries_of fx = es @ [E_Outcome t]" and "to_kind t = outcome_kind outcome"
    and "length (entries_of fx) < 2 ^ 63"
  shows "res_outcome res = PartialArtifactFailure
    \<or> (\<exists>name. file_name (co_report_path common) = Some name \<and> reported io cd name (w_directory w') res)"
proof -
  obtain jf n where jf: "sd_journal sd = (jf, n)" by force
  obtain rj n' where run: "journal_effects (appender_of io cd) (resilient_new (jf_journal jf), n) fx = (rj, n')"
    by force
  obtain ds where fin: "finish_result (st_version io) cd (st_finalize io) jf (w_directory w) rj outcome diagnostic
      = (ds, res)" and w': "w_directory w' = last (w_directory w # ds)"
    using assms(1) by (auto simp: conclude_def jf run Let_def simp del: last.simps split: prod.splits)
  show ?thesis
  proof (cases "rj_journal rj")
    case None
    with fin show ?thesis by (auto simp: finish_result_def)
  next
    case (Some j)
    obtain r0 where "holds (cd_to_vec cd) (jf_journal jf) [r0]" using assms(2) by (auto simp: has_header_def jf)
    moreover have "rj_journal (resilient_new (jf_journal jf)) = Some (jf_journal jf)" by (simp add: resilient_new_def)
    ultimately obtain rs where held: "holds (cd_to_vec cd) j ([r0] @ rs)" and rs: "map jr_entry rs = entries_of fx"
      using disk.persisted_effects [OF run [unfolded appender_is_disk] Some, of "jf_journal jf" "[r0]"] assms(6) by auto
    have entries: "map jr_entry ([r0] @ rs) = (jr_entry r0 # es) @ [E_Outcome t]" by (simp add: rs assms(4))
    let ?jf = "jf\<lparr>jf_journal := j\<rparr>"
    have held': "holds (cd_to_vec cd) (jf_journal ?jf) ([r0] @ rs)" using held by simp
    obtain ds' final where final: "finalize_artifacts (cd_from_slice cd) (cd_to_string cd) (st_finalize io) ?jf
        (w_directory w) = (ds', final)" by force
    show ?thesis
    proof (cases final)
      case (Inl kind)
      with fin Some final show ?thesis by (auto simp: finish_result_def result_refused_def)
    next
      case (Inr x)
      obtain r summary where x: "x = (r, summary)" by force
      note facts = finalized_outcome [OF assms(3) held' entries final [unfolded Inr x]]
      have "ds = ds'" "res_outcome res = outcome" "res_stdout res = report_summary r"
        using fin Some final Inr x facts(3) by (auto simp: finish_result_def)
      then have "reported io cd (jf_report_name jf) (w_directory w') res"
        using facts(1,2) assms(5) w' unfolding reported_def by auto
      with assms(2) show ?thesis by (auto simp: has_header_def jf)
    qed
  qed
qed

section \<open>The whole execution\<close>

fun common_of :: "command_mode \<Rightarrow> common_options" where
  "common_of (Mode_Observe common) = common"
| "common_of (Mode_Run options) = ro_common options"

lemma length_entries: "length (entries_of fx) \<le> length fx" "length (entries_of (logged gx)) \<le> length gx"
proof -
  show *: "length (entries_of fx) \<le> length fx" for fx
  proof (induction fx)
    case (Cons x fx)
    then show ?case by (cases x) simp_all
  qed simp
  have "length (logged gx) \<le> length gx" by (simp add: logged_def map_filter_def)
  with * [of "logged gx"] show "length (entries_of (logged gx)) \<le> length gx" by simp
qed

lemma after_start_agrees:
  assumes "after_start s supervise = Some (w', fx, res)"
    and "\<And>v gx r. s = (v, gx, r) \<Longrightarrow> accounted io cd common good v gx r"
    and "\<And>x v v' gx r. good x \<Longrightarrow> supervise x v = Some (v', gx, r) \<Longrightarrow> length gx < 2 ^ 63 \<Longrightarrow>
      res_outcome r = PartialArtifactFailure
      \<or> (\<exists>name. file_name (co_report_path common) = Some name \<and> reported io cd name (w_directory v') r)"
    and "length fx < 2 ^ 63" and "Startup Header_Written \<in> set fx" and "res_outcome res \<noteq> PartialArtifactFailure"
  shows "\<exists>name. file_name (co_report_path common) = Some name \<and> reported io cd name (w_directory w') res"
proof (cases s)
  case (fields v gx r)
  from assms(2) [OF this] have acc: "accounted io cd common good v gx r" .
  show ?thesis
  proof (cases r)
    case (Inl early)
    with acc assms(1,5,6) fields show ?thesis by (auto simp: after_start_def accounted_def)
  next
    case (Inr x)
    with assms(1) fields obtain hx where "supervise x v = Some (w', hx, res)" "fx = map Startup gx @ hx"
      by (auto simp: after_start_def)
    with assms(3) [of x v w' hx res] acc assms(4,6) Inr show ?thesis by (auto simp: accounted_def)
  qed
qed

lemma supervise_observeE:
  assumes "supervise_observe io cd lp sd w = Some (w', fx, res)"
  obtains r' gx f t hx where "run_observed (sd_runtime sd) (lp_observe lp) (lp_ended lp) = Some (r', gx, f, t)"
    and "conclude io cd sd (observed_process f (sd_process sd)) (logged gx) (ob_outcome f) (ob_diagnostic f) w
      = (w', hx, res)" and "fx = map Observing gx @ hx"
  using assms by (auto simp: supervise_observe_def split: option.splits prod.splits)

lemma supervise_runE:
  assumes "supervise_run io cd lp sd w = Some (w', fx, res)"
  obtains r' gx e hx where "run_supervised (lp_env lp) (sd_runtime sd) (lp_enforce lp) (lp_ended lp) = Some (r', gx, e)"
    and "conclude io cd sd (sd_process sd) gx (re_outcome e) (re_diagnostic e) w = (w', hx, res)"
    and "fx = map Enforcing gx @ hx"
  using assms by (auto simp: supervise_run_def split: option.splits prod.splits)

lemma supervised_observe_agrees:
  assumes "supervise_observe io cd lp sd w = Some (w', fx, res)" and "has_header cd common (sd_journal sd)"
    and "reads_back (cd_to_vec cd) (cd_from_slice cd)" and "length fx < 2 ^ 63"
  shows "res_outcome res = PartialArtifactFailure
    \<or> (\<exists>name. file_name (co_report_path common) = Some name \<and> reported io cd name (w_directory w') res)"
proof -
  obtain r' gx f t hx where run: "run_observed (sd_runtime sd) (lp_observe lp) (lp_ended lp) = Some (r', gx, f, t)"
    and fin: "conclude io cd sd (observed_process f (sd_process sd)) (logged gx) (ob_outcome f) (ob_diagnostic f) w
      = (w', hx, res)" and fx: "fx = map Observing gx @ hx"
    by (rule supervise_observeE [OF assms(1)])
  obtain es where es: "entries_of (logged gx) = es @ [E_Outcome t]" using observed_ends(1) [OF run] by blast
  have "length (entries_of (logged gx)) < 2 ^ 63" using length_entries(2) [of gx] assms(4) fx by simp
  from concluded [OF fin assms(2,3) es observed_ends(2) [OF run] this] show ?thesis .
qed

lemma supervised_run_agrees:
  assumes "supervise_run io cd lp sd w = Some (w', fx, res)" and "has_header cd common (sd_journal sd)"
    and "reads_back (cd_to_vec cd) (cd_from_slice cd)" and "length fx < 2 ^ 63"
  shows "res_outcome res = PartialArtifactFailure
    \<or> (\<exists>name. file_name (co_report_path common) = Some name \<and> reported io cd name (w_directory w') res)"
proof -
  obtain r' gx e hx where run: "run_supervised (lp_env lp) (sd_runtime sd) (lp_enforce lp) (lp_ended lp) = Some (r', gx, e)"
    and fin: "conclude io cd sd (sd_process sd) gx (re_outcome e) (re_diagnostic e) w = (w', hx, res)"
    and fx: "fx = map Enforcing gx @ hx"
    by (rule supervise_runE [OF assms(1)])
  obtain es t where es: "entries_of gx = es @ [E_Outcome t]" "to_kind t = outcome_kind (re_outcome e)"
    using supervised_ends [OF run] by blast
  have "length (entries_of gx) < 2 ^ 63" using length_entries(1) [of gx] assms(4) fx by simp
  from concluded [OF fin assms(2,3) es this] show ?thesis .
qed

text \<open>C2. The status and the report agree. Whenever the program wrote the header of a run, whatever failed
  afterwards, during the start, the supervision or the end, it either says with its status that the
  report is partial, or it leaves under the name the command line gave a private file with a complete,
  valid report whose outcome is the status it returns; and what it printed as a summary, if anything,
  is the summary of that report.\<close>

theorem status_and_report_agree:
  assumes "execute_cli io cd signal lp mode w = Some (w', fx, res)"
    and "reads_back (cd_to_vec cd) (cd_from_slice cd)" and "length fx < 2 ^ 63"
    and "Startup Header_Written \<in> set fx" and "res_outcome res \<noteq> PartialArtifactFailure"
  shows "\<exists>name. file_name (co_report_path (common_of mode)) = Some name
    \<and> reported io cd name (w_directory w') res"
proof (cases mode)
  case (Mode_Observe common)
  with assms(1,4) have run: "after_start (start_observe io cd common w) (supervise_observe io cd lp) = Some (w', fx, res)"
    by (auto simp: execute_cli_def execute_observe_def split: if_splits)
  from after_start_agrees [OF run yieldsD [OF start_observe_ends [OF assms(2)]]
      supervised_observe_agrees [OF _ _ assms(2)] assms(3-5)]
  show ?thesis by (simp add: Mode_Observe)
next
  case (Mode_Run options)
  with assms(1,4) have run: "after_start (start_run io cd signal options w) (\<lambda>started w.
      case started of None \<Rightarrow> None | Some sd \<Rightarrow> supervise_run io cd lp sd w) = Some (w', fx, res)"
    by (auto simp: execute_cli_def execute_run_def split: if_splits)
  have "\<exists>name. file_name (co_report_path (ro_common options)) = Some name \<and> reported io cd name (w_directory w') res"
  proof (rule after_start_agrees [OF run yieldsD [OF start_run_ends [OF assms(2)]] _ assms(3-5)])
    fix started v v' gx r
    assume "\<forall>sd. started = Some sd \<longrightarrow> has_header cd (ro_common options) (sd_journal sd)"
      and "(case started of None \<Rightarrow> None | Some sd \<Rightarrow> supervise_run io cd lp sd v) = Some (v', gx, r)"
      and "length gx < 2 ^ 63"
    then show "res_outcome r = PartialArtifactFailure
      \<or> (\<exists>name. file_name (co_report_path (ro_common options)) = Some name \<and> reported io cd name (w_directory v') r)"
      using supervised_run_agrees [OF _ _ assms(2)] by (auto split: option.splits)
  qed
  then show ?thesis by (simp add: Mode_Run)
qed

section \<open>The host\<close>

definition given_back :: "signal_host \<Rightarrow> signal_host \<Rightarrow> bool" where
  "given_back h h' \<longleftrightarrow> sh_actions h' = sh_actions h \<and> sh_write_fd h' = sh_write_fd h"

lemma dropped_gives_back:
  assumes "captures h wfd h' m" and "\<forall>n. restored n"
  shows "given_back h (drop_monitor restored m h')"
  using assms by (auto simp: given_back_def captures_def drop_monitor_def Let_def fun_eq_iff split: if_splits)

definition hosted ::
    "('a \<Rightarrow> terminal_signal_monitor option) \<Rightarrow> world \<Rightarrow> world \<Rightarrow> runtime_result + 'a \<Rightarrow> bool" where
  "hosted monitor w w' res \<longleftrightarrow>
     (case res of
        Inl _ \<Rightarrow> given_back (w_signals w) (w_signals w')
      | Inr y \<Rightarrow> (case monitor y of
          None \<Rightarrow> given_back (w_signals w) (w_signals w')
        | Some m \<Rightarrow> \<exists>wfd. captures (w_signals w) wfd (w_signals w') m))"

lemma journal_keeps_signals:
  assumes "begin_journal io cd common conf available w = (w', fx, res)"
  shows "w_signals w' = w_signals w"
  using assms by (auto simp: begin_journal_def Let_def split: if_splits sum.splits prod.splits)

lemma worker_keeps_signals:
  assumes "start_worker io cd rj worker w = (w', fx, res)"
  shows "w_signals w' = w_signals w"
proof (cases "snd worker")
  case (Inl failure)
  with assms obtain gx where "finalize_without_worker io cd rj failure w = (w', gx, res)"
    by (auto simp: start_worker_def split: prod.splits sum.splits)
  from finalized_without_worker [OF this] show ?thesis by simp
next
  case (Inr p)
  with assms show ?thesis by (auto simp: start_worker_def split: prod.splits)
qed

lemma installed_host:
  assumes "install_step io cd rj w = (w', fx, res)" and "\<forall>n. ia_restore (st_install io) n"
  shows "hosted Some w w' res"
proof (cases "install (st_install io) (w_signals w)")
  case (Pair h answer)
  show ?thesis
  proof (cases answer)
    case (Inl kind)
    with assms(1) Pair failed_install [OF _ assms(2)] finalized_without_worker [of io cd rj]
    show ?thesis by (fastforce simp: install_step_def hosted_def given_back_def)
  next
    case (Inr m)
    with assms(1) Pair installed_captures [of "st_install io" "w_signals w" h m]
    show ?thesis by (auto simp: install_step_def hosted_def)
  qed
qed

lemma launched_host:
  assumes "\<forall>n. ia_restore (st_install io) n" and "\<forall>n. st_restore io n"
  shows "yields (\<lambda>w w' _. hosted (\<lambda>(_, m, _). Some m) w w') (launch_step io cd common conf available worker)"
proof (rule yieldsI)
  fix w w' fx and res :: "runtime_result + run_journal \<times> terminal_signal_monitor \<times> prepared"
  assume run: "launch_step io cd common conf available worker w = (w', fx, res)"
  have kept: "given_back h h" for h by (simp add: given_back_def)
  show "hosted (\<lambda>(_, m, _). Some m) w w' res"
  proof (cases res)
    case (Inr x)
    from run [unfolded Inr launch_step_def step_simps] Inr show ?thesis
      by (auto simp: hosted_def dest!: journal_keeps_signals worker_keeps_signals installed_host [OF _ assms(1)])
  next
    case (Inl r)
    from run [unfolded Inl launch_step_def step_simps] Inl show ?thesis
      by (auto simp: hosted_def drop_handlers_def kept
          dest!: journal_keeps_signals worker_keeps_signals installed_host [OF _ assms(1)]
          intro!: dropped_gives_back assms(2))
  qed
qed

lemma launched_host_then:
  assumes "\<forall>n. ia_restore (st_install io) n" and "\<forall>n. st_restore io n"
    and "\<And>launched w. \<exists>gx y. f launched w = (w, gx, Ok y) \<and> monitor y = Some (fst (snd launched))"
  shows "yields (\<lambda>w w' _. hosted monitor w w') (step_bind (launch_step io cd common conf available worker) f)"
proof (rule yields_bind [OF launched_host [OF assms(1,2)]])
  fix w w1 w' gx res and launched :: "run_journal \<times> terminal_signal_monitor \<times> prepared"
  assume "hosted (\<lambda>(_, m, _). Some m) w w1 (Ok launched)" and "f launched w1 = (w', gx, res)"
  with assms(3) [of launched w1] show "hosted monitor w w' res"
    by (auto simp: hosted_def split: prod.splits)
qed (simp add: hosted_def)

lemma starts_hosted:
  assumes "\<forall>n. ia_restore (st_install io) n" and "\<forall>n. st_restore io n"
  shows "yields (\<lambda>w w' _. hosted (\<lambda>sd. Some (sd_monitor sd)) w w') (start_observe io cd common)" (is "yields ?P _")
    and "yields (\<lambda>w w' _. hosted (map_option sd_monitor) w w') (start_run io cd signal options)" (is "yields ?Q _")
proof -
  have early: "hosted monitor w w (Err r)" for monitor w r by (simp add: hosted_def given_back_def)
  show "yields ?P (start_observe io cd common)"
    by (rule start_observe_yields [where P = ?P])
      (auto simp: early step_return_def observe_started_def split: prod.splits
        intro!: launched_host_then [OF assms])
  have none: "hosted (map_option sd_monitor) w w (Ok None)" for w by (simp add: hosted_def given_back_def)
  show "yields ?Q (start_run io cd signal options)"
    by (rule start_run_yields [where P = ?Q])
      (auto simp: early none run_started_def split: prod.splits intro!: launched_host_then [OF assms])
qed

lemma concluded_host:
  assumes "conclude io cd sd process fx outcome diagnostic w = (w', gx, res)"
  shows "w_signals w' = drop_monitor (st_restore io) (sd_monitor sd) (w_signals w)"
    and "\<exists>ds. gx = map Startup (Report_Written ds # map Processes (drop_process process) @ [Handlers_Dropped])"
    and "res_outcome res \<in> {PartialArtifactFailure, outcome}"
  using assms
  by (auto simp: conclude_def finish_result_def result_refused_def Let_def
      split: prod.splits option.splits sum.splits)

lemma after_start_hosted:
  assumes "after_start s supervise = Some (w', fx, res)"
    and "\<And>v gx r. s = (v, gx, r) \<Longrightarrow> hosted monitor w v r"
    and "\<And>x v v' gx r. supervise x v = Some (v', gx, r) \<Longrightarrow>
      \<exists>m. monitor x = Some m \<and> w_signals v' = drop_monitor restored m (w_signals v)"
    and "\<forall>n. restored n"
  shows "given_back (w_signals w) (w_signals w')"
proof (cases s)
  case (fields v gx r)
  from assms(2) [OF this] have held: "hosted monitor w v r" .
  show ?thesis
  proof (cases r)
    case (Inl early)
    with held assms(1) fields show ?thesis by (auto simp: after_start_def hosted_def)
  next
    case (Inr x)
    with assms(1) fields obtain hx where "supervise x v = Some (w', hx, res)" by (auto simp: after_start_def)
    from assms(3) [OF this] held Inr show ?thesis
      by (auto simp: hosted_def dropped_gives_back [OF _ assms(4)])
  qed
qed

text \<open>C5. The host is given back as it was. If the calls that restore a disposition succeed, then whenever the
  program returns, from whatever step and with whatever result, every signal disposition and the
  descriptor of the handler are those from before it.\<close>

theorem host_is_given_back:
  assumes "execute_cli io cd signal lp mode w = Some (w', fx, res)"
    and "\<forall>n. ia_restore (st_install io) n" and "\<forall>n. st_restore io n"
  shows "sh_actions (w_signals w') = sh_actions (w_signals w)
    \<and> sh_write_fd (w_signals w') = sh_write_fd (w_signals w)"
proof -
  have "given_back (w_signals w) (w_signals w')"
  proof (cases "st_supported io")
    case False
    with assms(1) show ?thesis by (auto simp: execute_cli_def given_back_def)
  next
    case True
    show ?thesis
    proof (cases mode)
      case (Mode_Observe common)
      with True assms(1) have run: "after_start (start_observe io cd common w) (supervise_observe io cd lp) = Some (w', fx, res)"
        by (simp add: execute_cli_def execute_observe_def)
      show ?thesis
        by (rule after_start_hosted [OF run yieldsD [OF starts_hosted(1) [OF assms(2,3)]] _ assms(3)])
          (auto simp: supervise_observe_def dest!: concluded_host(1) split: option.splits prod.splits)
    next
      case (Mode_Run options)
      with True assms(1) have run: "after_start (start_run io cd signal options w) (\<lambda>started w.
          case started of None \<Rightarrow> None | Some sd \<Rightarrow> supervise_run io cd lp sd w) = Some (w', fx, res)"
        by (simp add: execute_cli_def execute_run_def)
      show ?thesis
        by (rule after_start_hosted [OF run yieldsD [OF starts_hosted(2) [OF assms(2,3)]] _ assms(3)])
          (auto simp: supervise_run_def dest!: concluded_host(1) split: option.splits prod.splits)
    qed
  qed
  then show ?thesis by (simp add: given_back_def)
qed

section \<open>Processes\<close>

definition startup_of :: "program_effect list \<Rightarrow> start_effect list" where
  "startup_of = List.map_filter (\<lambda>x. case x of Startup y \<Rightarrow> Some y | _ \<Rightarrow> None)"

lemma startup_of_simps [simp]:
  "startup_of [] = []" "startup_of (Startup x # fx) = x # startup_of fx"
  "startup_of (Observing y # fx) = startup_of fx" "startup_of (Enforcing z # fx) = startup_of fx"
  "startup_of (gx @ fx) = startup_of gx @ startup_of fx" "startup_of (map Startup xs) = xs"
  "startup_of (map Observing ys) = []" "startup_of (map Enforcing zs) = []"
proof -
  show *: "startup_of [] = []" "startup_of (Startup x # fx) = x # startup_of fx"
    "startup_of (Observing y # fx) = startup_of fx" "startup_of (Enforcing z # fx) = startup_of fx" for fx x y z
    by (simp_all add: startup_of_def)
  show "startup_of (gx @ fx) = startup_of gx @ startup_of fx" by (simp add: startup_of_def map_filter_def)
  show "startup_of (map Startup xs) = xs" by (induction xs) (simp_all add: *)
  show "startup_of (map Observing ys) = []" by (induction ys) (simp_all add: *)
  show "startup_of (map Enforcing zs) = []" by (induction zs) (simp_all add: *)
qed

lemma owned_then_dropped:
  assumes "child_owned a ps p"
  shows "child_gone a (ps @ drop_process p)" and "\<exists>request. ps @ drop_process (relinquish p) = [Spawned request]"
  using assms by (auto simp: child_owned_def child_gone_def drop_process_def relinquish_def)

lemma observed_drop:
  assumes "run_observed r inputs ended = Some (r', fx, f, t)"
  shows "ob_outcome f \<noteq> PolicyIntervention \<or> \<not> ob_relinquish f"
proof -
  from assms obtain c where "f = observe_final_of c" by (auto simp: run_observed_def Let_def split: option.splits)
  moreover have "supervisor_outcome_of root \<noteq> PolicyIntervention" for root by (cases root) simp_all
  ultimately show ?thesis by (cases c) simp_all
qed

lemma started_children:
  assumes "real_pids (st_launch io)"
  shows "start_observe io cd common w = (v, gx, Err early) \<Longrightarrow> child_gone (st_launch io) (processes gx)"
    and "start_observe io cd common w = (v, gx, Ok sd) \<Longrightarrow> child_owned (st_launch io) (processes gx) (sd_process sd)"
    and "start_run io cd signal options w = (v, gx, Err early) \<Longrightarrow> child_gone (st_launch io) (processes gx)"
    and "start_run io cd signal options w = (v, gx, Ok (Some sd')) \<Longrightarrow>
      child_owned (st_launch io) (processes gx) (sd_process sd')"
proof -
  note observe = start_children(1) [OF assms, of cd common w]
  note run = start_children(2) [OF assms, of cd signal options w]
  show "start_observe io cd common w = (v, gx, Err early) \<Longrightarrow> child_gone (st_launch io) (processes gx)"
    and "start_observe io cd common w = (v, gx, Ok sd) \<Longrightarrow> child_owned (st_launch io) (processes gx) (sd_process sd)"
    using observe by simp_all
  show "start_run io cd signal options w = (v, gx, Err early) \<Longrightarrow> child_gone (st_launch io) (processes gx)"
    and "start_run io cd signal options w = (v, gx, Ok (Some sd')) \<Longrightarrow>
      child_owned (st_launch io) (processes gx) (sd_process sd')"
    using run by simp_all
qed

text \<open>C4. The program leaves no process running that it was to end. Whenever it returns, from whatever step
  and with whatever result, an enforcing run has spawned no command; or has sent KILL to the command's
  whole group and reaped the command; or, where the kernel did not confirm at the launch that the
  command leads its own group, has killed and reaped the command alone, or had been told by the kernel
  that there is no such process, while a wait did not find it running. The same holds of an observing
  run, except that it may leave the command's group running; and never if it ends because the
  launching parent exited.\<close>

theorem no_process_is_left_running:
  assumes "execute_cli io cd signal lp mode w = Some (w', fx, res)" and "real_pids (st_launch io)"
  shows "child_gone (st_launch io) (processes (startup_of fx))
    \<or> (\<exists>common. mode = Mode_Observe common) \<and> res_outcome res \<noteq> PolicyIntervention
        \<and> (\<exists>request. processes (startup_of fx) = [Spawned request])"
proof (cases "st_supported io")
  case False
  with assms(1) show ?thesis by (auto simp: execute_cli_def child_gone_def)
next
  case supported: True
  show ?thesis
  proof (cases mode)
    case (Mode_Observe common)
    with supported assms(1) have run: "after_start (start_observe io cd common w) (supervise_observe io cd lp)
        = Some (w', fx, res)" by (simp add: execute_cli_def execute_observe_def)
    show ?thesis
    proof (cases "start_observe io cd common w")
      case (fields v gx r)
      show ?thesis
      proof (cases r)
        case (Inl early)
        with run fields started_children(1) [OF assms(2), of cd] show ?thesis by (auto simp: after_start_def)
      next
        case (Inr sd)
        then obtain r' hx f t kx where loop: "run_observed (sd_runtime sd) (lp_observe lp) (lp_ended lp) = Some (r', hx, f, t)"
          and fin: "conclude io cd sd (observed_process f (sd_process sd)) (logged hx) (ob_outcome f) (ob_diagnostic f) v
            = (w', kx, res)" and fx: "fx = map Startup gx @ map Observing hx @ kx"
          using run fields by (auto simp: after_start_def supervise_observe_def split: option.splits prod.splits)
        have owned: "child_owned (st_launch io) (processes gx) (sd_process sd)"
          using started_children(2) [OF assms(2), of cd] fields Inr by blast
        have "processes (startup_of fx) = processes gx @ drop_process (observed_process f (sd_process sd))"
          using concluded_host(2) [OF fin] by (auto simp: fx simp del: map_map map_append list.map)
        with owned_then_dropped [OF owned] observed_drop [OF loop] concluded_host(3) [OF fin]
        show ?thesis by (auto simp: Mode_Observe observed_process_def)
      qed
    qed
  next
    case (Mode_Run options)
    with supported assms(1) have run: "after_start (start_run io cd signal options w) (\<lambda>started w.
        case started of None \<Rightarrow> None | Some sd \<Rightarrow> supervise_run io cd lp sd w) = Some (w', fx, res)"
      by (simp add: execute_cli_def execute_run_def)
    show ?thesis
    proof (cases "start_run io cd signal options w")
      case (fields v gx r)
      show ?thesis
      proof (cases r)
        case (Inl early)
        with run fields started_children(3) [OF assms(2), of cd] show ?thesis by (auto simp: after_start_def)
      next
        case (Inr started)
        then obtain sd lx where sd: "started = Some sd" and loop: "supervise_run io cd lp sd v = Some (w', lx, res)"
          and lx: "fx = map Startup gx @ lx"
          using run fields by (auto simp: after_start_def split: option.splits)
        obtain r' hx e kx where "run_supervised (lp_env lp) (sd_runtime sd) (lp_enforce lp) (lp_ended lp) = Some (r', hx, e)"
          and fin: "conclude io cd sd (sd_process sd) hx (re_outcome e) (re_diagnostic e) v
            = (w', kx, res)" and kx: "lx = map Enforcing hx @ kx"
          by (rule supervise_runE [OF loop])
        note fx = lx [unfolded kx]
        have owned: "child_owned (st_launch io) (processes gx) (sd_process sd)"
          using started_children(4) [OF assms(2), of cd] fields Inr sd by blast
        have "processes (startup_of fx) = processes gx @ drop_process (sd_process sd)"
          using concluded_host(2) [OF fin] by (auto simp: fx simp del: map_map map_append list.map)
        with owned_then_dropped(1) [OF owned] show ?thesis by simp
      qed
    qed
  qed
qed

section \<open>Witnesses\<close>

text \<open>An observing run whose command is not found, on a host where everything else works.\<close>

definition demo_io :: start_io where
  "demo_io =
    \<lparr>st_version = ''0.3.1'', st_supported = True, st_fcntl = (\<lambda>_ _. 0), st_ppid = 1, st_parent = None,
     st_hangup_query = True, st_probe = True, st_random = Some (replicate 16 0xAA),
     st_initialize = demo_initialize, st_append = (\<lambda>_. Io_Ok), st_install = demo_install True,
     st_restore = (\<lambda>_. True),
     st_launch = \<lparr>la_terminal = False, la_is_dir = (\<lambda>_. False), la_spawn = (\<lambda>_. Err Spawn_NotFound),
       la_getpgid = (\<lambda>_. Err ESRCH), la_waited = Ok None\<rparr>,
     st_inspect = Err Ident_Disappeared, st_waited = Ok None, st_getpgid = (\<lambda>_. 0),
     st_finalize = \<lparr>fz_sync = True, fz_open = True, fz_replace = demo_replace\<rparr>,
     st_urandom = True, st_nonce = None, st_request_ids = [], st_pair = Err CreateFailed,
     st_hello = (\<lambda>_. None), st_actuator_root = Err Ident_Disappeared\<rparr>"

definition lost_terminal :: terminal_outcome where
  "lost_terminal = \<lparr>to_at_ms = 0, to_kind = Kind_LaunchNotFound, to_final_footprint_bytes = Unknown,
     to_child_status = None, to_owned_group_survivors = None, to_parent_exited_at_ms = None\<rparr>"

definition lost_records :: "journal_record list" where
  "lost_records = map2 journal_record_new [0, 1, 2, 3]
    [E_Header observe_header, E_Checkpoint no_checkpoint,
     E_Escape \<lparr>ee_detected = Available False, ee_escaped_count = None\<rparr>, E_Outcome lost_terminal]"

definition demo_codec :: "unit codec" where
  "demo_codec =
    \<lparr>cd_to_vec = (\<lambda>r. if r \<in> set lost_records then Some [ucast (jr_sequence r)] else None),
     cd_from_slice = (\<lambda>p. find (\<lambda>r. [ucast (jr_sequence r)] = p) lost_records),
     cd_to_string = (\<lambda>_. Ok ''{}'')\<rparr>"

lemma demo_codec_reads_back: "reads_back (cd_to_vec demo_codec) (cd_from_slice demo_codec)"
  by (auto simp: reads_back_def demo_codec_def lost_records_def journal_record_new_def split: if_splits)

definition demo_world :: world where
  "demo_world = \<lparr>w_directory = Map.empty, w_signals = demo_host Handle_Default\<rparr>"

definition demo_loop :: loop_io where
  "demo_loop = \<lparr>lp_observe = [], lp_env = demo_env, lp_enforce = [], lp_ended = 0\<rparr>"

lemma demo_watched: "parent_watch_of demo_io (co_on_parent_exit demo_common) demo_world = demo_watch"
  by (simp add: parent_watch_of_def demo_observe_watch hangup_is_ignored_def demo_io_def demo_world_def demo_host_def)

lemma demo_run_identity: "run_identity_for (st_random demo_io) demo_common = Ok demo_identity"
proof -
  have "''run_'' @ concat (map hex_02 (replicate 16 0xAA)) = ''run_'' @ replicate 32 CHR ''a''" by code_simp
  moreover have "co_command demo_common = [''python'']" by (simp add: demo_common_def demo_run_options_def)
  ultimately show ?thesis by (simp add: run_identity_for_def demo_io_def demo_identity [simplified])
qed


definition begun :: world where
  "begun = demo_world\<lparr>w_directory := [''.r.json.journal'' \<mapsto> \<lparr>nd_regular = True, nd_uid = 501, nd_mode = OWNER_ONLY,
     nd_content = JOURNAL_MAGIC\<rparr>]\<rparr>"

lemma demo_begun:
  "\<exists>j. begin_journal demo_io demo_codec demo_common (observe_configuration demo_common demo_watch) False demo_world
      = (begun, [Header_Written],
          Ok (\<lparr>jf_journal = j, jf_report_name = ''r.json'', jf_journal_name = ''.r.json.journal''\<rparr>, 1))
    \<and> sj_next_sequence j = 1 \<and> \<not> sj_failed j"
proof -
  have path: "co_report_path demo_common = ''r.json''" by (simp add: demo_common_def demo_run_options_def)
  have init: "initialize_journal (st_initialize demo_io) ''r.json'' Map.empty = (w_directory begun,
      Ok \<lparr>jf_journal = journal_initialized, jf_report_name = ''r.json'', jf_journal_name = ''.r.json.journal''\<rparr>)"
    by (simp add: initialize_journal_def validate_report_target_def file_name_def Let_def demo_initialize_def
        validate_directory_def validate_existing_output_at_def c_name_def artifact_name_def fill_journal_def
        demo_io_def begun_def demo_world_def)
  have "st_version demo_io = ''0.3.1''" "st_probe demo_io" by (simp_all add: demo_io_def)
  moreover have "\<exists>j. append_entry (appender_of demo_io demo_codec) (journal_initialized, 0) (E_Header observe_header) Sync
      = ((j, 1), Ok ()) \<and> sj_next_sequence j = 1 \<and> \<not> sj_failed j"
    by (simp add: append_entry_def appender_of_def journal_append_def journal_initialized_def journal_record_new_def
        demo_codec_def lost_records_def demo_io_def Let_def MAX_JOURNAL_RECORD_BYTES_def sat_add_def)
  ultimately show ?thesis
    using init demo_run_identity
    by (auto simp: begin_journal_def path observe_header_def demo_world_def begun_def Let_def split: prod.splits)
qed

lemma demo_terminal:
  assumes "sj_next_sequence j = 1" and "\<not> sj_failed j"
  shows "\<exists>j'. append_terminal (appender_of demo_io demo_codec) (j, 1) False lost_terminal = ((j', 4), Ok ())
    \<and> \<not> sj_failed j'"
  using assms
  by (simp add: append_terminal_def append_entry_def appender_of_def journal_append_def journal_record_new_def
      demo_codec_def lost_records_def demo_io_def Let_def MAX_JOURNAL_RECORD_BYTES_def sat_add_def no_checkpoint_def)


definition lost_report :: report_v1 where
  "lost_report =
    \<lparr>rep_schema_version = jh_schema_version observe_header, rep_package_version = jh_package_version observe_header,
     rep_run = jh_run observe_header, rep_capabilities = jh_capabilities observe_header,
     rep_configuration = jh_configuration observe_header, rep_samples = [], rep_transitions = [], rep_signals = [],
     rep_checkpoint = no_checkpoint, rep_escape = \<lparr>ee_detected = Available False, ee_escaped_count = None\<rparr>,
     rep_artifact_errors = [], rep_outcome = lost_terminal, rep_calibration = None,
     rep_privacy = jh_privacy observe_header\<rparr>"

lemma lost_report_valid: "validate lost_report = (Ok () :: 'e report_error + unit)"
proof -
  have "identity_valid demo_identity"
    using demo_identity by (auto simp: from_argv_def Let_def split: list.splits option.splits if_splits)
  moreover have "ri_correlation_hash demo_identity = None" by (simp add: demo_identity_def)
  moreover have "valid_package_version ''0.3.1''"
    by (simp add: valid_package_version_def ascii_digit_def ascii_alphanumeric_def)
  moreover have watch: "watch_ok (co_on_parent_exit demo_common) demo_watch"
    unfolding demo_observe_watch by (rule watch_ok_start)
  moreover have "configuration_valid lost_report"
    by (rule observe_configuration_valid [OF accepted_observe_options [OF demo_observe_accepted] watch, of _ demo_watch])
      (simp_all add: lost_report_def observe_header_def initial_header_def lost_terminal_def demo_watch_def unwatched_def)
  moreover have "validate_events lost_report = (Ok () :: 'e report_error + unit)"
    by (simp add: validate_events_Ok_iff lost_report_def event_times_def checkpoint_record_valid_def
        outcome_valid_def escape_valid_def lost_terminal_def no_checkpoint_def)
  ultimately show ?thesis
    by (simp add: validate_def validate_calibration_def lost_report_def observe_header_def initial_header_def
        privacy_valid_def privacy_default_def)
qed

lemma demo_finished:
  assumes "holds (cd_to_vec demo_codec) j [r]"
    and "append_terminal (appender_of demo_io demo_codec) (j, 1) False lost_terminal = ((j', n), Ok ())"
  shows "finalize (cd_from_slice demo_codec) (cd_to_string demo_codec) True True j' = (j', Ok (lost_report, ''{}'' @ [newline]))"
proof -
  have r: "jr_entry r = E_Header observe_header"
    using assms(1) by (auto simp: holds_def writable_def demo_codec_def lost_records_def journal_record_new_def split: if_splits)
  from appended_terminal [OF assms(2,1)] obtain rs where rs: "holds (cd_to_vec demo_codec) j' ([r] @ rs)"
    and entries: "map jr_entry rs = early_entries False lost_terminal" by auto
  have "length rs = 3" using arg_cong [OF entries, of length] by (simp add: early_entries_def)
  then have len: "length ([r] @ rs) = 4" by simp
  have "\<exists>s. Journal.replay (length ([r] @ rs)) 0 replay_start (map jr_entry ([r] @ rs)) = Some s \<and> assemble s = Some lost_report"
    unfolding len by (simp add: r entries early_entries_def replay_entry_def replay_start_def assemble_def lost_report_def no_checkpoint_def)
  then obtain s where s: "Journal.replay (length ([r] @ rs)) 0 replay_start (map jr_entry ([r] @ rs)) = Some s"
    "assemble s = Some lost_report" by blast
  have "report_to_json (cd_to_string demo_codec) lost_report = Ok (''{}'' @ [newline])"
    by (simp add: report_to_json_def lost_report_valid demo_codec_def)
  from finished_journal [OF demo_codec_reads_back rs _ s lost_report_valid this] len show ?thesis
    by (simp add: MAX_RECOVERED_RECORDS_def)
qed

lemma demo_lost:
  "\<exists>w' ds res. execute_cli demo_io demo_codec signal demo_loop (Mode_Observe demo_common) demo_world
      = Some (w', map Startup [Header_Written, Handlers_Installed, Report_Written ds, Handlers_Dropped], res)
    \<and> res_outcome res = LaunchNotFound"
proof -
  let ?files = "\<lambda>j. \<lparr>jf_journal = j, jf_report_name = ''r.json'', jf_journal_name = ''.r.json.journal''\<rparr>"
  obtain j where begin_: "begin_journal demo_io demo_codec demo_common (observe_configuration demo_common demo_watch)
      False demo_world = (begun, [Header_Written], Ok (?files j, 1))"
    and j: "sj_next_sequence j = 1" "\<not> sj_failed j" using demo_begun by blast
  obtain r where header: "holds (cd_to_vec demo_codec) j [r]"
    using begun_journal [OF begin_] by (auto simp: has_header_def)
  obtain j' where app: "append_terminal (appender_of demo_io demo_codec) (j, 1) False lost_terminal = ((j', 4), Ok ())"
    and j': "\<not> sj_failed j'" using demo_terminal [OF j] by blast
  have "finalize (cd_from_slice demo_codec) (cd_to_string demo_codec) True True j' = (j', Ok (lost_report, ''{}'' @ [newline]))"
    by (rule demo_finished [OF header app])
  then obtain ds s where fin: "finalize_artifacts (cd_from_slice demo_codec) (cd_to_string demo_codec)
      (st_finalize demo_io) (?files j') (w_directory begun) = (ds, Ok (lost_report, s))"
    using j'
    by (simp add: finalize_artifacts_def journal_flush_def c_name_def begun_def owner_only_def
        demo_replace_def replace_report_def validate_existing_output_at_def artifact_name_def create_at_def
        fill_temporary_def Let_def rename_at_def demo_io_def)
  obtain h m where inst: "install (demo_install True) (demo_host Handle_Default) = (h, Ok m)"
    by (simp add: demo_install_defs)
  have worker: "prepare_observe_worker demo_io demo_common
      = ([], Err \<lparr>lf_outcome = LaunchNotFound, lf_diagnostic = ''command was not found''\<rparr>)"
    by (simp add: prepare_observe_worker_def prepare_worker_def launch_inner_def launch_options_of_def demo_common_def
        demo_run_options_def demo_io_def spawn_request_of_def spawn_validated_def Let_def split_beta)
  obtain sc where "sampling_config_for demo_common = Ok sc"
    using sampling_config_accepted [OF accepted_run_options [OF demo_run_accepted]]
    by (auto simp: parsed_by_def demo_common_def)
  then have config: "sampling_step demo_io demo_common w = (w, [], Ok sc)" for w by (simp add: sampling_step_def step_return_def)
  have ready: "ready_step demo_io demo_common w = (w, [], Ok None)" for w
    by (simp add: ready_step_def client_ready_take_def demo_common_def demo_run_options_def)
  have version: "st_supported demo_io" "st_install demo_io = demo_install True" "st_restore demo_io = (\<lambda>_. True)"
    by (simp_all add: demo_io_def)
  let ?lost = "\<lparr>lf_outcome = LaunchNotFound, lf_diagnostic = ''command was not found''\<rparr>"
  have installed: "install_step demo_io demo_codec (?files j, 1) begun = (begun\<lparr>w_signals := h\<rparr>, [Handlers_Installed], Ok m)"
    using inst by (simp add: install_step_def begun_def demo_world_def version)
  have "terminal_without_worker LaunchNotFound = lost_terminal"
    by (simp add: terminal_without_worker_def lost_terminal_def)
  with app fin have end_: "finalize_without_worker demo_io demo_codec (?files j, 1) ?lost (begun\<lparr>w_signals := h\<rparr>)
      = (begun\<lparr>w_signals := h, w_directory := last (w_directory begun # ds)\<rparr>, [Report_Written ds],
         Err (finished LaunchNotFound lost_report s (Some ''command was not found'') False) :: runtime_result + prepared)"
    by (simp add: finalize_without_worker_def is_child_exit_def)
  define w2 where "w2 = begun\<lparr>w_signals := drop_monitor (\<lambda>_. True) m h, w_directory := last (w_directory begun # ds)\<rparr>"
  have "launch_step demo_io demo_codec demo_common (observe_configuration demo_common demo_watch) False
      (prepare_observe_worker demo_io demo_common) demo_world
      = (w2, [Header_Written, Handlers_Installed, Report_Written ds, Handlers_Dropped],
         Err (finished LaunchNotFound lost_report s (Some ''command was not found'') False))"
    using begin_ installed end_ worker
    by (simp add: launch_step_def step_bind_def leaving_def start_worker_def drop_handlers_def version w2_def
        del: last.simps)
  then show ?thesis using config ready version(1)
    by (simp add: execute_cli_def execute_observe_def after_start_def start_observe_def step_bind_def leaving_def
        demo_watched close_ready_def client_ready_close_def)
qed

text \<open>The claims at this run.\<close>

theorem status_and_report_agree_witness:
  "\<exists>w' fx res. execute_cli demo_io demo_codec (SignalNumber 30) demo_loop (Mode_Observe demo_common) demo_world = Some (w', fx, res)
    \<and> res_outcome res = LaunchNotFound \<and> reported demo_io demo_codec ''r.json'' (w_directory w') res"
proof -
  obtain w' ds res where run: "execute_cli demo_io demo_codec (SignalNumber 30) demo_loop (Mode_Observe demo_common) demo_world
      = Some (w', map Startup [Header_Written, Handlers_Installed, Report_Written ds, Handlers_Dropped], res)"
    and res: "res_outcome res = LaunchNotFound" using demo_lost by blast
  from status_and_report_agree [OF run demo_codec_reads_back] res
  obtain name where "file_name (co_report_path demo_common) = Some name" "reported demo_io demo_codec name (w_directory w') res"
    by auto
  moreover have "file_name ''r.json'' = Some ''r.json''" by (simp add: file_name_def Let_def)
  ultimately show ?thesis using run res by (auto simp: demo_common_def demo_run_options_def)
qed

theorem host_is_given_back_witness:
  "\<exists>w' fx res. execute_cli demo_io demo_codec (SignalNumber 30) demo_loop (Mode_Observe demo_common) demo_world = Some (w', fx, res)
    \<and> Startup Handlers_Installed \<in> set fx \<and> sh_actions (w_signals w') SIGINT = Handle_Default"
proof -
  obtain w' ds res where run: "execute_cli demo_io demo_codec (SignalNumber 30) demo_loop (Mode_Observe demo_common) demo_world
      = Some (w', map Startup [Header_Written, Handlers_Installed, Report_Written ds, Handlers_Dropped], res)"
    using demo_lost by blast
  have "\<forall>n. ia_restore (st_install demo_io) n" "\<forall>n. st_restore demo_io n" by (simp_all add: demo_io_def demo_install_def)
  from host_is_given_back [OF run this] have "sh_actions (w_signals w') SIGINT = Handle_Default"
    by (simp add: demo_world_def demo_host_def)
  with run show ?thesis by auto
qed

text \<open>A command that is spawned, and whose identity cannot be established then.\<close>

definition spawn_io :: start_io where
  "spawn_io = demo_io\<lparr>st_launch := \<lparr>la_terminal = False, la_is_dir = (\<lambda>_. False), la_spawn = (\<lambda>_. Ok 100),
     la_getpgid = (\<lambda>_. Ok 100), la_waited = Ok None\<rparr>\<rparr>"

lemma spawned_worker:
  "\<exists>request failure. prepare_observe_worker spawn_io demo_common
    = (map Processes [Spawned request, Group_Signalled 100 SIGKILL, Child_Waited], Err failure)"
  by (simp add: prepare_observe_worker_def prepare_worker_def launch_inner_def launch_options_of_def demo_common_def
      demo_run_options_def spawn_io_def demo_io_def spawn_request_of_def spawn_validated_def validate_group_def
      i32_try_from_def bind_worker_def drop_process_def announce_stdin_def resolve_stdin_def Let_def split_beta)

lemma demo_spawned:
  "\<exists>w' gx res request. execute_cli spawn_io demo_codec signal demo_loop (Mode_Observe demo_common) demo_world
      = Some (w', map Startup gx, res)
    \<and> processes gx = [Spawned request, Group_Signalled 100 SIGKILL, Child_Waited]"
proof -
  obtain j where "begin_journal demo_io demo_codec demo_common (observe_configuration demo_common demo_watch)
      False demo_world = (begun, [Header_Written], Ok (j, 1))" using demo_begun by blast
  moreover have same: "st_version spawn_io = st_version demo_io" "st_probe spawn_io = st_probe demo_io"
    "st_random spawn_io = st_random demo_io" "st_initialize spawn_io = st_initialize demo_io"
    "st_append spawn_io = st_append demo_io" by (simp_all add: spawn_io_def)
  have app: "appender_of spawn_io demo_codec = appender_of demo_io demo_codec"
    by (intro ext) (simp add: appender_of_def same)
  have "begin_journal spawn_io demo_codec = begin_journal demo_io demo_codec"
    unfolding fun_eq_iff begin_journal_def same app by (intro allI refl)
  ultimately have begin_: "begin_journal spawn_io demo_codec demo_common (observe_configuration demo_common
      demo_watch) False demo_world = (begun, [Header_Written], Ok (j, 1))"
    by simp
  obtain h m where "install (demo_install True) (demo_host Handle_Default) = (h, Ok m)"
    by (simp add: demo_install_defs)
  then have installed: "install_step spawn_io demo_codec (j, 1) begun = (begun\<lparr>w_signals := h\<rparr>, [Handlers_Installed], Ok m)"
    by (simp add: install_step_def begun_def demo_world_def spawn_io_def demo_io_def)
  obtain request failure where worker: "prepare_observe_worker spawn_io demo_common
      = (map Processes [Spawned request, Group_Signalled 100 SIGKILL, Child_Waited], Err failure)"
    using spawned_worker by blast
  obtain w1 gx r where end_: "(finalize_without_worker spawn_io demo_codec (j, 1) failure (begun\<lparr>w_signals := h\<rparr>)
      :: world \<times> start_effect list \<times> (runtime_result + prepared)) = (w1, gx, Err r)" and gx: "processes gx = []"
    using finalized_without_worker prod_cases3 by (metis (no_types) processes_simps(1,9))
  obtain sc where "sampling_config_for demo_common = Ok sc"
    using sampling_config_accepted [OF accepted_run_options [OF demo_run_accepted]]
    by (auto simp: parsed_by_def demo_common_def)
  then have config: "sampling_step spawn_io demo_common w = (w, [], Ok sc)" for w
    by (simp add: sampling_step_def step_return_def)
  have ready: "ready_step spawn_io demo_common w = (w, [], Ok None)" for w
    by (simp add: ready_step_def client_ready_take_def demo_common_def demo_run_options_def)
  have watch: "parent_watch_of spawn_io (co_on_parent_exit demo_common) demo_world = demo_watch"
    using demo_watched by (simp add: parent_watch_of_def spawn_io_def)
  have supported: "st_supported spawn_io" by (simp add: spawn_io_def demo_io_def)
  obtain w2 hx where "launch_step spawn_io demo_codec demo_common (observe_configuration demo_common demo_watch) False
      (prepare_observe_worker spawn_io demo_common) demo_world = (w2, hx, Err r)"
    and "processes hx = [Spawned request, Group_Signalled 100 SIGKILL, Child_Waited]"
    using begin_ installed end_ worker gx
    by (simp add: launch_step_def step_bind_def leaving_def start_worker_def drop_handlers_def)
  moreover from this(1) config ready supported have "execute_cli spawn_io demo_codec signal demo_loop
      (Mode_Observe demo_common) demo_world = Some (w2, map Startup hx, r)"
    by (simp add: execute_cli_def execute_observe_def after_start_def start_observe_def step_bind_def leaving_def
        watch close_ready_def client_ready_close_def)
  ultimately show ?thesis by blast
qed

theorem no_process_is_left_running_witness:
  "\<exists>w' fx res request. execute_cli spawn_io demo_codec (SignalNumber 30) demo_loop (Mode_Observe demo_common) demo_world
      = Some (w', fx, res)
    \<and> processes (startup_of fx) = [Spawned request, Group_Signalled 100 SIGKILL, Child_Waited]
    \<and> child_gone (st_launch spawn_io) (processes (startup_of fx))"
proof -
  obtain w' gx res request where run: "execute_cli spawn_io demo_codec (SignalNumber 30) demo_loop
      (Mode_Observe demo_common) demo_world = Some (w', map Startup gx, res)"
    and ps: "processes gx = [Spawned request, Group_Signalled 100 SIGKILL, Child_Waited]"
    using demo_spawned by blast
  have "real_pids (st_launch spawn_io)" by (simp add: real_pids_def spawn_io_def)
  from no_process_is_left_running [OF run this] ps
  have "child_gone (st_launch spawn_io) (processes (startup_of (map Startup gx)))" by simp
  with run ps show ?thesis by auto
qed

end
