(* ===== verification/Native.thy ===== *)
theory Native
  imports Advisory Process
begin

text \<open>
  The native observers at the end of \<^verbatim>\<open>mlx-guard-core/src/advisory.rs\<close>. The answers of Mach,
  \<open>sysctl\<close> and \<open>clock_gettime\<close> are arguments. The memory-pressure handler runs on a queue of its own,
  concurrently with the supervisor: it is modelled as the sequence of its atomic stores, and an
  observation as three atomic loads at arbitrary points of the sequence of all stores. Every store
  and load of the code is a release or an acquire, so an observation that sees a store of the delivery
  count sees what the handler stored before it, as it does in the sequence.
\<close>

section \<open>The unsupported platform\<close>

definition unsupported_snapshot :: "dur \<Rightarrow> advisory_snapshot" where
  "unsupported_snapshot captured_at =
     \<lparr>as_captured_at = captured_at,
      as_pressure_events = Unavailable NotSupported,
      as_pressure_level = Unavailable NotSupported,
      as_swap_bytes = Unavailable NotSupported,
      as_compressor_bytes = Unavailable NotSupported,
      as_wired_bytes = Unavailable NotSupported\<rparr>"

section \<open>Clock and errors\<close>

definition PRESSURE_NORMAL :: u64 where "PRESSURE_NORMAL = 1"
definition PRESSURE_WARNING :: u64 where "PRESSURE_WARNING = 2"
definition PRESSURE_CRITICAL :: u64 where "PRESSURE_CRITICAL = 4"

unbundle bit_operations_syntax

definition PRESSURE_MASK :: u64 where
  "PRESSURE_MASK = (PRESSURE_NORMAL OR PRESSURE_WARNING) OR PRESSURE_CRITICAL"

text \<open>\<open>clock_gettime\<close>: \<open>None\<close> when it failed, else the fields \<open>tv_sec\<close> and \<open>tv_nsec\<close>.\<close>

type_synonym timespec = "(int \<times> int) option"

definition u64_try_from :: "int \<Rightarrow> u64 option" where
  "u64_try_from v = (if 0 \<le> v \<and> v < 2 ^ 64 then Some (word_of_int v) else None)"

definition monotonic_ns :: "timespec \<Rightarrow> u64 option" where
  "monotonic_ns time =
     Option.bind time (\<lambda>(tv_sec, tv_nsec).
     Option.bind (u64_try_from tv_sec) (\<lambda>seconds.
     Option.bind (u64_try_from tv_nsec) (\<lambda>nanos.
     Option.bind (checked_mul seconds 1000000000) (\<lambda>scaled.
     checked_add scaled nanos))))"

definition duration_ns :: "dur \<Rightarrow> u64" where
  "duration_ns duration = (if duration < 2 ^ 64 then of_nat duration else - 1)"

fun classify_system_error :: "sys_errno \<Rightarrow> 'a observed" where
  "classify_system_error EPERM = ObsError Obs_PermissionDenied"
| "classify_system_error EACCES = ObsError Obs_PermissionDenied"
| "classify_system_error ENOENT = Unavailable NotSupported"
| "classify_system_error ENOTSUP = Unavailable NotSupported"
| "classify_system_error ENOSYS = Unavailable NotSupported"
| "classify_system_error ESRCH = ObsError Obs_Internal"
| "classify_system_error Errno_Other = ObsError Obs_Internal"

section \<open>Memory pressure\<close>

record pressure_counters =
  pc_deliveries :: u64
  pc_latest_mask :: u64
  pc_last_event_ns :: u64

definition counters_new :: pressure_counters where
  "counters_new = \<lparr>pc_deliveries = 0, pc_latest_mask = 0, pc_last_event_ns = 0\<rparr>"

text \<open>The calls on the dispatch source that matter for the life of the handler and its context.\<close>

datatype dispatch_call =
  Set_Context | Set_Event_Handler | Set_Finalizer | Activate | Cancel | Release

text \<open>The queue and the source are null or not.\<close>

definition pressure_monitor_new ::
    "bool \<Rightarrow> bool \<Rightarrow> dispatch_call list \<times> pressure_counters option" where
  "pressure_monitor_new queue_is_null source_is_null =
     (if queue_is_null then ([], None)
      else if source_is_null then ([], None)
      else ([Set_Context, Set_Event_Handler, Set_Finalizer, Activate], Some counters_new))"

definition drop_pressure_monitor :: "dispatch_call list" where
  "drop_pressure_monitor = [Cancel, Release]"

text \<open>The stores of the handler, in program order.\<close>

datatype pressure_store = Store_Mask u64 | Store_Event_Ns u64 | Add_Delivery

fun store :: "pressure_counters \<Rightarrow> pressure_store \<Rightarrow> pressure_counters" where
  "store c (Store_Mask flags) = c\<lparr>pc_latest_mask := flags\<rparr>"
| "store c (Store_Event_Ns ns) = c\<lparr>pc_last_event_ns := ns\<rparr>"
| "store c Add_Delivery = c\<lparr>pc_deliveries := sat_add (pc_deliveries c) 1\<rparr>"

text \<open>One call of the handler: its context, the data of the source, its reading of the clock.\<close>

definition pressure_event :: "bool \<Rightarrow> u64 \<Rightarrow> timespec \<Rightarrow> pressure_store list" where
  "pressure_event context_is_null source_data time =
     (if context_is_null then []
      else [Store_Mask (source_data AND PRESSURE_MASK),
            Store_Event_Ns (case monotonic_ns time of None \<Rightarrow> 0 | Some ns \<Rightarrow> ns),
            Add_Delivery])"

definition counters_after :: "pressure_store list \<Rightarrow> nat \<Rightarrow> pressure_counters" where
  "counters_after stores n = foldl store counters_new (take n stores)"

definition pressure_level_of :: "u64 \<Rightarrow> memory_pressure_level option" where
  "pressure_level_of flags =
     (if flags AND PRESSURE_CRITICAL \<noteq> 0 then Some Pressure_Critical
      else if flags AND PRESSURE_WARNING \<noteq> 0 then Some Pressure_Warning
      else if flags AND PRESSURE_NORMAL \<noteq> 0 then Some Pressure_Normal
      else None)"

definition pressure_observation ::
    "u64 \<Rightarrow> u64 \<Rightarrow> u64 \<Rightarrow> u64 \<Rightarrow> dur \<Rightarrow> dur \<Rightarrow> u64 observed \<times> memory_pressure_level observed" where
  "pressure_observation deliveries flags event_ns now_ns captured_at max_age =
     (if deliveries = 0 then (Unknown, Unknown)
      else
        let age_ns = sat_sub now_ns event_ns in
        if duration_ns max_age < age_ns then
          (let last_seen_at_ms = duration_ms (dur_sat_sub captured_at (unat age_ns))
           in (Stale last_seen_at_ms, Stale last_seen_at_ms))
        else case pressure_level_of flags of
          Some level \<Rightarrow> (Available deliveries, Available level)
        | None \<Rightarrow> (Available deliveries, ObsError Obs_MalformedKernelData))"

text \<open>
  The loads of the three counters, each after some number of stores; \<open>i \<le> j \<le> k\<close> because one
  follows the other.
\<close>

definition monitor_observation ::
    "pressure_store list \<Rightarrow> nat \<Rightarrow> nat \<Rightarrow> nat \<Rightarrow> timespec \<Rightarrow> dur \<Rightarrow> dur
     \<Rightarrow> u64 observed \<times> memory_pressure_level observed" where
  "monitor_observation stores i j k time captured_at max_age =
     (let deliveries = pc_deliveries (counters_after stores i);
          flags = pc_latest_mask (counters_after stores j);
          event_ns = pc_last_event_ns (counters_after stores k);
          now_ns = (case monotonic_ns time of None \<Rightarrow> event_ns | Some ns \<Rightarrow> ns)
      in pressure_observation deliveries flags event_ns now_ns captured_at max_age)"

section \<open>Swap\<close>

definition SIZE_OF_SWAP_USAGE :: u64 where "SIZE_OF_SWAP_USAGE = 32"

record swap_usage =
  su_total :: u64
  su_available :: u64
  su_used :: u64

text \<open>
  \<open>sysctlbyname\<close>: the error number when it returned non-zero, and the length and the structure it
  wrote; the error number is also what is read when the length is wrong.
\<close>

definition read_swap_bytes :: "bool \<Rightarrow> u64 \<Rightarrow> swap_usage \<Rightarrow> sys_errno \<Rightarrow> u64 observed" where
  "read_swap_bytes succeeded written usage errno =
     (if \<not> succeeded \<or> written \<noteq> SIZE_OF_SWAP_USAGE then classify_system_error errno
      else Available (su_used usage))"

section \<open>Virtual memory\<close>

text \<open>The two counters that are read, and the size of the whole structure in \<open>int\<close>s.\<close>

record vm_statistics =
  vm_wire_count :: u32
  vm_compressor_page_count :: u32

definition VM_STATISTICS_COUNT :: u32 where "VM_STATISTICS_COUNT = 48"
definition VM_REQUIRED_COUNT :: nat where "VM_REQUIRED_COUNT = (128 + 4) div 4"

definition system_error_pair :: "u64 observed \<times> u64 observed" where
  "system_error_pair = (ObsError Obs_Internal, ObsError Obs_Internal)"

definition vm_bytes :: "u64 \<Rightarrow> vm_statistics \<Rightarrow> u64 observed \<times> u64 observed" where
  "vm_bytes page_size statistics =
     (case (checked_mul (ucast (vm_compressor_page_count statistics)) page_size,
            checked_mul (ucast (vm_wire_count statistics)) page_size) of
        (Some compressor, Some wired) \<Rightarrow> (Available compressor, Available wired)
      | _ \<Rightarrow> system_error_pair)"

text \<open>
  The host port, what \<open>host_page_size\<close> and \<open>host_statistics64\<close> answer (\<open>None\<close> unless they return
  \<open>KERN_SUCCESS\<close>; the second is given the size of the buffer and returns the size it filled), and the
  ports that were released at the end, by the drop of \<open>HostPort\<close>.
\<close>

definition read_host_bytes ::
    "u64 option \<Rightarrow> (u32 \<Rightarrow> (u32 \<times> vm_statistics) option) \<Rightarrow> u64 observed \<times> u64 observed" where
  "read_host_bytes host_page_size host_statistics64 =
     (case host_page_size of
        None \<Rightarrow> system_error_pair
      | Some page_size \<Rightarrow>
          (case host_statistics64 VM_STATISTICS_COUNT of
             None \<Rightarrow> system_error_pair
           | Some (count, statistics) \<Rightarrow>
               (if unat count < VM_REQUIRED_COUNT then system_error_pair
                else vm_bytes page_size statistics)))"

definition drop_host_port :: "u32 \<Rightarrow> u32 list" where
  "drop_host_port host = (if host \<noteq> 0 then [host] else [])"

definition read_vm_bytes ::
    "u32 \<Rightarrow> u64 option \<Rightarrow> (u32 \<Rightarrow> (u32 \<times> vm_statistics) option)
     \<Rightarrow> u32 list \<times> u64 observed \<times> u64 observed" where
  "read_vm_bytes host host_page_size host_statistics64 =
     (drop_host_port host,
      if host = 0 then system_error_pair else read_host_bytes host_page_size host_statistics64)"

section \<open>The snapshot\<close>

text \<open>
  What the platform answers during one snapshot: the state of the pressure monitor as its loads see
  it, and the answers of the other calls.
\<close>

record native_answers =
  na_loads :: "nat \<times> nat \<times> nat"
  na_time :: timespec
  na_swap :: "bool \<times> u64 \<times> swap_usage \<times> sys_errno"
  na_host :: u32
  na_page_size :: "u64 option"
  na_statistics :: "u32 \<Rightarrow> (u32 \<times> vm_statistics) option"

text \<open>The monitor is absent or has received a sequence of stores.\<close>

definition native_snapshot ::
    "pressure_store list option \<Rightarrow> native_answers \<Rightarrow> dur \<Rightarrow> dur \<Rightarrow> advisory_snapshot" where
  "native_snapshot monitor w captured_at max_pressure_age =
     (let (pressure_events, pressure_level) =
            (case monitor of
               None \<Rightarrow> (Unavailable NotSupported, Unavailable NotSupported)
             | Some stores \<Rightarrow>
                 (case na_loads w of (i, j, k) \<Rightarrow>
                    monitor_observation stores i j k (na_time w) captured_at max_pressure_age));
          swap_bytes =
            (case na_swap w of (succeeded, written, usage, errno) \<Rightarrow>
               read_swap_bytes succeeded written usage errno);
          (compressor_bytes, wired_bytes) =
            snd (read_vm_bytes (na_host w) (na_page_size w) (na_statistics w))
      in \<lparr>as_captured_at = captured_at,
          as_pressure_events = pressure_events,
          as_pressure_level = pressure_level,
          as_swap_bytes = swap_bytes,
          as_compressor_bytes = compressor_bytes,
          as_wired_bytes = wired_bytes\<rparr>)"

end
