(* ===== verification/Native_Props.thy ===== *)
theory Native_Props
  imports Native
begin

text \<open>
  What the native observers may report: how far the three loads of a pressure observation can be
  apart from the stores of a running handler, and which answers of the platform become values.
\<close>

unbundle bit_operations_syntax

section \<open>The counters during the handler\<close>

definition stores_of :: "(u64 \<times> timespec) list \<Rightarrow> pressure_store list" where
  "stores_of events = concat (map (\<lambda>(source_data, time). pressure_event False source_data time) events)"

definition event_ns :: "timespec \<Rightarrow> u64" where
  "event_ns time = (case monotonic_ns time of None \<Rightarrow> 0 | Some ns \<Rightarrow> ns)"

lemma stores_of_Nil [simp]: "stores_of [] = []"
  by (simp add: stores_of_def)

lemma stores_of_snoc:
  "stores_of (events @ [(source_data, time)]) =
     stores_of events @ [Store_Mask (source_data AND PRESSURE_MASK), Store_Event_Ns (event_ns time),
       Add_Delivery]"
  by (simp add: stores_of_def pressure_event_def event_ns_def)

lemma length_stores_of [simp]: "length (stores_of events) = 3 * length events"
  by (induction events rule: rev_induct) (auto simp: stores_of_snoc)

text \<open>The counters after \<open>n\<close> stores: the last event that stored each field, and the events done.\<close>

definition stored :: "('a \<times> 'b \<Rightarrow> u64) \<Rightarrow> ('a \<times> 'b) list \<Rightarrow> nat \<Rightarrow> u64" where
  "stored f events n = (if n = 0 then 0 else f (events ! (n - 1)))"

lemma stored_append: "n \<le> length events \<Longrightarrow> stored f (events @ later) n = stored f events n"
  by (auto simp: stored_def nth_append)

definition counted :: "nat \<Rightarrow> u64" where
  "counted n = of_nat (min n (2 ^ 64 - 1))"

lemma counted_Suc: "counted (Suc n) = sat_add (counted n) 1"
proof (cases "n < 2 ^ 64 - 1")
  case True
  then have "unat (counted n) = n" by (simp add: counted_def unat_of_nat)
  with True have "unat (sat_add (counted n) 1) = Suc n"
    by (simp add: unat_sat_add)
  then show ?thesis using True
    by (metis Suc_leI counted_def min.absorb1 of_nat_unat ucast_id)
next
  case False
  then have "counted n = - 1" "counted (Suc n) = - 1"
    by (simp_all add: counted_def min_def)
  then show ?thesis
    by (simp add: sat_add_def unat_minus_one_max)
qed

lemma counters_after_stores:
  assumes "n \<le> 3 * length events"
  shows "counters_after (stores_of events) n =
     \<lparr>pc_deliveries = counted (n div 3),
      pc_latest_mask = stored (\<lambda>e. fst e AND PRESSURE_MASK) events ((n + 2) div 3),
      pc_last_event_ns = stored (\<lambda>e. event_ns (snd e)) events ((n + 1) div 3)\<rparr>"
  using assms
proof (induction events arbitrary: n rule: rev_induct)
  case Nil
  then show ?case by (simp add: counters_after_def counters_new_def counted_def stored_def)
next
  case (snoc e events)
  obtain source_data time where e: "e = (source_data, time)" by (cases e)
  let ?m = "3 * length events"
  have before: "counters_after (stores_of (events @ [e])) n = counters_after (stores_of events) n"
    if "n \<le> ?m" for n
    using that by (simp add: counters_after_def e stores_of_snoc)
  have divs: "Suc (Suc ?m) div 3 = length events" "Suc ?m div 3 = length events"
    "Suc (Suc (Suc ?m)) div 3 = Suc (length events)"
    "Suc (Suc (Suc (Suc ?m))) div 3 = Suc (length events)"
    "Suc (Suc (Suc (Suc (Suc ?m)))) div 3 = Suc (length events)"
    by presburger+
  have until: "counters_after (stores_of events) ?m =
     \<lparr>pc_deliveries = counted (length events),
      pc_latest_mask = stored (\<lambda>e. fst e AND PRESSURE_MASK) events (length events),
      pc_last_event_ns = stored (\<lambda>e. event_ns (snd e)) events (length events)\<rparr>"
    using snoc.IH [OF order_refl] by (simp add: divs)
  consider "n \<le> ?m" | "n = ?m + 1" | "n = ?m + 2" | "n = ?m + 3"
    using snoc.prems by fastforce
  then show ?case
  proof cases
    case 1
    then have "(n + 2) div 3 \<le> length events" "(n + 1) div 3 \<le> length events" by auto
    then show ?thesis using before [OF 1] snoc.IH [OF 1] by (simp add: stored_append)
  next
    case 2
    then show ?thesis
      using until
      by (simp add: counters_after_def e stores_of_snoc stored_append divs)
        (simp add: stored_def)
  next
    case 3
    then show ?thesis
      using until
      by (simp add: counters_after_def e stores_of_snoc stored_append divs)
        (simp add: stored_def)
  next
    case 4
    then show ?thesis
      using until
      by (simp add: counters_after_def e stores_of_snoc stored_append divs counted_Suc)
        (simp add: stored_def)
  qed
qed

lemma counters_after_all:
  "counters_after (stores_of events) n = counters_after (stores_of events) (min n (3 * length events))"
  by (simp add: counters_after_def min_def)

section \<open>What an observation claims\<close>

lemma masked_level: "pressure_level_of (source_data AND PRESSURE_MASK) = pressure_level_of source_data"
proof -
  have "PRESSURE_MASK AND PRESSURE_CRITICAL = PRESSURE_CRITICAL"
    "PRESSURE_MASK AND PRESSURE_WARNING = PRESSURE_WARNING"
    "PRESSURE_MASK AND PRESSURE_NORMAL = PRESSURE_NORMAL"
    by (simp_all add: PRESSURE_MASK_def PRESSURE_CRITICAL_def PRESSURE_WARNING_def PRESSURE_NORMAL_def)
  then show ?thesis by (simp add: pressure_level_of_def and.assoc)
qed

lemma pressure_observation_level:
  assumes "pressure_observation deliveries flags stored_ns now_ns captured_at max_age
     = (events, Available level)"
  shows "events = Available deliveries" "deliveries \<noteq> 0" "pressure_level_of flags = Some level"
    "sat_sub now_ns stored_ns \<le> duration_ns max_age"
  using assms
  by (auto simp: pressure_observation_def Let_def not_less split: if_splits option.splits)

definition clock_or :: "timespec \<Rightarrow> u64 \<Rightarrow> u64" where
  "clock_or time fallback = (case monotonic_ns time of None \<Rightarrow> fallback | Some ns \<Rightarrow> ns)"

lemma stored_event:
  assumes "0 < n" and "n \<le> length events"
  shows "\<exists>e < length events. Suc e = n \<and> stored f events n = f (events ! e)"
  using assms by (intro exI [of _ "n - 1"]) (auto simp: stored_def)

text \<open>C29. A pressure level that is reported is one the system delivered. Whatever stores of the handler
  fall between the three loads of an observation: if it reports a level, the count it reports is that
  of the deliveries completed before its first load and is not zero, the level is that of a delivered
  event, and the age that was compared with the bound is that of a delivered event too, not always
  the same one: it may be newer than the level (\<open>superseded_level_can_look_fresh\<close>), and is at most
  one event older. Both events are at least as recent as the deliveries counted. The zeros the
  counters start with are never taken for an event.\<close>

theorem reported_pressure_was_delivered:
  assumes "i \<le> j" and "j \<le> k"
    and reading: "monitor_observation (stores_of events) i j k time captured_at max_age
      = (count, Available level)"
  shows "\<exists>e f. e < length events \<and> f < length events \<and> e \<le> Suc f
     \<and> min i (3 * length events) div 3 \<le> Suc e \<and> min i (3 * length events) div 3 \<le> Suc f
     \<and> 0 < min i (3 * length events) div 3
     \<and> count = Available (of_nat (min (min i (3 * length events) div 3) (2 ^ 64 - 1)))
     \<and> pressure_level_of (fst (events ! e)) = Some level
     \<and> sat_sub (clock_or time (event_ns (snd (events ! f)))) (event_ns (snd (events ! f)))
         \<le> duration_ns max_age"
proof -
  let ?n = "3 * length events"
  define a b c where "a = min i ?n div 3" and "b = (min j ?n + 2) div 3" and "c = (min k ?n + 1) div 3"
  have order: "a \<le> b" "a \<le> c" "b \<le> Suc c" "b \<le> length events" "c \<le> length events"
    using assms(1,2) by (auto simp: a_def b_def c_def)
  have "counters_after (stores_of events) n =
     \<lparr>pc_deliveries = counted (min n ?n div 3),
      pc_latest_mask = stored (\<lambda>e. fst e AND PRESSURE_MASK) events ((min n ?n + 2) div 3),
      pc_last_event_ns = stored (\<lambda>e. event_ns (snd e)) events ((min n ?n + 1) div 3)\<rparr>" for n
    by (subst counters_after_all, rule counters_after_stores) simp
  note counters = this [THEN arg_cong [of _ _ pc_deliveries]]
    this [THEN arg_cong [of _ _ pc_latest_mask]] this [THEN arg_cong [of _ _ pc_last_event_ns]]
  have counters:
    "pc_deliveries (counters_after (stores_of events) i) = counted a"
    "pc_latest_mask (counters_after (stores_of events) j)
      = stored (\<lambda>e. fst e AND PRESSURE_MASK) events b"
    "pc_last_event_ns (counters_after (stores_of events) k)
      = stored (\<lambda>e. event_ns (snd e)) events c"
    unfolding a_def b_def c_def by (simp_all only: counters pressure_counters.simps)
  have "pressure_observation (counted a) (stored (\<lambda>e. fst e AND PRESSURE_MASK) events b)
      (stored (\<lambda>e. event_ns (snd e)) events c)
      (clock_or time (stored (\<lambda>e. event_ns (snd e)) events c)) captured_at max_age
    = (count, Available level)"
    using reading by (simp only: monitor_observation_def Let_def counters clock_or_def)
  note reading = pressure_observation_level [OF this]
  from reading(2) have "0 < a" by (cases a) (auto simp: counted_def)
  with order have "0 < b" "0 < c" by auto
  from stored_event [OF this(1) order(4), of "\<lambda>e. fst e AND PRESSURE_MASK"] obtain e where e: "e < length events" "Suc e = b"
    "stored (\<lambda>e. fst e AND PRESSURE_MASK) events b = fst (events ! e) AND PRESSURE_MASK"
    by blast
  from stored_event [OF \<open>0 < c\<close> order(5), of "\<lambda>e. event_ns (snd e)"] obtain f where f: "f < length events" "Suc f = c"
    "stored (\<lambda>e. event_ns (snd e)) events c = event_ns (snd (events ! f))"
    by blast
  have "e \<le> Suc f" "a \<le> Suc e" "a \<le> Suc f" using order e(2) f(2) by auto
  moreover have "pressure_level_of (fst (events ! e)) = Some level"
    using reading(3) by (simp add: e(3) masked_level)
  moreover have "count = Available (of_nat (min a (2 ^ 64 - 1)))"
    using reading(1) by (simp only: counted_def)
  moreover have "sat_sub (clock_or time (event_ns (snd (events ! f)))) (event_ns (snd (events ! f)))
      \<le> duration_ns max_age"
    using reading(4) by (simp only: f(3))
  ultimately show ?thesis
    using e(1) f(1) \<open>0 < a\<close> unfolding a_def [symmetric] by blast
qed

section \<open>Values of the system\<close>

lemma checked_mul_exact:
  "checked_mul (ucast (pages :: u32)) (page_size :: u64) = Some v
   \<longleftrightarrow> unat v = unat pages * unat page_size"
proof -
  have "unat pages < 2 ^ LENGTH(32)" by (rule unsigned_less)
  then have "unat pages < 2 ^ 64" by simp
  then have "unat (ucast pages :: u64) = unat pages"
    by (simp add: unsigned_ucast_eq take_bit_nat_eq_self)
  then show ?thesis by (simp add: checked_mul_Some)
qed

lemma vm_bytes_available:
  "vm_bytes page_size statistics = (Available c, Available w)
   \<longleftrightarrow> unat c = unat (vm_compressor_page_count statistics) * unat page_size
     \<and> unat w = unat (vm_wire_count statistics) * unat page_size"
  by (auto simp: vm_bytes_def system_error_pair_def checked_mul_exact [symmetric]
      split: option.splits)

lemma vm_bytes_cases:
  "vm_bytes page_size statistics = system_error_pair
   \<or> (\<exists>c w. vm_bytes page_size statistics = (Available c, Available w))"
  by (auto simp: vm_bytes_def split: option.splits)

lemma read_vm_bytes_available:
  "read_vm_bytes host host_page_size host_statistics64 = (released, Available c, Available w)
   \<longleftrightarrow> host \<noteq> 0 \<and> released = [host]
     \<and> (\<exists>page_size count statistics. host_page_size = Some page_size
          \<and> host_statistics64 VM_STATISTICS_COUNT = Some (count, statistics)
          \<and> VM_REQUIRED_COUNT \<le> unat count
          \<and> unat c = unat (vm_compressor_page_count statistics) * unat page_size
          \<and> unat w = unat (vm_wire_count statistics) * unat page_size)"
  by (auto simp: read_vm_bytes_def read_host_bytes_def drop_host_port_def vm_bytes_available
      system_error_pair_def not_less split: option.splits prod.splits if_splits)

lemma read_vm_bytes_both:
  "snd (read_vm_bytes host host_page_size host_statistics64) = system_error_pair
   \<or> (\<exists>c w. snd (read_vm_bytes host host_page_size host_statistics64) = (Available c, Available w))"
  using vm_bytes_cases
  by (auto simp: read_vm_bytes_def read_host_bytes_def split: option.splits)

lemma classify_system_error_failed: "classify_system_error errno \<noteq> Available v"
  by (cases errno) auto

lemma read_swap_bytes_available:
  "read_swap_bytes succeeded written usage errno = Available v
   \<longleftrightarrow> succeeded \<and> written = SIZE_OF_SWAP_USAGE \<and> v = su_used usage"
  by (auto simp: read_swap_bytes_def classify_system_error_failed)

lemma native_snapshot_fields:
  "as_swap_bytes (native_snapshot monitor w captured_at max_age) =
     (case na_swap w of (succeeded, written, usage, errno) \<Rightarrow>
        read_swap_bytes succeeded written usage errno)"
  "as_compressor_bytes (native_snapshot monitor w captured_at max_age) =
     fst (snd (read_vm_bytes (na_host w) (na_page_size w) (na_statistics w)))"
  "as_wired_bytes (native_snapshot monitor w captured_at max_age) =
     snd (snd (read_vm_bytes (na_host w) (na_page_size w) (na_statistics w)))"
  by (simp_all add: native_snapshot_def Let_def split: prod.splits option.splits)

lemma system_metrics_available_iff:
  "system_metrics_available s
   \<longleftrightarrow> (\<exists>b c w. as_swap_bytes s = Available b \<and> as_compressor_bytes s = Available c
        \<and> as_wired_bytes s = Available w)"
  by (auto simp: system_metrics_available_def split: observed.splits)

text \<open>The system metrics of a snapshot count as available exactly when every call succeeded, filled
  as much as is read and left products that fit 64 bits; the values are then exactly what the system
  reported: the swap in use, and the pages held by the compressor and wired times the page size. A
  compressor value never comes without a wired value, and the host port that was taken is released
  whatever happened.
\<close>

theorem system_metrics_are_exact:
  "(system_metrics_available (native_snapshot monitor w captured_at max_age)
      \<longleftrightarrow> fst (na_swap w) \<and> fst (snd (na_swap w)) = SIZE_OF_SWAP_USAGE \<and> na_host w \<noteq> 0
        \<and> (\<exists>page_size count statistics. na_page_size w = Some page_size
             \<and> na_statistics w VM_STATISTICS_COUNT = Some (count, statistics)
             \<and> VM_REQUIRED_COUNT \<le> unat count
             \<and> unat (vm_compressor_page_count statistics) * unat page_size < 2 ^ 64
             \<and> unat (vm_wire_count statistics) * unat page_size < 2 ^ 64))
   \<and> (\<forall>b. as_swap_bytes (native_snapshot monitor w captured_at max_age) = Available b
        \<longrightarrow> b = su_used (fst (snd (snd (na_swap w)))))
   \<and> (\<forall>c. as_compressor_bytes (native_snapshot monitor w captured_at max_age) = Available c
        \<longrightarrow> (\<exists>page_size count statistics wired. na_page_size w = Some page_size
             \<and> na_statistics w VM_STATISTICS_COUNT = Some (count, statistics)
             \<and> unat c = unat (vm_compressor_page_count statistics) * unat page_size
             \<and> as_wired_bytes (native_snapshot monitor w captured_at max_age) = Available wired
             \<and> unat wired = unat (vm_wire_count statistics) * unat page_size))
   \<and> fst (read_vm_bytes (na_host w) (na_page_size w) (na_statistics w))
       = (if na_host w = 0 then [] else [na_host w])"
proof -
  let ?s = "native_snapshot monitor w captured_at max_age"
  let ?r = "read_vm_bytes (na_host w) (na_page_size w) (na_statistics w)"
  obtain succeeded written usage errno where swap: "na_swap w = (succeeded, written, usage, errno)"
    by (cases "na_swap w")
  have swap_iff: "as_swap_bytes ?s = Available b
      \<longleftrightarrow> succeeded \<and> written = SIZE_OF_SWAP_USAGE \<and> b = su_used usage" for b
    by (simp add: native_snapshot_fields swap read_swap_bytes_available)
  have vm_iff: "as_compressor_bytes ?s = Available c \<and> as_wired_bytes ?s = Available v
      \<longleftrightarrow> ?r = (fst ?r, Available c, Available v)" for c v
    by (auto simp: native_snapshot_fields prod_eq_iff)
  have both: "\<exists>v. as_wired_bytes ?s = Available v" if "as_compressor_bytes ?s = Available c" for c
    using read_vm_bytes_both [of "na_host w" "na_page_size w" "na_statistics w"] that
    by (auto simp: native_snapshot_fields system_error_pair_def)
  have word: "\<exists>c. unat (c :: u64) = n" if "n < 2 ^ 64" for n
    using that by (intro exI [of _ "of_nat n"]) (simp add: unat_of_nat)
  have exact: "\<exists>page_size count statistics wired. na_page_size w = Some page_size
             \<and> na_statistics w VM_STATISTICS_COUNT = Some (count, statistics)
             \<and> unat c = unat (vm_compressor_page_count statistics) * unat page_size
             \<and> as_wired_bytes ?s = Available wired
             \<and> unat wired = unat (vm_wire_count statistics) * unat page_size"
    if "as_compressor_bytes ?s = Available c" for c
    using both [OF that] that vm_iff [of c] by (fastforce simp: read_vm_bytes_available)
  have "system_metrics_available ?s
      \<longleftrightarrow> succeeded \<and> written = SIZE_OF_SWAP_USAGE
        \<and> (\<exists>c v. ?r = (fst ?r, Available c, Available v))"
    by (auto simp: system_metrics_available_iff swap_iff simp flip: vm_iff)
  also have "\<dots> \<longleftrightarrow> succeeded \<and> written = SIZE_OF_SWAP_USAGE \<and> na_host w \<noteq> 0
        \<and> (\<exists>page_size count statistics. na_page_size w = Some page_size
             \<and> na_statistics w VM_STATISTICS_COUNT = Some (count, statistics)
             \<and> VM_REQUIRED_COUNT \<le> unat count
             \<and> (\<exists>c :: u64. unat c = unat (vm_compressor_page_count statistics) * unat page_size)
             \<and> (\<exists>v :: u64. unat v = unat (vm_wire_count statistics) * unat page_size))"
    unfolding read_vm_bytes_available by (auto simp: read_vm_bytes_def drop_host_port_def)
  finally have available: "system_metrics_available ?s \<longleftrightarrow> \<dots>" .
  have bound: "unat c < 2 ^ 64" for c :: u64
    using unsigned_less [of c, where ?'a = nat] by simp
  have small: "(\<exists>c :: u64. unat c = n) \<longleftrightarrow> n < 2 ^ 64" for n
    using word [of n] bound by metis
  show ?thesis
    unfolding available small swap
    using exact by (auto simp: swap_iff read_vm_bytes_def drop_host_port_def)
qed

section \<open>Witnesses\<close>

text \<open>Two deliveries, and an observation that begins while the handler of the second runs.\<close>

definition demo_events :: "(u64 \<times> timespec) list" where
  "demo_events = [(2, Some (0, 5)), (4, Some (0, 7))]"

lemma demo_reading:
  "monitor_observation (stores_of demo_events) 4 5 6 (Some (0, 10)) 100 1000
     = (Available 1, Available Pressure_Critical)"
  by (simp add: monitor_observation_def demo_events_def stores_of_def pressure_event_def
      counters_after_def counters_new_def monotonic_ns_def u64_try_from_def checked_mul_def
      checked_add_def sat_add_def sat_sub_def pressure_observation_def duration_ns_def
      pressure_level_of_def PRESSURE_MASK_def PRESSURE_NORMAL_def PRESSURE_WARNING_def
      PRESSURE_CRITICAL_def)

theorem reported_pressure_was_delivered_witness:
  "\<exists>e f. e < length demo_events \<and> f < length demo_events \<and> e \<le> Suc f
     \<and> pressure_level_of (fst (demo_events ! e)) = Some Pressure_Critical
     \<and> sat_sub (clock_or (Some (0, 10)) (event_ns (snd (demo_events ! f))))
         (event_ns (snd (demo_events ! f))) \<le> duration_ns 1000"
  using reported_pressure_was_delivered [OF _ _ demo_reading] by auto

definition demo_answers :: native_answers where
  "demo_answers =
    \<lparr>na_loads = (0, 0, 0), na_time = None,
     na_swap = (True, 32, \<lparr>su_total = 9, su_available = 4, su_used = 5\<rparr>, Errno_Other),
     na_host = 7, na_page_size = Some 16384,
     na_statistics = (\<lambda>size. Some (size, \<lparr>vm_wire_count = 3, vm_compressor_page_count = 2\<rparr>))\<rparr>"

theorem system_metrics_are_exact_witness:
  "system_metrics_available (native_snapshot None demo_answers 0 0)
   \<and> as_compressor_bytes (native_snapshot None demo_answers 0 0) = Available 32768
   \<and> as_wired_bytes (native_snapshot None demo_answers 0 0) = Available 49152"
proof -
  have "as_compressor_bytes (native_snapshot None demo_answers 0 0) = Available 32768"
    by (simp add: native_snapshot_fields demo_answers_def read_vm_bytes_def read_host_bytes_def
        VM_STATISTICS_COUNT_def VM_REQUIRED_COUNT_def vm_bytes_def checked_mul_def)
  note compressor = this
  note exact = system_metrics_are_exact [of None demo_answers 0 0]
  have available: "system_metrics_available (native_snapshot None demo_answers 0 0)"
    by (rule exact [THEN conjunct1, THEN iffD2])
      (simp add: demo_answers_def SIZE_OF_SWAP_USAGE_def VM_STATISTICS_COUNT_def VM_REQUIRED_COUNT_def)
  from exact [THEN conjunct2, THEN conjunct2, THEN conjunct1, rule_format, OF compressor]
  have "as_wired_bytes (native_snapshot None demo_answers 0 0) = Available 49152"
    by (auto simp: demo_answers_def VM_STATISTICS_COUNT_def word_unat_eq_iff)
  with available compressor show ?thesis by simp
qed

text \<open>
  The level and the time of an observation can belong to different events: if the handler of a new
  event runs between the loads of the level and of the time, a level older than the bound is reported
  as fresh, although its own event is not.
\<close>

lemma superseded_level_can_look_fresh:
  "\<exists>events i j k time captured_at max_age. i \<le> j \<and> j \<le> k
     \<and> monitor_observation (stores_of events) i j k time captured_at max_age
       = (Available 1, Available Pressure_Normal)
     \<and> (\<forall>(source_data, event_time) \<in> set events. pressure_level_of source_data = Some Pressure_Normal
          \<longrightarrow> duration_ns max_age < sat_sub (clock_or time 0) (event_ns event_time))"
proof -
  define events :: "(u64 \<times> timespec) list" where "events = [(1, Some (1, 0)), (4, Some (1000, 0))]"
  have "monitor_observation (stores_of events) 3 3 5 (Some (1000, 1)) 0 1000000000
      = (Available 1, Available Pressure_Normal)"
    by (simp add: monitor_observation_def events_def stores_of_def pressure_event_def
        counters_after_def counters_new_def monotonic_ns_def u64_try_from_def checked_mul_def
        checked_add_def sat_add_def sat_sub_def pressure_observation_def duration_ns_def
        pressure_level_of_def PRESSURE_MASK_def PRESSURE_NORMAL_def PRESSURE_WARNING_def
        PRESSURE_CRITICAL_def)
  moreover have "\<forall>(source_data, event_time) \<in> set events. pressure_level_of source_data = Some Pressure_Normal
      \<longrightarrow> duration_ns 1000000000 < sat_sub (clock_or (Some (1000, 1)) 0) (event_ns event_time)"
    by (simp add: events_def pressure_level_of_def PRESSURE_NORMAL_def PRESSURE_WARNING_def
        PRESSURE_CRITICAL_def duration_ns_def sat_sub_def clock_or_def event_ns_def monotonic_ns_def
        u64_try_from_def checked_mul_def checked_add_def)
  ultimately show ?thesis by (metis order_refl le_numeral_simps le_num_simps)
qed

end
