(* ===== verification/Inventory.thy ===== *)
theory Inventory
  imports Process Cli
begin

text \<open>
  The rest of \<^verbatim>\<open>mlx-guard-core/src/identity.rs\<close>: the whole-system snapshot, the capability probe, the
  wait for the owned group to empty, and the inventories of Linux (\<^verbatim>\<open>/proc\<close>) and of the other
  platforms. The Darwin inspection and the scan of related processes are in \<^verbatim>\<open>Process\<close>. The answers
  of the system calls are arguments.
\<close>

section \<open>Error texts\<close>

fun identity_unavailable_text :: "identity_unavailable \<Rightarrow> string" where
  "identity_unavailable_text Ident_Disappeared = ''process disappeared''"
| "identity_unavailable_text Ident_PermissionDenied = ''process observation was denied''"
| "identity_unavailable_text Ident_Stale = ''process identity changed''"
| "identity_unavailable_text Ident_MalformedData = ''process metadata was malformed''"
| "identity_unavailable_text Ident_Unsupported = ''process inventory is unsupported''"
| "identity_unavailable_text Ident_Unavailable = ''process inventory is unavailable''"

text \<open>A snapshot error shows nothing of its kind.\<close>

definition snapshot_error_text :: "observation_failure_kind \<Rightarrow> string" where
  "snapshot_error_text kind = ''process enumeration failed''"

section \<open>Darwin\<close>

text \<open>The estimate of the first call, then the count and the buffer of the second.\<close>

definition list_pids :: "int \<Rightarrow> (nat \<Rightarrow> int \<times> i32 list) \<Rightarrow> observation_failure_kind + i32 list" where
  "list_pids estimate fill =
     (if estimate \<le> 0 then Err Fail_EnumerationFailed
      else
        let capacity = nat estimate + 128 in
        if 2 ^ 31 \<le> capacity * 4 then Err Fail_EnumerationFailed
        else
          let (count, buffer) = fill capacity in
          if count < 0 then Err Fail_EnumerationFailed
          else Ok (filter (\<lambda>pid. 0 < pid) (take (nat count) buffer)))"

definition probe_footprint :: "inventory \<Rightarrow> i32 \<Rightarrow> identity_unavailable + unit" where
  "probe_footprint inspect current_pid =
     (case inspect current_pid of
        Inl e \<Rightarrow> Err e
      | Inr ob \<Rightarrow>
          (case po_footprint_bytes ob of None \<Rightarrow> Err Ident_Unsupported | Some _ \<Rightarrow> Ok ()))"

definition system_snapshot ::
    "observation_failure_kind + i32 list \<Rightarrow> inventory \<Rightarrow> observation_failure_kind + process_snapshot" where
  "system_snapshot pids inspect =
     (case pids of Inl e \<Rightarrow> Err e | Inr pids \<Rightarrow> Ok (snapshot_pids inspect pids))"

text \<open>\<open>FootprintSampler::sample_native\<close>: a snapshot between two readings of the clock of the run.\<close>

definition sample_native ::
    "footprint_sampler \<Rightarrow> dur \<Rightarrow> dur \<Rightarrow> observation_failure_kind + i32 list
     \<Rightarrow> (i32 \<Rightarrow> observation_failure_kind + i32 list) \<Rightarrow> inventory
     \<Rightarrow> (footprint_sampler \<times> footprint_sample) option" where
  "sample_native sm started_at finished_at members children inspect =
     map_option (record_snapshot sm started_at finished_at)
       (snapshot_for_tracker (sm_tracker sm) members children inspect)"

section \<open>Waiting for the owned group to empty\<close>

definition tracker_group_exists :: "sys_kill \<Rightarrow> identity_tracker \<Rightarrow> bool" where
  "tracker_group_exists kill t =
     (case kill (- it_owned_group t) 0 of None \<Rightarrow> True | Some e \<Rightarrow> e = EPERM)"

definition snapshot_scope :: "identity_tracker \<Rightarrow> process_identity \<times> i32 \<times> i32 list" where
  "snapshot_scope t = (it_root t, it_owned_group t, map id_pid (RBT.keys (it_tracked t)))"

record cleanup_report =
  cr_owned_group_empty :: bool
  cr_complete :: bool
  cr_survivors :: "process_identity list"
  cr_escaped_identities :: "process_identity list"
  cr_observation_failures :: "observation_failure list"

text \<open>What one iteration sees: the answers of the inventory and of the group query, and the clock at
  the test of the deadline and before the pause.\<close>

record cleanup_poll =
  cl_members :: "observation_failure_kind + i32 list"
  cl_children :: "i32 \<Rightarrow> observation_failure_kind + i32 list"
  cl_inspect :: inventory
  cl_kill :: sys_kill
  cl_now :: dur
  cl_pause_at :: dur

definition cleanup_failed :: "observation_failure_kind \<Rightarrow> cleanup_report" where
  "cleanup_failed kind =
     \<lparr>cr_owned_group_empty = False, cr_complete = False, cr_survivors = [],
      cr_escaped_identities = [],
      cr_observation_failures = [\<lparr>of_pid = None, of_kind = kind\<rparr>]\<rparr>"

definition cleanup_result ::
    "identity_tracker \<Rightarrow> tracking_frame \<Rightarrow> process_identity list \<Rightarrow> bool \<Rightarrow> cleanup_report" where
  "cleanup_result t frame survivors group_exists =
     (let owned_group_empty = (survivors = [] \<and> \<not> group_exists);
          observation_failures = tf_observation_failures frame
            @ (if group_exists \<and> survivors = []
               then [\<lparr>of_pid = None, of_kind = Fail_EnumerationFailed\<rparr>] else []);
          escaped_identities = sorted_list_of_set (it_escaped t)
      in \<lparr>cr_owned_group_empty = owned_group_empty,
          cr_complete = (owned_group_empty \<and> escaped_identities = [] \<and> observation_failures = []),
          cr_survivors = survivors,
          cr_escaped_identities = escaped_identities,
          cr_observation_failures = observation_failures\<rparr>)"

text \<open>
  The loop over the polls the world provides: the tracker, the report and the pauses slept. \<open>None\<close>
  when the polls given are used up before it returns, or an enumeration of processes does not end.
\<close>

fun cleanup_loop ::
    "dur \<Rightarrow> dur \<Rightarrow> identity_tracker \<Rightarrow> cleanup_poll list
     \<Rightarrow> (identity_tracker \<times> cleanup_report \<times> dur list) option" where
  "cleanup_loop deadline poll_interval t [] = None"
| "cleanup_loop deadline poll_interval t (p # ps) =
     (case snapshot_for_tracker t (cl_members p) (cl_children p) (cl_inspect p) of
        None \<Rightarrow> None
      | Some (Inl kind) \<Rightarrow> Some (t, cleanup_failed kind, [])
      | Some (Inr snapshot) \<Rightarrow>
          (let (t, frame) = tracker_update t snapshot;
               survivors = map po_identity (tf_owned_members frame);
               group_exists = tracker_group_exists (cl_kill p) t
           in if survivors = [] \<and> \<not> group_exists \<or> deadline \<le> cl_now p
              then Some (t, cleanup_result t frame survivors group_exists, [])
              else map_option (\<lambda>(t, report, pauses).
                     (t, report, min poll_interval (dur_sat_sub deadline (cl_pause_at p)) # pauses))
                     (cleanup_loop deadline poll_interval t ps)))"

definition wait_for_owned_group_empty ::
    "identity_tracker \<Rightarrow> dur \<Rightarrow> dur \<Rightarrow> dur \<Rightarrow> cleanup_poll list
     \<Rightarrow> (identity_tracker \<times> cleanup_report \<times> dur list) option" where
  "wait_for_owned_group_empty t started timeout poll_interval polls =
     cleanup_loop (started + timeout) poll_interval t polls"

section \<open>Linux\<close>

datatype io_error_kind = IO_NotFound | IO_PermissionDenied | IO_Other

fun classify_io :: "io_error_kind \<Rightarrow> identity_unavailable" where
  "classify_io IO_NotFound = Ident_Disappeared"
| "classify_io IO_PermissionDenied = Ident_PermissionDenied"
| "classify_io IO_Other = Ident_Unavailable"

text \<open>
  The length of the white-space character a string of UTF-8 bytes begins with, zero if it begins with
  none: the ASCII ones, U+0085, U+00A0, U+1680, U+2000 to U+200A, U+2028, U+2029, U+202F, U+205F and
  U+3000.
\<close>

definition white_space :: "string \<Rightarrow> nat" where
  "white_space s =
     (case map byte_of (take 3 s) of
        [] \<Rightarrow> 0
      | a # rest \<Rightarrow>
          (if 9 \<le> a \<and> a \<le> 13 \<or> a = 32 then 1
           else case rest of
             [] \<Rightarrow> 0
           | b # rest \<Rightarrow>
               (if a = 194 \<and> (b = 133 \<or> b = 160) then 2
                else case rest of
                  [] \<Rightarrow> 0
                | c # _ \<Rightarrow>
                    (if a = 225 \<and> b = 154 \<and> c = 128
                      \<or> a = 226 \<and> b = 128
                          \<and> (128 \<le> c \<and> c \<le> 138 \<or> c = 168 \<or> c = 169 \<or> c = 175)
                      \<or> a = 226 \<and> b = 129 \<and> c = 159
                      \<or> a = 227 \<and> b = 128 \<and> c = 128
                     then 3 else 0))))"

definition word_of_chars :: "string \<Rightarrow> string list" where
  "word_of_chars w = (if w = [] then [] else [w])"

function split_white :: "string \<Rightarrow> string \<Rightarrow> string list" where
  "split_white w [] = word_of_chars w"
| "split_white w (c # cs) =
     (case white_space (c # cs) of
        0 \<Rightarrow> split_white (w @ [c]) cs
      | Suc n \<Rightarrow> word_of_chars w @ split_white [] (drop n cs))"
  by pat_completeness auto
termination by (relation "measure (\<lambda>(w, s). length s)") auto

definition split_whitespace :: "string \<Rightarrow> string list" where
  "split_whitespace s = split_white [] s"

text \<open>What follows the last occurrence of a character.\<close>

fun after_last :: "char \<Rightarrow> string \<Rightarrow> string option" where
  "after_last c [] = None"
| "after_last c (x # xs) =
     (case after_last c xs of Some r \<Rightarrow> Some r | None \<Rightarrow> (if x = c then Some xs else None))"

text \<open>\<open>parse::<u64>\<close> accepts one leading plus sign.\<close>

definition parse_unsigned :: "string \<Rightarrow> u64 option" where
  "parse_unsigned s =
     (let digits = (if s \<noteq> [] \<and> hd s = CHR ''+'' then tl s else s)
      in if digits \<noteq> [] \<and> list_all ascii_digit digits then parse_u64 digits else None)"

text \<open>The content of \<^verbatim>\<open>/proc/<pid>/stat\<close>.\<close>

definition linux_inspect ::
    "(i32 \<Rightarrow> io_error_kind + string) \<Rightarrow> i32 \<Rightarrow> identity_unavailable + process_observation" where
  "linux_inspect read_stat pid =
     (if pid \<le> 0 then Err Ident_MalformedData
      else case read_stat pid of
        Inl e \<Rightarrow> Err (classify_io e)
      | Inr content \<Rightarrow>
          (case after_last CHR '')'' content of
             None \<Rightarrow> Err Ident_MalformedData
           | Some rest \<Rightarrow>
               (let fields = split_whitespace rest in
                if length fields \<le> 19 then Err Ident_MalformedData
                else case parse_i32 (fields ! 1) of
                  None \<Rightarrow> Err Ident_MalformedData
                | Some parent_pid \<Rightarrow>
                    (case parse_i32 (fields ! 2) of
                       None \<Rightarrow> Err Ident_MalformedData
                     | Some process_group_id \<Rightarrow>
                         (case parse_unsigned (fields ! 19) of
                            None \<Rightarrow> Err Ident_MalformedData
                          | Some start_abstime \<Rightarrow>
                              Ok \<lparr>po_identity = ProcessIdentity pid start_abstime,
                                  po_parent_pid = parent_pid,
                                  po_process_group_id = process_group_id,
                                  po_footprint_bytes = None,
                                  po_exited = (fields ! 0 = ''Z'' \<or> fields ! 0 = ''X'')\<rparr>)))))"

text \<open>
  The directory \<^verbatim>\<open>/proc\<close>: an entry is an error or a name, which may not be UTF-8.
\<close>

definition linux_list_pids ::
    "io_error_kind + (io_error_kind + string option) list \<Rightarrow> observation_failure_kind + i32 list" where
  "linux_list_pids read_dir =
     (case read_dir of
        Inl _ \<Rightarrow> Err Fail_EnumerationFailed
      | Inr entries \<Rightarrow>
          Ok (filter (\<lambda>pid. 0 < pid)
                (List.map_filter
                   (\<lambda>entry. case entry of Inl _ \<Rightarrow> None | Inr name \<Rightarrow> Option.bind name parse_i32)
                   entries)))"

definition linux_list_relevant_pids ::
    "io_error_kind + (io_error_kind + string option) list \<Rightarrow> i32 \<Rightarrow> i32 \<Rightarrow> i32 list
     \<Rightarrow> observation_failure_kind + i32 list" where
  "linux_list_relevant_pids read_dir root_pid owned_group tracked_pids = linux_list_pids read_dir"

definition linux_probe_footprint :: "identity_unavailable + unit" where
  "linux_probe_footprint = Err Ident_Unsupported"

section \<open>Other platforms\<close>

definition other_probe_footprint :: "identity_unavailable + unit" where
  "other_probe_footprint = Err Ident_Unsupported"

definition other_list_pids :: "observation_failure_kind + i32 list" where
  "other_list_pids = Err Fail_Unsupported"

definition other_list_relevant_pids ::
    "i32 \<Rightarrow> i32 \<Rightarrow> i32 list \<Rightarrow> observation_failure_kind + i32 list" where
  "other_list_relevant_pids root_pid owned_group tracked_pids = other_list_pids"

definition other_inspect :: "i32 \<Rightarrow> identity_unavailable + process_observation" where
  "other_inspect pid = Err Ident_Unsupported"

end
