(* ===== verification/Inventory_Props.thy ===== *)
theory Inventory_Props
  imports Inventory Identity_Props Explain_Props
begin

text \<open>
  The inventory of Linux reads back what the kernel printed, whatever the name of the process is; a
  complete cleanup means that nothing of the run is left, and waiting for it ends at the deadline.
\<close>

section \<open>Parsing \<^verbatim>\<open>/proc/<pid>/stat\<close>\<close>

text \<open>The printed form of an integer, and the line the kernel prints (without what it appends).\<close>

definition show_int :: "int \<Rightarrow> string" where
  "show_int i = (if i < 0 then CHR ''-'' # show_nat (nat (- i)) else show_nat (nat i))"

definition fields_text :: "string list \<Rightarrow> string" where
  "fields_text fs = concat (map ((#) CHR '' '') fs)"

definition stat_line :: "int \<Rightarrow> string \<Rightarrow> string list \<Rightarrow> string" where
  "stat_line pid comm fs =
     show_int pid @ '' ('' @ comm @ '')'' @ fields_text fs @ [CHR 0x0A]"

text \<open>Fields of printable ASCII without the parenthesis that ends the name.\<close>

definition plain :: "string \<Rightarrow> bool" where
  "plain f \<longleftrightarrow> f \<noteq> [] \<and> list_all (\<lambda>c. 33 \<le> byte_of c \<and> byte_of c < 127 \<and> c \<noteq> CHR '')'') f"

lemma after_last_split: "c \<notin> set r \<Longrightarrow> after_last c (p @ c # r) = Some r"
proof (induction p)
  case Nil
  have "after_last c r = None" using Nil by (induction r) auto
  then show ?case by simp
qed auto

lemma white_space_plain: "33 \<le> byte_of c \<Longrightarrow> byte_of c < 127 \<Longrightarrow> white_space (c # cs) = 0"
  by (auto simp: white_space_def take_Cons' split: list.splits)

lemma split_white_plain:
  "list_all (\<lambda>c. 33 \<le> byte_of c \<and> byte_of c < 127) f \<Longrightarrow> split_white w (f @ s) = split_white (w @ f) s"
  by (induction f arbitrary: w) (auto simp: white_space_plain)

lemma split_white_fields:
  assumes "list_all plain fs"
  shows "split_white w (fields_text fs @ [CHR 0x0A]) = word_of_chars w @ fs"
  using assms
proof (induction fs arbitrary: w)
  case Nil
  show ?case by (simp add: fields_text_def white_space_def word_of_chars_def)
next
  case (Cons f fs)
  have "list_all (\<lambda>c. 33 \<le> byte_of c \<and> byte_of c < 127) f" "f \<noteq> []"
    using Cons.prems by (auto simp: plain_def list_all_iff)
  moreover have "white_space (CHR '' '' # s) = 1" for s by (simp add: white_space_def)
  ultimately show ?case
    using Cons by (simp add: fields_text_def split_white_plain word_of_chars_def)
qed

lemma show_nat_nonempty [simp]: "show_nat n \<noteq> []"
  by (subst show_nat.simps) simp

lemma ascii_digit_byte: "ascii_digit c \<longleftrightarrow> 48 \<le> byte_of c \<and> byte_of c \<le> 57"
  by (simp add: ascii_digit_def)

lemma show_nat_all: "list_all ascii_digit (show_nat n)"
  by (auto simp: list_all_iff show_nat_digits)

lemma not_digit: "\<not> ascii_digit CHR ''-''" "\<not> ascii_digit CHR ''+''" "\<not> ascii_digit CHR '')''"
  by (simp_all add: ascii_digit_def)

lemma hd_show_nat: "hd (show_nat n) \<noteq> CHR ''-''" "hd (show_nat n) \<noteq> CHR ''+''"
proof -
  have "ascii_digit (hd (show_nat n))" by (rule show_nat_digits [of _ n]) simp
  then show "hd (show_nat n) \<noteq> CHR ''-''" "hd (show_nat n) \<noteq> CHR ''+''"
    using not_digit by metis+
qed

lemma plain_show_nat: "plain (show_nat n)"
  using show_nat_digits [of _ n] not_digit
  by (fastforce simp: plain_def list_all_iff ascii_digit_byte)

lemma plain_show_int: "plain (show_int i)"
  using plain_show_nat [of "nat (- i)"] plain_show_nat [of "nat i"]
  by (simp add: show_int_def plain_def)

lemma parse_i32_show:
  assumes "- (2 ^ 31) \<le> i" and "i < 2 ^ 31"
  shows "parse_i32 (show_int i) = Some i"
  using assms by (auto simp: parse_i32_def show_int_def hd_show_nat show_nat_all Let_def)

lemma parse_unsigned_show: "parse_unsigned (show_nat (unat (v :: u64))) = Some v"
proof -
  have "unat v < 2 ^ LENGTH(64)" by (rule unsigned_less)
  then show ?thesis
    by (simp add: parse_unsigned_def hd_show_nat show_nat_all parse_u64_def)
qed

lemma fields_text_no_parenthesis: "list_all plain fs \<Longrightarrow> CHR '')'' \<notin> set (fields_text fs @ [CHR 0x0A])"
  by (auto simp: fields_text_def plain_def list_all_iff)

text \<open>The Linux inventory reads the line of a process back exactly. Whatever the name of the process
  is, spaces, line breaks and parentheses included, the parent, the group and the start time of the
  observation are those the kernel printed, and the process counts as exited exactly in the states Z
  and X.
\<close>

theorem stat_line_is_read_back:
  assumes "0 < pid" and "plain state" and "list_all plain middle" and "length middle = 16"
    and "list_all plain others"
    and "- (2 ^ 31) \<le> parent" and "parent < 2 ^ 31" and "- (2 ^ 31) \<le> pgrp" and "pgrp < 2 ^ 31"
    and read: "read_stat pid = Inr (stat_line pid comm
      ([state, show_int parent, show_int pgrp] @ middle @ [show_nat (unat start)] @ others))"
  shows "linux_inspect read_stat pid =
     Ok \<lparr>po_identity = ProcessIdentity pid start, po_parent_pid = parent,
         po_process_group_id = pgrp, po_footprint_bytes = None,
         po_exited = (state = ''Z'' \<or> state = ''X'')\<rparr>"
proof -
  let ?fs = "[state, show_int parent, show_int pgrp] @ middle @ [show_nat (unat start)] @ others"
  have fs: "list_all plain ?fs"
    using assms(2,3,5) by (simp add: plain_show_int plain_show_nat)
  have "stat_line pid comm ?fs
      = (show_int pid @ '' ('' @ comm) @ CHR '')'' # (fields_text ?fs @ [CHR 0x0A])"
    by (simp add: stat_line_def)
  then have rest: "after_last CHR '')'' (stat_line pid comm ?fs)
      = Some (fields_text ?fs @ [CHR 0x0A])"
    by (simp only: after_last_split [OF fields_text_no_parenthesis [OF fs]])
  have split: "split_whitespace (fields_text ?fs @ [CHR 0x0A]) = ?fs"
    using split_white_fields [OF fs, of "[]"] by (simp add: split_whitespace_def word_of_chars_def)
  have nth: "length ?fs > 19" "?fs ! 0 = state" "?fs ! 1 = show_int parent" "?fs ! 2 = show_int pgrp"
    "?fs ! 19 = show_nat (unat start)"
    using assms(4) by (simp_all add: nth_append)
  show ?thesis
    using assms(1) nth(1)
    unfolding linux_inspect_def read sum.case rest option.case split Let_def nth(2-)
      parse_i32_show [OF assms(6,7)] parse_i32_show [OF assms(8,9)] parse_unsigned_show
    by simp
qed

section \<open>The scan of related processes\<close>

definition child_of :: "(i32 \<Rightarrow> observation_failure_kind + i32 list) \<Rightarrow> (i32 \<times> i32) set" where
  "child_of children = {(p, c). \<exists>cs. children p = Inr cs \<and> c \<in> set cs}"

lemma fst_enqueue: "fst (enqueue relevant cs) = relevant \<union> set cs"
  by (induction relevant cs rule: enqueue.induct) (simp_all add: case_prod_beta insert_absorb)

lemma set_snd_enqueue: "set (snd (enqueue relevant cs)) = set cs - relevant"
proof (induction relevant cs rule: enqueue.induct)
  case (2 relevant c cs)
  then show ?case
    by (cases "enqueue (insert c relevant) cs") auto
qed simp

text \<open>
  The invariant of the loop: the relevant processes are the visited and the pending ones, and the
  children of a visited process are relevant. What it returns is closed under children.
\<close>

definition scanned ::
    "(i32 \<Rightarrow> observation_failure_kind + i32 list) \<Rightarrow> i32 set \<Rightarrow> i32 set \<Rightarrow> bool" where
  "scanned children visited relevant \<longleftrightarrow>
     (\<forall>v \<in> visited. \<exists>cs. children v = Inr cs \<and> set cs \<subseteq> relevant)"

definition scan_result ::
    "(i32 \<Rightarrow> observation_failure_kind + i32 list) \<Rightarrow> i32 set
     \<Rightarrow> observation_failure_kind + i32 set \<Rightarrow> bool" where
  "scan_result children relevant res \<longleftrightarrow>
     (case res of
        Inl kind \<Rightarrow> \<exists>p. children p = Inl kind
      | Inr r \<Rightarrow> relevant \<subseteq> r \<and> r \<subseteq> (child_of children)\<^sup>* `` relevant \<and> scanned children r r)"

lemma scan_result_step:
  assumes "scan_result children (relevant \<union> set cs) res" and "parent \<in> relevant"
    and "children parent = Inr cs"
  shows "scan_result children relevant res"
proof (cases res)
  case (Inr r)
  have "(parent, c) \<in> child_of children" if "c \<in> set cs" for c
    using assms(3) that by (auto simp: child_of_def)
  then have "set cs \<subseteq> (child_of children)\<^sup>* `` relevant" using assms(2) by blast
  then have "(child_of children)\<^sup>* `` (relevant \<union> set cs) \<subseteq> (child_of children)\<^sup>* `` relevant"
    by (auto intro: rtrancl_trans)
  with assms(1) show ?thesis by (auto simp: scan_result_def Inr)
qed (use assms in \<open>simp add: scan_result_def\<close>)

lemma enumerate_children_ends:
  assumes "finite universe" and "\<And>p cs. children p = Inr cs \<Longrightarrow> set cs \<subseteq> universe"
    and "relevant \<subseteq> universe" and "relevant = visited \<union> set pending"
    and "scanned children visited relevant"
  shows "\<exists>res. enumerate_children children relevant visited pending = Some res
     \<and> scan_result children relevant res"
  using assms(3-)
proof (induction "card (universe - visited)" arbitrary: relevant visited pending rule: less_induct)
  case less
  note outer = less.hyps
  show ?case
    using less.prems
  proof (induction pending)
    case Nil
    then show ?case
      by (subst enumerate_children.simps) (auto simp: scan_result_def)
  next
    case (Cons parent rest)
    show ?case
    proof (cases "parent \<in> visited")
      case True
      with Cons.prems Cons.IH show ?thesis
        by (subst enumerate_children.simps) (simp add: insert_absorb)
    next
      case new: False
      show ?thesis
      proof (cases "children parent")
        case (Inl kind)
        with new show ?thesis
          by (subst enumerate_children.simps) (auto simp: scan_result_def)
      next
        case (Inr cs)
        let ?relevant = "fst (enqueue relevant cs)"
        have "parent \<in> universe - visited" using Cons.prems new by auto
        then have "card (universe - insert parent visited) < card (universe - visited)"
          using assms(1) by (intro psubset_card_mono) auto
        moreover have "?relevant \<subseteq> universe"
          using Cons.prems(1) assms(2) [OF Inr] by (auto simp: fst_enqueue)
        moreover have "?relevant = insert parent visited \<union> set (rest @ snd (enqueue relevant cs))"
          using Cons.prems(2) by (auto simp: fst_enqueue set_snd_enqueue)
        moreover have "scanned children (insert parent visited) ?relevant"
          using Cons.prems(3) Inr by (fastforce simp: scanned_def fst_enqueue)
        ultimately obtain res where "enumerate_children children ?relevant (insert parent visited)
            (rest @ snd (enqueue relevant cs)) = Some res" "scan_result children ?relevant res"
          using outer by blast
        moreover have "parent \<in> relevant" using Cons.prems(2) by simp
        then have "scan_result children relevant res"
          using scan_result_step [of children relevant cs res parent] Inr calculation(2)
          by (simp add: fst_enqueue)
        ultimately show ?thesis
          using new Inr by (subst enumerate_children.simps) simp
      qed
    qed
  qed
qed

lemma closed_is_reachable:
  assumes "scan_result children relevant (Inr r)"
  shows "r = (child_of children)\<^sup>* `` relevant"
proof -
  have "y \<in> r" if "(x, y) \<in> (child_of children)\<^sup>*" "x \<in> r" for x y
    using that by (induction rule: rtrancl_induct)
      (use assms in \<open>fastforce simp: scan_result_def scanned_def child_of_def\<close>)+
  with assms show ?thesis by (fastforce simp: scan_result_def)
qed

text \<open>A process identifier is an \<open>i32\<close>.\<close>

definition reports_i32 :: "(i32 \<Rightarrow> observation_failure_kind + i32 list) \<Rightarrow> bool" where
  "reports_i32 children \<longleftrightarrow>
     (\<forall>p cs. children p = Inr cs \<longrightarrow> set cs \<subseteq> {- (2 ^ 31) ..< 2 ^ 31})"

lemma reports_i32D: "reports_i32 children \<Longrightarrow> children p = Inr cs \<Longrightarrow> set cs \<subseteq> {- (2 ^ 31) ..< 2 ^ 31}"
  by (simp add: reports_i32_def)

lemma list_relevant_pids_scan:
  assumes "reports_i32 children"
  shows "\<exists>res. list_relevant_pids root_pid members children tracked_pids = Some res
     \<and> (case res of
          Inl kind \<Rightarrow> members = Inl kind \<or> (\<exists>p. children p = Inl kind)
        | Inr pids \<Rightarrow> sorted pids \<and> distinct pids
            \<and> (\<exists>ms. members = Inr ms
                 \<and> set pids = (child_of children)\<^sup>* `` relevant_start root_pid ms tracked_pids))"
proof (cases members)
  case (Inl kind)
  then show ?thesis by (simp add: list_relevant_pids_def)
next
  case (Inr ms)
  define start where "start = relevant_start root_pid ms tracked_pids"
  define universe where "universe = start \<union> {- (2 ^ 31) ..< 2 ^ 31}"
  have "finite start" by (simp add: start_def relevant_start_def)
  then have "finite universe" by (simp add: universe_def)
  moreover have "set cs \<subseteq> universe" if "children p = Inr cs" for p cs
    using reports_i32D [OF assms that] by (auto simp: universe_def)
  ultimately obtain res where
    res: "enumerate_children children start {} (sorted_list_of_set start) = Some res"
      "scan_result children start res"
    using enumerate_children_ends [of universe children start "{}" "sorted_list_of_set start"]
      \<open>finite start\<close> by (auto simp: universe_def scanned_def)
  show ?thesis
  proof (cases res)
    case (Inl kind)
    with res show ?thesis
      by (simp add: list_relevant_pids_def Inr start_def [symmetric] scan_result_def)
  next
    case r: (Inr r)
    have "r \<subseteq> universe"
    proof -
      have "y \<in> universe" if "(x, y) \<in> (child_of children)\<^sup>*" "x \<in> universe" for x y
        using that
        by (induction rule: rtrancl_induct)
          (auto simp: child_of_def universe_def dest!: reports_i32D [OF assms])
      with res(2) show ?thesis by (fastforce simp: scan_result_def r universe_def)
    qed
    with \<open>finite universe\<close> have "finite r" by (rule rev_finite_subset)
    with res r show ?thesis
      by (auto simp: list_relevant_pids_def Inr start_def [symmetric] closed_is_reachable
          simp del: Image_Un)
  qed
qed

text \<open>C27. The scan of related processes always ends and finds exactly the processes of the run. Whatever
  tree or cycle of children the system reports, the scan returns; if it succeeds, its list holds,
  once each and in order, exactly the root, the members of the owned group, the tracked processes and
  everything that descends from one of them; if it fails, a list of the system could not be read.
\<close>

theorem scan_finds_the_descendants:
  assumes "reports_i32 children"
  shows "\<exists>res. list_relevant_pids root_pid members children tracked_pids = Some res
     \<and> (case res of
          Inl kind \<Rightarrow> members = Inl kind \<or> (\<exists>p. children p = Inl kind)
        | Inr pids \<Rightarrow> sorted pids \<and> distinct pids
            \<and> (\<exists>ms. members = Inr ms
                 \<and> set pids = (child_of children)\<^sup>* `` relevant_start root_pid ms tracked_pids))"
  using assms by (rule list_relevant_pids_scan)

section \<open>Escapes leave evidence\<close>

text \<open>The observations of a snapshot that concern the run.\<close>

definition related :: "identity_tracker \<Rightarrow> process_snapshot \<Rightarrow> process_observation \<Rightarrow> bool" where
  "related t snapshot ob \<longleftrightarrow>
     first_by_pid (ps_observations snapshot) (id_pid (po_identity ob)) = Some ob
   \<and> \<not> ignored t (observations_by_pid (ps_observations snapshot)) ob"

lemma update_one_keeps_escaped: "us_escaped u \<subseteq> us_escaped (update_one t obs u ob)"
  by (cases "ignored t obs ob") (auto simp: update_one_ignored update_one_fields(1) [OF _ refl])

lemma update_fold_keeps_escaped: "us_escaped u \<subseteq> us_escaped (foldl (update_one t obs) u vs)"
  by (induction vs arbitrary: u) (auto dest: update_one_keeps_escaped [THEN subsetD])

lemma update_one_escapes:
  assumes "\<not> ignored t obs ob" and "escaping t ob"
  shows "us_escaped (update_one t obs u ob) \<noteq> {}"
  using assms by (auto simp: update_one_fields(1) [OF assms(1) refl] MAX_ESCAPED_EVIDENCE_def)

lemma update_fold_escapes:
  assumes "ob \<in> set vs" and "\<not> ignored t obs ob" and "escaping t ob"
  shows "us_escaped (foldl (update_one t obs) u vs) \<noteq> {}"
proof -
  obtain before after where "vs = before @ ob # after" using assms(1) by (auto simp: in_set_conv_decomp)
  then show ?thesis
    using update_one_escapes [OF assms(2,3)] update_fold_keeps_escaped by fastforce
qed

lemma tracker_update_escaped:
  "it_escaped (fst (tracker_update t snapshot)) =
     us_escaped (foldl (update_one t (observations_by_pid (ps_observations snapshot)))
       \<lparr>us_events = fst (snd (prepare_snapshot t snapshot)), us_next_tracked = RBT.empty,
        us_owned_members = [], us_escaped = it_escaped t, us_escaped_count = it_escaped_count t\<rparr>
       (rbt_values (observations_by_pid (ps_observations snapshot))))"
  by (simp add: tracker_update_def prepare_snapshot_def Let_def update_loop_def)

lemma escape_is_recorded:
  assumes "related t snapshot ob" and "escaping t ob"
  shows "it_escaped (fst (tracker_update t snapshot)) \<noteq> {}"
  unfolding tracker_update_escaped
  using assms by (intro update_fold_escapes [of ob]) (auto simp: related_def values_iff)

lemma tracker_update_scope [simp]:
  "it_root (fst (tracker_update t snapshot)) = it_root t"
  "it_owned_group (fst (tracker_update t snapshot)) = it_owned_group t"
  by (simp_all add: tracker_update_def Let_def case_prod_beta)

text \<open>With no owned member left and nothing escaping, every process of the run has exited.\<close>

lemma no_member_no_escape:
  assumes "tf_owned_members (snd (tracker_update t snapshot)) = []"
    and "it_escaped (fst (tracker_update t snapshot)) = {}" and "related t snapshot ob"
  shows "po_exited ob"
proof (rule ccontr)
  assume alive: "\<not> po_exited ob"
  have "\<not> escaping t ob" using escape_is_recorded [OF assms(3)] assms(2) by blast
  with alive have "po_identity ob = it_root t \<or> po_process_group_id ob = it_owned_group t"
    by (auto simp: escaping_def)
  with alive assms(3) have "owned_by t ob"
    by (auto simp: owned_by_def related_def ignored_def)
  moreover have "ob \<in> set (rbt_values (observations_by_pid (ps_observations snapshot)))"
    using assms(3) by (simp add: related_def values_iff)
  ultimately show False using assms(1) by (auto simp: frame_owned_members filter_empty_conv)
qed

section \<open>The wait for the owned group\<close>

text \<open>The snapshots the wait takes if it is not stopped, each with the tracker before it.\<close>

fun visits ::
    "identity_tracker \<Rightarrow> cleanup_poll list \<Rightarrow> (identity_tracker \<times> process_snapshot \<times> cleanup_poll) list" where
  "visits t [] = []"
| "visits t (p # ps) =
     (case snapshot_for_tracker t (cl_members p) (cl_children p) (cl_inspect p) of
        Some (Inr snapshot) \<Rightarrow> (t, snapshot, p) # visits (fst (tracker_update t snapshot)) ps
      | _ \<Rightarrow> [])"

lemma cleanup_result_complete:
  assumes "finite (it_escaped t)"
  shows "cr_complete (cleanup_result t frame live group_exists)
     \<longleftrightarrow> live = [] \<and> \<not> group_exists \<and> it_escaped t = {} \<and> tf_observation_failures frame = []"
  using assms by (auto simp: cleanup_result_def Let_def)

lemma cleanup_loop_shape:
  assumes "cleanup_loop deadline poll_interval t polls = Some (t', report, pauses)"
    and "tracker_ok t" and "cr_complete report"
  shows "\<exists>vs u snapshot p later. visits t polls = vs @ (u, snapshot, p) # later
     \<and> length vs = length pauses \<and> it_root u = it_root t \<and> it_owned_group u = it_owned_group t
     \<and> (\<forall>(v, snap, q) \<in> set (vs @ [(u, snapshot, p)]).
          it_escaped (fst (tracker_update v snap)) = {})
     \<and> it_escaped t = {} \<and> t' = fst (tracker_update u snapshot) \<and> it_escaped t' = {}
     \<and> tf_owned_members (snd (tracker_update u snapshot)) = []
     \<and> tf_observation_failures (snd (tracker_update u snapshot)) = []
     \<and> \<not> tracker_group_exists (cl_kill p) t'"
  using assms
proof (induction polls arbitrary: t pauses)
  case (Cons p polls)
  obtain snapshot where snap:
    "snapshot_for_tracker t (cl_members p) (cl_children p) (cl_inspect p) = Some (Inr snapshot)"
    using Cons.prems by (auto simp: cleanup_failed_def split: option.splits sum.splits)
  obtain u frame where u: "tracker_update t snapshot = (u, frame)" by (cases "tracker_update t snapshot")
  have ok: "tracker_ok u" using tracker_update_ok(1) [OF Cons.prems(2), of snapshot] by (simp add: u)
  then have fin: "finite (it_escaped u)" by (simp add: tracker_ok_def escape_ok_def)
  have kept: "it_escaped t \<subseteq> it_escaped u"
    using tracker_update_ok(3) [OF Cons.prems(2), of snapshot] by (simp add: u)
  have scope: "it_root u = it_root t" "it_owned_group u = it_owned_group t"
    using tracker_update_scope [of t snapshot] by (simp_all add: u)
  let ?stop = "map po_identity (tf_owned_members frame) = [] \<and> \<not> tracker_group_exists (cl_kill p) u
    \<or> deadline \<le> cl_now p"
  show ?case
  proof (cases ?stop)
    case True
    then have "t' = u" "pauses = []" and "report = cleanup_result u frame
        (map po_identity (tf_owned_members frame)) (tracker_group_exists (cl_kill p) u)"
      using Cons.prems(1) by (auto simp: snap u)
    moreover from this(3) Cons.prems(3) have "tf_owned_members frame = []"
      "\<not> tracker_group_exists (cl_kill p) u" "it_escaped u = {}" "tf_observation_failures frame = []"
      by (auto simp: cleanup_result_complete [OF fin])
    ultimately show ?thesis
      using kept
      by (intro exI [of _ "[]"] exI [of _ t] exI [of _ snapshot] exI [of _ p]
          exI [of _ "visits u polls"]) (simp add: snap u)
  next
    case False
    then obtain rest where rest: "cleanup_loop deadline poll_interval u polls = Some (t', report, rest)"
      "length pauses = Suc (length rest)"
      using Cons.prems(1) by (auto simp: snap u)
    from Cons.IH [OF this(1) ok Cons.prems(3)] obtain vs v s q later where
      IH: "visits u polls = vs @ (v, s, q) # later" "length vs = length rest"
        "it_root v = it_root u" "it_owned_group v = it_owned_group u"
        "\<forall>(w, snap, r) \<in> set (vs @ [(v, s, q)]). it_escaped (fst (tracker_update w snap)) = {}"
        "it_escaped u = {}" "t' = fst (tracker_update v s)" "it_escaped t' = {}"
        "tf_owned_members (snd (tracker_update v s)) = []"
        "tf_observation_failures (snd (tracker_update v s)) = []"
        "\<not> tracker_group_exists (cl_kill q) t'"
      by blast
    with kept IH scope show ?thesis
      by (intro exI [of _ "(t, snapshot, p) # vs"] exI [of _ v] exI [of _ s] exI [of _ q]
          exI [of _ later]) (simp add: snap u rest(2))
  qed
qed simp

lemma track_scope [simp]:
  "it_root (track t snaps) = it_root t" "it_owned_group (track t snaps) = it_owned_group t"
  by (induction snaps rule: rev_induct) (simp_all add: track_def)

lemma frame_failures:
  "tf_observation_failures (snd (tracker_update t snapshot)) =
     filter (relevant_failure (it_root t)) (ps_failures snapshot)"
  by (simp add: tracker_update_def prepare_snapshot_def Let_def)

lemma no_such_group:
  "\<not> tracker_group_exists kill t
     \<longleftrightarrow> (\<exists>e. kill (- it_owned_group t) 0 = Some e \<and> e \<noteq> EPERM)"
  by (auto simp: tracker_group_exists_def split: option.splits)

text \<open>C28. A complete cleanup leaves nothing of the run. If the wait reports completion, then no process of
  the run was seen alive outside the owned group in any snapshot it took, in its last one every
  process of the run had exited and every relevant observation had succeeded, and the system knew no
  process of the group. A survivor, an escape at any time or a gap in the observation is never
  reported as complete.
\<close>

theorem complete_cleanup_leaves_nothing:
  assumes "identity_tracker_new root pgid = Ok t"
    and "wait_for_owned_group_empty (track t snaps) started timeout poll_interval polls
      = Some (t', report, pauses)"
    and "cr_complete report"
  shows "\<exists>vs u snapshot p later. visits (track t snaps) polls = vs @ (u, snapshot, p) # later
     \<and> length vs = length pauses
     \<and> (\<forall>(v, snap, q) \<in> set (vs @ [(u, snapshot, p)]). \<forall>ob. related v snap ob \<longrightarrow> \<not> escaping v ob)
     \<and> (\<forall>ob. related u snapshot ob \<longrightarrow> po_exited ob)
     \<and> (\<forall>failure \<in> set (ps_failures snapshot). \<not> relevant_failure root failure)
     \<and> (\<exists>e. cl_kill p (- pgid) 0 = Some e \<and> e \<noteq> EPERM)"
proof -
  have ok: "tracker_ok t" and t: "it_root t = root" "it_owned_group t = pgid"
    using assms(1) by (auto simp: identity_tracker_new_def tracker_ok_def escape_ok_def marks_def
        split: if_splits)
  from track_ok [OF ok] have "tracker_ok (track t snaps)" by blast
  from cleanup_loop_shape [OF assms(2) [unfolded wait_for_owned_group_empty_def] this assms(3)]
  obtain vs u snapshot p later where
    visits: "visits (track t snaps) polls = vs @ (u, snapshot, p) # later" "length vs = length pauses"
    and scope: "it_root u = root" "it_owned_group u = pgid"
    and kept: "\<forall>(v, snap, q) \<in> set (vs @ [(u, snapshot, p)]). it_escaped (fst (tracker_update v snap)) = {}"
    and last: "t' = fst (tracker_update u snapshot)"
      "tf_owned_members (snd (tracker_update u snapshot)) = []"
      "tf_observation_failures (snd (tracker_update u snapshot)) = []"
      "\<not> tracker_group_exists (cl_kill p) t'"
    unfolding track_scope t by blast
  have "\<forall>(v, snap, q) \<in> set (vs @ [(u, snapshot, p)]). \<forall>ob. related v snap ob \<longrightarrow> \<not> escaping v ob"
    using kept escape_is_recorded by fastforce
  moreover have "\<forall>ob. related u snapshot ob \<longrightarrow> po_exited ob"
    using no_member_no_escape [OF last(2)] kept by auto
  moreover have "\<forall>failure \<in> set (ps_failures snapshot). \<not> relevant_failure root failure"
    using last(3) by (simp add: frame_failures filter_empty_conv scope)
  moreover have "\<exists>e. cl_kill p (- pgid) 0 = Some e \<and> e \<noteq> EPERM"
    using last(4) by (simp add: no_such_group last(1) scope)
  ultimately show ?thesis using visits by blast
qed

lemma snapshot_for_tracker_ends:
  assumes "reports_i32 children"
  shows "\<exists>res. snapshot_for_tracker t members children inspect = Some res"
proof -
  obtain res where "list_relevant_pids (id_pid (it_root t)) members children
      (map id_pid (RBT.keys (it_tracked t))) = Some res"
    using list_relevant_pids_scan [OF assms] by blast
  then show ?thesis by (simp add: snapshot_for_tracker_def)
qed

text \<open>
  The wait returns at the first poll at or after its deadline at the latest, and no pause between two
  polls is longer than the interval.
\<close>

theorem cleanup_wait_ends:
  assumes "\<forall>p \<in> set polls. reports_i32 (cl_children p)"
    and "n < length polls" and "started + timeout \<le> cl_now (polls ! n)"
  shows "\<exists>t' report pauses. wait_for_owned_group_empty t started timeout poll_interval polls
       = Some (t', report, pauses)
     \<and> length pauses \<le> n \<and> (\<forall>pause \<in> set pauses. pause \<le> poll_interval)"
  unfolding wait_for_owned_group_empty_def using assms
proof (induction polls arbitrary: t n)
  case (Cons p polls)
  have "reports_i32 (cl_children p)" using Cons.prems(1) by simp
  from snapshot_for_tracker_ends [OF this] obtain res where res:
    "snapshot_for_tracker t (cl_members p) (cl_children p) (cl_inspect p) = Some res"
    by blast
  show ?case
  proof (cases res)
    case (Inl kind)
    with res show ?thesis by simp
  next
    case (Inr snapshot)
    obtain u frame where u: "tracker_update t snapshot = (u, frame)" by (cases "tracker_update t snapshot")
    show ?thesis
    proof (cases "map po_identity (tf_owned_members frame) = [] \<and> \<not> tracker_group_exists (cl_kill p) u
        \<or> started + timeout \<le> cl_now p")
      case True
      with res show ?thesis by (auto simp: Inr u)
    next
      case False
      with Cons.prems(3) obtain m where m: "n = Suc m" by (cases n) auto
      obtain t' report pauses where
        "cleanup_loop (started + timeout) poll_interval u polls = Some (t', report, pauses)"
        "length pauses \<le> m" "\<forall>pause \<in> set pauses. pause \<le> poll_interval"
        using Cons.IH [of m u] Cons.prems by (force simp: m)
      with False res show ?thesis by (auto simp: Inr u m)
    qed
  qed
qed simp

section \<open>Witnesses\<close>

text \<open>A cycle of children that a scan meets when a PID is reused while it runs.\<close>

definition demo_children :: "i32 \<Rightarrow> observation_failure_kind + i32 list" where
  "demo_children pid = Inr (if pid = 100 then [101] else if pid = 101 then [100, 102] else [])"

lemma demo_children_i32: "reports_i32 demo_children"
  by (auto simp: reports_i32_def demo_children_def split: if_splits)

theorem scan_finds_the_descendants_witness:
  "\<exists>pids. list_relevant_pids 100 (Inr [100]) demo_children [] = Some (Inr pids) \<and> 102 \<in> set pids"
proof -
  have "(100, 101) \<in> child_of demo_children" "(101, 102) \<in> child_of demo_children"
    by (auto simp: child_of_def demo_children_def)
  then have "(100, 102) \<in> (child_of demo_children)\<^sup>*" by (blast intro: rtrancl_trans)
  moreover have "100 \<in> relevant_start 100 [100] []" by (simp add: relevant_start_def)
  ultimately have reached: "102 \<in> (child_of demo_children)\<^sup>* `` relevant_start 100 [100] []" by blast
  have ok: "demo_children p \<noteq> Inl kind" for p kind by (simp add: demo_children_def)
  obtain res where res: "list_relevant_pids 100 (Inr [100]) demo_children [] = Some res"
    "case res of Inl kind \<Rightarrow> (Inr [100 :: i32] :: observation_failure_kind + i32 list) = Inl kind \<or> (\<exists>p. demo_children p = Inl kind)
      | Inr pids \<Rightarrow> sorted pids \<and> distinct pids \<and> (\<exists>ms. (Inr [100 :: i32] :: observation_failure_kind + i32 list) = Inr ms
          \<and> set pids = (child_of demo_children)\<^sup>* `` relevant_start 100 ms [])"
    using scan_finds_the_descendants [OF demo_children_i32, of 100 "Inr [100]" "[]"]
    by (elim exE conjE) (rule that)
  show ?thesis
  proof (cases res)
    case (Inl kind)
    with res(2) ok show ?thesis by simp
  next
    case (Inr pids)
    with res(2) have "set pids = (child_of demo_children)\<^sup>* `` relevant_start 100 [100] []" by simp
    with reached have "102 \<in> set pids" by (simp only:)
    with res(1) Inr show ?thesis by blast
  qed
qed

definition demo_gone :: cleanup_poll where
  "demo_gone =
    \<lparr>cl_members = Inr [], cl_children = (\<lambda>_. Inr []),
     cl_inspect = (\<lambda>pid. Inr \<lparr>po_identity = ProcessIdentity pid 7, po_parent_pid = 1,
       po_process_group_id = 100, po_footprint_bytes = Some 0, po_exited = True\<rparr>),
     cl_kill = (\<lambda>_ _. Some ESRCH), cl_now = 5, cl_pause_at = 5\<rparr>"

definition demo_exited :: process_snapshot where
  "demo_exited = \<lparr>ps_observations =
     [\<lparr>po_identity = ProcessIdentity 100 7, po_parent_pid = 1, po_process_group_id = 100,
       po_footprint_bytes = Some 0, po_exited = True\<rparr>], ps_failures = []\<rparr>"

lemma demo_scan: "enumerate_children (\<lambda>_. Inr []) {100} {} [100] = Some (Inr {100})"
  by (subst enumerate_children.simps, simp, subst enumerate_children.simps, simp)

lemma demo_last_snapshot:
  "snapshot_for_tracker demo_tracker (Inr []) (\<lambda>_. Inr []) (cl_inspect demo_gone) = Some (Inr demo_exited)"
  by (simp add: snapshot_for_tracker_def list_relevant_pids_def relevant_start_def demo_tracker_def
      demo_root_def demo_scan demo_gone_def demo_exited_def)

lemma demo_update:
  "case tracker_update demo_tracker demo_exited of (t, frame) \<Rightarrow>
     tf_owned_members frame = [] \<and> it_escaped t = {} \<and> tf_observation_failures frame = []"
  by code_simp

lemma demo_cleanup:
  "\<exists>t' report. wait_for_owned_group_empty (track demo_tracker []) 0 10 1 [demo_gone]
      = Some (t', report, []) \<and> cr_complete report"
  using demo_update demo_last_snapshot
  by (auto simp: wait_for_owned_group_empty_def track_def demo_gone_def tracker_group_exists_def
      cleanup_result_def split: prod.splits)

theorem complete_cleanup_leaves_nothing_witness:
  "\<exists>u snapshot p. (u, snapshot, p) \<in> set (visits (track demo_tracker []) [demo_gone])
     \<and> (\<forall>ob. related u snapshot ob \<longrightarrow> po_exited ob)"
proof -
  obtain t' report where
    "wait_for_owned_group_empty (track demo_tracker []) 0 10 1 [demo_gone] = Some (t', report, [])"
    "cr_complete report"
    using demo_cleanup by blast
  from complete_cleanup_leaves_nothing [OF demo_tracker this] show ?thesis by force
qed

end
