(* ===== verification/Recovery.thy ===== *)
theory Recovery
  imports Journal
begin

text \<open>
  \<open>JournalRecovery::read_file\<close> of \<^verbatim>\<open>mlx-guard-core/src/persistence.rs\<close> as the sequence of its reads.
  \<^verbatim>\<open>Journal\<close> defines recovery on the whole contents of the file; here every \<open>read\<close> may return fewer bytes
  than asked for, or fail. A file is what is left of its contents and a schedule: for each coming read,
  an error or the number of bytes it returns at most; reads beyond the schedule return all they can.
\<close>

section \<open>One read\<close>

type_synonym journal_stream = "bytes \<times> nat option list"

text \<open>\<open>Read::read\<close>: no bytes only at the end of the file (or for an empty buffer).\<close>

fun read_some :: "nat \<Rightarrow> journal_stream \<Rightarrow> (unit + bytes) \<times> journal_stream" where
  "read_some capacity (data, []) = (Inr (take capacity data), (drop capacity data, []))"
| "read_some capacity (data, None # schedule) = (Inl (), (data, schedule))"
| "read_some capacity (data, Some n # schedule) =
     (Inr (take (min capacity (max 1 n)) data), (drop (min capacity (max 1 n)) data, schedule))"

lemma length_read_some:
  "read_some capacity f = (Inr bs, f') \<Longrightarrow> length bs \<le> capacity \<and> length bs + length (fst f') = length (fst f)"
  by (cases "(capacity, f)" rule: read_some.cases) auto

text \<open>
  \<open>read_remaining\<close>, with what it has read as its result: \<open>None\<close> where the code returns false.
\<close>

function read_remaining ::
    "nat \<Rightarrow> journal_stream \<Rightarrow> (storage_error_kind + bytes option) \<times> journal_stream" where
  "read_remaining wanted f =
     (if wanted = 0 then (Ok (Some []), f)
      else case read_some wanted f of
        (Inl _, f) \<Rightarrow> (Err JournalReadFailed, f)
      | (Inr bs, f) \<Rightarrow>
          (if bs = [] then (Ok None, f)
           else case read_remaining (wanted - length bs) f of
             (Inr (Some rest), f) \<Rightarrow> (Ok (Some (bs @ rest)), f)
           | failed \<Rightarrow> failed))"
  by pat_completeness auto
termination by (relation "measure fst") (auto split: if_splits)

declare read_remaining.simps [simp del]

text \<open>
  \<open>read_exact\<close> fails where \<open>read_remaining\<close> returns false. The standard library repeats a read that is
  interrupted inside \<open>read_exact\<close>, and only there: an error in the schedule stands for any other one
  while the magic is read, and an interrupted attempt has no place in the schedule there.
\<close>

definition read_exact :: "nat \<Rightarrow> journal_stream \<Rightarrow> (storage_error_kind + bytes) \<times> journal_stream" where
  "read_exact wanted f =
     (case read_remaining wanted f of
        (Inl err, f) \<Rightarrow> (Err err, f)
      | (Inr None, f) \<Rightarrow> (Err JournalReadFailed, f)
      | (Inr (Some bs), f) \<Rightarrow> (Ok bs, f))"

section \<open>The loop\<close>

lemma length_read_remaining:
  "read_remaining wanted f = (Inr (Some bs), f')
     \<Longrightarrow> length bs = wanted \<and> length bs + length (fst f') = length (fst f)"
proof (induction wanted f arbitrary: bs f' rule: read_remaining.induct)
  case (1 wanted f)
  show ?case
  proof (cases "wanted = 0")
    case True
    with "1.prems" show ?thesis by (simp add: read_remaining.simps [of 0])
  next
    case False
    with "1.prems" obtain first g rest where read: "read_some wanted f = (Inr first, g)" "first \<noteq> []"
      "read_remaining (wanted - length first) g = (Inr (Some rest), f')" "bs = first @ rest"
      by (subst (asm) read_remaining.simps) (auto split: prod.splits sum.splits option.splits if_splits)
    with "1.IH" [OF False, of "Inr first" g first] length_read_some [OF read(1)]
    show ?thesis by auto
  qed
qed

function recover_stream ::
    "(bytes \<Rightarrow> journal_record option) \<Rightarrow> journal_record list \<Rightarrow> journal_stream
     \<Rightarrow> storage_error_kind + journal_recovery" where
  "recover_stream from_slice records f =
     (case read_some 4 f of
        (Inl _, f) \<Rightarrow> Err JournalReadFailed
      | (Inr first, f) \<Rightarrow>
          (if first = [] then Ok \<lparr>rec_records = records, rec_status = Recovered_Complete\<rparr>
           else case (if length first < 4 then read_remaining (4 - length first) f else (Ok (Some []), f)) of
             (Inl err, f) \<Rightarrow> Err err
           | (Inr None, f) \<Rightarrow> Ok \<lparr>rec_records = records, rec_status = Recovered_Truncated\<rparr>
           | (Inr (Some rest), f) \<Rightarrow>
               (let len = be_nat (first @ rest) in
                if MAX_JOURNAL_RECORD_BYTES < len \<or> length records = MAX_RECOVERED_RECORDS
                then Ok \<lparr>rec_records = records, rec_status = Recovered_Corrupt\<rparr>
                else case read_remaining len f of
                  (Inl err, f) \<Rightarrow> Err err
                | (Inr None, f) \<Rightarrow> Ok \<lparr>rec_records = records, rec_status = Recovered_Truncated\<rparr>
                | (Inr (Some payload), f) \<Rightarrow>
                    (case read_remaining 4 f of
                       (Inl err, f) \<Rightarrow> Err err
                     | (Inr None, f) \<Rightarrow> Ok \<lparr>rec_records = records, rec_status = Recovered_Truncated\<rparr>
                     | (Inr (Some checksum), f) \<Rightarrow>
                         (if unat (crc32 payload) \<noteq> be_nat checksum
                          then Ok \<lparr>rec_records = records, rec_status = Recovered_Corrupt\<rparr>
                          else case from_slice payload of
                            None \<Rightarrow> Ok \<lparr>rec_records = records, rec_status = Recovered_Corrupt\<rparr>
                          | Some r \<Rightarrow>
                              (if jr_version r \<noteq> JOURNAL_RECORD_VERSION
                                  \<or> unat (jr_sequence r) \<noteq> length records
                               then Ok \<lparr>rec_records = records, rec_status = Recovered_Corrupt\<rparr>
                               else recover_stream from_slice (records @ [r]) f))))))"
  by pat_completeness auto
termination
  by (relation "measure (\<lambda>(_, _, f). length (fst f))")
    (force split: if_splits
      dest!: length_read_some [OF sym] length_read_remaining [OF sym])+

declare recover_stream.simps [simp del]

definition read_stream ::
    "(bytes \<Rightarrow> journal_record option) \<Rightarrow> bool \<Rightarrow> journal_stream
     \<Rightarrow> storage_error_kind + journal_recovery" where
  "read_stream from_slice private f =
     (if \<not> private then Err InvalidRecord
      else case read_exact (length JOURNAL_MAGIC) f of
        (Inl err, f) \<Rightarrow> Err err
      | (Inr magic, f) \<Rightarrow>
          (if magic \<noteq> JOURNAL_MAGIC then Err InvalidRecord
           else recover_stream from_slice [] f))"

end
