(* ===== verification/Recovery_Props.thy ===== *)
theory Recovery_Props
  imports Recovery
begin

text \<open>Recovery does not depend on how the reads of the journal are cut: the sequence of reads refines the
  recovery of the whole contents.\<close>

lemma read_some_spec:
  "case read_some capacity (data, schedule) of
     (Inl _, _) \<Rightarrow> None \<in> set schedule
   | (Inr bs, data', schedule') \<Rightarrow> bs = take (length bs) data \<and> data' = drop (length bs) data
       \<and> length bs \<le> capacity \<and> (bs = [] \<longleftrightarrow> data = [] \<or> capacity = 0)
       \<and> (None \<in> set schedule' \<longrightarrow> None \<in> set schedule)"
  by (cases "(capacity, data, schedule)" rule: read_some.cases) (auto simp: min_def max_def)

lemma read_some_Inr:
  assumes "read_some capacity (data, schedule) = (Inr bs, f)"
  obtains schedule' where "f = (drop (length bs) data, schedule')" "bs = take (length bs) data"
    "length bs \<le> capacity" "bs = [] \<longleftrightarrow> data = [] \<or> capacity = 0"
    "None \<in> set schedule' \<longrightarrow> None \<in> set schedule"
  using read_some_spec [of schedule data capacity] that [of "snd f"]
  by (cases f) (simp add: assms)

lemma read_some_Inl: "read_some capacity (data, schedule) = (Inl e, f) \<Longrightarrow> None \<in> set schedule"
  using read_some_spec [of schedule data capacity] by simp

lemma read_remaining_spec:
  "case read_remaining wanted (data, schedule) of
     (Inl err, _) \<Rightarrow> err = JournalReadFailed \<and> None \<in> set schedule
   | (Inr None, _) \<Rightarrow> length data < wanted
   | (Inr (Some bs), data', schedule') \<Rightarrow> wanted \<le> length data \<and> bs = take wanted data
       \<and> data' = drop wanted data \<and> (None \<in> set schedule' \<longrightarrow> None \<in> set schedule)"
proof (induction wanted arbitrary: data schedule rule: less_induct)
  case (less wanted)
  show ?case
  proof (cases "wanted = 0")
    case True
    then show ?thesis by (simp add: read_remaining.simps [of 0])
  next
    case False
    obtain res f where read: "read_some wanted (data, schedule) = (res, f)"
      by (cases "read_some wanted (data, schedule)")
    show ?thesis
    proof (cases res)
      case (Inl e)
      with read False show ?thesis
        by (subst read_remaining.simps) (auto dest: read_some_Inl)
    next
      case (Inr bs)
      from read [unfolded Inr] obtain schedule' where f: "f = (drop (length bs) data, schedule')"
        and bs: "bs = take (length bs) data" "length bs \<le> wanted"
          "bs = [] \<longleftrightarrow> data = [] \<or> wanted = 0" "None \<in> set schedule' \<longrightarrow> None \<in> set schedule"
        by (rule read_some_Inr)
      show ?thesis
      proof (cases "bs = []")
        case True
        with bs(3) False read Inr show ?thesis by (subst read_remaining.simps) simp
      next
        case nonempty: False
        have "length bs \<le> length data" by (subst bs(1)) simp
        have "wanted - length bs < wanted" using nonempty False by (cases bs) auto
        note IH = less.IH [OF this, of schedule' "drop (length bs) data"]
        have join: "bs @ take (wanted - length bs) (drop (length bs) data) = take wanted data"
          using bs(1,2) by (metis append_take_drop_id le_add_diff_inverse take_add)
        have "drop (wanted - length bs) (drop (length bs) data) = drop wanted data"
          using bs(2) by simp
        note pieces = this join
        obtain sub data' schedule'' where sub:
          "read_remaining (wanted - length bs) (drop (length bs) data, schedule') = (sub, data', schedule'')"
          by (metis prod_cases3)
        have "read_remaining wanted (data, schedule) =
            (case sub of Inr (Some rest) \<Rightarrow> (Ok (Some (bs @ rest)), data', schedule'')
             | _ \<Rightarrow> (sub, data', schedule''))"
          using False nonempty
          by (subst read_remaining.simps) (simp add: read Inr f sub split: sum.splits option.splits)
        with IH pieces \<open>length bs \<le> length data\<close> bs(2,4) show ?thesis
          by (cases sub) (auto simp: sub split: option.splits)
      qed
    qed
  qed
qed

lemma read_remaining_cases:
  obtains (error) g where "read_remaining wanted (data, schedule) = (Inl JournalReadFailed, g)"
      "None \<in> set schedule"
    | (short) g where "read_remaining wanted (data, schedule) = (Inr None, g)" "length data < wanted"
    | (full) schedule' where
      "read_remaining wanted (data, schedule) = (Inr (Some (take wanted data)), drop wanted data, schedule')"
      "wanted \<le> length data" "None \<in> set schedule' \<longrightarrow> None \<in> set schedule"
proof -
  obtain res g where read: "read_remaining wanted (data, schedule) = (res, g)"
    by (cases "read_remaining wanted (data, schedule)")
  note spec = read_remaining_spec [of schedule data wanted, unfolded read]
  show thesis
  proof (cases res)
    case (Inl err)
    with spec error [of g] show ?thesis by (simp add: read)
  next
    case (Inr found)
    with spec short [of g] full [of "snd g"] show ?thesis
      by (cases g; cases found) (simp_all add: read)
  qed
qed

text \<open>The four bytes of the length: one read, and the remaining ones.\<close>

lemma read_length_cases:
  assumes "read_some 4 (data, schedule) = (Inr first, f)" and "first \<noteq> []"
  defines "ending \<equiv> if length first < 4 then read_remaining (4 - length first) f else (Ok (Some []), f)"
  obtains (error) g where "ending = (Inl JournalReadFailed, g)" "None \<in> set schedule"
    | (short) g where "ending = (Inr None, g)" "data \<noteq> []" "length data < 4"
    | (full) rest schedule' where "ending = (Inr (Some rest), drop 4 data, schedule')" "4 \<le> length data"
      "first @ rest = take 4 data" "None \<in> set schedule' \<longrightarrow> None \<in> set schedule"
proof -
  from assms(1) obtain schedule' where f: "f = (drop (length first) data, schedule')"
    and first: "first = take (length first) data" "length first \<le> 4"
      "None \<in> set schedule' \<longrightarrow> None \<in> set schedule"
    by (rule read_some_Inr)
  have len: "length first \<le> length data" by (subst first(1)) simp
  show thesis
  proof (cases "length first < 4")
    case False
    with first(2) have four: "length first = 4" by simp
    have "ending = (Ok (Some []), drop 4 data, schedule')" using four f by (simp add: ending_def)
    moreover have "4 \<le> length data" using len four by simp
    moreover have "first @ [] = take 4 data" using first(1) four by simp
    ultimately show ?thesis using first(3) by (rule full)
  next
    case True
    have join: "first @ take (4 - length first) (drop (length first) data) = take 4 data"
      using first(1,2) by (metis append_take_drop_id le_add_diff_inverse take_add)
    have "drop (4 - length first) (drop (length first) data) = drop 4 data"
      using first(2) by simp
    moreover have "data \<noteq> []" using len assms(2) by auto
    moreover have "length data - length first < 4 - length first \<longleftrightarrow> length data < 4"
      using len True by linarith
    ultimately show ?thesis
      using True f first(3) join len assms(2) error short full
      by (cases rule: read_remaining_cases
          [of "4 - length first" "drop (length first) data" schedule'])
        (auto simp: ending_def)
  qed
qed

text \<open>With all of its reads successful, the loop is the recovery of the whole contents.\<close>

lemma recover_stream_spec:
  "case recover_stream from_slice records (data, schedule) of
     Inl err \<Rightarrow> err = JournalReadFailed \<and> None \<in> set schedule
   | Inr recovery \<Rightarrow> recovery = recover_loop from_slice data records"
proof (induction "length data" arbitrary: data schedule records rule: less_induct)
  case less
  note start = recover_stream.simps [of from_slice records "(data, schedule)"]
    recover_loop.simps [of from_slice data records]
  obtain res f where read: "read_some 4 (data, schedule) = (res, f)"
    by (cases "read_some 4 (data, schedule)")
  show ?case
  proof (cases res)
    case (Inl e)
    with read show ?thesis unfolding start by (simp add: read_some_Inl)
  next
    case (Inr first)
    show ?thesis
    proof (cases "first = []")
      case True
      with read Inr have "data = []" by (auto elim: read_some_Inr)
      with True read Inr show ?thesis unfolding start by simp
    next
      case False
      note begun = start read Inr sum.case prod.case if_not_P [OF False]
      from read [unfolded Inr] False show ?thesis
      proof (cases rule: read_length_cases)
        case error
        then show ?thesis unfolding begun by simp
      next
        case short
        then show ?thesis unfolding begun by simp
      next
        case (full rest s1)
        define len where "len = be_nat (take 4 data)"
        show ?thesis
        proof (cases "MAX_JOURNAL_RECORD_BYTES < len \<or> length records = MAX_RECOVERED_RECORDS")
          case True
          with full show ?thesis unfolding begun by (auto simp: len_def)
        next
          case fits: False
          show ?thesis
          proof (cases rule: read_remaining_cases [of len "drop 4 data" s1])
            case error
            with full fits show ?thesis unfolding begun by (auto simp: len_def)
          next
            case short
            with full fits show ?thesis unfolding begun by (auto simp: len_def)
          next
            case payload: (full s2)
            show ?thesis
            proof (cases rule: read_remaining_cases [of 4 "drop len (drop 4 data)" s2])
              case error
              with full fits payload show ?thesis unfolding begun by (auto simp: len_def)
            next
              case short
              with full fits payload show ?thesis
                unfolding begun by (auto simp: len_def [symmetric] Let_def)
            next
              case checksum: (full s3)
              have "length (drop 4 (drop len (drop 4 data))) < length data" using full(2) by simp
              note IH = less.hyps [OF this]
              have ne: "take 4 data \<noteq> []" "data \<noteq> []" using full(2) by auto
              show ?thesis
              proof (cases "from_slice (take len (drop 4 data))")
                case None
                with full fits payload checksum ne show ?thesis
                  unfolding begun by (auto simp: len_def [symmetric] Let_def add.commute)
              next
                case (Some r)
                with full fits payload checksum ne IH [of s3 "records @ [r]"] show ?thesis
                  unfolding begun
                  by (auto simp: len_def [symmetric] Let_def add.commute split: sum.splits)
              qed
            qed
          qed
        qed
      qed
    qed
  qed
qed

text \<open>C30. The recovery of a journal does not depend on how its reads are cut. Whatever number of bytes each
  read returns, reading the file record by record gives exactly what the recovery of the whole contents
  gives, or a read failed and that is what is returned; a short read is never taken for a torn record.
\<close>

theorem recovery_ignores_short_reads:
  "read_stream from_slice private (contents, schedule) = read_file from_slice private contents
   \<or> None \<in> set schedule
     \<and> read_stream from_slice private (contents, schedule) = Err JournalReadFailed"
proof (cases "private")
  case True
  show ?thesis
  proof (cases rule: read_remaining_cases [of "length JOURNAL_MAGIC" contents schedule])
    case error
    then show ?thesis by (simp add: read_stream_def read_exact_def True)
  next
    case short
    then show ?thesis by (simp add: read_stream_def read_exact_def read_file_def True)
  next
    case (full schedule')
    with recover_stream_spec [where from_slice = from_slice and records = "[]"
        and data = "drop (length JOURNAL_MAGIC) contents" and schedule = schedule']
    show ?thesis
      by (auto simp: read_stream_def read_exact_def read_file_def True split: sum.splits)
  qed
qed (simp add: read_stream_def read_file_def)

end
