(* ===== verification/Messages.thy ===== *)
theory Messages
  imports Launch
begin

text \<open>
  The fixed texts of the errors of the report, the calibration artifact and the checkpoint protocol:
  their \<open>Display\<close> in \<^verbatim>\<open>report.rs\<close> and \<^verbatim>\<open>checkpoint.rs\<close>. No text shows a path, a command or a byte that was
  received.
\<close>

fun report_error_text :: "'e report_error \<Rightarrow> string" where
  "report_error_text InvalidIdentity = ''invalid redacted run identity''"
| "report_error_text UnsupportedSchema = ''unsupported report schema version''"
| "report_error_text InvalidPackageVersion = ''invalid package version''"
| "report_error_text ReportInvalidConfiguration = ''invalid report configuration''"
| "report_error_text InvalidPrivacy = ''report privacy defaults were weakened''"
| "report_error_text InvalidEventOrder = ''invalid report event ordering''"
| "report_error_text InvalidAdvisoryMetrics = ''invalid advisory metric metadata''"
| "report_error_text InvalidCalibration = ''invalid calibration artifact for this report''"
| "report_error_text (ReportJson _) = ''report JSON is malformed''"

fun calibration_error_text :: "'e calibration_error \<Rightarrow> string" where
  "calibration_error_text InvalidArtifact = ''calibration artifact is internally inconsistent''"
| "calibration_error_text (CalibrationJson _) = ''calibration artifact JSON is malformed''"

fun protocol_error_text :: "checkpoint_protocol_error \<Rightarrow> string" where
  "protocol_error_text ActiveRequest = ''checkpoint request is already active''"
| "protocol_error_text InvalidRequest = ''checkpoint request or deadline is invalid''"
| "protocol_error_text DeadlineOutOfRange = ''checkpoint deadline exceeds the wire representation''"
| "protocol_error_text MalformedFrame = ''checkpoint frame is malformed''"

fun request_error_text :: "checkpoint_channel_request_error \<Rightarrow> string" where
  "request_error_text NotReady = ''checkpoint worker is not ready''"
| "request_error_text (ProtocolError err) = protocol_error_text err"
| "request_error_text (ChannelError err) = channel_error_text err"

fun signal_config_error_text :: "checkpoint_signal_config_error \<Rightarrow> string" where
  "signal_config_error_text SignalCollision = ''checkpoint signal collides with process-control behavior''"
| "signal_config_error_text InvalidTimeout = ''checkpoint timeout must be positive''"

end
