(* ===== verification/Stdio.thy ===== *)
theory Stdio
  imports Program
begin

text \<open>
  Standard streams: the piped ends of the child of \<^verbatim>\<open>mlx-guard-core/src/process_control.rs\<close> and how they
  are taken, and the writing of a result in \<^verbatim>\<open>write_summary\<close> of \<^verbatim>\<open>mlx-guard-cli/src/lib.rs\<close>.
\<close>

section \<open>The streams of the child\<close>

text \<open>The supervisor's ends, present when a stream is piped; \<open>fd\<close> is the descriptor the spawn made.\<close>

record child_stdio =
  cio_stdin :: "i32 option"
  cio_stdout :: "i32 option"
  cio_stderr :: "i32 option"

definition open_stdio :: "stdio_mode \<Rightarrow> i32 \<Rightarrow> i32 option" where
  "open_stdio mode fd = (if mode = Stdio_Piped then Some fd else None)"

definition child_stdio_of :: "spawn_request \<Rightarrow> i32 \<times> i32 \<times> i32 \<Rightarrow> child_stdio" where
  "child_stdio_of request fds =
     (case fds of (i, out, err) \<Rightarrow>
        \<lparr>cio_stdin = open_stdio (sq_stdin request) i, cio_stdout = open_stdio (sq_stdout request) out,
         cio_stderr = open_stdio (sq_stderr request) err\<rparr>)"

definition take_stdin :: "child_stdio \<Rightarrow> child_stdio \<times> i32 option" where
  "take_stdin c = (c\<lparr>cio_stdin := None\<rparr>, cio_stdin c)"

definition take_stdout :: "child_stdio \<Rightarrow> child_stdio \<times> i32 option" where
  "take_stdout c = (c\<lparr>cio_stdout := None\<rparr>, cio_stdout c)"

definition take_stderr :: "child_stdio \<Rightarrow> child_stdio \<times> i32 option" where
  "take_stderr c = (c\<lparr>cio_stderr := None\<rparr>, cio_stderr c)"

text \<open>An end is handed out at most once, taking one leaves the others, and an end exists only if piped.\<close>

lemma take_once:
  "snd (take_stdin (fst (take_stdin c))) = None"
  "snd (take_stdout (fst (take_stdout c))) = None"
  "snd (take_stderr (fst (take_stderr c))) = None"
  by (simp_all add: take_stdin_def take_stdout_def take_stderr_def)

lemma take_independent:
  "snd (take_stdout (fst (take_stdin c))) = snd (take_stdout c)"
  "snd (take_stderr (fst (take_stdin c))) = snd (take_stderr c)"
  "snd (take_stderr (fst (take_stdout c))) = snd (take_stderr c)"
  by (simp_all add: take_stdin_def take_stdout_def take_stderr_def)

section \<open>Writing a result\<close>

text \<open>What writing and flushing one stream answers.\<close>

datatype write_answer = Written | Broken_Pipe | Write_Error

text \<open>The streams in order, each with its bytes; the end of the loop, or the panic at a stream.\<close>

fun write_streams :: "(string \<times> write_answer) list \<Rightarrow> string list \<times> bool" where
  "write_streams [] = ([], True)"
| "write_streams ((bytes, answer) # rest) =
     (case answer of
        Written \<Rightarrow> (case write_streams rest of (outputs, returned) \<Rightarrow> (bytes # outputs, returned))
      | Broken_Pipe \<Rightarrow> write_streams rest
      | Write_Error \<Rightarrow> ([], False))"

definition write_summary :: "runtime_result \<Rightarrow> write_answer \<Rightarrow> write_answer \<Rightarrow> string list \<times> bool" where
  "write_summary result out err =
     write_streams [(res_stdout result, out), (res_stderr result, err)]"

text \<open>
  A reader that has gone away never turns a result into a panic, and a lost standard output does not
  keep the explanation from standard error.
\<close>

lemma write_summary_returns:
  "snd (write_summary result out err) \<longleftrightarrow> out \<noteq> Write_Error \<and> err \<noteq> Write_Error"
  by (cases out; cases err) (simp_all add: write_summary_def)

lemma explanation_survives_a_lost_reader:
  "write_summary result Broken_Pipe Written = ([res_stderr result], True)"
  by (simp add: write_summary_def)

end
