(* ===== verification/Spec2Isabelle.thy ===== *)
theory Spec2Isabelle
  imports Policy_Contract Intervention_Props Identity_Props Sampling_Props Checkpoint_Props
    Report_Props Advisory_Props Cli_Props Journal_Props Effects_Props
    Explain_Props Observe_Props
    Host_Props Storage_Props Program_Props
    Native_Props Inventory_Props Recovery_Props Messages Stdio
begin

text \<open>
  A verification development for \<^verbatim>\<open>mlx-guard\<close>, a supervisor that launches one command in a process
  group of its own, measures the physical memory footprint of that group, and either only records
  (\<^verbatim>\<open>mlx-guard observe\<close>) or enforces a limit (\<^verbatim>\<open>mlx-guard run\<close>): it asks the command to save its work,
  sends TERM, and finally KILL. Every run is journaled and ends with one JSON report, two lines that
  explain it, and a status.

  \<^bold>\<open>The program and its model.\<close> The sources are the crates \<^verbatim>\<open>mlx-guard-core\<close> and \<^verbatim>\<open>mlx-guard-cli\<close> under
  \<^verbatim>\<open>src/crates\<close>. A definition has the name of its function where Isabelle allows it; record fields carry
  a prefix per record. Bottom up:

    \<^item> \<^verbatim>\<open>Prelude\<close>: saturating and checked word arithmetic, \<open>Duration\<close> as nanoseconds, bounded queues,
      machines that emit outputs; the locales \<^verbatim>\<open>capped_queue\<close>, \<^verbatim>\<open>invariant_machine\<close> and its extension
      \<^verbatim>\<open>budgeted_machine\<close>. \<^verbatim>\<open>Text\<close>: strings as UTF-8 bytes. \<^verbatim>\<open>Bytes\<close>: big-endian integers and the locale
      \<^verbatim>\<open>codec\<close>. \<^verbatim>\<open>Outcome\<close> (\<^verbatim>\<open>outcome.rs\<close>): signal numbers, outcomes, exit codes.
    \<^item> \<^verbatim>\<open>Policy\<close> (\<^verbatim>\<open>policy.rs\<close>): the state machine \<^verbatim>\<open>PolicyMachine\<close>, one definition per handler and
      \<^verbatim>\<open>apply_event\<close>. \<^verbatim>\<open>Policy_Invariant\<close>: its invariant and the budgets of stops and requests.
      \<^verbatim>\<open>Policy_Props\<close>: when a stop opens, escalation in time, causes of KILL, genuine acknowledgements.
      \<^verbatim>\<open>Policy_Refinement\<close>: the moves between the phases. \<^verbatim>\<open>Policy_Contract\<close>: \<^verbatim>\<open>docs/POLICY.md\<close> with
      all its conditions as an abstract machine, and the simulation that makes the traces equal.
    \<^item> \<^verbatim>\<open>Intervention\<close>, \<^verbatim>\<open>Actuator\<close>, \<^verbatim>\<open>Intervention_Props\<close> (\<^verbatim>\<open>intervention.rs\<close>): the engine that executes what the
      policy selects over any actuator, feeding failures back, its bounded evidence; the actuator that
      signals processes and checkpoint channels.
    \<^item> \<^verbatim>\<open>Identity\<close>, \<^verbatim>\<open>Process\<close>, \<^verbatim>\<open>Inventory\<close> with \<^verbatim>\<open>Identity_Props\<close>, \<^verbatim>\<open>Inventory_Props\<close> (\<^verbatim>\<open>identity.rs\<close>, and the
      signals of \<^verbatim>\<open>process_control.rs\<close>): the tracker that compares non-atomic snapshots, the aggregate,
      the inspection and the scan of processes on Darwin, the parsing of \<^verbatim>\<open>/proc\<close> on Linux, and the wait
      for the group to empty.
    \<^item> \<^verbatim>\<open>Sampling\<close> (\<^verbatim>\<open>sampling.rs\<close>), \<^verbatim>\<open>Advisory\<close> and \<^verbatim>\<open>Native\<close> (\<^verbatim>\<open>advisory.rs\<close>) with their \<^verbatim>\<open>_Props\<close>: samples
      and their projection to the policy; advisory metrics, calibration, and the native observers with
      the concurrent handler of memory pressure.
    \<^item> \<^verbatim>\<open>Checkpoint\<close>, \<^verbatim>\<open>Checkpoint_Props\<close> (\<^verbatim>\<open>checkpoint.rs\<close>): the frames, the protocol and its channel.
    \<^item> \<^verbatim>\<open>Report\<close>, \<^verbatim>\<open>Report_Props\<close> (\<^verbatim>\<open>report.rs\<close>), \<^verbatim>\<open>Completion\<close> (\<^verbatim>\<open>completion.rs\<close>), \<^verbatim>\<open>Explain\<close>, \<^verbatim>\<open>Explain_Props\<close>
      (\<^verbatim>\<open>explain.rs\<close>), \<^verbatim>\<open>Messages\<close> (texts of errors): the schema with all of its validation, the choice of the
      terminal outcome, and every sentence that explains one.
    \<^item> \<^verbatim>\<open>Journal\<close>, \<^verbatim>\<open>Recovery\<close>, \<^verbatim>\<open>Storage\<close> with their \<^verbatim>\<open>_Props\<close> (\<^verbatim>\<open>persistence.rs\<close>): records, checksum, append,
      recovery of the contents and as a sequence of reads, replay; the private files, the exclusive
      journal and the replacement of the report.
    \<^item> \<^verbatim>\<open>Host\<close>, \<^verbatim>\<open>Host_Props\<close> (\<^verbatim>\<open>process_control.rs\<close>): the readiness descriptor, the capture of terminal
      signals, launching, waiting for and dropping the owned process.
    \<^item> \<^verbatim>\<open>Cli\<close>, \<^verbatim>\<open>Cli_Props\<close> (\<^verbatim>\<open>lib.rs\<close> of the command line): value parsers and the normalization of options.
    \<^item> \<^verbatim>\<open>Runtime\<close>, \<^verbatim>\<open>Observe\<close> (\<^verbatim>\<open>runtime.rs\<close>): the loops of both kinds of run and their ends. \<^verbatim>\<open>Launch\<close>: every
      step before the loop, with what each failure undoes, and the finalization. \<^verbatim>\<open>Program\<close>: \<^verbatim>\<open>execute\<close>,
      the errors of the command line and \<^verbatim>\<open>main\<close>. \<^verbatim>\<open>Stdio\<close>: the piped streams of the command and the
      writing of the result.

  \<^bold>\<open>How the parts interact.\<close> A run hands events to the engine, the engine to the policy; what the policy
  demands goes to the actuator, whose failures go back to the policy in the same call (\<^verbatim>\<open>handle_loop\<close>).
  Each change of phase and each signal becomes a journal entry, written before the next actuation
  (\<^verbatim>\<open>run_apply\<close>); samples come from the tracker, which compares snapshots of the inventory. At the end
  the journal is read back, replayed into a report, validated and renamed into place
  (\<^verbatim>\<open>finish_journal\<close>, \<^verbatim>\<open>finalize_artifacts\<close>).

  \<^bold>\<open>State and the world.\<close> State is passed explicitly in records. Errors are values of sums (\<open>Inl\<close> the error,
  also written \<open>Err\<close> and \<open>Ok\<close>). What the platform answers is an argument: system calls are functions or
  their answers (\<^verbatim>\<open>sys_kill\<close>, \<^verbatim>\<open>loop_io\<close>, \<^verbatim>\<open>start_io\<close>, \<^verbatim>\<open>native_answers\<close>), each iteration of a loop gets its
  clock readings and answers as one input, and the theorems hold for all of them. The JSON library is a
  pair of functions, with the law that it reads back what it wrote as a named hypothesis; the parser
  library of the command line is its result. Machine integers are words of their width where they
  wrap, saturate or are checked; 128-bit products and sums of durations are exact, below the bounds
  the code checks.

  \<^bold>\<open>What the lemmas show.\<close>

    \<^item> The whole program (\<^verbatim>\<open>Program_Props\<close>, \<^verbatim>\<open>Launch_Props\<close>): the status and the report agree, no process is
      left running, signal handlers are given back, nothing runs before the journal stands.
    \<^item> Both runs (\<^verbatim>\<open>Runtime_Props\<close>, \<^verbatim>\<open>Observe_Props\<close>, \<^verbatim>\<open>Effects_Props\<close> over \<^verbatim>\<open>Run_Invariant\<close>, \<^verbatim>\<open>Run_Steps\<close>,
      \<^verbatim>\<open>Run_Handshake\<close>, \<^verbatim>\<open>Run_Loop\<close>, \<^verbatim>\<open>Run_Report\<close>, \<^verbatim>\<open>Run_Effects\<close>): the invariant of a run under every step,
      a valid report of exactly what happened, each execution announced and reported, an orphaned group
      brought to an end.
    \<^item> The policy and the engine: escalation within the grace period, a bounded number of attempts, an
      immediate stronger answer to a failed one, refinement of the documented table.
    \<^item> Measurement: exact or incomplete aggregates, bytes that reach the policy only when complete and
      fresh, the scan that finds exactly the descendants, a complete cleanup that leaves nothing,
      pressure levels that were delivered.
    \<^item> Storage: atomic replacement, exclusive journal, recovery of a prefix after any crash, recovery
      that does not depend on the lengths of reads, reports that survive the journal.
    \<^item> Interfaces: canonical frames, authentic acknowledgements, exact quantities, accepted options that
      every later stage accepts, explanations that claim only what happened.

  \<^bold>\<open>Locales.\<close> \<^verbatim>\<open>codec\<close> is interpreted by the four kinds of checkpoint frames; \<^verbatim>\<open>capped_queue\<close> by the log of
  interventions and the recent samples; \<^verbatim>\<open>invariant_machine\<close> by the policy, \<^verbatim>\<open>budgeted_machine\<close> by its
  stops, its requests and the checkpoint protocol; \<^verbatim>\<open>journal_appender\<close> by the journal on disk;
  \<^verbatim>\<open>run_preserves\<close> by the effects of a run. \<^verbatim>\<open>process_identity\<close> is an instance of \<^verbatim>\<open>linorder\<close>, so that the
  library's trees and sorting apply to it.

  \<^bold>\<open>Loops and bounds.\<close> The engine's loop ends because each failure moves the policy to a stronger answer
  (the measure of \<^verbatim>\<open>handle_loop\<close>; three attempts at most). Recovery consumes the file (its length), the
  descent to the root visits each process once. The scan of related processes is a
  \<^verbatim>\<open>partial_function\<close>, for a cycle of children could keep a naive one busy; it is proved to return for
  every answer of the system. Supervision, polls of a pipe and the wait for the group run on a list of
  inputs, one per iteration: they return \<open>None\<close> when the inputs are used up, and the theorems that promise
  an end say which input brings it. There is no fuel. Recovery reads at most 65,536 records
  (\<^verbatim>\<open>MAX_RECOVERED_RECORDS\<close>), which is the bound in the theorems on reports: a longer journal is called
  corrupt (\<^verbatim>\<open>Journal_Props.overlong_journal_yields_no_report\<close>). Counters saturate at 64 bits. A pressure level
  can be paired with the time of a newer event (\<^verbatim>\<open>Native_Props.superseded_level_can_look_fresh\<close>).

  \<^bold>\<open>Not modelled.\<close> The unsafe calls themselves (their answers are arguments), the layout of their
  structures beyond the sizes the code compares, and memory orderings weaker than the order of stores
  (every shared access is a release or an acquire). \<^verbatim>\<open>clap\<close>, \<^verbatim>\<open>serde_json\<close>, the system clock and the random source
  are parameters. \<open>Debug\<close> and \<open>source\<close> implementations are left out, as are constructors and accessors that only
  copy a field. The fixture programs and \<^verbatim>\<open>mlx-guard-test-support\<close> serve the tests and are not part of
  the guard. In the Linux inventory the line of a process is its bytes; the kernel's own text after the
  name is ASCII.
\<close>

end
